(* ===== verification/DRA_Prelude.thy ===== *)
theory DRA_Prelude
  imports Main "HOL-Library.Word" "HOL-Library.Multiset"
begin

text \<open>
  Shared vocabulary of the Open Diameter development: the machine types of the code
  (\<open>ACE_UINT32\<close>, \<open>AAAUInt8\<close>), octet strings, the case-insensitive comparison of
  \<open>ACE_OS::strcasecmp\<close>, big-endian conversion between octets and 32-bit words
  (the composition of \<open>ntohl\<close> with a 4-octet load, and of \<open>htonl\<close> with a 4-octet
  store), and the generic list lemmas the components share.
\<close>

unbundle bit_operations_syntax

type_synonym u8 = "8 word"
type_synonym u16 = "16 word"
type_synonym u32 = "32 word"

text \<open>Collections the component theories add their facts to.\<close>

named_theorems table_simps \<open>evaluation of state tables\<close>
named_theorems wire_simps \<open>octet-level encoding and decoding\<close>
named_theorems effect_simps \<open>frame facts of state updates\<close>

section \<open>Case-insensitive names\<close>

definition lower_char :: "char \<Rightarrow> char" where
  "lower_char c =
     (if 65 \<le> (of_char c :: nat) \<and> (of_char c :: nat) \<le> 90
      then char_of ((of_char c :: nat) + 32) else c)"

definition strcasecmp_eq :: "string \<Rightarrow> string \<Rightarrow> bool" where
  "strcasecmp_eq s t \<longleftrightarrow> map lower_char s = map lower_char t"

lemma strcasecmp_eq_refl [simp]: "strcasecmp_eq s s"
  by (simp add: strcasecmp_eq_def)

lemma strcasecmp_eq_sym: "strcasecmp_eq s t \<Longrightarrow> strcasecmp_eq t s"
  by (simp add: strcasecmp_eq_def)

lemma strcasecmp_eq_trans:
  "strcasecmp_eq s t \<Longrightarrow> strcasecmp_eq t u \<Longrightarrow> strcasecmp_eq s u"
  by (simp add: strcasecmp_eq_def)

section \<open>Big-endian words\<close>

definition be32 :: "u32 \<Rightarrow> u8 list" where
  "be32 w = [ucast (drop_bit 24 w), ucast (drop_bit 16 w), ucast (drop_bit 8 w), ucast w]"

definition rd32 :: "u8 list \<Rightarrow> u32" where
  "rd32 bs =
     push_bit 24 (ucast (bs ! 0)) OR push_bit 16 (ucast (bs ! 1))
     OR push_bit 8 (ucast (bs ! 2)) OR ucast (bs ! 3)"

definition be16 :: "u16 \<Rightarrow> u8 list" where
  "be16 w = [ucast (drop_bit 8 w), ucast w]"

definition rd16 :: "u8 list \<Rightarrow> u16" where
  "rd16 bs = push_bit 8 (ucast (bs ! 0)) OR ucast (bs ! 1)"

lemma length_be32 [simp]: "length (be32 w) = 4"
  by (simp add: be32_def)

lemma length_be16 [simp]: "length (be16 w) = 2"
  by (simp add: be16_def)

lemma rd16_be16 [wire_simps]: "rd16 (be16 w @ xs) = w"
  by (rule bit_word_eqI) (auto simp: rd16_def be16_def bit_simps dest: bit_imp_le_length)

lemma rd32_be32 [wire_simps]: "rd32 (be32 w @ xs) = w"
proof (rule bit_word_eqI)
  fix n assume "n < LENGTH(32)"
  then have n: "n < 32" by simp
  consider "n < 8" | "8 \<le> n" "n < 16" | "16 \<le> n" "n < 24" | "24 \<le> n"
    using n by linarith
  then show "bit (rd32 (be32 w @ xs)) n = bit w n"
    by cases (use n in \<open>auto simp: rd32_def be32_def bit_simps nth_append\<close>)
qed

lemma be32_rd32 [wire_simps]: "be32 (rd32 (a # b # c # d # xs)) = [a, b, c, d]"
proof -
  let ?w = "rd32 (a # b # c # d # xs)"
  have 1: "ucast (drop_bit 24 ?w) = a"
    by (rule bit_word_eqI) (auto simp: rd32_def bit_simps dest: bit_imp_le_length)
  have 2: "ucast (drop_bit 16 ?w) = b"
    by (rule bit_word_eqI) (auto simp: rd32_def bit_simps dest: bit_imp_le_length)
  have 3: "ucast (drop_bit 8 ?w) = c"
    by (rule bit_word_eqI) (auto simp: rd32_def bit_simps dest: bit_imp_le_length)
  have 4: "ucast ?w = d"
    by (rule bit_word_eqI) (auto simp: rd32_def bit_simps dest: bit_imp_le_length)
  show ?thesis by (simp add: be32_def 1 2 3 4)
qed

lemma unat_u32: "unat (w :: u32) < 4294967296"
proof -
  have "unat w < 2 ^ LENGTH(32)" by (rule unsigned_less)
  then show ?thesis by simp
qed

section \<open>Lists\<close>

lemma find_Some_filter:
  "List.find P xs = (case filter P xs of [] \<Rightarrow> None | x # _ \<Rightarrow> Some x)"
  by (induction xs) auto

lemma find_append:
  "List.find P (xs @ ys) = (case List.find P xs of None \<Rightarrow> List.find P ys | Some x \<Rightarrow> Some x)"
  by (induction xs) auto

lemma sum_list_update_nat:
  fixes xs :: "nat list"
  shows "i < length xs \<Longrightarrow> sum_list (xs[i := v]) + xs ! i = sum_list xs + v"
  by (induction xs arbitrary: i) (auto split: nat.splits)

end
