(* ===== verification/Fsm_Framework.thy ===== *)
theory Fsm_Framework
  imports DRA_Prelude
begin

text \<open>
  The generic state machine of \<open>include/framework.h\<close>: state tables with wildcard
  entries (\<open>AAA_StateTable\<close>), the dispatch of an event (\<open>AAA_StateMachine::Event\<close>)
  and the timer bookkeeping of \<open>AAA_StateMachineWithTimer\<close>.  States, events and
  actions are type parameters, instantiated by the enumerations of each machine.
\<close>

section \<open>State tables\<close>

datatype aaa_error =
    NoInitialState
  | FoundDuplicateStateTableEntry
  | ActivationFailure
  | TaskNotRunning
  | NoData

text \<open>
  \<open>AAA_StateTableEntry\<close>: the wildcard constructor leaves \<open>event\<close> uninitialised,
  which is the value \<open>None\<close> here; it is never read, because \<open>isWildcardEvent\<close>
  is tested first.
\<close>

record ('s, 'e, 'a) table_entry =
  prevState :: 's
  event :: "'e option"
  nextState :: 's
  action :: 'a
  isWildcardEvent :: bool

definition state_entry :: "'s \<Rightarrow> 'e \<Rightarrow> 's \<Rightarrow> 'a \<Rightarrow> ('s, 'e, 'a) table_entry" where
  "state_entry st1 ev st2 ac =
     \<lparr>prevState = st1, event = Some ev, nextState = st2, action = ac, isWildcardEvent = False\<rparr>"

definition wildcard_entry :: "'s \<Rightarrow> 's \<Rightarrow> 'a \<Rightarrow> ('s, 'e, 'a) table_entry" where
  "wildcard_entry st1 st2 ac =
     \<lparr>prevState = st1, event = None, nextState = st2, action = ac, isWildcardEvent = True\<rparr>"

record ('s, 'e, 'a) state_table =
  entries :: "('s, 'e, 'a) table_entry list"
  initialState :: "'s option"

definition empty_table :: "('s, 'e, 'a) state_table" where
  "empty_table = \<lparr>entries = [], initialState = None\<rparr>"

text \<open>The search loop: \<open>found\<close> holds the entry the out-parameter points to.\<close>

fun find_loop :: "'s \<Rightarrow> 'e \<Rightarrow> ('s, 'e, 'a) table_entry option
    \<Rightarrow> ('s, 'e, 'a) table_entry list \<Rightarrow> ('s, 'e, 'a) table_entry option" where
  "find_loop st ev found [] = found"
| "find_loop st ev found (e # es) =
     (if prevState e \<noteq> st then find_loop st ev found es
      else if isWildcardEvent e then find_loop st ev (Some e) es
      else if event e = Some ev then Some e
      else find_loop st ev found es)"

definition FindStateTableEntry ::
    "('s, 'e, 'a) state_table \<Rightarrow> 's \<Rightarrow> 'e \<Rightarrow> ('s, 'e, 'a) table_entry option" where
  "FindStateTableEntry t st ev = find_loop st ev None (entries t)"

fun find_wildcard_loop :: "'s \<Rightarrow> ('s, 'e, 'a) table_entry list
    \<Rightarrow> ('s, 'e, 'a) table_entry option" where
  "find_wildcard_loop st [] = None"
| "find_wildcard_loop st (e # es) =
     (if prevState e \<noteq> st then find_wildcard_loop st es
      else if isWildcardEvent e then Some e
      else find_wildcard_loop st es)"

definition FindWildcardStateTableEntry ::
    "('s, 'e, 'a) state_table \<Rightarrow> 's \<Rightarrow> ('s, 'e, 'a) table_entry option" where
  "FindWildcardStateTableEntry t st = find_wildcard_loop st (entries t)"

definition AddStateTableEntry ::
    "'s \<Rightarrow> 'e \<Rightarrow> 's \<Rightarrow> 'a \<Rightarrow> ('s, 'e, 'a) state_table
     \<Rightarrow> aaa_error + ('s, 'e, 'a) state_table" where
  "AddStateTableEntry pSt ev nSt ac t =
     (case FindStateTableEntry t pSt ev of
        Some _ \<Rightarrow> Inl FoundDuplicateStateTableEntry
      | None \<Rightarrow> Inr (t\<lparr>entries := entries t @ [state_entry pSt ev nSt ac]\<rparr>))"

definition AddWildcardStateTableEntry ::
    "'s \<Rightarrow> 's \<Rightarrow> 'a \<Rightarrow> ('s, 'e, 'a) state_table
     \<Rightarrow> aaa_error + ('s, 'e, 'a) state_table" where
  "AddWildcardStateTableEntry pSt nSt ac t =
     (case FindWildcardStateTableEntry t pSt of
        Some _ \<Rightarrow> Inl FoundDuplicateStateTableEntry
      | None \<Rightarrow> Inr (t\<lparr>entries := entries t @ [wildcard_entry pSt nSt ac]\<rparr>))"

definition SetInitialState :: "'s \<Rightarrow> ('s, 'e, 'a) state_table \<Rightarrow> ('s, 'e, 'a) state_table" where
  "SetInitialState st t = t\<lparr>initialState := Some st\<rparr>"

definition InitialState :: "('s, 'e, 'a) state_table \<Rightarrow> aaa_error + 's" where
  "InitialState t = (case initialState t of None \<Rightarrow> Inl NoInitialState | Some s \<Rightarrow> Inr s)"

text \<open>
  A table class fills its table in the constructor by a sequence of calls, which is
  a list of commands here; the first throw ends the construction.
\<close>

datatype ('s, 'e, 'a) table_cmd =
    Add 's 'e 's 'a
  | AddWildcard 's 's 'a
  | Init 's

fun table_cmd_exec :: "('s, 'e, 'a) table_cmd \<Rightarrow> ('s, 'e, 'a) state_table
    \<Rightarrow> aaa_error + ('s, 'e, 'a) state_table" where
  "table_cmd_exec (Add s e s' a) t = AddStateTableEntry s e s' a t"
| "table_cmd_exec (AddWildcard s s' a) t = AddWildcardStateTableEntry s s' a t"
| "table_cmd_exec (Init s) t = Inr (SetInitialState s t)"

fun build_from :: "('s, 'e, 'a) table_cmd list \<Rightarrow> ('s, 'e, 'a) state_table
    \<Rightarrow> aaa_error + ('s, 'e, 'a) state_table" where
  "build_from [] t = Inr t"
| "build_from (c # cs) t =
     (case table_cmd_exec c t of Inl err \<Rightarrow> Inl err | Inr t' \<Rightarrow> build_from cs t')"

definition build_table :: "('s, 'e, 'a) table_cmd list \<Rightarrow> aaa_error + ('s, 'e, 'a) state_table" where
  "build_table cs = build_from cs empty_table"

section \<open>Dispatch of an event\<close>

text \<open>
  \<open>AAA_StateMachine::Event\<close> either logs and returns (machine not running, or no
  entry), or sets the state to the entry's next state and then executes its action.
\<close>

datatype ('s, 'a) dispatch =
    NotRunning
  | NotAccepted
  | Fire 's 'a

definition sm_dispatch :: "('s, 'e, 'a) state_table \<Rightarrow> bool \<Rightarrow> 's \<Rightarrow> 'e \<Rightarrow> ('s, 'a) dispatch" where
  "sm_dispatch t running st ev =
     (if \<not> running then NotRunning
      else case FindStateTableEntry t st ev of
        None \<Rightarrow> NotAccepted
      | Some e \<Rightarrow> Fire (nextState e) (action e))"

definition sm_event ::
    "('s, 'e, 'a) state_table \<Rightarrow> ('w \<Rightarrow> bool) \<Rightarrow> ('w \<Rightarrow> 's) \<Rightarrow> ('s \<Rightarrow> 'w \<Rightarrow> 'w)
     \<Rightarrow> ('a \<Rightarrow> 'w \<Rightarrow> 'w) \<Rightarrow> 'e \<Rightarrow> 'w \<Rightarrow> 'w" where
  "sm_event t running st set_st act ev w =
     (case sm_dispatch t (running w) (st w) ev of
        Fire s' a \<Rightarrow> act a (set_st s' w)
      | _ \<Rightarrow> w)"

section \<open>Timers\<close>

text \<open>
  \<open>TimerHandleMap\<close> maps a timer type to the handle of the timer armed for it.  A handle
  stands for what it arms: the event that the timer delivers and its period in
  seconds (\<open>ACE_Reactor\<close> keeps a scheduled timer firing at that period until it
  is cancelled by its handle).
\<close>

type_synonym 'e timers = "int \<rightharpoonup> 'e \<times> nat"

definition CancelTimer :: "int \<Rightarrow> 'e timers \<Rightarrow> 'e timers" where
  "CancelTimer type tm = tm(type := None)"

definition ScheduleTimer :: "'e \<Rightarrow> nat \<Rightarrow> int \<Rightarrow> 'e timers \<Rightarrow> 'e timers" where
  "ScheduleTimer ev sec type tm = (CancelTimer type tm)(type \<mapsto> (ev, sec))"

definition CancelAllTimer :: "'e timers \<Rightarrow> 'e timers" where
  "CancelAllTimer tm = (\<lambda>type. None)"

section \<open>What a table means\<close>

text \<open>
  The contract of a table: an entry for the pair of state and event is preferred, and the
  wildcard entry of the state is the fallback.  The search loop implements it for every
  table that the two adding operations can build.
\<close>

definition exact_entry :: "'s \<Rightarrow> 'e \<Rightarrow> ('s, 'e, 'a) table_entry \<Rightarrow> bool" where
  "exact_entry st ev e \<longleftrightarrow> \<not> isWildcardEvent e \<and> prevState e = st \<and> event e = Some ev"

definition wild_entry :: "'s \<Rightarrow> ('s, 'e, 'a) table_entry \<Rightarrow> bool" where
  "wild_entry st e \<longleftrightarrow> isWildcardEvent e \<and> prevState e = st"

definition lookup_spec ::
    "('s, 'e, 'a) table_entry list \<Rightarrow> 's \<Rightarrow> 'e \<Rightarrow> ('s, 'e, 'a) table_entry option" where
  "lookup_spec es st ev =
     (case List.find (exact_entry st ev) es of
        Some e \<Rightarrow> Some e
      | None \<Rightarrow> List.find (wild_entry st) es)"

definition wf_table :: "('s, 'e, 'a) state_table \<Rightarrow> bool" where
  "wf_table t \<longleftrightarrow>
     (\<forall>st. length (filter (wild_entry st) (entries t)) \<le> 1) \<and>
     (\<forall>st ev. length (filter (exact_entry st ev) (entries t)) \<le> 1)"

lemma find_loop_eq:
  "find_loop st ev found es =
     (case List.find (exact_entry st ev) es of
        Some e \<Rightarrow> Some e
      | None \<Rightarrow> (case filter (wild_entry st) es of
          [] \<Rightarrow> found
        | w # ws \<Rightarrow> Some (last (w # ws))))"
  by (induction es arbitrary: found)
    (auto simp: exact_entry_def wild_entry_def split: list.splits option.splits)

lemma find_wildcard_loop_eq: "find_wildcard_loop st es = List.find (wild_entry st) es"
  by (induction es) (auto simp: wild_entry_def)

lemma FindStateTableEntry_spec:
  assumes "wf_table t"
  shows "FindStateTableEntry t st ev = lookup_spec (entries t) st ev"
proof -
  have "length (filter (wild_entry st) (entries t)) \<le> 1"
    using assms by (simp add: wf_table_def)
  then consider "filter (wild_entry st) (entries t) = []"
    | w where "filter (wild_entry st) (entries t) = [w]"
    by (cases "filter (wild_entry st) (entries t)") auto
  then show ?thesis
    by cases (auto simp: FindStateTableEntry_def find_loop_eq lookup_spec_def find_Some_filter
        split: list.splits option.splits)
qed

lemma FindStateTableEntry_None_exact:
  "FindStateTableEntry t st ev = None \<Longrightarrow> filter (exact_entry st ev) (entries t) = []"
  by (auto simp: FindStateTableEntry_def find_loop_eq find_Some_filter
      split: list.splits option.splits)

lemma entry_kind_simps [simp]:
  "exact_entry st ev (state_entry s e s' a) \<longleftrightarrow> s = st \<and> e = ev"
  "\<not> exact_entry st ev (wildcard_entry s s' a)"
  "wild_entry st (wildcard_entry s s' a) \<longleftrightarrow> s = st"
  "\<not> wild_entry st (state_entry s e s' a)"
  by (auto simp: exact_entry_def wild_entry_def state_entry_def wildcard_entry_def)

lemma wf_empty_table: "wf_table empty_table"
  by (simp add: wf_table_def empty_table_def)

lemma wf_AddStateTableEntry:
  assumes "wf_table t" and "AddStateTableEntry pSt ev nSt ac t = Inr t'"
  shows "wf_table t'"
proof -
  from assms(2) have none: "FindStateTableEntry t pSt ev = None"
    and t': "t' = t\<lparr>entries := entries t @ [state_entry pSt ev nSt ac]\<rparr>"
    by (auto simp: AddStateTableEntry_def split: option.splits)
  from FindStateTableEntry_None_exact [OF none] assms(1) show ?thesis
    by (auto simp: wf_table_def t')
qed

lemma wf_AddWildcardStateTableEntry:
  assumes "wf_table t" and "AddWildcardStateTableEntry pSt nSt ac t = Inr t'"
  shows "wf_table t'"
proof -
  from assms(2) have none: "List.find (wild_entry pSt) (entries t) = None"
    and t': "t' = t\<lparr>entries := entries t @ [wildcard_entry pSt nSt ac]\<rparr>"
    by (auto simp: AddWildcardStateTableEntry_def FindWildcardStateTableEntry_def
        find_wildcard_loop_eq split: option.splits)
  from none have "filter (wild_entry pSt) (entries t) = []"
    by (simp add: find_Some_filter split: list.splits)
  with assms(1) show ?thesis by (auto simp: wf_table_def t')
qed

lemma wf_table_cmd_exec: "table_cmd_exec c t = Inr t' \<Longrightarrow> wf_table t \<Longrightarrow> wf_table t'"
  by (cases c)
    (auto simp: SetInitialState_def wf_table_def
      dest: wf_AddStateTableEntry [rotated] wf_AddWildcardStateTableEntry [rotated])

lemma wf_build_from: "build_from cs t = Inr t' \<Longrightarrow> wf_table t \<Longrightarrow> wf_table t'"
  by (induction cs arbitrary: t) (auto split: sum.splits dest: wf_table_cmd_exec)

lemma wf_build_table: "build_table cs = Inr t \<Longrightarrow> wf_table t"
  unfolding build_table_def by (erule wf_build_from) (rule wf_empty_table)

text \<open>The entries of a built table are those of its script, in order.\<close>

fun cmd_entries :: "('s, 'e, 'a) table_cmd \<Rightarrow> ('s, 'e, 'a) table_entry list" where
  "cmd_entries (Add s e s' a) = [state_entry s e s' a]"
| "cmd_entries (AddWildcard s s' a) = [wildcard_entry s s' a]"
| "cmd_entries (Init s) = []"

lemma table_cmd_exec_entries:
  "table_cmd_exec c t = Inr t' \<Longrightarrow> entries t' = entries t @ cmd_entries c"
  by (cases c) (auto simp: AddStateTableEntry_def AddWildcardStateTableEntry_def
      SetInitialState_def split: option.splits)

lemma build_from_entries:
  "build_from cs t = Inr t' \<Longrightarrow> entries t' = entries t @ concat (map cmd_entries cs)"
  by (induction cs arbitrary: t) (auto split: sum.splits dest: table_cmd_exec_entries)

lemma build_table_entries:
  "build_table cs = Inr t \<Longrightarrow> entries t = concat (map cmd_entries cs)"
  unfolding build_table_def by (drule build_from_entries) (simp add: empty_table_def)

lemma lookup_spec_mem: "lookup_spec es st ev = Some e \<Longrightarrow>
    e \<in> set es \<and> prevState e = st \<and> (event e = Some ev \<or> isWildcardEvent e)"
  by (auto simp: lookup_spec_def find_Some_iff exact_entry_def wild_entry_def
      split: option.splits)

lemma dispatch_mem:
  assumes "wf_table t" and "sm_dispatch t r st ev = Fire s' a"
  obtains e where "e \<in> set (entries t)" "prevState e = st"
    "event e = Some ev \<or> isWildcardEvent e" "nextState e = s'" "action e = a"
proof -
  from assms obtain e where "lookup_spec (entries t) st ev = Some e"
    and "nextState e = s'" "action e = a"
    by (auto simp: sm_dispatch_def FindStateTableEntry_spec split: if_splits option.splits)
  then show thesis using that lookup_spec_mem by metis
qed

section \<open>The contract between a table and its actions\<close>

text \<open>
  A concrete machine supplies its table, the projections of its state record and its
  actions.  Its invariant must survive the firing of every entry that an admissible event
  selects (\<open>adm\<close> says what the environment guarantees of an event when it is
  served); then it survives every admissible event and every sequence of them.
\<close>

locale event_machine =
  fixes tbl :: "('s, 'e, 'a) state_table"
    and running :: "'w \<Rightarrow> bool"
    and st :: "'w \<Rightarrow> 's"
    and set_st :: "'s \<Rightarrow> 'w \<Rightarrow> 'w"
    and act :: "'a \<Rightarrow> 'w \<Rightarrow> 'w"
    and inv :: "'w \<Rightarrow> bool"
    and adm :: "'e \<Rightarrow> 'w \<Rightarrow> bool"
  assumes tbl_wf: "wf_table tbl"
    and entry_inv: "\<lbrakk>inv w; running w; adm ev w; e \<in> set (entries tbl); st w = prevState e;
        event e = Some ev \<or> isWildcardEvent e\<rbrakk>
      \<Longrightarrow> inv (act (action e) (set_st (nextState e) w))"
begin

lemma event_inv:
  assumes "inv w" and "adm ev w"
  shows "inv (sm_event tbl running st set_st act ev w)"
proof (cases "sm_dispatch tbl (running w) (st w) ev")
  case (Fire s' a)
  then have "running w" by (auto simp: sm_dispatch_def split: if_splits)
  from dispatch_mem [OF tbl_wf Fire] obtain e where e: "e \<in> set (entries tbl)"
    "prevState e = st w" "event e = Some ev \<or> isWildcardEvent e"
    "nextState e = s'" "action e = a"
    by blast
  from entry_inv [OF assms(1) \<open>running w\<close> assms(2) e(1) e(2) [symmetric] e(3)] Fire e
  show ?thesis by (simp add: sm_event_def)
qed (use assms in \<open>simp_all add: sm_event_def\<close>)

lemma run_inv:
  "inv w \<Longrightarrow> (\<And>ev w. ev \<in> set evs \<Longrightarrow> inv w \<Longrightarrow> adm ev w)
    \<Longrightarrow> inv (fold (sm_event tbl running st set_st act) evs w)"
  by (induction evs arbitrary: w) (auto intro: event_inv)

end

end
