(* ===== verification/Peer_Table_Def.thy ===== *)
theory Peer_Table_Def
  imports Fsm_Framework
begin

text \<open>
  States, events, actions and the state table of the peer state machine:
  the enumerations and the constructor of \<open>DiameterPeerStateTable\<close> in
  \<open>libdiameter/include/aaa_peer_fsm.h\<close>.  The actions are named after the members of
  the table class; \<open>PAC_Null\<close> is the default \<open>AAA_NullAction\<close>.
\<close>

datatype peer_st =
    PS_CLOSED | PS_WAIT_CONN_ACK | PS_WAIT_I_CEA | PS_WAIT_CONN_ACK_ELECT
  | PS_WAIT_RETURNS | PS_I_OPEN | PS_R_OPEN | PS_CLOSING

datatype peer_ev =
    PEV_START | PEV_STOP | PEV_TIMEOUT | PEV_CONN_RETRY | PEV_R_CONN_CER
  | PEV_I_RCV_CONN_ACK | PEV_I_RCV_CONN_NACK | PEV_R_RCV_CEA | PEV_I_RCV_CEA
  | PEV_I_PEER_DISC | PEV_R_PEER_DISC | PEV_I_RCV_NON_CEA | PEV_WIN_ELECTION
  | PEV_SEND_MESSAGE | PEV_R_RCV_MESSAGE | PEV_I_RCV_MESSAGE | PEV_R_RCV_DWR
  | PEV_I_RCV_DWR | PEV_R_RCV_DWA | PEV_I_RCV_DWA | PEV_R_RCV_DPR | PEV_I_RCV_DPR
  | PEV_R_RCV_CER | PEV_I_RCV_CER | PEV_R_RCV_DPA | PEV_I_RCV_DPA | PEV_WATCHDOG

datatype peer_ac =
    PAC_ISendConnReq | PAC_RAcceptSendCEA | PAC_Retry | PAC_Cleanup | PAC_ISendCER
  | PAC_ConnNack | PAC_RAccept | PAC_Error | PAC_ProcessCEA | PAC_RAcceptElect
  | PAC_Disconnect | PAC_ISendCERElect | PAC_RSendCEA | PAC_RDisconnectResp | PAC_RReject
  | PAC_IDisconnectSendCEA | PAC_RDisconnectIOpen | PAC_RSendMessage | PAC_Process
  | PAC_ProcessDWRSendDWA | PAC_ProcessDWA | PAC_RSendDPR | PAC_RSendDPADisconnect
  | PAC_RSendCEAOpen | PAC_Watchdog | PAC_ISendMessage | PAC_ISendDPR
  | PAC_ISendDPADisconnect | PAC_ISendCEA | PAC_DisconnectDPA | PAC_Null

definition peer_cmds_CLOSED :: "(peer_st, peer_ev, peer_ac) table_cmd list" where
  "peer_cmds_CLOSED = [
     Add PS_CLOSED PEV_START PS_WAIT_CONN_ACK PAC_ISendConnReq,
     Add PS_CLOSED PEV_R_CONN_CER PS_R_OPEN PAC_RAcceptSendCEA,
     Add PS_CLOSED PEV_CONN_RETRY PS_CLOSED PAC_Retry,
     AddWildcard PS_CLOSED PS_CLOSED PAC_Cleanup]"

definition peer_cmds_WAIT_CONN_ACK :: "(peer_st, peer_ev, peer_ac) table_cmd list" where
  "peer_cmds_WAIT_CONN_ACK = [
     Add PS_WAIT_CONN_ACK PEV_I_RCV_CONN_ACK PS_WAIT_I_CEA PAC_ISendCER,
     Add PS_WAIT_CONN_ACK PEV_I_RCV_CONN_NACK PS_CLOSED PAC_ConnNack,
     Add PS_WAIT_CONN_ACK PEV_R_CONN_CER PS_WAIT_CONN_ACK_ELECT PAC_RAccept,
     Add PS_WAIT_CONN_ACK PEV_TIMEOUT PS_CLOSED PAC_Error,
     Add PS_WAIT_CONN_ACK PEV_STOP PS_CLOSED PAC_Error]"

definition peer_cmds_WAIT_I_CEA :: "(peer_st, peer_ev, peer_ac) table_cmd list" where
  "peer_cmds_WAIT_I_CEA = [
     Add PS_WAIT_I_CEA PEV_I_RCV_CEA PS_I_OPEN PAC_ProcessCEA,
     Add PS_WAIT_I_CEA PEV_R_CONN_CER PS_WAIT_RETURNS PAC_RAcceptElect,
     Add PS_WAIT_I_CEA PEV_I_PEER_DISC PS_CLOSED PAC_Disconnect,
     Add PS_WAIT_I_CEA PEV_I_RCV_NON_CEA PS_CLOSED PAC_Error,
     Add PS_WAIT_I_CEA PEV_TIMEOUT PS_CLOSED PAC_Error,
     Add PS_WAIT_I_CEA PEV_STOP PS_CLOSED PAC_Error]"

definition peer_cmds_WAIT_CONN_ACK_ELECT :: "(peer_st, peer_ev, peer_ac) table_cmd list" where
  "peer_cmds_WAIT_CONN_ACK_ELECT = [
     Add PS_WAIT_CONN_ACK_ELECT PEV_I_RCV_CONN_ACK PS_WAIT_RETURNS PAC_ISendCERElect,
     Add PS_WAIT_CONN_ACK_ELECT PEV_I_RCV_CONN_NACK PS_R_OPEN PAC_RSendCEA,
     Add PS_WAIT_CONN_ACK_ELECT PEV_R_PEER_DISC PS_WAIT_CONN_ACK PAC_RDisconnectResp,
     Add PS_WAIT_CONN_ACK_ELECT PEV_R_CONN_CER PS_WAIT_CONN_ACK_ELECT PAC_RReject,
     Add PS_WAIT_CONN_ACK_ELECT PEV_TIMEOUT PS_CLOSED PAC_Error]"

definition peer_cmds_WAIT_RETURNS :: "(peer_st, peer_ev, peer_ac) table_cmd list" where
  "peer_cmds_WAIT_RETURNS = [
     Add PS_WAIT_RETURNS PEV_WIN_ELECTION PS_R_OPEN PAC_IDisconnectSendCEA,
     Add PS_WAIT_RETURNS PEV_I_PEER_DISC PS_R_OPEN PAC_IDisconnectSendCEA,
     Add PS_WAIT_RETURNS PEV_I_RCV_CEA PS_I_OPEN PAC_RDisconnectIOpen,
     Add PS_WAIT_RETURNS PEV_R_PEER_DISC PS_WAIT_I_CEA PAC_RDisconnectResp,
     Add PS_WAIT_RETURNS PEV_R_CONN_CER PS_WAIT_RETURNS PAC_RReject,
     Add PS_WAIT_RETURNS PEV_TIMEOUT PS_CLOSED PAC_Error]"

definition peer_cmds_R_OPEN :: "(peer_st, peer_ev, peer_ac) table_cmd list" where
  "peer_cmds_R_OPEN = [
     Add PS_R_OPEN PEV_SEND_MESSAGE PS_R_OPEN PAC_RSendMessage,
     Add PS_R_OPEN PEV_R_RCV_MESSAGE PS_R_OPEN PAC_Process,
     Add PS_R_OPEN PEV_R_RCV_DWR PS_R_OPEN PAC_ProcessDWRSendDWA,
     Add PS_R_OPEN PEV_R_RCV_DWA PS_R_OPEN PAC_ProcessDWA,
     Add PS_R_OPEN PEV_R_CONN_CER PS_R_OPEN PAC_RReject,
     Add PS_R_OPEN PEV_STOP PS_CLOSING PAC_RSendDPR,
     Add PS_R_OPEN PEV_R_RCV_DPR PS_CLOSED PAC_RSendDPADisconnect,
     Add PS_R_OPEN PEV_R_PEER_DISC PS_CLOSED PAC_Disconnect,
     Add PS_R_OPEN PEV_R_RCV_CER PS_R_OPEN PAC_RSendCEAOpen,
     Add PS_R_OPEN PEV_R_RCV_CEA PS_R_OPEN PAC_ProcessCEA,
     Add PS_R_OPEN PEV_WATCHDOG PS_R_OPEN PAC_Watchdog]"

definition peer_cmds_I_OPEN :: "(peer_st, peer_ev, peer_ac) table_cmd list" where
  "peer_cmds_I_OPEN = [
     Add PS_I_OPEN PEV_SEND_MESSAGE PS_I_OPEN PAC_ISendMessage,
     Add PS_I_OPEN PEV_I_RCV_MESSAGE PS_I_OPEN PAC_Process,
     Add PS_I_OPEN PEV_I_RCV_DWR PS_I_OPEN PAC_ProcessDWRSendDWA,
     Add PS_I_OPEN PEV_I_RCV_DWA PS_I_OPEN PAC_ProcessDWA,
     Add PS_I_OPEN PEV_R_CONN_CER PS_I_OPEN PAC_RReject,
     Add PS_I_OPEN PEV_STOP PS_CLOSING PAC_ISendDPR,
     Add PS_I_OPEN PEV_I_RCV_DPR PS_CLOSED PAC_ISendDPADisconnect,
     Add PS_I_OPEN PEV_I_PEER_DISC PS_CLOSED PAC_Disconnect,
     Add PS_I_OPEN PEV_I_RCV_CER PS_I_OPEN PAC_ISendCEA,
     Add PS_I_OPEN PEV_I_RCV_CEA PS_I_OPEN PAC_ProcessCEA,
     Add PS_I_OPEN PEV_WATCHDOG PS_I_OPEN PAC_Watchdog]"

definition peer_cmds_CLOSING :: "(peer_st, peer_ev, peer_ac) table_cmd list" where
  "peer_cmds_CLOSING = [
     Add PS_CLOSING PEV_I_RCV_DPA PS_CLOSED PAC_DisconnectDPA,
     Add PS_CLOSING PEV_R_RCV_DPA PS_CLOSED PAC_DisconnectDPA,
     Add PS_CLOSING PEV_TIMEOUT PS_CLOSED PAC_Error,
     Add PS_CLOSING PEV_I_PEER_DISC PS_CLOSED PAC_Disconnect,
     Add PS_CLOSING PEV_R_PEER_DISC PS_CLOSED PAC_Disconnect,
     AddWildcard PS_CLOSING PS_CLOSING PAC_Null,
     Init PS_CLOSED]"

definition peer_cmds :: "(peer_st, peer_ev, peer_ac) table_cmd list" where
  "peer_cmds =
     peer_cmds_CLOSED
     @ peer_cmds_WAIT_CONN_ACK
     @ peer_cmds_WAIT_I_CEA
     @ peer_cmds_WAIT_CONN_ACK_ELECT
     @ peer_cmds_WAIT_RETURNS
     @ peer_cmds_R_OPEN
     @ peer_cmds_I_OPEN
     @ peer_cmds_CLOSING"

lemmas peer_cmds_defs = peer_cmds_def
  peer_cmds_CLOSED_def
  peer_cmds_WAIT_CONN_ACK_def
  peer_cmds_WAIT_I_CEA_def
  peer_cmds_WAIT_CONN_ACK_ELECT_def
  peer_cmds_WAIT_RETURNS_def
  peer_cmds_R_OPEN_def
  peer_cmds_I_OPEN_def
  peer_cmds_CLOSING_def

definition peer_state_table :: "(peer_st, peer_ev, peer_ac) state_table" where
  "peer_state_table = (case build_table peer_cmds of Inr t \<Rightarrow> t | Inl _ \<Rightarrow> empty_table)"

text \<open>No call of the constructor throws.\<close>

lemma build_peer_cmds: "\<not> isl (build_table peer_cmds)"
  by code_simp

lemma peer_state_table_built: "build_table peer_cmds = Inr peer_state_table"
  using build_peer_cmds by (cases "build_table peer_cmds") (simp_all add: peer_state_table_def)

lemma wf_peer_state_table: "wf_table peer_state_table"
  using peer_state_table_built by (rule wf_build_table)

lemma peer_entries: "entries peer_state_table = concat (map cmd_entries peer_cmds)"
  using peer_state_table_built by (rule build_table_entries)

end
