(* ===== verification/Protected_Map.thy ===== *)
theory Protected_Map
  imports DRA_Prelude
begin

text \<open>
  The containers of \<open>include/framework.h\<close> that every subsystem shares:
  \<open>AAA_ProtectedQueue\<close> (a FIFO list), \<open>AAA_ProtectedMap\<close> (a
  \<open>std::map\<close> kept as the list of its bindings in key order, the order of its
  iterators) with \<open>AAA_IterAction\<close>, and \<open>AAA_RangedValue\<close>.  Their locks make each
  operation atomic, so an operation is one function.  The locale states what a client
  of the map may rely on; the message identifier tables of the peers and the pending
  request table of the router are clients.
\<close>

section \<open>Protected queue\<close>

type_synonym 'a pqueue = "'a list"

definition Enqueue :: "'a \<Rightarrow> 'a pqueue \<Rightarrow> 'a pqueue" where
  "Enqueue a q = q @ [a]"

text \<open>
  \<open>Dequeue\<close> reads \<open>front\<close> and pops it without a test: on an empty queue its
  behaviour is undefined, which is \<open>None\<close> here.
\<close>

fun Dequeue :: "'a pqueue \<Rightarrow> ('a \<times> 'a pqueue) option" where
  "Dequeue [] = None"
| "Dequeue (a # q) = Some (a, q)"

definition QueueIsEmpty :: "'a pqueue \<Rightarrow> bool" where
  "QueueIsEmpty q \<longleftrightarrow> q = []"

lemma Dequeue_Enqueue:
  "Dequeue (Enqueue a q) =
     (case Dequeue q of None \<Rightarrow> Some (a, q) | Some (b, q') \<Rightarrow> Some (b, Enqueue a q'))"
  by (cases q) (simp_all add: Enqueue_def)

section \<open>Protected map\<close>

type_synonym ('k, 'v) pmap = "('k \<times> 'v) list"

fun map_find :: "'k::linorder \<Rightarrow> ('k, 'v) pmap \<Rightarrow> 'v option" where
  "map_find k [] = None"
| "map_find k ((k', v) # m) = (if k = k' then Some v else map_find k m)"

text \<open>\<open>std::map::insert\<close> keeps an existing binding of the key.\<close>

fun map_insert :: "'k::linorder \<Rightarrow> 'v \<Rightarrow> ('k, 'v) pmap \<Rightarrow> ('k, 'v) pmap" where
  "map_insert k v [] = [(k, v)]"
| "map_insert k v ((k', v') # m) =
     (if k < k' then (k, v) # (k', v') # m
      else if k = k' then (k', v') # m
      else (k', v') # map_insert k v m)"

fun map_erase :: "'k::linorder \<Rightarrow> ('k, 'v) pmap \<Rightarrow> ('k, 'v) pmap" where
  "map_erase k [] = []"
| "map_erase k ((k', v') # m) = (if k = k' then m else (k', v') # map_erase k m)"

definition PM_Add :: "'k::linorder \<Rightarrow> 'v \<Rightarrow> ('k, 'v) pmap \<Rightarrow> ('k, 'v) pmap" where
  "PM_Add ndx data m = map_insert ndx data m"

definition PM_Lookup :: "'k::linorder \<Rightarrow> ('k, 'v) pmap \<Rightarrow> 'v option" where
  "PM_Lookup ndx m = map_find ndx m"

text \<open>
  \<open>Remove\<close> hands the value to the action (whose answer it ignores) and erases the
  binding; the action threads a state of the caller.
\<close>

definition PM_Remove ::
    "'k::linorder \<Rightarrow> ('v \<Rightarrow> 's \<Rightarrow> bool \<times> 'v \<times> 's) \<Rightarrow> 's \<Rightarrow> ('k, 'v) pmap
     \<Rightarrow> bool \<times> 's \<times> ('k, 'v) pmap" where
  "PM_Remove ndx e s m =
     (case map_find ndx m of
        Some v \<Rightarrow> (case e v s of (_, _, s') \<Rightarrow> (True, s', map_erase ndx m))
      | None \<Rightarrow> (False, s, m))"

definition PM_IsEmpty :: "('k, 'v) pmap \<Rightarrow> bool" where
  "PM_IsEmpty m \<longleftrightarrow> m = []"

fun PM_Iterate :: "('v \<Rightarrow> 's \<Rightarrow> bool \<times> 'v \<times> 's) \<Rightarrow> 's \<Rightarrow> ('k, 'v) pmap
    \<Rightarrow> 's \<times> ('k, 'v) pmap" where
  "PM_Iterate e s [] = (s, [])"
| "PM_Iterate e s ((k, v) # m) =
     (case e v s of (del, v', s') \<Rightarrow>
        (case PM_Iterate e s' m of (s'', m') \<Rightarrow>
           (s'', if del then m' else (k, v') # m')))"

definition IterActionDelete :: "'v \<Rightarrow> 's \<Rightarrow> bool \<times> 'v \<times> 's" where
  "IterActionDelete v s = (True, v, s)"

definition IterActionNone :: "'v \<Rightarrow> 's \<Rightarrow> bool \<times> 'v \<times> 's" where
  "IterActionNone v s = (False, v, s)"

definition wf_pmap :: "('k::linorder, 'v) pmap \<Rightarrow> bool" where
  "wf_pmap m \<longleftrightarrow> sorted_wrt (<) (map fst m)"

lemma map_find_mem: "map_find k m = Some v \<Longrightarrow> (k, v) \<in> set m"
  by (induction m) (auto split: if_splits)

lemma map_find_None_iff: "map_find k m = None \<longleftrightarrow> k \<notin> fst ` set m"
  by (induction m) (auto split: if_splits)

lemma map_find_insert:
  "wf_pmap m \<Longrightarrow> map_find j (map_insert k v m) =
     (if j = k then Some (case map_find k m of None \<Rightarrow> v | Some u \<Rightarrow> u) else map_find j m)"
proof (induction m)
  case (Cons b m)
  have "map_find k m = None" if "k < fst b"
    using Cons.prems that by (auto simp: wf_pmap_def map_find_None_iff)
  with Cons show ?case by (cases b) (auto simp: wf_pmap_def)
qed simp

lemma map_find_erase:
  "wf_pmap m \<Longrightarrow> map_find j (map_erase k m) = (if j = k then None else map_find j m)"
proof (induction m)
  case (Cons b m)
  have "map_find k m = None" if "k = fst b"
    using Cons.prems that by (auto simp: wf_pmap_def map_find_None_iff)
  with Cons show ?case by (cases b) (auto simp: wf_pmap_def)
qed simp

lemma set_map_insert_sub: "fst ` set (map_insert k v m) = insert k (fst ` set m)"
proof (induction m)
  case (Cons b m)
  then show ?case by (cases b) (simp, blast)
qed simp

lemma set_map_erase_sub: "set (map_erase k m) \<subseteq> set m"
proof (induction m)
  case (Cons b m)
  then show ?case by (cases b) (simp, blast)
qed simp

lemma wf_map_insert: "wf_pmap m \<Longrightarrow> wf_pmap (map_insert k v m)"
proof (induction m)
  case (Cons b m)
  then have IH: "sorted_wrt (<) (map fst (map_insert k v m))" by (auto simp: wf_pmap_def)
  have "set (map fst (map_insert k v m)) = insert k (fst ` set m)"
    by (simp add: set_map_insert_sub)
  with Cons.prems IH show ?case
    by (cases b) (fastforce simp: wf_pmap_def)
qed (simp add: wf_pmap_def)

lemma wf_map_erase: "wf_pmap m \<Longrightarrow> wf_pmap (map_erase k m)"
proof (induction m)
  case (Cons b m)
  then show ?case
    using set_map_erase_sub [of k m] by (cases b) (fastforce simp: wf_pmap_def)
qed (simp add: wf_pmap_def)

lemma PM_Iterate_keys: "set (map fst (snd (PM_Iterate e s m))) \<subseteq> set (map fst m)"
proof (induction m arbitrary: s)
  case (Cons b m)
  obtain k v where b: "b = (k, v)" by (cases b)
  obtain del v' s' where e: "e v s = (del, v', s')" by (metis prod_cases3)
  obtain s'' m' where r: "PM_Iterate e s' m = (s'', m')" by (cases "PM_Iterate e s' m")
  from Cons.IH [of s'] b e r show ?case by auto
qed simp

lemma wf_PM_Iterate: "wf_pmap m \<Longrightarrow> wf_pmap (snd (PM_Iterate e s m))"
proof (induction m arbitrary: s)
  case (Cons b m)
  obtain k v where b: "b = (k, v)" by (cases b)
  obtain del v' s' where e: "e v s = (del, v', s')" by (metis prod_cases3)
  obtain s'' m' where r: "PM_Iterate e s' m = (s'', m')" by (cases "PM_Iterate e s' m")
  from Cons.prems b have "wf_pmap m" and lt: "\<forall>x \<in> set (map fst m). k < x"
    by (auto simp: wf_pmap_def)
  with Cons.IH [of s'] r have "wf_pmap m'" by simp
  moreover have "\<forall>x \<in> set (map fst m'). k < x"
    using PM_Iterate_keys [of e s' m] r lt by (metis snd_conv subsetD)
  ultimately show ?case using b e r by (auto simp: wf_pmap_def)
qed (simp add: wf_pmap_def)

section \<open>What a client may rely on\<close>

locale protected_map =
  fixes empty :: 'm
    and add :: "'k \<Rightarrow> 'v \<Rightarrow> 'm \<Rightarrow> 'm"
    and lookup :: "'k \<Rightarrow> 'm \<Rightarrow> 'v option"
    and del :: "'k \<Rightarrow> 'm \<Rightarrow> bool \<times> 'm"
    and inv :: "'m \<Rightarrow> bool"
  assumes inv_empty: "inv empty"
    and inv_add: "inv m \<Longrightarrow> inv (add k v m)"
    and inv_del: "inv m \<Longrightarrow> inv (snd (del k m))"
    and lookup_empty: "lookup k empty = None"
    and lookup_add: "inv m \<Longrightarrow> lookup j (add k v m) =
          (if j = k then Some (case lookup k m of None \<Rightarrow> v | Some u \<Rightarrow> u) else lookup j m)"
    and del_found: "inv m \<Longrightarrow> fst (del k m) \<longleftrightarrow> lookup k m \<noteq> None"
    and lookup_del: "inv m \<Longrightarrow> lookup j (snd (del k m)) = (if j = k then None else lookup j m)"
begin

lemma add_is_stable: "inv m \<Longrightarrow> lookup k m = Some u \<Longrightarrow> lookup k (add k v m) = Some u"
  by (simp add: lookup_add)

lemma del_once: "inv m \<Longrightarrow> \<not> fst (del k (snd (del k m)))"
  by (simp add: del_found inv_del lookup_del)

lemma del_after_add: "inv m \<Longrightarrow> fst (del k (add k v m))"
  by (simp add: del_found inv_add lookup_add)

lemma del_other: "inv m \<Longrightarrow> j \<noteq> k \<Longrightarrow> fst (del j (snd (del k m))) = fst (del j m)"
  by (simp add: del_found inv_del lookup_del)

end

definition pm_del :: "'k::linorder \<Rightarrow> ('k, 'v) pmap \<Rightarrow> bool \<times> ('k, 'v) pmap" where
  "pm_del k m = (case PM_Remove k IterActionDelete () m of (b, _, m') \<Rightarrow> (b, m'))"

lemma pm_del_eq:
  "pm_del k m = (case map_find k m of None \<Rightarrow> (False, m) | Some _ \<Rightarrow> (True, map_erase k m))"
  by (auto simp: pm_del_def PM_Remove_def IterActionDelete_def split: option.splits)

interpretation pm: protected_map "[] :: ('k::linorder, 'v) pmap" PM_Add PM_Lookup pm_del wf_pmap
  by unfold_locales
    (auto simp: PM_Add_def PM_Lookup_def pm_del_eq map_find_insert map_find_erase
      wf_map_insert wf_map_erase wf_pmap_def [of "[]"] split: option.splits)

section \<open>Ranged value\<close>

record ranged_value =
  m_CurrentLevel :: int
  m_LowThreshold :: int
  m_HighThreshold :: int

definition RV_Reset :: "int \<Rightarrow> int \<Rightarrow> int \<Rightarrow> ranged_value" where
  "RV_Reset level low high =
     \<lparr>m_CurrentLevel = level, m_LowThreshold = low, m_HighThreshold = high\<rparr>"

definition RV_default :: ranged_value where
  "RV_default = RV_Reset 0 0 3"

definition RV_inc :: "ranged_value \<Rightarrow> bool \<times> ranged_value" where
  "RV_inc r =
     (let r' = r\<lparr>m_CurrentLevel := m_CurrentLevel r + 1\<rparr>
      in (m_CurrentLevel r' > m_HighThreshold r', r'))"

definition RV_dec :: "ranged_value \<Rightarrow> bool \<times> ranged_value" where
  "RV_dec r =
     (let r' = r\<lparr>m_CurrentLevel := m_CurrentLevel r - 1\<rparr>
      in (m_CurrentLevel r' < m_LowThreshold r', r'))"

definition RV_InRange :: "ranged_value \<Rightarrow> bool" where
  "RV_InRange r \<longleftrightarrow>
     m_CurrentLevel r > m_LowThreshold r \<and> m_CurrentLevel r < m_HighThreshold r"

end
