(* ===== verification/Diameter_Msg.thy ===== *)
theory Diameter_Msg
  imports DRA_Prelude
begin

text \<open>
  Diameter messages as the base protocol handles them: AVP container lists
  (\<open>AAAAvpContainerList\<close> and the widgets of \<open>include/aaa_parser_api.h\<close>), the
  message header and the result code classes of
  \<open>libdiamparser/include/diameter_parser.h\<close>, and the configuration records,
  message queries and error answers of \<open>libdiameter/include/aaa_data_defs.h\<close>.
\<close>

section \<open>AVP container lists\<close>

record diameter_uri =
  fqdn :: string
  port :: u16
  transport :: int
  protocol :: int
  scheme :: int

text \<open>
  A container entry holds one value of the type its AVP has in the dictionary; a grouped
  AVP holds a container list.  A container is a name with its entries.
\<close>

datatype avp_value =
    AU32 u32
  | AU64 "64 word"
  | AStr string
  | AAddr u16 string
  | AUri diameter_uri
  | AGrouped "(string \<times> avp_value list) list"

type_synonym avp_container = "string \<times> avp_value list"
type_synonym acl = "avp_container list"

fun acl_search :: "string \<Rightarrow> acl \<Rightarrow> avp_value list option" where
  "acl_search name [] = None"
| "acl_search name ((n, vs) # cs) = (if n = name then Some vs else acl_search name cs)"

definition GetAvp :: "string \<Rightarrow> nat \<Rightarrow> acl \<Rightarrow> avp_value option" where
  "GetAvp name ndx lst =
     (case acl_search name lst of
        None \<Rightarrow> None
      | Some c \<Rightarrow> if ndx < length c then Some (c ! ndx) else None)"

text \<open>
  The typed widgets read the entry's data at the type they are instantiated with.  The
  entries of a parsed message have the type the dictionary gives their name, which is the
  type every caller uses; an entry of another constructor reads as absent.
\<close>

fun as_u32 :: "avp_value option \<Rightarrow> u32 option" where
  "as_u32 (Some (AU32 w)) = Some w"
| "as_u32 _ = None"

fun as_u64 :: "avp_value option \<Rightarrow> 64 word option" where
  "as_u64 (Some (AU64 w)) = Some w"
| "as_u64 _ = None"

fun as_str :: "avp_value option \<Rightarrow> string option" where
  "as_str (Some (AStr s)) = Some s"
| "as_str _ = None"

fun as_addr :: "avp_value option \<Rightarrow> (u16 \<times> string) option" where
  "as_addr (Some (AAddr t s)) = Some (t, s)"
| "as_addr _ = None"

fun as_uri :: "avp_value option \<Rightarrow> diameter_uri option" where
  "as_uri (Some (AUri u)) = Some u"
| "as_uri _ = None"

fun as_grouped :: "avp_value option \<Rightarrow> acl option" where
  "as_grouped (Some (AGrouped g)) = Some g"
| "as_grouped _ = None"

definition GetU32 :: "string \<Rightarrow> nat \<Rightarrow> acl \<Rightarrow> u32 option" where
  "GetU32 name ndx lst = as_u32 (GetAvp name ndx lst)"

definition GetU64 :: "string \<Rightarrow> nat \<Rightarrow> acl \<Rightarrow> 64 word option" where
  "GetU64 name ndx lst = as_u64 (GetAvp name ndx lst)"

definition GetStr :: "string \<Rightarrow> nat \<Rightarrow> acl \<Rightarrow> string option" where
  "GetStr name ndx lst = as_str (GetAvp name ndx lst)"

definition GetAddr :: "string \<Rightarrow> nat \<Rightarrow> acl \<Rightarrow> (u16 \<times> string) option" where
  "GetAddr name ndx lst = as_addr (GetAvp name ndx lst)"

definition GetUri :: "string \<Rightarrow> nat \<Rightarrow> acl \<Rightarrow> diameter_uri option" where
  "GetUri name ndx lst = as_uri (GetAvp name ndx lst)"

definition GetGrouped :: "string \<Rightarrow> nat \<Rightarrow> acl \<Rightarrow> acl option" where
  "GetGrouped name ndx lst = as_grouped (GetAvp name ndx lst)"

text \<open>
  \<open>AddAvp\<close> returns a reference that every caller assigns; the assigned value is an
  argument here.
\<close>

fun acl_update :: "string \<Rightarrow> (avp_value list \<Rightarrow> avp_value list) \<Rightarrow> acl \<Rightarrow> acl" where
  "acl_update name f [] = []"
| "acl_update name f ((n, vs) # cs) =
     (if n = name then (n, f vs) # cs else (n, vs) # acl_update name f cs)"

definition AddAvp :: "string \<Rightarrow> bool \<Rightarrow> avp_value \<Rightarrow> acl \<Rightarrow> acl" where
  "AddAvp name app v lst =
     (case acl_search name lst of
        None \<Rightarrow> lst @ [(name, [v])]
      | Some c \<Rightarrow>
          if c = [] \<or> app then acl_update name (\<lambda>vs. vs @ [v]) lst
          else acl_update name (\<lambda>vs. vs[0 := v]) lst)"

fun DelAvp :: "string \<Rightarrow> acl \<Rightarrow> acl" where
  "DelAvp name [] = []"
| "DelAvp name ((n, vs) # cs) = (if n = name then cs else (n, vs) # DelAvp name cs)"

definition GetAvpCount :: "string \<Rightarrow> acl \<Rightarrow> nat" where
  "GetAvpCount name lst = (case acl_search name lst of None \<Rightarrow> 0 | Some c \<Rightarrow> length c)"

lemma acl_search_append:
  "acl_search name (a @ b) =
     (case acl_search name a of None \<Rightarrow> acl_search name b | Some c \<Rightarrow> Some c)"
  by (induction a) auto

lemma acl_search_update:
  "acl_search n (acl_update name f lst) =
     (if n = name then map_option f (acl_search name lst) else acl_search n lst)"
  by (induction lst) auto

lemma GetAvp_AddAvp_same:
  "GetAvp name 0 (AddAvp name False v lst) = Some v"
  by (auto simp: GetAvp_def AddAvp_def acl_search_append acl_search_update
      split: option.splits)

lemma GetAvp_AddAvp_other:
  "n \<noteq> name \<Longrightarrow> GetAvp n i (AddAvp name app v lst) = GetAvp n i lst"
  by (auto simp: GetAvp_def AddAvp_def acl_search_append acl_search_update
      split: option.splits)

lemma acl_search_AddAvp_other:
  "n \<noteq> name \<Longrightarrow> acl_search n (AddAvp name app v lst) = acl_search n lst"
  by (auto simp: AddAvp_def acl_search_append acl_search_update split: option.splits)

lemma acl_search_DelAvp_other:
  "n \<noteq> name \<Longrightarrow> acl_search n (DelAvp name lst) = acl_search n lst"
  by (induction lst) auto

section \<open>Message header\<close>

text \<open>The reserved flag bits and the dictionary handle of the header are not used here.\<close>

record hdr_flag =
  flag_r :: bool
  flag_p :: bool
  flag_e :: bool
  flag_t :: bool

record msg_header =
  ver :: u8
  len :: "24 word"
  flags :: hdr_flag
  code :: "24 word"
  appId :: u32
  hh :: u32
  ee :: u32

record diameter_msg =
  hdr :: msg_header
  acl :: acl

definition DIAMETER_PROTOCOL_VERSION :: u8 where
  "DIAMETER_PROTOCOL_VERSION = 1"

definition DIAMETER_BASE_APPLICATION_ID :: u32 where
  "DIAMETER_BASE_APPLICATION_ID = 0"

definition DIAMETER_RELAY_APPLICATION_ID :: u32 where
  "DIAMETER_RELAY_APPLICATION_ID = 0xffffffff"

definition MSG_ABORTSESSION :: "24 word" where "MSG_ABORTSESSION = 274"
definition MSG_SESSIONTERMINATION :: "24 word" where "MSG_SESSIONTERMINATION = 275"
definition MSG_CAPABILITIES_EXCHG :: "24 word" where "MSG_CAPABILITIES_EXCHG = 257"
definition MSG_WATCHDOG :: "24 word" where "MSG_WATCHDOG = 280"
definition MSG_DISCONNECT_PEER :: "24 word" where "MSG_DISCONNECT_PEER = 282"
definition MSG_ACCOUNTING :: "24 word" where "MSG_ACCOUNTING = 271"
definition MSG_REAUTH :: "24 word" where "MSG_REAUTH = 258"

lemmas msg_code_defs = MSG_ABORTSESSION_def MSG_SESSIONTERMINATION_def
  MSG_CAPABILITIES_EXCHG_def MSG_WATCHDOG_def MSG_DISCONNECT_PEER_def MSG_ACCOUNTING_def
  MSG_REAUTH_def

text \<open>\<open>DiameterMsgWidget\<close>: a fresh message with a cleared header.\<close>

definition MsgWidget :: "24 word \<Rightarrow> bool \<Rightarrow> u32 \<Rightarrow> diameter_msg" where
  "MsgWidget c request app =
     \<lparr>hdr = \<lparr>ver = DIAMETER_PROTOCOL_VERSION, len = 0,
             flags = \<lparr>flag_r = request, flag_p = False, flag_e = False, flag_t = False\<rparr>,
             code = c, appId = app, hh = 0, ee = 0\<rparr>,
      acl = []\<rparr>"

section \<open>Message queries\<close>

definition IsRequest :: "diameter_msg \<Rightarrow> bool" where
  "IsRequest m \<longleftrightarrow> flag_r (flags (hdr m))"

definition IsCapabilities :: "diameter_msg \<Rightarrow> bool" where
  "IsCapabilities m \<longleftrightarrow> code (hdr m) = MSG_CAPABILITIES_EXCHG"

definition IsBaseProtocol :: "diameter_msg \<Rightarrow> bool" where
  "IsBaseProtocol m \<longleftrightarrow>
     List.member [MSG_ABORTSESSION, MSG_SESSIONTERMINATION, MSG_CAPABILITIES_EXCHG,
       MSG_WATCHDOG, MSG_DISCONNECT_PEER, MSG_ACCOUNTING, MSG_REAUTH] (code (hdr m))"

section \<open>Result codes\<close>

datatype rcode =
    RCODE_NOT_PRESENT
  | RCODE_INFORMATIONAL
  | RCODE_SUCCESS
  | RCODE_PROTOCOL_ERROR
  | RCODE_TRANSIENT_FAILURE
  | RCODE_PERMANENT_FAILURE

text \<open>The loop subtracts 1000 from the unsigned code, wrapping below zero.\<close>

fun rcode_loop :: "rcode list \<Rightarrow> u32 \<Rightarrow> rcode" where
  "rcode_loop [] c = RCODE_PERMANENT_FAILURE"
| "rcode_loop (r # rs) c =
     (let c' = c - 1000 in if c' div 1000 = 0 then r else rcode_loop rs c')"

definition InterpretedCode :: "u32 \<Rightarrow> rcode" where
  "InterpretedCode c =
     rcode_loop [RCODE_INFORMATIONAL, RCODE_SUCCESS, RCODE_PROTOCOL_ERROR,
       RCODE_TRANSIENT_FAILURE, RCODE_PERMANENT_FAILURE] c"

definition ResultCode :: "diameter_msg \<Rightarrow> u32" where
  "ResultCode m = (case GetU32 ''ResultCode'' 0 (acl m) of Some rc \<Rightarrow> rc | None \<Rightarrow> 0)"

definition InterpretedResultCode :: "diameter_msg \<Rightarrow> rcode" where
  "InterpretedResultCode m =
     (let c = ResultCode m in if c \<noteq> 0 then InterpretedCode c else RCODE_NOT_PRESENT)"

text \<open>The thousands digit decides the class; everything else is a permanent failure.\<close>

definition rcode_class :: "nat \<Rightarrow> rcode" where
  "rcode_class k =
     (if k = 1 then RCODE_INFORMATIONAL else if k = 2 then RCODE_SUCCESS
      else if k = 3 then RCODE_PROTOCOL_ERROR else if k = 4 then RCODE_TRANSIENT_FAILURE
      else RCODE_PERMANENT_FAILURE)"

section \<open>Configuration\<close>

record vendor_app =
  vendorId :: u32
  authAppId :: u32
  acctAppId :: u32

record dia_config =
  cfg_identity :: string
  cfg_realm :: string
  cfg_watchdog_timeout :: u32
  cfg_reconnect_interval :: u32
  cfg_reconnect_max :: u32
  cfg_retx_interval :: u32
  cfg_retx_max_count :: u32
  cfg_advertised_hostname :: "string list"
  cfg_product :: string
  cfg_version :: u32
  cfg_vendor :: u32
  cfg_supportedVendorIdLst :: "u32 list"
  cfg_authAppIdLst :: "u32 list"
  cfg_acctAppIdLst :: "u32 list"
  cfg_vendorSpecificId :: "vendor_app list"
  cfg_originStateId :: u32

section \<open>Error answers\<close>

text \<open>
  \<open>DiameterErrorMsg::Generate\<close> dereferences the Proxy-Host and Proxy-State entries of
  a Proxy-Info without a test; a Proxy-Info that lacks one of them is the value
  \<open>None\<close>.
\<close>

definition error_header :: "msg_header \<Rightarrow> msg_header" where
  "error_header h = h\<lparr>flags := (flags h)\<lparr>flag_e := True, flag_r := False\<rparr>\<rparr>"

definition proxy_info_copy :: "acl \<Rightarrow> acl option" where
  "proxy_info_copy g =
     (case (GetStr ''ProxyHost'' 0 g, GetStr ''ProxyState'' 0 g) of
        (Some h, Some st) \<Rightarrow>
          Some (AddAvp ''ProxyState'' False (AStr st) (AddAvp ''ProxyHost'' False (AStr h) []))
      | _ \<Rightarrow> None)"

definition error_origin :: "dia_config \<Rightarrow> u32 \<Rightarrow> acl" where
  "error_origin cfg rc =
     [(''OriginHost'', [AStr (cfg_identity cfg)]),
      (''OriginRealm'', [AStr (cfg_realm cfg)]),
      (''ResultCode'', [AU32 rc]),
      (''ErrorReportingHost'', [AStr (cfg_identity cfg)])]"

definition Generate :: "dia_config \<Rightarrow> diameter_msg \<Rightarrow> u32 \<Rightarrow> diameter_msg option" where
  "Generate cfg request rc =
     (let l0 = (case GetStr ''SessionId'' 0 (acl request) of
            Some sid \<Rightarrow> AddAvp ''SessionId'' False (AStr sid) []
          | None \<Rightarrow> []);
          l1 = (case GetU32 ''OriginStateId'' 0 (acl request) of
            Some os \<Rightarrow> l0 @ [(''OriginStateId'', [AU32 os])]
          | None \<Rightarrow> l0);
          l2 = (case GetGrouped ''ProxyInfo'' 0 (acl request) of
            Some g \<Rightarrow> map_option (\<lambda>g'. AddAvp ''ProxyInfo'' False (AGrouped g') l1)
                        (proxy_info_copy g)
          | None \<Rightarrow> Some l1)
      in map_option (\<lambda>l. \<lparr>hdr = error_header (hdr request), acl = l @ error_origin cfg rc\<rparr>) l2)"

definition GenerateHdr :: "dia_config \<Rightarrow> msg_header \<Rightarrow> u32 \<Rightarrow> diameter_msg" where
  "GenerateHdr cfg h rc = \<lparr>hdr = error_header h, acl = error_origin cfg rc\<rparr>"

section \<open>Correctness\<close>

lemma unat_minus:
  "unat (c - k :: u32) =
     (if unat k \<le> unat c then unat c - unat k else unat c + 4294967296 - unat k)"
  by (simp add: unat_sub_if_size word_size)

lemma div_1000_zero: "(c :: u32) div 1000 = 0 \<longleftrightarrow> unat c < 1000"
proof -
  have "c div 1000 = 0 \<longleftrightarrow> unat (c div 1000) = 0" by (simp add: unat_eq_zero)
  then show ?thesis by (simp add: unat_div div_eq_0_iff)
qed

lemma nat_div_1000: "(n::nat) div 1000 = k \<longleftrightarrow> 1000 * k \<le> n \<and> n < 1000 * k + 1000"
  by auto

text \<open>The class that the subtracting loop computes for a result code is the one its
  thousands digit names, for every 32-bit code: codes below 1000, where the subtraction
  wraps around, and codes of 5000 and more are permanent failures.\<close>

theorem InterpretedCode_class: "InterpretedCode c = rcode_class (unat c div 1000)"
  by (simp add: InterpretedCode_def rcode_class_def Let_def div_1000_zero unat_minus
      nat_div_1000) linarith

lemma error_origin_lookup:
  "GetU32 ''ResultCode'' 0 (error_origin cfg rc) = Some rc"
  "GetStr ''OriginHost'' 0 (error_origin cfg rc) = Some (cfg_identity cfg)"
  "acl_search ''SessionId'' (error_origin cfg rc) = None"
  by (simp_all add: error_origin_def GetU32_def GetStr_def GetAvp_def)

text \<open>The Session-Id of an error answer.\<close>

definition error_session :: "diameter_msg \<Rightarrow> acl" where
  "error_session rq =
     (case GetStr ''SessionId'' 0 (acl rq) of
        Some sid \<Rightarrow> AddAvp ''SessionId'' False (AStr sid) [] | None \<Rightarrow> [])"

lemma error_session_search:
  "n \<noteq> ''SessionId'' \<Longrightarrow> acl_search n (error_session rq) = None"
  "acl_search ''SessionId'' (error_session rq) =
     map_option (\<lambda>sid. [AStr sid]) (GetStr ''SessionId'' 0 (acl rq))"
  by (auto simp: error_session_def AddAvp_def split: option.splits)

lemma Generate_answers_aux:
  "case Generate cfg rq rc of
     Some ans \<Rightarrow>
       code (hdr ans) = code (hdr rq) \<and> appId (hdr ans) = appId (hdr rq) \<and>
       hh (hdr ans) = hh (hdr rq) \<and> ee (hdr ans) = ee (hdr rq) \<and>
       flag_p (flags (hdr ans)) = flag_p (flags (hdr rq)) \<and>
       flag_e (flags (hdr ans)) \<and> \<not> IsRequest ans \<and> ResultCode ans = rc \<and>
       GetStr ''SessionId'' 0 (acl ans) = GetStr ''SessionId'' 0 (acl rq)
   | None \<Rightarrow> (\<exists>g. GetGrouped ''ProxyInfo'' 0 (acl rq) = Some g \<and>
       (GetStr ''ProxyHost'' 0 g = None \<or> GetStr ''ProxyState'' 0 g = None))"
proof (cases "Generate cfg rq rc")
  case None
  then show ?thesis
    by (auto simp: Generate_def Let_def proxy_info_copy_def split: option.splits)
next
  case (Some ans)
  then obtain l l1 where ans: "ans = \<lparr>hdr = error_header (hdr rq), acl = l @ error_origin cfg rc\<rparr>"
    and l: "l = l1 \<or> (\<exists>g. l = AddAvp ''ProxyInfo'' False (AGrouped g) l1)"
    and l1: "l1 = error_session rq \<or>
      (\<exists>os. l1 = error_session rq @ [(''OriginStateId'', [AU32 os])])"
    by (auto simp: Generate_def Let_def error_session_def simp del: append_assoc append.simps
        split: option.splits)
  have "acl_search ''ResultCode'' l = None"
    "acl_search ''SessionId'' l = acl_search ''SessionId'' (error_session rq)"
    using l l1 by (auto simp: acl_search_AddAvp_other acl_search_append error_session_search
        split: option.splits)
  then show ?thesis
    using Some ans error_session_search
    by (simp add: error_header_def IsRequest_def ResultCode_def GetU32_def GetStr_def GetAvp_def
        acl_search_append error_origin_def split: option.splits)
qed

text \<open>An error answer keeps the command, the application, the proxiable bit and both
  identifiers of the request, is marked as an error and as an answer, carries the result
  code and the session of the request; it is only not produced (a null dereference) when
  the request has a Proxy-Info without a Proxy-Host or a Proxy-State.\<close>

theorem Generate_answers:
  "case Generate cfg rq rc of
     Some ans \<Rightarrow>
       code (hdr ans) = code (hdr rq) \<and> appId (hdr ans) = appId (hdr rq) \<and>
       hh (hdr ans) = hh (hdr rq) \<and> ee (hdr ans) = ee (hdr rq) \<and>
       flag_p (flags (hdr ans)) = flag_p (flags (hdr rq)) \<and>
       flag_e (flags (hdr ans)) \<and> \<not> IsRequest ans \<and> ResultCode ans = rc \<and>
       GetStr ''SessionId'' 0 (acl ans) = GetStr ''SessionId'' 0 (acl rq)
   | None \<Rightarrow> (\<exists>g. GetGrouped ''ProxyInfo'' 0 (acl rq) = Some g \<and>
       (GetStr ''ProxyHost'' 0 g = None \<or> GetStr ''ProxyState'' 0 g = None))"
  by (rule Generate_answers_aux)

end
