(* ===== verification/Peer_Data.thy ===== *)
theory Peer_Data
  imports Peer_Table_Def Protected_Map Diameter_Msg
begin

text \<open>
  The state of a peer (\<open>DiameterPeerData\<close>, the members of
  \<open>DiameterPeerStateMachine\<close>), the identifier generators of
  \<open>aaa_route_id_generator.h\<close>, the message identifier bookkeeping, the event queue,
  the clean-up and the re-connection logic of \<open>libdiameter/src/aaa_peer_fsm.cxx\<close>.
\<close>

section \<open>Identifier generators\<close>

text \<open>
  \<open>rnd\<close> is the sequence of values drawn from the clock and from \<open>rand\<close>, which the
  generators consume in order.
\<close>

record id_gen =
  hop_Id :: u32
  end_Id :: u32
  rnd :: "nat \<Rightarrow> u32"
  drawn :: nat

definition HopByHopGet :: "id_gen \<Rightarrow> u32 \<times> id_gen" where
  "HopByHopGet g =
     (let g1 = (if hop_Id g = 0
                then g\<lparr>hop_Id := rnd g (drawn g), drawn := drawn g + 1\<rparr> else g);
          i = hop_Id g1 + 1
      in (i, g1\<lparr>hop_Id := i\<rparr>))"

definition EndToEndGet :: "id_gen \<Rightarrow> u32 \<times> id_gen" where
  "EndToEndGet g =
     (let g1 = (if end_Id g = 0
                then g\<lparr>end_Id := push_bit 20 (rnd g (drawn g)), drawn := drawn g + 1\<rparr> else g);
          i = (end_Id g1 AND 0xFFF00000) OR (rnd g1 (drawn g1) AND 0x000FFFFF)
      in (i, g1\<lparr>end_Id := i, drawn := drawn g1 + 1\<rparr>))"

section \<open>Peer data\<close>

text \<open>A transport is its identity and the protocol it runs over.\<close>

record io =
  io_id :: nat
  io_proto :: int

definition IPPROTO_TCP :: int where "IPPROTO_TCP = 6"
definition IPPROTO_SCTP :: int where "IPPROTO_SCTP = 132"

record msg_ids =
  m_LastTxHopId :: "(u32, u32) pmap"
  m_LastTxEndId :: "(u32, u32) pmap"
  m_LastRxHopId :: "u32 pqueue"
  m_LastRxEndId :: "u32 pqueue"

record peer_caps =
  m_Host :: string
  m_Realm :: string
  m_ProductName :: string
  m_VendorId :: u32
  m_InbandSecurityId :: u32
  m_OriginStateId :: u32
  m_FirmwareRevision :: u32
  m_SupportedVendorIdLst :: "u32 list"
  m_AuthAppIdLst :: "u32 list"
  m_HostIpLst :: "(u16 \<times> string) list"
  m_AcctAppIdLst :: "u32 list"
  m_VendorSpecificId :: "vendor_app list"
  m_MsgId :: msg_ids

definition empty_msg_ids :: msg_ids where
  "empty_msg_ids = \<lparr>m_LastTxHopId = [], m_LastTxEndId = [], m_LastRxHopId = [],
     m_LastRxEndId = []\<rparr>"

definition clear_caps :: "peer_caps \<Rightarrow> peer_caps" where
  "clear_caps c = \<lparr>m_Host = [], m_Realm = [], m_ProductName = [], m_VendorId = 0,
     m_InbandSecurityId = 0, m_OriginStateId = 0, m_FirmwareRevision = 0,
     m_SupportedVendorIdLst = [], m_AuthAppIdLst = [], m_HostIpLst = [],
     m_AcctAppIdLst = [], m_VendorSpecificId = [], m_MsgId = m_MsgId c\<rparr>"

definition AAA_DISCONNECT_REBOOTING :: u32 where "AAA_DISCONNECT_REBOOTING = 0"
definition AAA_DISCONNECT_DONTWANTTOTALK :: u32 where "AAA_DISCONNECT_DONTWANTTOTALK = 2"
definition AAA_DISCONNECT_UNKNOWN :: u32 where "AAA_DISCONNECT_UNKNOWN = 1000"
definition AAA_DISCONNECT_TRANSPORT :: u32 where "AAA_DISCONNECT_TRANSPORT = 10001"

definition AAA_SUCCESS :: u32 where "AAA_SUCCESS = 2001"
definition AAA_LIMITED_SUCCESS :: u32 where "AAA_LIMITED_SUCCESS = 2002"
definition AAA_NO_COMMON_APPLICATION :: u32 where "AAA_NO_COMMON_APPLICATION = 5010"
definition AAA_UNABLE_TO_COMPLY :: u32 where "AAA_UNABLE_TO_COMPLY = 5012"
definition AAA_NO_COMMON_SECURITY :: u32 where "AAA_NO_COMMON_SECURITY = 5017"

section \<open>The peer state machine object\<close>

record peer_param =
  pp_event :: peer_ev
  pp_msg :: "diameter_msg option"
  pp_io :: "io option"

text \<open>
  What the machine does to its surroundings, in order: messages handed to the transmit
  collector with the transport they go to (\<open>None\<close> is a null pointer), transports given
  to the garbage collector or destroyed, the virtual notifications, messages handed to the
  router, and connection attempts.
\<close>

datatype peer_effect =
    Sent "io option" diameter_msg
  | GcIo io
  | IoDeleted io
  | Connected
  | ErrorNotified u32
  | Disconnected u32
  | RouteRequest diameter_msg
  | RouteAnswer diameter_msg
  | ConnectTo string u32 bool
  | ConnectorClosed

record peer =
  p_state :: peer_st
  p_running :: bool
  p_timers :: "peer_ev timers"
  m_ReconnectAttempt :: u32
  m_Identity :: string
  m_Port :: u32
  m_DisconnectCause :: u32
  m_TLS :: bool
  m_UseSctp :: bool
  m_IOInitiator :: "io option"
  m_IOResponder :: "io option"
  m_PeerCapabilities :: peer_caps
  m_EventQueue :: "peer_param pqueue"
  m_CurrentPeerEventParam :: "peer_param option"
  p_idgen :: id_gen
  p_effects :: "peer_effect list"
  p_fault :: bool

text \<open>
  \<open>p_fault\<close> records that a null pointer was dereferenced; the process is gone then, so
  the steps of an action after it are not executed.
\<close>

fun steps :: "(peer \<Rightarrow> peer) list \<Rightarrow> peer \<Rightarrow> peer" where
  "steps [] w = w"
| "steps (f # fs) w = (if p_fault w then w else steps fs (f w))"

definition null_deref :: "peer \<Rightarrow> peer" where
  "null_deref w = w\<lparr>p_fault := True\<rparr>"

definition emit :: "peer_effect \<Rightarrow> peer \<Rightarrow> peer" where
  "emit e w = w\<lparr>p_effects := p_effects w @ [e]\<rparr>"

section \<open>Timers of the peer\<close>

text \<open>
  Timer types are the numbers of the events; the connect timeout value 30 is also used
  as a timer type by the clean-up.
\<close>

definition T_TIMEOUT :: int where "T_TIMEOUT = 2"
definition T_CONN_RETRY :: int where "T_CONN_RETRY = 3"
definition T_WATCHDOG :: int where "T_WATCHDOG = 26"
definition DIAMETER_PEER_CONNECT_ATTEMPT_TOUT :: nat where
  "DIAMETER_PEER_CONNECT_ATTEMPT_TOUT = 30"

lemmas timer_type_defs = T_TIMEOUT_def T_CONN_RETRY_def T_WATCHDOG_def
  DIAMETER_PEER_CONNECT_ATTEMPT_TOUT_def

definition p_schedule :: "peer_ev \<Rightarrow> nat \<Rightarrow> int \<Rightarrow> peer \<Rightarrow> peer" where
  "p_schedule ev sec type w = w\<lparr>p_timers := ScheduleTimer ev sec type (p_timers w)\<rparr>"

definition p_cancel :: "int \<Rightarrow> peer \<Rightarrow> peer" where
  "p_cancel type w = w\<lparr>p_timers := CancelTimer type (p_timers w)\<rparr>"

definition StopReConnect :: "peer \<Rightarrow> peer" where
  "StopReConnect w = p_cancel T_CONN_RETRY w"

definition DoReConnect :: "('a) dia_config_scheme \<Rightarrow> peer \<Rightarrow> peer" where
  "DoReConnect cfg w =
     (if m_ReconnectAttempt w < cfg_reconnect_max cfg then
        if cfg_reconnect_interval cfg > 0 then
          p_schedule PEV_CONN_RETRY (unat (cfg_reconnect_interval cfg)) T_CONN_RETRY
            (w\<lparr>m_ReconnectAttempt := m_ReconnectAttempt w + 1\<rparr>)
        else w
      else w\<lparr>m_ReconnectAttempt := 0\<rparr>)"

section \<open>Event queue\<close>

definition Notify :: "peer_ev \<Rightarrow> diameter_msg option \<Rightarrow> io option \<Rightarrow> peer \<Rightarrow> peer" where
  "Notify ev msg ioo w =
     (if p_running w
      then w\<lparr>m_EventQueue :=
             Enqueue \<lparr>pp_event = ev, pp_msg = msg, pp_io = ioo\<rparr> (m_EventQueue w)\<rparr>
      else w)"

text \<open>Moving the message or the transport out of the current event (\<open>auto_ptr\<close>).\<close>

definition take_msg :: "peer \<Rightarrow> diameter_msg option \<times> peer" where
  "take_msg w =
     (case m_CurrentPeerEventParam w of
        None \<Rightarrow> (None, null_deref w)
      | Some p \<Rightarrow> (pp_msg p, w\<lparr>m_CurrentPeerEventParam := Some (p\<lparr>pp_msg := None\<rparr>)\<rparr>))"

definition take_io :: "peer \<Rightarrow> io option \<times> peer" where
  "take_io w =
     (case m_CurrentPeerEventParam w of
        None \<Rightarrow> (None, null_deref w)
      | Some p \<Rightarrow> (pp_io p, w\<lparr>m_CurrentPeerEventParam := Some (p\<lparr>pp_io := None\<rparr>)\<rparr>))"

definition delete_io :: "io option \<Rightarrow> peer \<Rightarrow> peer" where
  "delete_io x w = (case x of None \<Rightarrow> w | Some i \<Rightarrow> emit (IoDeleted i) w)"

definition ScheduleForDeletion :: "io option \<Rightarrow> peer \<Rightarrow> peer" where
  "ScheduleForDeletion x w = (case x of None \<Rightarrow> w | Some i \<Rightarrow> emit (GcIo i) w)"

definition gc_responder :: "peer \<Rightarrow> peer" where
  "gc_responder w = ScheduleForDeletion (m_IOResponder w) (w\<lparr>m_IOResponder := None\<rparr>)"

definition gc_initiator :: "peer \<Rightarrow> peer" where
  "gc_initiator w = ScheduleForDeletion (m_IOInitiator w) (w\<lparr>m_IOInitiator := None\<rparr>)"

definition responder_from_event :: "peer \<Rightarrow> peer" where
  "responder_from_event w =
     (case take_io w of (x, w1) \<Rightarrow>
        (delete_io (m_IOResponder w1) w1)\<lparr>m_IOResponder := x\<rparr>)"

definition initiator_from_event :: "peer \<Rightarrow> peer" where
  "initiator_from_event w =
     (case take_io w of (x, w1) \<Rightarrow>
        (delete_io (m_IOInitiator w1) w1)\<lparr>m_IOInitiator := x\<rparr>)"

section \<open>Clean-up\<close>

definition CLEANUP_IO_I :: u32 where "CLEANUP_IO_I = 1"
definition CLEANUP_IO_R :: u32 where "CLEANUP_IO_R = 2"
definition CLEANUP_FSM :: u32 where "CLEANUP_FSM = 4"
definition CLEANUP_ALL :: u32 where "CLEANUP_ALL = 0xffffffff"

lemmas cleanup_flag_defs = CLEANUP_IO_I_def CLEANUP_IO_R_def CLEANUP_FSM_def CLEANUP_ALL_def

definition fsm_Start :: "peer \<Rightarrow> peer" where
  "fsm_Start w =
     (case InitialState peer_state_table of
        Inl _ \<Rightarrow> w
      | Inr s \<Rightarrow> w\<lparr>p_state := s, p_running := True\<rparr>)"

definition fsm_Stop :: "peer \<Rightarrow> peer" where
  "fsm_Stop w = w\<lparr>p_running := False\<rparr>"

definition release_event :: "peer \<Rightarrow> peer" where
  "release_event w =
     (case m_CurrentPeerEventParam w of
        None \<Rightarrow> null_deref w
      | Some p \<Rightarrow> ScheduleForDeletion (pp_io p)
          (w\<lparr>m_CurrentPeerEventParam := Some (p\<lparr>pp_msg := None, pp_io := None\<rparr>)\<rparr>))"

definition Cleanup :: "u32 \<Rightarrow> peer \<Rightarrow> peer" where
  "Cleanup fl =
     steps ([\<lambda>w. w\<lparr>m_PeerCapabilities := clear_caps (m_PeerCapabilities w)\<rparr>,
             StopReConnect,
             p_cancel T_TIMEOUT,
             p_cancel T_WATCHDOG,
             p_cancel (int DIAMETER_PEER_CONNECT_ATTEMPT_TOUT)]
       @ (if fl AND CLEANUP_FSM \<noteq> 0 then [fsm_Stop] else [])
       @ (if fl AND CLEANUP_IO_R \<noteq> 0 then [gc_responder] else [])
       @ (if fl AND CLEANUP_IO_I \<noteq> 0 then [gc_initiator] else [])
       @ (if fl AND CLEANUP_FSM \<noteq> 0 then [release_event, fsm_Start] else []))"

section \<open>Message identifiers\<close>

definition upd_msgid :: "(msg_ids \<Rightarrow> msg_ids) \<Rightarrow> peer \<Rightarrow> peer" where
  "upd_msgid f w =
     w\<lparr>m_PeerCapabilities :=
        (m_PeerCapabilities w)\<lparr>m_MsgId := f (m_MsgId (m_PeerCapabilities w))\<rparr>\<rparr>"

definition deq_id :: "u32 pqueue \<Rightarrow> u32 \<times> u32 pqueue" where
  "deq_id q = (if \<not> QueueIsEmpty q
     then (case Dequeue q of Some r \<Rightarrow> r | None \<Rightarrow> (0, q)) else (0, q))"

definition MsgIdTxMessage :: "diameter_msg \<Rightarrow> peer \<Rightarrow> diameter_msg \<times> peer" where
  "MsgIdTxMessage msg w =
     (if flag_r (flags (hdr msg)) then
        (case HopByHopGet (p_idgen w) of (hopId, g1) \<Rightarrow>
         case EndToEndGet g1 of (endId, g2) \<Rightarrow>
           (msg\<lparr>hdr := (hdr msg)\<lparr>hh := hopId, ee := endId\<rparr>\<rparr>,
            upd_msgid (\<lambda>m. m\<lparr>m_LastTxHopId := PM_Add hopId hopId (m_LastTxHopId m),
                             m_LastTxEndId := PM_Add endId endId (m_LastTxEndId m)\<rparr>)
              (w\<lparr>p_idgen := g2\<rparr>)))
      else
        (case deq_id (m_LastRxHopId (m_MsgId (m_PeerCapabilities w))) of (h, hq) \<Rightarrow>
         case deq_id (m_LastRxEndId (m_MsgId (m_PeerCapabilities w))) of (e, eq) \<Rightarrow>
           (msg\<lparr>hdr := (hdr msg)\<lparr>hh := h, ee := e\<rparr>\<rparr>,
            upd_msgid (\<lambda>m. m\<lparr>m_LastRxHopId := hq, m_LastRxEndId := eq\<rparr>) w)))"

text \<open>The conjunction of the two removals is evaluated from the left and stops early.\<close>

definition MsgIdRxMessage :: "diameter_msg \<Rightarrow> peer \<Rightarrow> bool \<times> peer" where
  "MsgIdRxMessage msg w =
     (if flag_r (flags (hdr msg)) then
        (True, upd_msgid (\<lambda>m. m\<lparr>m_LastRxHopId := Enqueue (hh (hdr msg)) (m_LastRxHopId m),
                                m_LastRxEndId := Enqueue (ee (hdr msg)) (m_LastRxEndId m)\<rparr>) w)
      else
        (case pm_del (hh (hdr msg)) (m_LastTxHopId (m_MsgId (m_PeerCapabilities w))) of
           (False, _) \<Rightarrow> (False, w)
         | (True, hm) \<Rightarrow>
             (let w1 = upd_msgid (\<lambda>m. m\<lparr>m_LastTxHopId := hm\<rparr>) w in
              case pm_del (ee (hdr msg)) (m_LastTxEndId (m_MsgId (m_PeerCapabilities w1))) of
                (False, _) \<Rightarrow> (False, w1)
              | (True, em) \<Rightarrow> (True, upd_msgid (\<lambda>m. m\<lparr>m_LastTxEndId := em\<rparr>) w1))))"

text \<open>Evaluates to the protocol of the transport in use, or to a null dereference.\<close>

definition TransportProtocolInUse :: "peer \<Rightarrow> int option" where
  "TransportProtocolInUse w =
     (case m_IOInitiator w of
        Some i \<Rightarrow> Some (io_proto i)
      | None \<Rightarrow> map_option io_proto (m_IOResponder w))"

end
