(* ===== verification/Peer_Caps.thy ===== *)
theory Peer_Caps
  imports Peer_Data
begin

text \<open>
  The messages of the peer protocol in \<open>libdiameter/src/aaa_peer_fsm.cxx\<close>: capabilities
  exchange, watchdog and disconnect requests and answers, how the capabilities of the peer
  are read from a message, and how they are validated against the configuration.
\<close>

text \<open>
  Address resolution belongs to ACE: \<open>env_local_addr\<close> is the address that the identity
  resolves to, \<open>env_resolve\<close> that of an advertised host name, when it resolves.
\<close>

record peer_env = dia_config +
  env_local_addr :: string
  env_resolve :: "string \<Rightarrow> string option"

section \<open>Application identifiers\<close>

text \<open>\<open>AAA_ApplicationIdLookup\<close>: the three overloads of \<open>Find\<close>.\<close>

fun Find_id :: "u32 \<Rightarrow> u32 list \<Rightarrow> bool" where
  "Find_id i [] = False"
| "Find_id i (x # xs) =
     (if i = DIAMETER_RELAY_APPLICATION_ID \<or> x = DIAMETER_RELAY_APPLICATION_ID \<or> x = i
      then True else Find_id i xs)"

fun Find_lists :: "u32 \<Rightarrow> u32 list list \<Rightarrow> bool" where
  "Find_lists i [] = False"
| "Find_lists i (l # ls) = (if Find_id i l then True else Find_lists i ls)"

fun Find_vendor :: "u32 \<Rightarrow> vendor_app list \<Rightarrow> bool" where
  "Find_vendor i [] = False"
| "Find_vendor i (v # vs) =
     (if authAppId v = i \<or> acctAppId v = i
         \<or> authAppId v = DIAMETER_RELAY_APPLICATION_ID
         \<or> acctAppId v = DIAMETER_RELAY_APPLICATION_ID
         \<or> i = DIAMETER_RELAY_APPLICATION_ID
      then True else Find_vendor i vs)"

section \<open>Validation of a peer\<close>

definition local_lists :: "('a) dia_config_scheme \<Rightarrow> u32 list list" where
  "local_lists cfg = [cfg_authAppIdLst cfg, cfg_acctAppIdLst cfg]"

fun common_id :: "('a) dia_config_scheme \<Rightarrow> u32 list \<Rightarrow> bool" where
  "common_id cfg [] = False"
| "common_id cfg (x # xs) =
     (if Find_lists x (local_lists cfg) then True
      else if Find_vendor x (cfg_vendorSpecificId cfg) then True
      else common_id cfg xs)"

fun common_vendor :: "('a) dia_config_scheme \<Rightarrow> vendor_app list \<Rightarrow> bool" where
  "common_vendor cfg [] = False"
| "common_vendor cfg (v # vs) =
     (if Find_lists (authAppId v) (local_lists cfg) then True
      else if Find_lists (acctAppId v) (local_lists cfg) then True
      else if Find_vendor (authAppId v) (cfg_vendorSpecificId cfg) then True
      else if Find_vendor (acctAppId v) (cfg_vendorSpecificId cfg) then True
      else common_vendor cfg vs)"

definition ValidatePeer :: "('a) dia_config_scheme \<Rightarrow> peer \<Rightarrow> bool \<times> u32 \<times> string" where
  "ValidatePeer cfg w =
     (let cap = m_PeerCapabilities w;
          found = (if common_id cfg (m_AuthAppIdLst cap) then True
                   else common_id cfg (m_AcctAppIdLst cap));
          found' = (if \<not> found then common_vendor cfg (m_VendorSpecificId cap) else found)
      in if \<not> found' then (False, AAA_NO_COMMON_APPLICATION, ''No common application id'')
         else if (if m_TLS w then 1 else 0) \<noteq> m_InbandSecurityId cap
              then (False, AAA_NO_COMMON_SECURITY, ''No matching in-band security id'')
         else (True, AAA_SUCCESS, ''Capabilities negotiation completed successfully''))"

section \<open>Capabilities exchange\<close>

definition ce_header :: "24 word \<Rightarrow> bool \<Rightarrow> diameter_msg" where
  "ce_header c request = MsgWidget c request DIAMETER_BASE_APPLICATION_ID"

fun advertised :: "(string \<Rightarrow> string option) \<Rightarrow> string list \<Rightarrow> avp_value list" where
  "advertised resolve [] = []"
| "advertised resolve (h # hs) =
     (case resolve h of
        Some a \<Rightarrow> AAddr 1 a # advertised resolve hs
      | None \<Rightarrow> advertised resolve hs)"

definition vendor_group :: "vendor_app \<Rightarrow> avp_value" where
  "vendor_group v = AGrouped
     ((if authAppId v > 0 then [(''AuthApplicationId'', [AU32 (authAppId v)])] else [])
      @ (if acctAppId v > 0 then [(''AcctApplicationId'', [AU32 (acctAppId v)])] else [])
      @ (if vendorId v > 0 then [(''VendorId'', [AU32 (vendorId v)])] else []))"

definition nonempty :: "string \<Rightarrow> avp_value list \<Rightarrow> acl" where
  "nonempty name vs = (if vs = [] then [] else [(name, vs)])"

definition ce_acl :: "peer_env \<Rightarrow> bool \<Rightarrow> int \<Rightarrow> acl" where
  "ce_acl cfg tls proto =
     nonempty ''SupportedVendorId'' (map AU32 (cfg_supportedVendorIdLst cfg))
     @ nonempty ''AuthApplicationId'' (map AU32 (cfg_authAppIdLst cfg))
     @ nonempty ''AcctApplicationId'' (map AU32 (cfg_acctAppIdLst cfg))
     @ nonempty ''VendorSpecificApplicationId'' (map vendor_group (cfg_vendorSpecificId cfg))
     @ [(''OriginHost'', [AStr (cfg_identity cfg)]),
        (''OriginRealm'', [AStr (cfg_realm cfg)]),
        (''HostIPAddress'', AAddr 1 (env_local_addr cfg)
            # (if proto = IPPROTO_SCTP
               then advertised (env_resolve cfg) (cfg_advertised_hostname cfg) else [])),
        (''VendorId'', [AU32 (cfg_vendor cfg)]),
        (''ProductName'', [AStr (cfg_product cfg)]),
        (''OriginStateId'', [AU32 (cfg_originStateId cfg)]),
        (''FirmwareRevision'', [AU32 (cfg_version cfg)]),
        (''InbandSecurityId'', [AU32 (if tls then 1 else 0)])]"

text \<open>
  The identifiers are drawn before the transport is asked for its protocol; without a
  transport that is a null dereference.
\<close>

definition AssembleCE :: "peer_env \<Rightarrow> bool \<Rightarrow> peer \<Rightarrow> diameter_msg \<times> peer" where
  "AssembleCE cfg request w =
     (case MsgIdTxMessage (ce_header MSG_CAPABILITIES_EXCHG request) w of (msg, w1) \<Rightarrow>
        (case TransportProtocolInUse w1 of
           None \<Rightarrow> (msg, null_deref w1)
         | Some proto \<Rightarrow> (msg\<lparr>acl := ce_acl cfg (m_TLS w1) proto\<rparr>, w1)))"

text \<open>The loops that read entry 0, 1, 2, \<dots> of a container until there is none.\<close>

fun collect :: "(avp_value option \<Rightarrow> 'a option) \<Rightarrow> avp_value list \<Rightarrow> 'a list" where
  "collect as [] = []"
| "collect as (v # vs) = (case as (Some v) of None \<Rightarrow> [] | Some x \<Rightarrow> x # collect as vs)"

definition GetAll :: "(avp_value option \<Rightarrow> 'a option) \<Rightarrow> string \<Rightarrow> acl \<Rightarrow> 'a list" where
  "GetAll as name lst = (case acl_search name lst of None \<Rightarrow> [] | Some vs \<Rightarrow> collect as vs)"

definition str_or_empty :: "string option \<Rightarrow> string" where
  "str_or_empty x = (case x of None \<Rightarrow> [] | Some s \<Rightarrow> s)"

definition u32_or_zero :: "u32 option \<Rightarrow> u32" where
  "u32_or_zero x = (case x of None \<Rightarrow> 0 | Some w \<Rightarrow> w)"

definition vendor_of_group :: "acl \<Rightarrow> vendor_app" where
  "vendor_of_group g =
     (let vid = u32_or_zero (GetU32 ''VendorId'' 0 g) in
      case GetU32 ''AuthApplicationId'' 0 g of
        Some a \<Rightarrow> \<lparr>vendorId = vid, authAppId = a, acctAppId = 0\<rparr>
      | None \<Rightarrow> \<lparr>vendorId = vid, authAppId = 0,
                 acctAppId = u32_or_zero (GetU32 ''AcctApplicationId'' 0 g)\<rparr>)"

fun vendor_list :: "acl list \<Rightarrow> vendor_app list" where
  "vendor_list [] = []"
| "vendor_list (g # gs) =
     (let v = vendor_of_group g in
      if acctAppId v \<noteq> 0 \<or> authAppId v \<noteq> 0 then v # vendor_list gs else vendor_list gs)"

definition caps_of :: "acl \<Rightarrow> msg_ids \<Rightarrow> peer_caps" where
  "caps_of l ids =
     \<lparr>m_Host = str_or_empty (GetStr ''OriginHost'' 0 l),
      m_Realm = str_or_empty (GetStr ''OriginRealm'' 0 l),
      m_ProductName = str_or_empty (GetStr ''ProductName'' 0 l),
      m_VendorId = u32_or_zero (GetU32 ''VendorId'' 0 l),
      m_InbandSecurityId = u32_or_zero (GetU32 ''InbandSecurityId'' 0 l),
      m_OriginStateId = u32_or_zero (GetU32 ''OriginStateId'' 0 l),
      m_FirmwareRevision = u32_or_zero (GetU32 ''FirmwareRevision'' 0 l),
      m_SupportedVendorIdLst = GetAll as_u32 ''SupportedVendorId'' l,
      m_AuthAppIdLst = GetAll as_u32 ''AuthApplicationId'' l,
      m_HostIpLst = GetAll as_addr ''HostIPAddress'' l,
      m_AcctAppIdLst = GetAll as_u32 ''AcctApplicationId'' l,
      m_VendorSpecificId = vendor_list (GetAll as_grouped ''VendorSpecificApplicationId'' l),
      m_MsgId = ids\<rparr>"

definition DisassembleCE :: "diameter_msg \<Rightarrow> peer \<Rightarrow> peer" where
  "DisassembleCE msg w =
     w\<lparr>m_PeerCapabilities := caps_of (acl msg) (m_MsgId (m_PeerCapabilities w))\<rparr>"

section \<open>Watchdog and disconnect messages\<close>

definition AssembleDW :: "('a) dia_config_scheme \<Rightarrow> bool \<Rightarrow> peer \<Rightarrow> diameter_msg \<times> peer" where
  "AssembleDW cfg request w =
     (case MsgIdTxMessage (ce_header MSG_WATCHDOG request) w of (msg, w1) \<Rightarrow>
        (msg\<lparr>acl := [(''OriginHost'', [AStr (cfg_identity cfg)]),
                    (''OriginRealm'', [AStr (cfg_realm cfg)]),
                    (''OriginStateId'', [AU32 (cfg_originStateId cfg)])]\<rparr>, w1))"

definition AssembleDP :: "('a) dia_config_scheme \<Rightarrow> bool \<Rightarrow> peer \<Rightarrow> diameter_msg \<times> peer" where
  "AssembleDP cfg request w =
     (case MsgIdTxMessage (ce_header MSG_DISCONNECT_PEER request) w of (msg, w1) \<Rightarrow>
        (msg\<lparr>acl := [(''OriginHost'', [AStr (cfg_identity cfg)]),
                    (''OriginRealm'', [AStr (cfg_realm cfg)])]\<rparr>, w1))"

section \<open>Sending\<close>

definition add_avp :: "avp_container \<Rightarrow> diameter_msg \<Rightarrow> diameter_msg" where
  "add_avp c m = m\<lparr>acl := acl m @ [c]\<rparr>"

definition collector_Send :: "diameter_msg \<Rightarrow> io option \<Rightarrow> peer \<Rightarrow> peer" where
  "collector_Send msg x w = emit (Sent x msg) w"

text \<open>The resulting state decides which transport an answer or a watchdog uses.\<close>

definition io_of_state :: "peer \<Rightarrow> io option" where
  "io_of_state w = (if p_state w = PS_I_OPEN then m_IOInitiator w else m_IOResponder w)"

definition SendCER :: "peer_env \<Rightarrow> peer \<Rightarrow> peer" where
  "SendCER cfg w =
     (case AssembleCE cfg True w of (msg, w1) \<Rightarrow>
        if p_fault w1 then w1 else collector_Send msg (m_IOInitiator w1) w1)"

definition SendCEA :: "peer_env \<Rightarrow> u32 \<Rightarrow> string \<Rightarrow> peer \<Rightarrow> peer" where
  "SendCEA cfg rc message w =
     (case AssembleCE cfg False w of (msg, w1) \<Rightarrow>
        if p_fault w1 then w1
        else let m1 = add_avp (''ResultCode'', [AU32 rc]) msg;
                 ir = InterpretedCode rc;
                 m2 = (if length message > 0 \<and> ir \<noteq> RCODE_NOT_PRESENT \<and> ir \<noteq> RCODE_SUCCESS
                       then add_avp (''ErrorMessage'', [AStr message]) m1 else m1)
             in collector_Send m2 (io_of_state w1) w1)"

definition SendDWR :: "('a) dia_config_scheme \<Rightarrow> peer \<Rightarrow> peer" where
  "SendDWR cfg w =
     (case AssembleDW cfg True w of (msg, w1) \<Rightarrow> collector_Send msg (io_of_state w1) w1)"

definition SendDWA :: "('a) dia_config_scheme \<Rightarrow> u32 \<Rightarrow> string \<Rightarrow> peer \<Rightarrow> peer" where
  "SendDWA cfg rc message w =
     (case AssembleDW cfg False w of (msg, w1) \<Rightarrow>
        let m1 = add_avp (''ResultCode'', [AU32 rc]) msg;
            m2 = (if length message > 0 \<and> InterpretedCode rc = RCODE_SUCCESS
                  then add_avp (''ErrorMessage'', [AStr message]) m1 else m1)
        in collector_Send m2 (io_of_state w1) w1)"

definition io_by_side :: "bool \<Rightarrow> peer \<Rightarrow> io option" where
  "io_by_side initiator w = (if initiator then m_IOInitiator w else m_IOResponder w)"

definition SendDPR :: "('a) dia_config_scheme \<Rightarrow> bool \<Rightarrow> peer \<Rightarrow> peer" where
  "SendDPR cfg initiator w =
     (case AssembleDP cfg True w of (msg, w1) \<Rightarrow>
        collector_Send
          (add_avp (''DisconnectCause'', [AU32 (m_DisconnectCause w1)]) msg)
          (io_by_side initiator w1) w1)"

definition SendDPA :: "('a) dia_config_scheme \<Rightarrow> bool \<Rightarrow> u32 \<Rightarrow> peer \<Rightarrow> peer" where
  "SendDPA cfg initiator rc w =
     (case AssembleDP cfg False w of (msg, w1) \<Rightarrow>
        collector_Send (add_avp (''ResultCode'', [AU32 rc]) msg) (io_by_side initiator w1) w1)"

section \<open>The capabilities a peer reads are those that were advertised\<close>

lemma acl_search_nonempty:
  "acl_search n (nonempty name vs @ l) =
     (if n = name \<and> vs \<noteq> [] then Some vs else acl_search n l)"
  by (simp add: nonempty_def)

lemma collect_map_u32: "collect as_u32 (map AU32 xs) = xs"
  by (induction xs) simp_all

text \<open>What a receiver can know of the vendor specific applications of the sender: a group
  with an authentication application loses its accounting application, and a group with
  neither is dropped.\<close>

definition seen_vendors :: "vendor_app list \<Rightarrow> vendor_app list" where
  "seen_vendors vs =
     map (\<lambda>v. if authAppId v \<noteq> 0 then v\<lparr>acctAppId := 0\<rparr> else v)
       (filter (\<lambda>v. authAppId v \<noteq> 0 \<or> acctAppId v \<noteq> 0) vs)"

lemma vendor_of_group_sent:
  "vendor_group v = AGrouped g \<Longrightarrow>
     vendor_of_group g = (if authAppId v \<noteq> 0 then v\<lparr>acctAppId := 0\<rparr> else v)"
  by (cases v) (auto simp: vendor_group_def vendor_of_group_def GetU32_def GetAvp_def
      u32_or_zero_def word_gt_0 Let_def)

lemma vendor_list_sent:
  "vendor_list (collect as_grouped (map vendor_group vs)) = seen_vendors vs"
proof (induction vs)
  case (Cons v vs)
  obtain g where g: "vendor_group v = AGrouped g" by (simp add: vendor_group_def)
  show ?case
    using Cons by (auto simp: g vendor_of_group_sent [OF g] seen_vendors_def Let_def)
qed (simp add: seen_vendors_def)

lemma collect_advertised:
  "collect as_addr (advertised f hs) = map (\<lambda>a. (1, a)) (List.map_filter f hs)"
  by (induction hs) (auto simp: map_filter_simps split: option.splits)

lemma GetAll_collect [simp]:
  "GetAll as n l = (case acl_search n l of None \<Rightarrow> [] | Some vs \<Rightarrow> collect as vs)"
  by (simp add: GetAll_def)

text \<open>C13: a capabilities exchange conveys the configuration of its sender: reading the
  assembled AVPs yields the sender's identity, realm, product, vendor, state, firmware,
  security and application lists, its addresses (the advertised ones over SCTP only), and
  of its vendor specific applications what \<open>seen_vendors\<close> leaves of them.\<close>

theorem DisassembleCE_AssembleCE:
  "caps_of (ce_acl cfg tls proto) ids =
     \<lparr>m_Host = cfg_identity cfg, m_Realm = cfg_realm cfg, m_ProductName = cfg_product cfg,
      m_VendorId = cfg_vendor cfg, m_InbandSecurityId = (if tls then 1 else 0),
      m_OriginStateId = cfg_originStateId cfg, m_FirmwareRevision = cfg_version cfg,
      m_SupportedVendorIdLst = cfg_supportedVendorIdLst cfg,
      m_AuthAppIdLst = cfg_authAppIdLst cfg,
      m_HostIpLst = (1, env_local_addr cfg)
         # (if proto = IPPROTO_SCTP
            then map (\<lambda>a. (1, a))
                   (List.map_filter (env_resolve cfg) (cfg_advertised_hostname cfg))
            else []),
      m_AcctAppIdLst = cfg_acctAppIdLst cfg,
      m_VendorSpecificId = seen_vendors (cfg_vendorSpecificId cfg),
      m_MsgId = ids\<rparr>"
  by (simp add: caps_of_def ce_acl_def acl_search_nonempty GetStr_def GetU32_def GetAvp_def
      str_or_empty_def u32_or_zero_def collect_map_u32 vendor_list_sent collect_advertised
      seen_vendors_def)

section \<open>What validation accepts\<close>

definition relay_or_eq :: "u32 \<Rightarrow> u32 \<Rightarrow> bool" where
  "relay_or_eq i j \<longleftrightarrow>
     i = DIAMETER_RELAY_APPLICATION_ID \<or> j = DIAMETER_RELAY_APPLICATION_ID \<or> i = j"

text \<open>The identifiers a configuration supports, in any role.\<close>

definition local_ids :: "('a) dia_config_scheme \<Rightarrow> u32 set" where
  "local_ids cfg = set (cfg_authAppIdLst cfg) \<union> set (cfg_acctAppIdLst cfg)
     \<union> authAppId ` set (cfg_vendorSpecificId cfg) \<union> acctAppId ` set (cfg_vendorSpecificId cfg)"

definition peer_ids :: "peer_caps \<Rightarrow> u32 set" where
  "peer_ids c = set (m_AuthAppIdLst c) \<union> set (m_AcctAppIdLst c)
     \<union> authAppId ` set (m_VendorSpecificId c) \<union> acctAppId ` set (m_VendorSpecificId c)"

lemma Find_id_iff: "Find_id i l \<longleftrightarrow> (\<exists>j \<in> set l. relay_or_eq i j)"
  by (induction l) (auto simp: relay_or_eq_def)

lemma Find_lists_iff: "Find_lists i ls \<longleftrightarrow> (\<exists>l \<in> set ls. \<exists>j \<in> set l. relay_or_eq i j)"
  by (induction ls) (auto simp: Find_id_iff)

lemma Find_vendor_iff:
  "Find_vendor i vs \<longleftrightarrow>
     (\<exists>v \<in> set vs. relay_or_eq i (authAppId v) \<or> relay_or_eq i (acctAppId v))"
  by (induction vs) (auto simp: relay_or_eq_def)

lemma found_iff:
  "Find_lists i (local_lists cfg) \<or> Find_vendor i (cfg_vendorSpecificId cfg)
     \<longleftrightarrow> (\<exists>j \<in> local_ids cfg. relay_or_eq i j)"
  by (auto simp: Find_lists_iff Find_vendor_iff local_lists_def local_ids_def)

lemma common_id_iff:
  "common_id cfg l \<longleftrightarrow> (\<exists>i \<in> set l. \<exists>j \<in> local_ids cfg. relay_or_eq i j)"
  by (induction l) (auto simp flip: found_iff)

lemma common_vendor_iff:
  "common_vendor cfg vs \<longleftrightarrow>
     (\<exists>i \<in> authAppId ` set vs \<union> acctAppId ` set vs. \<exists>j \<in> local_ids cfg. relay_or_eq i j)"
  by (induction vs) (auto simp flip: found_iff)

text \<open>C12: a peer passes validation exactly when some application identifier it advertised,
  in any role, is one that the configuration supports in any role, the relay identifier on
  either side standing for all (provided the other side lists one at all), and its in-band
  security identifier is the TLS setting of the entry; the two failures are distinguished,
  and the application check comes first.\<close>

theorem ValidatePeer_spec:
  "ValidatePeer cfg w =
     (if \<not> (\<exists>i \<in> peer_ids (m_PeerCapabilities w). \<exists>j \<in> local_ids cfg. relay_or_eq i j)
      then (False, AAA_NO_COMMON_APPLICATION, ''No common application id'')
      else if m_InbandSecurityId (m_PeerCapabilities w) \<noteq> (if m_TLS w then 1 else 0)
      then (False, AAA_NO_COMMON_SECURITY, ''No matching in-band security id'')
      else (True, AAA_SUCCESS, ''Capabilities negotiation completed successfully''))"
proof -
  let ?c = "m_PeerCapabilities w"
  have "(common_id cfg (m_AuthAppIdLst ?c) \<or> common_id cfg (m_AcctAppIdLst ?c)
      \<or> common_vendor cfg (m_VendorSpecificId ?c))
    \<longleftrightarrow> (\<exists>i \<in> peer_ids ?c. \<exists>j \<in> local_ids cfg. relay_or_eq i j)"
    unfolding common_id_iff common_vendor_iff peer_ids_def by blast
  then show ?thesis by (auto simp: ValidatePeer_def Let_def)
qed

end
