(* ===== verification/Peer_Fsm.thy ===== *)
theory Peer_Fsm
  imports Peer_Caps
begin

text \<open>
  The peer state machine of \<open>libdiameter/src/aaa_peer_fsm.cxx\<close>: the election, one
  definition per action class, the service of a queued event (\<open>Serve\<close>), and the
  invariant that every served event preserves.
\<close>

section \<open>Election\<close>

text \<open>\<open>char\<close> is signed on the platforms the library is built for.\<close>

definition schar :: "char \<Rightarrow> int" where
  "schar c = (let n = (of_char c :: int) in if n \<ge> 128 then n - 256 else n)"

fun elect_loop :: "string \<Rightarrow> string \<Rightarrow> bool" where
  "elect_loop (a # as) (b # bs) =
     (if a = b then elect_loop as bs else schar a > schar b)"
| "elect_loop _ _ = False"

datatype elect_result = SameHost | LocalWins | PeerWins

definition elect_pad :: "nat \<Rightarrow> string \<Rightarrow> string" where
  "elect_pad n s = s @ replicate n (char_of (8 :: nat))"

definition elect_by :: "string \<Rightarrow> string \<Rightarrow> elect_result" where
  "elect_by l p = (if elect_loop l p then LocalWins else PeerWins)"

definition election :: "string \<Rightarrow> string \<Rightarrow> elect_result" where
  "election l p =
     (if length l < length p then elect_by (elect_pad (length p - length l) l) p
      else if length l > length p then elect_by l (elect_pad (length l - length p) p)
      else if l = p then SameHost
      else elect_by l p)"

definition Elect :: "('a) dia_config_scheme \<Rightarrow> peer \<Rightarrow> peer" where
  "Elect cfg w =
     (case election (cfg_identity cfg) (m_Host (m_PeerCapabilities w)) of
        SameHost \<Rightarrow> Cleanup CLEANUP_ALL w
      | LocalWins \<Rightarrow> Notify PEV_WIN_ELECTION None None w
      | PeerWins \<Rightarrow> w)"

section \<open>Actions\<close>

definition with_msg :: "(diameter_msg \<Rightarrow> peer \<Rightarrow> peer) \<Rightarrow> peer \<Rightarrow> peer" where
  "with_msg f w =
     (case take_msg w of (m, w1) \<Rightarrow>
        if p_fault w1 then w1
        else (case m of None \<Rightarrow> null_deref w1 | Some msg \<Rightarrow> f msg w1))"

definition arm_watchdog :: "('a) dia_config_scheme \<Rightarrow> peer \<Rightarrow> peer" where
  "arm_watchdog cfg =
     p_schedule PEV_WATCHDOG (unat (cfg_watchdog_timeout cfg)) T_WATCHDOG"

definition arm_timeout :: "peer \<Rightarrow> peer" where
  "arm_timeout = p_schedule PEV_TIMEOUT DIAMETER_PEER_CONNECT_ATTEMPT_TOUT T_TIMEOUT"

definition R_ISendConnReq :: "peer \<Rightarrow> peer" where
  "R_ISendConnReq = arm_timeout"

definition R_AcceptSendCEA :: "peer_env \<Rightarrow> peer \<Rightarrow> peer" where
  "R_AcceptSendCEA cfg = steps [
     responder_from_event,
     with_msg (\<lambda>cer. steps [
       DisassembleCE cer,
       \<lambda>w. (case ValidatePeer cfg w of (valid, rc, message) \<Rightarrow>
         steps (SendCEA cfg rc message #
           (if \<not> valid then [Cleanup CLEANUP_ALL]
            else [p_cancel T_TIMEOUT, arm_watchdog cfg, StopReConnect, emit Connected])) w)])]"

definition I_SendCER :: "peer_env \<Rightarrow> peer \<Rightarrow> peer" where
  "I_SendCER cfg = steps [initiator_from_event, SendCER cfg]"

definition P_ConnNack :: "peer_env \<Rightarrow> peer \<Rightarrow> peer" where
  "P_ConnNack cfg = steps [
     Cleanup CLEANUP_ALL, DoReConnect cfg,
     emit (ErrorNotified AAA_UNABLE_TO_COMPLY)]"

text \<open>\<open>DiameterPeerEntry::Start\<close>, called by the retry action and by the owner.\<close>

definition Entry_Start :: "peer \<Rightarrow> peer" where
  "Entry_Start = steps [
     Notify PEV_START None None,
     \<lambda>w. emit (ConnectTo (m_Identity w) (m_Port w) (m_UseSctp w)) w]"

definition P_ReConnect :: "peer \<Rightarrow> peer" where
  "P_ReConnect = steps [StopReConnect, Entry_Start]"

definition R_Accept :: "peer_env \<Rightarrow> peer \<Rightarrow> peer" where
  "R_Accept cfg = steps [
     responder_from_event,
     with_msg (\<lambda>cer. steps [
       DisassembleCE cer,
       \<lambda>w. (case ValidatePeer cfg w of (valid, rc, message) \<Rightarrow>
         if \<not> valid then Cleanup CLEANUP_ALL w else w)])]"

definition P_Error :: "peer \<Rightarrow> peer" where
  "P_Error = steps [Cleanup CLEANUP_ALL, emit (ErrorNotified AAA_LIMITED_SUCCESS)]"

definition P_ProcessCEA :: "peer_env \<Rightarrow> peer \<Rightarrow> peer" where
  "P_ProcessCEA cfg = with_msg (\<lambda>cea.
     if InterpretedResultCode cea = RCODE_SUCCESS then
       steps [DisassembleCE cea, StopReConnect, p_cancel T_TIMEOUT, arm_watchdog cfg,
              emit Connected]
     else Cleanup CLEANUP_ALL)"

definition R_AcceptElect :: "peer_env \<Rightarrow> peer \<Rightarrow> peer" where
  "R_AcceptElect cfg = steps [
     responder_from_event,
     with_msg (\<lambda>cer. steps [
       DisassembleCE cer,
       \<lambda>w. (case ValidatePeer cfg w of (valid, rc, message) \<Rightarrow>
         if \<not> valid then Cleanup (CLEANUP_ALL AND NOT CLEANUP_IO_I) w else Elect cfg w)])]"

definition I_SendCERElect :: "peer_env \<Rightarrow> peer \<Rightarrow> peer" where
  "I_SendCERElect cfg = steps [initiator_from_event, SendCER cfg, Elect cfg]"

definition win_message :: string where
  "win_message = ''Capabilities negotiation completed successfully (win-election)''"

definition R_SendCEA :: "peer_env \<Rightarrow> peer \<Rightarrow> peer" where
  "R_SendCEA cfg = steps [
     responder_from_event, SendCEA cfg AAA_SUCCESS win_message,
     p_cancel T_TIMEOUT, arm_watchdog cfg, emit Connected]"

definition R_SendCEAOpen :: "peer_env \<Rightarrow> peer \<Rightarrow> peer" where
  "R_SendCEAOpen cfg = with_msg (\<lambda>cer. steps [
     DisassembleCE cer,
     \<lambda>w. (case ValidatePeer cfg w of (valid, rc, message) \<Rightarrow> SendCEA cfg rc message w)])"

definition R_DisconnectResp :: "peer \<Rightarrow> peer" where
  "R_DisconnectResp = gc_responder"

definition R_DisconnectIOpen :: "peer_env \<Rightarrow> peer \<Rightarrow> peer" where
  "R_DisconnectIOpen cfg = with_msg (\<lambda>cea.
     if InterpretedResultCode cea = RCODE_SUCCESS then
       steps [DisassembleCE cea, p_cancel T_TIMEOUT, arm_watchdog cfg, gc_responder,
              emit Connected]
     else Cleanup CLEANUP_ALL)"

definition R_Reject :: "peer \<Rightarrow> peer" where
  "R_Reject w =
     (case take_io w of (x, w1) \<Rightarrow>
        if p_fault w1 then w1
        else (case take_msg w1 of (_, w2) \<Rightarrow> delete_io x w2))"

definition I_DisconnectSendCEA :: "peer_env \<Rightarrow> peer \<Rightarrow> peer" where
  "I_DisconnectSendCEA cfg = steps [
     gc_initiator, SendCEA cfg AAA_SUCCESS win_message,
     p_cancel T_TIMEOUT, arm_watchdog cfg, emit Connected]"

text \<open>The two message sending actions are empty: \<open>ASYNC_SEND\<close> is not defined.\<close>

definition P_SendMessage :: "peer \<Rightarrow> peer" where
  "P_SendMessage w = w"

definition P_Process :: "peer \<Rightarrow> peer" where
  "P_Process = with_msg (\<lambda>msg.
     if IsRequest msg then emit (RouteRequest msg) else emit (RouteAnswer msg))"

definition ProcessDWRSendDWA :: "peer_env \<Rightarrow> peer \<Rightarrow> peer" where
  "ProcessDWRSendDWA cfg =
     with_msg (\<lambda>dwr. SendDWA cfg AAA_SUCCESS ''Successful device watchdog'')"

definition P_ProcessDWA :: "peer \<Rightarrow> peer" where
  "P_ProcessDWA = with_msg (\<lambda>dwa w.
     if InterpretedResultCode dwa = RCODE_SUCCESS then w else Cleanup CLEANUP_ALL w)"

definition I_SendCEA :: "peer_env \<Rightarrow> peer \<Rightarrow> peer" where
  "I_SendCEA cfg = with_msg (\<lambda>cer. steps [
     DisassembleCE cer,
     \<lambda>w. (case ValidatePeer cfg w of (valid, rc, message) \<Rightarrow> SendCEA cfg rc message w)])"

definition I_SendDPR :: "peer_env \<Rightarrow> peer \<Rightarrow> peer" where
  "I_SendDPR cfg = steps [p_cancel T_WATCHDOG, arm_timeout, SendDPR cfg True]"

definition R_SendDPR :: "peer_env \<Rightarrow> peer \<Rightarrow> peer" where
  "R_SendDPR cfg = steps [p_cancel T_WATCHDOG, arm_timeout, SendDPR cfg False]"

definition disconnect_cause :: "diameter_msg \<Rightarrow> u32" where
  "disconnect_cause dpr =
     (case GetU32 ''DisconnectCause'' 0 (acl dpr) of
        Some c \<Rightarrow> c | None \<Rightarrow> AAA_DISCONNECT_UNKNOWN)"

definition I_SendDPADisconnect :: "peer_env \<Rightarrow> peer \<Rightarrow> peer" where
  "I_SendDPADisconnect cfg = with_msg (\<lambda>dpr. steps [
     SendDPA cfg True AAA_SUCCESS, Cleanup CLEANUP_ALL,
     emit (Disconnected (disconnect_cause dpr))])"

definition R_SendDPADisconnect :: "peer_env \<Rightarrow> peer \<Rightarrow> peer" where
  "R_SendDPADisconnect cfg = with_msg (\<lambda>dpr. steps [
     SendDPA cfg False AAA_SUCCESS, Cleanup CLEANUP_ALL,
     emit (Disconnected (disconnect_cause dpr))])"

definition P_Disconnect :: "peer_env \<Rightarrow> peer \<Rightarrow> peer" where
  "P_Disconnect cfg = steps [
     Cleanup CLEANUP_ALL, DoReConnect cfg,
     emit (Disconnected AAA_DISCONNECT_TRANSPORT)]"

definition P_DisconnectDPA :: "peer_env \<Rightarrow> peer \<Rightarrow> peer" where
  "P_DisconnectDPA cfg = with_msg (\<lambda>dpa. steps [
     \<lambda>w. emit (Disconnected (m_DisconnectCause w)) w,
     Cleanup CLEANUP_ALL,
     \<lambda>w. if m_DisconnectCause w = AAA_DISCONNECT_REBOOTING
         then DoReConnect cfg w else w])"

definition P_Watchdog :: "peer_env \<Rightarrow> peer \<Rightarrow> peer" where
  "P_Watchdog cfg = SendDWR cfg"

fun peer_action :: "peer_env \<Rightarrow> peer_ac \<Rightarrow> peer \<Rightarrow> peer" where
  "peer_action cfg PAC_ISendConnReq = R_ISendConnReq"
| "peer_action cfg PAC_RAcceptSendCEA = R_AcceptSendCEA cfg"
| "peer_action cfg PAC_ISendCER = I_SendCER cfg"
| "peer_action cfg PAC_ConnNack = P_ConnNack cfg"
| "peer_action cfg PAC_Cleanup = Cleanup CLEANUP_ALL"
| "peer_action cfg PAC_Retry = P_ReConnect"
| "peer_action cfg PAC_RAccept = R_Accept cfg"
| "peer_action cfg PAC_Error = P_Error"
| "peer_action cfg PAC_ProcessCEA = P_ProcessCEA cfg"
| "peer_action cfg PAC_RAcceptElect = R_AcceptElect cfg"
| "peer_action cfg PAC_Disconnect = P_Disconnect cfg"
| "peer_action cfg PAC_DisconnectDPA = P_DisconnectDPA cfg"
| "peer_action cfg PAC_ISendCERElect = I_SendCERElect cfg"
| "peer_action cfg PAC_RSendCEA = R_SendCEA cfg"
| "peer_action cfg PAC_RSendCEAOpen = R_SendCEAOpen cfg"
| "peer_action cfg PAC_RDisconnectResp = R_DisconnectResp"
| "peer_action cfg PAC_RDisconnectIOpen = R_DisconnectIOpen cfg"
| "peer_action cfg PAC_RReject = R_Reject"
| "peer_action cfg PAC_IDisconnectSendCEA = I_DisconnectSendCEA cfg"
| "peer_action cfg PAC_RSendMessage = P_SendMessage"
| "peer_action cfg PAC_Process = P_Process"
| "peer_action cfg PAC_ProcessDWRSendDWA = ProcessDWRSendDWA cfg"
| "peer_action cfg PAC_ProcessDWA = P_ProcessDWA"
| "peer_action cfg PAC_ISendDPR = I_SendDPR cfg"
| "peer_action cfg PAC_RSendDPR = R_SendDPR cfg"
| "peer_action cfg PAC_ISendDPADisconnect = I_SendDPADisconnect cfg"
| "peer_action cfg PAC_RSendDPADisconnect = R_SendDPADisconnect cfg"
| "peer_action cfg PAC_ISendMessage = P_SendMessage"
| "peer_action cfg PAC_ISendCEA = I_SendCEA cfg"
| "peer_action cfg PAC_Watchdog = P_Watchdog cfg"
| "peer_action cfg PAC_Null = (\<lambda>w. w)"

section \<open>Service of the event queue\<close>

definition set_p_state :: "peer_st \<Rightarrow> peer \<Rightarrow> peer" where
  "set_p_state s w = w\<lparr>p_state := s\<rparr>"

definition Event :: "peer_env \<Rightarrow> peer_ev \<Rightarrow> peer \<Rightarrow> peer" where
  "Event cfg ev =
     sm_event peer_state_table p_running p_state set_p_state (peer_action cfg) ev"

text \<open>\<open>Serve\<close>: what is left of the event is destroyed with it.\<close>

definition drop_event :: "peer \<Rightarrow> peer" where
  "drop_event w =
     (case m_CurrentPeerEventParam w of
        None \<Rightarrow> null_deref w
      | Some p \<Rightarrow> delete_io (pp_io p) (w\<lparr>m_CurrentPeerEventParam := None\<rparr>))"

definition Serve :: "peer_env \<Rightarrow> peer \<Rightarrow> peer" where
  "Serve cfg w =
     (case Dequeue (m_EventQueue w) of
        None \<Rightarrow> null_deref w
      | Some (p, q) \<Rightarrow>
          steps [\<lambda>w. w\<lparr>m_EventQueue := q, m_CurrentPeerEventParam := Some p\<rparr>,
                 Event cfg (pp_event p),
                 drop_event] w)"

end
