(* ===== verification/Peer_Inv.thy ===== *)
theory Peer_Inv
  imports Peer_Fsm
begin

text \<open>
  The invariant of the peer state machine and its preservation by every event that is
  served, by way of the contract \<open>event_machine\<close> between a table and its actions.
\<close>

section \<open>Frame facts\<close>

text \<open>What each building block of the actions does to the part of the state that the
  invariant speaks about.\<close>

lemma emit_frame [effect_simps]:
  "p_state (emit e w) = p_state w"
  "p_running (emit e w) = p_running w"
  "p_timers (emit e w) = p_timers w"
  "m_IOInitiator (emit e w) = m_IOInitiator w"
  "m_IOResponder (emit e w) = m_IOResponder w"
  "m_CurrentPeerEventParam (emit e w) = m_CurrentPeerEventParam w"
  "m_EventQueue (emit e w) = m_EventQueue w"
  "p_fault (emit e w) = p_fault w"
  by (simp_all add: emit_def)

lemma delete_io_frame [effect_simps]:
  "p_state (delete_io x w) = p_state w"
  "p_running (delete_io x w) = p_running w"
  "p_timers (delete_io x w) = p_timers w"
  "m_IOInitiator (delete_io x w) = m_IOInitiator w"
  "m_IOResponder (delete_io x w) = m_IOResponder w"
  "m_CurrentPeerEventParam (delete_io x w) = m_CurrentPeerEventParam w"
  "m_EventQueue (delete_io x w) = m_EventQueue w"
  "p_fault (delete_io x w) = p_fault w"
  by (simp_all add: delete_io_def effect_simps split: option.splits)

lemma ScheduleForDeletion_frame [effect_simps]:
  "p_state (ScheduleForDeletion x w) = p_state w"
  "p_running (ScheduleForDeletion x w) = p_running w"
  "p_timers (ScheduleForDeletion x w) = p_timers w"
  "m_IOInitiator (ScheduleForDeletion x w) = m_IOInitiator w"
  "m_IOResponder (ScheduleForDeletion x w) = m_IOResponder w"
  "m_CurrentPeerEventParam (ScheduleForDeletion x w) = m_CurrentPeerEventParam w"
  "m_EventQueue (ScheduleForDeletion x w) = m_EventQueue w"
  "p_fault (ScheduleForDeletion x w) = p_fault w"
  by (simp_all add: ScheduleForDeletion_def effect_simps split: option.splits)

lemma DisassembleCE_frame [effect_simps]:
  "p_state (DisassembleCE m w) = p_state w"
  "p_running (DisassembleCE m w) = p_running w"
  "p_timers (DisassembleCE m w) = p_timers w"
  "m_IOInitiator (DisassembleCE m w) = m_IOInitiator w"
  "m_IOResponder (DisassembleCE m w) = m_IOResponder w"
  "m_CurrentPeerEventParam (DisassembleCE m w) = m_CurrentPeerEventParam w"
  "m_EventQueue (DisassembleCE m w) = m_EventQueue w"
  "p_fault (DisassembleCE m w) = p_fault w"
  by (simp_all add: DisassembleCE_def)

lemma Notify_frame [effect_simps]:
  "p_state (Notify ev m x w) = p_state w"
  "p_running (Notify ev m x w) = p_running w"
  "p_timers (Notify ev m x w) = p_timers w"
  "m_IOInitiator (Notify ev m x w) = m_IOInitiator w"
  "m_IOResponder (Notify ev m x w) = m_IOResponder w"
  "m_CurrentPeerEventParam (Notify ev m x w) = m_CurrentPeerEventParam w"
  "p_fault (Notify ev m x w) = p_fault w"
  "p_running w \<Longrightarrow> m_EventQueue (Notify ev m x w) =
     m_EventQueue w @ [\<lparr>pp_event = ev, pp_msg = m, pp_io = x\<rparr>]"
  by (simp_all add: Notify_def Enqueue_def)

lemma p_schedule_frame [effect_simps]:
  "p_state (p_schedule ev sec ty w) = p_state w"
  "p_running (p_schedule ev sec ty w) = p_running w"
  "m_IOInitiator (p_schedule ev sec ty w) = m_IOInitiator w"
  "m_IOResponder (p_schedule ev sec ty w) = m_IOResponder w"
  "m_CurrentPeerEventParam (p_schedule ev sec ty w) = m_CurrentPeerEventParam w"
  "m_EventQueue (p_schedule ev sec ty w) = m_EventQueue w"
  "p_fault (p_schedule ev sec ty w) = p_fault w"
  "p_timers (p_schedule ev sec ty w) = (p_timers w)(ty \<mapsto> (ev, sec))"
  by (simp_all add: p_schedule_def ScheduleTimer_def CancelTimer_def)

lemma p_cancel_frame [effect_simps]:
  "p_state (p_cancel ty w) = p_state w"
  "p_running (p_cancel ty w) = p_running w"
  "m_IOInitiator (p_cancel ty w) = m_IOInitiator w"
  "m_IOResponder (p_cancel ty w) = m_IOResponder w"
  "m_CurrentPeerEventParam (p_cancel ty w) = m_CurrentPeerEventParam w"
  "m_EventQueue (p_cancel ty w) = m_EventQueue w"
  "p_fault (p_cancel ty w) = p_fault w"
  "p_timers (p_cancel ty w) = (p_timers w)(ty := None)"
  by (simp_all add: p_cancel_def CancelTimer_def)

lemma set_p_state_frame [effect_simps]:
  "p_running (set_p_state s w) = p_running w"
  "p_timers (set_p_state s w) = p_timers w"
  "m_IOInitiator (set_p_state s w) = m_IOInitiator w"
  "m_IOResponder (set_p_state s w) = m_IOResponder w"
  "m_CurrentPeerEventParam (set_p_state s w) = m_CurrentPeerEventParam w"
  "m_EventQueue (set_p_state s w) = m_EventQueue w"
  "p_fault (set_p_state s w) = p_fault w"
  "p_state (set_p_state s w) = s"
  by (simp_all add: set_p_state_def)

lemma gc_responder_frame [effect_simps]:
  "p_state (gc_responder w) = p_state w"
  "p_running (gc_responder w) = p_running w"
  "p_timers (gc_responder w) = p_timers w"
  "m_IOInitiator (gc_responder w) = m_IOInitiator w"
  "m_CurrentPeerEventParam (gc_responder w) = m_CurrentPeerEventParam w"
  "m_EventQueue (gc_responder w) = m_EventQueue w"
  "p_fault (gc_responder w) = p_fault w"
  "m_IOResponder (gc_responder w) = None"
  by (simp_all add: gc_responder_def effect_simps)

lemma gc_initiator_frame [effect_simps]:
  "p_state (gc_initiator w) = p_state w"
  "p_running (gc_initiator w) = p_running w"
  "p_timers (gc_initiator w) = p_timers w"
  "m_IOResponder (gc_initiator w) = m_IOResponder w"
  "m_CurrentPeerEventParam (gc_initiator w) = m_CurrentPeerEventParam w"
  "m_EventQueue (gc_initiator w) = m_EventQueue w"
  "p_fault (gc_initiator w) = p_fault w"
  "m_IOInitiator (gc_initiator w) = None"
  by (simp_all add: gc_initiator_def effect_simps)

lemma responder_from_event_frame [effect_simps]:
  "m_CurrentPeerEventParam w = Some p \<Longrightarrow> p_state (responder_from_event w) = p_state w"
  "m_CurrentPeerEventParam w = Some p \<Longrightarrow> p_running (responder_from_event w) = p_running w"
  "m_CurrentPeerEventParam w = Some p \<Longrightarrow> p_timers (responder_from_event w) = p_timers w"
  "m_CurrentPeerEventParam w = Some p \<Longrightarrow> m_IOInitiator (responder_from_event w) = m_IOInitiator w"
  "m_CurrentPeerEventParam w = Some p \<Longrightarrow> m_EventQueue (responder_from_event w) = m_EventQueue w"
  "m_CurrentPeerEventParam w = Some p \<Longrightarrow> p_fault (responder_from_event w) = p_fault w"
  "m_CurrentPeerEventParam w = Some p \<Longrightarrow> m_IOResponder (responder_from_event w) = pp_io p"
  "m_CurrentPeerEventParam w = Some p \<Longrightarrow> m_CurrentPeerEventParam (responder_from_event w) =
     Some (p\<lparr>pp_io := None\<rparr>)"
  by (simp_all add: responder_from_event_def take_io_def effect_simps)

lemma initiator_from_event_frame [effect_simps]:
  "m_CurrentPeerEventParam w = Some p \<Longrightarrow> p_state (initiator_from_event w) = p_state w"
  "m_CurrentPeerEventParam w = Some p \<Longrightarrow> p_running (initiator_from_event w) = p_running w"
  "m_CurrentPeerEventParam w = Some p \<Longrightarrow> p_timers (initiator_from_event w) = p_timers w"
  "m_CurrentPeerEventParam w = Some p \<Longrightarrow> m_IOResponder (initiator_from_event w) = m_IOResponder w"
  "m_CurrentPeerEventParam w = Some p \<Longrightarrow> m_EventQueue (initiator_from_event w) = m_EventQueue w"
  "m_CurrentPeerEventParam w = Some p \<Longrightarrow> p_fault (initiator_from_event w) = p_fault w"
  "m_CurrentPeerEventParam w = Some p \<Longrightarrow> m_IOInitiator (initiator_from_event w) = pp_io p"
  "m_CurrentPeerEventParam w = Some p \<Longrightarrow> m_CurrentPeerEventParam (initiator_from_event w) =
     Some (p\<lparr>pp_io := None\<rparr>)"
  by (simp_all add: initiator_from_event_def take_io_def effect_simps)

lemma MsgIdTx_frame [effect_simps]:
  "p_state (snd (MsgIdTxMessage m w)) = p_state w"
  "p_running (snd (MsgIdTxMessage m w)) = p_running w"
  "p_timers (snd (MsgIdTxMessage m w)) = p_timers w"
  "m_IOInitiator (snd (MsgIdTxMessage m w)) = m_IOInitiator w"
  "m_IOResponder (snd (MsgIdTxMessage m w)) = m_IOResponder w"
  "m_CurrentPeerEventParam (snd (MsgIdTxMessage m w)) = m_CurrentPeerEventParam w"
  "m_EventQueue (snd (MsgIdTxMessage m w)) = m_EventQueue w"
  "p_fault (snd (MsgIdTxMessage m w)) = p_fault w"
  by (simp_all add: MsgIdTxMessage_def upd_msgid_def split: prod.splits)

lemma AssembleCE_frame [effect_simps]:
  "p_state (snd (AssembleCE cfg r w)) = p_state w"
  "p_running (snd (AssembleCE cfg r w)) = p_running w"
  "p_timers (snd (AssembleCE cfg r w)) = p_timers w"
  "m_IOInitiator (snd (AssembleCE cfg r w)) = m_IOInitiator w"
  "m_IOResponder (snd (AssembleCE cfg r w)) = m_IOResponder w"
  "m_CurrentPeerEventParam (snd (AssembleCE cfg r w)) = m_CurrentPeerEventParam w"
  "m_EventQueue (snd (AssembleCE cfg r w)) = m_EventQueue w"
  "p_fault (snd (AssembleCE cfg r w)) \<longleftrightarrow>
     p_fault w \<or> (m_IOInitiator w = None \<and> m_IOResponder w = None)"
  by (auto simp: AssembleCE_def TransportProtocolInUse_def null_deref_def effect_simps
      case_prod_unfold split: option.splits)

lemma SendCER_frame [effect_simps]:
  "p_state (SendCER cfg w) = p_state w"
  "p_running (SendCER cfg w) = p_running w"
  "p_timers (SendCER cfg w) = p_timers w"
  "m_IOInitiator (SendCER cfg w) = m_IOInitiator w"
  "m_IOResponder (SendCER cfg w) = m_IOResponder w"
  "m_CurrentPeerEventParam (SendCER cfg w) = m_CurrentPeerEventParam w"
  "m_EventQueue (SendCER cfg w) = m_EventQueue w"
  "p_fault (SendCER cfg w) \<longleftrightarrow>
     p_fault w \<or> (m_IOInitiator w = None \<and> m_IOResponder w = None)"
  by (auto simp: SendCER_def collector_Send_def effect_simps Let_def case_prod_unfold)

lemma SendCEA_frame [effect_simps]:
  "p_state (SendCEA cfg rc ms w) = p_state w"
  "p_running (SendCEA cfg rc ms w) = p_running w"
  "p_timers (SendCEA cfg rc ms w) = p_timers w"
  "m_IOInitiator (SendCEA cfg rc ms w) = m_IOInitiator w"
  "m_IOResponder (SendCEA cfg rc ms w) = m_IOResponder w"
  "m_CurrentPeerEventParam (SendCEA cfg rc ms w) = m_CurrentPeerEventParam w"
  "m_EventQueue (SendCEA cfg rc ms w) = m_EventQueue w"
  "p_fault (SendCEA cfg rc ms w) \<longleftrightarrow>
     p_fault w \<or> (m_IOInitiator w = None \<and> m_IOResponder w = None)"
  by (auto simp: SendCEA_def collector_Send_def effect_simps Let_def case_prod_unfold)

lemma SendDWR_frame [effect_simps]:
  "p_state (SendDWR cfg w) = p_state w"
  "p_running (SendDWR cfg w) = p_running w"
  "p_timers (SendDWR cfg w) = p_timers w"
  "m_IOInitiator (SendDWR cfg w) = m_IOInitiator w"
  "m_IOResponder (SendDWR cfg w) = m_IOResponder w"
  "m_CurrentPeerEventParam (SendDWR cfg w) = m_CurrentPeerEventParam w"
  "m_EventQueue (SendDWR cfg w) = m_EventQueue w"
  "p_fault (SendDWR cfg w) = p_fault w"
  by (simp_all add: SendDWR_def AssembleDW_def collector_Send_def effect_simps Let_def case_prod_unfold)

lemma SendDWA_frame [effect_simps]:
  "p_state (SendDWA cfg rc ms w) = p_state w"
  "p_running (SendDWA cfg rc ms w) = p_running w"
  "p_timers (SendDWA cfg rc ms w) = p_timers w"
  "m_IOInitiator (SendDWA cfg rc ms w) = m_IOInitiator w"
  "m_IOResponder (SendDWA cfg rc ms w) = m_IOResponder w"
  "m_CurrentPeerEventParam (SendDWA cfg rc ms w) = m_CurrentPeerEventParam w"
  "m_EventQueue (SendDWA cfg rc ms w) = m_EventQueue w"
  "p_fault (SendDWA cfg rc ms w) = p_fault w"
  by (simp_all add: SendDWA_def AssembleDW_def collector_Send_def effect_simps Let_def case_prod_unfold)

lemma SendDPR_frame [effect_simps]:
  "p_state (SendDPR cfg b w) = p_state w"
  "p_running (SendDPR cfg b w) = p_running w"
  "p_timers (SendDPR cfg b w) = p_timers w"
  "m_IOInitiator (SendDPR cfg b w) = m_IOInitiator w"
  "m_IOResponder (SendDPR cfg b w) = m_IOResponder w"
  "m_CurrentPeerEventParam (SendDPR cfg b w) = m_CurrentPeerEventParam w"
  "m_EventQueue (SendDPR cfg b w) = m_EventQueue w"
  "p_fault (SendDPR cfg b w) = p_fault w"
  by (simp_all add: SendDPR_def AssembleDP_def collector_Send_def effect_simps Let_def case_prod_unfold)

lemma SendDPA_frame [effect_simps]:
  "p_state (SendDPA cfg b rc w) = p_state w"
  "p_running (SendDPA cfg b rc w) = p_running w"
  "p_timers (SendDPA cfg b rc w) = p_timers w"
  "m_IOInitiator (SendDPA cfg b rc w) = m_IOInitiator w"
  "m_IOResponder (SendDPA cfg b rc w) = m_IOResponder w"
  "m_CurrentPeerEventParam (SendDPA cfg b rc w) = m_CurrentPeerEventParam w"
  "m_EventQueue (SendDPA cfg b rc w) = m_EventQueue w"
  "p_fault (SendDPA cfg b rc w) = p_fault w"
  by (simp_all add: SendDPA_def AssembleDP_def collector_Send_def effect_simps Let_def case_prod_unfold)

definition cleaned_timers :: "peer_ev timers \<Rightarrow> peer_ev timers" where
  "cleaned_timers tm = tm(T_CONN_RETRY := None, T_TIMEOUT := None, T_WATCHDOG := None,
     int DIAMETER_PEER_CONNECT_ATTEMPT_TOUT := None)"

lemma InitialState_peer: "InitialState peer_state_table = Inr PS_CLOSED"
  by code_simp

lemma steps_append: "steps (fs @ gs) w = steps gs (steps fs w)"
proof (induction fs arbitrary: w)
  case (Cons f fs)
  have "steps gs w = w" if "p_fault w" using that by (cases gs) simp_all
  with Cons show ?case by simp
qed simp

lemma Cleanup_fsm_frame:
  assumes "\<not> p_fault w" "m_CurrentPeerEventParam w = Some p"
    and "fl AND CLEANUP_FSM \<noteq> 0" "fl AND CLEANUP_IO_R \<noteq> 0"
  shows "p_state (Cleanup fl w) = PS_CLOSED"
    and "p_running (Cleanup fl w)"
    and "p_timers (Cleanup fl w) = cleaned_timers (p_timers w)"
    and "m_IOInitiator (Cleanup fl w) =
      (if fl AND CLEANUP_IO_I \<noteq> 0 then None else m_IOInitiator w)"
    and "m_IOResponder (Cleanup fl w) = None"
    and "m_CurrentPeerEventParam (Cleanup fl w) = Some (p\<lparr>pp_msg := None, pp_io := None\<rparr>)"
    and "m_EventQueue (Cleanup fl w) = m_EventQueue w"
    and "\<not> p_fault (Cleanup fl w)"
  using assms
  by (simp_all add: Cleanup_def steps_append effect_simps StopReConnect_def fsm_Stop_def
      fsm_Start_def InitialState_peer release_event_def cleaned_timers_def
      del: fun_upd_apply)

lemma cleanup_flags:
  "CLEANUP_ALL AND CLEANUP_FSM \<noteq> 0" "CLEANUP_ALL AND CLEANUP_IO_R \<noteq> 0"
  "CLEANUP_ALL AND CLEANUP_IO_I \<noteq> 0"
  "(CLEANUP_ALL AND NOT CLEANUP_IO_I) AND CLEANUP_FSM \<noteq> 0"
  "(CLEANUP_ALL AND NOT CLEANUP_IO_I) AND CLEANUP_IO_R \<noteq> 0"
  "\<not> (CLEANUP_ALL AND NOT CLEANUP_IO_I) AND CLEANUP_IO_I \<noteq> 0"
  by (simp_all add: cleanup_flag_defs)

lemmas Cleanup_all_frame [effect_simps] =
  Cleanup_fsm_frame [OF _ _ cleanup_flags(1,2), unfolded if_P [OF cleanup_flags(3)]]

lemmas Cleanup_keep_initiator_frame [effect_simps] =
  Cleanup_fsm_frame [OF _ _ cleanup_flags(4,5), unfolded if_not_P [OF cleanup_flags(6)]]

lemma with_msg_some [effect_simps]:
  "m_CurrentPeerEventParam w = Some p \<Longrightarrow> pp_msg p = Some m \<Longrightarrow> \<not> p_fault w \<Longrightarrow>
     with_msg f w = f m (w\<lparr>m_CurrentPeerEventParam := Some (p\<lparr>pp_msg := None\<rparr>)\<rparr>)"
  by (simp add: with_msg_def take_msg_def)

section \<open>The invariant\<close>

definition peer_open :: "peer_st \<Rightarrow> bool" where
  "peer_open s \<longleftrightarrow> s = PS_I_OPEN \<or> s = PS_R_OPEN"

definition peer_transient :: "peer_st \<Rightarrow> bool" where
  "peer_transient s \<longleftrightarrow> s \<noteq> PS_CLOSED \<and> \<not> peer_open s"

text \<open>Which events carry a message, and which a transport.\<close>

definition carries_msg :: "peer_ev \<Rightarrow> bool" where
  "carries_msg ev \<longleftrightarrow>
     (case ev of
        PEV_START \<Rightarrow> False | PEV_STOP \<Rightarrow> False | PEV_TIMEOUT \<Rightarrow> False
      | PEV_CONN_RETRY \<Rightarrow> False | PEV_I_RCV_CONN_ACK \<Rightarrow> False | PEV_I_RCV_CONN_NACK \<Rightarrow> False
      | PEV_I_PEER_DISC \<Rightarrow> False | PEV_R_PEER_DISC \<Rightarrow> False | PEV_I_RCV_NON_CEA \<Rightarrow> False
      | PEV_WIN_ELECTION \<Rightarrow> False | PEV_SEND_MESSAGE \<Rightarrow> False | PEV_WATCHDOG \<Rightarrow> False
      | _ \<Rightarrow> True)"

definition carries_io :: "peer_ev \<Rightarrow> bool" where
  "carries_io ev \<longleftrightarrow> ev = PEV_R_CONN_CER \<or> ev = PEV_I_RCV_CONN_ACK"

definition wf_param :: "peer_param \<Rightarrow> bool" where
  "wf_param p \<longleftrightarrow>
     (carries_msg (pp_event p) \<longrightarrow> pp_msg p \<noteq> None) \<and>
     (carries_io (pp_event p) \<longrightarrow> pp_io p \<noteq> None)"

definition queue_ok :: "peer_param pqueue \<Rightarrow> bool" where
  "queue_ok q \<longleftrightarrow> (\<forall>p \<in> set q. wf_param p)"

definition timers_ok :: "('a) dia_config_scheme \<Rightarrow> peer_st \<Rightarrow> peer_ev timers \<Rightarrow> bool" where
  "timers_ok cfg s tm \<longleftrightarrow>
     tm T_TIMEOUT = (if peer_transient s
       then Some (PEV_TIMEOUT, DIAMETER_PEER_CONNECT_ATTEMPT_TOUT) else None) \<and>
     tm T_WATCHDOG = (if peer_open s
       then Some (PEV_WATCHDOG, unat (cfg_watchdog_timeout cfg)) else None)"

definition io_ok :: "peer_st \<Rightarrow> io option \<Rightarrow> io option \<Rightarrow> bool" where
  "io_ok s i r \<longleftrightarrow>
     (s \<in> {PS_WAIT_I_CEA, PS_WAIT_RETURNS, PS_I_OPEN} \<longrightarrow> i \<noteq> None) \<and>
     (s \<in> {PS_WAIT_CONN_ACK_ELECT, PS_WAIT_RETURNS, PS_R_OPEN} \<longrightarrow> r \<noteq> None)"

definition peer_inv :: "('a) dia_config_scheme \<Rightarrow> peer \<Rightarrow> bool" where
  "peer_inv cfg w \<longleftrightarrow>
     \<not> p_fault w \<and> p_running w \<and> timers_ok cfg (p_state w) (p_timers w) \<and>
     io_ok (p_state w) (m_IOInitiator w) (m_IOResponder w) \<and>
     queue_ok (m_EventQueue w)"

text \<open>
  What \<open>Serve\<close> guarantees of an event: it is the current one, with its parts.  A refused
  connection attempt while an incoming one waits is excluded: there the code loses
  the responder (see \<open>nack_during_election_faults\<close>).
\<close>

definition served :: "peer_ev \<Rightarrow> peer \<Rightarrow> bool" where
  "served ev w \<longleftrightarrow>
     (\<exists>p. m_CurrentPeerEventParam w = Some p \<and> pp_event p = ev \<and> wf_param p) \<and>
     \<not> (ev = PEV_I_RCV_CONN_NACK \<and> p_state w = PS_WAIT_CONN_ACK_ELECT)"

definition mid_inv :: "('a) dia_config_scheme \<Rightarrow> peer \<Rightarrow> bool" where
  "mid_inv cfg w \<longleftrightarrow> peer_inv cfg w \<and> m_CurrentPeerEventParam w \<noteq> None"

lemma queue_ok_snoc [simp]: "queue_ok (q @ [p]) \<longleftrightarrow> queue_ok q \<and> wf_param p"
  by (auto simp: queue_ok_def)

lemma wf_param_bare [simp]:
  "\<not> carries_msg ev \<Longrightarrow> \<not> carries_io ev \<Longrightarrow>
     wf_param \<lparr>pp_event = ev, pp_msg = None, pp_io = None\<rparr>"
  by (simp add: wf_param_def)

lemma carries_bare [simp]:
  "\<not> carries_msg PEV_WIN_ELECTION" "\<not> carries_io PEV_WIN_ELECTION"
  "\<not> carries_msg PEV_START" "\<not> carries_io PEV_START"
  by (simp_all add: carries_msg_def carries_io_def)

lemmas action_defs = R_ISendConnReq_def R_AcceptSendCEA_def I_SendCER_def P_ConnNack_def
  P_ReConnect_def Entry_Start_def R_Accept_def P_Error_def P_ProcessCEA_def R_AcceptElect_def
  I_SendCERElect_def R_SendCEA_def R_SendCEAOpen_def R_DisconnectResp_def
  R_DisconnectIOpen_def I_DisconnectSendCEA_def P_SendMessage_def
  P_Process_def ProcessDWRSendDWA_def P_ProcessDWA_def I_SendCEA_def I_SendDPR_def
  R_SendDPR_def I_SendDPADisconnect_def R_SendDPADisconnect_def P_Disconnect_def
  P_DisconnectDPA_def P_Watchdog_def

lemmas inv_defs = mid_inv_def peer_inv_def timers_ok_def io_ok_def peer_open_def
  peer_transient_def

lemma R_Reject_frame [effect_simps]:
  "m_CurrentPeerEventParam w = Some p \<Longrightarrow> p_state (R_Reject w) = p_state w"
  "m_CurrentPeerEventParam w = Some p \<Longrightarrow> p_running (R_Reject w) = p_running w"
  "m_CurrentPeerEventParam w = Some p \<Longrightarrow> p_timers (R_Reject w) = p_timers w"
  "m_CurrentPeerEventParam w = Some p \<Longrightarrow> m_IOInitiator (R_Reject w) = m_IOInitiator w"
  "m_CurrentPeerEventParam w = Some p \<Longrightarrow> m_IOResponder (R_Reject w) = m_IOResponder w"
  "m_CurrentPeerEventParam w = Some p \<Longrightarrow> m_EventQueue (R_Reject w) = m_EventQueue w"
  "m_CurrentPeerEventParam w = Some p \<Longrightarrow> p_fault (R_Reject w) = p_fault w"
  by (simp_all add: R_Reject_def take_io_def take_msg_def effect_simps)

lemma R_Reject_current [effect_simps]:
  "m_CurrentPeerEventParam w = Some p \<Longrightarrow> \<not> p_fault w \<Longrightarrow>
     m_CurrentPeerEventParam (R_Reject w) = Some (p\<lparr>pp_io := None, pp_msg := None\<rparr>)"
  by (simp add: R_Reject_def take_io_def take_msg_def effect_simps)

lemma DoReConnect_frame [effect_simps]:
  "p_state (DoReConnect cfg w) = p_state w"
  "p_running (DoReConnect cfg w) = p_running w"
  "m_IOInitiator (DoReConnect cfg w) = m_IOInitiator w"
  "m_IOResponder (DoReConnect cfg w) = m_IOResponder w"
  "m_CurrentPeerEventParam (DoReConnect cfg w) = m_CurrentPeerEventParam w"
  "m_EventQueue (DoReConnect cfg w) = m_EventQueue w"
  "p_fault (DoReConnect cfg w) = p_fault w"
  "p_timers (DoReConnect cfg w) T_TIMEOUT = p_timers w T_TIMEOUT"
  "p_timers (DoReConnect cfg w) T_WATCHDOG = p_timers w T_WATCHDOG"
  by (simp_all add: DoReConnect_def effect_simps timer_type_defs)

text \<open>What suffices for a clean-up to establish the invariant.\<close>

definition safe :: "peer \<Rightarrow> bool" where
  "safe w \<longleftrightarrow> \<not> p_fault w \<and> m_CurrentPeerEventParam w \<noteq> None \<and>
     queue_ok (m_EventQueue w)"

lemma timer_types_distinct [simp]:
  "T_TIMEOUT \<noteq> T_WATCHDOG" "T_WATCHDOG \<noteq> T_TIMEOUT" "T_TIMEOUT \<noteq> T_CONN_RETRY"
  "T_CONN_RETRY \<noteq> T_TIMEOUT" "T_WATCHDOG \<noteq> T_CONN_RETRY" "T_CONN_RETRY \<noteq> T_WATCHDOG"
  by (simp_all add: timer_type_defs)

lemma cleaned_timers_apply [simp]:
  "cleaned_timers tm T_TIMEOUT = None" "cleaned_timers tm T_WATCHDOG = None"
  by (simp_all add: cleaned_timers_def timer_type_defs)

lemma Cleanup_inv:
  assumes "safe w"
  shows "mid_inv cfg (Cleanup CLEANUP_ALL w)"
    and "mid_inv cfg (Cleanup (CLEANUP_ALL AND NOT CLEANUP_IO_I) w)"
proof -
  obtain p where "m_CurrentPeerEventParam w = Some p" "\<not> p_fault w"
    using assms by (auto simp: safe_def)
  then show "mid_inv cfg (Cleanup CLEANUP_ALL w)"
    "mid_inv cfg (Cleanup (CLEANUP_ALL AND NOT CLEANUP_IO_I) w)"
    using assms by (simp_all add: inv_defs safe_def effect_simps)
qed

lemma mid_inv_safe: "mid_inv cfg w \<Longrightarrow> safe w"
  by (simp add: mid_inv_def peer_inv_def safe_def)

lemma Elect_inv:
  assumes "mid_inv cfg w"
  shows "mid_inv cfg (Elect c w)"
proof (cases "election (cfg_identity c) (m_Host (m_PeerCapabilities w))")
  case SameHost
  with mid_inv_safe [OF assms] show ?thesis by (simp add: Elect_def Cleanup_inv)
next
  case LocalWins
  with assms show ?thesis by (simp add: Elect_def mid_inv_def peer_inv_def effect_simps)
qed (use assms in \<open>simp add: Elect_def\<close>)



text \<open>Every entry of the table preserves the invariant.  An entry is judged on its own,
  from what the invariant gives in its state and what the event carries.\<close>

definition entry_ok :: "peer_env \<Rightarrow> peer_st \<Rightarrow> peer_ev \<Rightarrow> peer_st \<Rightarrow> peer_ac \<Rightarrow> bool" where
  "entry_ok cfg s ev s' a \<longleftrightarrow> (\<forall>w p. mid_inv cfg w \<and> p_state w = s \<and>
     m_CurrentPeerEventParam w = Some p \<and> pp_event p = ev \<and> wf_param p \<longrightarrow>
     mid_inv cfg (peer_action cfg a (set_p_state s' w)))"

lemma entry_okI:
  assumes "\<And>w p. \<lbrakk>\<not> p_fault w; p_running w; timers_ok cfg s (p_timers w);
      io_ok s (m_IOInitiator w) (m_IOResponder w); queue_ok (m_EventQueue w);
      m_CurrentPeerEventParam w = Some p\<rbrakk>
    \<Longrightarrow> mid_inv cfg (peer_action cfg a (set_p_state s' w))"
  shows "entry_ok cfg s ev s' a"
  using assms by (auto simp: entry_ok_def mid_inv_def peer_inv_def)

lemma entry_ok_msgI:
  assumes "carries_msg ev"
    and "\<And>w p m. \<lbrakk>\<not> p_fault w; p_running w; timers_ok cfg s (p_timers w);
      io_ok s (m_IOInitiator w) (m_IOResponder w); queue_ok (m_EventQueue w);
      m_CurrentPeerEventParam w = Some p; pp_msg p = Some m\<rbrakk>
    \<Longrightarrow> mid_inv cfg (peer_action cfg a (set_p_state s' w))"
  shows "entry_ok cfg s ev s' a"
  using assms by (auto simp: entry_ok_def mid_inv_def peer_inv_def wf_param_def)

lemma entry_ok_ioI:
  assumes "carries_io ev"
    and "\<And>w p i. \<lbrakk>\<not> p_fault w; p_running w; timers_ok cfg s (p_timers w);
      io_ok s (m_IOInitiator w) (m_IOResponder w); queue_ok (m_EventQueue w);
      m_CurrentPeerEventParam w = Some p; pp_io p = Some i\<rbrakk>
    \<Longrightarrow> mid_inv cfg (peer_action cfg a (set_p_state s' w))"
  shows "entry_ok cfg s ev s' a"
  using assms by (auto simp: entry_ok_def mid_inv_def peer_inv_def wf_param_def)

lemma entry_ok_cerI:
  assumes "\<And>w p m i. \<lbrakk>\<not> p_fault w; p_running w; timers_ok cfg s (p_timers w);
      io_ok s (m_IOInitiator w) (m_IOResponder w); queue_ok (m_EventQueue w);
      m_CurrentPeerEventParam w = Some p; pp_msg p = Some m; pp_io p = Some i\<rbrakk>
    \<Longrightarrow> mid_inv cfg (peer_action cfg a (set_p_state s' w))"
  shows "entry_ok cfg s PEV_R_CONN_CER s' a"
  using assms
  by (auto simp: entry_ok_def mid_inv_def peer_inv_def wf_param_def carries_msg_def
      carries_io_def)

lemma mid_invI:
  "\<lbrakk>\<not> p_fault w; p_running w; timers_ok cfg (p_state w) (p_timers w);
    io_ok (p_state w) (m_IOInitiator w) (m_IOResponder w); queue_ok (m_EventQueue w);
    m_CurrentPeerEventParam w \<noteq> None\<rbrakk> \<Longrightarrow> mid_inv cfg w"
  by (simp add: mid_inv_def peer_inv_def)

lemmas step_simps = effect_simps action_defs StopReConnect_def arm_watchdog_def
  arm_timeout_def

lemmas goal_simps = timers_ok_def io_ok_def peer_open_def peer_transient_def

lemma entries_plain:
  "entry_ok cfg PS_CLOSED PEV_START PS_WAIT_CONN_ACK PAC_ISendConnReq"
  "entry_ok cfg PS_CLOSED PEV_CONN_RETRY PS_CLOSED PAC_Retry"
  "entry_ok cfg PS_CLOSED ev PS_CLOSED PAC_Cleanup"
  "entry_ok cfg PS_WAIT_CONN_ACK PEV_I_RCV_CONN_NACK PS_CLOSED PAC_ConnNack"
  "entry_ok cfg PS_WAIT_CONN_ACK PEV_TIMEOUT PS_CLOSED PAC_Error"
  "entry_ok cfg PS_WAIT_CONN_ACK PEV_STOP PS_CLOSED PAC_Error"
  "entry_ok cfg PS_WAIT_I_CEA PEV_I_PEER_DISC PS_CLOSED PAC_Disconnect"
  "entry_ok cfg PS_WAIT_I_CEA PEV_I_RCV_NON_CEA PS_CLOSED PAC_Error"
  "entry_ok cfg PS_WAIT_I_CEA PEV_TIMEOUT PS_CLOSED PAC_Error"
  "entry_ok cfg PS_WAIT_I_CEA PEV_STOP PS_CLOSED PAC_Error"
  "entry_ok cfg PS_WAIT_CONN_ACK_ELECT PEV_R_PEER_DISC PS_WAIT_CONN_ACK PAC_RDisconnectResp"
  "entry_ok cfg PS_WAIT_CONN_ACK_ELECT PEV_TIMEOUT PS_CLOSED PAC_Error"
  "entry_ok cfg PS_WAIT_RETURNS PEV_WIN_ELECTION PS_R_OPEN PAC_IDisconnectSendCEA"
  "entry_ok cfg PS_WAIT_RETURNS PEV_I_PEER_DISC PS_R_OPEN PAC_IDisconnectSendCEA"
  "entry_ok cfg PS_WAIT_RETURNS PEV_R_PEER_DISC PS_WAIT_I_CEA PAC_RDisconnectResp"
  "entry_ok cfg PS_WAIT_RETURNS PEV_TIMEOUT PS_CLOSED PAC_Error"
  "entry_ok cfg PS_R_OPEN PEV_SEND_MESSAGE PS_R_OPEN PAC_RSendMessage"
  "entry_ok cfg PS_R_OPEN PEV_STOP PS_CLOSING PAC_RSendDPR"
  "entry_ok cfg PS_R_OPEN PEV_R_PEER_DISC PS_CLOSED PAC_Disconnect"
  "entry_ok cfg PS_R_OPEN PEV_WATCHDOG PS_R_OPEN PAC_Watchdog"
  "entry_ok cfg PS_I_OPEN PEV_SEND_MESSAGE PS_I_OPEN PAC_ISendMessage"
  "entry_ok cfg PS_I_OPEN PEV_STOP PS_CLOSING PAC_ISendDPR"
  "entry_ok cfg PS_I_OPEN PEV_I_PEER_DISC PS_CLOSED PAC_Disconnect"
  "entry_ok cfg PS_I_OPEN PEV_WATCHDOG PS_I_OPEN PAC_Watchdog"
  "entry_ok cfg PS_CLOSING PEV_TIMEOUT PS_CLOSED PAC_Error"
  "entry_ok cfg PS_CLOSING PEV_I_PEER_DISC PS_CLOSED PAC_Disconnect"
  "entry_ok cfg PS_CLOSING PEV_R_PEER_DISC PS_CLOSED PAC_Disconnect"
  "entry_ok cfg PS_CLOSING ev PS_CLOSING PAC_Null"
  by (rule entry_okI, (rule mid_invI; simp add: step_simps goal_simps split: prod.splits))+

lemma entries_msg:
  "entry_ok cfg PS_WAIT_I_CEA PEV_I_RCV_CEA PS_I_OPEN PAC_ProcessCEA"
  "entry_ok cfg PS_WAIT_RETURNS PEV_I_RCV_CEA PS_I_OPEN PAC_RDisconnectIOpen"
  "entry_ok cfg PS_R_OPEN PEV_R_RCV_MESSAGE PS_R_OPEN PAC_Process"
  "entry_ok cfg PS_R_OPEN PEV_R_RCV_DWR PS_R_OPEN PAC_ProcessDWRSendDWA"
  "entry_ok cfg PS_R_OPEN PEV_R_RCV_DWA PS_R_OPEN PAC_ProcessDWA"
  "entry_ok cfg PS_R_OPEN PEV_R_RCV_DPR PS_CLOSED PAC_RSendDPADisconnect"
  "entry_ok cfg PS_R_OPEN PEV_R_RCV_CER PS_R_OPEN PAC_RSendCEAOpen"
  "entry_ok cfg PS_R_OPEN PEV_R_RCV_CEA PS_R_OPEN PAC_ProcessCEA"
  "entry_ok cfg PS_I_OPEN PEV_I_RCV_MESSAGE PS_I_OPEN PAC_Process"
  "entry_ok cfg PS_I_OPEN PEV_I_RCV_DWR PS_I_OPEN PAC_ProcessDWRSendDWA"
  "entry_ok cfg PS_I_OPEN PEV_I_RCV_DWA PS_I_OPEN PAC_ProcessDWA"
  "entry_ok cfg PS_I_OPEN PEV_I_RCV_DPR PS_CLOSED PAC_ISendDPADisconnect"
  "entry_ok cfg PS_I_OPEN PEV_I_RCV_CER PS_I_OPEN PAC_ISendCEA"
  "entry_ok cfg PS_I_OPEN PEV_I_RCV_CEA PS_I_OPEN PAC_ProcessCEA"
  "entry_ok cfg PS_CLOSING PEV_I_RCV_DPA PS_CLOSED PAC_DisconnectDPA"
  "entry_ok cfg PS_CLOSING PEV_R_RCV_DPA PS_CLOSED PAC_DisconnectDPA"
  by (rule entry_ok_msgI, simp add: carries_msg_def, (rule mid_invI; simp add: step_simps goal_simps split: prod.splits))+

lemma entries_io:
  "entry_ok cfg PS_WAIT_CONN_ACK PEV_I_RCV_CONN_ACK PS_WAIT_I_CEA PAC_ISendCER"
  by (rule entry_ok_ioI, simp add: carries_io_def, (rule mid_invI; simp add: step_simps goal_simps split: prod.splits))+

lemma entries_cer:
  "entry_ok cfg PS_CLOSED PEV_R_CONN_CER PS_R_OPEN PAC_RAcceptSendCEA"
  "entry_ok cfg PS_WAIT_CONN_ACK PEV_R_CONN_CER PS_WAIT_CONN_ACK_ELECT PAC_RAccept"
  "entry_ok cfg PS_WAIT_CONN_ACK_ELECT PEV_R_CONN_CER PS_WAIT_CONN_ACK_ELECT PAC_RReject"
  "entry_ok cfg PS_WAIT_RETURNS PEV_R_CONN_CER PS_WAIT_RETURNS PAC_RReject"
  "entry_ok cfg PS_R_OPEN PEV_R_CONN_CER PS_R_OPEN PAC_RReject"
  "entry_ok cfg PS_I_OPEN PEV_R_CONN_CER PS_I_OPEN PAC_RReject"
  by (rule entry_ok_cerI, (rule mid_invI; simp add: step_simps goal_simps split: prod.splits))+

text \<open>The two entries that hold an election.\<close>

lemma entry_accept_elect: "entry_ok cfg PS_WAIT_I_CEA PEV_R_CONN_CER PS_WAIT_RETURNS PAC_RAcceptElect"
proof (rule entry_ok_cerI)
  fix w :: peer and p m i
  assume a: "\<not> p_fault w" "p_running w" "timers_ok cfg PS_WAIT_I_CEA (p_timers w)"
    "io_ok PS_WAIT_I_CEA (m_IOInitiator w) (m_IOResponder w)" "queue_ok (m_EventQueue w)"
    "m_CurrentPeerEventParam w = Some p" "pp_msg p = Some m" "pp_io p = Some i"
  define w1 where "w1 = DisassembleCE m
    ((responder_from_event (set_p_state PS_WAIT_RETURNS w))\<lparr>m_CurrentPeerEventParam :=
       Some (p\<lparr>pp_io := None, pp_msg := None\<rparr>)\<rparr>)"
  from a have inv: "mid_inv cfg w1"
    by (intro mid_invI) (simp_all add: w1_def step_simps goal_simps)
  from a have "peer_action cfg PAC_RAcceptElect (set_p_state PS_WAIT_RETURNS w) =
      (case ValidatePeer cfg w1 of (valid, rc, message) \<Rightarrow>
         if \<not> valid then Cleanup (CLEANUP_ALL AND NOT CLEANUP_IO_I) w1 else Elect cfg w1)"
    unfolding w1_def by (simp add: step_simps)
  with inv show "mid_inv cfg (peer_action cfg PAC_RAcceptElect (set_p_state PS_WAIT_RETURNS w))"
    by (simp add: Cleanup_inv mid_inv_safe Elect_inv split: prod.split)
qed

lemma entry_cer_elect:
  "entry_ok cfg PS_WAIT_CONN_ACK_ELECT PEV_I_RCV_CONN_ACK PS_WAIT_RETURNS PAC_ISendCERElect"
proof (rule entry_ok_ioI)
  fix w :: peer and p i
  assume a: "\<not> p_fault w" "p_running w" "timers_ok cfg PS_WAIT_CONN_ACK_ELECT (p_timers w)"
    "io_ok PS_WAIT_CONN_ACK_ELECT (m_IOInitiator w) (m_IOResponder w)"
    "queue_ok (m_EventQueue w)" "m_CurrentPeerEventParam w = Some p" "pp_io p = Some i"
  define w1 where "w1 = SendCER cfg (initiator_from_event (set_p_state PS_WAIT_RETURNS w))"
  from a have inv: "mid_inv cfg w1"
    by (intro mid_invI) (simp_all add: w1_def step_simps goal_simps)
  from a have "peer_action cfg PAC_ISendCERElect (set_p_state PS_WAIT_RETURNS w) = Elect cfg w1"
    by (simp add: step_simps w1_def)
  with inv show "mid_inv cfg (peer_action cfg PAC_ISendCERElect (set_p_state PS_WAIT_RETURNS w))"
    by (simp add: Elect_inv)
qed (simp add: carries_io_def)

lemma table_entry_inv:
  assumes "mid_inv cfg w" and "served ev w" and "e \<in> set (entries peer_state_table)"
    and "p_state w = prevState e" and "event e = Some ev \<or> isWildcardEvent e"
  shows "mid_inv cfg (peer_action cfg (action e) (set_p_state (nextState e) w))"
proof -
  have "entry_ok cfg (prevState e) ev (nextState e) (action e)"
    using assms(2-)
    by (auto simp: peer_entries peer_cmds_defs state_entry_def wildcard_entry_def served_def
      intro: entries_plain entries_msg entries_io entries_cer entry_accept_elect entry_cer_elect)
  with assms show ?thesis by (auto simp: entry_ok_def served_def)
qed

interpretation peer_machine:
  event_machine peer_state_table p_running p_state set_p_state "peer_action cfg"
    "mid_inv cfg" served
  by unfold_locales (auto intro: wf_peer_state_table table_entry_inv)
end
