(* ===== verification/Peer_Entry.thy ===== *)
theory Peer_Entry
  imports Peer_Inv
begin

text \<open>
  The peer entry of \<open>libdiameter/src/aaa_peer_table.cxx\<close> and the peer table of
  \<open>libdiameter/include/aaa_peer_table.h\<close>: the operations that turn connection events,
  received messages, transport errors and timer expirations into queued events.  The step
  relation interleaves them with the service of the queue; its reachable states satisfy the
  invariant.
\<close>

section \<open>Operations of an entry\<close>

definition Entry_new ::
    "id_gen \<Rightarrow> string \<Rightarrow> u32 \<Rightarrow> bool \<Rightarrow> bool \<Rightarrow> peer" where
  "Entry_new g peername peerport use_sctp tls_enabled =
     fsm_Start
     \<lparr>p_state = PS_CLOSED, p_running = False, p_timers = (\<lambda>_. None),
      m_ReconnectAttempt = 0, m_Identity = peername, m_Port = peerport,
      m_DisconnectCause = AAA_DISCONNECT_DONTWANTTOTALK, m_TLS = tls_enabled,
      m_UseSctp = use_sctp, m_IOInitiator = None, m_IOResponder = None,
      m_PeerCapabilities = clear_caps
        \<lparr>m_Host = [], m_Realm = [], m_ProductName = [], m_VendorId = 0,
         m_InbandSecurityId = 0, m_OriginStateId = 0, m_FirmwareRevision = 0,
         m_SupportedVendorIdLst = [], m_AuthAppIdLst = [], m_HostIpLst = [],
         m_AcctAppIdLst = [], m_VendorSpecificId = [], m_MsgId = empty_msg_ids\<rparr>,
      m_EventQueue = [], m_CurrentPeerEventParam = None, p_idgen = g, p_effects = [],
      p_fault = False\<rparr>"

definition Entry_Stop :: "u32 \<Rightarrow> peer \<Rightarrow> peer" where
  "Entry_Stop cause = steps [
     \<lambda>w. w\<lparr>m_DisconnectCause := cause\<rparr>,
     Notify PEV_STOP None None,
     emit ConnectorClosed]"

definition IncommingConnectionRequest :: "io \<Rightarrow> diameter_msg \<Rightarrow> peer \<Rightarrow> peer" where
  "IncommingConnectionRequest i cer w =
     (case MsgIdRxMessage cer w of (_, w1) \<Rightarrow> Notify PEV_R_CONN_CER (Some cer) (Some i) w1)"

definition ConnectionRequestAccepted :: "io \<Rightarrow> peer \<Rightarrow> peer" where
  "ConnectionRequestAccepted i = Notify PEV_I_RCV_CONN_ACK None (Some i)"

definition ConnectionRequestFailed :: "peer \<Rightarrow> peer" where
  "ConnectionRequestFailed = Notify PEV_I_RCV_CONN_NACK None None"

definition Entry_Timeout :: "peer_ev \<Rightarrow> peer \<Rightarrow> peer" where
  "Entry_Timeout ev = Notify ev None None"

definition IsOpen :: "peer \<Rightarrow> bool" where
  "IsOpen w \<longleftrightarrow> p_state w = PS_I_OPEN \<or> p_state w = PS_R_OPEN"

text \<open>\<open>Send\<close> answers -1 when the machine is not running and 0 otherwise, also when it
  discards the message.\<close>

definition Entry_Send :: "diameter_msg \<Rightarrow> peer \<Rightarrow> int \<times> peer" where
  "Entry_Send msg w =
     (if \<not> p_running w then (-1, w)
      else case p_state w of
        PS_I_OPEN \<Rightarrow> (0, collector_Send msg (m_IOInitiator w) w)
      | PS_R_OPEN \<Rightarrow> (0, collector_Send msg (m_IOResponder w) w)
      | _ \<Rightarrow> (0, w))"

section \<open>Received messages\<close>

text \<open>The event of a base command: by direction of the message and side of the peer.\<close>

record cmd_events =
  ce_code :: "24 word"
  requestIEv :: peer_ev
  requestREv :: peer_ev
  answerIEv :: peer_ev
  answerREv :: peer_ev

definition cmd_table :: "cmd_events list" where
  "cmd_table =
     [\<lparr>ce_code = MSG_CAPABILITIES_EXCHG, requestIEv = PEV_I_RCV_CER, requestREv = PEV_R_RCV_CER,
       answerIEv = PEV_I_RCV_CEA, answerREv = PEV_R_RCV_CEA\<rparr>,
      \<lparr>ce_code = MSG_WATCHDOG, requestIEv = PEV_I_RCV_DWR, requestREv = PEV_R_RCV_DWR,
       answerIEv = PEV_I_RCV_DWA, answerREv = PEV_R_RCV_DWA\<rparr>,
      \<lparr>ce_code = MSG_DISCONNECT_PEER, requestIEv = PEV_I_RCV_DPR, requestREv = PEV_R_RCV_DPR,
       answerIEv = PEV_I_RCV_DPA, answerREv = PEV_R_RCV_DPA\<rparr>]"

definition i_event :: "cmd_events \<Rightarrow> diameter_msg \<Rightarrow> peer_ev" where
  "i_event c msg = (if IsRequest msg then requestIEv c else answerIEv c)"

definition r_event :: "cmd_events \<Rightarrow> diameter_msg \<Rightarrow> peer_ev" where
  "r_event c msg = (if IsRequest msg then requestREv c else answerREv c)"

definition base_message :: "cmd_events \<Rightarrow> diameter_msg \<Rightarrow> peer \<Rightarrow> peer" where
  "base_message c msg w =
     (case MsgIdRxMessage msg w of (ok, w1) \<Rightarrow>
        if \<not> ok \<and> \<not> IsRequest msg then w1
        else case p_state w1 of
          PS_I_OPEN \<Rightarrow> Notify (i_event c msg) (Some msg) None w1
        | PS_R_OPEN \<Rightarrow> Notify (r_event c msg) (Some msg) None w1
        | PS_CLOSING \<Rightarrow>
            if m_IOInitiator w1 \<noteq> None then Notify (i_event c msg) (Some msg) None w1
            else Notify (r_event c msg) (Some msg) None w1
        | PS_WAIT_RETURNS \<Rightarrow>
            if IsCapabilities msg \<and> \<not> IsRequest msg
            then Notify PEV_I_RCV_CEA (Some msg) None w1 else w1
        | PS_WAIT_I_CEA \<Rightarrow>
            if IsCapabilities msg \<and> \<not> IsRequest msg
            then Notify PEV_I_RCV_CEA (Some msg) None w1 else w1
        | _ \<Rightarrow> w1)"

definition Message :: "diameter_msg \<Rightarrow> peer \<Rightarrow> peer" where
  "Message msg w =
     (if p_state w = PS_WAIT_I_CEA \<and> (\<not> IsCapabilities msg \<or> IsRequest msg)
      then Notify PEV_I_RCV_NON_CEA None None w
      else case List.find (\<lambda>c. ce_code c = code (hdr msg)) cmd_table of
        Some c \<Rightarrow> base_message c msg w
      | None \<Rightarrow>
          (case p_state w of
             PS_I_OPEN \<Rightarrow> Notify PEV_I_RCV_MESSAGE (Some msg) None w
           | PS_R_OPEN \<Rightarrow> Notify PEV_R_RCV_MESSAGE (Some msg) None w
           | _ \<Rightarrow> w))"

section \<open>Transport errors\<close>

datatype collector_error =
    PARSING_ERROR | BUG_IN_PARSING_CODE | MEMORY_ALLOC_ERROR | CORRUPTED_BYTE_STREAM
  | INVALID_MSG | TRANSPORT_ERROR

definition Entry_Error :: "collector_error \<Rightarrow> string \<Rightarrow> peer \<Rightarrow> peer" where
  "Entry_Error err io_name w =
     (case err of
        PARSING_ERROR \<Rightarrow> w
      | CORRUPTED_BYTE_STREAM \<Rightarrow>
          if io_name = ''Acceptor'' then Notify PEV_R_PEER_DISC None None w
          else if io_name = ''Connector'' then Notify PEV_I_PEER_DISC None None w
          else Cleanup CLEANUP_ALL w
      | TRANSPORT_ERROR \<Rightarrow>
          if io_name = ''Acceptor'' then Notify PEV_R_PEER_DISC None None w
          else if io_name = ''Connector'' then Notify PEV_I_PEER_DISC None None w
          else Cleanup CLEANUP_ALL w
      | _ \<Rightarrow> Cleanup CLEANUP_ALL w)"

section \<open>The peer table\<close>

text \<open>Entries are identified by their position in a table of peers; the table is the list
  of their identities with the entry each stands for.\<close>

type_synonym 'e peer_table = "(string \<times> 'e) list"

definition PT_Add :: "string \<times> 'e \<Rightarrow> 'e peer_table \<Rightarrow> 'e peer_table" where
  "PT_Add e t = t @ [e]"

fun PT_Lookup :: "string \<Rightarrow> 'e peer_table \<Rightarrow> 'e option" where
  "PT_Lookup peername [] = None"
| "PT_Lookup peername ((n, e) # t) =
     (if strcasecmp_eq n peername then Some e else PT_Lookup peername t)"

text \<open>\<open>Remove\<close> returns the element its iterator points to after the erasure: that is
  undefined in C++, so only the new list is the result here.\<close>

fun PT_Remove :: "string \<Rightarrow> 'e peer_table \<Rightarrow> 'e peer_table" where
  "PT_Remove peername [] = []"
| "PT_Remove peername ((n, e) # t) =
     (if strcasecmp_eq n peername then t else (n, e) # PT_Remove peername t)"

fun PT_First :: "'e peer_table \<Rightarrow> 'e option" where
  "PT_First [] = None"
| "PT_First ((n, e) # t) = Some e"

fun PT_Next :: "'e \<Rightarrow> 'e peer_table \<Rightarrow> 'e option" where
  "PT_Next e [] = None"
| "PT_Next e ((n, e') # t) = (if e = e' then PT_First t else PT_Next e t)"

text \<open>The loop of \<open>DiameterPeerConnector\<close> over \<open>First\<close> and \<open>Next\<close>, with the number of
  entries as its bound.\<close>

fun PT_walk :: "nat \<Rightarrow> 'e option \<Rightarrow> 'e peer_table \<Rightarrow> 'e list" where
  "PT_walk 0 x t = []"
| "PT_walk (Suc n) None t = []"
| "PT_walk (Suc n) (Some e) t = e # PT_walk n (PT_Next e t) t"

lemma PT_Lookup_Add:
  "PT_Lookup n (PT_Add (m, e) t) =
     (case PT_Lookup n t of Some x \<Rightarrow> Some x
      | None \<Rightarrow> if strcasecmp_eq m n then Some e else None)"
  by (induction t) (auto simp: PT_Add_def)

lemma PT_Next_append:
  "e \<notin> snd ` set xs \<Longrightarrow> PT_Next e (xs @ (n, e) # ys) = PT_First ys"
  by (induction xs) auto

lemma PT_walk_suffix:
  "distinct (map snd (xs @ ys)) \<Longrightarrow> length ys \<le> k \<Longrightarrow>
     PT_walk k (PT_First ys) (xs @ ys) = map snd ys"
proof (induction ys arbitrary: xs k)
  case Nil
  then show ?case by (cases k) simp_all
next
  case (Cons y ys)
  obtain n e where y: "y = (n, e)" by (cases y)
  obtain k' where k: "k = Suc k'" "length ys \<le> k'" using Cons.prems(2) by (cases k) auto
  have "e \<notin> snd ` set xs" using Cons.prems(1) y by auto
  then have "PT_walk k (PT_First (y # ys)) (xs @ y # ys)
      = e # PT_walk k' (PT_First ys) ((xs @ [y]) @ ys)"
    using k y by (simp add: PT_Next_append)
  also have "\<dots> = e # map snd ys"
    using Cons.IH [of "xs @ [y]" k'] Cons.prems(1) k by simp
  finally show ?case using y by simp
qed

text \<open>walking the peer table from \<open>First\<close> along \<open>Next\<close> visits every entry once, in
  the order in which the entries were added.\<close>

theorem PT_walk_all:
  assumes "distinct (map snd t)"
  shows "PT_walk (length t) (PT_First t) t = map snd t"
  using PT_walk_suffix [of "[]" t "length t"] assms by simp

theorem PT_walk_all_witness:
  "PT_walk 2 (Some (7::nat)) [(''a'', 7), (''b'', 9)] = [7, 9]"
  using PT_walk_all [of "[(''a'', 7), (''b'', 9::nat)]"] by (simp add: eval_nat_numeral)

end
