(* ===== verification/Peer_System.thy ===== *)
theory Peer_System
  imports Peer_Entry
begin

text \<open>
  A peer in its environment: every interleaving of the operations of the entry with the
  service of its event queue, the states that can be reached, and what holds in them.
\<close>

section \<open>Steps\<close>

text \<open>
  The events a timer can deliver are allowed at any time, which covers an expiration
  that is queued when its timer is cancelled.  Transport errors come from the two kinds of
  transports a peer has.  The service of a refused connection attempt while an incoming
  connection waits for the election is left out (\<open>nack_during_election_faults\<close>).
\<close>

inductive peer_step :: "peer_env \<Rightarrow> peer \<Rightarrow> peer \<Rightarrow> bool" for cfg where
  step_start: "peer_step cfg w (Entry_Start w)"
| step_stop: "peer_step cfg w (Entry_Stop cause w)"
| step_incoming: "peer_step cfg w (IncommingConnectionRequest i cer w)"
| step_accepted: "peer_step cfg w (ConnectionRequestAccepted i w)"
| step_failed: "peer_step cfg w (ConnectionRequestFailed w)"
| step_message: "peer_step cfg w (Message msg w)"
| step_timer: "ev \<in> {PEV_TIMEOUT, PEV_CONN_RETRY, PEV_WATCHDOG}
    \<Longrightarrow> peer_step cfg w (Entry_Timeout ev w)"
| step_error: "err \<in> {PARSING_ERROR, CORRUPTED_BYTE_STREAM, TRANSPORT_ERROR}
    \<Longrightarrow> name \<in> {''Acceptor'', ''Connector''} \<Longrightarrow> peer_step cfg w (Entry_Error err name w)"
| step_send: "peer_step cfg w (snd (Entry_Send msg w))"
| step_serve: "m_EventQueue w = p # q
    \<Longrightarrow> \<not> (pp_event p = PEV_I_RCV_CONN_NACK \<and> p_state w = PS_WAIT_CONN_ACK_ELECT)
    \<Longrightarrow> peer_step cfg w (Serve cfg w)"

inductive peer_reach :: "peer_env \<Rightarrow> peer \<Rightarrow> peer \<Rightarrow> bool" for cfg w0 where
  reach_refl: "peer_reach cfg w0 w0"
| reach_step: "peer_reach cfg w0 w \<Longrightarrow> peer_step cfg w w' \<Longrightarrow> peer_reach cfg w0 w'"

inductive_cases peer_step_cases: "peer_step cfg w w'"

definition idle_inv :: "('a) dia_config_scheme \<Rightarrow> peer \<Rightarrow> bool" where
  "idle_inv cfg w \<longleftrightarrow> peer_inv cfg w \<and> m_CurrentPeerEventParam w = None"

lemma idle_inv_new: "idle_inv cfg (Entry_new g n p s t)"
  by (simp add: idle_inv_def peer_inv_def Entry_new_def fsm_Start_def InitialState_peer
      timers_ok_def io_ok_def queue_ok_def peer_open_def peer_transient_def)

text \<open>An operation outside the service only extends the queue, by a well-formed event.\<close>

lemma MsgIdRx_frame [effect_simps]:
  "p_state (snd (MsgIdRxMessage m w)) = p_state w"
  "p_running (snd (MsgIdRxMessage m w)) = p_running w"
  "p_timers (snd (MsgIdRxMessage m w)) = p_timers w"
  "m_IOInitiator (snd (MsgIdRxMessage m w)) = m_IOInitiator w"
  "m_IOResponder (snd (MsgIdRxMessage m w)) = m_IOResponder w"
  "m_CurrentPeerEventParam (snd (MsgIdRxMessage m w)) = m_CurrentPeerEventParam w"
  "m_EventQueue (snd (MsgIdRxMessage m w)) = m_EventQueue w"
  "p_fault (snd (MsgIdRxMessage m w)) = p_fault w"
  by (auto simp: MsgIdRxMessage_def upd_msgid_def Let_def split: prod.splits bool.splits)

lemma idle_Notify:
  "idle_inv cfg w \<Longrightarrow> wf_param \<lparr>pp_event = ev, pp_msg = m, pp_io = x\<rparr> \<Longrightarrow>
     idle_inv cfg (Notify ev m x w)"
  by (simp add: idle_inv_def peer_inv_def effect_simps)

lemma idle_MsgIdRx: "idle_inv cfg w \<Longrightarrow> idle_inv cfg (snd (MsgIdRxMessage m w))"
  by (simp add: idle_inv_def peer_inv_def effect_simps)

lemma idle_emit: "idle_inv cfg w \<Longrightarrow> idle_inv cfg (emit e w)"
  by (simp add: idle_inv_def peer_inv_def effect_simps)

lemma wf_param_msg: "\<not> carries_io ev \<Longrightarrow> wf_param \<lparr>pp_event = ev, pp_msg = Some m, pp_io = x\<rparr>"
  by (simp add: wf_param_def)

lemma cmd_table_io:
  "List.find P cmd_table = Some c \<Longrightarrow>
     \<not> carries_io (i_event c m) \<and> \<not> carries_io (r_event c m)"
  by (auto simp: cmd_table_def i_event_def r_event_def carries_io_def split: if_splits)

lemma idle_Message:
  assumes "idle_inv cfg w"
  shows "idle_inv cfg (Message msg w)"
proof (cases "List.find (\<lambda>c. ce_code c = code (hdr msg)) cmd_table")
  case None
  with assms show ?thesis
    by (auto simp: Message_def carries_io_def carries_msg_def
        intro!: idle_Notify wf_param_msg wf_param_bare split: peer_st.splits)
next
  case (Some c)
  let ?w1 = "snd (MsgIdRxMessage msg w)"
  have n: "idle_inv cfg (Notify ev (Some msg) None ?w1)" if "\<not> carries_io ev" for ev
    by (intro idle_Notify idle_MsgIdRx assms wf_param_msg that)
  have cea: "\<not> carries_io PEV_I_RCV_CEA" by (simp add: carries_io_def)
  have "idle_inv cfg (base_message c msg w)"
    using n [OF conjunct1 [OF cmd_table_io [OF Some]]]
      n [OF conjunct2 [OF cmd_table_io [OF Some]]] n [OF cea] idle_MsgIdRx [OF assms]
    by (simp add: base_message_def case_prod_unfold split: peer_st.split)
  moreover have "idle_inv cfg (Notify PEV_I_RCV_NON_CEA None None w)"
    by (intro idle_Notify assms wf_param_bare) (simp_all add: carries_io_def carries_msg_def)
  ultimately show ?thesis using Some by (simp add: Message_def)
qed

lemma idle_Serve:
  assumes inv: "idle_inv cfg w" and q: "m_EventQueue w = p # q"
    and nack: "\<not> (pp_event p = PEV_I_RCV_CONN_NACK \<and> p_state w = PS_WAIT_CONN_ACK_ELECT)"
  shows "idle_inv cfg (Serve cfg w)"
proof -
  let ?w1 = "w\<lparr>m_EventQueue := q, m_CurrentPeerEventParam := Some p\<rparr>"
  have "mid_inv cfg ?w1" and "served (pp_event p) ?w1"
    using inv q nack by (auto simp: idle_inv_def mid_inv_def peer_inv_def queue_ok_def served_def)
  then have mid: "mid_inv cfg (Event cfg (pp_event p) ?w1)"
    unfolding Event_def by (rule peer_machine.event_inv)
  moreover have "\<not> p_fault w" using inv by (simp add: idle_inv_def peer_inv_def)
  moreover have "idle_inv cfg (drop_event w')" if "mid_inv cfg w'" for w'
    using that
    by (auto simp: mid_inv_def idle_inv_def peer_inv_def drop_event_def effect_simps)
  ultimately show ?thesis
    using q by (simp add: Serve_def mid_inv_def peer_inv_def)
qed

lemma idle_step: "peer_step cfg w w' \<Longrightarrow> idle_inv cfg w \<Longrightarrow> idle_inv cfg w'"
proof (induction rule: peer_step.induct)
  case (step_serve w p q)
  then show ?case by (blast intro: idle_Serve)
next
  case (step_message w msg)
  then show ?case by (rule idle_Message)
next
  case (step_incoming w i cer)
  then show ?case
    by (auto simp: IncommingConnectionRequest_def case_prod_unfold wf_param_def
        intro!: idle_Notify idle_MsgIdRx)
next
  case (step_stop w cause)
  have "idle_inv cfg (w\<lparr>m_DisconnectCause := cause\<rparr>)"
    using step_stop by (simp add: idle_inv_def peer_inv_def)
  with step_stop show ?case
    by (simp add: Entry_Stop_def idle_emit idle_Notify carries_msg_def carries_io_def)
next
  case (step_send w msg)
  then show ?case
    by (auto simp: Entry_Send_def collector_Send_def idle_emit split: peer_st.splits)
qed (auto simp: Entry_Start_def ConnectionRequestAccepted_def ConnectionRequestFailed_def
    Entry_Timeout_def Entry_Error_def wf_param_def carries_msg_def carries_io_def
    intro!: idle_Notify idle_emit)

lemma idle_reach: "peer_reach cfg w0 w \<Longrightarrow> idle_inv cfg w0 \<Longrightarrow> idle_inv cfg w"
  by (induction rule: peer_reach.induct) (auto intro: idle_step)

section \<open>A configuration to evaluate with\<close>

definition sample_env :: peer_env where
  "sample_env = \<lparr>cfg_identity = ''b.net'', cfg_realm = ''net'', cfg_watchdog_timeout = 4,
     cfg_reconnect_interval = 30, cfg_reconnect_max = 2, cfg_retx_interval = 8,
     cfg_retx_max_count = 3, cfg_advertised_hostname = [], cfg_product = ''Open Diameter'',
     cfg_version = 1, cfg_vendor = 0, cfg_supportedVendorIdLst = [],
     cfg_authAppIdLst = [1], cfg_acctAppIdLst = [3], cfg_vendorSpecificId = [],
     cfg_originStateId = 1, env_local_addr = ''abcd'', env_resolve = (\<lambda>_. None)\<rparr>"

definition sample_gen :: id_gen where
  "sample_gen = \<lparr>hop_Id = 0, end_Id = 0, rnd = (\<lambda>n. of_nat n + 17), drawn = 0\<rparr>"

definition sample_peer :: peer where
  "sample_peer = Entry_new sample_gen ''a.net'' 3868 False False"

definition sample_io :: io where
  "sample_io = \<lparr>io_id = 1, io_proto = IPPROTO_TCP\<rparr>"

definition sample_cer :: diameter_msg where
  "sample_cer = (ce_header MSG_CAPABILITIES_EXCHG True)
     \<lparr>acl := [(''OriginHost'', [AStr ''a.net'']), (''AuthApplicationId'', [AU32 1])]\<rparr>"

section \<open>Properties of reachable peers\<close>


lemma reach_started:
  "peer_reach sample_env sample_peer (Serve sample_env (Entry_Start sample_peer))"
proof -
  have q: "m_EventQueue (Entry_Start sample_peer)
      = [\<lparr>pp_event = PEV_START, pp_msg = None, pp_io = None\<rparr>]"
    by code_simp
  show ?thesis
    by (rule reach_step [OF reach_step [OF reach_refl step_start] step_serve [OF q]]) simp
qed


lemma dispatch_TIMEOUT:
  "peer_transient s \<Longrightarrow> sm_dispatch peer_state_table True s PEV_TIMEOUT = Fire PS_CLOSED PAC_Error"
proof -
  have "sm_dispatch peer_state_table True PS_WAIT_CONN_ACK PEV_TIMEOUT = Fire PS_CLOSED PAC_Error"
    "sm_dispatch peer_state_table True PS_WAIT_I_CEA PEV_TIMEOUT = Fire PS_CLOSED PAC_Error"
    "sm_dispatch peer_state_table True PS_WAIT_CONN_ACK_ELECT PEV_TIMEOUT = Fire PS_CLOSED PAC_Error"
    "sm_dispatch peer_state_table True PS_WAIT_RETURNS PEV_TIMEOUT = Fire PS_CLOSED PAC_Error"
    "sm_dispatch peer_state_table True PS_CLOSING PEV_TIMEOUT = Fire PS_CLOSED PAC_Error"
    by code_simp+
  then show "peer_transient s \<Longrightarrow>
      sm_dispatch peer_state_table True s PEV_TIMEOUT = Fire PS_CLOSED PAC_Error"
    by (cases s) (simp_all add: peer_transient_def peer_open_def)
qed

lemma Serve_Fire:
  assumes "\<not> p_fault w" "p_running w" "m_EventQueue w = p # q"
    and "sm_dispatch peer_state_table True (p_state w) (pp_event p) = Fire s' a"
  shows "Serve cfg w =
    steps [peer_action cfg a, drop_event]
      (set_p_state s' (w\<lparr>m_EventQueue := q, m_CurrentPeerEventParam := Some p\<rparr>))"
  using assms by (simp add: Serve_def Event_def sm_event_def effect_simps)

lemma drop_event_frame [effect_simps]:
  "m_CurrentPeerEventParam w = Some p \<Longrightarrow> p_state (drop_event w) = p_state w"
  "m_CurrentPeerEventParam w = Some p \<Longrightarrow> p_timers (drop_event w) = p_timers w"
  "m_CurrentPeerEventParam w = Some p \<Longrightarrow> m_IOInitiator (drop_event w) = m_IOInitiator w"
  "m_CurrentPeerEventParam w = Some p \<Longrightarrow> m_IOResponder (drop_event w) = m_IOResponder w"
  "m_CurrentPeerEventParam w = Some p \<Longrightarrow> m_EventQueue (drop_event w) = m_EventQueue w"
  "m_CurrentPeerEventParam w = Some p \<Longrightarrow> p_fault (drop_event w) = p_fault w"
  by (simp_all add: drop_event_def effect_simps)

lemma drop_event_effects [effect_simps]:
  "m_CurrentPeerEventParam w = Some p \<Longrightarrow> pp_io p = None \<Longrightarrow>
     p_effects (drop_event w) = p_effects w"
  by (simp add: drop_event_def delete_io_def)

lemma emit_effects [effect_simps]: "p_effects (emit e w) = p_effects w @ [e]"
  by (simp add: emit_def)



text \<open>A refused connection attempt that is served while an incoming connection waits
  for the election, and no older outgoing transport is left, dereferences a null pointer:
  the action overwrites the responder with the transport of the refusal, which has none,
  before it assembles the answer.\<close>

theorem nack_during_election_faults:
  assumes "p_running w" and "\<not> p_fault w" and "p_state w = PS_WAIT_CONN_ACK_ELECT"
    and "m_IOInitiator w = None"
    and "m_EventQueue w = \<lparr>pp_event = PEV_I_RCV_CONN_NACK, pp_msg = None, pp_io = None\<rparr> # q"
  shows "p_fault (Serve cfg w)"
proof -
  have "sm_dispatch peer_state_table True PS_WAIT_CONN_ACK_ELECT PEV_I_RCV_CONN_NACK
      = Fire PS_R_OPEN PAC_RSendCEA"
    by code_simp
  with Serve_Fire [OF assms(2,1,5)] assms show ?thesis
    by (simp add: step_simps effect_simps)
qed

theorem nack_during_election_faults_witness:
  "\<exists>w. peer_reach sample_env sample_peer w \<and> p_state w = PS_WAIT_CONN_ACK_ELECT \<and>
     p_fault (Serve sample_env (ConnectionRequestFailed w))"
proof -
  let ?w1 = "IncommingConnectionRequest sample_io sample_cer
    (Serve sample_env (Entry_Start sample_peer))"
  let ?w2 = "Serve sample_env ?w1"
  have q: "m_EventQueue ?w1
      = [\<lparr>pp_event = PEV_R_CONN_CER, pp_msg = Some sample_cer, pp_io = Some sample_io\<rparr>]"
    by code_simp
  have r: "peer_reach sample_env sample_peer ?w2"
    by (rule reach_step [OF reach_step [OF reach_started step_incoming] step_serve [OF q]]) simp
  have s: "p_state (ConnectionRequestFailed ?w2) = PS_WAIT_CONN_ACK_ELECT"
    "p_state ?w2 = PS_WAIT_CONN_ACK_ELECT"
    "p_running (ConnectionRequestFailed ?w2)" "\<not> p_fault (ConnectionRequestFailed ?w2)"
    "m_IOInitiator (ConnectionRequestFailed ?w2) = None"
    "m_EventQueue (ConnectionRequestFailed ?w2)
      = [\<lparr>pp_event = PEV_I_RCV_CONN_NACK, pp_msg = None, pp_io = None\<rparr>]"
    by code_simp+
  from nack_during_election_faults [OF s(3,4,1,5,6)] r s(2) show ?thesis by blast
qed

end
