(* ===== verification/Peer_Props.thy ===== *)
theory Peer_Props
  imports Peer_System
begin

text \<open>
  Functional properties of the peer protocol: the election, the answers to capabilities,
  watchdog and disconnect requests, the message identifiers and the re-connection bound.
\<close>

section \<open>Election\<close>

definition padded_to :: "string \<Rightarrow> string \<Rightarrow> string" where
  "padded_to l p = elect_pad (length p - length l) l"

lemma schar_inj: "schar a = schar b \<longleftrightarrow> a = b"
proof -
  have "(of_char c :: int) < 256" "(of_char c :: int) \<ge> 0" for c
    by (metis of_char_eq_iff of_nat_of_char nat_of_char_less_256 of_nat_less_iff of_nat_numeral,
        metis of_nat_of_char of_nat_0_le_iff)
  then have "(of_char a :: int) = of_char b" if "schar a = schar b"
    using that by (smt (verit) schar_def)
  then show ?thesis by auto
qed

lemma elect_loop_total:
  "length l = length p \<Longrightarrow> l \<noteq> p \<Longrightarrow> elect_loop l p \<longleftrightarrow> \<not> elect_loop p l"
proof (induction l p rule: list_induct2)
  case (Cons a as b bs)
  then show ?case using schar_inj [of a b] by auto
qed simp

lemma elect_loop_same: "\<not> elect_loop l l"
  by (induction l) simp_all

lemma election_padded:
  "election l p =
     (if l = p then SameHost else elect_by (padded_to l p) (padded_to p l))"
  by (auto simp: election_def padded_to_def elect_pad_def)

text \<open>C24: when two peers that know each other's names hold an election, exactly one of them
  wins, unless their padded names coincide: then the names are equal (and both clean up), or
  they differ only in trailing padding octets and both concede.\<close>

theorem election_antisymmetric:
  "(if l = p then election l p = SameHost \<and> election p l = SameHost
    else if padded_to l p = padded_to p l
      then election l p = PeerWins \<and> election p l = PeerWins
    else election l p = LocalWins \<and> election p l = PeerWins \<or>
         election l p = PeerWins \<and> election p l = LocalWins)"
proof -
  have "length (padded_to l p) = length (padded_to p l)"
    by (simp add: padded_to_def elect_pad_def)
  then show ?thesis
    using elect_loop_total [of "padded_to l p" "padded_to p l"]
    by (auto simp: election_padded elect_by_def elect_loop_same)
qed

section \<open>Message identifiers\<close>

definition wf_msg_ids :: "peer \<Rightarrow> bool" where
  "wf_msg_ids w \<longleftrightarrow> wf_pmap (m_LastTxHopId (m_MsgId (m_PeerCapabilities w))) \<and>
     wf_pmap (m_LastTxEndId (m_MsgId (m_PeerCapabilities w)))"

definition sent_hop :: "peer \<Rightarrow> u32 \<Rightarrow> bool" where
  "sent_hop w h \<longleftrightarrow> PM_Lookup h (m_LastTxHopId (m_MsgId (m_PeerCapabilities w))) \<noteq> None"

definition sent_end :: "peer \<Rightarrow> u32 \<Rightarrow> bool" where
  "sent_end w e \<longleftrightarrow> PM_Lookup e (m_LastTxEndId (m_MsgId (m_PeerCapabilities w))) \<noteq> None"

lemma pm_del_split:
  "pm_del k m = (b, m') \<Longrightarrow> wf_pmap m \<Longrightarrow>
     b = (PM_Lookup k m \<noteq> None) \<and> wf_pmap m' \<and>
     PM_Lookup j m' = (if j = k then None else PM_Lookup j m)"
  using pm.del_found [of m k] pm.inv_del [of m k] pm.lookup_del [of m j k] by simp

lemma pm_del_twice:
  "pm_del k m' = (True, m'') \<Longrightarrow> pm_del k m = (b, m') \<Longrightarrow> wf_pmap m \<Longrightarrow> False"
  using pm.del_once [of m k] by simp

text \<open>C25: an answer to a base protocol request is accepted exactly when both of its
  identifiers belong to requests that this peer has sent and not yet been answered; its
  acceptance uses the identifiers up, so a replay of it is refused, and it leaves those of
  other requests in place.\<close>

theorem answer_accepted_once:
  assumes "wf_msg_ids w" and "\<not> IsRequest m"
  shows "fst (MsgIdRxMessage m w) = (sent_hop w (hh (hdr m)) \<and> sent_end w (ee (hdr m))) \<and>
     \<not> fst (MsgIdRxMessage m (snd (MsgIdRxMessage m w))) \<and>
     (h \<noteq> hh (hdr m) \<longrightarrow> sent_hop (snd (MsgIdRxMessage m w)) h = sent_hop w h) \<and>
     (e \<noteq> ee (hdr m) \<longrightarrow> sent_end (snd (MsgIdRxMessage m w)) e = sent_end w e)"
  using assms
  by (auto simp: MsgIdRxMessage_def IsRequest_def upd_msgid_def sent_hop_def sent_end_def
      wf_msg_ids_def Let_def split: prod.splits bool.splits
      dest: pm_del_split [where j = h] pm_del_split [where j = e] pm_del_twice)

definition sample_waiting :: peer where
  "sample_waiting = upd_msgid (\<lambda>m. m\<lparr>m_LastTxHopId := [(7, 7)], m_LastTxEndId := [(9, 9)]\<rparr>)
     sample_peer"

definition sample_answer :: diameter_msg where
  "sample_answer = (ce_header MSG_WATCHDOG False)
     \<lparr>hdr := (hdr (ce_header MSG_WATCHDOG False))\<lparr>hh := 7, ee := 9\<rparr>\<rparr>"

theorem answer_accepted_once_witness:
  "fst (MsgIdRxMessage sample_answer sample_waiting) \<and>
     \<not> fst (MsgIdRxMessage sample_answer (snd (MsgIdRxMessage sample_answer sample_waiting)))"
proof -
  have "wf_msg_ids sample_waiting"
    by (simp add: wf_msg_ids_def wf_pmap_def sample_waiting_def upd_msgid_def)
  moreover have "\<not> IsRequest sample_answer" "sent_hop sample_waiting (hh (hdr sample_answer))"
    "sent_end sample_waiting (ee (hdr sample_answer))"
    by code_simp+
  ultimately show ?thesis
    using answer_accepted_once [of sample_waiting sample_answer] by blast
qed

text \<open>The identifiers that received requests leave behind are given to the answers in the
  order in which the requests arrived.\<close>

fun rx_requests :: "diameter_msg list \<Rightarrow> peer \<Rightarrow> peer" where
  "rx_requests [] w = w"
| "rx_requests (m # ms) w = rx_requests ms (snd (MsgIdRxMessage m w))"

fun tx_answers :: "diameter_msg list \<Rightarrow> peer \<Rightarrow> diameter_msg list" where
  "tx_answers [] w = []"
| "tx_answers (m # ms) w =
     (case MsgIdTxMessage m w of (m', w') \<Rightarrow> m' # tx_answers ms w')"

abbreviation rx_hop :: "peer \<Rightarrow> u32 list" where
  "rx_hop w \<equiv> m_LastRxHopId (m_MsgId (m_PeerCapabilities w))"

abbreviation rx_end :: "peer \<Rightarrow> u32 list" where
  "rx_end w \<equiv> m_LastRxEndId (m_MsgId (m_PeerCapabilities w))"

lemma rx_requests_ids:
  "\<forall>m \<in> set ms. IsRequest m \<Longrightarrow>
     rx_hop (rx_requests ms w) = rx_hop w @ map (\<lambda>m. hh (hdr m)) ms \<and>
     rx_end (rx_requests ms w) = rx_end w @ map (\<lambda>m. ee (hdr m)) ms"
  by (induction ms arbitrary: w)
    (simp_all add: MsgIdRxMessage_def IsRequest_def upd_msgid_def Enqueue_def)

lemma tx_answers_ids:
  "\<forall>m \<in> set ms. \<not> IsRequest m \<Longrightarrow> length (rx_hop w) = length ms \<Longrightarrow>
   length (rx_end w) = length ms \<Longrightarrow>
     map (\<lambda>m. (hh (hdr m), ee (hdr m))) (tx_answers ms w) = zip (rx_hop w) (rx_end w)"
proof (induction ms arbitrary: w)
  case (Cons m ms)
  obtain h hs e es where q: "rx_hop w = h # hs" "rx_end w = e # es"
    using Cons.prems by (metis length_Suc_conv list.size(4) One_nat_def add.commute plus_1_eq_Suc)
  with Cons.IH [of "snd (MsgIdTxMessage m w)"] Cons.prems show ?case
    by (simp add: MsgIdTxMessage_def IsRequest_def upd_msgid_def deq_id_def QueueIsEmpty_def)
qed simp

text \<open>C26: base protocol requests are answered with their own identifiers: when no request
  is waiting and requests arrive, the answers sent next carry the hop-by-hop and end-to-end
  identifiers of those requests, in their order of arrival.\<close>

theorem answers_echo_requests:
  assumes "rx_hop w = []" and "rx_end w = []" and "\<forall>m \<in> set rqs. IsRequest m"
    and "\<forall>m \<in> set ans. \<not> IsRequest m" and "length ans = length rqs"
  shows "map (\<lambda>m. (hh (hdr m), ee (hdr m))) (tx_answers ans (rx_requests rqs w))
     = map (\<lambda>m. (hh (hdr m), ee (hdr m))) rqs"
  using assms rx_requests_ids [of rqs w] tx_answers_ids [of ans "rx_requests rqs w"]
  by (simp add: zip_map_map zip_same_conv_map)

theorem answers_echo_requests_witness:
  "map (\<lambda>m. (hh (hdr m), ee (hdr m)))
     (tx_answers [sample_answer, sample_answer]
       (rx_requests [sample_cer, sample_cer\<lparr>hdr := (hdr sample_cer)\<lparr>hh := 5, ee := 6\<rparr>\<rparr>]
         sample_peer)) = [(0, 0), (5, 6)]"
proof -
  have a: "rx_hop sample_peer = []" "rx_end sample_peer = []" "IsRequest sample_cer"
    "IsRequest (sample_cer\<lparr>hdr := (hdr sample_cer)\<lparr>hh := 5, ee := 6\<rparr>\<rparr>)"
    "\<not> IsRequest sample_answer" "hh (hdr sample_cer) = 0" "ee (hdr sample_cer) = 0"
    by code_simp+
  show ?thesis
    by (subst answers_echo_requests) (use a in auto)
qed

section \<open>Answers\<close>

lemma acl_search_ce_acl_none:
  "acl_search ''ResultCode'' (ce_acl cfg t p) = None"
  "acl_search ''ErrorMessage'' (ce_acl cfg t p) = None"
  by (simp_all add: ce_acl_def acl_search_nonempty)

definition first_or_zero :: "u32 list \<Rightarrow> u32" where
  "first_or_zero q = (case q of [] \<Rightarrow> 0 | x # _ \<Rightarrow> x)"

lemma deq_id_fst: "fst (deq_id q) = first_or_zero q"
  by (cases q) (simp_all add: deq_id_def QueueIsEmpty_def first_or_zero_def)

text \<open>The error message of an answer is present for failures only.\<close>

definition is_cea :: "peer \<Rightarrow> u32 \<Rightarrow> string \<Rightarrow> diameter_msg \<Rightarrow> bool" where
  "is_cea w rc ms m \<longleftrightarrow>
     \<not> IsRequest m \<and> IsCapabilities m \<and> ResultCode m = rc \<and>
     hh (hdr m) = first_or_zero (rx_hop w) \<and> ee (hdr m) = first_or_zero (rx_end w) \<and>
     GetStr ''ErrorMessage'' 0 (acl m) =
       (if ms \<noteq> [] \<and> InterpretedCode rc \<notin> {RCODE_NOT_PRESENT, RCODE_SUCCESS}
        then Some ms else None)"

lemma MsgIdTx_answer:
  assumes "\<not> IsRequest m"
  shows "fst (MsgIdTxMessage m w) = m\<lparr>hdr := (hdr m)\<lparr>hh := first_or_zero (rx_hop w),
      ee := first_or_zero (rx_end w)\<rparr>\<rparr>"
    and "p_effects (snd (MsgIdTxMessage m w)) = p_effects w"
    and "m_DisconnectCause (snd (MsgIdTxMessage m w)) = m_DisconnectCause w"
  using assms deq_id_fst [of "rx_hop w"] deq_id_fst [of "rx_end w"]
  by (auto simp: MsgIdTxMessage_def IsRequest_def upd_msgid_def split: prod.splits)

lemma ce_header_simps [simp]:
  "IsRequest (ce_header c r) = r" "flag_r (flags (hdr (ce_header c r))) = r" "code (hdr (ce_header c r)) = c" "acl (ce_header c r) = []"
  by (simp_all add: ce_header_def MsgWidget_def IsRequest_def)

lemma io_of_state_frame:
  "io_of_state (snd (MsgIdTxMessage m w)) = io_of_state w"
  "io_of_state (snd (AssembleCE cfg r w)) = io_of_state w"
  by (simp_all add: io_of_state_def effect_simps)

lemma SendCEA_sends:
  assumes "m_IOInitiator w \<noteq> None \<or> m_IOResponder w \<noteq> None" and "\<not> p_fault w"
  shows "\<exists>m. p_effects (SendCEA cfg rc ms w) = p_effects w @ [Sent (io_of_state w) m] \<and>
    is_cea w rc ms m"
proof -
  let ?m0 = "fst (MsgIdTxMessage (ce_header MSG_CAPABILITIES_EXCHG False) w)"
  let ?w1 = "snd (MsgIdTxMessage (ce_header MSG_CAPABILITIES_EXCHG False) w)"
  obtain proto where "TransportProtocolInUse ?w1 = Some proto"
    using assms(1)
    by (cases "m_IOInitiator w") (auto simp: TransportProtocolInUse_def effect_simps)
  then have a: "AssembleCE cfg False w = (?m0\<lparr>acl := ce_acl cfg (m_TLS ?w1) proto\<rparr>, ?w1)"
    by (simp add: AssembleCE_def case_prod_unfold)
  have "\<not> IsRequest (ce_header MSG_CAPABILITIES_EXCHG False)" by simp
  note t = MsgIdTx_answer [OF this, of w]
  show ?thesis
    using assms(2)
    by (auto simp: SendCEA_def a t Let_def collector_Send_def emit_effects effect_simps
        io_of_state_frame is_cea_def add_avp_def IsCapabilities_def IsRequest_def
        ResultCode_def GetU32_def GetStr_def GetAvp_def acl_search_append
        acl_search_ce_acl_none)
qed

text \<open>Steps only append to the effects.\<close>

definition appends :: "(peer \<Rightarrow> peer) \<Rightarrow> bool" where
  "appends f \<longleftrightarrow> (\<forall>w. \<exists>es. p_effects (f w) = p_effects w @ es)"

lemma appendsD: "appends f \<Longrightarrow> \<exists>es. p_effects (f w) = p_effects w @ es"
  by (simp add: appends_def)

lemma appends_steps: "list_all appends fs \<Longrightarrow> appends (steps fs)"
proof (induction fs)
  case (Cons f fs)
  then show ?case by (simp add: appends_def) (metis append.assoc append_Nil2)
qed (simp add: appends_def)

lemma appends_gc: "appends (\<lambda>w. ScheduleForDeletion (x w) (f w))"
  if "\<And>w. p_effects (f w) = p_effects w"
  using that by (auto simp: appends_def ScheduleForDeletion_def emit_def split: option.splits)

lemma appends_Cleanup: "appends (Cleanup fl)"
proof -
  have g: "appends gc_responder" "appends gc_initiator" "appends release_event"
    by (auto simp: appends_def gc_responder_def gc_initiator_def release_event_def
        ScheduleForDeletion_def emit_def null_deref_def split: option.splits)
  have s: "appends fsm_Start" "appends fsm_Stop" "appends StopReConnect" "appends (p_cancel ty)"
    "appends (\<lambda>w. w\<lparr>m_PeerCapabilities := c w\<rparr>)" for ty c
    by (auto simp: appends_def fsm_Start_def fsm_Stop_def StopReConnect_def p_cancel_def
        split: sum.splits)
  show ?thesis unfolding Cleanup_def by (rule appends_steps) (simp add: g s)
qed

lemma appends_drop_event: "appends drop_event"
  by (auto simp: appends_def drop_event_def delete_io_def emit_def null_deref_def
      split: option.splits)

lemma ValidatePeer_cong:
  "m_PeerCapabilities w = m_PeerCapabilities v \<Longrightarrow> m_TLS w = m_TLS v \<Longrightarrow>
     ValidatePeer cfg w = ValidatePeer cfg v"
  by (simp add: ValidatePeer_def)

lemma responder_from_event_more:
  "m_CurrentPeerEventParam w = Some p \<Longrightarrow> m_TLS (responder_from_event w) = m_TLS w"
  "m_CurrentPeerEventParam w = Some p \<Longrightarrow>
     m_PeerCapabilities (responder_from_event w) = m_PeerCapabilities w"
  "m_CurrentPeerEventParam w = Some p \<Longrightarrow>
     \<exists>es. p_effects (responder_from_event w) = p_effects w @ es"
  by (auto simp: responder_from_event_def take_io_def delete_io_def emit_def split: option.splits)

lemma dispatch_CER_closed:
  "sm_dispatch peer_state_table True PS_CLOSED PEV_R_CONN_CER = Fire PS_R_OPEN PAC_RAcceptSendCEA"
  by code_simp

text \<open>C11: an incoming connection whose capabilities request is served by a closed machine is
  always answered on that connection, with the result of the validation of the advertised
  capabilities and the identifiers of the oldest unanswered request; the machine opens as
  the responder exactly when the validation succeeds, and is closed with no transport
  otherwise.\<close>

theorem incoming_is_answered:
  assumes "peer_reach cfg (Entry_new g n pt sc tls) w" and "p_state w = PS_CLOSED"
    and "m_EventQueue w =
      \<lparr>pp_event = PEV_R_CONN_CER, pp_msg = Some cer, pp_io = Some i\<rparr> # q"
    and "ValidatePeer cfg (DisassembleCE cer w) = (valid, rc, ms)"
  shows "\<not> p_fault (Serve cfg w) \<and>
    p_state (Serve cfg w) = (if valid then PS_R_OPEN else PS_CLOSED) \<and>
    m_IOResponder (Serve cfg w) = (if valid then Some i else None) \<and>
    (\<exists>es es' cea. p_effects (Serve cfg w) = p_effects w @ es @ Sent (Some i) cea # es' \<and>
       is_cea w rc ms cea \<and> (valid \<longrightarrow> Connected \<in> set es'))"
proof -
  let ?p = "\<lparr>pp_event = PEV_R_CONN_CER, pp_msg = Some cer, pp_io = Some i\<rparr>"
  define w1 where "w1 = set_p_state PS_R_OPEN (w\<lparr>m_EventQueue := q, m_CurrentPeerEventParam := Some ?p\<rparr>)"
  define w2 where "w2 = (responder_from_event w1)\<lparr>m_CurrentPeerEventParam :=
      Some (?p\<lparr>pp_io := None, pp_msg := None\<rparr>)\<rparr>"
  define w3 where "w3 = DisassembleCE cer w2"
  define w4 where "w4 = SendCEA cfg rc ms w3"
  have f: "\<not> p_fault w" "p_running w"
    using idle_reach [OF assms(1) idle_inv_new] by (simp_all add: idle_inv_def peer_inv_def)
  have c1: "m_CurrentPeerEventParam w1 = Some ?p" by (simp add: w1_def effect_simps)
  have v: "ValidatePeer cfg w3 = (valid, rc, ms)"
    unfolding assms(4) [symmetric]
    by (rule ValidatePeer_cong)
      (simp_all add: w3_def w2_def w1_def DisassembleCE_def responder_from_event_more
        set_p_state_def)
  obtain es where e2: "p_effects w3 = p_effects w @ es"
    using responder_from_event_more(3) [OF c1]
    by (auto simp: w3_def w2_def DisassembleCE_def) (simp add: w1_def set_p_state_def)
  have io3: "io_of_state w3 = Some i" "m_IOResponder w3 = Some i" "\<not> p_fault w3"
    using f by (simp_all add: io_of_state_def w3_def w2_def w1_def effect_simps)
  have ids: "rx_hop w3 = rx_hop w" "rx_end w3 = rx_end w"
    by (simp_all add: w3_def w2_def w1_def DisassembleCE_def caps_of_def set_p_state_def
        responder_from_event_more)
  obtain cea where cea: "p_effects w4 = p_effects w3 @ [Sent (Some i) cea]" "is_cea w rc ms cea"
    using SendCEA_sends [of w3 cfg rc ms] io3 ids by (auto simp: w4_def is_cea_def)
  have "Serve cfg w = steps [R_AcceptSendCEA cfg, drop_event] w1"
    using Serve_Fire [OF f assms(3)] dispatch_CER_closed assms(2) by (simp add: w1_def)
  also have "\<dots> = steps ((if \<not> valid then [Cleanup CLEANUP_ALL]
       else [p_cancel T_TIMEOUT, arm_watchdog cfg, StopReConnect, emit Connected])
       @ [drop_event]) w4"
  proof -
    have "R_AcceptSendCEA cfg w1 = steps (if \<not> valid then [Cleanup CLEANUP_ALL]
       else [p_cancel T_TIMEOUT, arm_watchdog cfg, StopReConnect, emit Connected]) w4"
      using c1 io3 v f
      by (simp add: R_AcceptSendCEA_def effect_simps w1_def w2_def w3_def w4_def)
    moreover have "\<not> p_fault w1" using f by (simp add: w1_def effect_simps)
    ultimately show ?thesis by (simp add: steps_append)
  qed
  finally have S: "Serve cfg w = steps ((if \<not> valid then [Cleanup CLEANUP_ALL]
       else [p_cancel T_TIMEOUT, arm_watchdog cfg, StopReConnect, emit Connected])
       @ [drop_event]) w4" .
  have w4f: "\<not> p_fault w4" "p_state w4 = PS_R_OPEN" "m_IOResponder w4 = Some i"
    "m_CurrentPeerEventParam w4 = Some (?p\<lparr>pp_io := None, pp_msg := None\<rparr>)"
    using io3 by (simp_all add: w4_def w3_def w2_def w1_def effect_simps)
  have "\<exists>es'. p_effects (steps fs w4) = p_effects w4 @ es'" if "list_all appends fs" for fs
    using appendsD [OF appends_steps [OF that]] .
  show ?thesis
  proof (cases valid)
    case True
    have "p_effects (Serve cfg w) = p_effects w4 @ [Connected]"
      unfolding S using True w4f
      by (simp add: effect_simps arm_watchdog_def StopReConnect_def p_schedule_def p_cancel_def)
    then have "p_effects (Serve cfg w) = p_effects w @ es @ Sent (Some i) cea # [Connected]"
      by (simp add: cea e2)
    moreover have "Connected \<in> set [Connected]" by simp
    moreover have "\<not> p_fault (Serve cfg w) \<and> p_state (Serve cfg w) = PS_R_OPEN \<and>
        m_IOResponder (Serve cfg w) = Some i"
      using True w4f unfolding S
      by (simp add: effect_simps arm_watchdog_def StopReConnect_def)
    ultimately show ?thesis using True cea(2) by metis
  next
    case False
    have "list_all appends [Cleanup CLEANUP_ALL, drop_event]"
      by (simp add: appends_Cleanup appends_drop_event)
    from appendsD [OF appends_steps [OF this], of w4] obtain es' where
      "p_effects (steps [Cleanup CLEANUP_ALL, drop_event] w4) = p_effects w4 @ es'" ..
    then have "p_effects (Serve cfg w) = p_effects w @ es @ Sent (Some i) cea # es'"
      using False by (simp add: S cea e2)
    moreover have "\<not> p_fault (Serve cfg w) \<and> p_state (Serve cfg w) = PS_CLOSED \<and>
        m_IOResponder (Serve cfg w) = None"
      using False w4f unfolding S by (simp add: effect_simps)
    ultimately show ?thesis using False cea(2) by metis
  qed
qed

lemma sample_cer_served:
  "m_EventQueue (IncommingConnectionRequest sample_io sample_cer sample_peer) =
     [\<lparr>pp_event = PEV_R_CONN_CER, pp_msg = Some sample_cer, pp_io = Some sample_io\<rparr>]"
  "p_state (IncommingConnectionRequest sample_io sample_cer sample_peer) = PS_CLOSED"
  "ValidatePeer sample_env (DisassembleCE sample_cer
     (IncommingConnectionRequest sample_io sample_cer sample_peer)) =
       (True, AAA_SUCCESS, ''Capabilities negotiation completed successfully'')"
  by code_simp+

theorem incoming_is_answered_witness:
  "let w = Serve sample_env (IncommingConnectionRequest sample_io sample_cer sample_peer) in
     p_state w = PS_R_OPEN \<and> m_IOResponder w = Some sample_io \<and>
     (\<exists>cea. Sent (Some sample_io) cea \<in> set (p_effects w) \<and> ResultCode cea = 2001)"
proof -
  let ?w = "IncommingConnectionRequest sample_io sample_cer sample_peer"
  have "peer_reach sample_env (Entry_new sample_gen ''a.net'' 3868 False False) ?w"
    using reach_step [OF reach_refl step_incoming] by (simp add: sample_peer_def)
  from incoming_is_answered [OF this sample_cer_served(2,1,3)] show ?thesis
    by (force simp: Let_def is_cea_def AAA_SUCCESS_def)
qed

text \<open>A disconnect request that an open initiator serves is acknowledged with success on
  the initiator's transport under the request's identifiers, before the machine closes,
  gives up its transports and reports the cause that the request names (or that it names
  none).\<close>

theorem disconnect_is_acknowledged:
  assumes "peer_reach cfg (Entry_new g n pt sc tls) w" and "p_state w = PS_I_OPEN"
    and "m_EventQueue w = \<lparr>pp_event = PEV_I_RCV_DPR, pp_msg = Some dpr, pp_io = None\<rparr> # q"
  shows "\<not> p_fault (Serve cfg w) \<and> p_state (Serve cfg w) = PS_CLOSED \<and>
    m_IOInitiator (Serve cfg w) = None \<and> m_IOResponder (Serve cfg w) = None \<and>
    (\<exists>es dpa. p_effects (Serve cfg w) =
        p_effects w @ Sent (m_IOInitiator w) dpa # es @ [Disconnected (disconnect_cause dpr)] \<and>
       m_IOInitiator w \<noteq> None \<and> \<not> IsRequest dpa \<and> code (hdr dpa) = MSG_DISCONNECT_PEER \<and>
       ResultCode dpa = AAA_SUCCESS \<and> hh (hdr dpa) = first_or_zero (rx_hop w) \<and>
       ee (hdr dpa) = first_or_zero (rx_end w))"
proof -
  let ?p = "\<lparr>pp_event = PEV_I_RCV_DPR, pp_msg = Some dpr, pp_io = None\<rparr>"
  define w1 where "w1 = (set_p_state PS_CLOSED (w\<lparr>m_EventQueue := q, m_CurrentPeerEventParam := Some ?p\<rparr>))
    \<lparr>m_CurrentPeerEventParam := Some (?p\<lparr>pp_msg := None\<rparr>)\<rparr>"
  define w2 where "w2 = SendDPA cfg True AAA_SUCCESS w1"
  have inv: "idle_inv cfg w" using idle_reach [OF assms(1) idle_inv_new] .
  then have f: "\<not> p_fault w" "p_running w" "m_IOInitiator w \<noteq> None"
    using assms(2) by (simp_all add: idle_inv_def peer_inv_def io_ok_def)
  have d: "sm_dispatch peer_state_table True PS_I_OPEN PEV_I_RCV_DPR
      = Fire PS_CLOSED PAC_ISendDPADisconnect"
    by code_simp
  have "Serve cfg w = steps [I_SendDPADisconnect cfg, drop_event]
      (set_p_state PS_CLOSED (w\<lparr>m_EventQueue := q, m_CurrentPeerEventParam := Some ?p\<rparr>))"
    using Serve_Fire [OF f(1,2) assms(3)] d assms(2) by simp
  also have "\<dots> = steps [Cleanup CLEANUP_ALL, emit (Disconnected (disconnect_cause dpr)),
      drop_event] w2"
    using f by (simp add: I_SendDPADisconnect_def effect_simps w1_def w2_def)
  finally have S: "Serve cfg w = \<dots>" .
  have w2f: "\<not> p_fault w2" "m_CurrentPeerEventParam w2 = Some (?p\<lparr>pp_msg := None\<rparr>)"
    using f by (simp_all add: w2_def w1_def effect_simps)
  have "\<not> IsRequest (ce_header MSG_DISCONNECT_PEER False)" by simp
  note t = MsgIdTx_answer [OF this, of w1]
  have ids: "rx_hop w1 = rx_hop w" "rx_end w1 = rx_end w" "p_effects w1 = p_effects w"
    "m_IOInitiator w1 = m_IOInitiator w"
    by (simp_all add: w1_def set_p_state_def)
  obtain dpa where dpa: "p_effects w2 = p_effects w @ [Sent (m_IOInitiator w) dpa]"
    "\<not> IsRequest dpa" "code (hdr dpa) = MSG_DISCONNECT_PEER" "ResultCode dpa = AAA_SUCCESS"
    "hh (hdr dpa) = first_or_zero (rx_hop w)" "ee (hdr dpa) = first_or_zero (rx_end w)"
    using t ids
    by (auto simp: w2_def SendDPA_def AssembleDP_def case_prod_unfold collector_Send_def
        emit_effects io_by_side_def effect_simps add_avp_def IsRequest_def ResultCode_def
        GetU32_def GetAvp_def)
  obtain es where "p_effects (Cleanup CLEANUP_ALL w2) = p_effects w2 @ es"
    using appendsD [OF appends_Cleanup] by blast
  then have "p_effects (Serve cfg w) =
      p_effects w @ Sent (m_IOInitiator w) dpa # es @ [Disconnected (disconnect_cause dpr)]"
    unfolding S using w2f dpa(1) by (simp add: effect_simps)
  moreover have "\<not> p_fault (Serve cfg w) \<and> p_state (Serve cfg w) = PS_CLOSED \<and>
      m_IOInitiator (Serve cfg w) = None \<and> m_IOResponder (Serve cfg w) = None"
    unfolding S using w2f by (simp add: effect_simps)
  ultimately show ?thesis using dpa f(3) by blast
qed

definition sample_cea :: diameter_msg where
  "sample_cea = (ce_header MSG_CAPABILITIES_EXCHG False)
     \<lparr>hdr := (hdr (ce_header MSG_CAPABILITIES_EXCHG False))\<lparr>hh := 18, ee := 18874387\<rparr>,
      acl := [(''ResultCode'', [AU32 2001]), (''OriginHost'', [AStr ''a.net''])]\<rparr>"

definition sample_dpr :: diameter_msg where
  "sample_dpr = (ce_header MSG_DISCONNECT_PEER True)
     \<lparr>acl := [(''DisconnectCause'', [AU32 2])]\<rparr>"

definition sample_connecting :: peer where
  "sample_connecting = Message sample_cea (Serve sample_env
     (ConnectionRequestAccepted sample_io (Serve sample_env (Entry_Start sample_peer))))"

definition sample_opened :: peer where
  "sample_opened = Message sample_dpr (Serve sample_env sample_connecting)"

lemma reach_opened: "peer_reach sample_env sample_peer sample_opened"
proof -
  let ?w1 = "ConnectionRequestAccepted sample_io (Serve sample_env (Entry_Start sample_peer))"
  have q1: "m_EventQueue ?w1
      = [\<lparr>pp_event = PEV_I_RCV_CONN_ACK, pp_msg = None, pp_io = Some sample_io\<rparr>]"
    and q2: "m_EventQueue sample_connecting
      = [\<lparr>pp_event = PEV_I_RCV_CEA, pp_msg = Some sample_cea, pp_io = None\<rparr>]"
    by code_simp+
  have "peer_reach sample_env sample_peer sample_connecting"
    unfolding sample_connecting_def
    by (rule reach_step [OF reach_step [OF reach_step [OF reach_started step_accepted]
          step_serve [OF q1]] step_message]) simp
  then show ?thesis
    unfolding sample_opened_def
    by (rule reach_step [OF reach_step [OF _ step_serve [OF q2]] step_message]) simp
qed

theorem disconnect_is_acknowledged_witness:
  "p_state (Serve sample_env sample_opened) = PS_CLOSED \<and>
   Disconnected 2 \<in> set (p_effects (Serve sample_env sample_opened))"
proof -
  have s: "p_state sample_opened = PS_I_OPEN"
    "m_EventQueue sample_opened
      = [\<lparr>pp_event = PEV_I_RCV_DPR, pp_msg = Some sample_dpr, pp_io = None\<rparr>]"
    "disconnect_cause sample_dpr = 2"
    by code_simp+
  from disconnect_is_acknowledged [OF reach_opened [unfolded sample_peer_def] s(1,2)] s(3)
  show ?thesis by auto
qed

text \<open>a successful watchdog answer carries an Error-Message, and a failed one does not:
  the test that \<open>SendCEA\<close> makes to add the message on failures only is inverted in
  \<open>SendDWA\<close>.\<close>

theorem watchdog_answer_error_message:
  "\<exists>dwa. p_effects (SendDWA cfg rc ms w) = p_effects w @ [Sent (io_of_state w) dwa] \<and>
     GetStr ''ErrorMessage'' 0 (acl dwa) =
       (if ms \<noteq> [] \<and> InterpretedCode rc = RCODE_SUCCESS then Some ms else None)"
proof -
  have "\<not> IsRequest (ce_header MSG_WATCHDOG False)" by simp
  from MsgIdTx_answer [OF this, of w] show ?thesis
    by (simp add: SendDWA_def AssembleDW_def case_prod_unfold Let_def collector_Send_def
        emit_effects io_of_state_frame add_avp_def GetStr_def GetAvp_def)
qed

section \<open>Re-connection\<close>

fun reconnects :: "nat \<Rightarrow> ('a) dia_config_scheme \<Rightarrow> peer \<Rightarrow> peer" where
  "reconnects 0 cfg w = w"
| "reconnects (Suc k) cfg w = DoReConnect cfg (reconnects k cfg w)"

lemma reconnects_count:
  assumes "cfg_reconnect_interval cfg > 0" "m_ReconnectAttempt w = 0"
  shows "k \<le> unat (cfg_reconnect_max cfg) \<Longrightarrow> unat (m_ReconnectAttempt (reconnects k cfg w)) = k"
proof (induction k)
  case (Suc k)
  let ?w = "reconnects k cfg w"
  from Suc have u: "unat (m_ReconnectAttempt ?w) = k" and k: "k < unat (cfg_reconnect_max cfg)"
    by simp_all
  then have lt: "m_ReconnectAttempt ?w < cfg_reconnect_max cfg" by (simp add: word_less_nat_alt)
  have "unat (m_ReconnectAttempt ?w + 1) = Suc k"
    using u k unat_u32 [of "cfg_reconnect_max cfg"] by (simp add: unat_word_ariths)
  then show ?case
    using lt assms(1) by (simp add: DoReConnect_def p_schedule_def)
qed (use assms in simp)

text \<open>C27: from a fresh counter, a peer whose connection keeps failing arms the retry timer for
  exactly the configured number of attempts; the attempt after that is not made, and the
  counter starts over.\<close>

theorem reconnect_bounded:
  assumes "cfg_reconnect_interval cfg > 0" and "m_ReconnectAttempt w = 0"
    and "k = unat (cfg_reconnect_max cfg)"
  shows "(\<forall>j < k. p_timers (reconnects (Suc j) cfg w) T_CONN_RETRY =
            Some (PEV_CONN_RETRY, unat (cfg_reconnect_interval cfg))) \<and>
     p_timers (reconnects (Suc k) cfg w) = p_timers (reconnects k cfg w) \<and>
     m_ReconnectAttempt (reconnects (Suc k) cfg w) = 0"
proof -
  have lt: "m_ReconnectAttempt (reconnects j cfg w) < cfg_reconnect_max cfg \<longleftrightarrow> j < k"
    if "j \<le> k" for j
    using reconnects_count [OF assms(1,2), of j] that assms(3) by (simp add: word_less_nat_alt)
  have "p_timers (DoReConnect cfg (reconnects j cfg w)) T_CONN_RETRY =
      Some (PEV_CONN_RETRY, unat (cfg_reconnect_interval cfg))" if "j < k" for j
    using lt [of j] that assms(1) by (simp add: DoReConnect_def p_schedule_def ScheduleTimer_def)
  then show ?thesis
    using lt [of k] by (simp add: DoReConnect_def)
qed

theorem reconnect_bounded_witness:
  "p_timers (reconnects 2 sample_env sample_peer) T_CONN_RETRY = Some (PEV_CONN_RETRY, 30) \<and>
   p_timers (reconnects 3 sample_env sample_peer) = p_timers (reconnects 2 sample_env sample_peer)"
proof -
  have c: "cfg_reconnect_interval sample_env > 0" "m_ReconnectAttempt sample_peer = 0"
    "2 = unat (cfg_reconnect_max sample_env)" "unat (cfg_reconnect_interval sample_env) = 30"
    by code_simp+
  note R = reconnect_bounded [OF c(1-3)]
  have n: "(3::nat) = Suc 2" "(2::nat) = Suc 1" by simp_all
  have "p_timers (reconnects (Suc 1) sample_env sample_peer) T_CONN_RETRY
      = Some (PEV_CONN_RETRY, 30)"
    using conjunct1 [OF R] unfolding c(4) by (metis one_less_numeral_iff semiring_norm(76))
  then show ?thesis using R n by metis
qed

end
