(* ===== verification/Job_Queue.thy ===== *)
theory Job_Queue
  imports DRA_Prelude
begin

text \<open>
  \<open>AAA_QueueJob\<close> of \<open>include/framework.h\<close>: the prioritised, weighted queue that every
  job and task of the framework is served from.  Data waits in one list per priority and
  weight; an index queue per priority says which of them is served next.
\<close>

section \<open>State\<close>

definition maxNumPriority :: nat where "maxNumPriority = 3"
definition maxMaxWeight :: nat where "maxMaxWeight = 3"

record 'a queue_job =
  numPriority :: nat
  maxWeight :: nat
  indexQueue :: "nat list list"
  dataQueue :: "'a list list"
  total :: nat
  signaled :: bool

text \<open>The constructor throws on too many priorities or too large a weight.\<close>

definition QueueJob_new :: "nat \<Rightarrow> nat \<Rightarrow> 'a queue_job option" where
  "QueueJob_new np mw =
     (if np > maxNumPriority \<or> mw > maxMaxWeight then None
      else Some \<lparr>numPriority = np, maxWeight = mw, indexQueue = replicate np [],
                 dataQueue = replicate (np * mw) [], total = 0, signaled = False\<rparr>)"

definition pIndex_of :: "nat \<Rightarrow> nat" where
  "pIndex_of p = (if p > maxNumPriority then maxNumPriority else p) - 1"

definition dIndex_of :: "nat \<Rightarrow> nat \<Rightarrow> nat \<Rightarrow> nat" where
  "dIndex_of mw p w =
     ((if p > maxNumPriority then maxNumPriority else p) - 1) * mw
      + ((if w > maxMaxWeight then maxMaxWeight else w) - 1)"

definition ExistBacklog :: "'a queue_job \<Rightarrow> bool" where
  "ExistBacklog q \<longleftrightarrow> total q > 0"

section \<open>Operations\<close>

text \<open>
  The total never reaches \<open>MaxSize\<close>, the largest \<open>size_t\<close>.  An index outside the two
  arrays is undefined behaviour, the value \<open>None\<close>.
\<close>

definition QJ_Enqueue ::
    "'a \<Rightarrow> bool \<Rightarrow> nat \<Rightarrow> nat \<Rightarrow> 'a queue_job \<Rightarrow> (int \<times> 'a queue_job) option" where
  "QJ_Enqueue entry blocking priority weight q =
     (if signaled q \<and> blocking then Some (-1, q)
      else
        (let p = pIndex_of priority; d = dIndex_of (maxWeight q) priority weight in
         if length (indexQueue q) \<le> p \<or> length (dataQueue q) \<le> d then None
         else
           (let iq = (if length (dataQueue q ! d) < weight
                      then (indexQueue q)[p := indexQueue q ! p @ [d]] else indexQueue q);
                dq = (dataQueue q)[d := dataQueue q ! d @ [entry]]
            in Some (int (total q) + 1,
                 q\<lparr>indexQueue := iq, dataQueue := dq, total := total q + 1\<rparr>))))"

datatype 'a deq_result =
    DeqEmpty
  | DeqSignaled
  | DeqWaits
  | DeqBug
  | DeqGot 'a

fun first_class :: "nat \<Rightarrow> nat list list \<Rightarrow> nat option" where
  "first_class p [] = None"
| "first_class p (iq # iqs) = (if iq = [] then first_class (p + 1) iqs else Some p)"

definition dequeue_from :: "nat \<Rightarrow> 'a queue_job \<Rightarrow> ('a \<times> 'a queue_job) option" where
  "dequeue_from p q =
     (case indexQueue q ! p of
        [] \<Rightarrow> None
      | d # rest \<Rightarrow>
          (if length (dataQueue q) \<le> d then None
           else case dataQueue q ! d of
             [] \<Rightarrow> None
           | entry # es \<Rightarrow>
               Some (entry,
                 q\<lparr>indexQueue := (indexQueue q)[p :=
                      rest @ (if length es \<ge> d mod maxWeight q + 1 then [d] else [])],
                   dataQueue := (dataQueue q)[d := es],
                   total := total q - 1\<rparr>)))"

text \<open>
  A blocking call on an empty queue waits for a signal.  The inner \<open>None\<close> would be a read
  of an empty list.
\<close>

definition QJ_Dequeue :: "bool \<Rightarrow> 'a queue_job \<Rightarrow> ('a deq_result \<times> 'a queue_job) option" where
  "QJ_Dequeue blocking q =
     (if \<not> signaled q \<and> total q = 0 then Some (if blocking then DeqWaits else DeqEmpty, q)
      else if signaled q \<and> blocking then Some (DeqSignaled, q)
      else case first_class 0 (take (numPriority q) (indexQueue q)) of
        None \<Rightarrow> Some (DeqBug, q)
      | Some p \<Rightarrow> map_option (\<lambda>(e, q'). (DeqGot e, q')) (dequeue_from p q))"

text \<open>
  The loop of \<open>AdjustIndexQueue\<close>: \<open>i = (\<dots>) ? erase(i) : i++\<close> assigns the old iterator
  back, so the position is looked at again with a larger \<open>j\<close>.
\<close>

function adjust_loop :: "nat \<Rightarrow> nat \<Rightarrow> nat \<Rightarrow> nat list \<Rightarrow> nat list" where
  "adjust_loop sz d j [] = []"
| "adjust_loop sz d j (x # xs) =
     (if x = d then
        (if j + 1 > sz then adjust_loop sz d (j + 1) xs
         else adjust_loop sz d (j + 1) (x # xs))
      else x # adjust_loop sz d j xs)"
  by pat_completeness auto
termination
  by (relation "measures [\<lambda>(sz, d, j, xs). length xs, \<lambda>(sz, d, j, xs). sz - j]") auto

definition AdjustIndexQueue :: "nat \<Rightarrow> nat \<Rightarrow> 'a queue_job \<Rightarrow> 'a queue_job" where
  "AdjustIndexQueue p d q =
     q\<lparr>indexQueue := (indexQueue q)[p :=
        adjust_loop (length (dataQueue q ! d)) d 0 (indexQueue q ! p)]\<rparr>"

text \<open>\<open>Remove\<close> visits the data queues in order; \<open>totalRemove =+ n\<close> is an assignment.\<close>

fun remove_loop :: "'a \<Rightarrow> nat list \<Rightarrow> int \<times> 'a queue_job \<Rightarrow> int \<times> 'a queue_job" where
  "remove_loop entry [] s = s"
| "remove_loop entry (j # js) (removed, q) =
     (let pre = length (dataQueue q ! j);
          q1 = q\<lparr>dataQueue := (dataQueue q)[j := filter (\<lambda>x. x \<noteq> entry) (dataQueue q ! j)]\<rparr>;
          post = length (dataQueue q1 ! j)
      in if pre \<noteq> post
         then remove_loop entry js
           (int (pre - post),
            AdjustIndexQueue (j div maxWeight q) j (q1\<lparr>total := total q1 - (pre - post)\<rparr>))
         else remove_loop entry js (removed, q1))"

definition QJ_Remove :: "'a \<Rightarrow> 'a queue_job \<Rightarrow> int \<times> 'a queue_job" where
  "QJ_Remove entry q = remove_loop entry [0..<numPriority q * maxWeight q] (0, q)"

definition QJ_Flush :: "'a queue_job \<Rightarrow> 'a queue_job" where
  "QJ_Flush q =
     q\<lparr>indexQueue := map (\<lambda>_. []) (indexQueue q), dataQueue := map (\<lambda>_. []) (dataQueue q),
       total := 0\<rparr>"

definition QJ_Signal :: "'a queue_job \<Rightarrow> 'a queue_job" where
  "QJ_Signal q = q\<lparr>signaled := True\<rparr>"

section \<open>Scheduling policy\<close>

definition AAA_SCHED_FIFO :: u16 where "AAA_SCHED_FIFO = 0"
definition AAA_SCHED_WFQ :: u16 where "AAA_SCHED_WFQ = 1"
definition AAA_SCHED_PRIORITY :: u16 where "AAA_SCHED_PRIORITY = 2"

text \<open>The adjusted priority and weight of a job under the policy of its group.\<close>

definition EnforceSchedulingPolicy :: "u16 \<Rightarrow> nat \<Rightarrow> nat \<Rightarrow> nat \<times> nat" where
  "EnforceSchedulingPolicy policy job_priority job_weight =
     (if policy \<noteq> AAA_SCHED_PRIORITY then 1 else job_priority,
      if policy \<noteq> AAA_SCHED_WFQ then 100000 else job_weight)"

section \<open>The invariant\<close>

text \<open>
  A data queue is listed in the index queue of its priority as often as it can be served
  before it has to wait for its turn again: once per entry, at most its weight.
\<close>

definition qj_inv :: "'a queue_job \<Rightarrow> bool" where
  "qj_inv q \<longleftrightarrow>
     maxWeight q > 0 \<and> length (indexQueue q) = numPriority q \<and>
     length (dataQueue q) = numPriority q * maxWeight q \<and>
     (\<forall>p < numPriority q. \<forall>d \<in> set (indexQueue q ! p). d div maxWeight q = p) \<and>
     (\<forall>d < numPriority q * maxWeight q.
        count_list (indexQueue q ! (d div maxWeight q)) d =
          min (length (dataQueue q ! d)) (d mod maxWeight q + 1)) \<and>
     total q = sum_list (map length (dataQueue q))"

lemma div_less_class: "d < n * m \<Longrightarrow> d div m < (n::nat)"
  by (simp add: less_mult_imp_div_less)

lemma class_bound: "d div m = p \<Longrightarrow> p < n \<Longrightarrow> 0 < m \<Longrightarrow> d < n * (m::nat)"
  by (metis div_less_iff_less_mult)

lemma qj_inv_new: "QueueJob_new np mw = Some q \<Longrightarrow> mw > 0 \<Longrightarrow> qj_inv q"
  by (auto simp: QueueJob_new_def qj_inv_def div_less_class sum_list_replicate
      split: if_splits)

lemma qj_inv_Flush: "qj_inv q \<Longrightarrow> qj_inv (QJ_Flush q)"
  by (auto simp: QJ_Flush_def qj_inv_def div_less_class comp_def)

lemma index_mod:
  assumes "1 \<le> w" "w \<le> mw" "p \<ge> (1::nat)"
  shows "((p - 1) * mw + (w - 1)) div mw = p - 1" "((p - 1) * mw + (w - 1)) mod mw = w - 1"
  using assms by (cases w; simp)+

lemma qj_enqueue_inv:
  assumes inv: "qj_inv q" and w: "1 \<le> w" "w \<le> maxWeight q" and p: "1 \<le> p" "p \<le> numPriority q"
    and lim: "numPriority q \<le> maxNumPriority" "maxWeight q \<le> maxMaxWeight"
  shows "\<exists>r q'. QJ_Enqueue e False p w q = Some (r, q') \<and> qj_inv q' \<and>
    total q' = total q + 1 \<and> r = int (total q') \<and>
    dataQueue q' = (dataQueue q)[(p - 1) * maxWeight q + (w - 1) :=
      dataQueue q ! ((p - 1) * maxWeight q + (w - 1)) @ [e]]"
proof -
  define d where "d = (p - 1) * maxWeight q + (w - 1)"
  have idx: "pIndex_of p = p - 1" "dIndex_of (maxWeight q) p w = d"
    using assms by (simp_all add: pIndex_of_def dIndex_of_def d_def)
  have dv: "d div maxWeight q = p - 1" "d mod maxWeight q = w - 1"
    using index_mod [OF w p(1)] by (simp_all add: d_def)
  have b: "p - 1 < numPriority q" "d < numPriority q * maxWeight q"
    using p w dv class_bound [of d "maxWeight q" "p - 1" "numPriority q"] by auto
  let ?iq = "if length (dataQueue q ! d) < w
    then (indexQueue q)[p - 1 := indexQueue q ! (p - 1) @ [d]] else indexQueue q"
  let ?dq = "(dataQueue q)[d := dataQueue q ! d @ [e]]"
  let ?q' = "q\<lparr>indexQueue := ?iq, dataQueue := ?dq, total := total q + 1\<rparr>"
  have enq: "QJ_Enqueue e False p w q = Some (int (total q) + 1, ?q')"
    using inv b by (simp add: QJ_Enqueue_def idx qj_inv_def Let_def)
  have cnt: "count_list (?iq ! (d' div maxWeight q)) d' =
      min (length (?dq ! d')) (d' mod maxWeight q + 1)"
    if "d' < numPriority q * maxWeight q" for d'
  proof -
    have old: "count_list (indexQueue q ! (d' div maxWeight q)) d' =
        min (length (dataQueue q ! d')) (d' mod maxWeight q + 1)"
      and len: "length (indexQueue q) = numPriority q"
        "length (dataQueue q) = numPriority q * maxWeight q"
      using inv that by (auto simp: qj_inv_def)
    show ?thesis
    proof (cases "d' = d")
      case True
      then show ?thesis using old len dv b w by auto
    next
      case False
      then show ?thesis using old len b by (cases "d' div maxWeight q = p - 1") auto
    qed
  qed
  have tot: "total q + 1 = sum_list (map length ?dq)"
    using inv b sum_list_update_nat [of d "map length (dataQueue q)" "length (dataQueue q ! d) + 1"]
    by (auto simp: qj_inv_def map_update)
  have "qj_inv ?q'"
    using inv cnt tot b dv unfolding qj_inv_def
    by (auto simp: nth_list_update split: if_splits)
  then show ?thesis using enq by (auto simp: d_def)
qed

lemma first_class_Some:
  "first_class k iqs = Some p \<longleftrightarrow>
     k \<le> p \<and> p - k < length iqs \<and> iqs ! (p - k) \<noteq> [] \<and> (\<forall>i < p - k. iqs ! i = [])"
proof (induction iqs arbitrary: k)
  case (Cons iq iqs)
  show ?case
  proof (cases "iq = []")
    case True
    have "(\<forall>i < p - k. (iq # iqs) ! i = []) \<longleftrightarrow> (\<forall>i < p - (k + 1). iqs ! i = [])"
      if "k + 1 \<le> p"
      using that True by (auto simp: nth_Cons split: nat.splits)
    then show ?thesis
      using Cons.IH [of "k + 1"] True
      by (cases "k + 1 \<le> p") (auto simp: nth_Cons' le_eq_less_or_eq)
  next
    case False
    then show ?thesis by (cases "p - k") (auto simp: nth_Cons')
  qed
qed simp

lemma first_class_None: "first_class k iqs = None \<longleftrightarrow> (\<forall>iq \<in> set iqs. iq = [])"
  by (induction iqs arbitrary: k) auto


lemma dequeue_from_ok:
  assumes inv: "qj_inv q" and p: "p < numPriority q" and iq: "indexQueue q ! p = d # rest"
  shows "d < numPriority q * maxWeight q" "d div maxWeight q = p" "dataQueue q ! d \<noteq> []"
proof -
  have "d \<in> set (indexQueue q ! p)" using iq by simp
  then show d: "d div maxWeight q = p" using inv p by (auto simp: qj_inv_def)
  then show b: "d < numPriority q * maxWeight q"
    using inv p class_bound by (auto simp: qj_inv_def)
  have "count_list (indexQueue q ! p) d = min (length (dataQueue q ! d)) (d mod maxWeight q + 1)"
    using inv b d unfolding qj_inv_def by auto
  then show "dataQueue q ! d \<noteq> []" using iq by auto
qed

lemma dequeue_from_inv:
  assumes inv: "qj_inv q" and p: "p < numPriority q" and iq: "indexQueue q ! p = d # rest"
    and dq: "dataQueue q ! d = e # es"
  shows "\<exists>q'. dequeue_from p q = Some (e, q') \<and> qj_inv q' \<and> total q = total q' + 1 \<and>
    dataQueue q' = (dataQueue q)[d := es]"
proof -
  note d = dequeue_from_ok [OF inv p iq]
  have len: "length (indexQueue q) = numPriority q"
      "length (dataQueue q) = numPriority q * maxWeight q" "maxWeight q > 0"
    using inv by (auto simp: qj_inv_def)
  let ?re = "if length es \<ge> d mod maxWeight q + 1 then [d] else []"
  let ?iq = "(indexQueue q)[p := rest @ ?re]"
  let ?dq = "(dataQueue q)[d := es]"
  let ?q' = "q\<lparr>indexQueue := ?iq, dataQueue := ?dq, total := total q - 1\<rparr>"
  have deq: "dequeue_from p q = Some (e, ?q')"
    using d len by (simp add: dequeue_from_def iq dq)
  have cnt: "count_list (?iq ! (d' div maxWeight q)) d' =
      min (length (?dq ! d')) (d' mod maxWeight q + 1)"
    if "d' < numPriority q * maxWeight q" for d'
  proof -
    have old: "count_list (indexQueue q ! (d' div maxWeight q)) d' =
        min (length (dataQueue q ! d')) (d' mod maxWeight q + 1)"
      using inv that by (auto simp: qj_inv_def)
    show ?thesis
    proof (cases "d' = d")
      case True
      then have "count_list rest d + 1 = min (length es + 1) (d mod maxWeight q + 1)"
        using old d iq dq by simp
      then show ?thesis using True len d p by auto
    next
      case False
      then show ?thesis using old len p iq by (cases "d' div maxWeight q = p") auto
    qed
  qed
  have tot: "total q = sum_list (map length ?dq) + 1"
    using inv d len sum_list_update_nat [of d "map length (dataQueue q)" "length es"] dq
    by (auto simp: qj_inv_def map_update)
  have "\<forall>i < numPriority q. \<forall>x \<in> set (?iq ! i). x div maxWeight q = i"
    using inv p iq d len unfolding qj_inv_def
    by (auto simp: nth_list_update split: if_splits)
  with cnt tot len have "qj_inv ?q'" by (simp add: qj_inv_def)
  then show ?thesis using deq tot by auto
qed

lemma dequeue_work_conserving_aux:
  assumes inv: "qj_inv q" and "total q > 0" and "\<not> signaled q"
  shows "\<exists>e q' d es. QJ_Dequeue blocking q = Some (DeqGot e, q') \<and> qj_inv q' \<and>
    total q = total q' + 1 \<and> d < numPriority q * maxWeight q \<and>
    dataQueue q ! d = e # es \<and> dataQueue q' = (dataQueue q)[d := es] \<and>
    (\<forall>d' < numPriority q * maxWeight q.
       d' div maxWeight q < d div maxWeight q \<longrightarrow> dataQueue q ! d' = [])"
proof -
  have len: "length (indexQueue q) = numPriority q"
      "length (dataQueue q) = numPriority q * maxWeight q"
    and cnt: "\<And>d. d < numPriority q * maxWeight q \<Longrightarrow>
      count_list (indexQueue q ! (d div maxWeight q)) d =
        min (length (dataQueue q ! d)) (d mod maxWeight q + 1)"
    using inv by (auto simp: qj_inv_def)
  have data_index: "dataQueue q ! d' = []"
    if "d' < numPriority q * maxWeight q" "indexQueue q ! (d' div maxWeight q) = []" for d'
    using cnt [OF that(1)] that(2) by (auto simp: min_def split: if_splits)
  have "\<exists>d' < length (dataQueue q). dataQueue q ! d' \<noteq> []"
  proof (rule ccontr)
    assume "\<not> ?thesis"
    then have "\<forall>x \<in> set (map length (dataQueue q)). x = 0" by (auto simp: in_set_conv_nth)
    then have "sum_list (map length (dataQueue q)) = 0" by (simp add: sum_list_eq_0_iff)
    with inv assms(2) show False unfolding qj_inv_def by linarith
  qed
  then obtain d0 where d0: "d0 < numPriority q * maxWeight q" "dataQueue q ! d0 \<noteq> []"
    using len by auto
  have "first_class 0 (indexQueue q) \<noteq> None"
  proof
    assume "first_class 0 (indexQueue q) = None"
    then have "indexQueue q ! (d0 div maxWeight q) = []"
      using len div_less_class [OF d0(1)] by (auto simp: first_class_None)
    then show False using data_index d0 by simp
  qed
  then obtain p where fc: "first_class 0 (indexQueue q) = Some p" by auto
  then have p: "p < numPriority q" "indexQueue q ! p \<noteq> []"
    "\<forall>i < p. indexQueue q ! i = []"
    using len by (auto simp: first_class_Some)
  then obtain d rest where iq: "indexQueue q ! p = d # rest" by (cases "indexQueue q ! p") auto
  note d = dequeue_from_ok [OF inv p(1) iq]
  then obtain e es where dq: "dataQueue q ! d = e # es" by (cases "dataQueue q ! d") auto
  obtain q' where q': "dequeue_from p q = Some (e, q')" "qj_inv q'" "total q = total q' + 1"
    "dataQueue q' = (dataQueue q)[d := es]"
    using dequeue_from_inv [OF inv p(1) iq dq] by blast
  have "QJ_Dequeue blocking q = Some (DeqGot e, q')"
    using assms(2,3) fc q' len by (simp add: QJ_Dequeue_def)
  moreover have "\<forall>d' < numPriority q * maxWeight q.
      d' div maxWeight q < d div maxWeight q \<longrightarrow> dataQueue q ! d' = []"
    using data_index p(3) d(2) by auto
  ultimately show ?thesis using q'(2-4) d(1) dq by blast
qed

text \<open>C29: dequeueing is work conserving and respects priorities: from a queue in its invariant
  a call on a non-empty queue always yields an entry (it neither reports the
  \<open>dequeue error\<close> nor reads an empty list), the entry is the oldest of a data queue of
  the highest priority that has any data, that entry alone is gone from the data, and the
  invariant holds again.\<close>

theorem dequeue_work_conserving:
  assumes inv: "qj_inv q" and "total q > 0" and "\<not> signaled q"
  shows "\<exists>e q' d es. QJ_Dequeue blocking q = Some (DeqGot e, q') \<and> qj_inv q' \<and>
    total q = total q' + 1 \<and> d < numPriority q * maxWeight q \<and>
    dataQueue q ! d = e # es \<and> dataQueue q' = (dataQueue q)[d := es] \<and>
    (\<forall>d' < numPriority q * maxWeight q.
       d' div maxWeight q < d div maxWeight q \<longrightarrow> dataQueue q ! d' = [])"
  using assms by (rule dequeue_work_conserving_aux)

text \<open>Enqueueing with a priority and a weight that the queue was created for appends the
  entry to their data queue, counts it, returns the new total, and preserves the invariant
  of the queue.\<close>

theorem enqueue_preserves:
  assumes "qj_inv q" and "1 \<le> w" and "w \<le> maxWeight q" and "1 \<le> p" and "p \<le> numPriority q"
    and "numPriority q \<le> maxNumPriority" and "maxWeight q \<le> maxMaxWeight"
  shows "\<exists>r q'. QJ_Enqueue e False p w q = Some (r, q') \<and> qj_inv q' \<and>
    total q' = total q + 1 \<and> r = int (total q') \<and>
    dataQueue q' = (dataQueue q)[(p - 1) * maxWeight q + (w - 1) :=
      dataQueue q ! ((p - 1) * maxWeight q + (w - 1)) @ [e]]"
  using assms by (rule qj_enqueue_inv)

section \<open>Evaluated examples\<close>

definition sample_queue :: "nat queue_job" where
  "sample_queue = \<lparr>numPriority = 2, maxWeight = 2, indexQueue = [[], [3]],
     dataQueue = [[], [], [], [8]], total = 1, signaled = False\<rparr>"

lemma sample_queue_inv: "qj_inv sample_queue"
  by code_simp

theorem dequeue_work_conserving_witness:
  "\<exists>q'. QJ_Dequeue True sample_queue = Some (DeqGot 8, q') \<and> qj_inv q'"
proof -
  have "total sample_queue > 0" "\<not> signaled sample_queue" by (simp_all add: sample_queue_def)
  from dequeue_work_conserving [OF sample_queue_inv this, of True]
  obtain e q' where "QJ_Dequeue True sample_queue = Some (DeqGot e, q')" "qj_inv q'" by blast
  moreover have "map_option fst (QJ_Dequeue True sample_queue) = Some (DeqGot 8)"
    by (simp add: QJ_Dequeue_def sample_queue_def dequeue_from_def eval_nat_numeral)
  ultimately show ?thesis by auto
qed

theorem enqueue_preserves_witness:
  "\<exists>q'. QJ_Enqueue 5 False 1 2 sample_queue = Some (2, q') \<and> qj_inv q'"
proof -
  have "total sample_queue = 1" "numPriority sample_queue = 2" "maxWeight sample_queue = 2"
    by (simp_all add: sample_queue_def)
  then show ?thesis
    using enqueue_preserves [OF sample_queue_inv, of 2 1 5]
    by (auto simp: maxNumPriority_def maxMaxWeight_def)
qed

section \<open>The removal\<close>

lemma adjust_loop_filter: "adjust_loop sz d j xs = filter (\<lambda>x. x \<noteq> d) xs"
  by (induction sz d j xs rule: adjust_loop.induct) auto

text \<open>Removing an entry from a plain queue (one priority, one weight) that still holds other
  data strands that data: the adjustment of the index queue erases every index of the
  data queue, not the surplus ones, so that the next dequeue operation reports the
  \<open>dequeue error\<close> on a queue that is not empty.\<close>

theorem remove_strands_data:
  assumes "numPriority q = 1" and "maxWeight q = 1" and "indexQueue q = [[0]]"
    and "dataQueue q = [xs]" and "total q = length xs" and "\<not> signaled q"
    and "e \<in> set xs" and "\<exists>x \<in> set xs. x \<noteq> e"
  shows "total (snd (QJ_Remove e q)) = length (filter (\<lambda>x. x \<noteq> e) xs) \<and>
    total (snd (QJ_Remove e q)) > 0 \<and>
    QJ_Dequeue blocking (snd (QJ_Remove e q)) = Some (DeqBug, snd (QJ_Remove e q))"
proof -
  have lt: "length (filter (\<lambda>x. x \<noteq> e) xs) < length xs"
    using assms(7) by (intro length_filter_less) auto
  have "filter (\<lambda>x. x \<noteq> e) xs \<noteq> []" using assms(8) by (auto simp: filter_empty_conv)
  then show ?thesis
    using assms lt
    by (simp add: QJ_Remove_def AdjustIndexQueue_def adjust_loop_filter QJ_Dequeue_def Let_def)
qed

theorem remove_strands_data_witness:
  "let q = \<lparr>numPriority = 1, maxWeight = 1, indexQueue = [[0]], dataQueue = [[4, 7::nat]],
            total = 2, signaled = False\<rparr>
   in QJ_Dequeue False (snd (QJ_Remove 4 q)) = Some (DeqBug, snd (QJ_Remove 4 q))"
proof -
  let ?q = "\<lparr>numPriority = 1, maxWeight = 1, indexQueue = [[0]], dataQueue = [[4, 7::nat]],
            total = 2, signaled = False\<rparr>"
  show ?thesis using remove_strands_data [of ?q "[4, 7]" 4 False] by (simp add: Let_def)
qed

text \<open>the number that \<open>Remove\<close> returns counts the matches of the last data queue that had
  any, not of all of them.\<close>

theorem remove_counts_last_queue:
  assumes "e \<in> set xs" and "e \<in> set ys" and "numPriority q = 1" and "maxWeight q = 2"
    and "dataQueue q = [xs, ys]"
  shows "fst (QJ_Remove e q) = int (count_list ys e)"
proof -
  have c: "length zs - length (filter (\<lambda>x. x \<noteq> e) zs) = count_list zs e" for zs
    by (induction zs) (auto simp: Suc_diff_le)
  have lt: "length (filter (\<lambda>x. x \<noteq> e) zs) < length zs" if "e \<in> set zs" for zs
    using that by (intro length_filter_less) auto
  show ?thesis
    using assms lt [OF assms(1)] lt [OF assms(2)]
    by (simp add: QJ_Remove_def AdjustIndexQueue_def c upt_rec Let_def)
qed

theorem remove_counts_last_queue_witness:
  "fst (QJ_Remove 4 \<lparr>numPriority = 1, maxWeight = 2, indexQueue = [[0, 1]],
     dataQueue = [[4, 4], [4::nat]], total = 3, signaled = False\<rparr>) = 1"
  using remove_counts_last_queue [of 4 "[4, 4]" "[4]" "\<lparr>numPriority = 1, maxWeight = 2,
     indexQueue = [[0, 1]], dataQueue = [[4, 4], [4::nat]], total = 3, signaled = False\<rparr>"]
  by simp

section \<open>A plain queue is a queue\<close>

text \<open>What a client of the plain job queue relies on.\<close>

fun drain_by :: "('q \<Rightarrow> ('a \<times> 'q) option) \<Rightarrow> nat \<Rightarrow> 'q \<Rightarrow> 'a list" where
  "drain_by deq 0 q = []"
| "drain_by deq (Suc n) q =
     (case deq q of None \<Rightarrow> [] | Some (x, q') \<Rightarrow> x # drain_by deq n q')"

locale fifo =
  fixes enq :: "'a \<Rightarrow> 'q \<Rightarrow> 'q"
    and deq :: "'q \<Rightarrow> ('a \<times> 'q) option"
    and abs :: "'q \<Rightarrow> 'a list"
    and inv :: "'q \<Rightarrow> bool"
  assumes inv_enq: "inv q \<Longrightarrow> inv (enq x q)"
    and abs_enq: "inv q \<Longrightarrow> abs (enq x q) = abs q @ [x]"
    and deq_empty: "inv q \<Longrightarrow> abs q = [] \<Longrightarrow> deq q = None"
    and deq_cons: "inv q \<Longrightarrow> abs q = x # xs \<Longrightarrow> \<exists>q'. deq q = Some (x, q') \<and> abs q' = xs \<and> inv q'"
begin

lemma inv_fold_enq: "inv q \<Longrightarrow> inv (fold enq xs q) \<and> abs (fold enq xs q) = abs q @ xs"
  by (induction xs arbitrary: q) (simp_all add: inv_enq abs_enq)

lemma drain_abs: "inv q \<Longrightarrow> length (abs q) \<le> n \<Longrightarrow> drain_by deq n q = abs q"
proof (induction n arbitrary: q)
  case (Suc n)
  show ?case
  proof (cases "abs q")
    case Nil
    with Suc.prems deq_empty show ?thesis by simp
  next
    case (Cons x xs)
    with deq_cons [OF Suc.prems(1) Cons] obtain q' where
      "deq q = Some (x, q')" "abs q' = xs" "inv q'" by blast
    with Suc Cons show ?thesis by simp
  qed
qed simp

end

definition plain_enq :: "'a \<Rightarrow> 'a queue_job \<Rightarrow> 'a queue_job" where
  "plain_enq e q = (case QJ_Enqueue e False 1 1 q of Some (_, q') \<Rightarrow> q' | None \<Rightarrow> q)"

definition plain_deq :: "'a queue_job \<Rightarrow> ('a \<times> 'a queue_job) option" where
  "plain_deq q = (case QJ_Dequeue False q of Some (DeqGot e, q') \<Rightarrow> Some (e, q') | _ \<Rightarrow> None)"

definition plain_inv :: "'a queue_job \<Rightarrow> bool" where
  "plain_inv q \<longleftrightarrow> qj_inv q \<and> numPriority q = 1 \<and> maxWeight q = 1 \<and> \<not> signaled q"

definition plain_data :: "'a queue_job \<Rightarrow> 'a list" where
  "plain_data q = concat (dataQueue q)"

lemma plain_enq_frame:
  "numPriority (plain_enq e q) = numPriority q" "maxWeight (plain_enq e q) = maxWeight q"
  "signaled (plain_enq e q) = signaled q"
  by (auto simp: plain_enq_def QJ_Enqueue_def Let_def split: option.splits if_splits)

lemma dequeue_from_frame:
  "dequeue_from p q = Some (e, q') \<Longrightarrow>
     numPriority q' = numPriority q \<and> maxWeight q' = maxWeight q \<and> signaled q' = signaled q"
  by (cases "indexQueue q ! p"; cases "dataQueue q ! hd (indexQueue q ! p)")
    (auto simp: dequeue_from_def split: if_splits)

lemma plain_deq_frame:
  assumes "plain_deq q = Some (e, q')"
  shows "numPriority q' = numPriority q \<and> maxWeight q' = maxWeight q \<and> signaled q' = signaled q"
proof -
  from assms have "QJ_Dequeue False q = Some (DeqGot e, q')"
    by (simp add: plain_deq_def split: option.splits prod.splits deq_result.splits)
  then obtain p where "dequeue_from p q = Some (e, q')"
    by (auto simp: QJ_Dequeue_def split: if_splits option.splits)
  then show ?thesis by (rule dequeue_from_frame)
qed

lemma plain_data_single: "plain_inv q \<Longrightarrow> dataQueue q = [plain_data q]"
  by (cases "dataQueue q") (auto simp: plain_inv_def qj_inv_def plain_data_def)

lemma plain_enq_ok:
  assumes "plain_inv q"
  shows "plain_inv (plain_enq x q) \<and> plain_data (plain_enq x q) = plain_data q @ [x]"
proof -
  have prems: "qj_inv q" "1 \<le> (1::nat)" "1 \<le> maxWeight q" "1 \<le> numPriority q"
    "numPriority q \<le> maxNumPriority" "maxWeight q \<le> maxMaxWeight"
    using assms by (simp_all add: plain_inv_def maxNumPriority_def maxMaxWeight_def)
  obtain r q' where q': "QJ_Enqueue x False 1 1 q = Some (r, q')" "qj_inv q'"
    "dataQueue q' = (dataQueue q)[(1 - 1) * maxWeight q + (1 - 1) :=
       dataQueue q ! ((1 - 1) * maxWeight q + (1 - 1)) @ [x]]"
    using qj_enqueue_inv [OF prems(1,2,3,2,4,5,6), of x] by blast
  then have "plain_enq x q = q'" by (simp add: plain_enq_def)
  moreover have "dataQueue q' = [plain_data q @ [x]]"
    using q'(3) plain_data_single [OF assms] by simp
  then have "plain_data q' = plain_data q @ [x]" by (simp add: plain_data_def [of q'])
  ultimately show ?thesis
    using q'(2) assms plain_enq_frame [of x q] by (simp add: plain_inv_def)
qed

lemma plain_deq_ok:
  assumes inv: "plain_inv q" and "plain_data q = x # xs"
  shows "\<exists>q'. plain_deq q = Some (x, q') \<and> plain_data q' = xs \<and> plain_inv q'"
proof -
  have dq: "dataQueue q = [x # xs]" using plain_data_single [OF inv] assms(2) by simp
  moreover have "total q = sum_list (map length (dataQueue q))"
    using inv by (simp only: plain_inv_def qj_inv_def)
  ultimately have "total q > 0" by simp
  moreover have "qj_inv q" "\<not> signaled q" using inv by (simp_all add: plain_inv_def)
  ultimately obtain e q' d es where r: "QJ_Dequeue False q = Some (DeqGot e, q')" "qj_inv q'"
    "d < numPriority q * maxWeight q" "dataQueue q ! d = e # es"
    "dataQueue q' = (dataQueue q)[d := es]"
    using dequeue_work_conserving_aux by blast
  have "d = 0" using r(3) inv by (simp add: plain_inv_def)
  with r dq have "plain_deq q = Some (x, q')" "plain_data q' = xs"
    by (simp_all add: plain_deq_def plain_data_def [of q'])
  with r(2) inv plain_deq_frame [of q x q'] show ?thesis by (simp add: plain_inv_def)
qed

lemma plain_deq_empty:
  assumes "plain_inv q" and "plain_data q = []"
  shows "plain_deq q = None"
proof -
  have "dataQueue q = [[]]" using plain_data_single [OF assms(1)] assms(2) by simp
  moreover have "total q = sum_list (map length (dataQueue q))"
    using assms(1) by (simp only: plain_inv_def qj_inv_def)
  moreover have "\<not> signaled q" using assms(1) by (simp only: plain_inv_def) simp
  ultimately show ?thesis by (simp add: plain_deq_def QJ_Dequeue_def)
qed

interpretation plain: fifo plain_enq plain_deq plain_data plain_inv
  by unfold_locales
    (rule conjunct1 [OF plain_enq_ok] conjunct2 [OF plain_enq_ok] plain_deq_empty plain_deq_ok;
      assumption)+

text \<open>a job queue with one priority and one weight is a FIFO queue: what a sequence of
  enqueue operations puts into a fresh queue comes out of it complete and in order, one
  entry per dequeue operation, and then nothing.\<close>

theorem plain_queue_fifo:
  assumes "QueueJob_new 1 1 = Some q"
  shows "drain_by plain_deq (length xs + k) (fold plain_enq xs q) = xs"
proof -
  have inv: "plain_inv q" and "plain_data q = []"
    using assms qj_inv_new [OF assms] by (auto simp: plain_inv_def QueueJob_new_def plain_data_def
        split: if_splits)
  with plain.inv_fold_enq [OF inv, of xs] show ?thesis
    by (simp add: plain.drain_abs)
qed

theorem plain_queue_fifo_witness:
  "drain_by plain_deq 5 (fold plain_enq [3, 1, 2::nat] (the (QueueJob_new 1 1))) = [3, 1, 2]"
proof -
  have "QueueJob_new 1 1 = Some (the (QueueJob_new 1 1 :: nat queue_job option))"
    by (simp add: QueueJob_new_def maxNumPriority_def maxMaxWeight_def)
  from plain_queue_fifo [OF this, of "[3, 1, 2]" 2] show ?thesis
    by (simp add: eval_nat_numeral)
qed

end
