(* ===== verification/Wire_Values.thy ===== *)
theory Wire_Values
  imports Diameter_Msg
begin

text \<open>
  The leaves of the message parser: outcomes and errors (\<open>DiameterErrorCode\<close>), the AVP
  dictionary of \<open>include/aaa_dictionary_api.h\<close>, \<open>UTF8Checker\<close> of
  \<open>include/aaa_parser_defs.h\<close>, and the value parsers of
  \<open>libdiamparser/include/aaa_parser_avpvalue.h\<close> for every type but \<open>Grouped\<close>.
\<close>

type_synonym octets = "u8 list"

section \<open>Outcomes\<close>

datatype bug_code =
    MISSING_CONTAINER
  | TOO_MUCH_AVP_ENTRIES
  | TOO_LESS_AVP_ENTRIES
  | PROHIBITED_CONTAINER
  | INVALID_CONTAINER_PARAM
  | INVALID_CONTAINER_CONTENTS
  | UNSUPPORTED_FUNCTIONALITY
  | INVALID_PARSER_USAGE
  | MISSING_AVP_DICTIONARY_ENTRY
  | MISSING_AVP_VALUE_PARSER

text \<open>
  A thrown error of either type.  The octets of the AVP that a normal error may carry (for
  a Failed-AVP) are not kept: \<open>DiameterErrorCode::set\<close> fills them from the dictionary
  only, and in a dictionary that defines every group it refers to it throws nothing itself.
\<close>

datatype parse_error =
    PNormal u32
  | PBug bug_code

text \<open>An access outside the message buffer is undefined behaviour, \<open>Overrun\<close>.\<close>

datatype 'a parsed =
    Parsed 'a
  | Thrown parse_error
  | Overrun

definition AAA_COMMAND_UNSUPPORTED :: u32 where "AAA_COMMAND_UNSUPPORTED = 3001"
definition AAA_INVALID_HDR_BITS :: u32 where "AAA_INVALID_HDR_BITS = 3008"
definition AAA_OUT_OF_SPACE :: u32 where "AAA_OUT_OF_SPACE = 4002"
definition AAA_AVP_UNSUPPORTED :: u32 where "AAA_AVP_UNSUPPORTED = 5001"
definition AAA_INVALID_AVP_VALUE :: u32 where "AAA_INVALID_AVP_VALUE = 5004"
definition AAA_MISSING_AVP :: u32 where "AAA_MISSING_AVP = 5005"
definition AAA_AVP_OCCURS_TOO_MANY_TIMES :: u32 where "AAA_AVP_OCCURS_TOO_MANY_TIMES = 5009"
definition AAA_INVALID_BIT_IN_HEADER :: u32 where "AAA_INVALID_BIT_IN_HEADER = 5013"
definition AAA_INVALID_MESSAGE_LENGTH :: u32 where "AAA_INVALID_MESSAGE_LENGTH = 5015"

lemmas parse_code_defs = AAA_COMMAND_UNSUPPORTED_def AAA_INVALID_HDR_BITS_def
  AAA_OUT_OF_SPACE_def AAA_AVP_UNSUPPORTED_def AAA_INVALID_AVP_VALUE_def AAA_MISSING_AVP_def
  AAA_AVP_OCCURS_TOO_MANY_TIMES_def AAA_INVALID_BIT_IN_HEADER_def
  AAA_INVALID_MESSAGE_LENGTH_def

fun is_missing :: "parse_error \<Rightarrow> bool" where
  "is_missing (PNormal c) \<longleftrightarrow> c = AAA_MISSING_AVP"
| "is_missing (PBug b) \<longleftrightarrow> False"

section \<open>The dictionary\<close>

datatype avp_type =
    AnyT | Integer32T | Integer64T | Unsigned32T | Unsigned64T | UTF8StringT | EnumeratedT
  | TimeT | OctetStringT | DiameterIdentityT | DiameterURIT | IPFilterRuleT | GroupedT
  | IPAddressT

record dict_entry =
  avpName :: string
  avpCode :: u32
  avpType :: avp_type
  entryVendorId :: u32
  flag_vendor :: bool
  flag_mandatory :: bool
  flag_encrypt :: bool

record qualified_avp =
  q_avp :: dict_entry
  q_min :: u16
  q_max :: u16

datatype parse_type = FIXED_HEAD | REQUIRED | OPTIONAL

record dictionary =
  avp_f :: "qualified_avp list"
  avp_r :: "qualified_avp list"
  avp_o :: "qualified_avp list"

record grouped_avp =
  g_code :: u32
  g_vendorId :: u32
  g_dict :: dictionary

fun grouped_search :: "u32 \<Rightarrow> u32 \<Rightarrow> grouped_avp list \<Rightarrow> grouped_avp option" where
  "grouped_search c v [] = None"
| "grouped_search c v (g # gs) =
     (if g_code g = c \<and> g_vendorId g = v then Some g else grouped_search c v gs)"

section \<open>Octets and words\<close>

definition char_of_octet :: "u8 \<Rightarrow> char" where
  "char_of_octet b = char_of (unat b)"

definition octet_of_char :: "char \<Rightarrow> u8" where
  "octet_of_char c = word_of_nat (of_char c)"

definition octets_of :: "string \<Rightarrow> octets" where
  "octets_of s = map octet_of_char s"

definition string_of :: "octets \<Rightarrow> string" where
  "string_of bs = map char_of_octet bs"

definition be64 :: "64 word \<Rightarrow> octets" where
  "be64 w = be32 (ucast (drop_bit 32 w)) @ be32 (ucast w)"

definition rd64 :: "octets \<Rightarrow> 64 word" where
  "rd64 bs = push_bit 32 (ucast (rd32 bs)) OR ucast (rd32 (drop 4 bs))"

lemma of_char_less: "(of_char c :: nat) < 256"
  by simp

lemma octet_of_char_of_octet [wire_simps]: "octet_of_char (char_of_octet b) = b"
proof -
  have "unat b < 2 ^ LENGTH(8)" by (rule unsigned_less)
  then show ?thesis by (simp add: octet_of_char_def char_of_octet_def of_char_of)
qed

lemma char_of_octet_of_char [wire_simps]: "char_of_octet (octet_of_char c) = c"
  using of_char_less [of c]
  by (simp add: octet_of_char_def char_of_octet_def unat_of_nat)

lemma string_of_octets_of [simp]: "string_of (octets_of s) = s"
  by (simp add: string_of_def octets_of_def wire_simps comp_def)

lemma octets_of_string_of [simp]: "octets_of (string_of bs) = bs"
  by (simp add: string_of_def octets_of_def wire_simps comp_def)

lemma length_octets_of [simp]: "length (octets_of s) = length s"
  by (simp add: octets_of_def)

lemma length_be64 [simp]: "length (be64 w) = 8"
  by (simp add: be64_def)

lemma rd64_be64 [wire_simps]: "rd64 (be64 w @ xs) = w"
proof -
  have "drop 4 (be64 w @ xs) = be32 (ucast w) @ xs" by (simp add: be64_def)
  moreover have "rd32 (be64 w @ xs) = ucast (drop_bit 32 w)"
    by (simp add: be64_def wire_simps)
  ultimately have "rd64 (be64 w @ xs) =
      push_bit 32 (ucast (ucast (drop_bit 32 w) :: u32)) OR ucast (ucast w :: u32)"
    by (simp add: rd64_def wire_simps)
  also have "\<dots> = w"
    by (rule bit_word_eqI) (auto simp: bit_simps dest: bit_imp_le_length)
  finally show ?thesis .
qed

section \<open>UTF-8\<close>

text \<open>
  \<open>UTF8Checker::check\<close> counts the leading one bits of the first octet, at most seven, and
  wants that number less one of continuation octets.
\<close>

fun lead_ones :: "nat \<Rightarrow> u8 \<Rightarrow> nat" where
  "lead_ones 0 b = 0"
| "lead_ones (Suc n) b = (if b AND 0x80 = 0 then 0 else Suc (lead_ones n (push_bit 1 b)))"

fun utf8_rest :: "nat \<Rightarrow> octets \<Rightarrow> octets option" where
  "utf8_rest 0 bs = Some bs"
| "utf8_rest (Suc n) [] = None"
| "utf8_rest (Suc n) (b # bs) = (if drop_bit 6 b \<noteq> 2 then None else utf8_rest n bs)"

lemma utf8_rest_length: "utf8_rest n bs = Some r \<Longrightarrow> length r \<le> length bs"
  by (induction n bs rule: utf8_rest.induct) (auto split: if_splits)

function utf8_check :: "octets \<Rightarrow> bool" where
  "utf8_check [] \<longleftrightarrow> True"
| "utf8_check (b # bs) \<longleftrightarrow>
     (let c = lead_ones 7 b in
      if c = 0 then utf8_check bs
      else if c > 6 \<or> c = 1 then False
      else case utf8_rest (c - 1) bs of None \<Rightarrow> False | Some r \<Rightarrow> utf8_check r)"
  by pat_completeness auto
termination
  by (relation "measure length") (auto dest: utf8_rest_length)

section \<open>Diameter identities\<close>

text \<open>
  \<open>DiamidentGrammar\<close> under the white space skipper of the grammar library, which drops
  white space between any two characters: labels separated by dots, matched greedily.
\<close>

definition is_space :: "char \<Rightarrow> bool" where
  "is_space c \<longleftrightarrow> (of_char c :: nat) \<in> {9, 10, 11, 12, 13, 32}"

definition is_alpha :: "char \<Rightarrow> bool" where
  "is_alpha c \<longleftrightarrow> (let n = of_char c :: nat in 65 \<le> n \<and> n \<le> 90 \<or> 97 \<le> n \<and> n \<le> 122)"

definition is_digit :: "char \<Rightarrow> bool" where
  "is_digit c \<longleftrightarrow> (let n = of_char c :: nat in 48 \<le> n \<and> n \<le> 57)"

definition name_char :: "char \<Rightarrow> bool" where
  "name_char c \<longleftrightarrow> is_alpha c \<or> is_digit c \<or> c = CHR ''-'' \<or> c = CHR ''_''"

definition dia_label :: "string \<Rightarrow> string option" where
  "dia_label s =
     (case s of
        [] \<Rightarrow> None
      | c # cs \<Rightarrow>
          if is_alpha c then Some (dropWhile name_char cs)
          else if is_digit c \<and> cs \<noteq> [] \<and> name_char (hd cs) then Some (dropWhile name_char cs)
          else None)"

lemma dia_label_length: "dia_label s = Some r \<Longrightarrow> length r < length s"
  by (auto simp: dia_label_def less_Suc_eq_le length_dropWhile_le split: list.splits if_splits)

function dia_realm :: "string \<Rightarrow> bool" where
  "dia_realm s \<longleftrightarrow>
     (case dia_label s of
        None \<Rightarrow> False
      | Some [] \<Rightarrow> True
      | Some (c # r) \<Rightarrow> c = CHR ''.'' \<and> dia_realm r)"
  by pat_completeness auto
termination
  by (relation "measure length") (auto dest!: dia_label_length)

declare dia_realm.simps [simp del]

definition diamident_ok :: "string \<Rightarrow> bool" where
  "diamident_ok s \<longleftrightarrow> dia_realm (filter (\<lambda>c. \<not> is_space c) s)"

section \<open>Value parsers\<close>

text \<open>
  A message block is its octets; a pointer into it is an offset.  The text forms of the two
  structured types (\<open>DiamuriGrammar\<close>, \<open>IPFilterRuleGrammar\<close>, and the printing of
  their values) are parameters.
\<close>

record text_lib =
  text_of :: "avp_type \<Rightarrow> avp_value \<Rightarrow> string option"
  of_text :: "avp_type \<Rightarrow> string \<Rightarrow> avp_value option"

definition load32 :: "octets \<Rightarrow> nat \<Rightarrow> u32 option" where
  "load32 mem p = (if p + 4 \<le> length mem then Some (rd32 (drop p mem)) else None)"

definition load64 :: "octets \<Rightarrow> nat \<Rightarrow> 64 word option" where
  "load64 mem p = (if p + 8 \<le> length mem then Some (rd64 (drop p mem)) else None)"

definition load_str :: "octets \<Rightarrow> nat \<Rightarrow> nat \<Rightarrow> string option" where
  "load_str mem p n = (if p + n \<le> length mem then Some (string_of (take n (drop p mem))) else None)"

definition or_overrun :: "'a option \<Rightarrow> ('a \<Rightarrow> 'b parsed) \<Rightarrow> 'b parsed" where
  "or_overrun x f = (case x of None \<Rightarrow> Overrun | Some a \<Rightarrow> f a)"

text \<open>
  The address parser reads the family from the first two octets and takes the rest from
  position 2, which the string library refuses (with an exception the parser does not
  catch) when there are fewer; that is an \<open>Overrun\<close>, too.
\<close>

definition read_int32 :: "octets \<Rightarrow> nat \<Rightarrow> u32 \<Rightarrow> avp_value parsed" where
  "read_int32 mem p n = or_overrun (load32 mem p) (\<lambda>w. Parsed (AU32 w))"

definition read_int64 :: "octets \<Rightarrow> nat \<Rightarrow> u32 \<Rightarrow> avp_value parsed" where
  "read_int64 mem p n = or_overrun (load64 mem p) (\<lambda>w. Parsed (AU64 w))"

definition read_octets :: "octets \<Rightarrow> nat \<Rightarrow> u32 \<Rightarrow> avp_value parsed" where
  "read_octets mem p n = or_overrun (load_str mem p (unat n)) (\<lambda>s. Parsed (AStr s))"

definition read_utf8 :: "octets \<Rightarrow> nat \<Rightarrow> u32 \<Rightarrow> avp_value parsed" where
  "read_utf8 mem p n =
     or_overrun (load_str mem p (unat n)) (\<lambda>s.
       if utf8_check (octets_of s) then Parsed (AStr s)
       else Thrown (PNormal AAA_INVALID_AVP_VALUE))"

definition read_diamident :: "octets \<Rightarrow> nat \<Rightarrow> u32 \<Rightarrow> avp_value parsed" where
  "read_diamident mem p n =
     (case read_utf8 mem p n of
        Parsed (AStr s) \<Rightarrow>
          if diamident_ok s then Parsed (AStr s) else Thrown (PNormal AAA_INVALID_AVP_VALUE)
      | r \<Rightarrow> r)"

definition read_address :: "octets \<Rightarrow> nat \<Rightarrow> u32 \<Rightarrow> avp_value parsed" where
  "read_address mem p n =
     or_overrun (load_str mem p (unat n)) (\<lambda>s.
       if length s < 2 then Overrun else Parsed (AAddr (rd16 (octets_of s)) (drop 2 s)))"

definition read_text ::
    "text_lib \<Rightarrow> avp_type \<Rightarrow> octets \<Rightarrow> nat \<Rightarrow> u32 \<Rightarrow> avp_value parsed" where
  "read_text lib t mem p n =
     (case read_utf8 mem p n of
        Parsed (AStr s) \<Rightarrow>
          (case of_text lib t s of
             Some v \<Rightarrow> Parsed v
           | None \<Rightarrow> Thrown (PNormal AAA_INVALID_AVP_VALUE))
      | r \<Rightarrow> r)"

text \<open>The parser of a type, as \<open>registerDefaultTypes\<close> registers it.\<close>

definition read_leaf ::
    "text_lib \<Rightarrow> dict_entry \<Rightarrow> octets \<Rightarrow> nat \<Rightarrow> u32 \<Rightarrow> avp_value parsed" where
  "read_leaf lib e =
     (case avpType e of
        AnyT \<Rightarrow> read_octets
      | Integer32T \<Rightarrow> read_int32
      | Integer64T \<Rightarrow> read_int64
      | Unsigned32T \<Rightarrow> read_int32
      | Unsigned64T \<Rightarrow> read_int64
      | UTF8StringT \<Rightarrow> read_utf8
      | EnumeratedT \<Rightarrow> read_int32
      | TimeT \<Rightarrow> read_int32
      | OctetStringT \<Rightarrow> read_octets
      | DiameterIdentityT \<Rightarrow> read_diamident
      | DiameterURIT \<Rightarrow> read_text lib DiameterURIT
      | IPFilterRuleT \<Rightarrow> read_text lib IPFilterRuleT
      | GroupedT \<Rightarrow> (\<lambda>mem p n. Thrown (PBug MISSING_AVP_VALUE_PARSER))
      | IPAddressT \<Rightarrow> read_address)"

lemmas read_leaf_defs = read_leaf_def read_int32_def read_int64_def read_octets_def
  read_utf8_def read_diamident_def read_address_def or_overrun_def

text \<open>
  The output buffer is what has been written up to its write pointer, and its size.  The
  space left is an unsigned difference, so a write pointer beyond the end passes the test.
\<close>

definition put :: "nat \<Rightarrow> octets \<Rightarrow> octets \<Rightarrow> parse_error \<Rightarrow> octets parsed" where
  "put cap out bs err =
     (if length out > cap then Overrun
      else if cap - length out < length bs then Thrown err
      else Parsed (out @ bs))"

definition put_utf8 :: "nat \<Rightarrow> octets \<Rightarrow> string \<Rightarrow> octets parsed" where
  "put_utf8 cap out s =
     (if utf8_check (octets_of s) then put cap out (octets_of s) (PNormal AAA_OUT_OF_SPACE)
      else Thrown (PBug INVALID_CONTAINER_CONTENTS))"

text \<open>The container entry has to be of the type of the parser.\<close>

definition of_entry :: "'a option \<Rightarrow> ('a \<Rightarrow> octets parsed) \<Rightarrow> octets parsed" where
  "of_entry x f = (case x of None \<Rightarrow> Thrown (PBug PROHIBITED_CONTAINER) | Some a \<Rightarrow> f a)"

definition put_space :: "nat \<Rightarrow> octets \<Rightarrow> octets \<Rightarrow> octets parsed" where
  "put_space cap out bs = put cap out bs (PNormal AAA_OUT_OF_SPACE)"

definition put_text :: "text_lib \<Rightarrow> avp_type \<Rightarrow> avp_value \<Rightarrow> nat \<Rightarrow> octets \<Rightarrow> octets parsed" where
  "put_text lib t v cap out =
     (case text_of lib t v of
        Some s \<Rightarrow> put_utf8 cap out s
      | None \<Rightarrow> Thrown (PNormal AAA_INVALID_AVP_VALUE))"

definition write_int32 :: "avp_value \<Rightarrow> nat \<Rightarrow> octets \<Rightarrow> octets parsed" where
  "write_int32 v cap out = of_entry (as_u32 (Some v)) (\<lambda>w. put_space cap out (be32 w))"

definition write_int64 :: "avp_value \<Rightarrow> nat \<Rightarrow> octets \<Rightarrow> octets parsed" where
  "write_int64 v cap out = of_entry (as_u64 (Some v)) (\<lambda>w. put_space cap out (be64 w))"

definition write_octets :: "avp_value \<Rightarrow> nat \<Rightarrow> octets \<Rightarrow> octets parsed" where
  "write_octets v cap out = of_entry (as_str (Some v)) (\<lambda>s. put_space cap out (octets_of s))"

definition write_utf8 :: "avp_value \<Rightarrow> nat \<Rightarrow> octets \<Rightarrow> octets parsed" where
  "write_utf8 v cap out = of_entry (as_str (Some v)) (\<lambda>s. put_utf8 cap out s)"

definition write_diamident :: "avp_value \<Rightarrow> nat \<Rightarrow> octets \<Rightarrow> octets parsed" where
  "write_diamident v cap out =
     of_entry (as_str (Some v)) (\<lambda>s.
       if diamident_ok s then put_utf8 cap out s else Thrown (PNormal AAA_INVALID_AVP_VALUE))"

definition write_address :: "avp_value \<Rightarrow> nat \<Rightarrow> octets \<Rightarrow> octets parsed" where
  "write_address v cap out =
     of_entry (as_addr (Some v)) (\<lambda>(f, s). put_space cap out (be16 f @ octets_of s))"

definition write_leaf ::
    "text_lib \<Rightarrow> avp_type \<Rightarrow> avp_value \<Rightarrow> nat \<Rightarrow> octets \<Rightarrow> octets parsed" where
  "write_leaf lib t =
     (case t of
        AnyT \<Rightarrow> write_octets
      | Integer32T \<Rightarrow> write_int32
      | Integer64T \<Rightarrow> write_int64
      | Unsigned32T \<Rightarrow> write_int32
      | Unsigned64T \<Rightarrow> write_int64
      | UTF8StringT \<Rightarrow> write_utf8
      | EnumeratedT \<Rightarrow> write_int32
      | TimeT \<Rightarrow> write_int32
      | OctetStringT \<Rightarrow> write_octets
      | DiameterIdentityT \<Rightarrow> write_diamident
      | DiameterURIT \<Rightarrow> put_text lib DiameterURIT
      | IPFilterRuleT \<Rightarrow> put_text lib IPFilterRuleT
      | GroupedT \<Rightarrow> (\<lambda>v cap out. Thrown (PBug MISSING_AVP_VALUE_PARSER))
      | IPAddressT \<Rightarrow> write_address)"

lemmas write_leaf_defs = write_leaf_def write_int32_def write_int64_def write_octets_def
  write_utf8_def write_diamident_def write_address_def

section \<open>Windows\<close>

text \<open>The octets \<open>bs\<close> stand at offset \<open>p\<close> of a buffer.\<close>

definition window :: "octets \<Rightarrow> nat \<Rightarrow> octets \<Rightarrow> bool" where
  "window mem p bs \<longleftrightarrow> p + length bs \<le> length mem \<and> take (length bs) (drop p mem) = bs"

lemma window_append [simp]:
  "window mem p (a @ b) \<longleftrightarrow> window mem p a \<and> window mem (p + length a) b"
proof
  assume w: "window mem p (a @ b)"
  then have e: "take (length a) (drop p mem) @ take (length b) (drop (p + length a) mem) = a @ b"
    by (simp add: window_def take_add ac_simps)
  have "length (take (length a) (drop p mem)) = length a" using w by (auto simp: window_def)
  with e have "take (length a) (drop p mem) = a" "take (length b) (drop (p + length a) mem) = b"
    by (simp_all add: append_eq_append_conv)
  with w show "window mem p a \<and> window mem (p + length a) b" by (simp add: window_def)
qed (simp add: window_def take_add ac_simps)

lemma window_drop: "window mem p bs \<Longrightarrow> \<exists>post. drop p mem = bs @ post"
  unfolding window_def by (metis append_take_drop_id)

lemma window_self: "window (pre @ bs @ post) (length pre) bs"
  by (simp add: window_def)

lemma window_load32 [wire_simps]: "window mem p (be32 w) \<Longrightarrow> load32 mem p = Some w"
  by (frule window_drop) (auto simp: load32_def wire_simps window_def)

lemma window_load64 [wire_simps]: "window mem p (be64 w) \<Longrightarrow> load64 mem p = Some w"
  by (frule window_drop) (auto simp: load64_def wire_simps window_def)

lemma window_load_str [wire_simps]:
  "window mem p bs \<Longrightarrow> length bs = n \<Longrightarrow> load_str mem p n = Some (string_of bs)"
  by (frule window_drop) (auto simp: load_str_def window_def)

lemma put_Parsed [simp]:
  "put cap out bs err = Parsed out' \<longleftrightarrow> out' = out @ bs \<and> length out + length bs \<le> cap"
  by (auto simp: put_def)

lemma put_space_Parsed [simp]:
  "put_space cap out bs = Parsed out' \<longleftrightarrow> out' = out @ bs \<and> length out + length bs \<le> cap"
  by (simp add: put_space_def)

lemma of_entry_Parsed [simp]:
  "of_entry x f = Parsed out' \<longleftrightarrow> (\<exists>a. x = Some a \<and> f a = Parsed out')"
  by (auto simp: of_entry_def split: option.splits)

lemma as_value_Some [simp]:
  "as_str (Some v) = Some s \<longleftrightarrow> v = AStr s"
  "as_u32 (Some v) = Some w \<longleftrightarrow> v = AU32 w"
  "as_u64 (Some v) = Some d \<longleftrightarrow> v = AU64 d"
  "as_addr (Some v) = Some (f, s) \<longleftrightarrow> v = AAddr f s"
  by (cases v; auto)+

lemma put_utf8_Parsed [simp]:
  "put_utf8 cap out s = Parsed out' \<longleftrightarrow>
     utf8_check (octets_of s) \<and> out' = out @ octets_of s \<and> length out + length s \<le> cap"
  by (auto simp: put_utf8_def)

text \<open>What is written of a leaf is read back from a window with it.\<close>

definition plain_type :: "avp_type \<Rightarrow> bool" where
  "plain_type t \<longleftrightarrow> t \<notin> {AnyT, DiameterURIT, IPFilterRuleT}"

lemma string_of_append [simp]: "string_of (a @ b) = string_of a @ string_of b"
  by (simp add: string_of_def)

lemma length_string_of [simp]: "length (string_of bs) = length bs"
  by (simp add: string_of_def)

lemma octets_of_append [simp]: "octets_of (a @ b) = octets_of a @ octets_of b"
  by (simp add: octets_of_def)

lemma leaf_roundtrip:
  assumes "write_leaf lib (avpType e) v cap out = Parsed out'"
    and "plain_type (avpType e)"
  shows "\<exists>bs. out' = out @ bs \<and> length out' \<le> cap \<and>
    (\<forall>mem p. length bs < 2 ^ 32 \<longrightarrow> window mem p bs \<longrightarrow>
       read_leaf lib e mem p (of_nat (length bs)) = Parsed v)"
  using assms
  by (cases "avpType e")
    (auto simp: write_leaf_defs read_leaf_defs wire_simps plain_type_def unat_of_nat
      split: if_splits)

section \<open>Well-formed UTF-8\<close>

text \<open>The encoding of one character in the up to six octets of RFC 2279, by value ranges.\<close>

definition utf8_length :: "nat \<Rightarrow> nat" where
  "utf8_length n =
     (if n < 128 then 1 else if n < 192 then 0 else if n < 224 then 2 else if n < 240 then 3
      else if n < 248 then 4 else if n < 252 then 5 else if n < 254 then 6 else 0)"

definition utf8_char :: "octets \<Rightarrow> bool" where
  "utf8_char c \<longleftrightarrow>
     c \<noteq> [] \<and> length c = utf8_length (unat (hd c)) \<and>
     (\<forall>x \<in> set (tl c). 128 \<le> unat x \<and> unat x < 192)"

lemma top_bit: "k \<le> 7 \<Longrightarrow> push_bit k b AND 0x80 = (0 :: u8) \<longleftrightarrow> even (unat b div 2 ^ (7 - k))"
proof -
  assume k: "k \<le> 7"
  have "push_bit k b AND 0x80 = 0 \<longleftrightarrow> \<not> bit (push_bit k b) 7"
    using and_exp_eq_0_iff_not_bit [of "push_bit k b" 7] by simp
  also have "\<dots> \<longleftrightarrow> \<not> bit b (7 - k)" using k by (simp add: bit_simps)
  also have "\<dots> \<longleftrightarrow> \<not> bit (unat b) (7 - k)" by (simp add: bit_simps)
  finally show ?thesis by (simp add: bit_iff_odd)
qed

lemma octet_quot:
  fixes m d :: nat
  shows "m div 128 = d \<longleftrightarrow> 128 * d \<le> m \<and> m < 128 * d + 128"
    and "m div 64 = d \<longleftrightarrow> 64 * d \<le> m \<and> m < 64 * d + 64"
    and "m div 32 = d \<longleftrightarrow> 32 * d \<le> m \<and> m < 32 * d + 32"
    and "m div 16 = d \<longleftrightarrow> 16 * d \<le> m \<and> m < 16 * d + 16"
    and "m div 8 = d \<longleftrightarrow> 8 * d \<le> m \<and> m < 8 * d + 8"
    and "m div 4 = d \<longleftrightarrow> 4 * d \<le> m \<and> m < 4 * d + 4"
    and "m div 2 = d \<longleftrightarrow> 2 * d \<le> m \<and> m < 2 * d + 2"
  by auto

lemma lead_ones_unroll:
  "lead_ones 7 b =
    (if even (unat b div 128) then 0 else if even (unat b div 64) then 1
     else if even (unat b div 32) then 2 else if even (unat b div 16) then 3
     else if even (unat b div 8) then 4 else if even (unat b div 4) then 5
     else if even (unat b div 2) then 6 else 7)"
proof -
  have step: "lead_ones (Suc n) (push_bit k b) =
      (if even (unat b div 2 ^ (7 - k)) then 0 else Suc (lead_ones n (push_bit (Suc k) b)))"
    if "k \<le> 7" for n k
    using that by (simp add: top_bit)
  have "lead_ones 7 b = lead_ones (Suc (Suc (Suc (Suc (Suc (Suc (Suc 0))))))) (push_bit 0 b)"
    by (simp add: eval_nat_numeral)
  then show ?thesis by (simp only: step le0) (simp add: step)
qed

lemma lead_ones_length:
  "lead_ones 7 b =
     (if unat b < 128 then 0 else if unat b < 192 then 1
      else if unat b < 254 then utf8_length (unat b) else 7)"
proof -
  have "unat b < 2 ^ LENGTH(8)" by (rule unsigned_less)
  then have bound: "unat b < 256" by simp
  note * = lead_ones_unroll [of b]
  consider "unat b < 128" | "128 \<le> unat b" "unat b < 192" | "192 \<le> unat b" "unat b < 224"
     | "224 \<le> unat b" "unat b < 240"  | "240 \<le> unat b" "unat b < 248"
     | "248 \<le> unat b" "unat b < 252"  | "252 \<le> unat b" "unat b < 254" | "254 \<le> unat b"
    by linarith
  then show ?thesis
  proof cases
    case 1
    then have "unat b div 128 = 0" by simp
    with * 1 show ?thesis by simp
  next
    case 2
    then have "unat b div 128 = 1" "unat b div 64 = 2" by (simp_all add: octet_quot)
    with * 2 show ?thesis by simp
  next
    case 3
    then have "unat b div 128 = 1" "unat b div 64 = 3" "unat b div 32 = 6" by (simp_all add: octet_quot)
    with * 3 show ?thesis by (simp add: utf8_length_def)
  next
    case 4
    then have "unat b div 128 = 1" "unat b div 64 = 3" "unat b div 32 = 7" "unat b div 16 = 14"
      by (simp_all add: octet_quot)
    with * 4 show ?thesis by (simp add: utf8_length_def)
  next
    case 5
    then have "unat b div 128 = 1" "unat b div 64 = 3" "unat b div 32 = 7" "unat b div 16 = 15"
      "unat b div 8 = 30" by (simp_all add: octet_quot)
    with * 5 show ?thesis by (simp add: utf8_length_def)
  next
    case 6
    then have "unat b div 128 = 1" "unat b div 64 = 3" "unat b div 32 = 7" "unat b div 16 = 15"
      "unat b div 8 = 31" "unat b div 4 = 62" by (simp_all add: octet_quot)
    with * 6 show ?thesis by (simp add: utf8_length_def)
  next
    case 7
    then have "unat b div 128 = 1" "unat b div 64 = 3" "unat b div 32 = 7" "unat b div 16 = 15"
      "unat b div 8 = 31" "unat b div 4 = 63" "unat b div 2 = 126" by (simp_all add: octet_quot)
    with * 7 show ?thesis by (simp add: utf8_length_def)
  next
    case 8
    with bound have "unat b div 128 = 1" "unat b div 64 = 3" "unat b div 32 = 7"
      "unat b div 16 = 15" "unat b div 8 = 31" "unat b div 4 = 63" "unat b div 2 = 127"
      by (simp_all add: octet_quot)
    with * 8 show ?thesis by simp
  qed
qed

lemma continuation_octet: "drop_bit 6 (b :: u8) = 2 \<longleftrightarrow> 128 \<le> unat b \<and> unat b < 192"
proof -
  have "drop_bit 6 b = 2 \<longleftrightarrow> unat (drop_bit 6 b) = unat (2 :: u8)"
    by (simp only: word_unat_eq_iff)
  also have "\<dots> \<longleftrightarrow> unat b div 64 = 2" by (simp add: unat_drop_bit_eq drop_bit_eq_div unat_div)
  finally show ?thesis by auto
qed

lemma utf8_rest_spec:
  "utf8_rest n bs = Some r \<longleftrightarrow>
     (\<exists>c. bs = c @ r \<and> length c = n \<and> (\<forall>x \<in> set c. 128 \<le> unat x \<and> unat x < 192))"
proof (induction n bs rule: utf8_rest.induct)
  case (3 n b bs)
  then show ?case
    by (auto simp: continuation_octet Cons_eq_append_conv length_Suc_conv)
qed auto

lemma utf8_check_Cons:
  "utf8_check (b # bs) \<longleftrightarrow>
     (\<exists>c r. b # bs = c @ r \<and> utf8_char c \<and> utf8_check r)"
proof -
  have split: "(\<exists>c r. b # bs = c @ r \<and> utf8_char c \<and> utf8_check r) \<longleftrightarrow>
      (\<exists>c r. bs = c @ r \<and> Suc (length c) = utf8_length (unat b) \<and>
        (\<forall>x \<in> set c. 128 \<le> unat x \<and> unat x < 192) \<and> utf8_check r)"
    (is "?l \<longleftrightarrow> ?r")
  proof
    assume ?l
    then obtain c r where "b # bs = c @ r" "utf8_char c" "utf8_check r" by blast
    then show ?r by (cases c) (auto simp: utf8_char_def)
  next
    assume ?r
    then obtain c r where "bs = c @ r" "Suc (length c) = utf8_length (unat b)"
      "\<forall>x \<in> set c. 128 \<le> unat x \<and> unat x < 192" "utf8_check r" by blast
    then have "b # bs = (b # c) @ r \<and> utf8_char (b # c) \<and> utf8_check r"
      by (simp add: utf8_char_def)
    then show ?l by blast
  qed
  consider "unat b < 128" | "128 \<le> unat b" "unat b < 192" | "192 \<le> unat b" "unat b < 254"
    | "254 \<le> unat b" by linarith
  then show ?thesis
  proof cases
    case 3
    then have l: "2 \<le> utf8_length (unat b)" "utf8_length (unat b) \<le> 6"
      by (auto simp: utf8_length_def)
    with 3 have "utf8_check (b # bs) \<longleftrightarrow>
        (case utf8_rest (utf8_length (unat b) - 1) bs of None \<Rightarrow> False | Some r \<Rightarrow> utf8_check r)"
      by (simp add: lead_ones_length Let_def)
    also have "\<dots> \<longleftrightarrow> (\<exists>r. utf8_rest (utf8_length (unat b) - 1) bs = Some r \<and> utf8_check r)"
      by (auto split: option.splits)
    finally show ?thesis
      using l unfolding split utf8_rest_spec
      by (metis Suc_diff_1 diff_Suc_1 less_le_trans zero_less_numeral)
  qed (simp_all only: split, simp_all add: lead_ones_length utf8_length_def)
qed

text \<open>C30: a string passes the check of the UTF-8 parser exactly when it is a concatenation of
  well-formed characters of one to six octets: a leading octet that announces the number,
  and as many continuation octets as it announces.\<close>

theorem utf8_check_spec:
  "utf8_check bs \<longleftrightarrow> (\<exists>cs. bs = concat cs \<and> list_all utf8_char cs)"
proof
  assume "utf8_check bs"
  then show "\<exists>cs. bs = concat cs \<and> list_all utf8_char cs"
  proof (induction "length bs" arbitrary: bs rule: less_induct)
    case less
    show ?case
    proof (cases bs)
      case Nil
      then show ?thesis by (auto intro: exI [of _ "[]"])
    next
      case (Cons b bs')
      with less.prems utf8_check_Cons [of b bs'] obtain c r
        where c: "bs = c @ r" "utf8_char c" "utf8_check r" by auto
      then have "length r < length bs" by (cases c) (auto simp: utf8_char_def)
      with less.hyps c obtain cs where "r = concat cs" "list_all utf8_char cs" by blast
      with c have "bs = concat (c # cs) \<and> list_all utf8_char (c # cs)" by simp
      then show ?thesis by blast
    qed
  qed
next
  have "utf8_check (concat cs)" if "list_all utf8_char cs" for cs
    using that
  proof (induction cs)
    case (Cons c cs)
    then obtain b c' where "c = b # c'" by (cases c) (auto simp: utf8_char_def)
    with Cons utf8_check_Cons [of b "c' @ concat cs"] show ?case by auto
  qed simp
  then show "\<exists>cs. bs = concat cs \<and> list_all utf8_char cs \<Longrightarrow> utf8_check bs" by blast
qed

end
