(* ===== verification/Wire_Avp.thy ===== *)
theory Wire_Avp
  imports Wire_Values
begin

text \<open>
  AVPs on the wire: the list of AVP headers of a message block
  (\<open>libdiamparser/src/aaa_avp_header.cxx\<close>), the AVP parser
  (\<open>aaa_parser_avp.cxx\<close>), the dictionary-driven parser of qualified AVP lists
  (\<open>aaa_parser_q_avplist.cxx\<close>) and the parser of grouped AVPs.  The value parser is an
  argument of the list parsers, which ties the recursion through grouped AVPs at the end.
\<close>

section \<open>AVP headers\<close>

record avp_header =
  ah_code :: u32
  ah_v :: bool
  ah_m :: bool
  ah_p :: bool
  ah_length :: u32
  ah_vendor :: u32
  value_p :: nat

definition adjust_word_boundary :: "u32 \<Rightarrow> u32" where
  "adjust_word_boundary n = push_bit 2 (drop_bit 2 (n - 1) + 1)"

definition wildcard :: "dict_entry \<Rightarrow> bool" where
  "wildcard e \<longleftrightarrow> avpCode e = 0 \<and> avpName e = ''AVP''"

definition AVP_HEADER_LEN :: "dict_entry \<Rightarrow> u32" where
  "AVP_HEADER_LEN e = (if wildcard e then 0 else if flag_vendor e then 12 else 8)"

lemma unat_div_u32: "unat ((a :: u32) div b) = unat a div unat b"
  by (rule unat_div)
lemma low24: "unat (w AND 0x00ffffff :: u32) = unat w mod 16777216"
proof -
  have "w AND 0x00ffffff = take_bit 24 w" by (simp add: take_bit_eq_mask mask_eq_exp_minus_1)
  moreover have "unat (take_bit 24 w) = unat w mod 16777216"
    by (simp only: unsigned_take_bit_eq) (simp add: take_bit_eq_mod)
  ultimately show ?thesis by simp
qed
lemma unat_adjust:
  assumes "n \<noteq> 0" "unat n < 2 ^ 31"
  shows "unat (adjust_word_boundary n) = 4 * ((unat n - 1) div 4 + 1)"
proof -
  have m: "unat (n - 1) = unat n - 1" using assms(1) by (simp add: unat_minus_one)
  then have d: "unat (drop_bit 2 (n - 1)) = (unat n - 1) div 4"
    by (simp add: unat_drop_bit_eq drop_bit_eq_div unat_div_u32)
  define x where "x = drop_bit 2 (n - 1) + 1"
  have x: "unat x = (unat n - 1) div 4 + 1"
    using assms(2) by (simp add: x_def unat_word_ariths d)
  have "push_bit 2 x = 4 * x" by (simp add: push_bit_eq_mult mult.commute)
  then have "unat (push_bit 2 x) = 4 * unat x"
    using assms(2) x by (simp add: unat_word_ariths)
  then show ?thesis by (simp add: adjust_word_boundary_def x flip: x_def)
qed

lemma mask24: "n < 16777216 \<Longrightarrow> (of_nat n AND 0x00ffffff :: u32) = of_nat n"
  by (simp add: word_unat_eq_iff low24 unat_of_nat)

lemma length24: "unat (w AND 0x00ffffff :: u32) < 16777216"
  by (simp add: low24)

lemma adjust_positive:
  "w AND 0x00ffffff \<noteq> 0 \<Longrightarrow> 0 < unat (adjust_word_boundary (w AND 0x00ffffff))"
  using length24 [of w] by (simp add: unat_adjust)

text \<open>
  \<open>DiameterAvpHeaderList::create\<close>: headers are read from the pointer up to the end of the
  block, each step forward by the length rounded up to a word.  The first eight octets of
  a header and the vendor are read wherever they lie.
\<close>

definition vendor_at :: "octets \<Rightarrow> nat \<Rightarrow> u32 option" where
  "vendor_at mem cavp =
     (if mem ! (cavp + 4) AND 0x80 \<noteq> 0 then load32 mem (cavp + 8) else Some 0)"

function create_loop :: "octets \<Rightarrow> nat \<Rightarrow> nat \<Rightarrow> avp_header list parsed" where
  "create_loop mem cavp end =
     (if cavp < end then
        (case (load32 mem cavp, load32 mem (cavp + 4)) of
           (Some c, Some w) \<Rightarrow>
             (let n = w AND 0x00ffffff; b = mem ! (cavp + 4) in
              if n = 0 \<or> n > of_nat (end - cavp)
              then Thrown (PNormal AAA_INVALID_MESSAGE_LENGTH)
              else
                (case vendor_at mem cavp of
                   None \<Rightarrow> Overrun
                 | Some vd \<Rightarrow>
                     (case create_loop mem (cavp + unat (adjust_word_boundary n)) end of
                        Parsed hs \<Rightarrow>
                          Parsed (\<lparr>ah_code = c, ah_v = (b AND 0x80 \<noteq> 0), ah_m = (b AND 0x40 \<noteq> 0),
                                   ah_p = (b AND 0x20 \<noteq> 0), ah_length = n, ah_vendor = vd,
                                   value_p = cavp\<rparr> # hs)
                      | r \<Rightarrow> r)))
         | _ \<Rightarrow> Overrun)
      else Parsed [])"
  by pat_completeness auto
termination
  by (relation "measure (\<lambda>(mem, cavp, end). end - cavp)") (auto simp: adjust_positive diff_less_mono2)

declare create_loop.simps [simp del]

text \<open>
  \<open>DiameterAvpHeaderParser::parseRawToApp\<close>: the header of the next AVP of a dictionary
  entry is taken out of the list.  A mismatch of the flags is only logged.
\<close>

definition header_matches :: "dict_entry \<Rightarrow> avp_header \<Rightarrow> bool" where
  "header_matches e h \<longleftrightarrow>
     wildcard e \<or>
     ah_v h = flag_vendor e \<and> ah_vendor h = entryVendorId e \<and> ah_code h = avpCode e"

fun take_header :: "dict_entry \<Rightarrow> avp_header list \<Rightarrow> (avp_header \<times> avp_header list) option" where
  "take_header e [] = None"
| "take_header e (h # hs) =
     (if header_matches e h then Some (h, hs)
      else map_option (\<lambda>(x, r). (x, h # r)) (take_header e hs))"

definition skip_header :: "dict_entry \<Rightarrow> avp_header \<Rightarrow> avp_header" where
  "skip_header e h = h\<lparr>value_p := value_p h + unat (AVP_HEADER_LEN e)\<rparr>"

definition read_header ::
    "parse_type \<Rightarrow> dict_entry \<Rightarrow> avp_header list \<Rightarrow> (avp_header \<times> avp_header list) parsed" where
  "read_header pt e ahl =
     (if ahl = [] then Thrown (PNormal AAA_MISSING_AVP)
      else if pt = FIXED_HEAD then
        (if avpCode e = 0 then Thrown (PBug INVALID_CONTAINER_PARAM)
         else if ah_code (hd ahl) = avpCode e then Parsed (skip_header e (hd ahl), tl ahl)
         else Thrown (PNormal AAA_MISSING_AVP))
      else
        (case take_header e ahl of
           Some (h, rest) \<Rightarrow> Parsed (skip_header e h, rest)
         | None \<Rightarrow> Thrown (PNormal AAA_MISSING_AVP)))"

lemma take_header_length: "take_header e ahl = Some (h, r) \<Longrightarrow> length r < length ahl"
  by (induction ahl arbitrary: h r) (auto split: if_splits)

lemma read_header_length: "read_header pt e ahl = Parsed (h, r) \<Longrightarrow> length r < length ahl"
  by (auto simp: read_header_def take_header_length split: if_splits option.splits)

section \<open>Reading AVPs\<close>

text \<open>
  \<open>DiameterAvpParser::parseRawToApp\<close> collects the entries of one dictionary entry.  A
  header that was taken stays taken when an error is thrown, so that the remaining headers
  are part of the result.  The size of the value is the length less the header, in 32
  bits.
\<close>

type_synonym value_reader = "dict_entry \<Rightarrow> nat \<Rightarrow> u32 \<Rightarrow> avp_value parsed"

function read_avp ::
    "value_reader \<Rightarrow> parse_type \<Rightarrow> dict_entry \<Rightarrow> nat \<Rightarrow> avp_header list
      \<Rightarrow> avp_value list parsed \<times> avp_header list" where
  "read_avp vr pt e i ahl =
     (case read_header pt e ahl of
        Thrown err \<Rightarrow> (if i > 0 \<and> is_missing err then Parsed [] else Thrown err, ahl)
      | Overrun \<Rightarrow> (Overrun, ahl)
      | Parsed (h, rest) \<Rightarrow>
          (case vr e (value_p h) (ah_length h - AVP_HEADER_LEN e) of
             Parsed v \<Rightarrow>
               (case read_avp vr pt e (i + 1) rest of
                  (Parsed vs, r) \<Rightarrow> (Parsed (v # vs), r)
                | x \<Rightarrow> x)
           | Thrown err \<Rightarrow> (Thrown err, rest)
           | Overrun \<Rightarrow> (Overrun, rest)))"
  by pat_completeness auto
termination
  by (relation "measure (\<lambda>(vr, pt, e, i, ahl). length ahl)") (auto dest: read_header_length)

declare read_avp.simps [simp del]

text \<open>
  \<open>parseRawToAppWithDict\<close>: the fixed, required and optional AVPs of the dictionary in this
  order.  What is left of the headers is only logged.
\<close>

definition qualified_list :: "dictionary \<Rightarrow> (parse_type \<times> qualified_avp) list" where
  "qualified_list d =
     map (Pair FIXED_HEAD) (avp_f d) @ map (Pair REQUIRED) (avp_r d)
      @ map (Pair OPTIONAL) (avp_o d)"

fun read_quals ::
    "value_reader \<Rightarrow> (parse_type \<times> qualified_avp) list \<Rightarrow> avp_header list \<Rightarrow> acl \<Rightarrow> acl parsed" where
  "read_quals vr [] ahl lst = Parsed lst"
| "read_quals vr ((pt, q) # qs) ahl lst =
     (case read_avp vr pt (q_avp q) 0 ahl of
        (Thrown err, rest) \<Rightarrow>
          (if is_missing err \<and> (pt = OPTIONAL \<or> q_min q = 0) then read_quals vr qs rest lst
           else Thrown err)
      | (Overrun, rest) \<Rightarrow> Overrun
      | (Parsed c, rest) \<Rightarrow>
          (if length c < unat (q_min q) then Thrown (PNormal AAA_MISSING_AVP)
           else if length c > unat (q_max q) then Thrown (PNormal AAA_AVP_OCCURS_TOO_MANY_TIMES)
           else read_quals vr qs rest (lst @ [(avpName (q_avp q), c)])))"

definition read_list :: "octets \<Rightarrow> value_reader \<Rightarrow> dictionary \<Rightarrow> nat \<Rightarrow> nat \<Rightarrow> acl \<Rightarrow> acl parsed" where
  "read_list mem vr d start end lst =
     (case create_loop mem start end of
        Parsed ahl \<Rightarrow> read_quals vr (qualified_list d) ahl lst
      | Thrown err \<Rightarrow> Thrown err
      | Overrun \<Rightarrow> Overrun)"

text \<open>
  The value of a grouped AVP is a block of its own over the same octets; the first argument
  bounds the nesting.
\<close>

fun read_value :: "nat \<Rightarrow> text_lib \<Rightarrow> grouped_avp list \<Rightarrow> octets \<Rightarrow> value_reader" where
  "read_value 0 lib gs mem e p n =
     (if avpType e = GroupedT then Overrun else read_leaf lib e mem p n)"
| "read_value (Suc k) lib gs mem e p n =
     (if avpType e = GroupedT then
        (case grouped_search (avpCode e) (entryVendorId e) gs of
           None \<Rightarrow> Thrown (PNormal AAA_AVP_UNSUPPORTED)
         | Some g \<Rightarrow>
             (case read_list mem (read_value k lib gs mem) (g_dict g) p (p + unat n) [] of
                Parsed lst \<Rightarrow> Parsed (AGrouped lst)
              | Thrown err \<Rightarrow> Thrown err
              | Overrun \<Rightarrow> Overrun))
      else read_leaf lib e mem p n)"

section \<open>Writing AVPs\<close>

text \<open>\<open>DiameterAvpHeaderParser::parseAppToRaw\<close>: the flags are or-ed into a cleared word.\<close>

definition flag_octet :: "dict_entry \<Rightarrow> u8" where
  "flag_octet e =
     (if flag_vendor e then 0x80 else 0) OR (if flag_mandatory e then 0x40 else 0)
      OR (if flag_encrypt e then 0x20 else 0)"

definition header_octets :: "dict_entry \<Rightarrow> u32 \<Rightarrow> octets" where
  "header_octets e n =
     be32 (avpCode e)
      @ map2 (OR) [flag_octet e, 0, 0, 0] (be32 (n AND 0x00ffffff))
      @ (if flag_vendor e then be32 (entryVendorId e) else [])"

definition write_header :: "dict_entry \<Rightarrow> u32 \<Rightarrow> nat \<Rightarrow> octets \<Rightarrow> octets parsed" where
  "write_header e n cap out =
     (if length out > cap then Overrun
      else if unat (AVP_HEADER_LEN e) > cap - length out then Thrown (PBug INVALID_PARSER_USAGE)
      else if length (header_octets e n) > cap - length out then Overrun
      else Parsed (out @ header_octets e n))"

type_synonym value_writer = "dict_entry \<Rightarrow> avp_value \<Rightarrow> nat \<Rightarrow> octets \<Rightarrow> octets parsed"

text \<open>
  One entry of \<open>DiameterAvpParser::parseAppToRaw\<close>: the header is written with length 0, then
  the value, then the header again with the length that came out (in 24 bits); the write
  pointer moves on to a word boundary of the (zeroed) buffer.
\<close>

definition write_one :: "value_writer \<Rightarrow> dict_entry \<Rightarrow> avp_value \<Rightarrow> nat \<Rightarrow> octets \<Rightarrow> octets parsed" where
  "write_one vw e v cap out =
     (case write_header e 0 cap out of
        Parsed o1 \<Rightarrow>
          (case vw e v cap o1 of
             Parsed o2 \<Rightarrow>
               (let n = of_nat (length o2 - length out) AND 0x00ffffff;
                    start = length o2 - unat n
                in case write_header e n cap (take start o2) of
                     Parsed o3 \<Rightarrow>
                       Parsed (o3 @ drop (length o3) o2
                         @ replicate (unat (adjust_word_boundary (of_nat (length o2)))
                             - length o2) 0)
                   | x \<Rightarrow> x)
           | x \<Rightarrow> x)
      | x \<Rightarrow> x)"

text \<open>An entry of the wildcard type is a complete AVP.\<close>

definition write_any :: "value_writer \<Rightarrow> dict_entry \<Rightarrow> avp_value \<Rightarrow> nat \<Rightarrow> octets \<Rightarrow> octets parsed" where
  "write_any vw e v cap out =
     (case vw e v cap out of
        Parsed o1 \<Rightarrow>
          (let k = unat (adjust_word_boundary (of_nat (length o1))) in
           if k \<le> cap then Parsed (o1 @ replicate (k - length o1) 0)
           else Thrown (PNormal AAA_OUT_OF_SPACE))
      | x \<Rightarrow> x)"

fun write_entries ::
    "value_writer \<Rightarrow> dict_entry \<Rightarrow> avp_value list \<Rightarrow> nat \<Rightarrow> octets \<Rightarrow> octets parsed" where
  "write_entries vw e [] cap out = Parsed out"
| "write_entries vw e (v # vs) cap out =
     (case (if avpType e = AnyT then write_any vw e v cap out else write_one vw e v cap out) of
        Parsed o1 \<Rightarrow> write_entries vw e vs cap o1
      | x \<Rightarrow> x)"

text \<open>\<open>parseAppToRawWithDict\<close>: containers the dictionary does not name are not written.\<close>

fun write_quals ::
    "value_writer \<Rightarrow> (parse_type \<times> qualified_avp) list \<Rightarrow> acl \<Rightarrow> nat \<Rightarrow> octets \<Rightarrow> octets parsed" where
  "write_quals vw [] lst cap out = Parsed out"
| "write_quals vw ((pt, q) # qs) lst cap out =
     (case acl_search (avpName (q_avp q)) lst of
        None \<Rightarrow>
          (if q_min q > 0 \<and> q_max q > 0 \<and> pt \<noteq> OPTIONAL then Thrown (PBug MISSING_CONTAINER)
           else write_quals vw qs lst cap out)
      | Some c \<Rightarrow>
          (if q_max q = 0 then Thrown (PBug PROHIBITED_CONTAINER)
           else if length c < unat (q_min q) then Thrown (PBug TOO_LESS_AVP_ENTRIES)
           else if length c > unat (q_max q) then Thrown (PBug TOO_MUCH_AVP_ENTRIES)
           else if c = [] then write_quals vw qs lst cap out
           else
             (case write_entries vw (q_avp q) c cap out of
                Parsed o1 \<Rightarrow> write_quals vw qs lst cap o1
              | x \<Rightarrow> x)))"

fun write_value :: "nat \<Rightarrow> text_lib \<Rightarrow> grouped_avp list \<Rightarrow> value_writer" where
  "write_value 0 lib gs e v cap out =
     (if avpType e = GroupedT then Overrun else write_leaf lib (avpType e) v cap out)"
| "write_value (Suc k) lib gs e v cap out =
     (if avpType e = GroupedT then
        (case v of
           AGrouped lst \<Rightarrow>
             (case grouped_search (avpCode e) (entryVendorId e) gs of
                None \<Rightarrow> Thrown (PNormal AAA_AVP_UNSUPPORTED)
              | Some g \<Rightarrow> write_quals (write_value k lib gs) (qualified_list (g_dict g)) lst cap out)
         | _ \<Rightarrow> Thrown (PBug PROHIBITED_CONTAINER))
      else write_leaf lib (avpType e) v cap out)"

end
