(* ===== verification/Wire_Codec.thy ===== *)
theory Wire_Codec
  imports Wire_Avp
begin

text \<open>
  What the AVP parser writes it reads back.  The laws of a value parser are a locale, in
  which the list parsers are proved to satisfy the same laws for whole container lists;
  the parser of leaves and grouped AVPs interprets it at every nesting depth.
\<close>

section \<open>Layout\<close>

definition header_at :: "octets \<Rightarrow> nat \<Rightarrow> avp_header \<Rightarrow> bool" where
  "header_at mem p h \<longleftrightarrow>
     load32 mem p = Some (ah_code h) \<and>
     (\<exists>w. load32 mem (p + 4) = Some w \<and> ah_length h = w AND 0x00ffffff) \<and>
     vendor_at mem p = Some (ah_vendor h) \<and>
     ah_v h = (mem ! (p + 4) AND 0x80 \<noteq> 0) \<and> ah_m h = (mem ! (p + 4) AND 0x40 \<noteq> 0) \<and>
     ah_p h = (mem ! (p + 4) AND 0x20 \<noteq> 0) \<and> value_p h = p"

fun laid :: "octets \<Rightarrow> nat \<Rightarrow> avp_header list \<Rightarrow> nat \<Rightarrow> bool" where
  "laid mem p [] q \<longleftrightarrow> p = q"
| "laid mem p (h # hs) q \<longleftrightarrow>
     header_at mem p h \<and> ah_length h \<noteq> 0 \<and>
     laid mem (p + unat (adjust_word_boundary (ah_length h))) hs q"

lemma laid_append:
  "laid mem p (hs @ hs') q \<longleftrightarrow> (\<exists>m. laid mem p hs m \<and> laid mem m hs' q)"
  by (induction hs arbitrary: p) auto

lemma laid_le: "laid mem p hs q \<Longrightarrow> p \<le> q"
  by (induction hs arbitrary: p) fastforce+

lemma adjust_ge: "n \<noteq> 0 \<Longrightarrow> unat n < 2 ^ 31 \<Longrightarrow> unat n \<le> unat (adjust_word_boundary n)"
  by (simp add: unat_adjust)

lemma header_at_length: "header_at mem p h \<Longrightarrow> unat (ah_length h) < 16777216"
  by (auto simp: header_at_def length24)

lemma create_loop_laid:
  assumes "laid mem p hs q" and "q - p < 2 ^ 32"
  shows "create_loop mem p q = Parsed hs"
  using assms
proof (induction hs arbitrary: p)
  case Nil
  then show ?case by (simp add: create_loop.simps)
next
  case (Cons h hs)
  let ?n = "ah_length h" and ?p = "p + unat (adjust_word_boundary (ah_length h))"
  have h: "header_at mem p h" "?n \<noteq> 0" "laid mem ?p hs q" using Cons.prems by simp_all
  have n: "unat ?n < 2 ^ 31" using header_at_length [OF h(1)] by simp
  have "?p \<le> q" using laid_le [OF h(3)] .
  then have le: "p < q" "unat ?n \<le> q - p" "q - ?p < 2 ^ 32"
    using adjust_ge [OF h(2) n] h(2) Cons.prems(2) by (auto simp: unat_gt_0 [symmetric])
  have "unat (of_nat (q - p) :: u32) = q - p" using Cons.prems(2) by (simp add: unat_of_nat)
  then have "\<not> ?n > of_nat (q - p)" using le(2) by (simp add: word_less_nat_alt)
  moreover have "create_loop mem ?p q = Parsed hs" using Cons.IH h(3) le(3) by simp
  ultimately show ?case
    using h(1,2) le(1) by (subst create_loop.simps) (auto simp: header_at_def Let_def)
qed

section \<open>Written headers\<close>

definition written_header :: "dict_entry \<Rightarrow> u32 \<Rightarrow> nat \<Rightarrow> avp_header" where
  "written_header e n p =
     \<lparr>ah_code = avpCode e, ah_v = flag_vendor e, ah_m = flag_mandatory e,
      ah_p = flag_encrypt e, ah_length = n,
      ah_vendor = (if flag_vendor e then entryVendorId e else 0), value_p = p\<rparr>"

lemma flags_word:
  "map2 (OR) [f, 0, 0, 0] (be32 (n AND 0x00ffffff)) =
     be32 (push_bit 24 (ucast f) OR (n AND 0x00ffffff))"
proof -
  have m: "n AND 0x00ffffff = take_bit 24 n"
    by (simp add: take_bit_eq_mask mask_eq_exp_minus_1)
  have 1: "f OR ucast (drop_bit 24 (take_bit 24 n)) =
      ucast (drop_bit 24 (push_bit 24 (ucast f) OR take_bit 24 n))"
    by (rule bit_word_eqI) (auto simp: bit_simps dest: bit_imp_le_length)
  have 2: "(ucast (drop_bit k (take_bit 24 n)) :: u8) =
      ucast (drop_bit k (push_bit 24 (ucast f) OR take_bit 24 n))" if "k \<le> 16" for k
    using that by (intro bit_word_eqI) (auto simp: bit_simps dest: bit_imp_le_length)
  from 2 [of 16] 2 [of 8] 2 [of 0] 1 show ?thesis by (simp add: be32_def m)
qed

lemma flags_word_low:
  "(push_bit 24 (ucast (f :: u8)) OR (n AND 0x00ffffff)) AND 0x00ffffff = (n AND 0x00ffffff :: u32)"
proof -
  have m: "w AND 0x00ffffff = take_bit 24 w" for w :: u32
    by (simp add: take_bit_eq_mask mask_eq_exp_minus_1)
  show ?thesis
    by (rule bit_word_eqI) (auto simp: m bit_simps dest: bit_imp_le_length)
qed

lemma flag_octet_bits:
  "flag_octet e AND 0x80 \<noteq> 0 \<longleftrightarrow> flag_vendor e"
  "flag_octet e AND 0x40 \<noteq> 0 \<longleftrightarrow> flag_mandatory e"
  "flag_octet e AND 0x20 \<noteq> 0 \<longleftrightarrow> flag_encrypt e"
  by (auto simp: flag_octet_def)

lemma length_header_octets:
  "length (header_octets e n) = (if flag_vendor e then 12 else 8)"
  by (simp add: header_octets_def)

lemma window_nth:
  assumes "window mem p bs" and "i < length bs"
  shows "mem ! (p + i) = bs ! i"
proof -
  from assms(1) have w: "p + length bs \<le> length mem" "take (length bs) (drop p mem) = bs"
    by (simp_all add: window_def)
  have "mem ! (p + i) = take (length bs) (drop p mem) ! i" using assms(2) w(1) by simp
  then show ?thesis by (simp only: w(2))
qed

lemma window_header:
  assumes "window mem p (header_octets e n)"
  shows "header_at mem p (written_header e (n AND 0x00ffffff) p)"
proof -
  let ?w = "push_bit 24 (ucast (flag_octet e)) OR (n AND 0x00ffffff) :: u32"
  have w: "window mem p (be32 (avpCode e))" "window mem (p + 4) (be32 ?w)"
    "flag_vendor e \<Longrightarrow> window mem (p + 8) (be32 (entryVendorId e))"
    using assms by (simp_all add: header_octets_def flags_word add.commute [of 8])
  have "mem ! (p + 4 + 0) = be32 ?w ! 0" using w(2) by (rule window_nth) simp
  also have "be32 ?w ! 0 = map2 (OR) [flag_octet e, 0, 0, 0] (be32 (n AND 0x00ffffff)) ! 0"
    by (simp only: flags_word)
  also have "\<dots> = flag_octet e"
  proof -
    have "(ucast (drop_bit 24 (take_bit 24 n)) :: u8) = 0"
      by (rule bit_word_eqI) (auto simp: bit_simps)
    moreover have "n AND 0x00ffffff = take_bit 24 n"
      by (simp add: take_bit_eq_mask mask_eq_exp_minus_1)
    ultimately show ?thesis by (simp add: be32_def)
  qed
  finally have f: "mem ! (p + 4) = flag_octet e" by simp
  then have "vendor_at mem p = Some (if flag_vendor e then entryVendorId e else 0)"
    using w(3) by (simp add: vendor_at_def flag_octet_bits wire_simps)
  then show ?thesis
    using w(1,2) f flag_octet_bits flags_word_low [of "flag_octet e" n]
    by (auto simp: header_at_def written_header_def wire_simps)
qed

section \<open>Word boundaries\<close>

lemma unat_adjust_of_nat:
  "0 < m \<Longrightarrow> m < 2 ^ 31 \<Longrightarrow>
     unat (adjust_word_boundary (of_nat m)) = 4 * ((m - 1) div 4 + 1)"
  by (simp add: unat_adjust unat_of_nat word_unat_eq_iff)

lemma adjust_up:
  assumes "0 < m" and "m < 2 ^ 31"
  shows "m \<le> unat (adjust_word_boundary (of_nat m))"
    and "4 dvd unat (adjust_word_boundary (of_nat m))"
    and "4 dvd c \<Longrightarrow> m \<le> c \<Longrightarrow> unat (adjust_word_boundary (of_nat m)) \<le> c"
proof -
  show "m \<le> unat (adjust_word_boundary (of_nat m))" "4 dvd unat (adjust_word_boundary (of_nat m))"
    using assms by (auto simp: unat_adjust_of_nat)
  assume "4 dvd c" "m \<le> c"
  then obtain k where k: "c = 4 * k" "m \<le> 4 * k" by (elim dvdE) simp
  with assms have "(m - 1) div 4 < k" by (simp add: div_less_iff_less_mult)
  with k assms show "unat (adjust_word_boundary (of_nat m)) \<le> c" by (simp add: unat_adjust_of_nat)
qed

lemma adjust_add:
  assumes "4 dvd a" and "0 < m" and "a + m < 2 ^ 31"
  shows "unat (adjust_word_boundary (of_nat (a + m))) =
    a + unat (adjust_word_boundary (of_nat m))"
proof -
  obtain k where "a = 4 * k" using assms(1) by (elim dvdE)
  moreover have "(4 * k + m - 1) div 4 = k + (m - 1) div 4" using assms(2) by linarith
  ultimately show ?thesis using assms(2,3) by (simp only: unat_adjust_of_nat) simp
qed

section \<open>The laws of a value parser\<close>

definition entry_ok :: "dict_entry \<Rightarrow> bool" where
  "entry_ok e \<longleftrightarrow>
     avpCode e \<noteq> 0 \<and> avpType e \<noteq> AnyT \<and> (\<not> flag_vendor e \<longrightarrow> entryVendorId e = 0)"

lemma entry_ok_simps [simp]:
  assumes "entry_ok e"
  shows "\<not> wildcard e" "avpType e \<noteq> AnyT"
    "(if flag_vendor e then entryVendorId e else 0) = entryVendorId e"
    "unat (AVP_HEADER_LEN e) = length (header_octets e n)"
  using assms by (auto simp: entry_ok_def wildcard_def AVP_HEADER_LEN_def length_header_octets)

text \<open>The header belongs to the entry; no header of the second entry is taken for the first.\<close>

definition key_of :: "dict_entry \<Rightarrow> avp_header \<Rightarrow> bool" where
  "key_of e h \<longleftrightarrow>
     ah_code h = avpCode e \<and> ah_v h = flag_vendor e \<and> ah_vendor h = entryVendorId e"

definition apart :: "parse_type \<Rightarrow> dict_entry \<Rightarrow> dict_entry \<Rightarrow> bool" where
  "apart pt e e' \<longleftrightarrow>
     avpCode e \<noteq> avpCode e' \<or>
     pt \<noteq> FIXED_HEAD \<and> (flag_vendor e \<noteq> flag_vendor e' \<or> entryVendorId e \<noteq> entryVendorId e')"

fun quals_ok :: "(parse_type \<times> qualified_avp) list \<Rightarrow> bool" where
  "quals_ok [] \<longleftrightarrow> True"
| "quals_ok ((pt, q) # qs) \<longleftrightarrow>
     entry_ok (q_avp q) \<and> (q_max q = 0 \<longrightarrow> q_min q = 0) \<and>
     (\<forall>(pt', q') \<in> set qs. apart pt (q_avp q) (q_avp q')) \<and> quals_ok qs"

definition good_list ::
    "(dict_entry \<Rightarrow> avp_value \<Rightarrow> bool) \<Rightarrow> (parse_type \<times> qualified_avp) list \<Rightarrow> acl \<Rightarrow> bool" where
  "good_list good qs lst \<longleftrightarrow>
     (\<forall>(pt, q) \<in> set qs. \<forall>c. acl_search (avpName (q_avp q)) lst = Some c \<longrightarrow>
        (\<forall>v \<in> set c. good (q_avp q) v))"

text \<open>
  What a receiver makes of a container list: the containers that the dictionary names and
  that are not empty, in the order of the dictionary.
\<close>

definition dict_view ::
    "(dict_entry \<Rightarrow> avp_value \<Rightarrow> avp_value) \<Rightarrow> (parse_type \<times> qualified_avp) list \<Rightarrow> acl \<Rightarrow> acl" where
  "dict_view view qs lst =
     concat (map (\<lambda>(pt, q).
       case acl_search (avpName (q_avp q)) lst of
         None \<Rightarrow> []
       | Some c \<Rightarrow> if c = [] then [] else [(avpName (q_avp q), map (view (q_avp q)) c)]) qs)"

locale avp_codec =
  fixes vw :: value_writer
    and vr :: "octets \<Rightarrow> value_reader"
    and view :: "dict_entry \<Rightarrow> avp_value \<Rightarrow> avp_value"
    and good :: "dict_entry \<Rightarrow> avp_value \<Rightarrow> bool"
  assumes value_back:
    "good e v \<Longrightarrow> vw e v cap out = Parsed out' \<Longrightarrow> 4 dvd length out \<Longrightarrow> 4 dvd cap \<Longrightarrow>
     cap < 16777216 \<Longrightarrow> length out \<le> cap \<Longrightarrow>
     \<exists>bs. out' = out @ bs \<and> length out' \<le> cap \<and>
       (\<forall>mem p. window mem p bs \<longrightarrow>
          vr mem e p (of_nat (length bs)) = Parsed (view e v))"
begin

text \<open>A header of \<open>e\<close> whose value reads as \<open>v\<close>.\<close>

definition reads :: "octets \<Rightarrow> dict_entry \<Rightarrow> avp_header \<Rightarrow> avp_value \<Rightarrow> bool" where
  "reads mem e h v \<longleftrightarrow>
     ah_code h = avpCode e \<and> ah_v h = flag_vendor e \<and> ah_vendor h = entryVendorId e \<and>
     vr mem e (value_p h + unat (AVP_HEADER_LEN e)) (ah_length h - AVP_HEADER_LEN e) =
       Parsed (view e v)"

lemma write_one_layout:
  assumes w: "write_one vw e v cap out = Parsed out'" and ok: "entry_ok e" "good e v"
    and al: "4 dvd length out" "4 dvd cap" "cap < 16777216"
  shows "\<exists>bs pad. let m = length (header_octets e 0) + length bs in
    out' = out @ header_octets e (of_nat m) @ bs @ pad \<and>
    length (header_octets e 0 @ bs @ pad) = unat (adjust_word_boundary (of_nat m)) \<and>
    m < 16777216 \<and> 4 dvd length out' \<and> length out' \<le> cap \<and>
    (\<forall>mem p. window mem p bs \<longrightarrow> vr mem e p (of_nat (length bs)) = Parsed (view e v))"
proof -
  let ?H = "header_octets e"
  have lenH: "length (?H n) = length (?H 0)" "length (?H n) > 0" "4 dvd length (?H n)" for n
    by (simp_all add: length_header_octets)
  obtain o2 where o1: "write_header e 0 cap out = Parsed (out @ ?H 0)"
    and o2: "vw e v cap (out @ ?H 0) = Parsed o2"
    using w by (auto simp: write_one_def write_header_def split: parsed.splits if_splits)
  have "4 dvd length (out @ ?H 0)" using al(1) lenH(3) [of 0] by simp
  moreover have "length (out @ ?H 0) \<le> cap" using o1 by (simp add: write_header_def split: if_splits)
  ultimately have pre: "4 dvd length (out @ ?H 0)" "length (out @ ?H 0) \<le> cap" by blast+
  from value_back [OF ok(2) o2 pre(1) al(2,3) pre(2)] obtain bs where bs: "o2 = (out @ ?H 0) @ bs"
    "length o2 \<le> cap"
    and rd: "\<forall>mem p. window mem p bs \<longrightarrow> vr mem e p (of_nat (length bs)) = Parsed (view e v)"
    by blast
  let ?m = "length (?H 0) + length bs"
  have m: "?m < 16777216" "length o2 = length out + ?m" using bs al(3) by simp_all
  have n1: "of_nat ?m AND 0x00ffffff = (of_nat ?m :: u32)" using m(1) by (rule mask24)
  have n2: "unat (of_nat ?m :: u32) = ?m" using m(1) by (subst unat_of_nat) simp
  note n = n1 n2
  have L: "0 < length o2" "length o2 < 2 ^ 31" using m(2) lenH(2) [of 0] bs(2) al(3) by simp_all
  let ?k = "unat (adjust_word_boundary (of_nat (length o2)))"
  have k: "length o2 \<le> ?k" "4 dvd ?k" "?k \<le> cap"
    using adjust_up [OF L] al(2) bs(2) by blast+
  have "length o2 - length out = ?m" using m(2) by simp
  then have "out' = out @ ?H (of_nat ?m) @ bs @ replicate (?k - length o2) 0"
    using w o1 o2 bs(1) n lenH(1) [of "of_nat ?m"]
    by (simp add: write_one_def write_header_def Let_def del: of_nat_add split: if_splits)
  moreover have "?k = length out + unat (adjust_word_boundary (of_nat ?m))"
    using adjust_add [OF al(1), of ?m] m(2) L(2) lenH(2) [of 0] by simp
  ultimately show ?thesis
    using k m(2) rd lenH(1) [of "of_nat ?m"] m(1)
    by (intro exI [of _ bs] exI [of _ "replicate (?k - length o2) 0"]) (simp add: Let_def)
qed

lemma write_one_reads:
  assumes "write_one vw e v cap out = Parsed out'" and ok: "entry_ok e" and "good e v"
    and "4 dvd length out" "4 dvd cap" "cap < 16777216"
  shows "\<exists>bs. out' = out @ bs \<and> 4 dvd length out' \<and> length out' \<le> cap \<and>
    (\<forall>mem p. window mem p bs \<longrightarrow>
       (\<exists>h. laid mem p [h] (p + length bs) \<and> reads mem e h v))"
proof -
  obtain bs pad where layout: "out' = out @ header_octets e
        (of_nat (length (header_octets e 0) + length bs)) @ bs @ pad"
    "length (header_octets e 0 @ bs @ pad) =
       unat (adjust_word_boundary (of_nat (length (header_octets e 0) + length bs)))"
    "length (header_octets e 0) + length bs < 16777216" "4 dvd length out'" "length out' \<le> cap"
    and rd: "\<forall>mem p. window mem p bs \<longrightarrow> vr mem e p (of_nat (length bs)) = Parsed (view e v)"
    using write_one_layout [OF assms] unfolding Let_def by blast
  let ?n = "of_nat (length (header_octets e 0) + length bs) :: u32"
  let ?H = "header_octets e ?n"
  have lenH: "length ?H = length (header_octets e 0)" by (simp add: length_header_octets)
  have n: "?n AND 0x00ffffff = ?n" using layout(3) by (rule mask24)
  have "unat ?n = length (header_octets e 0) + length bs"
    using layout(3) by (subst unat_of_nat) simp
  then have "?n \<noteq> 0" by (auto simp: length_header_octets split: if_splits)
  have "AVP_HEADER_LEN e = of_nat (length (header_octets e 0))"
    using ok by (simp add: entry_ok_def AVP_HEADER_LEN_def wildcard_def length_header_octets)
  then have d: "?n - AVP_HEADER_LEN e = of_nat (length bs)" by simp
  have "\<exists>h. laid mem p [h] (p + length (?H @ bs @ pad)) \<and> reads mem e h v"
    if w: "window mem p (?H @ bs @ pad)" for mem p
  proof -
    have "header_at mem p (written_header e ?n p)" using window_header [of mem p e ?n] w n by simp
    then have "laid mem p [written_header e ?n p] (p + length (?H @ bs @ pad))"
      using \<open>?n \<noteq> 0\<close> layout(2) lenH by (simp add: written_header_def)
    moreover have "window mem (p + length ?H) bs" using w by simp
    then have "vr mem e (p + unat (AVP_HEADER_LEN e)) (?n - AVP_HEADER_LEN e) = Parsed (view e v)"
      using rd by (simp only: d entry_ok_simps(4) [OF ok, of ?n])
    then have "reads mem e (written_header e ?n p) v"
      using ok by (simp add: reads_def written_header_def)
    ultimately show ?thesis by blast
  qed
  then show ?thesis using layout by (intro exI [of _ "?H @ bs @ pad"]) auto
qed

lemma write_entries_reads:
  assumes "write_entries vw e vs cap out = Parsed out'" and ok: "entry_ok e"
    and "\<forall>v \<in> set vs. good e v" and al: "4 dvd length out" "4 dvd cap" "cap < 16777216"
    and "length out \<le> cap"
  shows "\<exists>bs. out' = out @ bs \<and> 4 dvd length out' \<and> length out' \<le> cap \<and>
    (\<forall>mem p. window mem p bs \<longrightarrow>
       (\<exists>hs. laid mem p hs (p + length bs) \<and> list_all2 (reads mem e) hs vs))"
  using assms(1,3,4,7)
proof (induction vs arbitrary: out)
  case (Cons v vs)
  then obtain o1 where o1: "write_one vw e v cap out = Parsed o1"
    and rest: "write_entries vw e vs cap o1 = Parsed out'"
    using ok by (auto split: parsed.splits)
  from write_one_reads [OF o1 ok _ Cons.prems(3) al(2,3)] Cons.prems(2) obtain b1 where
    b1: "o1 = out @ b1" "4 dvd length o1" "length o1 \<le> cap"
    and r1: "\<forall>mem p. window mem p b1 \<longrightarrow>
      (\<exists>h. laid mem p [h] (p + length b1) \<and> reads mem e h v)" by auto
  from Cons.IH [OF rest _ b1(2,3)] Cons.prems(2) obtain b2 where
    b2: "out' = o1 @ b2" "4 dvd length out'" "length out' \<le> cap"
    and r2: "\<forall>mem p. window mem p b2 \<longrightarrow>
      (\<exists>hs. laid mem p hs (p + length b2) \<and> list_all2 (reads mem e) hs vs)" by auto
  have "\<exists>hs. laid mem p hs (p + length (b1 @ b2)) \<and> list_all2 (reads mem e) hs (v # vs)"
    if "window mem p (b1 @ b2)" for mem p
  proof -
    from that r1 obtain h where h: "laid mem p [h] (p + length b1)" "reads mem e h v" by auto
    from that r2 obtain hs where hs: "laid mem (p + length b1) hs (p + length b1 + length b2)"
      "list_all2 (reads mem e) hs vs" by auto
    have "laid mem p ([h] @ hs) (p + length (b1 @ b2))"
      unfolding laid_append using h(1) hs(1) by (auto simp: add.assoc)
    then show ?thesis using h(2) hs(2) by (intro exI [of _ "h # hs"]) simp
  qed
  then show ?case using b1(1) b2 by (intro exI [of _ "b1 @ b2"]) simp
qed simp

lemma read_avp_entries:
  assumes "list_all2 (reads mem e) hs vs" and ok: "entry_ok e"
    and stop: "read_header pt e rest = Thrown (PNormal AAA_MISSING_AVP)"
  shows "read_avp (vr mem) pt e i (hs @ rest) =
    (if i > 0 \<or> vs \<noteq> [] then Parsed (map (view e) vs) else Thrown (PNormal AAA_MISSING_AVP), rest)"
  using assms(1)
proof (induction hs vs arbitrary: i rule: list_all2_induct)
  case Nil
  then show ?case by (subst read_avp.simps) (simp add: stop)
next
  case (Cons h hs v vs)
  have "avpCode e \<noteq> 0" using ok by (simp add: entry_ok_def)
  then have "read_header pt e (h # hs @ rest) = Parsed (skip_header e h, hs @ rest)"
    using Cons.hyps(1) by (simp add: read_header_def reads_def header_matches_def)
  then show ?case
    using Cons.hyps(1) Cons.IH [of "Suc i"]
    by (subst read_avp.simps) (simp add: skip_header_def reads_def)
qed

lemma read_header_stops:
  assumes "\<forall>h \<in> set rest. \<exists>(pt', q') \<in> set qs. key_of (q_avp q') h"
    and "\<forall>(pt', q') \<in> set qs. apart pt e (q_avp q')" and "entry_ok e"
  shows "read_header pt e rest = Thrown (PNormal AAA_MISSING_AVP)"
proof (cases "rest = []")
  case False
  show ?thesis
  proof (cases "pt = FIXED_HEAD")
    case True
    from False assms(1) have "\<exists>(pt', q') \<in> set qs. key_of (q_avp q') (hd rest)" by simp
    then have "ah_code (hd rest) \<noteq> avpCode e"
      using assms(2) True by (fastforce simp: key_of_def apart_def)
    then show ?thesis using True False assms(3) by (simp add: read_header_def entry_ok_def)
  next
    case other: False
    have "\<not> header_matches e h" if "h \<in> set rest" for h
      using that assms other by (fastforce simp: key_of_def apart_def header_matches_def)
    then have "take_header e rest = None" by (induction rest) auto
    then show ?thesis using False other by (simp add: read_header_def)
  qed
qed (simp add: read_header_def)

lemma reads_key: "reads mem e h v \<Longrightarrow> key_of e h"
  by (simp add: reads_def key_of_def)

lemma list_all2_reads_key: "list_all2 (reads mem e) hs vs \<Longrightarrow> h \<in> set hs \<Longrightarrow> key_of e h"
  by (induction hs vs rule: list_all2_induct) (auto dest: reads_key)

text \<open>The layout of a written list and what reading it adds to a list.\<close>

definition list_back ::
    "(parse_type \<times> qualified_avp) list \<Rightarrow> acl \<Rightarrow> octets \<Rightarrow> bool" where
  "list_back qs lst bs \<longleftrightarrow>
     (\<forall>mem p. window mem p bs \<longrightarrow>
        (\<exists>hs. laid mem p hs (p + length bs) \<and>
           (\<forall>h \<in> set hs. \<exists>(pt, q) \<in> set qs. key_of (q_avp q) h) \<and>
           (\<forall>lst0. read_quals (vr mem) qs hs lst0 = Parsed (lst0 @ dict_view view qs lst))))"

lemma list_back_skip:
  assumes ok: "quals_ok ((pt, q) # qs)"
    and none: "pt = OPTIONAL \<or> q_min q = 0" 
    and view: "dict_view view ((pt, q) # qs) lst = dict_view view qs lst"
    and rest: "list_back qs lst bs"
  shows "list_back ((pt, q) # qs) lst bs"
  unfolding list_back_def
proof (intro allI impI)
  fix mem p assume "window mem p bs"
  with rest obtain hs where hs: "laid mem p hs (p + length bs)"
    "\<forall>h \<in> set hs. \<exists>(pt, q) \<in> set qs. key_of (q_avp q) h"
    "\<forall>lst0. read_quals (vr mem) qs hs lst0 = Parsed (lst0 @ dict_view view qs lst)"
    unfolding list_back_def by blast
  have "read_header pt (q_avp q) hs = Thrown (PNormal AAA_MISSING_AVP)"
    using hs(2) ok by (intro read_header_stops) auto
  then have "read_avp (vr mem) pt (q_avp q) 0 hs = (Thrown (PNormal AAA_MISSING_AVP), hs)"
    by (subst read_avp.simps) simp
  then show "\<exists>hs. laid mem p hs (p + length bs) \<and>
      (\<forall>h \<in> set hs. \<exists>(pt, q) \<in> set ((pt, q) # qs). key_of (q_avp q) h) \<and>
      (\<forall>lst0. read_quals (vr mem) ((pt, q) # qs) hs lst0 =
        Parsed (lst0 @ dict_view view ((pt, q) # qs) lst))"
    using hs none view by (intro exI [of _ hs]) auto
qed

lemma list_back_add:
  assumes ok: "quals_ok ((pt, q) # qs)" and c: "acl_search (avpName (q_avp q)) lst = Some c"
    and "c \<noteq> []" "unat (q_min q) \<le> length c" "length c \<le> unat (q_max q)"
    and r1: "\<forall>mem p. window mem p b1 \<longrightarrow>
      (\<exists>hs. laid mem p hs (p + length b1) \<and> list_all2 (reads mem (q_avp q)) hs c)"
    and rest: "list_back qs lst b2"
  shows "list_back ((pt, q) # qs) lst (b1 @ b2)"
  unfolding list_back_def
proof (intro allI impI)
  fix mem p assume w: "window mem p (b1 @ b2)"
  with r1 obtain h1 where h1: "laid mem p h1 (p + length b1)"
    "list_all2 (reads mem (q_avp q)) h1 c" by auto
  from w rest obtain h2 where h2: "laid mem (p + length b1) h2 (p + length b1 + length b2)"
    "\<forall>h \<in> set h2. \<exists>(pt, q) \<in> set qs. key_of (q_avp q) h"
    "\<forall>lst0. read_quals (vr mem) qs h2 lst0 = Parsed (lst0 @ dict_view view qs lst)"
    unfolding list_back_def window_append by blast
  have "read_header pt (q_avp q) h2 = Thrown (PNormal AAA_MISSING_AVP)"
    using h2(2) ok by (intro read_header_stops) auto
  with read_avp_entries [OF h1(2) _ this, of 0] ok \<open>c \<noteq> []\<close>
  have "read_avp (vr mem) pt (q_avp q) 0 (h1 @ h2) = (Parsed (map (view (q_avp q)) c), h2)"
    by simp
  then have "read_quals (vr mem) ((pt, q) # qs) (h1 @ h2) lst0 =
      Parsed (lst0 @ dict_view view ((pt, q) # qs) lst)" for lst0
    using assms(3-5) h2(3) c by (simp add: dict_view_def)
  moreover have "laid mem p (h1 @ h2) (p + length (b1 @ b2))"
    unfolding laid_append using h1(1) h2(1) by (auto simp: add.assoc)
  moreover have "\<forall>h \<in> set (h1 @ h2). \<exists>(pt, q) \<in> set ((pt, q) # qs). key_of (q_avp q) h"
    using list_all2_reads_key [OF h1(2)] h2(2) by auto
  ultimately show "\<exists>hs. laid mem p hs (p + length (b1 @ b2)) \<and>
      (\<forall>h \<in> set hs. \<exists>(pt, q) \<in> set ((pt, q) # qs). key_of (q_avp q) h) \<and>
      (\<forall>lst0. read_quals (vr mem) ((pt, q) # qs) hs lst0 =
        Parsed (lst0 @ dict_view view ((pt, q) # qs) lst))" by blast
qed

lemma write_quals_back:
  assumes "write_quals vw qs lst cap out = Parsed out'" and "quals_ok qs" and "good_list good qs lst"
    and al: "4 dvd length out" "4 dvd cap" "cap < 16777216" and "length out \<le> cap"
  shows "\<exists>bs. out' = out @ bs \<and> 4 dvd length out' \<and> length out' \<le> cap \<and> list_back qs lst bs"
  using assms(1-4,7)
proof (induction qs arbitrary: out)
  case Nil
  then show ?case by (auto simp: list_back_def dict_view_def)
next
  case (Cons a qs)
  obtain pt q where a: "a = (pt, q)" by (cases a)
  have ok: "quals_ok qs" "good_list good qs lst" "entry_ok (q_avp q)"
    using Cons.prems(2,3) a by (auto simp: good_list_def)
  note IH = Cons.IH [OF _ ok(1,2)]
  show ?case
  proof (cases "acl_search (avpName (q_avp q)) lst")
    case None
    then have w: "write_quals vw qs lst cap out = Parsed out'"
      and "\<not> (q_min q > 0 \<and> q_max q > 0 \<and> pt \<noteq> OPTIONAL)"
      using Cons.prems(1) a by (simp_all split: if_splits)
    then have "pt = OPTIONAL \<or> q_min q = 0"
      using Cons.prems(2) a by (auto simp: word_gt_0)
    moreover have "dict_view view ((pt, q) # qs) lst = dict_view view qs lst"
      using None by (simp add: dict_view_def)
    ultimately show ?thesis
      using IH [OF w Cons.prems(4,5)] list_back_skip [of pt q qs lst] Cons.prems(2) a by blast
  next
    case (Some c)
    then have b: "unat (q_min q) \<le> length c" "length c \<le> unat (q_max q)"
      using Cons.prems(1) a by (auto split: if_splits)
    show ?thesis
    proof (cases "c = []")
      case True
      then have w: "write_quals vw qs lst cap out = Parsed out'"
        using Cons.prems(1) a Some by (simp split: if_splits)
      have "q_min q = 0" using b(1) True by (simp add: unat_eq_zero)
      moreover have "dict_view view ((pt, q) # qs) lst = dict_view view qs lst"
        using Some True by (simp add: dict_view_def)
      ultimately show ?thesis
        using IH [OF w Cons.prems(4,5)] list_back_skip [of pt q qs lst] Cons.prems(2) a by blast
    next
      case False
      then obtain o1 where w: "write_entries vw (q_avp q) c cap out = Parsed o1"
        "write_quals vw qs lst cap o1 = Parsed out'"
        using Cons.prems(1) a Some by (auto split: if_splits parsed.splits)
      have "\<forall>v \<in> set c. good (q_avp q) v" using Cons.prems(3) a Some by (auto simp: good_list_def)
      from write_entries_reads [OF w(1) ok(3) this Cons.prems(4) al(2,3) Cons.prems(5)]
      obtain b1 where b1: "o1 = out @ b1" "4 dvd length o1" "length o1 \<le> cap"
        and r1: "\<forall>mem p. window mem p b1 \<longrightarrow>
          (\<exists>hs. laid mem p hs (p + length b1) \<and> list_all2 (reads mem (q_avp q)) hs c)" by blast
      from IH [OF w(2) b1(2,3)] obtain b2 where b2: "out' = o1 @ b2" "4 dvd length out'"
        "length out' \<le> cap" "list_back qs lst b2" by blast
      have "list_back (a # qs) lst (b1 @ b2)"
        using list_back_add [OF _ Some False b r1 b2(4)] Cons.prems(2) a by simp
      then show ?thesis using b1(1) b2 by (intro exI [of _ "b1 @ b2"]) simp
    qed
  qed
qed

end

section \<open>Grouped AVPs\<close>

text \<open>
  The dictionaries that the round trip is about: their entries are kept apart, and have
  neither the wildcard type nor one of the two types with a text grammar.
\<close>

definition dict_ok :: "dictionary \<Rightarrow> bool" where
  "dict_ok d \<longleftrightarrow>
     quals_ok (qualified_list d) \<and>
     list_all (\<lambda>(pt, q). plain_type (avpType (q_avp q))) (qualified_list d)"

definition groups_ok :: "grouped_avp list \<Rightarrow> bool" where
  "groups_ok gs \<longleftrightarrow> list_all (\<lambda>g. dict_ok (g_dict g)) gs"

fun value_view :: "nat \<Rightarrow> grouped_avp list \<Rightarrow> dict_entry \<Rightarrow> avp_value \<Rightarrow> avp_value" where
  "value_view 0 gs e v = v"
| "value_view (Suc k) gs e v =
     (if avpType e = GroupedT then
        (case (v, grouped_search (avpCode e) (entryVendorId e) gs) of
           (AGrouped lst, Some g) \<Rightarrow>
             AGrouped (dict_view (value_view k gs) (qualified_list (g_dict g)) lst)
         | _ \<Rightarrow> v)
      else v)"

definition value_ok :: "grouped_avp list \<Rightarrow> dict_entry \<Rightarrow> avp_value \<Rightarrow> bool" where
  "value_ok gs e v \<longleftrightarrow> plain_type (avpType e) \<and> groups_ok gs"

lemma grouped_search_in: "grouped_search c v gs = Some g \<Longrightarrow> g \<in> set gs"
  by (induction gs) (auto split: if_splits)

lemma dict_ok_good: "dict_ok d \<Longrightarrow> groups_ok gs \<Longrightarrow> good_list (value_ok gs) (qualified_list d) lst"
  by (auto simp: dict_ok_def good_list_def value_ok_def list_all_iff)

lemma leaf_back:
  assumes "write_leaf lib (avpType e) v cap out = Parsed out'" and "plain_type (avpType e)"
    and "cap < 16777216"
  shows "\<exists>bs. out' = out @ bs \<and> length out' \<le> cap \<and>
    (\<forall>mem p. window mem p bs \<longrightarrow> read_leaf lib e mem p (of_nat (length bs)) = Parsed v)"
  using leaf_roundtrip [OF assms(1,2)] assms(3) by fastforce

lemma list_back_read:
  assumes "avp_codec vw vr view good"
    and "avp_codec.list_back vr view (qualified_list d) lst bs"
    and "window mem p bs" and "length bs < 16777216"
  shows "read_list mem (vr mem) d p (p + length bs) lst0 =
    Parsed (lst0 @ dict_view view (qualified_list d) lst)"
proof -
  obtain hs where "laid mem p hs (p + length bs)"
    "\<forall>lst0. read_quals (vr mem) (qualified_list d) hs lst0 =
      Parsed (lst0 @ dict_view view (qualified_list d) lst)"
    using assms(2,3) unfolding avp_codec.list_back_def [OF assms(1)] by blast
  then show ?thesis using create_loop_laid [of mem p hs] assms(4) by (simp add: read_list_def)
qed

lemma value_codec:
  "avp_codec (write_value k lib gs) (read_value k lib gs) (value_view k gs) (value_ok gs)"
proof (induction k)
  case 0
  show ?case
    by unfold_locales (auto simp: value_ok_def dest: leaf_back split: if_splits)
next
  case (Suc k)
  show ?case
  proof unfold_locales
    fix e v cap out out'
    assume ok: "value_ok gs e v" and w: "write_value (Suc k) lib gs e v cap out = Parsed out'"
      and al: "4 dvd length out" "4 dvd cap" "cap < 16777216" "length out \<le> cap"
    show "\<exists>bs. out' = out @ bs \<and> length out' \<le> cap \<and>
      (\<forall>mem p. window mem p bs \<longrightarrow>
        read_value (Suc k) lib gs mem e p (of_nat (length bs)) = Parsed (value_view (Suc k) gs e v))"
    proof (cases "avpType e = GroupedT")
      case False
      with w ok leaf_back [of lib e v cap out out'] al(3) show ?thesis by (simp add: value_ok_def)
    next
      case True
      with w obtain lst g where v: "v = AGrouped lst"
        and g: "grouped_search (avpCode e) (entryVendorId e) gs = Some g"
        and wq: "write_quals (write_value k lib gs) (qualified_list (g_dict g)) lst cap out =
          Parsed out'"
        by (auto split: avp_value.splits option.splits)
      have "dict_ok (g_dict g)" using ok grouped_search_in [OF g]
        by (simp add: value_ok_def groups_ok_def list_all_iff)
      then have d: "quals_ok (qualified_list (g_dict g))"
        "good_list (value_ok gs) (qualified_list (g_dict g)) lst"
        using ok dict_ok_good by (auto simp: dict_ok_def value_ok_def)
      from avp_codec.write_quals_back [OF Suc.IH wq d al(1-4)] obtain bs where
        bs: "out' = out @ bs" "length out' \<le> cap"
        "avp_codec.list_back (read_value k lib gs) (value_view k gs)
           (qualified_list (g_dict g)) lst bs" by blast
      have len: "length bs < 16777216" using bs(1,2) al(3) by simp
      then have n: "unat (of_nat (length bs) :: u32) = length bs" by (subst unat_of_nat) simp
      show ?thesis
        using bs(1,2) list_back_read [OF Suc.IH bs(3) _ len] True v g n
        by (intro exI [of _ bs]) (simp add: value_ok_def)
    qed
  qed
qed

interpretation dia: avp_codec "write_value k lib gs" "read_value k lib gs" "value_view k gs"
    "value_ok gs" for k lib gs
  by (rule value_codec)

text \<open>The payload of a message: what is written is read back as the dictionary's view of it.\<close>

lemma payload_back:
  assumes w: "write_quals (write_value k lib gs) (qualified_list d) lst cap out = Parsed out'"
    and ok: "dict_ok d" "groups_ok gs"
    and al: "4 dvd length out" "4 dvd cap" "cap < 16777216" "length out \<le> cap"
  shows "\<exists>bs. out' = out @ bs \<and> length out' \<le> cap \<and>
    (\<forall>mem p lst0. window mem p bs \<longrightarrow>
      read_list mem (read_value k lib gs mem) d p (p + length bs) lst0 =
        Parsed (lst0 @ dict_view (value_view k gs) (qualified_list d) lst))"
proof -
  have "quals_ok (qualified_list d)" using ok(1) by (simp add: dict_ok_def)
  from dia.write_quals_back [OF w this dict_ok_good [OF ok] al] obtain bs where
    bs: "out' = out @ bs" "length out' \<le> cap"
      "dia.list_back k lib gs (qualified_list d) lst bs" by blast
  have "length bs < 16777216" using bs(1,2) al(3) by simp
  with bs list_back_read [OF value_codec bs(3)] show ?thesis by blast
qed

end
