(* ===== verification/Wire_Msg.thy ===== *)
theory Wire_Msg
  imports Wire_Codec
begin

text \<open>
  Whole messages: the message header parser of \<open>libdiamparser/src/aaa_parser.cxx\<close>, the
  command list of \<open>include/aaa_comlist.h\<close>, and \<open>DiameterMsgParserWidget\<close> of
  \<open>include/diameter_parser.h\<close> under the strict option.
\<close>

section \<open>Commands\<close>

record command =
  com_code :: u32
  com_appId :: u32
  com_r :: bool
  com_p :: bool
  com_dict :: dictionary

fun command_search :: "u32 \<Rightarrow> u32 \<Rightarrow> bool \<Rightarrow> command list \<Rightarrow> command option" where
  "command_search c a r [] = None"
| "command_search c a r (k # ks) =
     (if com_code k = c \<and> com_appId k = a \<and> com_r k = r then Some k
      else command_search c a r ks)"

datatype parse_option = PARSE_LOOSE | PARSE_STRICT

section \<open>The message header\<close>

text \<open>\<open>DiameterMsgHeaderParser::parseRawToApp\<close>, with the dictionary handle it sets.\<close>

definition raw_header :: "octets \<Rightarrow> msg_header" where
  "raw_header mem =
     \<lparr>ver = mem ! 0, len = ucast (rd32 mem AND 0x00ffffff),
      flags = \<lparr>flag_r = bit (mem ! 4) 7, flag_p = bit (mem ! 4) 6, flag_e = bit (mem ! 4) 5,
               flag_t = bit (mem ! 4) 4\<rparr>,
      code = ucast (rd32 (drop 4 mem) AND 0x00ffffff), appId = rd32 (drop 8 mem),
      hh = rd32 (drop 12 mem), ee = rd32 (drop 16 mem)\<rparr>"

definition parse_header ::
    "command list \<Rightarrow> parse_option \<Rightarrow> octets \<Rightarrow> (msg_header \<times> command option) parsed" where
  "parse_header cmds opt mem =
     (if length mem < 20 then Overrun
      else
        (let h = raw_header mem in
         if opt = PARSE_LOOSE then Parsed (h, None)
         else
           (case command_search (ucast (code h)) (appId h) (flag_r (flags h)) cmds of
              None \<Rightarrow> Thrown (PNormal AAA_COMMAND_UNSUPPORTED)
            | Some com \<Rightarrow>
                if \<not> com_p com \<and> flag_p (flags h)
                then Thrown (PNormal AAA_INVALID_BIT_IN_HEADER)
                else Parsed (h, Some com))))"

text \<open>
  \<open>DiameterMsgHeaderParser::parseAppToRaw\<close>: words in network order whose first octet is
  then overwritten with the version and the flags.
\<close>

definition flags_octet :: "hdr_flag \<Rightarrow> u8" where
  "flags_octet f =
     push_bit 7 (of_bool (flag_r f)) OR push_bit 6 (of_bool (flag_p f))
      OR push_bit 5 (of_bool (flag_e f)) OR push_bit 4 (of_bool (flag_t f))"

definition msg_header_octets :: "msg_header \<Rightarrow> octets" where
  "msg_header_octets h =
     (be32 (ucast (len h)))[0 := ver h] @ (be32 (ucast (code h)))[0 := flags_octet (flags h)]
      @ be32 (appId h) @ be32 (hh h) @ be32 (ee h)"

definition print_header ::
    "command list \<Rightarrow> parse_option \<Rightarrow> msg_header \<Rightarrow> nat \<Rightarrow> (octets \<times> command option) parsed" where
  "print_header cmds opt h cap =
     (let com = (if opt = PARSE_LOOSE then None
                 else command_search (ucast (code h)) (appId h) (flag_r (flags h)) cmds)
      in if opt \<noteq> PARSE_LOOSE \<and> com = None then Thrown (PNormal AAA_COMMAND_UNSUPPORTED)
         else if opt \<noteq> PARSE_LOOSE \<and> com_r (the com) \<and> flag_e (flags h)
         then Thrown (PNormal AAA_INVALID_HDR_BITS)
         else if cap < 20 then Overrun
         else Parsed (msg_header_octets h, com))"

section \<open>Messages\<close>

text \<open>
  \<open>DiameterMsgParserWidget::ParseRawToApp\<close>: the block is cut to the length in the header; a
  length beyond what the buffer holds is an \<open>Overrun\<close>.  The first argument bounds the nesting
  of grouped AVPs.
\<close>

definition parse_message ::
    "nat \<Rightarrow> text_lib \<Rightarrow> grouped_avp list \<Rightarrow> command list \<Rightarrow> octets \<Rightarrow> diameter_msg parsed" where
  "parse_message k lib gs cmds mem =
     (case parse_header cmds PARSE_STRICT mem of
        Parsed (h, Some com) \<Rightarrow>
          (if unat (len h) > length mem then Overrun
           else
             (case read_list mem (read_value k lib gs mem) (com_dict com) 20 (unat (len h)) [] of
                Parsed lst \<Rightarrow> Parsed \<lparr>hdr = h, acl = lst\<rparr>
              | Thrown err \<Rightarrow> Thrown err
              | Overrun \<Rightarrow> Overrun))
      | Thrown err \<Rightarrow> Thrown err
      | _ \<Rightarrow> Overrun)"

text \<open>
  \<open>DiameterMsgParserWidget::ParseAppToRaw\<close>: the header is written a second time once the
  length is known.
\<close>

definition print_message ::
    "nat \<Rightarrow> text_lib \<Rightarrow> grouped_avp list \<Rightarrow> command list \<Rightarrow> nat \<Rightarrow> diameter_msg
      \<Rightarrow> (octets \<times> diameter_msg) parsed" where
  "print_message k lib gs cmds cap m =
     (case print_header cmds PARSE_STRICT (hdr m) cap of
        Parsed (out, Some com) \<Rightarrow>
          (case write_quals (write_value k lib gs) (qualified_list (com_dict com)) (acl m) cap out of
             Parsed o2 \<Rightarrow>
               (let h = (hdr m)\<lparr>len := of_nat (length o2)\<rparr> in
                case print_header cmds PARSE_STRICT h cap of
                  Parsed (hd2, _) \<Rightarrow> Parsed (hd2 @ drop 20 o2, m\<lparr>hdr := h\<rparr>)
                | Thrown err \<Rightarrow> Thrown err
                | Overrun \<Rightarrow> Overrun)
           | Thrown err \<Rightarrow> Thrown err
           | Overrun \<Rightarrow> Overrun)
      | Thrown err \<Rightarrow> Thrown err
      | _ \<Rightarrow> Overrun)"

section \<open>Header round trip\<close>

lemma length_msg_header_octets [simp]: "length (msg_header_octets h) = 20"
  by (simp add: msg_header_octets_def)

lemma flags_octet_bits:
  "bit (flags_octet f) 7 = flag_r f" "bit (flags_octet f) 6 = flag_p f"
  "bit (flags_octet f) 5 = flag_e f" "bit (flags_octet f) 4 = flag_t f"
  by (auto simp: flags_octet_def bit_simps)

lemma word24_octets:
  "ucast (rd32 ((be32 (ucast (w :: 24 word)))[0 := b] @ xs) AND 0x00ffffff) = w"
proof -
  have m: "v AND 0x00ffffff = take_bit 24 v" for v :: u32
    by (simp add: take_bit_eq_mask mask_eq_exp_minus_1)
  show ?thesis
    unfolding m
    by (rule bit_word_eqI) (auto simp: rd32_def be32_def bit_simps dest: bit_imp_le_length)
qed

lemma raw_header_octets: "raw_header (msg_header_octets h @ xs) = h"
proof -
  let ?m = "msg_header_octets h @ xs"
  have d: "drop 4 ?m = (be32 (ucast (code h)))[0 := flags_octet (flags h)]
        @ be32 (appId h) @ be32 (hh h) @ be32 (ee h) @ xs"
    "drop 8 ?m = be32 (appId h) @ be32 (hh h) @ be32 (ee h) @ xs"
    "drop 12 ?m = be32 (hh h) @ be32 (ee h) @ xs" "drop 16 ?m = be32 (ee h) @ xs"
    by (simp_all add: msg_header_octets_def)
  have n: "?m ! 0 = ver h" "?m ! 4 = flags_octet (flags h)"
    by (simp_all add: msg_header_octets_def nth_append be32_def)
  have l: "ucast (rd32 ?m AND 0x00ffffff) = len h"
    unfolding msg_header_octets_def append_assoc by (rule word24_octets)
  show ?thesis
    unfolding raw_header_def d n l word24_octets flags_octet_bits
    by (simp add: wire_simps)
qed

lemma print_header_Parsed:
  assumes "print_header cmds opt h cap = Parsed (bs, com)"
  shows "bs = msg_header_octets h \<and> 20 \<le> cap \<and>
    (if opt = PARSE_LOOSE then com = None
     else com \<noteq> None \<and>
       com = command_search (ucast (code h)) (appId h) (flag_r (flags h)) cmds)"
proof (cases "command_search (ucast (code h)) (appId h) (flag_r (flags h)) cmds")
  case (Some c)
  with assms show ?thesis
    by (simp add: print_header_def Let_def split: if_splits) metis
qed (use assms in \<open>simp add: print_header_def Let_def split: if_splits\<close>)

lemma header_roundtrip_aux:
  assumes "print_header cmds opt h cap = Parsed (bs, com)"
  shows "parse_header cmds opt (bs @ rest) =
    (case com of
       Some c \<Rightarrow>
         if \<not> com_p c \<and> flag_p (flags h) then Thrown (PNormal AAA_INVALID_BIT_IN_HEADER)
         else Parsed (h, com)
     | None \<Rightarrow> Parsed (h, com))"
  using print_header_Parsed [OF assms]
  by (cases "opt = PARSE_LOOSE") (auto simp: parse_header_def raw_header_octets Let_def
      split: option.splits)

text \<open>A header that is written is read back unchanged from the front of any buffer, with the
  same command of the dictionary, except for a proxiable flag on a command that is not
  proxiable: the writer only logs it and the reader refuses it.\<close>

theorem header_roundtrip:
  assumes "print_header cmds opt h cap = Parsed (bs, com)"
  shows "parse_header cmds opt (bs @ rest) =
    (case com of
       Some c \<Rightarrow>
         if \<not> com_p c \<and> flag_p (flags h) then Thrown (PNormal AAA_INVALID_BIT_IN_HEADER)
         else Parsed (h, com)
     | None \<Rightarrow> Parsed (h, com))"
  using assms by (rule header_roundtrip_aux)

text \<open>a request with the error flag is accepted by the reader but refused by the writer, so
  that a relay cannot pass on what it has accepted.\<close>

theorem error_request_not_relayed:
  assumes "parse_header cmds PARSE_STRICT mem = Parsed (h, Some com)"
    and "com_r com" and "flag_e (flags h)"
  shows "print_header cmds PARSE_STRICT h cap = Thrown (PNormal AAA_INVALID_HDR_BITS)"
  using assms
  by (auto simp: parse_header_def print_header_def Let_def split: if_splits option.splits)

section \<open>Message round trip\<close>

lemma print_message_parts:
  assumes "print_message k lib gs cmds cap m = Parsed (bs, m')"
  obtains com o2 where
    "print_header cmds PARSE_STRICT (hdr m) cap = Parsed (msg_header_octets (hdr m), Some com)"
    "write_quals (write_value k lib gs) (qualified_list (com_dict com)) (acl m) cap
       (msg_header_octets (hdr m)) = Parsed o2"
    "print_header cmds PARSE_STRICT (hdr m\<lparr>len := of_nat (length o2)\<rparr>) cap =
       Parsed (msg_header_octets (hdr m\<lparr>len := of_nat (length o2)\<rparr>), Some com)"
    "bs = msg_header_octets (hdr m\<lparr>len := of_nat (length o2)\<rparr>) @ drop 20 o2"
    "m' = m\<lparr>hdr := hdr m\<lparr>len := of_nat (length o2)\<rparr>\<rparr>"
    "command_search (ucast (code (hdr m))) (appId (hdr m)) (flag_r (flags (hdr m))) cmds =
       Some com"
    "20 \<le> cap"
proof -
  from assms obtain out com o2 hd2 com2 where
    1: "print_header cmds PARSE_STRICT (hdr m) cap = Parsed (out, Some com)"
    and 2: "write_quals (write_value k lib gs) (qualified_list (com_dict com)) (acl m) cap out =
      Parsed o2"
    and 3: "print_header cmds PARSE_STRICT (hdr m\<lparr>len := of_nat (length o2)\<rparr>) cap =
      Parsed (hd2, com2)"
    and 4: "bs = hd2 @ drop 20 o2" "m' = m\<lparr>hdr := hdr m\<lparr>len := of_nat (length o2)\<rparr>\<rparr>"
    by (simp add: print_message_def Let_def split: parsed.splits option.splits prod.splits)
  from print_header_Parsed [OF 1] print_header_Parsed [OF 3]
  have "out = msg_header_octets (hdr m)" "com2 = Some com"
    "hd2 = msg_header_octets (hdr m\<lparr>len := of_nat (length o2)\<rparr>)" "20 \<le> cap"
    "command_search (ucast (code (hdr m))) (appId (hdr m)) (flag_r (flags (hdr m))) cmds = Some com"
    by simp_all
  with that 1 2 3 4 show ?thesis by blast
qed

lemma message_roundtrip_aux:
  assumes p: "print_message k lib gs cmds cap m = Parsed (bs, m')"
    and c: "command_search (ucast (code (hdr m))) (appId (hdr m)) (flag_r (flags (hdr m))) cmds =
      Some com"
    and proxiable: "flag_p (flags (hdr m)) \<longrightarrow> com_p com"
    and ok: "dict_ok (com_dict com)" "groups_ok gs"
    and cap: "4 dvd cap" "cap < 16777216"
  shows "parse_message k lib gs cmds (bs @ rest) =
    Parsed \<lparr>hdr = hdr m', acl = dict_view (value_view k gs) (qualified_list (com_dict com)) (acl m)\<rparr>
      \<and> hdr m' = hdr m\<lparr>len := of_nat (length bs)\<rparr> \<and> length bs \<le> cap"
proof -
  from print_message_parts [OF p] c obtain o2 where
    w: "write_quals (write_value k lib gs) (qualified_list (com_dict com)) (acl m) cap
       (msg_header_octets (hdr m)) = Parsed o2"
    and h2: "print_header cmds PARSE_STRICT (hdr m\<lparr>len := of_nat (length o2)\<rparr>) cap =
       Parsed (msg_header_octets (hdr m\<lparr>len := of_nat (length o2)\<rparr>), Some com)"
    and bs: "bs = msg_header_octets (hdr m\<lparr>len := of_nat (length o2)\<rparr>) @ drop 20 o2"
    and m': "m' = m\<lparr>hdr := hdr m\<lparr>len := of_nat (length o2)\<rparr>\<rparr>" and "20 \<le> cap"
    by (metis option.inject)
  let ?h = "hdr m\<lparr>len := of_nat (length o2)\<rparr>"
  from payload_back [OF w ok _ cap] \<open>20 \<le> cap\<close> obtain pb where
    pb: "o2 = msg_header_octets (hdr m) @ pb" "length o2 \<le> cap"
    and rd: "\<forall>mem p lst0. window mem p pb \<longrightarrow>
      read_list mem (read_value k lib gs mem) (com_dict com) p (p + length pb) lst0 =
        Parsed (lst0 @ dict_view (value_view k gs) (qualified_list (com_dict com)) (acl m))"
    by auto
  have bs': "bs = msg_header_octets ?h @ pb" using bs pb(1) by simp
  then have len: "length bs = length o2" using pb(1) by simp
  have "unat (of_nat (length o2) :: 24 word) = length o2"
    using pb(2) cap(2) by (subst unat_of_nat) simp
  then have n: "unat (of_nat (length o2) :: 24 word) = 20 + length pb" using pb(1) by simp
  let ?b = "bs @ rest"
  have "parse_header cmds PARSE_STRICT ?b = Parsed (?h, Some com)"
    using header_roundtrip_aux [OF h2, of "pb @ rest"] proxiable bs' by auto
  moreover have "window ?b 20 pb"
    using window_self [of "msg_header_octets ?h" pb rest] bs' by simp
  then have "read_list ?b (read_value k lib gs ?b) (com_dict com) 20 (20 + length pb) [] =
      Parsed (dict_view (value_view k gs) (qualified_list (com_dict com)) (acl m))"
    using rd by fastforce
  moreover have "unat (len ?h) = 20 + length pb" "length ?b \<ge> 20 + length pb"
    using n len pb(1) by simp_all
  ultimately have "parse_message k lib gs cmds ?b =
      Parsed \<lparr>hdr = ?h, acl = dict_view (value_view k gs) (qualified_list (com_dict com)) (acl m)\<rparr>"
    by (simp only: parse_message_def) simp
  then show ?thesis using m' len pb(2) by simp
qed


end
