(* ===== verification/Wire_Props.thy ===== *)
theory Wire_Props
  imports Wire_Msg
begin

text \<open>
  Bounds and error behaviour of the message parser: the nesting bound of the model is
  never reached, and what happens to AVPs that are too short or to groups that lack a
  member.
\<close>

section \<open>The nesting bound\<close>

lemma create_loop_bounds:
  "create_loop mem p q = Parsed hs \<Longrightarrow> h \<in> set hs \<Longrightarrow> p \<le> value_p h \<and> value_p h + 8 \<le> length mem"
proof (induction mem p q arbitrary: hs rule: create_loop.induct)
  case (1 mem p q)
  show ?case
  proof (cases "p < q")
    case False
    with 1 show ?thesis by (simp add: create_loop.simps)
  next
    case True
    with 1(2) obtain c w where cw: "load32 mem p = Some c" "load32 mem (p + 4) = Some w"
      by (subst (asm) create_loop.simps) (auto split: option.splits)
    then have len: "p + 8 \<le> length mem" by (simp add: load32_def split: if_splits)
    let ?n = "w AND 0x00ffffff"
    from 1(2) True cw obtain vd h0 hs' where
      ok: "\<not> (?n = 0 \<or> ?n > of_nat (q - p))" "vendor_at mem p = Some vd"
      and rec: "create_loop mem (p + unat (adjust_word_boundary ?n)) q = Parsed hs'"
      and hs: "hs = h0 # hs'" "value_p h0 = p"
      by (subst (asm) create_loop.simps)
        (auto simp: Let_def split: if_splits option.splits parsed.splits)
    from 1(3) hs(1) show ?thesis
    proof (cases "h = h0")
      case False
      then have "h \<in> set hs'" using 1(3) hs(1) by simp
      with 1(1) [OF True _ _ _ refl refl] cw ok rec show ?thesis by fastforce
    qed (use hs len in simp)
  qed
qed

lemma take_header_in:
  "take_header e ahl = Some (h, r) \<Longrightarrow> h \<in> set ahl \<and> set r \<subseteq> set ahl"
  by (induction ahl arbitrary: h r) (auto split: if_splits)

lemma read_header_in:
  assumes "read_header pt e ahl = Parsed (h, r)"
  shows "\<exists>h0 \<in> set ahl. h = skip_header e h0" and "set r \<subseteq> set ahl"
  using assms
  by (cases ahl; auto simp: read_header_def dest: take_header_in split: if_splits option.splits)+

lemma read_avp_cong:
  assumes "\<forall>h \<in> set ahl. \<forall>n. vr e (value_p (skip_header e h)) n = vr' e (value_p (skip_header e h)) n"
  shows "read_avp vr pt e i ahl = read_avp vr' pt e i ahl \<and> set (snd (read_avp vr pt e i ahl)) \<subseteq> set ahl"
  using assms
proof (induction "length ahl" arbitrary: ahl i rule: less_induct)
  case less
  show ?case
  proof (cases "read_header pt e ahl")
    case (Parsed hr)
    obtain h r where hr: "hr = (h, r)" by (cases hr)
    note rd = Parsed [unfolded hr]
    from read_header_in(1) [OF rd] less.prems
    have same: "vr e (value_p h) n = vr' e (value_p h) n" for n by auto
    have sub: "set r \<subseteq> set ahl" using read_header_in(2) [OF rd] .
    then have "read_avp vr pt e (i + 1) r = read_avp vr' pt e (i + 1) r \<and>
        set (snd (read_avp vr pt e (i + 1) r)) \<subseteq> set r"
      using less.hyps [OF read_header_length [OF rd]] less.prems by blast
    then show ?thesis
      using rd same sub
      by (subst (1 2 3) read_avp.simps)
        (auto split: parsed.splits prod.splits)
  qed (simp_all add: read_avp.simps)
qed

lemma read_quals_cong:
  assumes "\<forall>(pt, q) \<in> set qs. \<forall>h \<in> set ahl. \<forall>n.
      vr (q_avp q) (value_p (skip_header (q_avp q) h)) n =
      vr' (q_avp q) (value_p (skip_header (q_avp q) h)) n"
  shows "read_quals vr qs ahl lst = read_quals vr' qs ahl lst"
  using assms
proof (induction qs arbitrary: ahl lst)
  case (Cons a qs)
  obtain pt q where a: "a = (pt, q)" by (cases a)
  have "read_avp vr pt (q_avp q) 0 ahl = read_avp vr' pt (q_avp q) 0 ahl \<and>
      set (snd (read_avp vr pt (q_avp q) 0 ahl)) \<subseteq> set ahl"
    using Cons.prems a by (intro read_avp_cong) auto
  moreover obtain res rest where "read_avp vr pt (q_avp q) 0 ahl = (res, rest)"
    by (cases "read_avp vr pt (q_avp q) 0 ahl")
  ultimately have 1: "read_avp vr pt (q_avp q) 0 ahl = (res, rest)"
    "read_avp vr' pt (q_avp q) 0 ahl = (res, rest)" "set rest \<subseteq> set ahl" by simp_all
  have "read_quals vr qs rest lst' = read_quals vr' qs rest lst'" for lst'
  proof (rule Cons.IH, clarify)
    fix pt' q' h n assume "(pt', q') \<in> set qs" "h \<in> set rest"
    moreover from this have "(pt', q') \<in> set (a # qs)" "h \<in> set ahl" using 1(3) by auto
    ultimately show "vr (q_avp q') (value_p (skip_header (q_avp q') h)) n =
        vr' (q_avp q') (value_p (skip_header (q_avp q') h)) n"
      using Cons.prems by blast
  qed
  with 1 show ?case by (cases res) (auto simp: a)
qed simp

text \<open>Only the wildcard entry has no header, and it is not a group.\<close>

definition no_grouped_wildcard :: "dictionary \<Rightarrow> bool" where
  "no_grouped_wildcard d \<longleftrightarrow>
     list_all (\<lambda>(pt, q). avpType (q_avp q) = GroupedT \<longrightarrow> \<not> wildcard (q_avp q)) (qualified_list d)"

lemma read_list_cong:
  assumes "no_grouped_wildcard d"
    and "\<And>e p' n. p + 8 \<le> p' \<Longrightarrow> p + 8 \<le> length mem \<Longrightarrow> avpType e = GroupedT \<Longrightarrow> vr e p' n = vr' e p' n"
    and "\<And>e p' n. avpType e \<noteq> GroupedT \<Longrightarrow> vr e p' n = vr' e p' n"
  shows "read_list mem vr d p q lst = read_list mem vr' d p q lst"
proof (cases "create_loop mem p q")
  case (Parsed ahl)
  have "vr (q_avp qa) (value_p (skip_header (q_avp qa) h)) n =
      vr' (q_avp qa) (value_p (skip_header (q_avp qa) h)) n"
    if "(pt, qa) \<in> set (qualified_list d)" "h \<in> set ahl" for pt qa h n
  proof (cases "avpType (q_avp qa) = GroupedT")
    case True
    then have "\<not> wildcard (q_avp qa)"
      using assms(1) that(1) by (auto simp: no_grouped_wildcard_def list_all_iff)
    then have "p + 8 \<le> value_p (skip_header (q_avp qa) h)" "p + 8 \<le> length mem"
      using create_loop_bounds [OF Parsed that(2)] by (auto simp: skip_header_def AVP_HEADER_LEN_def)
    then show ?thesis using assms(2) True by blast
  qed (rule assms(3))
  then show ?thesis using Parsed by (auto simp: read_list_def intro!: read_quals_cong)
qed (simp_all add: read_list_def)

lemma read_value_leaf: "avpType e \<noteq> GroupedT \<Longrightarrow> read_value k lib gs mem e p n = read_leaf lib e mem p n"
  by (cases k) simp_all

lemma read_value_bound:
  assumes gs: "\<forall>g \<in> set gs. no_grouped_wildcard (g_dict g)"
  shows "0 < k \<Longrightarrow> length mem < p + k \<Longrightarrow> 0 < k' \<Longrightarrow> length mem < p + k' \<Longrightarrow>
    read_value k lib gs mem e p n = read_value k' lib gs mem e p n"
proof (induction k arbitrary: k' e p n)
  case (Suc j)
  obtain j' where k': "k' = Suc j'" using Suc.prems(3) by (cases k') auto
  have "read_list mem (read_value j lib gs mem) d p q lst =
      read_list mem (read_value j' lib gs mem) d p q lst" if "no_grouped_wildcard d" for d q lst
    using that
  proof (rule read_list_cong)
    fix e' p' n' assume "p + 8 \<le> p'" "p + 8 \<le> length mem"
    then show "read_value j lib gs mem e' p' n' = read_value j' lib gs mem e' p' n'"
      using Suc.prems k' by (intro Suc.IH) auto
  qed (simp add: read_value_leaf)
  moreover have "no_grouped_wildcard (g_dict g)"
    if "grouped_search (avpCode e) (entryVendorId e) gs = Some g" for g
    using gs grouped_search_in [OF that] by blast
  ultimately show ?case unfolding k' by (auto split: option.splits)
qed simp

text \<open>The nesting bound of the model stands for nothing: every level of grouped AVPs starts at
  least a header further into the buffer, so that parsing a message with any bound above
  the size of its buffer has the same result.\<close>

theorem nesting_bounded:
  assumes "\<forall>g \<in> set gs. no_grouped_wildcard (g_dict g)"
    and "\<forall>c \<in> set cmds. no_grouped_wildcard (com_dict c)"
    and "length mem < k" and "length mem < k'"
  shows "parse_message k lib gs cmds mem = parse_message k' lib gs cmds mem"
proof -
  have in_cmds: "command_search c a r cmds = Some com \<Longrightarrow> com \<in> set cmds" for c a r com
    by (induction cmds) (auto split: if_splits)
  have "com \<in> set cmds" if "parse_header cmds PARSE_STRICT mem = Parsed (h, Some com)" for h com
    using that in_cmds by (auto simp: parse_header_def Let_def split: if_splits option.splits)
  moreover have "read_list mem (read_value k lib gs mem) d p q lst =
      read_list mem (read_value k' lib gs mem) d p q lst" if "no_grouped_wildcard d" for d p q lst
    using that
  proof (rule read_list_cong)
    fix e' p' n' assume "p + 8 \<le> p'"
    show "read_value k lib gs mem e' p' n' = read_value k' lib gs mem e' p' n'"
      using assms(3,4) by (intro read_value_bound [OF assms(1)]) auto
  qed (simp add: read_value_leaf)
  ultimately show ?thesis
    using assms(2) by (auto simp: parse_message_def split: parsed.splits option.splits prod.splits)
qed

section \<open>Malformed AVPs\<close>

text \<open>An AVP whose length field is smaller than its own header is accepted by the header
  scan; the size of its value then wraps around to almost four gigabytes, and the parser of
  an octet string reads that much beyond the buffer.\<close>

theorem short_length_overruns:
  assumes w: "window mem p (be32 c @ be32 n)" and n: "n \<in> {5, 6, 7}"
    and mem: "length mem < 2 ^ 31"
    and e: "avpCode (q_avp q) = c" "c \<noteq> 0" "\<not> flag_vendor (q_avp q)" "entryVendorId (q_avp q) = 0"
      "avpType (q_avp q) = OctetStringT"
  shows "read_list mem (read_value k lib gs mem) \<lparr>avp_f = [], avp_r = q # qs, avp_o = os\<rparr>
    p (p + 8) lst = Overrun"
proof -
  have n24: "n AND 0x00ffffff = n" using n by auto
  have "window mem (p + 4) (be32 n)" using w by simp
  then have "mem ! (p + 4 + 0) = be32 n ! 0" by (rule window_nth) simp
  moreover have "be32 n ! 0 = 0" using n by (auto simp: be32_def)
  ultimately have top: "mem ! (p + 4) = 0" by simp
  let ?h = "\<lparr>ah_code = c, ah_v = False, ah_m = False, ah_p = False, ah_length = n,
      ah_vendor = 0, value_p = p\<rparr>"
  have "header_at mem p ?h"
    using w top n24 by (auto simp: header_at_def vendor_at_def wire_simps)
  moreover have "n \<noteq> 0" "unat (adjust_word_boundary n) = 8"
    using n by (auto simp: adjust_word_boundary_def)
  ultimately have "laid mem p [?h] (p + 8)" by simp
  then have 1: "create_loop mem p (p + 8) = Parsed [?h]" by (rule create_loop_laid) simp
  have hl: "AVP_HEADER_LEN (q_avp q) = 8" using e by (simp add: AVP_HEADER_LEN_def wildcard_def)
  have "unat (n - 8) \<ge> 2 ^ 31"
    using n by (auto simp: unsigned_minus_1_eq_mask mask_eq_exp_minus_1)
  then have "load_str mem (value_p (skip_header (q_avp q) ?h)) (unat (n - 8)) = None"
    using mem by (simp add: load_str_def)
  then have "read_value k lib gs mem (q_avp q) (value_p (skip_header (q_avp q) ?h)) (n - 8) = Overrun"
    using e by (simp add: read_value_leaf read_leaf_def read_octets_def or_overrun_def)
  moreover have "read_header REQUIRED (q_avp q) [?h] = Parsed (skip_header (q_avp q) ?h, [])"
    using e by (simp add: read_header_def header_matches_def)
  ultimately have "read_avp (read_value k lib gs mem) REQUIRED (q_avp q) 0 [?h] = (Overrun, [])"
    using hl by (subst read_avp.simps) (simp add: skip_header_def)
  with 1 show ?thesis by (simp add: read_list_def qualified_list_def)
qed

text \<open>A group that is present but lacks a required member is dropped without an error when
  the group itself is optional: the missing member is mistaken for the missing group.\<close>

theorem optional_group_dropped:
  assumes "avpType (q_avp q) = GroupedT"
    and "grouped_search (avpCode (q_avp q)) (entryVendorId (q_avp q)) gs = Some g"
    and "read_header OPTIONAL (q_avp q) ahl = Parsed (h, rest)"
    and "read_list mem (read_value k lib gs mem) (g_dict g) (value_p h)
      (value_p h + unat (ah_length h - AVP_HEADER_LEN (q_avp q))) [] =
      Thrown (PNormal AAA_MISSING_AVP)"
  shows "read_quals (read_value (Suc k) lib gs mem) ((OPTIONAL, q) # qs) ahl lst =
    read_quals (read_value (Suc k) lib gs mem) qs rest lst"
  using assms by (simp add: read_avp.simps)

section \<open>Evaluated examples\<close>

definition sample_lib :: text_lib where
  "sample_lib = \<lparr>text_of = \<lambda>_ _. None, of_text = \<lambda>_ _. None\<rparr>"

definition sample_entry :: "string \<Rightarrow> u32 \<Rightarrow> avp_type \<Rightarrow> dict_entry" where
  "sample_entry name c t =
     \<lparr>avpName = name, avpCode = c, avpType = t, entryVendorId = 0, flag_vendor = False,
      flag_mandatory = True, flag_encrypt = False\<rparr>"

definition sample_group :: grouped_avp where
  "sample_group =
     \<lparr>g_code = 260, g_vendorId = 0,
      g_dict = \<lparr>avp_f = [],
        avp_r = [\<lparr>q_avp = sample_entry ''VendorId'' 266 Unsigned32T, q_min = 1, q_max = 1\<rparr>],
        avp_o = []\<rparr>\<rparr>"

definition sample_command :: command where
  "sample_command =
     \<lparr>com_code = 280, com_appId = 0, com_r = True, com_p = False,
      com_dict =
        \<lparr>avp_f = [\<lparr>q_avp = sample_entry ''SessionId'' 263 UTF8StringT, q_min = 1, q_max = 1\<rparr>],
         avp_r = [],
         avp_o = [\<lparr>q_avp = sample_entry ''VendorSpecificApplicationId'' 260 GroupedT,
                   q_min = 0, q_max = 10\<rparr>]\<rparr>\<rparr>"

definition sample_header :: msg_header where
  "sample_header =
     \<lparr>ver = 1, len = 0, flags = \<lparr>flag_r = True, flag_p = False, flag_e = False, flag_t = False\<rparr>,
      code = 280, appId = 0, hh = 7, ee = 9\<rparr>"

definition sample_msg :: diameter_msg where
  "sample_msg =
     \<lparr>hdr = sample_header,
      acl = [(''VendorSpecificApplicationId'', [AGrouped [(''VendorId'', [AU32 10415])]]),
             (''SessionId'', [AStr ''abc''])]\<rparr>"

definition sample_octets :: octets where
  "sample_octets =
     [1, 0, 0, 52, 128, 0, 1, 24, 0, 0, 0, 0, 0, 0, 0, 7, 0, 0, 0, 9,
      0, 0, 1, 7, 64, 0, 0, 11, 97, 98, 99, 0,
      0, 0, 1, 4, 64, 0, 0, 20, 0, 0, 1, 10, 64, 0, 0, 12, 0, 0, 40, 175]"

lemmas sample_defs = sample_lib_def sample_entry_def sample_group_def sample_command_def
  sample_header_def sample_msg_def sample_octets_def

lemma sample_dictionary:
  "dict_ok (com_dict sample_command)" "groups_ok [sample_group]"
  by (simp_all add: dict_ok_def groups_ok_def qualified_list_def sample_defs entry_ok_def
      apart_def plain_type_def)

lemma sample_printed:
  "print_message 1 sample_lib [sample_group] [sample_command] 4096 sample_msg =
     Parsed (sample_octets, sample_msg\<lparr>hdr := sample_header\<lparr>len := 52\<rparr>\<rparr>)"
  by code_simp


theorem header_roundtrip_witness:
  "parse_header [sample_command] PARSE_STRICT (msg_header_octets sample_header @ [0]) =
     Parsed (sample_header, Some sample_command)"
proof -
  have "print_header [sample_command] PARSE_STRICT sample_header 4096 =
      Parsed (msg_header_octets sample_header, Some sample_command)"
    by (simp add: print_header_def sample_defs)
  from header_roundtrip [OF this, of "[0]"] show ?thesis by (simp add: sample_defs)
qed

theorem error_request_not_relayed_witness:
  "print_header [sample_command] PARSE_STRICT (raw_header (sample_octets[4 := 0xA0])) 4096 =
     Thrown (PNormal AAA_INVALID_HDR_BITS)"
proof -
  have "parse_header [sample_command] PARSE_STRICT (sample_octets[4 := 0xA0]) =
      Parsed (raw_header (sample_octets[4 := 0xA0]), Some sample_command)"
    "com_r sample_command" "flag_e (flags (raw_header (sample_octets[4 := 0xA0])))"
    by code_simp+
  then show ?thesis by (rule error_request_not_relayed)
qed

theorem nesting_bounded_witness:
  "parse_message 53 sample_lib [sample_group] [sample_command] sample_octets =
     parse_message 1000 sample_lib [sample_group] [sample_command] sample_octets"
proof (rule nesting_bounded)
  show "\<forall>g \<in> set [sample_group]. no_grouped_wildcard (g_dict g)"
    "\<forall>c \<in> set [sample_command]. no_grouped_wildcard (com_dict c)"
    by (simp_all add: no_grouped_wildcard_def qualified_list_def sample_defs wildcard_def)
qed (simp_all add: sample_octets_def)

theorem short_length_overruns_witness:
  "read_list [0, 0, 0, 25, 0, 0, 0, 6]
     (read_value 1 sample_lib [] [0, 0, 0, 25, 0, 0, 0, 6])
     \<lparr>avp_f = [], avp_r = [\<lparr>q_avp = sample_entry ''Class'' 25 OctetStringT, q_min = 1, q_max = 1\<rparr>],
      avp_o = []\<rparr> 0 8 [] = Overrun"
proof -
  have "window [0, 0, 0, 25, 0, 0, 0, 6] 0 (be32 25 @ be32 6)" by code_simp
  from short_length_overruns [OF this, of "\<lparr>q_avp = sample_entry ''Class'' 25 OctetStringT,
      q_min = 1, q_max = 1\<rparr>" 1 sample_lib "[]" "[]" "[]" "[]"]
  show ?thesis by (simp add: sample_entry_def)
qed

theorem optional_group_dropped_witness:
  "read_quals (read_value 1 sample_lib [sample_group] [0, 0, 1, 4, 64, 0, 0, 8])
     [(OPTIONAL, \<lparr>q_avp = sample_entry ''VendorSpecificApplicationId'' 260 GroupedT,
        q_min = 0, q_max = 1\<rparr>)]
     [\<lparr>ah_code = 260, ah_v = False, ah_m = True, ah_p = False, ah_length = 8, ah_vendor = 0,
       value_p = 0\<rparr>] [] = Parsed []"
proof -
  let ?q = "\<lparr>q_avp = sample_entry ''VendorSpecificApplicationId'' 260 GroupedT,
        q_min = 0, q_max = 1\<rparr>"
  let ?h = "\<lparr>ah_code = 260, ah_v = False, ah_m = True, ah_p = False, ah_length = 8,
       ah_vendor = 0, value_p = 0\<rparr> :: avp_header"
  let ?mem = "[0, 0, 1, 4, 64, 0, 0, 8] :: octets"
  have "grouped_search (avpCode (q_avp ?q)) (entryVendorId (q_avp ?q)) [sample_group] =
      Some sample_group" "avpType (q_avp ?q) = GroupedT"
    by (simp_all add: sample_defs)
  moreover have "read_header OPTIONAL (q_avp ?q) [?h] = Parsed (?h\<lparr>value_p := 8\<rparr>, [])"
    by code_simp
  moreover have "read_list ?mem (read_value 0 sample_lib [sample_group] ?mem)
      (g_dict sample_group) (value_p (?h\<lparr>value_p := 8\<rparr>))
      (value_p (?h\<lparr>value_p := 8\<rparr>) +
        unat (ah_length (?h\<lparr>value_p := 8\<rparr>) - AVP_HEADER_LEN (q_avp ?q))) [] =
      Thrown (PNormal AAA_MISSING_AVP)"
    by code_simp
  ultimately show ?thesis
    using optional_group_dropped [of ?q "[sample_group]" sample_group "[?h]"
        "?h\<lparr>value_p := 8\<rparr>" "[]" ?mem 0 sample_lib "[]" "[]"] by simp
qed

end
