(* ===== verification/Msg_Collector.thy ===== *)
theory Msg_Collector
  imports Wire_Msg Peer_Entry
begin

text \<open>
  The message collectors between the transport and a peer
  (\<open>libdiameter/src/aaa_transport_collector.cxx\<close>): the receiver cuts the octet stream of a
  connection into messages and hands them to its handler, the transmitter prints a message
  into a buffer that it enlarges when the message does not fit.
\<close>

definition DIAMETER_HEADER_SIZE :: nat where "DIAMETER_HEADER_SIZE = 20"
definition MSG_COLLECTOR_MAX_MSG_BLOCK :: nat where "MSG_COLLECTOR_MAX_MSG_BLOCK = 10"

section \<open>The receiver\<close>

text \<open>
  The buffer of received data with its allocated size, the part of it that is in use, the
  length of the message at its front (0 when that is not known), and the count of
  persistent errors.  Allocation always succeeds.
\<close>

record rx_collector =
  rx_Buffer :: octets
  rx_Offset :: nat
  rx_MsgLength :: nat
  rx_PersistentError :: ranged_value

abbreviation rx_BufSize :: "rx_collector \<Rightarrow> nat" where
  "rx_BufSize s \<equiv> length (rx_Buffer s)"

text \<open>What the receiver parses with: the dictionary, and the configuration for error answers.\<close>

record rx_env =
  env_bound :: nat
  env_lib :: text_lib
  env_groups :: "grouped_avp list"
  env_cmds :: "command list"
  env_cfg :: dia_config

definition error_limit :: "nat \<Rightarrow> ranged_value" where
  "error_limit n = RV_Reset 0 0 (int (n * MSG_COLLECTOR_MAX_MSG_BLOCK div 4))"

definition RxCollector_new :: "nat \<Rightarrow> rx_collector" where
  "RxCollector_new rx_buffer_size =
     \<lparr>rx_Buffer = replicate (DIAMETER_HEADER_SIZE + rx_buffer_size) 0, rx_Offset = 0,
      rx_MsgLength = 0,
      rx_PersistentError = error_limit (DIAMETER_HEADER_SIZE + rx_buffer_size)\<rparr>"

text \<open>The calls to the handler.\<close>

datatype rx_event =
    RxMessage diameter_msg
  | RxError collector_error
  | RxAnswer diameter_msg

text \<open>
  One iteration of the inner loop goes on, leaves the loop, or returns from the function; a
  memory fault of the parser ends everything.
\<close>

datatype rx_control = RxAgain | RxBreak | RxReturn | RxFault

type_synonym rx_step = "rx_collector \<times> bool \<times> rx_event list \<times> rx_control"

text \<open>\<open>memcpy\<close> of octets inside the buffer to its front.\<close>

definition to_front :: "nat \<Rightarrow> nat \<Rightarrow> octets \<Rightarrow> octets" where
  "to_front start n buf = take n (drop start buf) @ drop n buf"

definition rx_consume :: "rx_collector \<Rightarrow> rx_collector" where
  "rx_consume s =
     (let off = (if rx_MsgLength s < rx_Offset s then rx_Offset s - rx_MsgLength s else 0);
          buf = (if rx_MsgLength s < rx_Offset s
                 then to_front (rx_MsgLength s) off (rx_Buffer s) else rx_Buffer s)
      in s\<lparr>rx_Buffer := take off buf @ replicate (length buf - off) 0, rx_Offset := off,
           rx_MsgLength := 0\<rparr>)"

text \<open>
  A complete message: its header is parsed again unless that was done in the same
  iteration.  A header that fails here, by a thrown integer, is handed to the handler
  without its AVPs.  After an error in the payload the octets are moved and the length of
  the message is kept.
\<close>

definition rx_payload ::
    "rx_env \<Rightarrow> command option \<Rightarrow> rx_collector \<Rightarrow> rx_step" where
  "rx_payload env handle s =
     (let buf = rx_Buffer s;
          deliver = (\<lambda>m.
            (rx_consume (s\<lparr>rx_PersistentError := error_limit (rx_BufSize s)\<rparr>), False,
             [RxMessage m], RxAgain))
      in case (case handle of
                 Some com \<Rightarrow> Parsed (raw_header buf, Some com)
               | None \<Rightarrow> parse_header (env_cmds env) PARSE_STRICT buf) of
           Parsed (h, Some com) \<Rightarrow>
             (case read_list buf
                 (read_value (env_bound env) (env_lib env) (env_groups env) buf)
                 (com_dict com) DIAMETER_HEADER_SIZE (rx_MsgLength s) [] of
                Parsed lst \<Rightarrow> deliver \<lparr>hdr = h, acl = lst\<rparr>
              | Thrown (PNormal c) \<Rightarrow>
                  (let off = rx_Offset s - rx_MsgLength s in
                   (s\<lparr>rx_Offset := off, rx_Buffer := to_front off (rx_MsgLength s) buf\<rparr>, False,
                    [RxError PARSING_ERROR], RxAgain))
              | Thrown (PBug b) \<Rightarrow> (s, False, [RxError BUG_IN_PARSING_CODE], RxReturn)
              | Overrun \<Rightarrow> (s, False, [], RxFault))
         | _ \<Rightarrow> deliver \<lparr>hdr = raw_header buf, acl = []\<rparr>)"

text \<open>The second half of an iteration: grow the buffer, wait for more, or process.\<close>

definition rx_process :: "rx_env \<Rightarrow> command option \<Rightarrow> bool \<Rightarrow> rx_collector \<Rightarrow> rx_step" where
  "rx_process env handle bad s =
     (if rx_MsgLength s > rx_Offset s then
        (if rx_MsgLength s > rx_BufSize s
         then (s\<lparr>rx_Buffer := rx_Buffer s @ replicate (rx_MsgLength s + 1 - rx_BufSize s) 0\<rparr>,
               bad, [], RxAgain)
         else (s, bad, [], RxBreak))
      else if bad then (rx_consume s, bad, [RxError PARSING_ERROR], RxAgain)
      else rx_payload env handle s)"

definition emit_first :: "rx_event list \<Rightarrow> rx_step \<Rightarrow> rx_step" where
  "emit_first evs r = (case r of (s, bad, evs', c) \<Rightarrow> (s, bad, evs @ evs', c))"

text \<open>
  The first half: at the start of a message its header is parsed.  An unsupported command
  with an implausible length makes the receiver skip four octets, any other error is
  answered and the message skipped.
\<close>

definition rx_body :: "rx_env \<Rightarrow> bool \<Rightarrow> rx_collector \<Rightarrow> rx_step" where
  "rx_body env bad s =
     (if rx_MsgLength s \<noteq> 0 then rx_process env None bad s
      else
        (let buf = rx_Buffer s; h = raw_header buf; n = unat (len h) in
         case parse_header (env_cmds env) PARSE_STRICT (take DIAMETER_HEADER_SIZE buf) of
           Parsed (_, com) \<Rightarrow> rx_process env com False (s\<lparr>rx_MsgLength := n\<rparr>)
         | Thrown err \<Rightarrow>
             (if err = PNormal AAA_COMMAND_UNSUPPORTED \<and>
                 \<not> RV_InRange (RV_Reset (int n) (int DIAMETER_HEADER_SIZE)
                       (int (rx_BufSize s * MSG_COLLECTOR_MAX_MSG_BLOCK)))
              then
                (case RV_inc (rx_PersistentError s) of
                   (True, pe) \<Rightarrow>
                     (s\<lparr>rx_PersistentError := pe\<rparr>, bad, [RxError CORRUPTED_BYTE_STREAM], RxReturn)
                 | (False, pe) \<Rightarrow>
                     (let off = rx_Offset s - 4 in
                      (s\<lparr>rx_PersistentError := pe, rx_Offset := off,
                         rx_Buffer := to_front 4 off buf\<rparr>, bad, [], RxAgain)))
              else
                (case err of
                   PNormal c \<Rightarrow>
                     emit_first [RxAnswer (GenerateHdr (env_cfg env) h c)]
                       (rx_process env None True (s\<lparr>rx_MsgLength := n\<rparr>))
                 | PBug b \<Rightarrow> (s, bad, [RxError BUG_IN_PARSING_CODE], RxReturn)))
         | Overrun \<Rightarrow> (s, bad, [], RxFault)))"

text \<open>
  The loops of \<open>Message\<close>, each with a bound on its iterations; \<open>None\<close> is that the bound does
  not suffice.  The flag is a local variable of the call.
\<close>

fun rx_inner ::
    "rx_env \<Rightarrow> nat \<Rightarrow> bool \<Rightarrow> rx_collector
      \<Rightarrow> (rx_collector \<times> bool \<times> rx_event list \<times> rx_control) option" where
  "rx_inner env 0 bad s = None"
| "rx_inner env (Suc n) bad s =
     (if rx_Offset s > DIAMETER_HEADER_SIZE then
        (case rx_body env bad s of
           (s', bad', evs, RxAgain) \<Rightarrow> map_option (emit_first evs) (rx_inner env n bad' s')
         | r \<Rightarrow> Some r)
      else Some (s, bad, [], RxBreak))"

definition rx_copy :: "octets \<Rightarrow> rx_collector \<Rightarrow> rx_collector" where
  "rx_copy bs s =
     s\<lparr>rx_Buffer := take (rx_Offset s) (rx_Buffer s) @ bs
         @ drop (rx_Offset s + length bs) (rx_Buffer s),
       rx_Offset := rx_Offset s + length bs\<rparr>"

fun rx_outer ::
    "rx_env \<Rightarrow> nat \<Rightarrow> nat \<Rightarrow> bool \<Rightarrow> octets \<Rightarrow> rx_collector
      \<Rightarrow> (rx_collector \<times> rx_event list \<times> rx_control) option" where
  "rx_outer env n 0 bad data s = None"
| "rx_outer env n (Suc k) bad data s =
     (if data = [] then Some (s, [], RxBreak)
      else
        (let r = min (length data) (rx_BufSize s - rx_Offset s) in
         case rx_inner env n bad (rx_copy (take r data) s) of
           None \<Rightarrow> None
         | Some (s', bad', evs, RxBreak) \<Rightarrow>
             map_option (\<lambda>(s2, evs2, c). (s2, evs @ evs2, c))
               (rx_outer env n k bad' (drop r data) s')
         | Some (s', bad', evs, c) \<Rightarrow> Some (s', evs, c)))"

definition RxMessage_call ::
    "rx_env \<Rightarrow> nat \<Rightarrow> octets \<Rightarrow> rx_collector
      \<Rightarrow> (rx_collector \<times> rx_event list \<times> rx_control) option" where
  "RxMessage_call env n data s = rx_outer env n n False data s"

section \<open>Framing\<close>

text \<open>The octets \<open>bs\<close> are one message, whatever stands behind them in the buffer.\<close>

definition framed :: "rx_env \<Rightarrow> octets \<times> diameter_msg \<Rightarrow> bool" where
  "framed env bm \<longleftrightarrow>
     DIAMETER_HEADER_SIZE < length (fst bm) \<and> unat (len (hdr (snd bm))) = length (fst bm) \<and>
     (\<forall>rest. parse_message (env_bound env) (env_lib env) (env_groups env) (env_cmds env)
        (fst bm @ rest) = Parsed (snd bm))"

lemma raw_header_take: "20 \<le> length mem \<Longrightarrow> raw_header (take 20 mem) = raw_header mem"
  by (simp add: raw_header_def rd32_def)

lemma parse_header_take:
  "20 \<le> length mem \<Longrightarrow> parse_header cmds opt (take 20 mem) = parse_header cmds opt mem"
  by (simp add: parse_header_def raw_header_take)

lemma parse_message_parts:
  assumes "parse_message k lib gs cmds mem = Parsed m"
  obtains com where "parse_header cmds PARSE_STRICT mem = Parsed (hdr m, Some com)"
    and "read_list mem (read_value k lib gs mem) (com_dict com) 20 (unat (len (hdr m))) [] =
      Parsed (acl m)"
  using assms
  by (auto simp: parse_message_def split: parsed.splits option.splits prod.splits if_splits)

lemma parse_header_raw:
  "parse_header cmds opt mem = Parsed (h, com) \<Longrightarrow> h = raw_header mem"
  by (auto simp: parse_header_def Let_def split: if_splits option.splits)

lemma framed_header:
  assumes "framed env (bs, m)" and "20 < n" and "take n buf = take n (bs @ rest)"
  shows "\<exists>com. parse_header (env_cmds env) PARSE_STRICT (take 20 buf) = Parsed (hdr m, Some com)"
    and "raw_header buf = hdr m"
proof -
  have tt: "take 20 (take n xs) = take 20 xs" for xs :: octets
    using assms(2) by (simp add: min_def)
  have t: "take 20 buf = take 20 (bs @ rest)"
    using tt [of buf] tt [of "bs @ rest"] by (simp only: assms(3))
  have "parse_message (env_bound env) (env_lib env) (env_groups env) (env_cmds env) (bs @ rest) =
      Parsed m" and l: "20 < length bs"
    using assms(1) by (simp_all add: framed_def DIAMETER_HEADER_SIZE_def)
  then obtain com where
    p: "parse_header (env_cmds env) PARSE_STRICT (bs @ rest) = Parsed (hdr m, Some com)"
    by (elim parse_message_parts)
  with l show "\<exists>com. parse_header (env_cmds env) PARSE_STRICT (take 20 buf) =
      Parsed (hdr m, Some com)"
    unfolding t by (subst parse_header_take) auto
  have "length (take 20 buf) = 20" unfolding t using l by simp
  then have "20 \<le> length buf" by simp
  then have "raw_header buf = raw_header (take 20 buf)" by (simp add: raw_header_take)
  also have "\<dots> = raw_header (bs @ rest)" unfolding t using l by (subst raw_header_take) auto
  finally show "raw_header buf = hdr m" using parse_header_raw [OF p] by simp
qed

text \<open>
  The state of the receiver in the middle of a stream of messages: \<open>pend\<close> has been received
  and not yet processed, it and what is still to come are the messages \<open>ms\<close>.
\<close>

definition rx_inv ::
    "rx_env \<Rightarrow> rx_collector \<Rightarrow> octets \<Rightarrow> (octets \<times> diameter_msg) list \<Rightarrow> octets \<Rightarrow> bool" where
  "rx_inv env s pend ms rest \<longleftrightarrow>
     rx_Offset s = length pend \<and> length pend \<le> rx_BufSize s \<and>
     take (length pend) (rx_Buffer s) = pend \<and> 20 < rx_BufSize s \<and>
     pend @ rest = concat (map fst ms) \<and> list_all (framed env) ms \<and>
     (rx_MsgLength s = 0 \<or>
      ms \<noteq> [] \<and> rx_MsgLength s = length (fst (hd ms)) \<and> 20 < length pend)"

text \<open>Consuming a complete message at the front.\<close>

lemma rx_consume_front:
  assumes "rx_Offset s = length pend" "length pend \<le> rx_BufSize s"
    "take (length pend) (rx_Buffer s) = pend" and "rx_MsgLength s \<le> length pend"
  shows "rx_Offset (rx_consume s) = length (drop (rx_MsgLength s) pend)"
    and "rx_BufSize (rx_consume s) = rx_BufSize s"
    and "take (length (drop (rx_MsgLength s) pend)) (rx_Buffer (rx_consume s)) =
      drop (rx_MsgLength s) pend"
    and "rx_MsgLength (rx_consume s) = 0"
    and "rx_PersistentError (rx_consume s) = rx_PersistentError s"
proof -
  have d: "take (length pend - rx_MsgLength s) (drop (rx_MsgLength s) (rx_Buffer s)) =
      drop (rx_MsgLength s) pend"
    using assms(3) by (metis drop_take)
  show "rx_Offset (rx_consume s) = length (drop (rx_MsgLength s) pend)"
    "rx_BufSize (rx_consume s) = rx_BufSize s" "rx_MsgLength (rx_consume s) = 0"
    "rx_PersistentError (rx_consume s) = rx_PersistentError s"
    using assms(1,2,4) by (auto simp: rx_consume_def Let_def to_front_def)
  show "take (length (drop (rx_MsgLength s) pend)) (rx_Buffer (rx_consume s)) =
      drop (rx_MsgLength s) pend"
    using assms(1,2,4) d by (auto simp: rx_consume_def Let_def to_front_def)
qed

lemma rx_payload_framed:
  assumes f: "framed env (bs, m)" and b: "rx_Buffer s = bs @ junk" and n: "rx_MsgLength s = length bs"
    and h: "\<And>com. handle = Some com \<Longrightarrow>
      parse_header (env_cmds env) PARSE_STRICT (rx_Buffer s) = Parsed (hdr m, Some com)"
  shows "rx_payload env handle s =
    (rx_consume (s\<lparr>rx_PersistentError := error_limit (rx_BufSize s)\<rparr>), False, [RxMessage m], RxAgain)"
proof -
  have "parse_message (env_bound env) (env_lib env) (env_groups env) (env_cmds env) (rx_Buffer s) =
      Parsed m" and l: "unat (len (hdr m)) = length bs"
    using f b by (simp_all add: framed_def)
  then obtain com where
    p: "parse_header (env_cmds env) PARSE_STRICT (rx_Buffer s) = Parsed (hdr m, Some com)" and
    r: "read_list (rx_Buffer s)
      (read_value (env_bound env) (env_lib env) (env_groups env) (rx_Buffer s)) (com_dict com) 20
      (unat (len (hdr m))) [] = Parsed (acl m)"
    by (elim parse_message_parts)
  have m: "\<lparr>hdr = hdr m, acl = acl m\<rparr> = m" by simp
  have "handle = None \<or> handle = Some com" using h p by (cases handle) auto
  then show ?thesis
    using p r l n m parse_header_raw [OF p]
    by (auto simp: rx_payload_def Let_def DIAMETER_HEADER_SIZE_def)
qed

lemma rx_inv_complete:
  assumes inv: "rx_inv env s pend ((bs, m) # ms) rest" and "20 < length pend"
    and "length bs \<le> length pend"
  shows "\<exists>s'. rx_body env False s = (s', False, [RxMessage m], RxAgain) \<and>
    rx_inv env s' (drop (length bs) pend) ms rest"
proof -
  note i = inv [unfolded rx_inv_def, simplified]
  have f: "framed env (bs, m)" using i by simp
  have pre: "pend @ rest = bs @ concat (map fst ms)" using i by simp
  have pend: "pend = bs @ drop (length bs) pend"
    using pre assms(3) by (metis append_eq_append_conv_if append_take_drop_id)
  have "rx_Buffer s = pend @ drop (length pend) (rx_Buffer s)"
    using i by (metis append_take_drop_id)
  then obtain junk where buf: "rx_Buffer s = bs @ junk"
    using pend by (metis append_assoc)
  have t: "take (length bs) (rx_Buffer s) = take (length bs) (bs @ [])" by (subst buf) simp
  have bs20: "20 < length bs" using f by (simp add: framed_def DIAMETER_HEADER_SIZE_def)
  obtain com where p: "parse_header (env_cmds env) PARSE_STRICT (take 20 (rx_Buffer s)) =
      Parsed (hdr m, Some com)" and raw: "raw_header (rx_Buffer s) = hdr m"
    using framed_header [OF f bs20 t] by blast
  have p': "parse_header (env_cmds env) PARSE_STRICT (rx_Buffer s) = Parsed (hdr m, Some com)"
    using p i by (subst (asm) parse_header_take) auto
  let ?s = "s\<lparr>rx_MsgLength := length bs\<rparr>"
  let ?t = "?s\<lparr>rx_PersistentError := error_limit (rx_BufSize s)\<rparr>"
  have n: "unat (len (hdr m)) = length bs" using f by (simp add: framed_def)
  have pay: "rx_payload env handle ?s = (rx_consume ?t, False, [RxMessage m], RxAgain)"
    if "handle = None \<or> handle = Some com" for handle
    using rx_payload_framed [OF f, of ?s junk handle] buf that p' by auto
  have "rx_body env False s = (rx_consume ?t, False, [RxMessage m], RxAgain)"
  proof (cases "rx_MsgLength s = 0")
    case True
    then show ?thesis
      using p raw n pay [of "Some com"] i assms(3)
      by (auto simp: rx_body_def Let_def DIAMETER_HEADER_SIZE_def rx_process_def)
  next
    case False
    then have "s = ?s" using i by simp
    then have "rx_body env False s = rx_body env False ?s" by (rule arg_cong)
    also have "\<dots> = (rx_consume ?t, False, [RxMessage m], RxAgain)"
      using pay [of None] i assms(3) bs20 by (auto simp: rx_body_def rx_process_def)
    finally show ?thesis .
  qed
  moreover have "rx_inv env (rx_consume ?t) (drop (length bs) pend) ms rest"
  proof -
    have "drop (length bs) pend @ rest = concat (map fst ms)"
      using pre pend by (metis append_assoc same_append_eq)
    then show ?thesis
      using rx_consume_front [of ?t pend] i assms(3) by (auto simp: rx_inv_def)
  qed
  ultimately show ?thesis by blast
qed

text \<open>An incomplete message: the receiver waits, after it has made room for the message.\<close>

definition rx_waits :: "rx_collector \<Rightarrow> (octets \<times> diameter_msg) list \<Rightarrow> octets \<Rightarrow> bool" where
  "rx_waits s ms pend \<longleftrightarrow>
     length pend < rx_BufSize s \<and>
     (length pend \<le> 20 \<or> ms \<noteq> [] \<and> length pend < length (fst (hd ms)))"

lemma rx_process_waits:
  assumes inv: "rx_inv env s pend ((bs, m) # ms) rest" and "20 < length pend"
    and "length pend < length bs" and "rx_MsgLength s = length bs"
  shows "\<exists>s'. rx_inner env (Suc n) False s = Some (s', False, [], RxBreak) \<and>
      rx_inv env s' pend ((bs, m) # ms) rest \<and> rx_waits s' ((bs, m) # ms) pend \<or>
    rx_body env False s = (s', False, [], RxAgain) \<and>
      rx_inv env s' pend ((bs, m) # ms) rest \<and> rx_MsgLength s' = length bs \<and>
      length bs \<le> rx_BufSize s'"
proof (cases "length bs > rx_BufSize s")
  case True
  let ?s = "s\<lparr>rx_Buffer := rx_Buffer s @ replicate (length bs + 1 - rx_BufSize s) 0\<rparr>"
  have "rx_body env False s = (?s, False, [], RxAgain)"
    using assms True by (auto simp: rx_body_def rx_process_def rx_inv_def)
  moreover have "rx_inv env ?s pend ((bs, m) # ms) rest"
    using inv by (simp add: rx_inv_def)
  ultimately show ?thesis using assms(4) True by (intro exI [of _ ?s]) simp
next
  case False
  have "rx_body env False s = (s, False, [], RxBreak)"
    using assms False by (auto simp: rx_body_def rx_process_def rx_inv_def)
  then have "rx_inner env (Suc n) False s = Some (s, False, [], RxBreak)"
    using inv assms(2) by (simp add: rx_inv_def DIAMETER_HEADER_SIZE_def)
  moreover have "rx_waits s ((bs, m) # ms) pend"
    using False assms(2,3) by (simp add: rx_waits_def)
  ultimately show ?thesis using inv by blast
qed

lemma rx_inner_waits:
  assumes "rx_inv env s pend ((bs, m) # ms) rest" and "20 < length pend"
    and "length pend < length bs" and "rx_MsgLength s = length bs"
  shows "\<exists>s'. rx_inner env (Suc (Suc n)) False s = Some (s', False, [], RxBreak) \<and>
      rx_inv env s' pend ((bs, m) # ms) rest \<and> rx_waits s' ((bs, m) # ms) pend"
proof -
  from rx_process_waits [OF assms, of "Suc n"] consider
    (wait) s' where "rx_inner env (Suc (Suc n)) False s = Some (s', False, [], RxBreak)"
      "rx_inv env s' pend ((bs, m) # ms) rest" "rx_waits s' ((bs, m) # ms) pend"
  | (grow) s' where "rx_body env False s = (s', False, [], RxAgain)"
      "rx_inv env s' pend ((bs, m) # ms) rest" "rx_MsgLength s' = length bs"
      "length bs \<le> rx_BufSize s'" by blast
  then show ?thesis
  proof cases
    case grow
    have "rx_body env False s' = (s', False, [], RxBreak)"
      using assms(2,3) grow(2-4) by (auto simp: rx_body_def rx_process_def rx_inv_def)
    then have "rx_inner env (Suc (Suc n)) False s = Some (s', False, [], RxBreak)"
      using grow(1,2) assms(1,2)
      by (simp add: rx_inv_def DIAMETER_HEADER_SIZE_def emit_first_def)
    then show ?thesis using grow assms(2,3) by (auto simp: rx_waits_def)
  qed blast
qed

lemma rx_body_starts:
  assumes inv: "rx_inv env s pend ((bs, m) # ms) rest" and "20 < length pend"
    and "length pend < length bs" and "rx_MsgLength s = 0"
  shows "rx_body env False s = rx_body env False (s\<lparr>rx_MsgLength := length bs\<rparr>)"
    and "rx_inv env (s\<lparr>rx_MsgLength := length bs\<rparr>) pend ((bs, m) # ms) rest"
proof -
  note i = inv [unfolded rx_inv_def, simplified]
  have f: "framed env (bs, m)" using i by simp
  have "pend @ rest = bs @ concat (map fst ms)" "take (length pend) (rx_Buffer s) = pend"
    using i by simp_all
  then have "take (length pend) (rx_Buffer s) =
      take (length pend) (bs @ concat (map fst ms))"
    by (metis append_eq_conv_conj)
  note h = framed_header [OF f assms(2) this]
  have n: "unat (len (hdr m)) = length bs" using f by (simp add: framed_def)
  show "rx_body env False s = rx_body env False (s\<lparr>rx_MsgLength := length bs\<rparr>)"
    using h n assms(2-4) i
    by (auto simp: rx_body_def Let_def DIAMETER_HEADER_SIZE_def rx_process_def)
  show "rx_inv env (s\<lparr>rx_MsgLength := length bs\<rparr>) pend ((bs, m) # ms) rest"
    using inv assms(2) by (simp add: rx_inv_def)
qed

lemma rx_inner_cong:
  "rx_body env bad s = rx_body env bad s' \<Longrightarrow> rx_Offset s = rx_Offset s' \<Longrightarrow> 20 < rx_Offset s \<Longrightarrow>
     rx_inner env (Suc n) bad s = rx_inner env (Suc n) bad s'"
  by (simp add: DIAMETER_HEADER_SIZE_def)

text \<open>The inner loop delivers every message that is complete and then waits.\<close>

lemma rx_inner_delivers:
  assumes "rx_inv env s pend ms rest" and "length pend + 2 \<le> n"
  shows "\<exists>s' pend' done ms'.
    rx_inner env n False s = Some (s', False, map (RxMessage \<circ> snd) done, RxBreak) \<and>
    ms = done @ ms' \<and> rx_inv env s' pend' ms' rest \<and> rx_waits s' ms' pend'"
  using assms
proof (induction "length pend" arbitrary: s pend ms n rule: less_induct)
  case less
  obtain k where n: "n = Suc (Suc k)" using less.prems(2) by (metis add_2_eq_Suc' le_Suc_ex add_Suc)
  note i = less.prems(1) [unfolded rx_inv_def]
  show ?case
  proof (cases "20 < length pend")
    case False
    then have "rx_inner env n False s = Some (s, False, [], RxBreak)"
      using i n by (simp add: DIAMETER_HEADER_SIZE_def)
    moreover have "rx_waits s ms pend" using False i by (simp add: rx_waits_def)
    ultimately show ?thesis
      using less.prems(1) by (intro exI [of _ s] exI [of _ pend] exI [of _ "[]"] exI [of _ ms]) simp
  next
    case big: True
    then obtain bs m ms1 where ms: "ms = (bs, m) # ms1" using i by (cases ms) auto
    show ?thesis
    proof (cases "length bs \<le> length pend")
      case True
      from rx_inv_complete [OF less.prems(1) [unfolded ms] big True] obtain s1 where
        s1: "rx_body env False s = (s1, False, [RxMessage m], RxAgain)"
        "rx_inv env s1 (drop (length bs) pend) ms1 rest" by blast
      have "0 < length bs" using i ms by (auto simp: framed_def DIAMETER_HEADER_SIZE_def)
      then have "length (drop (length bs) pend) < length pend"
        using big by (simp only: length_drop)
      moreover have "length (drop (length bs) pend) + 2 \<le> Suc k"
        using less.prems(2) n \<open>0 < length bs\<close> True by (simp only: length_drop)
      ultimately obtain s' pend' done' ms' where
        r: "rx_inner env (Suc k) False s1 = Some (s', False, map (RxMessage \<circ> snd) done', RxBreak)"
        "ms1 = done' @ ms'" "rx_inv env s' pend' ms' rest" "rx_waits s' ms' pend'"
        using less.hyps [OF _ s1(2)] by blast
      have "rx_inner env n False s =
          Some (s', False, map (RxMessage \<circ> snd) ((bs, m) # done'), RxBreak)"
        unfolding n using s1(1) r(1) i big
        by (subst rx_inner.simps) (simp add: DIAMETER_HEADER_SIZE_def emit_first_def del: rx_inner.simps)
      then show ?thesis using r ms by (metis append_Cons)
    next
      case False
      have "\<exists>s'. rx_inner env (Suc (Suc k)) False s = Some (s', False, [], RxBreak) \<and>
          rx_inv env s' pend ((bs, m) # ms1) rest \<and> rx_waits s' ((bs, m) # ms1) pend"
      proof (cases "rx_MsgLength s = 0")
        case True
        note st = rx_body_starts [OF less.prems(1) [unfolded ms] big _ True]
        have "rx_inner env (Suc (Suc k)) False s =
            rx_inner env (Suc (Suc k)) False (s\<lparr>rx_MsgLength := length bs\<rparr>)"
          using st(1) i big False by (intro rx_inner_cong) auto
        then show ?thesis
          using rx_inner_waits [OF st(2) big, of k] False by simp
      next
        case known: False
        then have "rx_MsgLength s = length bs" using i ms by simp
        then show ?thesis
          using rx_inner_waits [OF less.prems(1) [unfolded ms] big, of k] False by simp
      qed
      then show ?thesis unfolding n ms
        by (elim exE conjE)
          (intro exI [of _ "[]"] exI [of _ "(bs, m) # ms1"] exI [of _ pend] exI conjI; simp)
    qed
  qed
qed

text \<open>The outer loop copies as much as there is room for, and the receiver keeps room.\<close>

lemma rx_copy_inv:
  assumes "rx_inv env s pend ms (bs @ rest)" and "length pend + length bs \<le> rx_BufSize s"
  shows "rx_inv env (rx_copy bs s) (pend @ bs) ms rest"
  using assms by (auto simp: rx_inv_def rx_copy_def)

definition rx_ready :: "rx_env \<Rightarrow> rx_collector \<Rightarrow> (octets \<times> diameter_msg) list \<Rightarrow> octets \<Rightarrow> bool" where
  "rx_ready env s ms rest \<longleftrightarrow> (\<exists>pend. rx_inv env s pend ms rest \<and> rx_waits s ms pend)"

lemma rx_room:
  "rx_inv env s pend ms rest \<Longrightarrow> rx_waits s ms pend \<Longrightarrow> 0 < rx_BufSize s - rx_Offset s"
  by (simp add: rx_inv_def rx_waits_def)

lemma rx_outer_delivers:
  assumes "rx_ready env s ms (data @ rest)" and "length data < k"
    and "length (concat (map fst ms)) + 2 \<le> n"
  shows "\<exists>s' done ms'.
    rx_outer env n k False data s = Some (s', map (RxMessage \<circ> snd) done, RxBreak) \<and>
    ms = done @ ms' \<and> rx_ready env s' ms' rest"
  using assms
proof (induction k arbitrary: data s ms)
  case (Suc k)
  from Suc.prems(1) obtain pend where
    i: "rx_inv env s pend ms (data @ rest)" and w: "rx_waits s ms pend"
    by (auto simp: rx_ready_def)
  show ?case
  proof (cases "data = []")
    case True
    with Suc.prems(1) show ?thesis
      by (intro exI [of _ s] exI [of _ "[]"] exI [of _ ms]) simp
  next
    case False
    define r where "r = min (length data) (rx_BufSize s - rx_Offset s)"
    have r0: "0 < r" using False rx_room [OF i w] by (simp add: r_def)
    have off: "rx_Offset s = length pend" using i by (simp add: rx_inv_def)
    have "rx_inv env s pend ms (take r data @ drop r data @ rest)"
      using i by (metis append_assoc append_take_drop_id)
    then have c: "rx_inv env (rx_copy (take r data) s) (pend @ take r data) ms (drop r data @ rest)"
      by (rule rx_copy_inv) (use w off in \<open>auto simp: r_def rx_waits_def\<close>)
    have "length (pend @ take r data) + 2 \<le> n"
    proof -
      have "pend @ take r data @ drop r data @ rest = concat (map fst ms)"
        using c by (simp add: rx_inv_def)
      from arg_cong [OF this, of length] show ?thesis using Suc.prems(3) by simp
    qed
    from rx_inner_delivers [OF c this] obtain s1 pend1 done1 ms1 where
      1: "rx_inner env n False (rx_copy (take r data) s) =
        Some (s1, False, map (RxMessage \<circ> snd) done1, RxBreak)" "ms = done1 @ ms1"
        "rx_inv env s1 pend1 ms1 (drop r data @ rest)" "rx_waits s1 ms1 pend1" by blast
    have "0 < length data" using False by simp
    with Suc.prems(2) r0 have "length (drop r data) < k" unfolding length_drop by linarith
    moreover have "length (concat (map fst ms1)) + 2 \<le> n" using Suc.prems(3) 1(2) by simp
    moreover have "rx_ready env s1 ms1 (drop r data @ rest)"
      using 1(3,4) by (auto simp: rx_ready_def)
    ultimately obtain s2 done2 ms2 where
      2: "rx_outer env n k False (drop r data) s1 =
        Some (s2, map (RxMessage \<circ> snd) done2, RxBreak)" "ms1 = done2 @ ms2"
        "rx_ready env s2 ms2 rest"
      using Suc.IH by blast
    have "rx_outer env n (Suc k) False data s =
        Some (s2, map (RxMessage \<circ> snd) (done1 @ done2), RxBreak)"
      using False 1(1) 2(1) by (simp add: r_def [symmetric] Let_def)
    then show ?thesis using 1(2) 2(2,3)
      by (intro exI [of _ s2] exI [of _ "done1 @ done2"] exI [of _ ms2]) simp
  qed
qed simp

text \<open>
  The calls of a connection in a row, each with the octets of one read of the transport.
  \<open>None\<close> is that a call does not end regularly.
\<close>

fun rx_stream ::
    "rx_env \<Rightarrow> nat \<Rightarrow> octets list \<Rightarrow> rx_collector \<Rightarrow> (rx_collector \<times> rx_event list) option" where
  "rx_stream env n [] s = Some (s, [])"
| "rx_stream env n (bs # bss) s =
     (case RxMessage_call env n bs s of
        Some (s', evs, RxBreak) \<Rightarrow> map_option (\<lambda>(s2, evs2). (s2, evs @ evs2)) (rx_stream env n bss s')
      | _ \<Rightarrow> None)"

lemma rx_stream_delivers:
  assumes "rx_ready env s ms (concat bss @ rest)" and "length (concat (map fst ms)) + 2 \<le> n"
  shows "\<exists>s' done ms'. rx_stream env n bss s = Some (s', map (RxMessage \<circ> snd) done) \<and>
    ms = done @ ms' \<and> rx_ready env s' ms' rest"
  using assms
proof (induction bss arbitrary: s ms)
  case Nil
  then show ?case by (intro exI [of _ s] exI [of _ "[]"] exI [of _ ms]) simp
next
  case (Cons bs bss)
  have r: "rx_ready env s ms (bs @ concat bss @ rest)" using Cons.prems(1) by simp
  then obtain pend where "pend @ bs @ concat bss @ rest = concat (map fst ms)"
    by (auto simp: rx_ready_def rx_inv_def)
  from arg_cong [OF this, of length] have "length bs < n" using Cons.prems(2) by simp
  from rx_outer_delivers [OF r this Cons.prems(2)] obtain s1 done1 ms1 where
    1: "RxMessage_call env n bs s = Some (s1, map (RxMessage \<circ> snd) done1, RxBreak)"
      "ms = done1 @ ms1" "rx_ready env s1 ms1 (concat bss @ rest)"
    by (auto simp: RxMessage_call_def)
  have "length (concat (map fst ms1)) + 2 \<le> n" using Cons.prems(2) 1(2) by simp
  from Cons.IH [OF 1(3) this] obtain s2 done2 ms2 where
    "rx_stream env n bss s1 = Some (s2, map (RxMessage \<circ> snd) done2)"
    "ms1 = done2 @ ms2" "rx_ready env s2 ms2 rest" by blast
  with 1 show ?case
    by (intro exI [of _ s2] exI [of _ "done1 @ done2"] exI [of _ ms2]) simp
qed

lemma rx_ready_new:
  assumes "0 < sz" and "list_all (framed env) ms"
  shows "rx_ready env (RxCollector_new sz) ms (concat (map fst ms))"
  using assms
  by (auto simp: rx_ready_def rx_inv_def rx_waits_def RxCollector_new_def DIAMETER_HEADER_SIZE_def
      intro!: exI [of _ "[]"])

text \<open>At the end of a stream of whole messages nothing is left.\<close>

lemma rx_ready_end:
  assumes "rx_ready env s ms []" shows "ms = [] \<and> rx_Offset s = 0"
proof -
  from assms obtain pend where i: "rx_inv env s pend ms []" and w: "rx_waits s ms pend"
    by (auto simp: rx_ready_def)
  have p: "pend = concat (map fst ms)" using i by (simp add: rx_inv_def)
  have "ms = []"
  proof (cases ms)
    case (Cons bm ms1)
    then have "20 < length (fst bm)" "length (fst bm) \<le> length pend"
      using i p by (auto simp: rx_inv_def framed_def DIAMETER_HEADER_SIZE_def)
    then show ?thesis using w Cons by (simp add: rx_waits_def)
  qed
  then show ?thesis using i p by (simp add: rx_inv_def)
qed

section \<open>The transmitter\<close>

text \<open>
  The queue of messages with the transports they go to, the size of the buffer and its
  number of blocks.  \<open>Send\<close> only appends to the queue; the thread of the transmitter drains
  it.
\<close>

record tx_collector =
  tx_SendQueue :: "(diameter_msg \<times> nat) list"
  tx_BufSize :: nat
  tx_BlockCount :: nat

datatype tx_result = TxSent octets | TxFailed | TxFault

definition TxCollector_start :: "nat \<Rightarrow> tx_collector" where
  "TxCollector_start sz = \<lparr>tx_SendQueue = [], tx_BufSize = sz, tx_BlockCount = 1\<rparr>"

definition Tx_Send :: "diameter_msg \<Rightarrow> nat \<Rightarrow> tx_collector \<Rightarrow> tx_collector" where
  "Tx_Send m io tx = tx\<lparr>tx_SendQueue := tx_SendQueue tx @ [(m, io)]\<rparr>"

definition enlarge :: "nat \<Rightarrow> tx_collector \<Rightarrow> tx_collector" where
  "enlarge sz tx =
     tx\<lparr>tx_BlockCount := tx_BlockCount tx + 1, tx_BufSize := sz * (tx_BlockCount tx + 1)\<rparr>"

text \<open>
  \<open>SafeSend\<close> starts over with a larger buffer when the payload does not fit; every other
  error, and the lack of space of a buffer of the maximal size, drops the message.
\<close>

function SafeSend ::
    "rx_env \<Rightarrow> nat \<Rightarrow> diameter_msg \<Rightarrow> tx_collector \<Rightarrow> tx_collector \<times> tx_result" where
  "SafeSend env sz m tx =
     (case print_header (env_cmds env) PARSE_STRICT (hdr m) (tx_BufSize tx) of
        Thrown err \<Rightarrow> (tx, TxFailed)
      | Parsed (out, Some com) \<Rightarrow>
          (case write_quals (write_value (env_bound env) (env_lib env) (env_groups env))
              (qualified_list (com_dict com)) (acl m) (tx_BufSize tx) out of
             Thrown err \<Rightarrow>
               (if err = PNormal AAA_OUT_OF_SPACE \<and> tx_BlockCount tx < MSG_COLLECTOR_MAX_MSG_BLOCK
                then SafeSend env sz m (enlarge sz tx)
                else (tx, TxFailed))
           | Parsed o2 \<Rightarrow>
               (case print_header (env_cmds env) PARSE_STRICT
                   (hdr m\<lparr>len := of_nat (length o2)\<rparr>) (tx_BufSize tx) of
                  Parsed (hd2, _) \<Rightarrow> (tx, TxSent (hd2 @ drop 20 o2))
                | Thrown err \<Rightarrow> (tx, TxFailed)
                | Overrun \<Rightarrow> (tx, TxFault))
           | Overrun \<Rightarrow> (tx, TxFault))
      | _ \<Rightarrow> (tx, TxFault))"
  by pat_completeness auto
termination
  by (relation "measure (\<lambda>(env, sz, m, tx). MSG_COLLECTOR_MAX_MSG_BLOCK - tx_BlockCount tx)")
    (auto simp: enlarge_def)

declare SafeSend.simps [simp del]

text \<open>The loop of the transmitter thread, once it is woken up.\<close>

fun tx_drain ::
    "rx_env \<Rightarrow> nat \<Rightarrow> (diameter_msg \<times> nat) list \<Rightarrow> tx_collector
      \<Rightarrow> tx_collector \<times> (nat \<times> tx_result) list" where
  "tx_drain env sz [] tx = (tx, [])"
| "tx_drain env sz ((m, io) # q) tx =
     (case SafeSend env sz m tx of
        (tx1, r) \<Rightarrow> (case tx_drain env sz q tx1 of (tx2, rs) \<Rightarrow> (tx2, (io, r) # rs)))"

definition Tx_svc :: "rx_env \<Rightarrow> nat \<Rightarrow> tx_collector \<Rightarrow> tx_collector \<times> (nat \<times> tx_result) list" where
  "Tx_svc env sz tx = tx_drain env sz (tx_SendQueue tx) (tx\<lparr>tx_SendQueue := []\<rparr>)"

text \<open>The buffer has the size of its blocks, and there are at most ten of them.\<close>

definition tx_ok :: "nat \<Rightarrow> tx_collector \<Rightarrow> bool" where
  "tx_ok sz tx \<longleftrightarrow>
     tx_BufSize tx = sz * tx_BlockCount tx \<and> tx_BlockCount tx \<le> MSG_COLLECTOR_MAX_MSG_BLOCK"

lemma tx_ok_enlarge:
  "tx_ok sz tx \<Longrightarrow> tx_BlockCount tx < MSG_COLLECTOR_MAX_MSG_BLOCK \<Longrightarrow> tx_ok sz (enlarge sz tx)"
  by (simp add: tx_ok_def enlarge_def)

lemma SafeSend_prints:
  assumes "SafeSend env sz m tx = (tx', r)" and "tx_ok sz tx"
  shows "tx_ok sz tx' \<and> tx_BlockCount tx \<le> tx_BlockCount tx' \<and> tx_SendQueue tx' = tx_SendQueue tx \<and>
    (\<forall>bs. r = TxSent bs \<longrightarrow>
      (\<exists>m'. print_message (env_bound env) (env_lib env) (env_groups env) (env_cmds env)
        (tx_BufSize tx') m = Parsed (bs, m')))"
  using assms
proof (induction env sz m tx rule: SafeSend.induct)
  case (1 env sz m tx)
  show ?case
  proof (cases "\<exists>out com. print_header (env_cmds env) PARSE_STRICT (hdr m) (tx_BufSize tx) =
      Parsed (out, Some com)")
    case False
    then show ?thesis
      using "1.prems" by (subst (asm) SafeSend.simps) (auto split: parsed.splits option.splits)
  next
    case True
    then obtain out com where
      p: "print_header (env_cmds env) PARSE_STRICT (hdr m) (tx_BufSize tx) = Parsed (out, Some com)"
      by blast
    show ?thesis
    proof (cases "write_quals (write_value (env_bound env) (env_lib env) (env_groups env))
        (qualified_list (com_dict com)) (acl m) (tx_BufSize tx) out")
      case (Thrown err)
      show ?thesis
      proof (cases "err = PNormal AAA_OUT_OF_SPACE \<and>
          tx_BlockCount tx < MSG_COLLECTOR_MAX_MSG_BLOCK")
        case retry: True
        have "SafeSend env sz m (enlarge sz tx) = (tx', r)"
          using "1.prems"(1) p Thrown retry by (subst (asm) SafeSend.simps) simp
        from "1.IH" [OF p refl refl Thrown retry this tx_ok_enlarge]
        show ?thesis using "1.prems"(2) retry by (auto simp: enlarge_def)
      next
        case False
        then show ?thesis
          using "1.prems" p Thrown by (subst (asm) SafeSend.simps) (auto split: if_splits)
      qed
    qed (use "1.prems" p in \<open>subst (asm) SafeSend.simps,
        auto simp: print_message_def Let_def split: parsed.splits\<close>)+
  qed
qed

section \<open>From the transmitter to the receiver\<close>

text \<open>
  Messages of a command of the dictionary whose AVPs the dictionary can describe; what the
  other side sees of such a message when its octets are \<open>n\<close> many.
\<close>

definition msg_command :: "rx_env \<Rightarrow> diameter_msg \<Rightarrow> command option" where
  "msg_command env m =
     command_search (ucast (code (hdr m))) (appId (hdr m)) (flag_r (flags (hdr m))) (env_cmds env)"

definition sendable :: "rx_env \<Rightarrow> diameter_msg \<Rightarrow> bool" where
  "sendable env m \<longleftrightarrow>
     (case msg_command env m of
        None \<Rightarrow> False
      | Some com \<Rightarrow> (flag_p (flags (hdr m)) \<longrightarrow> com_p com) \<and> dict_ok (com_dict com))"

definition received :: "rx_env \<Rightarrow> diameter_msg \<Rightarrow> nat \<Rightarrow> diameter_msg" where
  "received env m n =
     \<lparr>hdr = (hdr m)\<lparr>len := of_nat n\<rparr>,
      acl = (case msg_command env m of
               None \<Rightarrow> []
             | Some com \<Rightarrow> dict_view (value_view (env_bound env) (env_groups env))
                             (qualified_list (com_dict com)) (acl m))\<rparr>"

lemma printed_framed:
  assumes p: "print_message (env_bound env) (env_lib env) (env_groups env) (env_cmds env) cap m =
      Parsed (bs, m')"
    and "sendable env m" and g: "groups_ok (env_groups env)"
    and cap: "4 dvd cap" "cap < 16777216" and l: "20 < length bs"
  shows "framed env (bs, received env m (length bs))"
proof -
  obtain com where c: "command_search (ucast (code (hdr m))) (appId (hdr m))
      (flag_r (flags (hdr m))) (env_cmds env) = Some com"
    and px: "flag_p (flags (hdr m)) \<longrightarrow> com_p com" and d: "dict_ok (com_dict com)"
    using assms(2) by (auto simp: sendable_def msg_command_def split: option.splits)
  note rt = message_roundtrip_aux [OF p c px d g cap]
  have "length bs < 16777216" using rt cap(2) by (metis le_less_trans)
  then have "unat (of_nat (length bs) :: 24 word) = length bs" by (subst unat_of_nat) simp
  then show ?thesis
    using rt l c by (simp add: framed_def received_def msg_command_def DIAMETER_HEADER_SIZE_def)
qed

lemma tx_drain_framed:
  assumes "tx_drain env sz q tx = (tx', map (\<lambda>bs. (io, TxSent bs)) bss)" and "tx_ok sz tx"
    and "\<forall>m \<in> set (map fst q). sendable env m" and "groups_ok (env_groups env)"
    and "4 dvd sz" "sz * MSG_COLLECTOR_MAX_MSG_BLOCK < 16777216" and "\<forall>bs \<in> set bss. 20 < length bs"
  shows "length bss = length q \<and>
    list_all (framed env) (zip bss (map2 (\<lambda>(m, _) bs. received env m (length bs)) q bss))"
  using assms
proof (induction q arbitrary: tx bss)
  case (Cons d q)
  obtain m io' where d: "d = (m, io')" by (cases d)
  obtain tx1 r where s: "SafeSend env sz m tx = (tx1, r)" by fastforce
  obtain tx2 rs where t: "tx_drain env sz q tx1 = (tx2, rs)" by fastforce
  from Cons.prems(1) s t d obtain bs bss1 where
    b: "bss = bs # bss1" "r = TxSent bs" "rs = map (\<lambda>bs. (io, TxSent bs)) bss1" "tx2 = tx'"
    by auto
  from SafeSend_prints [OF s Cons.prems(2)] b(2) obtain m' where
    p: "print_message (env_bound env) (env_lib env) (env_groups env) (env_cmds env)
      (tx_BufSize tx1) m = Parsed (bs, m')" and ok: "tx_ok sz tx1" by blast
  have "sz * tx_BlockCount tx1 \<le> sz * MSG_COLLECTOR_MAX_MSG_BLOCK"
    using ok by (simp add: tx_ok_def)
  from le_less_trans [OF this Cons.prems(6)]
  have cap: "4 dvd tx_BufSize tx1" "tx_BufSize tx1 < 16777216"
    using ok Cons.prems(5) by (simp_all add: tx_ok_def)
  have "sendable env m" "20 < length bs" using Cons.prems(3,7) d b by simp_all
  from printed_framed [OF p this(1) Cons.prems(4) cap this(2)]
  have "framed env (bs, received env m (length bs))" .
  moreover have "length bss1 = length q \<and>
      list_all (framed env) (zip bss1 (map2 (\<lambda>(m, _) bs. received env m (length bs)) q bss1))"
    using Cons.IH [of tx1 bss1] ok Cons.prems(3-7) t b by simp
  ultimately show ?case using b d by simp
qed simp


section \<open>Streams the receiver does not get through\<close>

lemma rx_stuck:
  assumes "rx_body env bad s = (s, bad', evs, RxAgain)" "rx_body env bad' s = (s, bad', evs, RxAgain)"
    and "rx_Offset s > DIAMETER_HEADER_SIZE"
  shows "rx_inner env n bad s = None"
  using assms
proof (induction n arbitrary: bad)
  case (Suc n)
  then show ?case by (simp add: DIAMETER_HEADER_SIZE_def)
qed simp

lemma read_quals_none:
  assumes "(pt, q) \<in> set qs" and "pt \<noteq> OPTIONAL" and "q_min q \<noteq> 0"
  shows "read_quals vr qs [] lst = Thrown (PNormal AAA_MISSING_AVP)"
proof -
  have m: "read_avp vr p e 0 [] = (Thrown (PNormal AAA_MISSING_AVP), [])" for p e
    by (simp add: read_avp.simps read_header_def)
  from assms(1) show ?thesis
  proof (induction qs)
    case (Cons x qs)
    with assms(2,3) m show ?case by (cases x) auto
  qed simp
qed


end
