(* ===== verification/Collector_Props.thy ===== *)
theory Collector_Props
  imports Wire_Props Msg_Collector
begin

text \<open>
  What the receiver makes of an error in the header, and the properties of the collectors
  at concrete inputs.
\<close>

lemma rx_body_header_error:
  assumes "parse_header (env_cmds env) PARSE_STRICT (take DIAMETER_HEADER_SIZE (rx_Buffer s)) =
      Thrown (PNormal c)" "c \<noteq> AAA_COMMAND_UNSUPPORTED"
    and "raw_header (rx_Buffer s) = h" "rx_MsgLength s = 0"
    and "rx_Offset s < unat (len h)" "unat (len h) \<le> rx_BufSize s"
  shows "rx_body env bad s =
    (s\<lparr>rx_MsgLength := unat (len h)\<rparr>, True, [RxAnswer (GenerateHdr (env_cfg env) h c)], RxBreak)"
  using assms by (simp add: rx_body_def rx_process_def emit_first_def Let_def)

lemma rx_body_refused_message:
  assumes "parse_header (env_cmds env) PARSE_STRICT (rx_Buffer s) = Thrown err"
    and "raw_header (rx_Buffer s) = h" "0 < rx_MsgLength s" "rx_Offset s = rx_MsgLength s"
  shows "\<exists>s2. rx_body env False s = (s2, False, [RxMessage \<lparr>hdr = h, acl = []\<rparr>], RxAgain) \<and>
    rx_Offset s2 = 0"
  using assms by (simp add: rx_body_def rx_process_def rx_payload_def Let_def rx_consume_def)

lemma rx_copy_header:
  assumes "DIAMETER_HEADER_SIZE < rx_Offset s" "rx_Offset s \<le> rx_BufSize s"
  shows "raw_header (rx_Buffer (rx_copy bs s)) = raw_header (rx_Buffer s)"
    and "parse_header cmds opt (rx_Buffer (rx_copy bs s)) =
      parse_header cmds opt (take DIAMETER_HEADER_SIZE (rx_Buffer s))"
proof -
  let ?b = "rx_Buffer (rx_copy bs s)"
  have l20: "20 \<le> length (rx_Buffer s)" using assms by (simp add: DIAMETER_HEADER_SIZE_def)
  have t: "take 20 ?b = take 20 (rx_Buffer s)"
    using assms by (simp add: rx_copy_def min_def DIAMETER_HEADER_SIZE_def)
  then have lb: "20 \<le> length ?b" using l20 by (metis length_take min.absorb2 min.cobounded1)
  show "raw_header ?b = raw_header (rx_Buffer s)"
    using raw_header_take [OF lb] raw_header_take [OF l20] t by simp
  show "parse_header cmds opt ?b =
      parse_header cmds opt (take DIAMETER_HEADER_SIZE (rx_Buffer s))"
    using parse_header_take [OF lb] t by (simp add: DIAMETER_HEADER_SIZE_def)
qed

text \<open>An error in a header is forgotten at the end of a call.  When only a part of the message
  has arrived the error is answered, and when the rest arrives with the next call the
  refused message is handed to the peer without its AVPs.
\<close>

theorem header_error_forgotten:
  assumes e: "parse_header (env_cmds env) PARSE_STRICT (take DIAMETER_HEADER_SIZE (rx_Buffer s)) =
      Thrown (PNormal c)" and c: "c \<noteq> AAA_COMMAND_UNSUPPORTED"
    and h: "raw_header (rx_Buffer s) = h" and "rx_MsgLength s = 0"
    and off: "DIAMETER_HEADER_SIZE < rx_Offset s"
    and "rx_Offset s < unat (len h)" "rx_Offset s + length bs = unat (len h)"
    and "unat (len h) \<le> rx_BufSize s"
  shows "rx_inner env (Suc k) False s =
      Some (s\<lparr>rx_MsgLength := unat (len h)\<rparr>, True, [RxAnswer (GenerateHdr (env_cfg env) h c)],
        RxBreak) \<and>
    (\<exists>s2. RxMessage_call env (Suc (Suc k)) bs (s\<lparr>rx_MsgLength := unat (len h)\<rparr>) =
      Some (s2, [RxMessage \<lparr>hdr = h, acl = []\<rparr>], RxBreak))"
proof (intro conjI)
  show "rx_inner env (Suc k) False s =
      Some (s\<lparr>rx_MsgLength := unat (len h)\<rparr>, True, [RxAnswer (GenerateHdr (env_cfg env) h c)],
        RxBreak)"
    using rx_body_header_error [OF e c h assms(4,6,8)] off by simp
  let ?s1 = "s\<lparr>rx_MsgLength := unat (len h)\<rparr>"
  let ?t = "rx_copy bs ?s1"
  have "rx_Offset ?s1 \<le> rx_BufSize ?s1" "DIAMETER_HEADER_SIZE < rx_Offset ?s1"
    using assms(6,8) off by simp_all
  then have cp: "raw_header (rx_Buffer ?t) = h"
    "parse_header (env_cmds env) PARSE_STRICT (rx_Buffer ?t) = Thrown (PNormal c)"
    using h e by (simp_all add: rx_copy_header)
  have t: "rx_MsgLength ?t = unat (len h)" "rx_Offset ?t = unat (len h)"
    using assms(7) by (simp_all add: rx_copy_def)
  obtain s2 where body: "rx_body env False ?t =
      (s2, False, [RxMessage \<lparr>hdr = h, acl = []\<rparr>], RxAgain)" and s2: "rx_Offset s2 = 0"
    using rx_body_refused_message [OF cp(2,1)] t off assms(6) by auto
  have "DIAMETER_HEADER_SIZE < rx_Offset ?t" using t off assms(6) by simp
  then have "rx_inner env (Suc (Suc k)) False ?t =
      Some (s2, False, [RxMessage \<lparr>hdr = h, acl = []\<rparr>], RxBreak)"
    using body s2 by (simp add: emit_first_def)
  moreover have "bs \<noteq> []" "min (length bs) (rx_BufSize s - rx_Offset s) = length bs"
    using assms(6-8) by auto
  ultimately show "\<exists>s2. RxMessage_call env (Suc (Suc k)) bs ?s1 =
      Some (s2, [RxMessage \<lparr>hdr = h, acl = []\<rparr>], RxBreak)"
    by (simp add: RxMessage_call_def Let_def del: rx_inner.simps)
qed

section \<open>Concrete inputs\<close>

definition sample_cfg :: dia_config where
  "sample_cfg =
     \<lparr>cfg_identity = ''me'', cfg_realm = ''r'', cfg_watchdog_timeout = 30,
      cfg_reconnect_interval = 30, cfg_reconnect_max = 3, cfg_retx_interval = 10,
      cfg_retx_max_count = 3, cfg_advertised_hostname = [], cfg_product = ''p'', cfg_version = 1,
      cfg_vendor = 0, cfg_supportedVendorIdLst = [], cfg_authAppIdLst = [1],
      cfg_acctAppIdLst = [], cfg_vendorSpecificId = [], cfg_originStateId = 1\<rparr>"

definition sample_env :: rx_env where
  "sample_env =
     \<lparr>env_bound = 1, env_lib = sample_lib, env_groups = [sample_group], env_cmds = [sample_command],
      env_cfg = sample_cfg\<rparr>"

definition sample_tx :: tx_collector where
  "sample_tx = Tx_Send sample_msg 3 (TxCollector_start 28)"

text \<open>The message needs a buffer of two blocks.\<close>

lemma sample_tx_sent:
  "Tx_svc sample_env 28 sample_tx =
     (\<lparr>tx_SendQueue = [], tx_BufSize = 56, tx_BlockCount = 2\<rparr>, [(3, TxSent sample_octets)])"
  by code_simp

text \<open>
  With blocks of 24 octets the header of the first AVP does not fit, which is an error of
  another kind, and the message is dropped.
\<close>

lemma header_overflow_drops:
  "Tx_svc sample_env 24 (Tx_Send sample_msg 3 (TxCollector_start 24)) =
     (TxCollector_start 24, [(3, TxFailed)])"
  by code_simp


text \<open>A header of length zero, and one octet more.\<close>

definition hanging_octets :: octets where
  "hanging_octets =
     [1, 0, 0, 0, 128, 0, 1, 24, 0, 0, 0, 0, 0, 0, 0, 7, 0, 0, 0, 9, 0]"

definition hanging_state :: rx_collector where
  "hanging_state =
     \<lparr>rx_Buffer = hanging_octets, rx_Offset = 21, rx_MsgLength = 0,
      rx_PersistentError = error_limit 21\<rparr>"


text \<open>A header that wrongly claims to be proxiable, in a message of 24 octets.\<close>

definition refused_octets :: octets where
  "refused_octets =
     [1, 0, 0, 24, 192, 0, 1, 24, 0, 0, 0, 0, 0, 0, 0, 7, 0, 0, 0, 9, 0, 0, 0, 0]"

definition refused_state :: rx_collector where
  "refused_state =
     \<lparr>rx_Buffer = refused_octets, rx_Offset = 22, rx_MsgLength = 0,
      rx_PersistentError = error_limit 24\<rparr>"

theorem header_error_forgotten_witness:
  "\<exists>s2. RxMessage_call sample_env 2 [0, 0] (refused_state\<lparr>rx_MsgLength := 24\<rparr>) =
     Some (s2, [RxMessage \<lparr>hdr = raw_header refused_octets, acl = []\<rparr>], RxBreak)"
proof -
  have "parse_header (env_cmds sample_env) PARSE_STRICT
      (take DIAMETER_HEADER_SIZE (rx_Buffer refused_state)) =
      Thrown (PNormal AAA_INVALID_BIT_IN_HEADER)" by code_simp
  moreover have "AAA_INVALID_BIT_IN_HEADER \<noteq> AAA_COMMAND_UNSUPPORTED" by code_simp
  moreover have "unat (len (raw_header refused_octets)) = 24" by code_simp
  moreover have "rx_Buffer refused_state = refused_octets" "rx_MsgLength refused_state = 0"
    "rx_Offset refused_state = 22" "rx_BufSize refused_state = 24"
    by (simp_all add: refused_state_def refused_octets_def)
  ultimately show ?thesis
    using header_error_forgotten [of sample_env refused_state AAA_INVALID_BIT_IN_HEADER
        "raw_header refused_octets" "[0, 0]" 0]
    by (simp add: DIAMETER_HEADER_SIZE_def numeral_2_eq_2 del: rx_inner.simps)
qed

end
