(* ===== verification/Session_Data.thy ===== *)
theory Session_Data
  imports Peer_Data
begin

text \<open>
  What a session keeps: its identifier with the text form of the Session-Id AVP, the
  identifiers of its last messages and the values that the two sides negotiate
  (\<open>libdiameter/include/aaa_session_attributes.h\<close>, \<open>src/aaa_session_attributes.cxx\<close>).
\<close>

section \<open>Session identifiers\<close>

record session_id =
  sid_High :: u32
  sid_Low :: u32
  DiameterId :: string
  OptionalValue :: string

definition sid_empty :: session_id where
  "sid_empty = \<lparr>sid_High = 0, sid_Low = 0, DiameterId = [], OptionalValue = []\<rparr>"

text \<open>\<open>DiameterSessionCounter::operator++\<close>: neither half ever becomes \<open>0xffffffff\<close>.\<close>

definition counter_inc :: "u32 \<times> u32 \<Rightarrow> u32 \<times> u32" where
  "counter_inc c =
     (let l = snd c + 1;
          (h1, l1) = (if l = 0xffffffff then (fst c + 1, 0) else (fst c, l))
      in (if h1 = 0xffffffff then 0 else h1, l1))"

definition counter_less :: "u32 \<times> u32 \<Rightarrow> u32 \<times> u32 \<Rightarrow> bool" where
  "counter_less c d \<longleftrightarrow> fst c < fst d \<or> fst c = fst d \<and> snd c < snd d"

definition sid_eq :: "session_id \<Rightarrow> session_id \<Rightarrow> bool" where
  "sid_eq a b \<longleftrightarrow>
     sid_High a = sid_High b \<and> sid_Low a = sid_Low b \<and> DiameterId a = DiameterId b \<and>
     (length (OptionalValue a) > 0 \<longrightarrow> OptionalValue a = OptionalValue b)"

text \<open>The data base gives an identifier without a counter the counter \<open>cnt\<close>.\<close>

definition db_assign :: "u32 \<times> u32 \<Rightarrow> session_id \<Rightarrow> session_id" where
  "db_assign cnt i =
     (if sid_High i = 0 \<and> sid_Low i = 0 then i\<lparr>sid_High := fst cnt, sid_Low := snd cnt\<rparr> else i)"

section \<open>Numbers in text\<close>

definition digit_char :: "nat \<Rightarrow> char" where "digit_char n = char_of (48 + n)"

definition digit_of :: "char \<Rightarrow> nat option" where
  "digit_of c = (let n = of_char c in if 48 \<le> n \<and> n \<le> 57 then Some (n - 48) else None)"

text \<open>The conversion \<open>%u\<close>.\<close>

fun dec_text :: "nat \<Rightarrow> string" where
  "dec_text n =
     (if n < 10 then [digit_char n] else dec_text (n div 10) @ [digit_char (n mod 10)])"

declare dec_text.simps [simp del]

text \<open>
  \<open>strtoul\<close> with base 10 and \<open>atoi\<close>: white space, a sign, and the digits up to the first other
  character.  \<open>strtoul\<close> saturates at the largest \<open>unsigned long\<close>; a number that an \<open>int\<close>
  cannot hold is undefined for \<open>atoi\<close>.
\<close>

fun digits_value :: "nat \<Rightarrow> string \<Rightarrow> nat" where
  "digits_value acc [] = acc"
| "digits_value acc (c # cs) =
     (case digit_of c of None \<Rightarrow> acc | Some d \<Rightarrow> digits_value (10 * acc + d) cs)"

definition is_space :: "char \<Rightarrow> bool" where
  "is_space c \<longleftrightarrow> c = CHR '' '' \<or> 9 \<le> (of_char c :: nat) \<and> (of_char c :: nat) \<le> 13"

definition c_number :: "string \<Rightarrow> int" where
  "c_number s =
     (case dropWhile is_space s of
        [] \<Rightarrow> 0
      | c # cs \<Rightarrow>
          if c = CHR ''-'' then - int (digits_value 0 cs)
          else if c = CHR ''+'' then int (digits_value 0 cs)
          else int (digits_value 0 (c # cs)))"

definition strtoul_u32 :: "nat \<Rightarrow> string \<Rightarrow> u32" where
  "strtoul_u32 long_bits s =
     (let v = c_number s in
      if \<bar>v\<bar> \<ge> 2 ^ long_bits then - 1 else of_int (v mod 2 ^ long_bits))"

definition atoi :: "string \<Rightarrow> int option" where
  "atoi s = (let v = c_number s in if - 2147483648 \<le> v \<and> v < 2147483648 then Some v else None)"

section \<open>The text of a session identifier\<close>

text \<open>
  The widths of \<open>size_t\<close> and of \<open>long\<close>: positions in a string are stored in 32-bit variables
  and compared with \<open>npos\<close>, which has the width of \<open>size_t\<close>.
\<close>

record platform =
  size_bits :: nat
  long_bits :: nat

definition find_semicolon :: "string \<Rightarrow> nat \<Rightarrow> nat option" where
  "find_semicolon s pos =
     (let n = pos + length (takeWhile (\<lambda>c. c \<noteq> CHR '';'') (drop pos s)) in
      if n < length s then Some n else None)"

definition find_u32 :: "platform \<Rightarrow> string \<Rightarrow> u32 \<Rightarrow> u32" where
  "find_u32 pf s pos =
     (case find_semicolon s (unat pos) of
        Some i \<Rightarrow> of_nat i | None \<Rightarrow> of_nat (2 ^ size_bits pf - 1))"

definition is_npos :: "platform \<Rightarrow> u32 \<Rightarrow> bool" where
  "is_npos pf w \<longleftrightarrow> unat w = 2 ^ size_bits pf - 1"

datatype aaa_rc =
    AAA_ERR_NOT_FOUND | AAA_ERR_FAILURE | AAA_ERR_SUCCESS | AAA_ERR_NOMEM | AAA_ERR_PROTO
  | AAA_ERR_SECURITY | AAA_ERR_PARAMETER | AAA_ERR_CONFIG | AAA_ERR_UNKNOWN_CMD
  | AAA_ERR_MISSING_AVP | AAA_ERR_ALREADY_INIT | AAA_ERR_TIMED_OUT | AAA_ERR_CANNOT_SEND_MSG
  | AAA_ERR_ALREADY_REGISTERED | AAA_ERR_CANNOT_REGISTER | AAA_ERR_NOT_INITIALIZED
  | AAA_ERR_NETWORK_ERROR | AAA_ERR_MSG_UNPROCESSED | AAA_ERR_INVALID_STATE
  | AAA_ERR_PARSING_FAILED | AAA_ERR_UNKNOWN_SESSION | AAA_ERR_PARSING_ERROR
  | AAA_ERR_INCOMPLETE | AAA_ERR_NOSERVICE

text \<open>
  \<open>DiameterSessionId::Get\<close> on the value of the AVP; what was assigned before a throw stays
  assigned, and an identifier without an optional value leaves the old one.  \<open>None\<close> is an
  undefined conversion.
\<close>

definition SessionId_Get ::
    "platform \<Rightarrow> string option \<Rightarrow> session_id \<Rightarrow> (aaa_rc \<times> session_id) option" where
  "SessionId_Get pf avp id0 =
     (case avp of
        None \<Rightarrow> Some (AAA_ERR_PARSING_FAILED, id0)
      | Some s \<Rightarrow>
          (let w1 = find_u32 pf s 0 in
           if is_npos pf w1 then Some (AAA_ERR_PARSING_FAILED, id0)
           else
             (let id1 = id0\<lparr>DiameterId := take (unat w1) s\<rparr>;
                  p1 = w1 + 1;
                  w2 = find_u32 pf s p1
              in if is_npos pf w2 then Some (AAA_ERR_PARSING_FAILED, id1)
                 else
                   (let high = take (unat (w2 - p1)) (drop (unat p1) s);
                        id2 = id1\<lparr>sid_High := strtoul_u32 (long_bits pf) high\<rparr>;
                        p2 = w2 + 1;
                        w3 = find_u32 pf s p2
                    in if is_npos pf w3 then
                         map_option (\<lambda>l. (AAA_ERR_SUCCESS, id2\<lparr>sid_Low := of_int l\<rparr>))
                           (atoi (drop (unat p2) s))
                       else
                         map_option (\<lambda>l. (AAA_ERR_SUCCESS,
                             id2\<lparr>sid_Low := of_int l, OptionalValue := drop (unat (w3 + 1)) s\<rparr>))
                           (atoi (take (unat (w3 - p2)) (drop (unat p2) s)))))))"

definition sid_text :: "session_id \<Rightarrow> string" where
  "sid_text i =
     DiameterId i @ '';'' @ dec_text (unat (sid_High i)) @ '';'' @ dec_text (unat (sid_Low i))
      @ (if length (OptionalValue i) > 0 then '';'' @ OptionalValue i else [])"

definition SessionId_Set :: "session_id \<Rightarrow> diameter_msg \<Rightarrow> diameter_msg" where
  "SessionId_Set i m = m\<lparr>acl := AddAvp ''SessionId'' False (AStr (sid_text i)) (acl m)\<rparr>"

subsection \<open>Reading back what was written\<close>

lemma digit_of_digit_char: "n < 10 \<Longrightarrow> digit_of (digit_char n) = Some n"
  by (simp add: digit_of_def digit_char_def)

lemma digits_value_dec_text:
  "digits_value acc (dec_text n @ rest) =
     digits_value (acc * 10 ^ length (dec_text n) + n) rest"
proof (induction n arbitrary: acc rest rule: dec_text.induct)
  case (1 n)
  show ?case
  proof (cases "n < 10")
    case True
    then show ?thesis by (simp add: dec_text.simps digit_of_digit_char algebra_simps)
  next
    case False
    have d: "dec_text n = dec_text (n div 10) @ [digit_char (n mod 10)]"
      using False by (subst dec_text.simps) simp
    have n: "n = 10 * (n div 10) + n mod 10" by simp
    show ?thesis
      unfolding d using "1.IH" [OF False, of acc "[digit_char (n mod 10)] @ rest"] n
      by (simp add: digit_of_digit_char algebra_simps)
  qed
qed

lemma dec_text_head: "\<exists>c cs. dec_text n = c # cs \<and> digit_of c \<noteq> None"
proof (induction n rule: dec_text.induct)
  case (1 n)
  then show ?case
    by (subst dec_text.simps) (auto simp: digit_of_digit_char)
qed

lemma digit_not_special:
  assumes "digit_of c \<noteq> None"
  shows "\<not> is_space c" "c \<noteq> CHR ''-''" "c \<noteq> CHR ''+''" "c \<noteq> CHR '';''"
  using assms by (auto simp: digit_of_def is_space_def Let_def split: if_splits)

lemma dec_text_digits: "c \<in> set (dec_text n) \<Longrightarrow> digit_of c \<noteq> None"
proof (induction n rule: dec_text.induct)
  case (1 n)
  then show ?case
    by (subst (asm) dec_text.simps) (auto simp: digit_of_digit_char split: if_splits)
qed

lemma c_number_dec_text: "c_number (dec_text n) = int n"
proof -
  obtain c cs where c: "dec_text n = c # cs" "digit_of c \<noteq> None"
    using dec_text_head by blast
  have "digits_value 0 (dec_text n) = n"
    using digits_value_dec_text [of 0 n "[]"] by simp
  then show ?thesis
    using digit_not_special [OF c(2)] by (simp add: c_number_def c(1))
qed

lemma strtoul_dec_text:
  "32 \<le> b \<Longrightarrow> strtoul_u32 b (dec_text (unat w)) = w"
proof -
  assume "32 \<le> b"
  have "int (unat w) < int 4294967296" using unat_u32 [of w] by (simp only: of_nat_less_iff)
  then have "int (unat w) < 2 ^ 32" by simp
  also have "(2::int) ^ 32 \<le> 2 ^ b" using \<open>32 \<le> b\<close> by (intro power_increasing) simp_all
  finally show ?thesis by (simp add: strtoul_u32_def c_number_dec_text Let_def)
qed

lemma atoi_dec_text: "n < 2147483648 \<Longrightarrow> atoi (dec_text n) = Some (int n)"
  by (simp add: atoi_def c_number_dec_text)

lemma takeWhile_not: "x \<notin> set xs \<Longrightarrow> takeWhile (\<lambda>c. c \<noteq> x) (xs @ x # ys) = xs"
  by (induction xs) auto

lemma takeWhile_not_all: "x \<notin> set xs \<Longrightarrow> takeWhile (\<lambda>c. c \<noteq> x) xs = xs"
  by (induction xs) auto

lemma find_semicolon_at:
  "CHR '';'' \<notin> set xs \<Longrightarrow> find_semicolon (pre @ xs @ CHR '';'' # rest) (length pre) =
     Some (length pre + length xs)"
  by (simp add: find_semicolon_def takeWhile_not Let_def)

lemma find_semicolon_none:
  "CHR '';'' \<notin> set xs \<Longrightarrow> find_semicolon (pre @ xs) (length pre) = None"
  by (simp add: find_semicolon_def takeWhile_not_all Let_def)

lemma dec_text_no_semicolon: "CHR '';'' \<notin> set (dec_text n)"
  using dec_text_digits digit_not_special(4) by blast

text \<open>The positions that are found in a string shorter than \<open>2 ^ 31\<close> are no \<open>npos\<close>.\<close>

definition supported :: "platform \<Rightarrow> bool" where
  "supported pf \<longleftrightarrow> (size_bits pf = 32 \<or> size_bits pf = 64) \<and> 32 \<le> long_bits pf"

lemma of_nat_pos:
  "n < 4294967296 \<Longrightarrow> unat (of_nat n :: u32) = n"
  by (simp add: unat_of_nat)

lemma not_npos: "n < 2147483648 \<Longrightarrow> supported pf \<Longrightarrow> \<not> is_npos pf (of_nat n)"
  by (auto simp: of_nat_pos is_npos_def supported_def)

lemma find_u32_at:
  assumes "CHR '';'' \<notin> set xs" "length pre + length xs < 2147483648"
    and "p = of_nat (length pre)"
  shows "find_u32 pf (pre @ xs @ CHR '';'' # rest) p = of_nat (length pre + length xs)"
  using assms by (simp add: find_u32_def find_semicolon_at of_nat_pos del: of_nat_add)

lemma find_u32_none:
  assumes "CHR '';'' \<notin> set xs" "length pre < 2147483648" "supported pf" "p = of_nat (length pre)"
  shows "find_u32 pf (pre @ xs) p = - 1" and "is_npos pf (- 1) \<longleftrightarrow> size_bits pf = 32"
proof -
  have "(of_nat (2 ^ 32 - 1) :: u32) = - 1" "(of_nat (2 ^ 64 - 1) :: u32) = - 1"
    by simp_all
  then show "find_u32 pf (pre @ xs) p = - 1"
    using assms by (auto simp: find_u32_def find_semicolon_none of_nat_pos supported_def)
  have "unat (- 1 :: u32) = 4294967295" by (simp add: unsigned_minus_1_eq_mask mask_eq_exp_minus_1)
  then show "is_npos pf (- 1) \<longleftrightarrow> size_bits pf = 32"
    using assms(3) by (auto simp: is_npos_def supported_def)
qed

lemma unat_minus_one_diff:
  assumes "k < 4294967296" shows "unat (- 1 - of_nat k :: u32) = 4294967295 - k"
proof -
  have "- 1 - of_nat k = (of_nat (4294967295 - k) :: u32)"
    using assms by (simp add: of_nat_diff)
  moreover have "4294967295 - k < (4294967296 :: nat)" by simp
  ultimately show ?thesis by (simp only: of_nat_pos)
qed

text \<open>
  The reader finds the parts of the text that was written.  What it makes of a missing
  optional value depends on the width of \<open>size_t\<close>.
\<close>

definition read_optional :: "platform \<Rightarrow> string \<Rightarrow> string \<Rightarrow> string \<Rightarrow> string" where
  "read_optional pf text old opt =
     (if opt \<noteq> [] then opt else if size_bits pf = 32 then old else text)"

lemma SessionId_Get_eval:
  assumes "find_u32 pf s 0 = w1" "\<not> is_npos pf w1" "w1 + 1 = p1"
    and "find_u32 pf s p1 = w2" "\<not> is_npos pf w2" "w2 + 1 = p2"
    and "find_u32 pf s p2 = w3"
    and "atoi (if is_npos pf w3 then drop (unat p2) s
      else take (unat (w3 - p2)) (drop (unat p2) s)) = Some l"
  shows "SessionId_Get pf (Some s) id0 =
    Some (AAA_ERR_SUCCESS,
      \<lparr>sid_High = strtoul_u32 (long_bits pf) (take (unat (w2 - p1)) (drop (unat p1) s)),
       sid_Low = of_int l, DiameterId = take (unat w1) s,
       OptionalValue = (if is_npos pf w3 then OptionalValue id0 else drop (unat (w3 + 1)) s)\<rparr>)"
  using assms by (auto simp: SessionId_Get_def Let_def)

lemma sid_text_parts:
  "sid_text i = DiameterId i @ CHR '';'' # dec_text (unat (sid_High i))
     @ CHR '';'' # dec_text (unat (sid_Low i))
     @ (if OptionalValue i = [] then [] else CHR '';'' # OptionalValue i)"
  by (simp add: sid_text_def)

lemma SessionId_Get_text:
  assumes sep: "CHR '';'' \<notin> set (DiameterId i)" and len: "length (sid_text i) < 2147483648"
    and low: "unat (sid_Low i) < 2147483648" and pf: "supported pf"
  shows "SessionId_Get pf (Some (sid_text i)) id0 =
    Some (AAA_ERR_SUCCESS,
      i\<lparr>OptionalValue := read_optional pf (sid_text i) (OptionalValue id0) (OptionalValue i)\<rparr>)"
proof -
  define s D H L where "s = sid_text i" and "D = DiameterId i"
    and "H = dec_text (unat (sid_High i))" and "L = dec_text (unat (sid_Low i))"
  define tl where "tl = (if OptionalValue i = [] then [] else CHR '';'' # OptionalValue i)"
  define d h l where "d = length D" and "h = length H" and "l = length L"
  have s: "s = D @ CHR '';'' # H @ CHR '';'' # L @ tl"
    by (simp add: s_def D_def H_def L_def tl_def sid_text_parts)
  have n: "d + h + l + 2 < 2147483648" using len by (simp add: s s_def [symmetric] d_def h_def l_def)
  have H: "CHR '';'' \<notin> set H" and L: "CHR '';'' \<notin> set L" and D: "CHR '';'' \<notin> set D"
    using sep by (simp_all add: H_def L_def D_def dec_text_no_semicolon)
  note np = not_npos [OF _ pf]
  have w1: "find_u32 pf s 0 = of_nat d"
    using find_u32_at [of D "[]" 0 pf "H @ CHR '';'' # L @ tl"] D n by (simp add: s d_def)
  have w2: "find_u32 pf s (of_nat (d + 1)) = of_nat (d + 1 + h)"
    using find_u32_at [of H "D @ [CHR '';'']" "of_nat (d + 1)" pf "L @ tl"] H n
    by (simp add: s d_def h_def)
  have e: "of_nat d + 1 = (of_nat (d + 1) :: u32)"
    "of_nat (d + 1 + h) + 1 = (of_nat (d + h + 2) :: u32)"
    "of_nat (d + 1 + h) - of_nat (d + 1) = (of_nat h :: u32)" by simp_all
  have u: "unat (of_nat (d + 1) :: u32) = d + 1" "unat (of_nat (d + h + 2) :: u32) = d + h + 2"
    "unat (of_nat d :: u32) = d" "unat (of_nat h :: u32) = h" "unat (of_nat l :: u32) = l"
    "unat (of_nat (d + h + l + 3) :: u32) = d + h + l + 3"
    by (rule of_nat_pos, use n in simp)+
  have parts: "take d s = D" "take h (drop (d + 1) s) = H" "drop (d + h + 2) s = L @ tl"
    by (simp_all add: s d_def h_def)
  have num: "strtoul_u32 (long_bits pf) H = sid_High i" "atoi L = Some (int (unat (sid_Low i)))"
    using pf low by (simp_all add: H_def L_def strtoul_dec_text atoi_dec_text supported_def)
  note ev = SessionId_Get_eval [OF w1 np e(1) w2 np e(2), of _ "int (unat (sid_Low i))" id0]
  show ?thesis
  proof (cases "OptionalValue i = []")
    case True
    have w3: "find_u32 pf s (of_nat (d + h + 2)) = - 1" "is_npos pf (- 1) \<longleftrightarrow> size_bits pf = 32"
      using find_u32_none [of L "D @ CHR '';'' # H @ [CHR '';'']" pf "of_nat (d + h + 2)"] L n pf
        True by (simp_all add: s tl_def d_def h_def add.commute)
    have "take (unat (- 1 - of_nat (d + h + 2) :: u32)) L = L"
      using unat_minus_one_diff [of "d + h + 2"] n by (simp add: l_def [symmetric] del: of_nat_add)
    then have "atoi (if is_npos pf (- 1) then drop (unat (of_nat (d + h + 2) :: u32)) s
        else take (unat (- 1 - of_nat (d + h + 2) :: u32)) (drop (unat (of_nat (d + h + 2) :: u32)) s)) =
        Some (int (unat (sid_Low i)))"
      using num(2) True by (simp only: u parts tl_def) simp
    from ev [OF _ _ w3(1) this] show ?thesis
      using n True w3(2) num(1)
      by (simp only: e u parts) (simp add: s_def [symmetric] D_def read_optional_def)
  next
    case False
    have w3: "find_u32 pf s (of_nat (d + h + 2)) = of_nat (d + h + 2 + l)"
      using find_u32_at [of L "D @ CHR '';'' # H @ [CHR '';'']" "of_nat (d + h + 2)" pf
          "OptionalValue i"] L n False
      by (simp add: s tl_def d_def h_def l_def add.commute add.left_commute)
    have np3: "\<not> is_npos pf (of_nat (d + h + 2 + l))" by (rule np) (use n in simp)
    have e3: "of_nat (d + h + 2 + l) - of_nat (d + h + 2) = (of_nat l :: u32)"
      "of_nat (d + h + 2 + l) + 1 = (of_nat (d + h + l + 3) :: u32)" by simp_all
    have "drop (d + h + l + 3) s = OptionalValue i"
      using False by (simp add: s d_def h_def l_def tl_def numeral_3_eq_3)
    moreover have "atoi (if is_npos pf (of_nat (d + h + 2 + l))
        then drop (unat (of_nat (d + h + 2) :: u32)) s
        else take (unat (of_nat (d + h + 2 + l) - of_nat (d + h + 2) :: u32))
          (drop (unat (of_nat (d + h + 2) :: u32)) s)) = Some (int (unat (sid_Low i)))"
      using num(2) np3 by (simp only: e3 u parts) (simp add: l_def)
    note ev [OF _ _ w3 this]
    ultimately show ?thesis
      using n np3 False num(1)
      by (simp only: e e3 u parts) (simp add: s_def [symmetric] D_def read_optional_def)
  qed
qed

end
