(* ===== verification/Auth_Session.thy ===== *)
theory Auth_Session
  imports Session_Data
begin

text \<open>
  What the client and the server side of an authorization session share: the attributes and
  the state of a session, the call-backs of the application, the delivery of a message to
  the router and the messages of the base protocol
  (\<open>libdiameter/include/aaa_session.h\<close>, \<open>aaa_session.inl\<close>, \<open>aaa_session_fsm.h\<close>,
  \<open>aaa_session_auth_fsm.h\<close>).
\<close>

section \<open>States and events\<close>

datatype auth_st = AST_IDLE | AST_PENDING | AST_OPEN | AST_DISC

datatype auth_ev =
    AEV_REQUEST_ACCESS | AEV_RX_ASR | AEV_RX_ASA_OK | AEV_RX_ASA_FAIL | AEV_RX_ASR_USID
  | AEV_RX_ASR_OK | AEV_RX_ASR_RETRY | AEV_TX_ASR_FAIL | AEV_RX_STR | AEV_RX_STA | AEV_TX_SSAR
  | AEV_RX_SSAR | AEV_TX_SSAA | AEV_RX_SSAA | AEV_RX_RAR | AEV_RX_RAA | AEV_SSAR_OK
  | AEV_SSAR_FAIL | AEV_SSAA_OK | AEV_SSAA_NOSVC | AEV_SSAA_ERROR | AEV_SSAA_FAIL | AEV_REAUTH
  | AEV_LIFETIME_TOUT | AEV_SESSION_TOUT_ST | AEV_SESSION_TOUT_NOST | AEV_SESSION_RECLAIM
  | AEV_ABORT | AEV_STOP

definition SESSION_STATE_MAINTAINED :: u32 where "SESSION_STATE_MAINTAINED = 0"
definition SESSION_NO_STATE_MAINTAINED :: u32 where "SESSION_NO_STATE_MAINTAINED = 1"
definition TIMER_ASR :: int where "TIMER_ASR = 1"
definition TIMER_SESSION :: int where "TIMER_SESSION = 2"
definition TIMER_AUTH :: int where "TIMER_AUTH = 3"
definition AUTH_SESSION_GRACE_PERIOD :: u32 where "AUTH_SESSION_GRACE_PERIOD = 5"
definition AUTH_SESSION_RECLAMATION_PERIOD :: u32 where "AUTH_SESSION_RECLAMATION_PERIOD = 60"
definition AAA_REALM_NOT_SERVED :: u32 where "AAA_REALM_NOT_SERVED = 3003"
definition AAA_AVP_UNSUPPORTED_CODE :: u32 where "AAA_AVP_UNSUPPORTED_CODE = 5001"
definition AAA_AUTHORIZATION_REJECTED :: u32 where "AAA_AUTHORIZATION_REJECTED = 5003"

lemmas timer_type_defs = TIMER_ASR_def TIMER_SESSION_def TIMER_AUTH_def

section \<open>Attributes\<close>

record negotiated =
  neg_value :: u32
  isNegotiated :: bool

definition neg_Set :: "u32 \<Rightarrow> negotiated" where
  "neg_Set v = \<lparr>neg_value = v, isNegotiated = True\<rparr>"

record reauth_value =
  reAuthType :: u32
  resultCode :: u32

text \<open>
  A scholar attribute is its value when it is set.  Every kind of session extends the common
  attributes.
\<close>

record sess_attrs =
  at_SessionId :: session_id
  at_LastTxHopId :: u32
  at_LastTxEndId :: u32
  at_LastRxHopId :: u32
  at_LastRxEndId :: u32
  at_ApplicationId :: u32
  at_DestinationHost :: "string option"
  at_DestinationRealm :: "string option"
  at_Username :: "string option"
  at_SessionTimeout :: negotiated

record auth_attrs = sess_attrs +
  at_ReAuthRequestValue :: "reauth_value option"
  at_AuthSessionState :: negotiated
  at_AuthLifetime :: negotiated
  at_AuthGrace :: negotiated

text \<open>The configuration of authorization sessions.\<close>

record auth_config =
  ac_stateful :: u32
  ac_sessionTm :: u32
  ac_lifetimeTm :: u32
  ac_graceTm :: u32
  ac_abortRetryTm :: u32

text \<open>
  The virtual functions that an application overrides.  Those that set an attribute get the
  value it has and may set another; the handlers of messages return the messages they send
  and a code.
\<close>

record sess_app =
  app_SetDestinationHost :: "string option"
  app_SetDestinationRealm :: "string option"
  app_SetUsername :: "string option"

record auth_app = sess_app +
  app_SetSessionTimeout :: "u32 \<Rightarrow> u32 option"
  app_SetAuthLifetimeTimeout :: "u32 \<Rightarrow> u32 option"
  app_SetAuthGracePeriodTimeout :: "u32 \<Rightarrow> u32 option"
  app_SetAuthSessionState :: "u32 \<Rightarrow> u32 option"
  app_SetClassAvp :: "string option"
  app_ReStart :: "diameter_msg list \<times> aaa_rc"
  app_RequestMsg :: "diameter_msg \<Rightarrow> diameter_msg list \<times> aaa_rc"
  app_AnswerMsg :: "diameter_msg \<Rightarrow> diameter_msg list \<times> aaa_rc"
  app_ReAuthenticate :: "u32 \<Rightarrow> u32"
  app_AbortSession :: aaa_rc
  app_ReClaimSession :: aaa_rc

text \<open>What a session runs in; the router accepts a message or does not.\<close>

record auth_env =
  ae_cfg :: dia_config
  ae_auth :: auth_config
  ae_app :: auth_app
  ae_routed :: "diameter_msg \<Rightarrow> bool"
  ae_platform :: platform

section \<open>A session\<close>

text \<open>Observable calls: of the router, of the application and of the session data base.\<close>

datatype sess_effect =
    Routed diameter_msg
  | NoRealm diameter_msg
  | Discarded diameter_msg
  | CbSuccess
  | CbDisconnect
  | CbSessionTimeout
  | CbAuthorizationTimeout
  | CbAbortSession
  | CbReClaimSession
  | CbReAuthenticate u32
  | CbError diameter_msg
  | CbClassAvp string
  | DbAdd session_id
  | DbRemove session_id
  | ScheduledForDeletion

record auth_session =
  au_state :: auth_st
  au_running :: bool
  au_timers :: "auth_ev timers"
  au_attrs :: auth_attrs
  au_PendingMsg :: "diameter_msg option"
  au_ASRSent :: bool
  au_idgen :: id_gen
  au_effects :: "sess_effect list"
  au_fault :: bool

definition au_emit :: "sess_effect \<Rightarrow> auth_session \<Rightarrow> auth_session" where
  "au_emit e s = s\<lparr>au_effects := au_effects s @ [e]\<rparr>"

definition upd_attrs :: "(auth_attrs \<Rightarrow> auth_attrs) \<Rightarrow> auth_session \<Rightarrow> auth_session" where
  "upd_attrs f s = s\<lparr>au_attrs := f (au_attrs s)\<rparr>"

definition au_cancel_all :: "auth_session \<Rightarrow> auth_session" where
  "au_cancel_all s = s\<lparr>au_timers := CancelAllTimer (au_timers s)\<rparr>"

definition au_cancel :: "int \<Rightarrow> auth_session \<Rightarrow> auth_session" where
  "au_cancel ty s = s\<lparr>au_timers := CancelTimer ty (au_timers s)\<rparr>"

definition au_schedule :: "auth_ev \<Rightarrow> u32 \<Rightarrow> int \<Rightarrow> auth_session \<Rightarrow> auth_session" where
  "au_schedule ev sec ty s = s\<lparr>au_timers := ScheduleTimer ev (unat sec) ty (au_timers s)\<rparr>"

definition stateful :: "auth_session \<Rightarrow> bool" where
  "stateful s \<longleftrightarrow> neg_value (at_AuthSessionState (au_attrs s)) = SESSION_STATE_MAINTAINED"

section \<open>Message identifiers\<close>

definition attrs_MsgIdRx :: "diameter_msg \<Rightarrow> 'a sess_attrs_scheme \<Rightarrow> 'a sess_attrs_scheme" where
  "attrs_MsgIdRx msg a =
     (if flag_r (flags (hdr msg))
      then a\<lparr>at_LastRxHopId := hh (hdr msg), at_LastRxEndId := ee (hdr msg)\<rparr> else a)"

definition attrs_MsgIdTx ::
    "diameter_msg \<Rightarrow> 'a sess_attrs_scheme \<Rightarrow> id_gen
      \<Rightarrow> diameter_msg \<times> 'a sess_attrs_scheme \<times> id_gen" where
  "attrs_MsgIdTx msg a g =
     (if flag_r (flags (hdr msg)) then
        (let (h, g1) = (if hh (hdr msg) = 0 then HopByHopGet g else (hh (hdr msg), g));
             (e, g2) = (if ee (hdr msg) = 0 then EndToEndGet g1 else (ee (hdr msg), g1))
         in (msg\<lparr>hdr := (hdr msg)\<lparr>hh := h, ee := e\<rparr>\<rparr>,
             a\<lparr>at_LastTxHopId := h, at_LastTxEndId := e\<rparr>, g2))
      else
        (msg\<lparr>hdr := (hdr msg)\<lparr>hh := at_LastRxHopId a, ee := at_LastRxEndId a\<rparr>\<rparr>, a, g))"

definition Sess_MsgIdRx :: "diameter_msg \<Rightarrow> auth_session \<Rightarrow> auth_session" where
  "Sess_MsgIdRx msg = upd_attrs (attrs_MsgIdRx msg)"

section \<open>Delivery to the router\<close>

text \<open>
  \<open>DiameterSession::TxDelivery\<close>: what the message lacks of the destination and the user is
  taken from the session or from the application, what it has is kept in the session.
\<close>

definition put_str :: "string \<Rightarrow> string \<Rightarrow> diameter_msg \<Rightarrow> diameter_msg" where
  "put_str name v m = m\<lparr>acl := AddAvp name False (AStr v) (acl m)\<rparr>"

definition put_u32 :: "string \<Rightarrow> u32 \<Rightarrow> diameter_msg \<Rightarrow> diameter_msg" where
  "put_u32 name v m = m\<lparr>acl := AddAvp name False (AU32 v) (acl m)\<rparr>"

definition put_missing :: "string \<Rightarrow> string \<Rightarrow> diameter_msg \<Rightarrow> diameter_msg" where
  "put_missing name v m = (if GetStr name 0 (acl m) = None then put_str name v m else m)"

definition resolve_host ::
    "'b sess_app_scheme \<Rightarrow> diameter_msg \<Rightarrow> 'a sess_attrs_scheme
      \<Rightarrow> diameter_msg \<times> 'a sess_attrs_scheme" where
  "resolve_host app m a =
     (case GetStr ''DestinationHost'' 0 (acl m) of
        Some h \<Rightarrow> (m, a\<lparr>at_DestinationHost := Some h\<rparr>)
      | None \<Rightarrow>
          (case at_DestinationHost a of
             Some h \<Rightarrow> (put_str ''DestinationHost'' h m, a)
           | None \<Rightarrow>
               (case app_SetDestinationHost app of
                  Some h \<Rightarrow> (put_str ''DestinationHost'' h m, a\<lparr>at_DestinationHost := Some h\<rparr>)
                | None \<Rightarrow> (m, a))))"

definition resolve_realm ::
    "'b sess_app_scheme \<Rightarrow> diameter_msg \<Rightarrow> 'a sess_attrs_scheme
      \<Rightarrow> (diameter_msg \<times> 'a sess_attrs_scheme) option" where
  "resolve_realm app m a =
     (case GetStr ''DestinationRealm'' 0 (acl m) of
        Some r \<Rightarrow> Some (m, a\<lparr>at_DestinationRealm := Some r\<rparr>)
      | None \<Rightarrow>
          (case at_DestinationRealm a of
             Some r \<Rightarrow> Some (put_str ''DestinationRealm'' r m, a)
           | None \<Rightarrow>
               (case app_SetDestinationRealm app of
                  Some r \<Rightarrow> Some (put_str ''DestinationRealm'' r m, a\<lparr>at_DestinationRealm := Some r\<rparr>)
                | None \<Rightarrow> if flag_r (flags (hdr m)) then None else Some (m, a))))"

definition resolve_user ::
    "'b sess_app_scheme \<Rightarrow> diameter_msg \<Rightarrow> 'a sess_attrs_scheme
      \<Rightarrow> diameter_msg \<times> 'a sess_attrs_scheme" where
  "resolve_user app m a =
     (case at_Username a of
        Some u \<Rightarrow> (m, a)
      | None \<Rightarrow>
          (case GetStr ''UserName'' 0 (acl m) of
             Some u \<Rightarrow> (m, a\<lparr>at_Username := Some u\<rparr>)
           | None \<Rightarrow>
               (case app_SetUsername app of
                  Some u \<Rightarrow> (put_str ''UserName'' u m, a\<lparr>at_Username := Some u\<rparr>)
                | None \<Rightarrow> (m, a))))"

text \<open>The message that goes to the router on the right, one without a realm on the left.\<close>

definition deliver ::
    "dia_config \<Rightarrow> 'b sess_app_scheme \<Rightarrow> diameter_msg \<Rightarrow> 'a sess_attrs_scheme \<Rightarrow> id_gen
      \<Rightarrow> (diameter_msg + diameter_msg) \<times> 'a sess_attrs_scheme \<times> id_gen" where
  "deliver cfg app m a g =
     (case resolve_host app m a of (m1, a1) \<Rightarrow>
      case resolve_realm app m1 a1 of
        None \<Rightarrow> (Inl m1, a1, g)
      | Some (m2, a2) \<Rightarrow>
          (case resolve_user app m2 a2 of (m3, a3) \<Rightarrow>
             (let m4 = put_missing ''OriginRealm'' (cfg_realm cfg)
                         (put_missing ''OriginHost'' (cfg_identity cfg) m3);
                  m5 = SessionId_Set (at_SessionId a3) m4
              in case attrs_MsgIdTx m5 a3 g of (m6, a4, g1) \<Rightarrow> (Inr m6, a4, g1))))"

definition TxDelivery ::
    "auth_env \<Rightarrow> diameter_msg \<Rightarrow> auth_session \<Rightarrow> aaa_rc \<times> auth_session" where
  "TxDelivery env m s =
     (case deliver (ae_cfg env) (ae_app env) m (au_attrs s) (au_idgen s) of
        (Inl m1, a, g) \<Rightarrow>
          (AAA_ERR_FAILURE, au_emit (NoRealm m1) (s\<lparr>au_attrs := a, au_idgen := g\<rparr>))
      | (Inr m1, a, g) \<Rightarrow>
          (if ae_routed env m1 then AAA_ERR_SUCCESS else AAA_ERR_FAILURE,
           au_emit (Routed m1) (s\<lparr>au_attrs := a, au_idgen := g\<rparr>)))"

section \<open>Messages of the base protocol\<close>

definition optional_str :: "string \<Rightarrow> string option \<Rightarrow> acl" where
  "optional_str name v = (case v of None \<Rightarrow> [] | Some x \<Rightarrow> [(name, [AStr x])])"

text \<open>An attribute that is not set has the empty string as its value.\<close>

definition str_value :: "string option \<Rightarrow> string" where
  "str_value v = (case v of None \<Rightarrow> [] | Some x \<Rightarrow> x)"

definition origin_avps :: "auth_env \<Rightarrow> acl" where
  "origin_avps env =
     [(''OriginHost'', [AStr (cfg_identity (ae_cfg env))]),
      (''OriginRealm'', [AStr (cfg_realm (ae_cfg env))])]"

definition state_id_avp :: "auth_env \<Rightarrow> acl" where
  "state_id_avp env = [(''OriginStateId'', [AU32 (cfg_originStateId (ae_cfg env))])]"

definition base_msg :: "24 word \<Rightarrow> bool \<Rightarrow> session_id \<Rightarrow> acl \<Rightarrow> diameter_msg" where
  "base_msg c request sid l =
     (let m = SessionId_Set sid (MsgWidget c request DIAMETER_BASE_APPLICATION_ID)
      in m\<lparr>acl := acl m @ l\<rparr>)"

definition STR_msg :: "auth_env \<Rightarrow> u32 \<Rightarrow> auth_attrs \<Rightarrow> diameter_msg" where
  "STR_msg env cause a =
     base_msg MSG_SESSIONTERMINATION True (at_SessionId a)
       (origin_avps env
        @ [(''DestinationRealm'', [AStr (str_value (at_DestinationRealm a))]),
           (''AuthApplicationId'', [AU32 (at_ApplicationId a)]),
           (''TerminationCause'', [AU32 cause])]
        @ optional_str ''UserName'' (at_Username a)
        @ optional_str ''DestinationHost'' (at_DestinationHost a)
        @ optional_str ''Class'' (app_SetClassAvp (ae_app env))
        @ state_id_avp env)"

text \<open>ASA and RAA have the same AVPs, an STA has the class in addition.\<close>

definition answer_msg :: "24 word \<Rightarrow> auth_env \<Rightarrow> acl \<Rightarrow> u32 \<Rightarrow> auth_attrs \<Rightarrow> diameter_msg" where
  "answer_msg c env extra rcode a =
     base_msg c False (at_SessionId a)
       ([(''ResultCode'', [AU32 rcode])] @ origin_avps env
        @ optional_str ''UserName'' (at_Username a) @ extra @ state_id_avp env)"

definition STA_msg :: "auth_env \<Rightarrow> u32 \<Rightarrow> auth_attrs \<Rightarrow> diameter_msg" where
  "STA_msg env =
     answer_msg MSG_SESSIONTERMINATION env (optional_str ''Class'' (app_SetClassAvp (ae_app env)))"

text \<open>The requests of the server.\<close>

definition server_request :: "24 word \<Rightarrow> auth_env \<Rightarrow> acl \<Rightarrow> auth_attrs \<Rightarrow> diameter_msg" where
  "server_request c env extra a =
     base_msg c True (at_SessionId a)
       (origin_avps env
        @ [(''DestinationHost'', [AStr (str_value (at_DestinationHost a))]),
           (''DestinationRealm'', [AStr (str_value (at_DestinationRealm a))]),
           (''AuthApplicationId'', [AU32 (at_ApplicationId a)])]
        @ extra @ optional_str ''UserName'' (at_Username a) @ state_id_avp env)"

section \<open>Common parts of the two sides\<close>

text \<open>
  The exchange of a negotiated value: an application's own value replaces it when it is not
  larger, a larger or missing one is overwritten.
\<close>

definition hint_avp :: "string \<Rightarrow> negotiated \<Rightarrow> diameter_msg \<Rightarrow> diameter_msg \<times> negotiated" where
  "hint_avp name n m =
     (if isNegotiated n then (m, n)
      else
        (case GetU32 name 0 (acl m) of
           None \<Rightarrow> (put_u32 name (neg_value n) m, n)
         | Some t \<Rightarrow>
             (if neg_value n < t then (put_u32 name (neg_value n) m, n)
              else (m, n\<lparr>neg_value := t\<rparr>))))"

text \<open>
  A lifetime beyond the session timeout is cut to one less than it, computed in a signed
  variable.
\<close>

definition sane_lifetime :: "u32 \<Rightarrow> u32 \<Rightarrow> u32" where
  "sane_lifetime tout life =
     (if life > tout
      then (let holder = tout - 1 in if 0 \<le> sint holder then holder else holder + 1)
      else life)"

text \<open>The pending message is moved out of the state machine.\<close>

definition with_pending ::
    "(diameter_msg \<Rightarrow> auth_session \<Rightarrow> auth_session) \<Rightarrow> auth_session \<Rightarrow> auth_session" where
  "with_pending f s =
     (case au_PendingMsg s of
        None \<Rightarrow> s\<lparr>au_fault := True\<rparr>
      | Some m \<Rightarrow> f m (s\<lparr>au_PendingMsg := None\<rparr>))"

definition set_au_state :: "auth_st \<Rightarrow> auth_session \<Rightarrow> auth_session" where
  "set_au_state st s = s\<lparr>au_state := st\<rparr>"

definition au_stop :: "auth_session \<Rightarrow> auth_session" where
  "au_stop s = s\<lparr>au_running := False\<rparr>"

definition not_negotiated :: "auth_session \<Rightarrow> auth_session" where
  "not_negotiated = upd_attrs (\<lambda>a. a\<lparr>at_AuthSessionState := (at_AuthSessionState a)
     \<lparr>isNegotiated := False\<rparr>\<rparr>)"

text \<open>The attributes of a new session.\<close>

definition new_attrs :: "auth_config \<Rightarrow> u32 \<Rightarrow> auth_attrs" where
  "new_attrs c app =
     \<lparr>at_SessionId = sid_empty, at_LastTxHopId = 0, at_LastTxEndId = 0, at_LastRxHopId = 0,
      at_LastRxEndId = 0, at_ApplicationId = app, at_DestinationHost = None,
      at_DestinationRealm = None, at_Username = None,
      at_SessionTimeout = \<lparr>neg_value = ac_sessionTm c, isNegotiated = False\<rparr>,
      at_ReAuthRequestValue = None,
      at_AuthSessionState = \<lparr>neg_value = ac_stateful c, isNegotiated = False\<rparr>,
      at_AuthLifetime = \<lparr>neg_value = ac_lifetimeTm c, isNegotiated = False\<rparr>,
      at_AuthGrace = \<lparr>neg_value = ac_graceTm c, isNegotiated = False\<rparr>\<rparr>"

definition new_session :: "auth_config \<Rightarrow> u32 \<Rightarrow> id_gen \<Rightarrow> auth_session" where
  "new_session c app g =
     \<lparr>au_state = AST_IDLE, au_running = False, au_timers = Map.empty, au_attrs = new_attrs c app,
      au_PendingMsg = None, au_ASRSent = False, au_idgen = g, au_effects = [], au_fault = False\<rparr>"

section \<open>Frame facts\<close>

lemma sess_update_simps [effect_simps]:
  "au_state (au_emit e s) = au_state s" "au_running (au_emit e s) = au_running s"
  "au_timers (au_emit e s) = au_timers s" "au_attrs (au_emit e s) = au_attrs s"
  "au_PendingMsg (au_emit e s) = au_PendingMsg s" "au_fault (au_emit e s) = au_fault s"
  "au_ASRSent (au_emit e s) = au_ASRSent s" "au_effects (au_emit e s) = au_effects s @ [e]"
  "au_state (upd_attrs f s) = au_state s" "au_running (upd_attrs f s) = au_running s"
  "au_timers (upd_attrs f s) = au_timers s" "au_attrs (upd_attrs f s) = f (au_attrs s)"
  "au_PendingMsg (upd_attrs f s) = au_PendingMsg s" "au_fault (upd_attrs f s) = au_fault s"
  "au_ASRSent (upd_attrs f s) = au_ASRSent s" "au_effects (upd_attrs f s) = au_effects s"
  by (simp_all add: au_emit_def upd_attrs_def)

lemma sess_timer_simps [effect_simps]:
  "au_state (au_cancel_all s) = au_state s" "au_running (au_cancel_all s) = au_running s"
  "au_timers (au_cancel_all s) = Map.empty" "au_attrs (au_cancel_all s) = au_attrs s"
  "au_PendingMsg (au_cancel_all s) = au_PendingMsg s" "au_fault (au_cancel_all s) = au_fault s"
  "au_ASRSent (au_cancel_all s) = au_ASRSent s" "au_effects (au_cancel_all s) = au_effects s"
  "au_state (au_schedule ev sec ty s) = au_state s"
  "au_running (au_schedule ev sec ty s) = au_running s"
  "au_timers (au_schedule ev sec ty s) = (au_timers s)(ty \<mapsto> (ev, unat sec))"
  "au_attrs (au_schedule ev sec ty s) = au_attrs s"
  "au_PendingMsg (au_schedule ev sec ty s) = au_PendingMsg s"
  "au_fault (au_schedule ev sec ty s) = au_fault s"
  "au_ASRSent (au_schedule ev sec ty s) = au_ASRSent s"
  "au_effects (au_schedule ev sec ty s) = au_effects s"
  by (simp_all add: au_cancel_all_def au_schedule_def CancelAllTimer_def ScheduleTimer_def
      CancelTimer_def)

text \<open>A delivery changes the attributes and the effects only.\<close>

lemma Sess_MsgIdRx_answer: "\<not> flag_r (flags (hdr m)) \<Longrightarrow> Sess_MsgIdRx m s = s"
  by (simp add: Sess_MsgIdRx_def attrs_MsgIdRx_def upd_attrs_def)

lemma Sess_MsgId_frame [effect_simps]:
  "au_state (Sess_MsgIdRx m s) = au_state s" "au_running (Sess_MsgIdRx m s) = au_running s"
  "au_timers (Sess_MsgIdRx m s) = au_timers s" "au_fault (Sess_MsgIdRx m s) = au_fault s"
  "au_PendingMsg (Sess_MsgIdRx m s) = au_PendingMsg s"
  "au_ASRSent (Sess_MsgIdRx m s) = au_ASRSent s" "au_effects (Sess_MsgIdRx m s) = au_effects s"
  "at_AuthSessionState (au_attrs (Sess_MsgIdRx m s)) = at_AuthSessionState (au_attrs s)"
  by (simp_all add: Sess_MsgIdRx_def attrs_MsgIdRx_def effect_simps)

lemma TxDelivery_frame:
  assumes "TxDelivery env m s = (rc, s')"
  shows "au_state s' = au_state s \<and> au_running s' = au_running s \<and> au_timers s' = au_timers s \<and>
     au_PendingMsg s' = au_PendingMsg s \<and> au_fault s' = au_fault s \<and>
     au_ASRSent s' = au_ASRSent s"
  using assms
  by (auto simp: TxDelivery_def effect_simps split: prod.splits sum.splits)

lemma TxDelivery_effects:
  "\<exists>es. au_effects (snd (TxDelivery env m s)) = au_effects s @ es"
proof -
  have "\<exists>es. au_effects s' = au_effects s @ es" if "TxDelivery env m s = (rc, s')" for rc s'
    using that
    by (auto simp: TxDelivery_def effect_simps split: prod.splits sum.splits)
  then show ?thesis by (metis surj_pair snd_conv)
qed

section \<open>What a delivery does to an answer\<close>

text \<open>
  The AVPs that a delivery may add or change, and that two attribute records agree on the
  identifier and on the negotiated values.
\<close>

definition delivery_avp :: "string \<Rightarrow> bool" where
  "delivery_avp n \<longleftrightarrow> List.member [''DestinationHost'', ''DestinationRealm'', ''UserName'',
     ''OriginHost'', ''OriginRealm'', ''SessionId''] n"

definition same_attrs :: "'a sess_attrs_scheme \<Rightarrow> 'a sess_attrs_scheme \<Rightarrow> bool" where
  "same_attrs a b \<longleftrightarrow>
     at_SessionId b = at_SessionId a \<and> at_SessionTimeout b = at_SessionTimeout a \<and>
     at_LastRxHopId b = at_LastRxHopId a \<and> at_LastRxEndId b = at_LastRxEndId a \<and>
     at_ApplicationId b = at_ApplicationId a \<and> sess_attrs.more b = sess_attrs.more a"

definition same_session :: "auth_attrs \<Rightarrow> auth_attrs \<Rightarrow> bool" where
  "same_session a b \<longleftrightarrow>
     at_SessionId b = at_SessionId a \<and> at_SessionTimeout b = at_SessionTimeout a \<and>
     at_AuthSessionState b = at_AuthSessionState a \<and> at_AuthLifetime b = at_AuthLifetime a \<and>
     at_AuthGrace b = at_AuthGrace a \<and> at_LastRxHopId b = at_LastRxHopId a \<and>
     at_LastRxEndId b = at_LastRxEndId a"

definition same_avps :: "diameter_msg \<Rightarrow> diameter_msg \<Rightarrow> bool" where
  "same_avps m m' \<longleftrightarrow>
     hdr m' = hdr m \<and> (\<forall>n. \<not> delivery_avp n \<longrightarrow> GetAvp n 0 (acl m') = GetAvp n 0 (acl m))"

lemma same_avps_refl [simp]: "same_avps m m" "same_attrs a a"
  by (simp_all add: same_avps_def same_attrs_def)

lemma same_avps_trans: "same_avps m m1 \<Longrightarrow> same_avps m1 m2 \<Longrightarrow> same_avps m m2"
  by (simp add: same_avps_def)

lemma same_attrs_trans: "same_attrs a b \<Longrightarrow> same_attrs b c \<Longrightarrow> same_attrs a c"
  by (simp add: same_attrs_def)

lemma same_attrs_session: "same_attrs a b \<Longrightarrow> same_session a b"
  by (cases a; cases b) (simp add: same_attrs_def same_session_def)

lemma AddAvp_same:
  assumes "delivery_avp name"
  shows "same_avps m (m\<lparr>acl := AddAvp name False v (acl m)\<rparr>)"
proof -
  have "n \<noteq> name" if "\<not> delivery_avp n" for n using assms that by blast
  then show ?thesis by (simp add: same_avps_def GetAvp_AddAvp_other)
qed

lemma put_str_same: "delivery_avp name \<Longrightarrow> same_avps m (put_str name v m)"
  by (simp add: put_str_def AddAvp_same)

lemma put_missing_same: "delivery_avp name \<Longrightarrow> same_avps m (put_missing name v m)"
  by (simp add: put_missing_def put_str_same)

lemma SessionId_Set_same: "same_avps m (SessionId_Set i m)"
  by (simp add: SessionId_Set_def AddAvp_same delivery_avp_def)

lemma delivery_names [simp]:
  "delivery_avp ''DestinationHost''" "delivery_avp ''DestinationRealm''" "delivery_avp ''UserName''"
  "delivery_avp ''OriginHost''" "delivery_avp ''OriginRealm''"
  by (simp_all add: delivery_avp_def)

lemma resolve_same:
  "resolve_host app m a = (m', a') \<Longrightarrow> same_avps m m' \<and> same_attrs a a'"
  "resolve_user app m a = (m', a') \<Longrightarrow> same_avps m m' \<and> same_attrs a a'"
  "resolve_realm app m a = Some (m', a') \<Longrightarrow> same_avps m m' \<and> same_attrs a a'"
  by (auto simp: resolve_host_def resolve_user_def resolve_realm_def put_str_same
      same_attrs_def split: option.splits if_splits)

lemma resolve_realm_answer:
  "\<not> flag_r (flags (hdr m)) \<Longrightarrow> resolve_realm app m a \<noteq> None"
  by (auto simp: resolve_realm_def split: option.splits)

text \<open>
  A delivery keeps what the message says beside the names of the parties; the identifiers of
  an answer are those of the last request.
\<close>

definition header_same :: "diameter_msg \<Rightarrow> diameter_msg \<Rightarrow> bool" where
  "header_same m m' \<longleftrightarrow> hdr m' = (hdr m)\<lparr>hh := hh (hdr m'), ee := ee (hdr m')\<rparr>"

lemma deliver_routes:
  assumes "deliver cfg app m a g = (Inr m', a', g')"
  shows "header_same m m'"
    and "\<And>n. \<not> delivery_avp n \<Longrightarrow> GetAvp n 0 (acl m') = GetAvp n 0 (acl m)"
    and "same_attrs a a'"
    and "\<not> flag_r (flags (hdr m)) \<Longrightarrow>
      hdr m' = (hdr m)\<lparr>hh := at_LastRxHopId a, ee := at_LastRxEndId a\<rparr>"
    and "GetStr ''SessionId'' 0 (acl m') = Some (sid_text (at_SessionId a))"
proof -
  obtain m1 a1 where 1: "resolve_host app m a = (m1, a1)" by fastforce
  obtain m2 a2 where 2: "resolve_realm app m1 a1 = Some (m2, a2)"
    using assms 1 by (auto simp: deliver_def split: option.splits prod.splits)
  obtain m3 a3 where 3: "resolve_user app m2 a2 = (m3, a3)" by fastforce
  define m5 where "m5 = SessionId_Set (at_SessionId a3)
    (put_missing ''OriginRealm'' (cfg_realm cfg) (put_missing ''OriginHost'' (cfg_identity cfg) m3))"
  have m5: "same_avps m m5"
    unfolding m5_def using resolve_same(1) [OF 1] resolve_same(3) [OF 2] resolve_same(2) [OF 3]
    by (meson same_avps_trans SessionId_Set_same put_missing_same delivery_names)
  have a3: "same_attrs a a3"
    using resolve_same(1) [OF 1] resolve_same(3) [OF 2] resolve_same(2) [OF 3]
    by (meson same_attrs_trans)
  have d: "attrs_MsgIdTx m5 a3 g = (m', a', g')"
    using assms by (simp add: deliver_def 1 2 3 m5_def [symmetric] split: prod.splits)
  have t: "acl m' = acl m5" "same_attrs a3 a'" "header_same m5 m'"
    "\<not> flag_r (flags (hdr m5)) \<Longrightarrow>
       hdr m' = (hdr m5)\<lparr>hh := at_LastRxHopId a3, ee := at_LastRxEndId a3\<rparr>"
    using d by (auto simp: attrs_MsgIdTx_def same_attrs_def header_same_def Let_def
        split: if_splits prod.splits)
  show "header_same m m'" using t(3) m5 by (simp add: header_same_def same_avps_def)
  show "\<not> delivery_avp n \<Longrightarrow> GetAvp n 0 (acl m') = GetAvp n 0 (acl m)" for n
    using t(1) m5 by (simp add: same_avps_def)
  show "same_attrs a a'" using a3 t(2) by (rule same_attrs_trans)
  show "\<not> flag_r (flags (hdr m)) \<Longrightarrow>
      hdr m' = (hdr m)\<lparr>hh := at_LastRxHopId a, ee := at_LastRxEndId a\<rparr>"
    using t(4) m5 a3 by (simp add: same_avps_def same_attrs_def)
  have "at_SessionId a3 = at_SessionId a" using a3 by (simp add: same_attrs_def)
  then show "GetStr ''SessionId'' 0 (acl m') = Some (sid_text (at_SessionId a))"
    by (simp add: t(1) m5_def SessionId_Set_def GetStr_def GetAvp_AddAvp_same)
qed

lemma deliver_answer:
  assumes "\<not> flag_r (flags (hdr m))"
  obtains m' a' where "deliver cfg app m a g = (Inr m', a', g)"
proof -
  obtain m1 a1 where 1: "resolve_host app m a = (m1, a1)" by fastforce
  note s1 = resolve_same(1) [OF 1]
  have "\<not> flag_r (flags (hdr m1))" using s1 assms by (simp add: same_avps_def)
  then obtain m2 a2 where 2: "resolve_realm app m1 a1 = Some (m2, a2)"
    using resolve_realm_answer by fastforce
  obtain m3 a3 where 3: "resolve_user app m2 a2 = (m3, a3)" by fastforce
  let ?m5 = "SessionId_Set (at_SessionId a3)
    (put_missing ''OriginRealm'' (cfg_realm cfg) (put_missing ''OriginHost'' (cfg_identity cfg) m3))"
  have "same_avps m ?m5"
    using s1 resolve_same(3) [OF 2] resolve_same(2) [OF 3]
    by (meson same_avps_trans SessionId_Set_same put_missing_same delivery_names)
  then have "\<not> flag_r (flags (hdr ?m5))" using assms by (simp add: same_avps_def)
  then show ?thesis
    using that by (simp add: deliver_def 1 2 3 attrs_MsgIdTx_def Let_def)
qed

text \<open>An answer is always routed, with the identifiers of the last request.\<close>

lemma TxDelivery_answer:
  assumes "\<not> flag_r (flags (hdr m))"
  obtains rc m' a' where
    "TxDelivery env m s = (rc, au_emit (Routed m') (s\<lparr>au_attrs := a'\<rparr>))"
    "hdr m' = (hdr m)\<lparr>hh := at_LastRxHopId (au_attrs s), ee := at_LastRxEndId (au_attrs s)\<rparr>"
    "\<And>n. \<not> delivery_avp n \<Longrightarrow> GetAvp n 0 (acl m') = GetAvp n 0 (acl m)"
    "same_session (au_attrs s) a'"
proof -
  obtain m' a' where d: "deliver (ae_cfg env) (ae_app env) m (au_attrs s) (au_idgen s) =
      (Inr m', a', au_idgen s)"
    by (rule deliver_answer [OF assms, of "ae_cfg env" "ae_app env" "au_attrs s" "au_idgen s"])
  note r = deliver_routes [OF d]
  show ?thesis
    using that [of _ m' a'] r(2) r(4) [OF assms] same_attrs_session [OF r(3)]
    by (simp add: TxDelivery_def d)
qed

end
