(* ===== verification/Auth_Client.thy ===== *)
theory Auth_Client
  imports Auth_Session
begin

text \<open>
  The client side of an authorization session: its state table and actions
  (\<open>libdiameter/include/aaa_session_auth_client_fsm.h\<close>,
  \<open>src/aaa_session_auth_client_fsm.cxx\<close>) and the operations of the session
  (\<open>src/aaa_session_client.cxx\<close>).
\<close>

section \<open>State table\<close>

datatype client_ac =
    CAC_Null
  | CAC_TxSSARDiscard
  | CAC_RxSSAADiscard
  | CAC_GrantAccess
  | CAC_TxSTRNoSvc
  | CAC_TxSTRProcError
  | CAC_Cleanup
  | CAC_TxSSAR
  | CAC_RxSSA
  | CAC_Disconnect
  | CAC_RxRAR
  | CAC_SessionTimeoutState
  | CAC_SessionTimeout
  | CAC_TxASATxSTRSuccess
  | CAC_TxASAFail
  | CAC_AuthTimeout
  | CAC_UserAbort
  | CAC_TxASASuccess

definition client_cmds_IDLE :: "(auth_st, auth_ev, client_ac) table_cmd list" where
  "client_cmds_IDLE = [
     Add AST_IDLE AEV_REQUEST_ACCESS AST_PENDING CAC_Null,
     Add AST_IDLE AEV_RX_ASR_USID AST_IDLE CAC_Null,
     Add AST_IDLE AEV_TX_SSAR AST_IDLE CAC_TxSSARDiscard,
     Add AST_IDLE AEV_RX_SSAA AST_IDLE CAC_RxSSAADiscard,
     AddWildcard AST_IDLE AST_IDLE CAC_Null]"

definition client_cmds_PENDING :: "(auth_st, auth_ev, client_ac) table_cmd list" where
  "client_cmds_PENDING = [
     Add AST_PENDING AEV_SSAA_OK AST_OPEN CAC_GrantAccess,
     Add AST_PENDING AEV_SSAA_NOSVC AST_DISC CAC_TxSTRNoSvc,
     Add AST_PENDING AEV_SSAA_ERROR AST_DISC CAC_TxSTRProcError,
     Add AST_PENDING AEV_SSAA_FAIL AST_IDLE CAC_Cleanup,
     Add AST_PENDING AEV_TX_SSAR AST_PENDING CAC_TxSSAR,
     Add AST_PENDING AEV_RX_SSAA AST_PENDING CAC_RxSSA,
     Add AST_PENDING AEV_STOP AST_IDLE CAC_Disconnect,
     AddWildcard AST_PENDING AST_PENDING CAC_Null]"

definition client_cmds_OPEN :: "(auth_st, auth_ev, client_ac) table_cmd list" where
  "client_cmds_OPEN = [
     Add AST_OPEN AEV_REQUEST_ACCESS AST_OPEN CAC_Null,
     Add AST_OPEN AEV_RX_RAR AST_OPEN CAC_RxRAR,
     Add AST_OPEN AEV_SSAA_OK AST_OPEN CAC_GrantAccess,
     Add AST_OPEN AEV_RX_SSAR AST_OPEN CAC_RxSSA,
     Add AST_OPEN AEV_SSAR_OK AST_OPEN CAC_Null,
     Add AST_OPEN AEV_SSAR_FAIL AST_IDLE CAC_Disconnect,
     Add AST_OPEN AEV_SSAA_FAIL AST_IDLE CAC_Disconnect,
     Add AST_OPEN AEV_SESSION_TOUT_ST AST_DISC CAC_SessionTimeoutState,
     Add AST_OPEN AEV_SESSION_TOUT_NOST AST_IDLE CAC_SessionTimeout,
     Add AST_OPEN AEV_RX_ASR_OK AST_DISC CAC_TxASATxSTRSuccess,
     Add AST_OPEN AEV_RX_ASR_RETRY AST_OPEN CAC_TxASAFail,
     Add AST_OPEN AEV_LIFETIME_TOUT AST_DISC CAC_AuthTimeout,
     Add AST_OPEN AEV_STOP AST_IDLE CAC_Disconnect,
     Add AST_OPEN AEV_ABORT AST_DISC CAC_UserAbort,
     Add AST_OPEN AEV_TX_SSAR AST_OPEN CAC_TxSSAR,
     Add AST_OPEN AEV_RX_SSAA AST_OPEN CAC_RxSSA,
     AddWildcard AST_OPEN AST_OPEN CAC_Null]"

definition client_cmds_DISC :: "(auth_st, auth_ev, client_ac) table_cmd list" where
  "client_cmds_DISC = [
     Add AST_DISC AEV_RX_ASR AST_DISC CAC_TxASASuccess,
     Add AST_DISC AEV_RX_STA AST_IDLE CAC_Disconnect,
     Add AST_DISC AEV_SESSION_TOUT_ST AST_IDLE CAC_Disconnect,
     Add AST_DISC AEV_LIFETIME_TOUT AST_IDLE CAC_Disconnect,
     Add AST_DISC AEV_TX_SSAR AST_DISC CAC_TxSSARDiscard,
     Add AST_DISC AEV_RX_SSAA AST_DISC CAC_RxSSAADiscard,
     AddWildcard AST_DISC AST_DISC CAC_Null,
     Init AST_IDLE]"

definition client_cmds :: "(auth_st, auth_ev, client_ac) table_cmd list" where
  "client_cmds =
     client_cmds_IDLE
     @ client_cmds_PENDING
     @ client_cmds_OPEN
     @ client_cmds_DISC"

lemmas client_cmds_defs = client_cmds_def
  client_cmds_IDLE_def
  client_cmds_PENDING_def
  client_cmds_OPEN_def
  client_cmds_DISC_def

definition client_table :: "(auth_st, auth_ev, client_ac) state_table" where
  "client_table = (case build_table client_cmds of Inr t \<Rightarrow> t | Inl _ \<Rightarrow> empty_table)"

lemma build_client_cmds: "\<not> isl (build_table client_cmds)"
  by code_simp

lemma client_table_built: "build_table client_cmds = Inr client_table"
  using build_client_cmds by (cases "build_table client_cmds") (simp_all add: client_table_def)

lemma wf_client_table: "wf_table client_table"
  using client_table_built by (rule wf_build_table)

lemma client_entries: "entries client_table = concat (map cmd_entries client_cmds)"
  using client_table_built by (rule build_table_entries)

section \<open>Actions\<close>

definition Tx :: "auth_env \<Rightarrow> (auth_attrs \<Rightarrow> diameter_msg) \<Rightarrow> auth_session \<Rightarrow> auth_session" where
  "Tx env f s = snd (TxDelivery env (f (au_attrs s)) s)"

definition TxSTR :: "auth_env \<Rightarrow> u32 \<Rightarrow> auth_session \<Rightarrow> auth_session" where
  "TxSTR env cause = Tx env (STR_msg env cause)"

definition TxASA :: "auth_env \<Rightarrow> u32 \<Rightarrow> auth_session \<Rightarrow> auth_session" where
  "TxASA env rcode = Tx env (answer_msg MSG_ABORTSESSION env [] rcode)"

definition TxRAA :: "auth_env \<Rightarrow> u32 \<Rightarrow> auth_session \<Rightarrow> auth_session" where
  "TxRAA env rcode = Tx env (answer_msg MSG_REAUTH env [] rcode)"

text \<open>
  The base protocol messages that a client receives: beside the identifiers, what they carry
  is written to the log only.
\<close>

definition RxASR :: "diameter_msg \<Rightarrow> auth_session \<Rightarrow> auth_session" where
  "RxASR msg s = Sess_MsgIdRx msg s"

definition RxSTA :: "diameter_msg \<Rightarrow> auth_session \<Rightarrow> auth_session" where
  "RxSTA msg s = Sess_MsgIdRx msg s"

definition RxRAR :: "diameter_msg \<Rightarrow> auth_session \<Rightarrow> auth_session" where
  "RxRAR msg s = Sess_MsgIdRx msg s"

declare RxASR_def [simp] RxSTA_def [simp] RxRAR_def [simp]

definition Client_Reset :: "auth_session \<Rightarrow> auth_session" where
  "Client_Reset s =
     (let s1 = not_negotiated (au_stop s) in au_emit (DbRemove (at_SessionId (au_attrs s1))) s1)"

definition ct_GrantAccess :: "auth_session \<Rightarrow> auth_session" where
  "ct_GrantAccess s =
     (let s1 = au_cancel_all s; a = au_attrs s1; tout = neg_value (at_SessionTimeout a) in
      au_emit CbSuccess
        (if stateful s1 then
           au_schedule AEV_LIFETIME_TOUT
             (neg_value (at_AuthLifetime a) + neg_value (at_AuthGrace a)) TIMER_AUTH
             (au_schedule AEV_SESSION_TOUT_ST tout TIMER_SESSION s1)
         else if tout > 0 then au_schedule AEV_SESSION_TOUT_NOST tout TIMER_SESSION s1
         else s1))"

definition ct_RxRAR :: "auth_env \<Rightarrow> auth_session \<Rightarrow> auth_session" where
  "ct_RxRAR env s =
     (case at_ReAuthRequestValue (au_attrs s) of
        None \<Rightarrow> TxRAA env AAA_SUCCESS s
      | Some v \<Rightarrow> TxRAA env (app_ReAuthenticate (ae_app env) (reAuthType v))
                   (au_emit (CbReAuthenticate (reAuthType v)) s))"

text \<open>
  \<open>DiameterClientAuthSession::Send\<close>; the first argument is the notification of the state
  machine.
\<close>

definition Client_Send ::
    "(auth_ev \<Rightarrow> auth_session \<Rightarrow> auth_session) \<Rightarrow> diameter_msg \<Rightarrow> auth_session
      \<Rightarrow> aaa_rc \<times> auth_session" where
  "Client_Send notify msg s =
     (if \<not> au_running s then (AAA_ERR_FAILURE, s)
      else
        (let a = au_attrs s;
             m1 = (if au_state s = AST_IDLE \<and> \<not> isNegotiated (at_AuthSessionState a)
                   then put_u32 ''AuthSessionState'' (neg_value (at_AuthSessionState a)) msg
                   else msg);
             (m2, tout) = hint_avp ''SessionTimeout'' (at_SessionTimeout a) m1;
             (m3, life) = hint_avp ''AuthorizationLifetime'' (at_AuthLifetime a) m2
         in (AAA_ERR_SUCCESS,
             notify AEV_TX_SSAR
               (s\<lparr>au_attrs := a\<lparr>at_SessionTimeout := tout, at_AuthLifetime := life\<rparr>,
                  au_PendingMsg := Some m3\<rparr>))))"

definition client_sends ::
    "(auth_ev \<Rightarrow> auth_session \<Rightarrow> auth_session) \<Rightarrow> diameter_msg list \<Rightarrow> auth_session
      \<Rightarrow> auth_session" where
  "client_sends notify = fold (\<lambda>m s. snd (Client_Send notify m s))"

text \<open>
  \<open>RxHandlerAry\<close>: the event for an answer and for a request, whether it is for stateful
  sessions only, and whether the code is valid for a request.  The number 0 stands for no
  event there.
\<close>

record rx_handler =
  m_AnsEvent :: "auth_ev option"
  m_ReqEvent :: "auth_ev option"
  m_StatefulOnly :: bool
  m_ValidOnRequestMsg :: bool

definition rx_handler :: "aaa_rc \<Rightarrow> rx_handler option" where
  "rx_handler rc =
     (if rc = AAA_ERR_INCOMPLETE then
        Some \<lparr>m_AnsEvent = None, m_ReqEvent = None, m_StatefulOnly = False,
              m_ValidOnRequestMsg = False\<rparr>
      else if rc = AAA_ERR_SUCCESS then
        Some \<lparr>m_AnsEvent = Some AEV_SSAA_OK, m_ReqEvent = Some AEV_SSAR_OK,
              m_StatefulOnly = False, m_ValidOnRequestMsg = True\<rparr>
      else if rc = AAA_ERR_NOSERVICE then
        Some \<lparr>m_AnsEvent = Some AEV_SSAA_NOSVC, m_ReqEvent = None, m_StatefulOnly = True,
              m_ValidOnRequestMsg = False\<rparr>
      else if rc = AAA_ERR_MSG_UNPROCESSED then
        Some \<lparr>m_AnsEvent = Some AEV_SSAA_ERROR, m_ReqEvent = None, m_StatefulOnly = True,
              m_ValidOnRequestMsg = False\<rparr>
      else if rc = AAA_ERR_FAILURE then
        Some \<lparr>m_AnsEvent = Some AEV_SSAA_FAIL, m_ReqEvent = Some AEV_SSAR_FAIL,
              m_StatefulOnly = False, m_ValidOnRequestMsg = True\<rparr>
      else None)"

text \<open>The event that the code of the application selects for a message.\<close>

definition client_rx_event :: "bool \<Rightarrow> aaa_rc \<Rightarrow> auth_session \<Rightarrow> auth_ev option" where
  "client_rx_event request rc s =
     (case rx_handler rc of
        None \<Rightarrow> None
      | Some h \<Rightarrow>
          (if request then (if m_ValidOnRequestMsg h then m_ReqEvent h else None)
           else if m_StatefulOnly h \<and> \<not> stateful s then None
           else m_AnsEvent h))"

definition Client_RxDelivery ::
    "(auth_ev \<Rightarrow> auth_session \<Rightarrow> auth_session) \<Rightarrow> auth_env \<Rightarrow> diameter_msg \<Rightarrow> auth_session
      \<Rightarrow> auth_session" where
  "Client_RxDelivery notify env msg s =
     (let request = flag_r (flags (hdr msg));
          (sent, rc) = (if request then app_RequestMsg (ae_app env) msg
                        else app_AnswerMsg (ae_app env) msg);
          s1 = client_sends notify sent (Sess_MsgIdRx msg s)
      in case client_rx_event request rc s1 of
           None \<Rightarrow> s1
         | Some ev \<Rightarrow> notify ev s1)"

fun client_action ::
    "(auth_ev \<Rightarrow> auth_session \<Rightarrow> auth_session) \<Rightarrow> auth_env \<Rightarrow> client_ac \<Rightarrow> auth_session
      \<Rightarrow> auth_session" where
  "client_action notify env CAC_Null s = s"
| "client_action notify env CAC_TxSSAR s = with_pending (\<lambda>m s. snd (TxDelivery env m s)) s"
| "client_action notify env CAC_TxSSARDiscard s = with_pending (\<lambda>m. au_emit (Discarded m)) s"
| "client_action notify env CAC_RxSSA s = with_pending (Client_RxDelivery notify env) s"
| "client_action notify env CAC_RxSSAADiscard s = with_pending (\<lambda>m. au_emit (Discarded m)) s"
| "client_action notify env CAC_GrantAccess s = ct_GrantAccess s"
| "client_action notify env CAC_RxRAR s = ct_RxRAR env s"
| "client_action notify env CAC_TxSTRNoSvc s = TxSTR env AAA_REALM_NOT_SERVED s"
| "client_action notify env CAC_TxSTRProcError s = TxSTR env AAA_AVP_UNSUPPORTED_CODE s"
| "client_action notify env CAC_SessionTimeout s =
     Client_Reset (au_emit CbSessionTimeout (au_cancel_all s))"
| "client_action notify env CAC_SessionTimeoutState s =
     au_emit CbSessionTimeout (TxSTR env AAA_AUTHORIZATION_REJECTED (au_cancel_all s))"
| "client_action notify env CAC_AuthTimeout s =
     au_emit CbAuthorizationTimeout (TxSTR env AAA_AUTHORIZATION_REJECTED (au_cancel_all s))"
| "client_action notify env CAC_UserAbort s = TxSTR env AAA_AUTHORIZATION_REJECTED (au_cancel_all s)"
| "client_action notify env CAC_TxASASuccess s = TxASA env AAA_SUCCESS s"
| "client_action notify env CAC_TxASATxSTRSuccess s = TxSTR env AAA_SUCCESS (TxASA env AAA_SUCCESS s)"
| "client_action notify env CAC_TxASAFail s = TxASA env AAA_UNABLE_TO_COMPLY s"
| "client_action notify env CAC_Disconnect s =
     Client_Reset (au_cancel_all (au_emit CbDisconnect s))"
| "client_action notify env CAC_Cleanup s =
     Client_Reset (au_emit CbAbortSession (au_cancel_all s))"

text \<open>
  The notification of an event.  An action may notify another event; the number bounds the
  nesting, and exceeding it counts as a fault.
\<close>

primrec client_event :: "nat \<Rightarrow> auth_env \<Rightarrow> auth_ev \<Rightarrow> auth_session \<Rightarrow> auth_session" where
  "client_event 0 env = (\<lambda>ev s. s\<lparr>au_fault := True\<rparr>)"
| "client_event (Suc n) env =
     (\<lambda>ev s. sm_event client_table au_running au_state set_au_state
        (client_action (client_event n env) env) ev s)"

definition Client_Notify :: "auth_env \<Rightarrow> auth_ev \<Rightarrow> auth_session \<Rightarrow> auth_session" where
  "Client_Notify = client_event 2"

section \<open>Operations\<close>

definition assign_opt :: "(u32 \<Rightarrow> u32 option) \<Rightarrow> u32 \<Rightarrow> negotiated \<Rightarrow> negotiated" where
  "assign_opt f v n = (case f v of None \<Rightarrow> n | Some x \<Rightarrow> n\<lparr>neg_value := x\<rparr>)"

definition begin_attrs :: "auth_env \<Rightarrow> auth_attrs \<Rightarrow> auth_attrs" where
  "begin_attrs env a =
     (let app = ae_app env; c = ae_auth env;
          fresh = (\<lambda>n. n\<lparr>isNegotiated := False\<rparr>);
          tout = assign_opt (app_SetSessionTimeout app) (ac_sessionTm c)
                   (fresh (at_SessionTimeout a));
          life = assign_opt (app_SetAuthLifetimeTimeout app) (ac_lifetimeTm c)
                   (fresh (at_AuthLifetime a));
          grace = assign_opt (app_SetAuthGracePeriodTimeout app) (ac_graceTm c)
                    (fresh (at_AuthGrace a))
      in a\<lparr>at_SessionTimeout := tout,
           at_AuthLifetime := life\<lparr>neg_value := sane_lifetime (neg_value tout) (neg_value life)\<rparr>,
           at_AuthGrace := grace\<rparr>)"

definition begin_start :: "auth_env \<Rightarrow> string option \<Rightarrow> u32 \<times> u32 \<Rightarrow> auth_session \<Rightarrow> auth_session" where
  "begin_start env optionValue cnt s =
     (let a = au_attrs s;
          st = assign_opt (app_SetAuthSessionState (ae_app env)) (ac_stateful (ae_auth env))
                 (at_AuthSessionState a);
          i = (at_SessionId a)\<lparr>DiameterId := cfg_identity (ae_cfg env) @ ''.''
                 @ cfg_realm (ae_cfg env)\<rparr>;
          i1 = (case optionValue of None \<Rightarrow> i | Some v \<Rightarrow> i\<lparr>OptionalValue := v\<rparr>);
          i2 = db_assign cnt i1
      in au_emit (DbAdd i2)
           (s\<lparr>au_attrs := a\<lparr>at_AuthSessionState := st, at_SessionId := i2\<rparr>,
              au_state := AST_IDLE, au_running := True\<rparr>))"

definition Client_Begin ::
    "auth_env \<Rightarrow> string option \<Rightarrow> u32 \<times> u32 \<Rightarrow> auth_session \<Rightarrow> auth_session" where
  "Client_Begin env optionValue cnt s =
     (let s1 = upd_attrs (begin_attrs env) s;
          s2 = (if au_running s1 then s1 else begin_start env optionValue cnt s1);
          (sent, rc) = app_ReStart (ae_app env);
          s3 = client_sends (Client_Notify env) sent s2
      in if rc = AAA_ERR_SUCCESS then Client_Notify env AEV_REQUEST_ACCESS s3 else au_stop s3)"

definition Client_RxRequest :: "auth_env \<Rightarrow> diameter_msg \<Rightarrow> auth_session \<Rightarrow> auth_session" where
  "Client_RxRequest env msg s =
     (if code (hdr msg) = MSG_ABORTSESSION \<and> stateful s then
        (let s1 = au_emit CbAbortSession (RxASR msg s) in
         if app_AbortSession (ae_app env) = AAA_ERR_SUCCESS
         then Client_Notify env AEV_RX_ASR_OK s1 else Client_Notify env AEV_RX_ASR_RETRY s1)
      else if code (hdr msg) = MSG_SESSIONTERMINATION then au_emit (Discarded msg) s
      else if code (hdr msg) = MSG_REAUTH then
        (let s1 = RxRAR msg s in
         case GetU32 ''ReAuthRequestType'' 0 (acl msg) of
           Some t \<Rightarrow>
             Client_Notify env AEV_RX_RAR
               (upd_attrs (\<lambda>a. a\<lparr>at_ReAuthRequestValue :=
                  Some \<lparr>reAuthType = 0, resultCode = t\<rparr>\<rparr>) s1)
         | None \<Rightarrow> upd_attrs (\<lambda>a. a\<lparr>at_ReAuthRequestValue := None\<rparr>) s1)
      else Client_Notify env AEV_RX_SSAR (s\<lparr>au_PendingMsg := Some msg\<rparr>))"

text \<open>The answer of the server dictates the values that are not negotiated yet.\<close>

definition dictated :: "string \<Rightarrow> diameter_msg \<Rightarrow> negotiated \<Rightarrow> negotiated" where
  "dictated name m n =
     (if isNegotiated n then n
      else (case GetU32 name 0 (acl m) of None \<Rightarrow> n | Some v \<Rightarrow> neg_Set v))"

definition dictate_all :: "diameter_msg \<Rightarrow> auth_attrs \<Rightarrow> auth_attrs" where
  "dictate_all m a =
     a\<lparr>at_AuthSessionState := dictated ''AuthSessionState'' m (at_AuthSessionState a),
       at_SessionTimeout := dictated ''SessionTimeout'' m (at_SessionTimeout a),
       at_AuthLifetime := dictated ''AuthorizationLifetime'' m (at_AuthLifetime a),
       at_AuthGrace := dictated ''AuthGracePeriod'' m (at_AuthGrace a)\<rparr>"

definition Client_RxAnswer :: "auth_env \<Rightarrow> diameter_msg \<Rightarrow> auth_session \<Rightarrow> auth_session" where
  "Client_RxAnswer env msg s =
     (if code (hdr msg) = MSG_SESSIONTERMINATION then
        (if stateful s then Client_Notify env AEV_RX_STA (RxSTA msg s) else s)
      else if code (hdr msg) = MSG_ABORTSESSION then au_emit (Discarded msg) s
      else
        Client_Notify env AEV_RX_SSAA
          ((upd_attrs (dictate_all msg) s)\<lparr>au_PendingMsg := Some msg\<rparr>))"

definition Client_RxError :: "diameter_msg \<Rightarrow> auth_session \<Rightarrow> auth_session" where
  "Client_RxError msg = au_emit (CbError msg)"

definition Client_End :: "auth_env \<Rightarrow> auth_session \<Rightarrow> auth_session" where
  "Client_End env s =
     (if au_running s then Client_Notify env (if stateful s then AEV_ABORT else AEV_STOP) s else s)"

text \<open>A timer of the state machine expires; the reactor keeps it armed.\<close>

definition Client_Timeout :: "auth_env \<Rightarrow> int \<Rightarrow> auth_session \<Rightarrow> auth_session" where
  "Client_Timeout env ty s =
     (case au_timers s ty of None \<Rightarrow> s | Some (ev, sec) \<Rightarrow> Client_Notify env ev s)"

end
