(* ===== verification/Auth_Client_Inv.thy ===== *)
theory Auth_Client_Inv
  imports Auth_Client
begin

text \<open>
  The invariant of a client session: no null message is dereferenced and the nesting bound
  suffices, and timers are armed only while the session is open or waits for its
  termination to be answered.
\<close>

section \<open>The invariant\<close>

definition open_timers :: "auth_ev timers \<Rightarrow> bool" where
  "open_timers t \<longleftrightarrow>
     t = Map.empty \<or>
     (\<exists>a. t = [TIMER_SESSION \<mapsto> (AEV_SESSION_TOUT_NOST, a)]) \<or>
     (\<exists>a b. t = [TIMER_SESSION \<mapsto> (AEV_SESSION_TOUT_ST, a), TIMER_AUTH \<mapsto> (AEV_LIFETIME_TOUT, b)])"

definition client_inv :: "auth_session \<Rightarrow> bool" where
  "client_inv s \<longleftrightarrow>
     \<not> au_fault s \<and> open_timers (au_timers s) \<and>
     (au_timers s \<noteq> Map.empty \<longrightarrow> au_running s \<and> au_state s \<in> {AST_OPEN, AST_DISC})"

text \<open>The events that carry a message.\<close>

definition carries_msg :: "auth_ev \<Rightarrow> bool" where
  "carries_msg ev \<longleftrightarrow> ev = AEV_TX_SSAR \<or> ev = AEV_RX_SSAA \<or> ev = AEV_RX_SSAR"

definition client_adm :: "auth_ev \<Rightarrow> auth_session \<Rightarrow> bool" where
  "client_adm ev s \<longleftrightarrow> carries_msg ev \<longrightarrow> au_PendingMsg s \<noteq> None"

lemma open_timers_empty [simp]: "open_timers Map.empty"
  by (simp add: open_timers_def)

section \<open>Frame facts of the actions\<close>

lemma Tx_frame [effect_simps]:
  "au_state (Tx env f s) = au_state s" "au_running (Tx env f s) = au_running s"
  "au_timers (Tx env f s) = au_timers s" "au_fault (Tx env f s) = au_fault s"
  by (cases "TxDelivery env (f (au_attrs s)) s"; simp add: Tx_def TxDelivery_frame)+

lemma TxDelivery_snd [effect_simps]:
  "au_state (snd (TxDelivery env m s)) = au_state s"
  "au_running (snd (TxDelivery env m s)) = au_running s"
  "au_timers (snd (TxDelivery env m s)) = au_timers s"
  "au_fault (snd (TxDelivery env m s)) = au_fault s"
  by (cases "TxDelivery env m s"; simp add: TxDelivery_frame)+

lemma Client_Reset_frame [effect_simps]:
  "au_running (Client_Reset s) = False" "au_state (Client_Reset s) = au_state s"
  "au_timers (Client_Reset s) = au_timers s" "au_fault (Client_Reset s) = au_fault s"
  by (simp_all add: Client_Reset_def not_negotiated_def au_stop_def effect_simps)

lemma set_au_state_frame [effect_simps]:
  "au_state (set_au_state st s) = st" "au_running (set_au_state st s) = au_running s"
  "au_timers (set_au_state st s) = au_timers s" "au_fault (set_au_state st s) = au_fault s"
  "au_PendingMsg (set_au_state st s) = au_PendingMsg s" "au_attrs (set_au_state st s) = au_attrs s"
  "au_effects (set_au_state st s) = au_effects s"
  by (simp_all add: set_au_state_def)

lemma ct_RxRAR_frame [effect_simps]:
  "au_state (ct_RxRAR env s) = au_state s" "au_running (ct_RxRAR env s) = au_running s"
  "au_timers (ct_RxRAR env s) = au_timers s" "au_fault (ct_RxRAR env s) = au_fault s"
  by (auto simp: ct_RxRAR_def TxRAA_def effect_simps split: option.splits)

lemma ct_GrantAccess_inv:
  "\<not> au_fault s \<Longrightarrow> au_running s \<Longrightarrow> au_state s = AST_OPEN \<Longrightarrow> client_inv (ct_GrantAccess s)"
  by (auto simp: client_inv_def ct_GrantAccess_def Let_def effect_simps open_timers_def
      timer_type_defs)

lemmas client_tx_defs = TxSTR_def TxASA_def TxRAA_def

text \<open>An event leaves the state to one of the entries of its old state.\<close>

lemma client_event_fires:
  "sm_dispatch client_table (au_running s) (au_state s) ev = Fire st ac \<Longrightarrow>
     au_running s \<and>
     client_event (Suc n) env ev s =
       client_action (client_event n env) env ac (set_au_state st s)"
  by (auto simp: sm_event_def sm_dispatch_def split: if_splits)

lemma client_event_ignored:
  "\<forall>st ac. sm_dispatch client_table (au_running s) (au_state s) ev \<noteq> Fire st ac \<Longrightarrow>
     client_event (Suc n) env ev s = s"
  by (cases "sm_dispatch client_table (au_running s) (au_state s) ev") (simp_all add: sm_event_def)

lemma client_event_cases:
  obtains (ignored) "client_event (Suc n) env ev s = s"
  | (fired) e where "au_running s" "e \<in> set (entries client_table)"
    "au_state s = prevState e" "event e = Some ev \<or> isWildcardEvent e"
    "client_event (Suc n) env ev s =
      client_action (client_event n env) env (action e) (set_au_state (nextState e) s)"
proof (cases "\<exists>st ac. sm_dispatch client_table (au_running s) (au_state s) ev = Fire st ac")
  case True
  then obtain st ac where
    Fire: "sm_dispatch client_table (au_running s) (au_state s) ev = Fire st ac" by blast
  obtain e where e: "e \<in> set (entries client_table)" "prevState e = au_state s"
    "event e = Some ev \<or> isWildcardEvent e" "nextState e = st" "action e = ac"
    by (rule dispatch_mem [OF wf_client_table Fire])
  show ?thesis
    using client_event_fires [OF Fire, of n env] e by (intro fired [of e]) simp_all
next
  case False
  then show ?thesis using client_event_ignored [of s ev n env] by (intro ignored) blast
qed

declare client_event.simps [simp del]

text \<open>What the proof needs to know of the entries of the table.\<close>

definition keeps_timers :: "client_ac \<Rightarrow> bool" where
  "keeps_timers a \<longleftrightarrow> List.member [CAC_Null, CAC_TxSSARDiscard, CAC_RxSSAADiscard, CAC_TxSTRNoSvc,
     CAC_TxSTRProcError, CAC_TxSSAR, CAC_RxSSA, CAC_RxRAR, CAC_TxASATxSTRSuccess, CAC_TxASAFail,
     CAC_TxASASuccess] a"

definition takes_msg :: "client_ac \<Rightarrow> bool" where
  "takes_msg a \<longleftrightarrow>
     List.member [CAC_TxSSAR, CAC_TxSSARDiscard, CAC_RxSSA, CAC_RxSSAADiscard] a"

definition up :: "auth_st \<Rightarrow> bool" where "up st \<longleftrightarrow> st = AST_OPEN \<or> st = AST_DISC"

definition entry_facts :: "(auth_st, auth_ev, client_ac) table_entry \<Rightarrow> bool" where
  "entry_facts e \<longleftrightarrow>
     (keeps_timers (action e) \<and> up (prevState e) \<longrightarrow> up (nextState e)) \<and>
     (action e = CAC_GrantAccess \<longrightarrow> nextState e = AST_OPEN) \<and>
     (takes_msg (action e) \<longrightarrow> \<not> isWildcardEvent e \<and>
        (case event e of None \<Rightarrow> False | Some ev \<Rightarrow> carries_msg ev)) \<and>
     (action e = CAC_RxSSA \<longrightarrow> event e = Some AEV_RX_SSAA \<or> event e = Some AEV_RX_SSAR)"

lemma client_entry_facts: "e \<in> set (entries client_table) \<Longrightarrow> entry_facts e"
proof -
  have "list_all entry_facts (concat (map cmd_entries client_cmds))" by code_simp
  then show "e \<in> set (entries client_table) \<Longrightarrow> entry_facts e"
    unfolding client_entries list_all_iff by blast
qed

lemma client_inv_keep:
  assumes "client_inv s" "\<not> au_fault s'" "au_timers s' = au_timers s"
    "au_running s' = au_running s" "up (au_state s) \<longrightarrow> up (au_state s')"
  shows "client_inv s'"
  using assms by (auto simp: client_inv_def up_def)

lemma client_inv_cleared:
  "\<not> au_fault s \<Longrightarrow> au_timers s = Map.empty \<Longrightarrow> client_inv s"
  by (simp add: client_inv_def)

text \<open>The actions that notify nothing.\<close>

lemma client_leaf_inv:
  assumes inv: "client_inv s" and adm: "client_adm ev s" and run: "au_running s"
    and e: "e \<in> set (entries client_table)" "au_state s = prevState e"
    and ev: "event e = Some ev \<or> isWildcardEvent e" and nrx: "action e \<noteq> CAC_RxSSA"
  shows "client_inv (client_action notify env (action e) (set_au_state (nextState e) s))"
proof -
  have nf: "\<not> au_fault s" using inv by (simp add: client_inv_def)
  have facts: "entry_facts e" using e(1) by (rule client_entry_facts)
  have pend: "au_PendingMsg s \<noteq> None" if "takes_msg (action e)"
    using that facts adm ev by (auto simp: entry_facts_def client_adm_def split: option.splits)
  show ?thesis
  proof (cases "keeps_timers (action e)")
    case True
    have up: "up (au_state s) \<longrightarrow> up (nextState e)"
      using True facts e(2) by (simp add: entry_facts_def)
    show ?thesis
      using True nrx nf pend up
      by (intro client_inv_keep [OF inv])
        (cases "action e"; auto simp: keeps_timers_def takes_msg_def with_pending_def
          client_tx_defs effect_simps)+
  next
    case False
    show ?thesis
    proof (cases "action e = CAC_GrantAccess")
      case True
      then show ?thesis
        using nf run facts by (simp add: entry_facts_def ct_GrantAccess_inv effect_simps)
    next
      case other: False
      then show ?thesis
        using nf False
        by (intro client_inv_cleared; cases "action e")
          (simp_all add: keeps_timers_def client_tx_defs effect_simps)
    qed
  qed
qed

text \<open>
  Messages that the application sends from a call-back, and the event its code selects,
  are served by actions that notify nothing.
\<close>

lemma event_1_inv:
  assumes "client_inv s" "client_adm ev s" "ev \<noteq> AEV_RX_SSAA" "ev \<noteq> AEV_RX_SSAR"
  shows "client_inv (client_event (Suc n) env ev s)"
proof (rule client_event_cases [of n env ev s])
  fix e assume e: "au_running s" "e \<in> set (entries client_table)" "au_state s = prevState e"
    "event e = Some ev \<or> isWildcardEvent e"
    and eq: "client_event (Suc n) env ev s =
      client_action (client_event n env) env (action e) (set_au_state (nextState e) s)"
  have "action e \<noteq> CAC_RxSSA"
    using client_entry_facts [OF e(2)] e(4) assms(3,4)
    by (auto simp: entry_facts_def takes_msg_def)
  from client_leaf_inv [OF assms(1,2) e this] show ?thesis by (simp add: eq)
qed (use assms in simp)

lemma Client_Send_inv:
  assumes "client_inv s" shows "client_inv (snd (Client_Send (client_event (Suc n) env) m s))"
proof (cases "au_running s")
  case True
  have "client_inv (s\<lparr>au_attrs := a, au_PendingMsg := Some p\<rparr>)" for a p
    using assms by (simp add: client_inv_def)
  then show ?thesis
    using True event_1_inv [of _ AEV_TX_SSAR n env]
    by (auto simp: Client_Send_def Let_def client_adm_def split: prod.splits)
qed (use assms in \<open>simp add: Client_Send_def\<close>)

lemma client_sends_inv:
  "client_inv s \<Longrightarrow> client_inv (client_sends (client_event (Suc n) env) ms s)"
  unfolding client_sends_def by (induction ms arbitrary: s) (auto intro: Client_Send_inv)

lemma client_rx_event_leaf:
  "client_rx_event r rc s = Some ev \<Longrightarrow> \<not> carries_msg ev"
  by (auto simp: client_rx_event_def rx_handler_def carries_msg_def split: if_splits)

lemma MsgIdRx_inv: "client_inv s \<Longrightarrow> client_inv (Sess_MsgIdRx m s)"
  by (simp add: client_inv_def effect_simps)

lemma Client_RxDelivery_inv:
  assumes "client_inv s"
  shows "client_inv (Client_RxDelivery (client_event (Suc n) env) env m s)"
proof -
  have "client_inv (client_sends (client_event (Suc n) env) ms (Sess_MsgIdRx m s))" for ms
    using assms by (intro client_sends_inv MsgIdRx_inv)
  then show ?thesis
    by (auto simp: Client_RxDelivery_def Let_def client_adm_def carries_msg_def
        intro!: event_1_inv dest!: client_rx_event_leaf split: prod.splits option.splits)
qed

lemma client_event_inv:
  assumes "client_inv s" "client_adm ev s"
  shows "client_inv (client_event (Suc (Suc n)) env ev s)"
proof (rule client_event_cases [of "Suc n" env ev s])
  fix e assume e: "au_running s" "e \<in> set (entries client_table)" "au_state s = prevState e"
    "event e = Some ev \<or> isWildcardEvent e"
    and eq: "client_event (Suc (Suc n)) env ev s =
      client_action (client_event (Suc n) env) env (action e) (set_au_state (nextState e) s)"
  show ?thesis
  proof (cases "action e = CAC_RxSSA")
    case True
    have facts: "entry_facts e" using e(2) by (rule client_entry_facts)
    then obtain m where m: "au_PendingMsg s = Some m"
      using True assms(2) e(4)
      by (auto simp: entry_facts_def takes_msg_def client_adm_def split: option.splits)
    have "up (au_state s) \<longrightarrow> up (nextState e)"
      using facts True e(3) by (simp add: entry_facts_def keeps_timers_def)
    then have "client_inv ((set_au_state (nextState e) s)\<lparr>au_PendingMsg := None\<rparr>)"
      using assms(1) by (intro client_inv_keep [OF assms(1)])
        (auto simp: effect_simps client_inv_def)
    from Client_RxDelivery_inv [OF this] show ?thesis
      unfolding eq using True m by (simp add: with_pending_def effect_simps)
  qed (use client_leaf_inv [OF assms e] eq in simp)
qed (use assms in simp)

end
