(* ===== verification/Auth_Server.thy ===== *)
theory Auth_Server
  imports Auth_Session
begin

text \<open>
  The server side of an authorization session: its state table and actions
  (\<open>libdiameter/include/aaa_session_auth_server_fsm.h\<close>,
  \<open>src/aaa_session_auth_server_fsm.cxx\<close>) and the operations of the session
  (\<open>src/aaa_session_server.cxx\<close>).
\<close>

section \<open>State table\<close>

datatype server_ac =
    VAC_GrantAccess
  | VAC_Cleanup
  | VAC_Null
  | VAC_TxSTACleanupIdle
  | VAC_TxSSA
  | VAC_RxSSA
  | VAC_SessionTimeout
  | VAC_SessionReclaim
  | VAC_TxASR
  | VAC_AuthTimeout
  | VAC_TxSTACleanup
  | VAC_TxRAR
  | VAC_RxRAA
  | VAC_RxASA
  | VAC_TxSSAADiscard
  | VAC_RxSSARDiscard

definition server_cmds_IDLE :: "(auth_st, auth_ev, server_ac) table_cmd list" where
  "server_cmds_IDLE = [
     Add AST_IDLE AEV_SSAR_OK AST_OPEN VAC_GrantAccess,
     Add AST_IDLE AEV_SSAR_FAIL AST_IDLE VAC_Cleanup,
     Add AST_IDLE AEV_RX_ASA_OK AST_IDLE VAC_Null,
     Add AST_IDLE AEV_RX_ASA_FAIL AST_IDLE VAC_Null,
     Add AST_IDLE AEV_RX_STR AST_IDLE VAC_TxSTACleanupIdle,
     Add AST_IDLE AEV_TX_SSAA AST_IDLE VAC_TxSSA,
     Add AST_IDLE AEV_RX_SSAR AST_IDLE VAC_RxSSA,
     Add AST_IDLE AEV_SESSION_TOUT_NOST AST_IDLE VAC_SessionTimeout,
     Add AST_IDLE AEV_SESSION_RECLAIM AST_IDLE VAC_SessionReclaim,
     Add AST_IDLE AEV_ABORT AST_IDLE VAC_Cleanup,
     AddWildcard AST_IDLE AST_IDLE VAC_Null]"

definition server_cmds_OPEN :: "(auth_st, auth_ev, server_ac) table_cmd list" where
  "server_cmds_OPEN = [
     Add AST_OPEN AEV_SSAR_OK AST_OPEN VAC_GrantAccess,
     Add AST_OPEN AEV_SSAR_FAIL AST_IDLE VAC_Cleanup,
     Add AST_OPEN AEV_TX_SSAR AST_OPEN VAC_TxSSA,
     Add AST_OPEN AEV_RX_SSAA AST_OPEN VAC_RxSSA,
     Add AST_OPEN AEV_SSAA_OK AST_OPEN VAC_Null,
     Add AST_OPEN AEV_SSAA_FAIL AST_IDLE VAC_Cleanup,
     Add AST_OPEN AEV_ABORT AST_DISC VAC_TxASR,
     Add AST_OPEN AEV_LIFETIME_TOUT AST_IDLE VAC_AuthTimeout,
     Add AST_OPEN AEV_SESSION_TOUT_ST AST_IDLE VAC_SessionTimeout,
     Add AST_OPEN AEV_RX_ASA_OK AST_OPEN VAC_Null,
     Add AST_OPEN AEV_RX_ASA_FAIL AST_OPEN VAC_Null,
     Add AST_OPEN AEV_RX_STR AST_IDLE VAC_TxSTACleanup,
     Add AST_OPEN AEV_TX_SSAA AST_OPEN VAC_TxSSA,
     Add AST_OPEN AEV_RX_SSAR AST_OPEN VAC_RxSSA,
     Add AST_OPEN AEV_REAUTH AST_OPEN VAC_TxRAR,
     Add AST_OPEN AEV_RX_RAA AST_OPEN VAC_RxRAA,
     AddWildcard AST_OPEN AST_OPEN VAC_Null]"

definition server_cmds_DISC :: "(auth_st, auth_ev, server_ac) table_cmd list" where
  "server_cmds_DISC = [
     Add AST_DISC AEV_TX_ASR_FAIL AST_DISC VAC_TxASR,
     Add AST_DISC AEV_RX_ASA_OK AST_DISC VAC_RxASA,
     Add AST_DISC AEV_RX_ASA_FAIL AST_IDLE VAC_Cleanup,
     Add AST_DISC AEV_RX_STR AST_IDLE VAC_TxSTACleanup,
     Add AST_DISC AEV_LIFETIME_TOUT AST_IDLE VAC_AuthTimeout,
     Add AST_DISC AEV_SESSION_TOUT_ST AST_IDLE VAC_SessionTimeout,
     Add AST_DISC AEV_TX_SSAA AST_DISC VAC_TxSSAADiscard,
     Add AST_DISC AEV_RX_SSAR AST_DISC VAC_RxSSARDiscard,
     AddWildcard AST_DISC AST_DISC VAC_Null,
     Init AST_IDLE]"

definition server_cmds :: "(auth_st, auth_ev, server_ac) table_cmd list" where
  "server_cmds =
     server_cmds_IDLE
     @ server_cmds_OPEN
     @ server_cmds_DISC"

lemmas server_cmds_defs = server_cmds_def
  server_cmds_IDLE_def
  server_cmds_OPEN_def
  server_cmds_DISC_def

definition server_table :: "(auth_st, auth_ev, server_ac) state_table" where
  "server_table = (case build_table server_cmds of Inr t \<Rightarrow> t | Inl _ \<Rightarrow> empty_table)"

lemma build_server_cmds: "\<not> isl (build_table server_cmds)"
  by code_simp

lemma server_table_built: "build_table server_cmds = Inr server_table"
  using build_server_cmds by (cases "build_table server_cmds") (simp_all add: server_table_def)

lemma wf_server_table: "wf_table server_table"
  using server_table_built by (rule wf_build_table)

lemma server_entries: "entries server_table = concat (map cmd_entries server_cmds)"
  using server_table_built by (rule build_table_entries)

section \<open>Delivery\<close>

text \<open>
  The server dictates the session state and the values that are not negotiated in every
  message it sends, and regards them as negotiated from then on.
\<close>

definition dictate_state :: "negotiated \<Rightarrow> diameter_msg \<Rightarrow> diameter_msg" where
  "dictate_state n m =
     (case GetU32 ''AuthSessionState'' 0 (acl m) of
        None \<Rightarrow> put_u32 ''AuthSessionState'' (neg_value n) m
      | Some v \<Rightarrow> if neg_value n \<noteq> v then put_u32 ''AuthSessionState'' (neg_value n) m else m)"

definition dictate_avp :: "string \<Rightarrow> negotiated \<Rightarrow> diameter_msg \<Rightarrow> diameter_msg \<times> negotiated" where
  "dictate_avp name n m =
     (case hint_avp name n m of (m', n') \<Rightarrow> (m', n'\<lparr>isNegotiated := True\<rparr>))"

definition dictate_msg :: "diameter_msg \<Rightarrow> auth_attrs \<Rightarrow> diameter_msg \<times> auth_attrs" where
  "dictate_msg m a =
     (let m1 = dictate_state (at_AuthSessionState a) m;
          (m2, tout) = dictate_avp ''SessionTimeout'' (at_SessionTimeout a) m1;
          (m3, life) = dictate_avp ''AuthorizationLifetime'' (at_AuthLifetime a) m2;
          (m4, grace) = dictate_avp ''AuthGracePeriod'' (at_AuthGrace a) m3
      in (m4, a\<lparr>at_SessionTimeout := tout, at_AuthLifetime := life, at_AuthGrace := grace\<rparr>))"

definition Server_TxDelivery ::
    "auth_env \<Rightarrow> diameter_msg \<Rightarrow> auth_session \<Rightarrow> aaa_rc \<times> auth_session" where
  "Server_TxDelivery env m s =
     (case dictate_msg m (au_attrs s) of (m1, a) \<Rightarrow> TxDelivery env m1 (s\<lparr>au_attrs := a\<rparr>))"

section \<open>Actions\<close>

definition Server_Tx ::
    "auth_env \<Rightarrow> (auth_attrs \<Rightarrow> diameter_msg) \<Rightarrow> auth_session \<Rightarrow> aaa_rc \<times> auth_session" where
  "Server_Tx env f s = Server_TxDelivery env (f (au_attrs s)) s"

definition TxSTA :: "auth_env \<Rightarrow> u32 \<Rightarrow> auth_session \<Rightarrow> auth_session" where
  "TxSTA env rcode s = snd (Server_Tx env (STA_msg env rcode) s)"

definition TxASR :: "auth_env \<Rightarrow> auth_session \<Rightarrow> auth_session" where
  "TxASR env s =
     (case Server_Tx env (server_request MSG_ABORTSESSION env []) s of (rc, s1) \<Rightarrow>
        (if rc \<noteq> AAA_ERR_SUCCESS
         then au_schedule AEV_TX_ASR_FAIL (ac_abortRetryTm (ae_auth env)) TIMER_ASR s1
         else s1\<lparr>au_ASRSent := True\<rparr>))"

definition TxRAR :: "auth_env \<Rightarrow> u32 \<Rightarrow> auth_session \<Rightarrow> auth_session" where
  "TxRAR env ty s =
     snd (Server_Tx env (server_request MSG_REAUTH env [(''ReAuthRequestType'', [AU32 ty])]) s)"

definition Server_Reset :: "auth_session \<Rightarrow> auth_session" where
  "Server_Reset s =
     (let s1 = not_negotiated s in
      au_emit ScheduledForDeletion
        (au_stop (au_emit (DbRemove (at_SessionId (au_attrs s1))) s1)))"

definition forget_ASR :: "auth_session \<Rightarrow> auth_session" where
  "forget_ASR s = s\<lparr>au_ASRSent := False\<rparr>"

definition sv_extend_access :: "auth_session \<Rightarrow> auth_session" where
  "sv_extend_access s =
     (if stateful s then s
      else
        (let s1 = au_cancel_all s; tout = neg_value (at_SessionTimeout (au_attrs s)) in
         au_emit CbSuccess
           (if tout > 0
            then au_schedule AEV_SESSION_TOUT_NOST (tout + AUTH_SESSION_GRACE_PERIOD)
                   TIMER_SESSION s1
            else au_schedule AEV_SESSION_RECLAIM AUTH_SESSION_RECLAMATION_PERIOD
                   TIMER_SESSION s1)))"

definition sv_GrantAccess :: "auth_session \<Rightarrow> auth_session" where
  "sv_GrantAccess s =
     (let s1 = au_cancel_all s; a = au_attrs s1 in
      au_emit CbSuccess
        (au_schedule AEV_LIFETIME_TOUT
           (neg_value (at_AuthLifetime a) + neg_value (at_AuthGrace a) + AUTH_SESSION_GRACE_PERIOD)
           TIMER_AUTH
           (au_schedule AEV_SESSION_TOUT_ST
              (neg_value (at_SessionTimeout a) + AUTH_SESSION_GRACE_PERIOD) TIMER_SESSION s1)))"

definition sv_SessionReclaim :: "auth_env \<Rightarrow> auth_session \<Rightarrow> auth_session" where
  "sv_SessionReclaim env s =
     (let s1 = au_emit CbReClaimSession (au_cancel_all s) in
      if app_ReClaimSession (ae_app env) = AAA_ERR_SUCCESS
      then Server_Reset (forget_ASR (au_emit CbDisconnect s1))
      else au_schedule AEV_SESSION_RECLAIM AUTH_SESSION_RECLAMATION_PERIOD TIMER_SESSION s1)"

definition Server_Send ::
    "(auth_ev \<Rightarrow> auth_session \<Rightarrow> auth_session) \<Rightarrow> diameter_msg \<Rightarrow> auth_session
      \<Rightarrow> aaa_rc \<times> auth_session" where
  "Server_Send notify msg s =
     (if au_running s then
        (AAA_ERR_SUCCESS,
         notify (if flag_r (flags (hdr msg)) then AEV_TX_SSAR else AEV_TX_SSAA)
           (s\<lparr>au_PendingMsg := Some msg\<rparr>))
      else (AAA_ERR_FAILURE, s))"

definition server_sends ::
    "(auth_ev \<Rightarrow> auth_session \<Rightarrow> auth_session) \<Rightarrow> diameter_msg list \<Rightarrow> auth_session
      \<Rightarrow> auth_session" where
  "server_sends notify = fold (\<lambda>m s. snd (Server_Send notify m s))"

text \<open>An incomplete message notifies the event number 0, which no state accepts.\<close>

definition server_rx_event :: "bool \<Rightarrow> aaa_rc \<Rightarrow> auth_ev" where
  "server_rx_event request rc =
     (if rc = AAA_ERR_SUCCESS then (if request then AEV_SSAR_OK else AEV_SSAA_OK)
      else if rc \<noteq> AAA_ERR_INCOMPLETE then (if request then AEV_SSAR_FAIL else AEV_SSAA_FAIL)
      else AEV_REQUEST_ACCESS)"

definition Server_RxDelivery ::
    "(auth_ev \<Rightarrow> auth_session \<Rightarrow> auth_session) \<Rightarrow> auth_env \<Rightarrow> diameter_msg \<Rightarrow> auth_session
      \<Rightarrow> auth_session" where
  "Server_RxDelivery notify env msg s =
     (let request = flag_r (flags (hdr msg));
          (sent, rc) = (if request then app_RequestMsg (ae_app env) msg
                        else app_AnswerMsg (ae_app env) msg);
          s1 = server_sends notify sent (Sess_MsgIdRx msg s)
      in if stateful s1 then notify (server_rx_event request rc) s1 else s1)"

fun server_action ::
    "(auth_ev \<Rightarrow> auth_session \<Rightarrow> auth_session) \<Rightarrow> auth_env \<Rightarrow> server_ac \<Rightarrow> auth_session
      \<Rightarrow> auth_session" where
  "server_action notify env VAC_Null s = s"
| "server_action notify env VAC_RxSSARDiscard s = with_pending (\<lambda>m. au_emit (Discarded m)) s"
| "server_action notify env VAC_TxSSAADiscard s = with_pending (\<lambda>m. au_emit (Discarded m)) s"
| "server_action notify env VAC_RxSSA s = with_pending (Server_RxDelivery notify env) s"
| "server_action notify env VAC_TxSSA s =
     with_pending (\<lambda>m s. sv_extend_access (snd (Server_TxDelivery env m s))) s"
| "server_action notify env VAC_GrantAccess s = sv_GrantAccess s"
| "server_action notify env VAC_TxASR s = TxASR env (au_cancel_all s)"
| "server_action notify env VAC_TxRAR s =
     (case at_ReAuthRequestValue (au_attrs s) of
        None \<Rightarrow> s | Some v \<Rightarrow> TxRAR env (reAuthType v) s)"
| "server_action notify env VAC_RxRAA s =
     (case at_ReAuthRequestValue (au_attrs s) of
        None \<Rightarrow> s | Some v \<Rightarrow> au_emit (CbReAuthenticate (resultCode v)) s)"
| "server_action notify env VAC_TxSTACleanup s =
     Server_Reset (forget_ASR (au_emit CbDisconnect
       (TxSTA env AAA_AUTHORIZATION_REJECTED (au_cancel_all s))))"
| "server_action notify env VAC_TxSTACleanupIdle s =
     Server_Reset (forget_ASR (TxSTA env AAA_AUTHORIZATION_REJECTED (au_cancel_all s)))"
| "server_action notify env VAC_RxASA s = au_emit CbAbortSession (au_cancel TIMER_ASR s)"
| "server_action notify env VAC_AuthTimeout s =
     Server_Reset (forget_ASR (au_cancel_all (au_emit CbAuthorizationTimeout s)))"
| "server_action notify env VAC_SessionTimeout s =
     Server_Reset (forget_ASR (au_cancel_all (au_emit CbSessionTimeout s)))"
| "server_action notify env VAC_SessionReclaim s = sv_SessionReclaim env s"
| "server_action notify env VAC_Cleanup s =
     Server_Reset (forget_ASR (au_emit CbAbortSession (au_cancel_all s)))"

primrec server_event :: "nat \<Rightarrow> auth_env \<Rightarrow> auth_ev \<Rightarrow> auth_session \<Rightarrow> auth_session" where
  "server_event 0 env = (\<lambda>ev s. s\<lparr>au_fault := True\<rparr>)"
| "server_event (Suc n) env =
     (\<lambda>ev s. sm_event server_table au_running au_state set_au_state
        (server_action (server_event n env) env) ev s)"

definition Server_Notify :: "auth_env \<Rightarrow> auth_ev \<Rightarrow> auth_session \<Rightarrow> auth_session" where
  "Server_Notify = server_event 2"

section \<open>Operations\<close>

text \<open>
  The constructor starts the machine, unless the application refuses the session, which
  then does not exist.
\<close>

definition Server_new :: "auth_env \<Rightarrow> u32 \<Rightarrow> id_gen \<Rightarrow> auth_session option" where
  "Server_new env app g =
     (if snd (app_ReStart (ae_app env)) \<noteq> AAA_ERR_SUCCESS then None
      else Some ((new_session (ae_auth env) app g)\<lparr>au_running := True\<rparr>))"

definition Server_ReAuth :: "auth_env \<Rightarrow> u32 \<Rightarrow> auth_session \<Rightarrow> aaa_rc \<times> auth_session" where
  "Server_ReAuth env ty s =
     (if au_running s then
        (AAA_ERR_SUCCESS,
         Server_Notify env AEV_REAUTH
           (upd_attrs (\<lambda>a. a\<lparr>at_ReAuthRequestValue :=
              Some \<lparr>reAuthType = 0, resultCode = ty\<rparr>\<rparr>) s))
      else (AAA_ERR_FAILURE, s))"

definition Server_End :: "auth_env \<Rightarrow> auth_session \<Rightarrow> aaa_rc \<times> auth_session" where
  "Server_End env s =
     (if au_running s then (AAA_ERR_SUCCESS, Server_Notify env AEV_ABORT s)
      else (AAA_ERR_FAILURE, s))"

text \<open>
  What a request of the client changes in the attributes.  The grace period that the
  application is asked for has no initial value in the code, which is 0 here.
\<close>

definition learn_origin :: "diameter_msg \<Rightarrow> auth_attrs \<Rightarrow> auth_attrs" where
  "learn_origin m a =
     (if neg_value (at_AuthSessionState a) = SESSION_STATE_MAINTAINED then
        a\<lparr>at_DestinationHost :=
            (case at_DestinationHost a of
               None \<Rightarrow> GetStr ''OriginHost'' 0 (acl m) | Some h \<Rightarrow> Some h),
          at_DestinationRealm :=
            (case at_DestinationRealm a of
               None \<Rightarrow> GetStr ''OriginRealm'' 0 (acl m) | Some r \<Rightarrow> Some r)\<rparr>
      else a)"

definition negotiate_state :: "auth_env \<Rightarrow> diameter_msg \<Rightarrow> negotiated \<Rightarrow> negotiated" where
  "negotiate_state env m n =
     (if isNegotiated n then n
      else
        (case GetU32 ''AuthSessionState'' 0 (acl m) of
           Some st \<Rightarrow>
             (if neg_value n \<noteq> st \<and> neg_value n = SESSION_STATE_MAINTAINED then neg_Set st
              else n\<lparr>isNegotiated := True\<rparr>)
         | None \<Rightarrow>
             (case app_SetAuthSessionState (ae_app env) (ac_stateful (ae_auth env)) of
                Some v \<Rightarrow> neg_Set v
              | None \<Rightarrow> neg_Set (ac_stateful (ae_auth env)))))"

definition take_hint ::
    "string \<Rightarrow> (u32 \<Rightarrow> u32 option) \<Rightarrow> u32 \<Rightarrow> diameter_msg \<Rightarrow> negotiated \<Rightarrow> negotiated" where
  "take_hint name f dflt m n =
     (let hint = GetU32 name 0 (acl m);
          n1 = (case f (case hint of Some t \<Rightarrow> t | None \<Rightarrow> dflt) of
                  Some v \<Rightarrow> n\<lparr>neg_value := v\<rparr> | None \<Rightarrow> n)
      in case hint of
           Some t \<Rightarrow> (if t < neg_value n1 then n1\<lparr>neg_value := t\<rparr> else n1)
         | None \<Rightarrow> n1)"

definition capture_hints :: "auth_env \<Rightarrow> diameter_msg \<Rightarrow> auth_attrs \<Rightarrow> auth_attrs" where
  "capture_hints env m a =
     (let app = ae_app env; c = ae_auth env;
          tout = (if isNegotiated (at_SessionTimeout a) then at_SessionTimeout a
                  else take_hint ''SessionTimeout'' (app_SetSessionTimeout app) (ac_sessionTm c) m
                         (at_SessionTimeout a));
          life = (if isNegotiated (at_AuthLifetime a) then at_AuthLifetime a
                  else
                    (let n = take_hint ''AuthorizationLifetime'' (app_SetAuthLifetimeTimeout app)
                               (ac_lifetimeTm c) m (at_AuthLifetime a)
                     in n\<lparr>neg_value := sane_lifetime (neg_value tout) (neg_value n)\<rparr>));
          grace = (if isNegotiated (at_AuthGrace a) then at_AuthGrace a
                   else (case app_SetAuthGracePeriodTimeout app 0 of
                           None \<Rightarrow> at_AuthGrace a
                         | Some v \<Rightarrow> (at_AuthGrace a)\<lparr>neg_value := v\<rparr>))
      in a\<lparr>at_SessionTimeout := tout, at_AuthLifetime := life, at_AuthGrace := grace\<rparr>)"

definition request_attrs :: "auth_env \<Rightarrow> diameter_msg \<Rightarrow> auth_attrs \<Rightarrow> auth_attrs" where
  "request_attrs env m a =
     (let a1 = learn_origin m a in
      capture_hints env m
        (a1\<lparr>at_AuthSessionState := negotiate_state env m (at_AuthSessionState a1)\<rparr>))"

text \<open>A session without an identifier takes that of its first request.\<close>

definition adopt_sid :: "auth_env \<Rightarrow> diameter_msg \<Rightarrow> auth_session \<Rightarrow> bool \<times> auth_session" where
  "adopt_sid env msg s =
     (if DiameterId (at_SessionId (au_attrs s)) = [] then
        (case SessionId_Get (ae_platform env) (GetStr ''SessionId'' 0 (acl msg)) sid_empty of
           None \<Rightarrow> (False, s\<lparr>au_fault := True\<rparr>)
         | Some (rc, i) \<Rightarrow>
             (if rc \<noteq> AAA_ERR_SUCCESS then (False, s)
              else (True, upd_attrs (\<lambda>a. a\<lparr>at_SessionId := i\<rparr>) s)))
      else (True, s))"

definition RxSTR :: "diameter_msg \<Rightarrow> auth_session \<Rightarrow> auth_session" where
  "RxSTR msg s =
     (let s1 = Sess_MsgIdRx msg s in
      case GetStr ''Class'' 0 (acl msg) of None \<Rightarrow> s1 | Some c \<Rightarrow> au_emit (CbClassAvp c) s1)"

text \<open>The answers of the base protocol; what they carry else is written to the log only.\<close>

definition RxASA :: "diameter_msg \<Rightarrow> auth_session \<Rightarrow> auth_session" where
  "RxASA msg s = Sess_MsgIdRx msg s"

definition RxRAA :: "diameter_msg \<Rightarrow> auth_session \<Rightarrow> auth_session" where
  "RxRAA msg s = Sess_MsgIdRx msg s"

declare RxASA_def [simp] RxRAA_def [simp]

definition Server_RxRequest :: "auth_env \<Rightarrow> diameter_msg \<Rightarrow> auth_session \<Rightarrow> auth_session" where
  "Server_RxRequest env msg s0 =
     (case adopt_sid env msg s0 of
        (False, s) \<Rightarrow> s
      | (True, s) \<Rightarrow>
          (if code (hdr msg) = MSG_SESSIONTERMINATION \<and> stateful s
           then Server_Notify env AEV_RX_STR (RxSTR msg s)
           else if code (hdr msg) = MSG_ABORTSESSION then au_emit (Discarded msg) s
           else
             Server_Notify env AEV_RX_SSAR
               ((upd_attrs (request_attrs env msg) s)\<lparr>au_PendingMsg := Some msg\<rparr>)))"

definition Server_RxAnswer :: "auth_env \<Rightarrow> diameter_msg \<Rightarrow> auth_session \<Rightarrow> auth_session" where
  "Server_RxAnswer env msg s =
     (if code (hdr msg) = MSG_ABORTSESSION \<and> stateful s then
        (if au_ASRSent s then
           Server_Notify env
             (if InterpretedResultCode msg = RCODE_SUCCESS then AEV_RX_ASA_OK
              else AEV_RX_ASA_FAIL) (RxASA msg s)
         else au_emit (Discarded msg) s)
      else if code (hdr msg) = MSG_SESSIONTERMINATION then au_emit (Discarded msg) s
      else if code (hdr msg) = MSG_REAUTH then
        (let s1 = RxRAA msg s in
         case GetU32 ''ResultCode'' 0 (acl msg) of
           Some rc \<Rightarrow>
             Server_Notify env AEV_RX_RAA
               (upd_attrs (\<lambda>a. a\<lparr>at_ReAuthRequestValue :=
                  Some \<lparr>reAuthType = rc, resultCode = 0\<rparr>\<rparr>) s1)
         | None \<Rightarrow> upd_attrs (\<lambda>a. a\<lparr>at_ReAuthRequestValue := None\<rparr>) s1)
      else Server_Notify env AEV_RX_SSAA (s\<lparr>au_PendingMsg := Some msg\<rparr>))"

definition Server_RxError :: "diameter_msg \<Rightarrow> auth_session \<Rightarrow> auth_session" where
  "Server_RxError msg = au_emit (CbError msg)"

definition Server_Timeout :: "auth_env \<Rightarrow> int \<Rightarrow> auth_session \<Rightarrow> auth_session" where
  "Server_Timeout env ty s =
     (case au_timers s ty of None \<Rightarrow> s | Some (ev, sec) \<Rightarrow> Server_Notify env ev s)"

end
