(* ===== verification/Auth_Props.thy ===== *)
theory Auth_Props
  imports Auth_Client_Inv Auth_Server
begin

text \<open>
  Properties of authorization sessions: the reachable states of a client session, what its
  answers and timers lead to, and the negotiation between the two sides.
\<close>

section \<open>Reachable client sessions\<close>

datatype client_op =
    Op_Begin "string option" "u32 \<times> u32"
  | Op_Send diameter_msg
  | Op_RxRequest diameter_msg
  | Op_RxAnswer diameter_msg
  | Op_RxError diameter_msg
  | Op_End
  | Op_Timeout int

fun client_step :: "auth_env \<Rightarrow> client_op \<Rightarrow> auth_session \<Rightarrow> auth_session" where
  "client_step env (Op_Begin opt cnt) s = Client_Begin env opt cnt s"
| "client_step env (Op_Send m) s = snd (Client_Send (Client_Notify env) m s)"
| "client_step env (Op_RxRequest m) s = Client_RxRequest env m s"
| "client_step env (Op_RxAnswer m) s = Client_RxAnswer env m s"
| "client_step env (Op_RxError m) s = Client_RxError m s"
| "client_step env Op_End s = Client_End env s"
| "client_step env (Op_Timeout ty) s = Client_Timeout env ty s"

text \<open>
  An application whose \<open>ReStart\<close> fails starts only sessions that do not run: a session that is
  stopped while it is open keeps its timers.
\<close>

definition client_op_ok :: "auth_env \<Rightarrow> client_op \<Rightarrow> auth_session \<Rightarrow> bool" where
  "client_op_ok env op s \<longleftrightarrow>
     (case op of
        Op_Begin opt cnt \<Rightarrow> snd (app_ReStart (ae_app env)) = AAA_ERR_SUCCESS \<or>
          \<not> au_running s \<and> fst (app_ReStart (ae_app env)) = []
      | _ \<Rightarrow> True)"

inductive client_reachable :: "auth_env \<Rightarrow> auth_session \<Rightarrow> bool" for env where
  start: "client_reachable env (new_session (ae_auth env) app g)"
| step: "client_reachable env s \<Longrightarrow> client_op_ok env op s \<Longrightarrow>
    client_reachable env (client_step env op s)"

lemma Client_Notify_inv:
  "client_inv s \<Longrightarrow> client_adm ev s \<Longrightarrow> client_inv (Client_Notify env ev s)"
  unfolding Client_Notify_def numeral_2_eq_2 by (rule client_event_inv)

lemma client_inv_frame:
  "client_inv s \<Longrightarrow> client_inv (upd_attrs f s)" "client_inv s \<Longrightarrow> client_inv (au_emit e s)"
  "client_inv s \<Longrightarrow> client_inv (s\<lparr>au_PendingMsg := p\<rparr>)"
  by (simp_all add: client_inv_def effect_simps)

lemma not_carrying [simp]:
  "\<not> carries_msg AEV_REQUEST_ACCESS" "\<not> carries_msg AEV_RX_ASR_OK" "\<not> carries_msg AEV_RX_ASR_RETRY"
  "\<not> carries_msg AEV_RX_RAR" "\<not> carries_msg AEV_RX_STA" "\<not> carries_msg AEV_ABORT"
  "\<not> carries_msg AEV_STOP"
  by (simp_all add: carries_msg_def)

lemma Client_sends_inv:
  "client_inv s \<Longrightarrow> client_inv (client_sends (Client_Notify env) ms s)"
  unfolding Client_Notify_def numeral_2_eq_2 by (rule client_sends_inv)

lemma begin_start_inv: "client_inv s \<Longrightarrow> \<not> au_running s \<Longrightarrow> client_inv (begin_start env opt cnt s)"
  by (auto simp: client_inv_def begin_start_def Let_def effect_simps)

lemma Client_Begin_inv:
  assumes "client_inv s" "client_op_ok env (Op_Begin opt cnt) s"
  shows "client_inv (Client_Begin env opt cnt s)"
proof -
  let ?s1 = "upd_attrs (begin_attrs env) s"
  let ?s2 = "if au_running ?s1 then ?s1 else begin_start env opt cnt ?s1"
  have 2: "client_inv ?s2"
    using assms(1) by (auto intro: client_inv_frame begin_start_inv)
  show ?thesis
  proof (cases "snd (app_ReStart (ae_app env)) = AAA_ERR_SUCCESS")
    case True
    then show ?thesis
      using Client_sends_inv [OF 2]
      by (auto simp: Client_Begin_def Let_def client_adm_def split: prod.splits
          intro!: Client_Notify_inv)
  next
    case False
    then have nr: "\<not> au_running s" "fst (app_ReStart (ae_app env)) = []"
      using assms(2) by (auto simp: client_op_ok_def)
    then have "au_timers s = Map.empty" "\<not> au_fault s"
      using assms(1) by (auto simp: client_inv_def)
    then show ?thesis
      using False nr
      by (simp add: Client_Begin_def Let_def split_beta client_sends_def au_stop_def client_inv_def
          begin_start_def effect_simps)
  qed
qed

lemma client_timer_event:
  "client_inv s \<Longrightarrow> au_timers s ty = Some (ev, sec) \<Longrightarrow> \<not> carries_msg ev"
  by (auto simp: client_inv_def open_timers_def carries_msg_def split: if_splits)

lemma client_step_inv:
  assumes "client_inv s" "client_op_ok env op s" shows "client_inv (client_step env op s)"
proof (cases op)
  case (Op_Begin opt cnt)
  then show ?thesis using assms Client_Begin_inv by simp
next
  case (Op_Send m)
  then show ?thesis
    using assms(1) Client_Send_inv by (simp add: Client_Notify_def numeral_2_eq_2)
next
  case (Op_Timeout ty)
  then show ?thesis
    using assms(1) client_timer_event
    by (auto simp: Client_Timeout_def client_adm_def intro!: Client_Notify_inv split: option.splits)
qed (use assms(1) in \<open>auto simp: Client_RxRequest_def Client_RxAnswer_def Client_RxError_def
    Client_End_def Let_def client_adm_def intro!: Client_Notify_inv client_inv_frame MsgIdRx_inv
    split: option.splits\<close>)


section \<open>What a client session does\<close>

lemma client_dispatch:
  "sm_dispatch client_table True AST_PENDING AEV_RX_SSAA = Fire AST_PENDING CAC_RxSSA"
  "sm_dispatch client_table True AST_PENDING AEV_SSAA_OK = Fire AST_OPEN CAC_GrantAccess"
  "sm_dispatch client_table True AST_OPEN AEV_SESSION_TOUT_ST = Fire AST_DISC CAC_SessionTimeoutState"
  "sm_dispatch client_table True AST_OPEN AEV_LIFETIME_TOUT = Fire AST_DISC CAC_AuthTimeout"
  "sm_dispatch client_table True AST_OPEN AEV_ABORT = Fire AST_DISC CAC_UserAbort"
  "sm_dispatch client_table True AST_OPEN AEV_RX_RAR = Fire AST_OPEN CAC_RxRAR"
  "sm_dispatch client_table True AST_IDLE AEV_TX_SSAR = Fire AST_IDLE CAC_TxSSARDiscard"
  "sm_dispatch client_table True AST_IDLE AEV_REQUEST_ACCESS = Fire AST_PENDING CAC_Null"
  by code_simp+

lemma client_dispatch_DISC:
  "sm_dispatch client_table True AST_DISC AEV_TX_SSAR = Fire AST_DISC CAC_TxSSARDiscard"
  "sm_dispatch client_table True AST_DISC AEV_RX_SSAA = Fire AST_DISC CAC_RxSSAADiscard"
  "sm_dispatch client_table True AST_DISC AEV_RX_SSAR = Fire AST_DISC CAC_Null"
  "sm_dispatch client_table True AST_DISC AEV_RX_ASR_OK = Fire AST_DISC CAC_Null"
  "sm_dispatch client_table True AST_DISC AEV_RX_ASR_RETRY = Fire AST_DISC CAC_Null"
  "sm_dispatch client_table True AST_DISC AEV_RX_RAR = Fire AST_DISC CAC_Null"
  "sm_dispatch client_table True AST_DISC AEV_ABORT = Fire AST_DISC CAC_Null"
  "sm_dispatch client_table True AST_DISC AEV_STOP = Fire AST_DISC CAC_Null"
  by code_simp+

lemma Client_Notify_fires:
  assumes "sm_dispatch client_table True st ev = Fire st' ac" "au_running s" "au_state s = st"
  shows "Client_Notify env ev s =
    client_action (client_event 1 env) env ac (set_au_state st' s)"
  using assms client_event_fires [of s ev st' ac "Suc 0" env]
  by (simp add: Client_Notify_def numeral_2_eq_2)

lemma client_event_1_fires:
  assumes "sm_dispatch client_table True st ev = Fire st' ac" "au_running s" "au_state s = st"
  shows "client_event 1 env ev s = client_action (client_event 0 env) env ac (set_au_state st' s)"
  using assms client_event_fires [of s ev st' ac 0 env] by simp

lemmas client_notifies = client_dispatch [THEN Client_Notify_fires]
  client_dispatch_DISC [THEN Client_Notify_fires]

lemma Client_Send_shape:
  "au_running s \<Longrightarrow> \<exists>a p. snd (Client_Send notify m s) =
     notify AEV_TX_SSAR (s\<lparr>au_attrs := a, au_PendingMsg := Some p\<rparr>)"
  by (simp add: Client_Send_def Let_def split_beta) blast

text \<open>The timers that an accepted answer arms.\<close>

definition granted_timers :: "auth_attrs \<Rightarrow> auth_ev timers" where
  "granted_timers a =
     (let tout = neg_value (at_SessionTimeout a) in
      if neg_value (at_AuthSessionState a) = SESSION_STATE_MAINTAINED then
        [TIMER_SESSION \<mapsto> (AEV_SESSION_TOUT_ST, unat tout),
         TIMER_AUTH \<mapsto>
           (AEV_LIFETIME_TOUT, unat (neg_value (at_AuthLifetime a) + neg_value (at_AuthGrace a)))]
      else if tout > 0 then [TIMER_SESSION \<mapsto> (AEV_SESSION_TOUT_NOST, unat tout)]
      else Map.empty)"

text \<open>An answer that the application accepts opens a pending session with the session state and
  the timeouts that the server dictates, as far as they were not negotiated before.\<close>

theorem answer_opens_session:
  assumes "au_running s" "au_state s = AST_PENDING" "\<not> flag_r (flags (hdr m))"
    and "code (hdr m) \<noteq> MSG_SESSIONTERMINATION" "code (hdr m) \<noteq> MSG_ABORTSESSION"
    and "app_AnswerMsg (ae_app env) m = ([], AAA_ERR_SUCCESS)"
  shows "au_state (Client_RxAnswer env m s) = AST_OPEN \<and>
    au_attrs (Client_RxAnswer env m s) = dictate_all m (au_attrs s) \<and>
    au_timers (Client_RxAnswer env m s) = granted_timers (dictate_all m (au_attrs s)) \<and>
    au_effects (Client_RxAnswer env m s) = au_effects s @ [CbSuccess]"
proof -
  let ?s = "(upd_attrs (dictate_all m) s)\<lparr>au_PendingMsg := Some m\<rparr>"
  let ?t = "(set_au_state AST_PENDING ?s)\<lparr>au_PendingMsg := None\<rparr>"
  have "Client_RxAnswer env m s = Client_Notify env AEV_RX_SSAA ?s"
    using assms(4,5) by (simp add: Client_RxAnswer_def)
  also have "\<dots> = Client_RxDelivery (client_event 1 env) env m ?t"
    using assms(1,2) client_dispatch(1)
    by (subst Client_Notify_fires) (auto simp: effect_simps with_pending_def)
  also have "\<dots> = client_event 1 env AEV_SSAA_OK ?t"
    using assms(3,6)
    by (simp add: Client_RxDelivery_def client_sends_def Sess_MsgIdRx_answer client_rx_event_def
        rx_handler_def)
  also have "\<dots> = ct_GrantAccess (set_au_state AST_OPEN ?t)"
    using assms(1) client_dispatch(2)
    by (subst client_event_1_fires) (auto simp: effect_simps)
  finally show ?thesis
    by (auto simp: ct_GrantAccess_def Let_def effect_simps stateful_def granted_timers_def
        timer_type_defs)
qed

text \<open>The operations that do not bring the answer to a termination request.\<close>

fun no_termination_answer :: "client_op \<Rightarrow> bool" where
  "no_termination_answer (Op_RxAnswer m) \<longleftrightarrow> code (hdr m) \<noteq> MSG_SESSIONTERMINATION"
| "no_termination_answer (Op_Begin opt cnt) \<longleftrightarrow> False"
| "no_termination_answer op \<longleftrightarrow> True"

definition waits_for_STA :: "auth_session \<Rightarrow> bool" where
  "waits_for_STA s \<longleftrightarrow>
     au_running s \<and> au_state s = AST_DISC \<and> au_timers s = Map.empty"

lemma waits_for_STA_notify:
  assumes "waits_for_STA s" "ev \<in> {AEV_TX_SSAR, AEV_RX_SSAA, AEV_RX_SSAR, AEV_RX_ASR_OK,
    AEV_RX_ASR_RETRY, AEV_RX_RAR, AEV_ABORT, AEV_STOP}"
  shows "waits_for_STA (Client_Notify env ev s)"
  using assms
  by (auto simp: waits_for_STA_def client_notifies effect_simps with_pending_def
      split: option.splits)

lemma waits_for_STA_frame:
  "waits_for_STA s \<Longrightarrow> waits_for_STA (upd_attrs f s)"
  "waits_for_STA s \<Longrightarrow> waits_for_STA (au_emit e s)"
  "waits_for_STA s \<Longrightarrow> waits_for_STA (s\<lparr>au_PendingMsg := p\<rparr>)"
  "waits_for_STA s \<Longrightarrow> waits_for_STA (s\<lparr>au_attrs := a, au_PendingMsg := p\<rparr>)"
  "waits_for_STA s \<Longrightarrow> waits_for_STA (Sess_MsgIdRx m s)"
  by (simp_all add: waits_for_STA_def effect_simps)

lemma waits_for_STA_step:
  assumes "waits_for_STA s" "no_termination_answer op"
  shows "waits_for_STA (client_step env op s)"
proof (cases op)
  case (Op_Send m)
  have "au_running s" using assms(1) by (simp add: waits_for_STA_def)
  then show ?thesis
    using assms(1) Op_Send
    by (auto simp: Client_Send_def Let_def intro!: waits_for_STA_notify waits_for_STA_frame
        split: prod.splits)
next
  case (Op_Timeout ty)
  then show ?thesis
    using assms(1) by (simp add: Client_Timeout_def waits_for_STA_def)
qed (use assms in \<open>auto simp: Client_RxRequest_def Client_RxAnswer_def Client_RxError_def
    Client_End_def Let_def intro!: waits_for_STA_notify waits_for_STA_frame split: option.splits\<close>)

text \<open>When a stateful session ends by one of its timers or by the user, all its timers are
  cancelled with the termination request, so that no timeout of the state that waits for the
  answer can occur: without that answer the session stays there whatever happens.\<close>

theorem disconnect_waits_for_ever:
  assumes "au_running s" "au_state s = AST_OPEN"
    and "ev = AEV_SESSION_TOUT_ST \<or> ev = AEV_LIFETIME_TOUT \<or> ev = AEV_ABORT"
    and "list_all no_termination_answer ops"
  shows "au_state (fold (client_step env) ops (Client_Notify env ev s)) = AST_DISC \<and>
    au_running (fold (client_step env) ops (Client_Notify env ev s))"
proof -
  have 0: "waits_for_STA (Client_Notify env ev s)"
    using assms(1-3)
    by (auto simp: waits_for_STA_def client_notifies TxSTR_def effect_simps)
  have "waits_for_STA t \<Longrightarrow> waits_for_STA (fold (client_step env) ops t)" for t
    using assms(4) by (induction ops arbitrary: t) (simp_all add: waits_for_STA_step)
  from this [OF 0] show ?thesis by (simp add: waits_for_STA_def)
qed

text \<open>A re-authentication request reaches the application with the type 0 whatever type the
  server asks for: the two fields of the stored value are initialised in the wrong order.\<close>

theorem reauth_type_lost:
  assumes "au_running s" "au_state s = AST_OPEN" "code (hdr m) = MSG_REAUTH"
    and "GetU32 ''ReAuthRequestType'' 0 (acl m) = Some t"
  shows "\<exists>es. au_effects (Client_RxRequest env m s) = au_effects s @ CbReAuthenticate 0 # es"
proof -
  let ?s = "upd_attrs (\<lambda>a. a\<lparr>at_ReAuthRequestValue := Some \<lparr>reAuthType = 0, resultCode = t\<rparr>\<rparr>)
    (Sess_MsgIdRx m s)"
  have run: "au_running ?s" "au_state ?s = AST_OPEN" using assms(1,2) by (simp_all add: effect_simps)
  have "Client_RxRequest env m s = Client_Notify env AEV_RX_RAR ?s"
    using assms(3,4) by (simp add: Client_RxRequest_def msg_code_defs)
  also have "\<dots> = ct_RxRAR env (set_au_state AST_OPEN ?s)"
    using Client_Notify_fires [OF client_dispatch(6) run] by simp
  finally have eq: "Client_RxRequest env m s = ct_RxRAR env (set_au_state AST_OPEN ?s)" .
  have tx: "\<exists>es. au_effects (Tx env f t) = au_effects t @ es" for f t
    using TxDelivery_effects by (simp add: Tx_def)
  show ?thesis
    unfolding eq ct_RxRAR_def TxRAA_def
    using tx [of _ "au_emit (CbReAuthenticate 0) (set_au_state AST_OPEN ?s)"]
    by (simp add: effect_simps)
qed

text \<open>A request that an application sends from \<open>ReStart\<close>, as the comment of that function asks
  for, is discarded: the session becomes pending only afterwards.\<close>

theorem restart_request_discarded:
  assumes "\<not> au_running s" "app_ReStart (ae_app env) = ([m], AAA_ERR_SUCCESS)"
  shows "au_state (Client_Begin env opt cnt s) = AST_PENDING \<and>
    (\<exists>i m'. au_effects (Client_Begin env opt cnt s) = au_effects s @ [DbAdd i, Discarded m'])"
proof -
  let ?s = "begin_start env opt cnt (upd_attrs (begin_attrs env) s)"
  have run: "au_running ?s" "au_state ?s = AST_IDLE"
    by (simp_all add: begin_start_def Let_def effect_simps)
  obtain a p where send: "snd (Client_Send (Client_Notify env) m ?s) =
      Client_Notify env AEV_TX_SSAR (?s\<lparr>au_attrs := a, au_PendingMsg := Some p\<rparr>)"
    using Client_Send_shape [OF run(1)] by blast
  let ?t = "?s\<lparr>au_attrs := a, au_PendingMsg := Some p\<rparr>"
  have t: "Client_Notify env AEV_TX_SSAR ?t =
      au_emit (Discarded p) ((set_au_state AST_IDLE ?t)\<lparr>au_PendingMsg := None\<rparr>)"
    using run by (subst Client_Notify_fires [OF client_dispatch(7)])
      (simp_all add: with_pending_def effect_simps)
  have "Client_Begin env opt cnt s =
      Client_Notify env AEV_REQUEST_ACCESS (Client_Notify env AEV_TX_SSAR ?t)"
    using assms send by (simp add: Client_Begin_def client_sends_def effect_simps)
  also have "\<dots> = set_au_state AST_PENDING (Client_Notify env AEV_TX_SSAR ?t)"
    using run unfolding t
    by (subst Client_Notify_fires [OF client_dispatch(8)]) (simp_all add: effect_simps)
  finally show ?thesis
    unfolding t by (simp add: effect_simps begin_start_def Let_def)
qed

end
