(* ===== verification/Session_Props.thy ===== *)
theory Session_Props
  imports Auth_Props
begin

text \<open>
  Properties that need both sides of an authorization session: the negotiation of its state
  and timeouts, the termination of a session, and the text of its identifier.
\<close>

section \<open>What an answer of the server says\<close>

lemma GetU32_put_u32 [simp]: "GetU32 name 0 (acl (put_u32 name v m)) = Some v"
  by (simp add: GetU32_def put_u32_def GetAvp_AddAvp_same)

lemma GetU32_put_u32_other [simp]:
  "n \<noteq> name \<Longrightarrow> GetU32 n 0 (acl (put_u32 name v m)) = GetU32 n 0 (acl m)"
  by (simp add: GetU32_def put_u32_def GetAvp_AddAvp_other)

lemma hdr_put_u32 [simp]: "hdr (put_u32 name v m) = hdr m"
  by (simp add: put_u32_def)

lemma dictate_avp_says:
  assumes "dictate_avp name n m = (m', n')"
  shows "hdr m' = hdr m" "isNegotiated n'"
    and "\<not> isNegotiated n \<Longrightarrow> GetU32 name 0 (acl m') = Some (neg_value n')"
    and "k \<noteq> name \<Longrightarrow> GetU32 k 0 (acl m') = GetU32 k 0 (acl m)"
    and "isNegotiated n \<Longrightarrow> m' = m"
  using assms by (auto simp: dictate_avp_def hint_avp_def split: if_splits option.splits)

lemma dictate_state_says:
  "GetU32 ''AuthSessionState'' 0 (acl (dictate_state n m)) = Some (neg_value n)"
  "hdr (dictate_state n m) = hdr m"
  "k \<noteq> ''AuthSessionState'' \<Longrightarrow> GetU32 k 0 (acl (dictate_state n m)) = GetU32 k 0 (acl m)"
  by (auto simp: dictate_state_def split: option.splits)

text \<open>The four values that a message and the attributes of a session agree on.\<close>

definition tells :: "diameter_msg \<Rightarrow> auth_attrs \<Rightarrow> bool" where
  "tells m a \<longleftrightarrow>
     GetU32 ''AuthSessionState'' 0 (acl m) = Some (neg_value (at_AuthSessionState a)) \<and>
     GetU32 ''SessionTimeout'' 0 (acl m) = Some (neg_value (at_SessionTimeout a)) \<and>
     GetU32 ''AuthorizationLifetime'' 0 (acl m) = Some (neg_value (at_AuthLifetime a)) \<and>
     GetU32 ''AuthGracePeriod'' 0 (acl m) = Some (neg_value (at_AuthGrace a))"

definition open_values :: "auth_attrs \<Rightarrow> bool" where
  "open_values a \<longleftrightarrow>
     \<not> isNegotiated (at_SessionTimeout a) \<and> \<not> isNegotiated (at_AuthLifetime a) \<and>
     \<not> isNegotiated (at_AuthGrace a)"

lemma dictate_msg_parts:
  assumes "dictate_msg m a = (m', a')"
  obtains m2 m3 tout life grace where
    "dictate_avp ''SessionTimeout'' (at_SessionTimeout a) (dictate_state (at_AuthSessionState a) m)
      = (m2, tout)"
    "dictate_avp ''AuthorizationLifetime'' (at_AuthLifetime a) m2 = (m3, life)"
    "dictate_avp ''AuthGracePeriod'' (at_AuthGrace a) m3 = (m', grace)"
    "a' = a\<lparr>at_SessionTimeout := tout, at_AuthLifetime := life, at_AuthGrace := grace\<rparr>"
  using assms by (simp add: dictate_msg_def Let_def split: prod.splits)

lemma dictate_msg_frame:
  assumes "dictate_msg m a = (m', a')"
  shows "hdr m' = hdr m" "at_LastRxHopId a' = at_LastRxHopId a"
    "at_LastRxEndId a' = at_LastRxEndId a" "at_SessionId a' = at_SessionId a"
    "at_AuthSessionState a' = at_AuthSessionState a"
    "k \<notin> {''AuthSessionState'', ''SessionTimeout'', ''AuthorizationLifetime'', ''AuthGracePeriod''}
      \<Longrightarrow> GetU32 k 0 (acl m') = GetU32 k 0 (acl m)"
proof (rule_tac [!] dictate_msg_parts [OF assms])
qed (simp_all add: dictate_avp_says(1,4) dictate_state_says)

lemma dictate_msg_tells:
  assumes "open_values a" "dictate_msg m a = (m', a')"
  shows "tells m' a'"
  by (rule dictate_msg_parts [OF assms(2)])
    (use assms(1) in \<open>simp add: tells_def open_values_def dictate_state_says dictate_avp_says(3,4)\<close>)

lemma dictate_msg_negotiated:
  assumes "dictate_msg m a = (m', a')"
  shows "isNegotiated (at_SessionTimeout a')" "isNegotiated (at_AuthLifetime a')"
    "isNegotiated (at_AuthGrace a')"
  by (rule dictate_msg_parts [OF assms], simp add: dictate_avp_says(2))+

lemma tells_same:
  "tells m a \<Longrightarrow> (\<And>n. \<not> delivery_avp n \<Longrightarrow> GetAvp n 0 (acl m') = GetAvp n 0 (acl m))
    \<Longrightarrow> same_session a a' \<Longrightarrow> tells m' a'"
  by (simp add: tells_def same_session_def GetU32_def delivery_avp_def)

lemma dictate_all_tells:
  assumes "tells m a" "open_values b" "\<not> isNegotiated (at_AuthSessionState b)"
  shows "at_AuthSessionState (dictate_all m b) = neg_Set (neg_value (at_AuthSessionState a))"
    "at_SessionTimeout (dictate_all m b) = neg_Set (neg_value (at_SessionTimeout a))"
    "at_AuthLifetime (dictate_all m b) = neg_Set (neg_value (at_AuthLifetime a))"
    "at_AuthGrace (dictate_all m b) = neg_Set (neg_value (at_AuthGrace a))"
  using assms by (simp_all add: dictate_all_def dictated_def tells_def open_values_def)

lemma Server_TxDelivery_answer:
  assumes "\<not> flag_r (flags (hdr m))" "dictate_msg m (au_attrs s) = (m1, a1)"
  obtains rc m' a' where
    "Server_TxDelivery env m s = (rc, au_emit (Routed m') (s\<lparr>au_attrs := a'\<rparr>))"
    "hdr m' = (hdr m)\<lparr>hh := at_LastRxHopId (au_attrs s), ee := at_LastRxEndId (au_attrs s)\<rparr>"
    "\<And>n. \<not> delivery_avp n \<Longrightarrow> GetAvp n 0 (acl m') = GetAvp n 0 (acl m1)"
    "same_session a1 a'"
proof -
  have h: "hdr m1 = hdr m" using dictate_msg_frame(1) [OF assms(2)] .
  obtain rc m' a' where
    "TxDelivery env m1 (s\<lparr>au_attrs := a1\<rparr>) = (rc, au_emit (Routed m') (s\<lparr>au_attrs := a'\<rparr>))"
    "hdr m' = (hdr m1)\<lparr>hh := at_LastRxHopId a1, ee := at_LastRxEndId a1\<rparr>"
    "\<And>n. \<not> delivery_avp n \<Longrightarrow> GetAvp n 0 (acl m') = GetAvp n 0 (acl m1)"
    "same_session a1 a'"
    using TxDelivery_answer [of m1 env "s\<lparr>au_attrs := a1\<rparr>"] assms(1) h by auto
  then show ?thesis
    using that h dictate_msg_frame(2,3) [OF assms(2)]
    by (simp add: Server_TxDelivery_def assms(2))
qed


section \<open>Termination\<close>

lemma server_dispatch_STR:
  "sm_dispatch server_table True AST_OPEN AEV_RX_STR = Fire AST_IDLE VAC_TxSTACleanup"
  "sm_dispatch server_table True AST_DISC AEV_RX_STR = Fire AST_IDLE VAC_TxSTACleanup"
  by code_simp+

lemma Server_Notify_STR:
  assumes "au_running s" "au_state s = AST_OPEN \<or> au_state s = AST_DISC"
  shows "Server_Notify env AEV_RX_STR s =
    server_action (server_event 1 env) env VAC_TxSTACleanup (set_au_state AST_IDLE s)"
  using assms server_dispatch_STR
  by (auto simp: Server_Notify_def numeral_2_eq_2 sm_event_def)

lemma STA_msg_says:
  "flags (hdr (STA_msg env rc a)) =
     \<lparr>flag_r = False, flag_p = False, flag_e = False, flag_t = False\<rparr>"
  "code (hdr (STA_msg env rc a)) = MSG_SESSIONTERMINATION"
  "GetU32 ''ResultCode'' 0 (acl (STA_msg env rc a)) = Some rc"
  by (simp_all add: STA_msg_def answer_msg_def base_msg_def Let_def MsgWidget_def SessionId_Set_def
      AddAvp_def GetU32_def GetAvp_def)

lemma RxSTR_frame [effect_simps]:
  "au_running (RxSTR m s) = au_running s" "au_state (RxSTR m s) = au_state s"
  by (simp_all add: RxSTR_def Let_def effect_simps split: option.splits)


section \<open>Session identifiers\<close>

text \<open>C35: An identifier with an optional part survives the round trip through the Session-Id AVP,
  on 32-bit and on 64-bit platforms, as long as its low counter fits an \<open>int\<close>.\<close>

theorem session_id_roundtrip:
  assumes "CHR '';'' \<notin> set (DiameterId i)" "length (sid_text i) < 2147483648"
    and "unat (sid_Low i) < 2147483648" "supported pf" "OptionalValue i \<noteq> []"
  shows "SessionId_Get pf (GetStr ''SessionId'' 0 (acl (SessionId_Set i m))) id0 =
    Some (AAA_ERR_SUCCESS, i)"
  using assms SessionId_Get_text [of i pf id0]
  by (simp add: SessionId_Set_def GetStr_def GetAvp_AddAvp_same read_optional_def)

text \<open>Where \<open>size_t\<close> has 64 bits, an identifier without an optional part is read with its whole
  text as the optional part: the position is kept in 32 bits and never equals \<open>npos\<close>.\<close>

theorem session_id_option_64:
  assumes "CHR '';'' \<notin> set (DiameterId i)" "length (sid_text i) < 2147483648"
    and "unat (sid_Low i) < 2147483648" "supported pf" "size_bits pf = 64" "OptionalValue i = []"
  shows "SessionId_Get pf (GetStr ''SessionId'' 0 (acl (SessionId_Set i m))) id0 =
    Some (AAA_ERR_SUCCESS, i\<lparr>OptionalValue := sid_text i\<rparr>)"
  using assms SessionId_Get_text [of i pf id0]
  by (simp add: SessionId_Set_def GetStr_def GetAvp_AddAvp_same read_optional_def)

section \<open>Instances\<close>

definition a_cfg :: dia_config where
  "a_cfg =
     \<lparr>cfg_identity = ''a'', cfg_realm = ''r'', cfg_watchdog_timeout = 30,
      cfg_reconnect_interval = 30, cfg_reconnect_max = 3, cfg_retx_interval = 10,
      cfg_retx_max_count = 3, cfg_advertised_hostname = [], cfg_product = ''p'', cfg_version = 1,
      cfg_vendor = 0, cfg_supportedVendorIdLst = [], cfg_authAppIdLst = [1],
      cfg_acctAppIdLst = [], cfg_vendorSpecificId = [], cfg_originStateId = 1\<rparr>"

definition a_app :: "diameter_msg list \<Rightarrow> auth_app" where
  "a_app restart =
     \<lparr>app_SetDestinationHost = Some ''h'', app_SetDestinationRealm = Some ''r'',
      app_SetUsername = None, app_SetSessionTimeout = (\<lambda>_. Some 60),
      app_SetAuthLifetimeTimeout = (\<lambda>_. None), app_SetAuthGracePeriodTimeout = (\<lambda>_. None),
      app_SetAuthSessionState = (\<lambda>_. None), app_SetClassAvp = None, app_ReStart = (restart, AAA_ERR_SUCCESS),
      app_RequestMsg = (\<lambda>_. ([], AAA_ERR_SUCCESS)), app_AnswerMsg = (\<lambda>_. ([], AAA_ERR_SUCCESS)),
      app_ReAuthenticate = (\<lambda>_. AAA_SUCCESS), app_AbortSession = AAA_ERR_SUCCESS,
      app_ReClaimSession = AAA_ERR_SUCCESS\<rparr>"

definition a_env :: "diameter_msg list \<Rightarrow> auth_env" where
  "a_env restart =
     \<lparr>ae_cfg = a_cfg,
      ae_auth = \<lparr>ac_stateful = SESSION_STATE_MAINTAINED, ac_sessionTm = 30, ac_lifetimeTm = 360,
        ac_graceTm = 30, ac_abortRetryTm = 20\<rparr>,
      ae_app = a_app restart, ae_routed = (\<lambda>_. True),
      ae_platform = \<lparr>size_bits = 64, long_bits = 64\<rparr>\<rparr>"

definition a_session :: "auth_st \<Rightarrow> auth_session" where
  "a_session st =
     (new_session (ae_auth (a_env [])) 1 \<lparr>hop_Id = 1, end_Id = 1, rnd = (\<lambda>n. of_nat n), drawn = 0\<rparr>)
       \<lparr>au_state := st, au_running := True\<rparr>"

definition a_id :: "string \<Rightarrow> session_id" where
  "a_id opt = \<lparr>sid_High = 1, sid_Low = 2, DiameterId = ''a.r'', OptionalValue = opt\<rparr>"

definition a_msg :: "24 word \<Rightarrow> bool \<Rightarrow> acl \<Rightarrow> diameter_msg" where
  "a_msg c request l = (MsgWidget c request 1)\<lparr>acl := l\<rparr>"

lemmas instance_defs = a_env_def a_app_def a_session_def new_session_def new_attrs_def a_id_def
  a_msg_def MsgWidget_def


theorem answer_opens_session_witness:
  "au_timers (Client_RxAnswer (a_env []) (a_msg 300 False [(''SessionTimeout'', [AU32 9])])
     (a_session AST_PENDING)) =
   [TIMER_SESSION \<mapsto> (AEV_SESSION_TOUT_ST, 9), TIMER_AUTH \<mapsto> (AEV_LIFETIME_TOUT, 390)]"
proof -
  let ?m = "a_msg 300 False [(''SessionTimeout'', [AU32 9])]"
  have "au_timers (Client_RxAnswer (a_env []) ?m (a_session AST_PENDING)) =
      granted_timers (dictate_all ?m (au_attrs (a_session AST_PENDING)))"
    using answer_opens_session [of "a_session AST_PENDING" ?m "a_env []"]
    by (simp add: instance_defs msg_code_defs)
  also have "\<dots> =
      [TIMER_SESSION \<mapsto> (AEV_SESSION_TOUT_ST, 9), TIMER_AUTH \<mapsto> (AEV_LIFETIME_TOUT, 390)]"
    by (simp add: granted_timers_def dictate_all_def dictated_def instance_defs GetU32_def
        GetAvp_def neg_Set_def)
  finally show ?thesis .
qed

theorem disconnect_waits_for_ever_witness:
  "au_state (fold (client_step (a_env []))
     [Op_Timeout TIMER_SESSION, Op_End, Op_RxAnswer (a_msg 300 False []), Op_Timeout TIMER_AUTH]
     (Client_Notify (a_env []) AEV_LIFETIME_TOUT (a_session AST_OPEN))) = AST_DISC"
  using disconnect_waits_for_ever [of "a_session AST_OPEN" AEV_LIFETIME_TOUT
      "[Op_Timeout TIMER_SESSION, Op_End, Op_RxAnswer (a_msg 300 False []), Op_Timeout TIMER_AUTH]"
      "a_env []"]
  by (simp add: instance_defs msg_code_defs)

theorem reauth_type_lost_witness:
  "\<exists>es. au_effects (Client_RxRequest (a_env [])
     (a_msg MSG_REAUTH True [(''ReAuthRequestType'', [AU32 1])]) (a_session AST_OPEN)) =
     CbReAuthenticate 0 # es"
  using reauth_type_lost [of "a_session AST_OPEN"
      "a_msg MSG_REAUTH True [(''ReAuthRequestType'', [AU32 1])]" 1 "a_env []"]
  by (simp add: instance_defs GetU32_def GetAvp_def)

theorem restart_request_discarded_witness:
  "au_state (Client_Begin (a_env [a_msg 300 True []]) None (0, 1)
     ((a_session AST_IDLE)\<lparr>au_running := False\<rparr>)) = AST_PENDING"
  using restart_request_discarded [of "(a_session AST_IDLE)\<lparr>au_running := False\<rparr>"
      "a_env [a_msg 300 True []]" "a_msg 300 True []" None "(0, 1)"]
  by (simp add: instance_defs)



lemma a_id_ok:
  "CHR '';'' \<notin> set (DiameterId (a_id v))" "unat (sid_Low (a_id v)) < 2147483648"
  "supported \<lparr>size_bits = 64, long_bits = 64\<rparr>" "OptionalValue (a_id v) = v"
  by (simp_all add: a_id_def supported_def)

lemma a_id_text: "sid_text (a_id ''x'') = ''a.r;1;2;x''" "sid_text (a_id []) = ''a.r;1;2''"
  by code_simp+

theorem session_id_roundtrip_witness:
  "SessionId_Get \<lparr>size_bits = 64, long_bits = 64\<rparr>
     (GetStr ''SessionId'' 0 (acl (SessionId_Set (a_id ''x'') (a_msg 300 True [])))) sid_empty =
   Some (AAA_ERR_SUCCESS, a_id ''x'')"
  using session_id_roundtrip [OF a_id_ok(1) _ a_id_ok(2,3), of "''x''"] a_id_text(1)
  by (simp add: a_id_ok)

theorem session_id_option_64_witness:
  "SessionId_Get \<lparr>size_bits = 64, long_bits = 64\<rparr>
     (GetStr ''SessionId'' 0 (acl (SessionId_Set (a_id []) (a_msg 300 True [])))) sid_empty =
   Some (AAA_ERR_SUCCESS, a_id ''a.r;1;2'')"
  using session_id_option_64 [OF a_id_ok(1) _ a_id_ok(2,3), of "[]"] a_id_text(2)
  by (simp add: a_id_ok) (simp add: a_id_def)

end
