(* ===== verification/Route_Table.thy ===== *)
theory Route_Table
  imports Protected_Map "HOL-Library.List_Lexorder" "HOL-Library.Char_ord"
begin

text \<open>
  The realm routing table of \<open>libdiameter/include/aaa_route_table.h\<close> and
  \<open>src/aaa_route_table.cxx\<close>: the servers of an application ordered by their metric, the
  applications of a realm by vendor and application identifier, and the realms.  The tree of
  realms is kept as the sequence of its entries in its order, which is that of
  \<open>strcasecmp\<close>; the maps are \<open>std::map\<close>s.
\<close>

section \<open>Servers of an application\<close>

record route_server =
  rs_Server :: string
  rs_Metric :: int

fun Servers_Lookup :: "string \<Rightarrow> route_server list \<Rightarrow> route_server option" where
  "Servers_Lookup server [] = None"
| "Servers_Lookup server (e # l) =
     (if server = rs_Server e then Some e else Servers_Lookup server l)"

fun Servers_Remove :: "string \<Rightarrow> route_server list \<Rightarrow> bool \<times> route_server list" where
  "Servers_Remove server [] = (False, [])"
| "Servers_Remove server (e # l) =
     (if server = rs_Server e then (True, l)
      else (case Servers_Remove server l of (b, l') \<Rightarrow> (b, e # l')))"

fun insert_metric :: "route_server \<Rightarrow> route_server list \<Rightarrow> route_server list" where
  "insert_metric e [] = [e]"
| "insert_metric e (x # l) =
     (if rs_Metric x \<ge> rs_Metric e then e # x # l else x # insert_metric e l)"

definition Servers_Add :: "route_server \<Rightarrow> route_server list \<Rightarrow> route_server list" where
  "Servers_Add e l = insert_metric e (snd (Servers_Remove (rs_Server e) l))"

text \<open>\<open>front\<close> of an empty list is undefined, which is \<open>None\<close> here.\<close>

definition Servers_First :: "route_server list \<Rightarrow> route_server option" where
  "Servers_First l = (case l of [] \<Rightarrow> None | e # _ \<Rightarrow> Some e)"

text \<open>
  \<open>Next\<close> looks for the address of an entry; names are distinct in a list, so that equal
  entries are the same one.
\<close>

fun Servers_Next :: "route_server \<Rightarrow> route_server list \<Rightarrow> route_server option" where
  "Servers_Next prev [] = None"
| "Servers_Next prev (e # l) =
     (if prev = e then (case l of [] \<Rightarrow> None | n # _ \<Rightarrow> Some n) else Servers_Next prev l)"

definition wf_servers :: "route_server list \<Rightarrow> bool" where
  "wf_servers l \<longleftrightarrow> distinct (map rs_Server l) \<and> sorted (map rs_Metric l)"

lemma Servers_Remove_filter:
  "distinct (map rs_Server l) \<Longrightarrow>
     snd (Servers_Remove s l) = filter (\<lambda>e. rs_Server e \<noteq> s) l"
proof (induction l)
  case (Cons e l)
  have "filter (\<lambda>x. rs_Server x \<noteq> rs_Server e) l = l" if "rs_Server e = s"
    using Cons.prems that by (intro filter_True ballI) (auto simp: image_iff)
  with Cons show ?case by (auto split: prod.splits)
qed simp

lemma set_insert_metric [simp]: "set (insert_metric e l) = insert e (set l)"
  by (induction l) auto

lemma distinct_insert_metric:
  "distinct (map rs_Server (insert_metric e l)) \<longleftrightarrow>
     rs_Server e \<notin> rs_Server ` set l \<and> distinct (map rs_Server l)"
  by (induction l) auto

lemma sorted_insert_metric:
  "sorted (map rs_Metric l) \<Longrightarrow> sorted (map rs_Metric (insert_metric e l))"
  by (induction l) force+

lemma wf_Servers_Add: "wf_servers l \<Longrightarrow> wf_servers (Servers_Add e l)"
  by (auto simp: wf_servers_def Servers_Add_def Servers_Remove_filter distinct_insert_metric
      distinct_map_filter sorted_filter intro!: sorted_insert_metric)

lemma set_Servers_Add:
  "wf_servers l \<Longrightarrow>
     set (Servers_Add e l) = insert e {x \<in> set l. rs_Server x \<noteq> rs_Server e}"
  by (auto simp: Servers_Add_def wf_servers_def Servers_Remove_filter)

section \<open>Applications of a realm\<close>

datatype route_action = ROUTE_LOCAL | ROUTE_RELAY | ROUTE_PROXY | ROUTE_REDIRECT

datatype redirect_usage =
    USAGE_DONT_CACHE | USAGE_ALL_SESSION | USAGE_ALL_REALM | USAGE_REALM_AND_APPLICATION
  | USAGE_ALL_APPLICATION | USAGE_ALL_HOST | USAGE_ALL_USER

fun usage_code :: "redirect_usage \<Rightarrow> u32" where
  "usage_code USAGE_DONT_CACHE = 0"
| "usage_code USAGE_ALL_SESSION = 1"
| "usage_code USAGE_ALL_REALM = 2"
| "usage_code USAGE_REALM_AND_APPLICATION = 3"
| "usage_code USAGE_ALL_APPLICATION = 4"
| "usage_code USAGE_ALL_HOST = 5"
| "usage_code USAGE_ALL_USER = 6"

record route_app =
  ra_ApplicationId :: int
  ra_VendorId :: int
  ra_Servers :: "route_server list"

record route_entry =
  re_Realm :: string
  re_Action :: route_action
  re_RedirectUsage :: redirect_usage
  re_Identifiers :: "(int, (int, route_app) pmap) pmap"

definition RouteEntry_new :: "string \<Rightarrow> route_action \<Rightarrow> route_entry" where
  "RouteEntry_new realm a =
     \<lparr>re_Realm = realm, re_Action = a, re_RedirectUsage = USAGE_DONT_CACHE, re_Identifiers = []\<rparr>"

definition RouteEntry_Lookup :: "int \<Rightarrow> int \<Rightarrow> route_entry \<Rightarrow> route_app option" where
  "RouteEntry_Lookup app vendor e =
     (case map_find vendor (re_Identifiers e) of
        None \<Rightarrow> None | Some ids \<Rightarrow> map_find app ids)"

fun map_set :: "'k \<Rightarrow> 'v \<Rightarrow> ('k \<times> 'v) list \<Rightarrow> ('k \<times> 'v) list" where
  "map_set k v [] = []"
| "map_set k v ((k', u) # m) = (if k = k' then (k, v) # m else (k', u) # map_set k v m)"

definition RouteEntry_Remove :: "int \<Rightarrow> int \<Rightarrow> route_entry \<Rightarrow> int \<times> route_entry" where
  "RouteEntry_Remove app vendor e =
     (case map_find vendor (re_Identifiers e) of
        None \<Rightarrow> (-1, e)
      | Some ids \<Rightarrow>
          (case map_find app ids of
             None \<Rightarrow> (-1, e)
           | Some _ \<Rightarrow>
               (let ids' = map_erase app ids in
                (0, e\<lparr>re_Identifiers :=
                   (if ids' = [] then map_erase vendor (re_Identifiers e)
                    else map_set vendor ids' (re_Identifiers e))\<rparr>))))"

text \<open>
  \<open>Add\<close> passes the two identifiers to \<open>Remove\<close> in the wrong order; an application that is
  there is not replaced by \<open>insert\<close>.
\<close>

definition RouteEntry_Add :: "route_app \<Rightarrow> route_entry \<Rightarrow> route_entry" where
  "RouteEntry_Add a e =
     (let e1 = snd (RouteEntry_Remove (ra_VendorId a) (ra_ApplicationId a) e) in
      e1\<lparr>re_Identifiers :=
        (case map_find (ra_VendorId a) (re_Identifiers e1) of
           None \<Rightarrow> map_insert (ra_VendorId a) [(ra_ApplicationId a, a)] (re_Identifiers e1)
         | Some ids \<Rightarrow>
             map_set (ra_VendorId a) (map_insert (ra_ApplicationId a) a ids)
               (re_Identifiers e1))\<rparr>)"

definition RouteEntry_First :: "route_entry \<Rightarrow> route_app option" where
  "RouteEntry_First e =
     (case re_Identifiers e of
        [] \<Rightarrow> None
      | (_, ids) # _ \<Rightarrow> (case ids of [] \<Rightarrow> None | (_, a) # _ \<Rightarrow> Some a))"

text \<open>
  \<open>Next\<close> increments the iterator of the found application; an application that is not there
  makes it increment the end, which is undefined.  Later vendors are entered at the
  beginning, where the first application is skipped.
\<close>

definition second_of :: "('k \<times> 'v) list \<Rightarrow> 'v option" where
  "second_of l = (case l of _ # (_, a) # _ \<Rightarrow> Some a | _ \<Rightarrow> None)"

fun next_vendors :: "(int \<times> (int, route_app) pmap) list \<Rightarrow> route_app option" where
  "next_vendors [] = None"
| "next_vendors ((_, ids) # m) =
     (case second_of ids of Some a \<Rightarrow> Some a | None \<Rightarrow> next_vendors m)"

definition RouteEntry_Next :: "route_app \<Rightarrow> route_entry \<Rightarrow> route_app option" where
  "RouteEntry_Next app e =
     (case dropWhile (\<lambda>b. fst b \<noteq> ra_VendorId app) (re_Identifiers e) of
        [] \<Rightarrow> None
      | (_, ids) # m \<Rightarrow>
          (case second_of (dropWhile (\<lambda>b. fst b \<noteq> ra_ApplicationId app) ids) of
             Some a \<Rightarrow> Some a | None \<Rightarrow> next_vendors m))"

definition wf_entry :: "route_entry \<Rightarrow> bool" where
  "wf_entry e \<longleftrightarrow>
     wf_pmap (re_Identifiers e) \<and>
     (\<forall>b \<in> set (re_Identifiers e). wf_pmap (snd b) \<and> snd b \<noteq> [])"

lemma keys_map_set [simp]: "map fst (map_set k v m) = map fst m"
  by (induction m) auto

lemma wf_map_set [simp]: "wf_pmap (map_set k v m) = wf_pmap m"
  by (simp add: wf_pmap_def)

lemma map_find_set:
  "map_find j (map_set k v m) =
     (if j = k \<and> map_find k m \<noteq> None then Some v else map_find j m)"
  by (induction m) (auto split: if_splits)

lemma set_map_set: "set (map_set k v m) \<subseteq> insert (k, v) (set m)"
  by (induction m) (auto split: if_splits)

lemma set_map_insert: "set (map_insert k v m) \<subseteq> insert (k, v) (set m)"
  by (induction m) (auto split: if_splits)

lemma map_insert_not_Nil [simp]: "map_insert k v m \<noteq> []"
  by (cases m) (auto split: if_splits)

lemma wf_pmap_single [simp]: "wf_pmap [(k, v)]" "wf_pmap []"
  by (simp_all add: wf_pmap_def)

lemma wf_RouteEntry_Remove: "wf_entry e \<Longrightarrow> wf_entry (snd (RouteEntry_Remove app vendor e))"
proof -
  assume wf: "wf_entry e"
  have "wf_pmap ids \<and> ids \<noteq> []" if "map_find vendor (re_Identifiers e) = Some ids" for ids
    using wf map_find_mem [OF that] by (auto simp: wf_entry_def)
  then show ?thesis
    using wf set_map_erase_sub [of vendor "re_Identifiers e"] set_map_set
    by (fastforce simp: RouteEntry_Remove_def Let_def wf_entry_def wf_map_erase
        split: option.splits)
qed

lemma wf_RouteEntry_Add:
  assumes "wf_entry e" shows "wf_entry (RouteEntry_Add a e)"
proof -
  let ?e = "snd (RouteEntry_Remove (ra_VendorId a) (ra_ApplicationId a) e)"
  have wf: "wf_entry ?e" using assms by (rule wf_RouteEntry_Remove)
  show ?thesis
  proof (cases "map_find (ra_VendorId a) (re_Identifiers ?e)")
    case None
    then show ?thesis
      using wf set_map_insert
      by (fastforce simp: RouteEntry_Add_def Let_def wf_entry_def wf_map_insert)
  next
    case (Some ids)
    then have "wf_pmap ids" using wf map_find_mem [OF Some] by (auto simp: wf_entry_def)
    then show ?thesis
      using Some wf set_map_set
      by (fastforce simp: RouteEntry_Add_def Let_def wf_entry_def wf_map_insert)
  qed
qed

lemma RouteEntry_Lookup_Remove:
  assumes "wf_entry e"
  shows "RouteEntry_Lookup app vendor (snd (RouteEntry_Remove app' vendor' e)) =
    (if app = app' \<and> vendor = vendor' then None else RouteEntry_Lookup app vendor e)"
proof -
  have "wf_pmap ids" if "map_find vendor' (re_Identifiers e) = Some ids" for ids
    using assms map_find_mem [OF that] by (auto simp: wf_entry_def)
  moreover have "map_find app ids = None"
    if "map_erase app' ids = []" "app \<noteq> app'" "wf_pmap ids" for ids :: "(int, route_app) pmap"
    using map_find_erase [OF that(3), of app app'] that by simp
  ultimately show ?thesis
    using assms
    by (auto simp: RouteEntry_Lookup_def RouteEntry_Remove_def Let_def wf_entry_def
        map_find_erase map_find_set split: option.splits)
qed

lemma RouteEntry_Lookup_Add_aux:
  assumes "wf_entry e"
  shows "RouteEntry_Lookup app vendor (RouteEntry_Add a e) =
    (let e1 = snd (RouteEntry_Remove (ra_VendorId a) (ra_ApplicationId a) e) in
     if app = ra_ApplicationId a \<and> vendor = ra_VendorId a \<and> RouteEntry_Lookup app vendor e1 = None
     then Some a else RouteEntry_Lookup app vendor e1)"
proof -
  let ?e = "snd (RouteEntry_Remove (ra_VendorId a) (ra_ApplicationId a) e)"
  have wf: "wf_entry ?e" using assms by (rule wf_RouteEntry_Remove)
  have "wf_pmap ids" if "map_find (ra_VendorId a) (re_Identifiers ?e) = Some ids" for ids
    using wf map_find_mem [OF that] by (auto simp: wf_entry_def)
  then show ?thesis
    using wf
    by (auto simp: RouteEntry_Add_def RouteEntry_Lookup_def Let_def wf_entry_def map_find_insert
        map_find_set split: option.splits)
qed

text \<open>After an application is added to the route of a realm the look-up of its identifiers
  finds it only when they were free; a second addition leaves the old one in place, and an
  application whose vendor and application identifiers are those of the new one exchanged is
  lost.
\<close>

theorem RouteEntry_Lookup_Add:
  assumes "wf_entry e" "ra_ApplicationId a \<noteq> ra_VendorId a"
  shows "RouteEntry_Lookup app vendor (RouteEntry_Add a e) =
    (if app = ra_VendorId a \<and> vendor = ra_ApplicationId a then None
     else if app = ra_ApplicationId a \<and> vendor = ra_VendorId a then
       (case RouteEntry_Lookup app vendor e of None \<Rightarrow> Some a | Some old \<Rightarrow> Some old)
     else RouteEntry_Lookup app vendor e)"
  using assms
  by (auto simp: RouteEntry_Lookup_Add_aux RouteEntry_Lookup_Remove Let_def split: option.splits)

section \<open>Realms\<close>

record route_table =
  rt_Routes :: "(string, route_entry) pmap"
  rt_ExpireTime :: int
  rt_DefaultRoute :: "route_entry option"

definition RouteTable_new :: "int \<Rightarrow> route_table" where
  "RouteTable_new expire = \<lparr>rt_Routes = [], rt_ExpireTime = expire, rt_DefaultRoute = None\<rparr>"

definition realm_key :: "string \<Rightarrow> string" where
  "realm_key realm = map lower_char realm"

definition RouteTable_Remove :: "string \<Rightarrow> route_table \<Rightarrow> int \<times> route_table" where
  "RouteTable_Remove realm t =
     (case map_find (realm_key realm) (rt_Routes t) of
        None \<Rightarrow> (-1, t)
      | Some _ \<Rightarrow> (0, t\<lparr>rt_Routes := map_erase (realm_key realm) (rt_Routes t)\<rparr>))"

definition RouteTable_Add :: "route_entry \<Rightarrow> route_table \<Rightarrow> int \<times> route_table" where
  "RouteTable_Add e t =
     (let t1 = snd (RouteTable_Remove (re_Realm e) t) in
      (0, t1\<lparr>rt_Routes := map_insert (realm_key (re_Realm e)) e (rt_Routes t1)\<rparr>))"

definition RouteTable_Lookup :: "string \<Rightarrow> route_table \<Rightarrow> route_entry option" where
  "RouteTable_Lookup realm t =
     (case map_find (realm_key realm) (rt_Routes t) of
        None \<Rightarrow> rt_DefaultRoute t | Some e \<Rightarrow> Some e)"

definition set_DefaultRoute :: "route_entry \<Rightarrow> route_table \<Rightarrow> route_table" where
  "set_DefaultRoute e t = t\<lparr>rt_DefaultRoute := Some e\<rparr>"

definition wf_routes :: "route_table \<Rightarrow> bool" where
  "wf_routes t \<longleftrightarrow> wf_pmap (rt_Routes t)"

lemma realm_key_eq: "realm_key r = realm_key s \<longleftrightarrow> strcasecmp_eq r s"
  by (simp add: realm_key_def strcasecmp_eq_def)

lemma wf_RouteTable_Remove: "wf_routes t \<Longrightarrow> wf_routes (snd (RouteTable_Remove realm t))"
  by (simp add: wf_routes_def RouteTable_Remove_def wf_map_erase split: option.splits)

lemma wf_RouteTable_Add: "wf_routes t \<Longrightarrow> wf_routes (snd (RouteTable_Add e t))"
  using wf_RouteTable_Remove [of t "re_Realm e"]
  by (simp add: wf_routes_def RouteTable_Add_def Let_def wf_map_insert)

lemma find_RouteTable_Remove:
  "wf_routes t \<Longrightarrow> map_find k (rt_Routes (snd (RouteTable_Remove realm t))) =
     (if k = realm_key realm then None else map_find k (rt_Routes t))"
  by (auto simp: wf_routes_def RouteTable_Remove_def map_find_erase split: option.splits)

lemma RouteTable_Lookup_Add:
  assumes "wf_routes t"
  shows "RouteTable_Lookup realm (snd (RouteTable_Add e t)) =
    (if strcasecmp_eq realm (re_Realm e) then Some e else RouteTable_Lookup realm t)"
proof -
  let ?t = "snd (RouteTable_Remove (re_Realm e) t)"
  have wf: "wf_pmap (rt_Routes ?t)"
    using wf_RouteTable_Remove [OF assms] by (simp add: wf_routes_def)
  have "rt_DefaultRoute ?t = rt_DefaultRoute t"
    by (simp add: RouteTable_Remove_def split: option.splits)
  then show ?thesis
    using wf find_RouteTable_Remove [OF assms]
    by (auto simp: RouteTable_Lookup_def RouteTable_Add_def Let_def map_find_insert realm_key_eq
        split: option.splits)
qed

section \<open>Sorted servers\<close>

text \<open>The servers of every application of the table are sorted and distinct, which the
  operations keep.\<close>

definition entry_sorted :: "route_entry \<Rightarrow> bool" where
  "entry_sorted e \<longleftrightarrow>
     (\<forall>b \<in> set (re_Identifiers e). \<forall>c \<in> set (snd b). wf_servers (ra_Servers (snd c)))"

definition table_sorted :: "route_table \<Rightarrow> bool" where
  "table_sorted t \<longleftrightarrow>
     (\<forall>b \<in> set (rt_Routes t). entry_sorted (snd b)) \<and>
     (\<forall>e \<in> set_option (rt_DefaultRoute t). entry_sorted e)"

lemma entry_sorted_lookup:
  "entry_sorted e \<Longrightarrow> RouteEntry_Lookup app vendor e = Some a \<Longrightarrow> wf_servers (ra_Servers a)"
  by (fastforce simp: entry_sorted_def RouteEntry_Lookup_def split: option.splits dest!: map_find_mem)

lemma table_sorted_lookup:
  "table_sorted t \<Longrightarrow> RouteTable_Lookup realm t = Some e \<Longrightarrow> entry_sorted e"
  by (fastforce simp: table_sorted_def RouteTable_Lookup_def split: option.splits
      dest!: map_find_mem)

lemma entry_sorted_new [simp]: "entry_sorted (RouteEntry_new realm a)"
  by (simp add: entry_sorted_def RouteEntry_new_def)

lemma entry_sorted_Remove: "entry_sorted e \<Longrightarrow> entry_sorted (snd (RouteEntry_Remove app vendor e))"
proof -
  assume e: "entry_sorted e"
  have "\<forall>c \<in> set (map_erase app ids). wf_servers (ra_Servers (snd c))"
    if "map_find vendor (re_Identifiers e) = Some ids" for ids
    using e map_find_mem [OF that] set_map_erase_sub [of app ids] by (force simp: entry_sorted_def)
  then show ?thesis
    using e set_map_erase_sub [of vendor "re_Identifiers e"] set_map_set
    by (fastforce simp: RouteEntry_Remove_def Let_def entry_sorted_def split: option.splits)
qed

lemma entry_sorted_Add:
  assumes "entry_sorted e" "wf_servers (ra_Servers a)" shows "entry_sorted (RouteEntry_Add a e)"
proof -
  let ?e = "snd (RouteEntry_Remove (ra_VendorId a) (ra_ApplicationId a) e)"
  have e: "entry_sorted ?e" using assms(1) by (rule entry_sorted_Remove)
  have "\<forall>c \<in> set (map_insert (ra_ApplicationId a) a ids). wf_servers (ra_Servers (snd c))"
    if "map_find (ra_VendorId a) (re_Identifiers ?e) = Some ids" for ids
    using e assms(2) map_find_mem [OF that] set_map_insert [of "ra_ApplicationId a" a ids]
    by (force simp: entry_sorted_def)
  then show ?thesis
    using e assms(2) set_map_insert set_map_set
    by (fastforce simp: RouteEntry_Add_def Let_def entry_sorted_def split: option.splits)
qed

lemma table_sorted_Add:
  "table_sorted t \<Longrightarrow> entry_sorted e \<Longrightarrow> table_sorted (snd (RouteTable_Add e t))"
  using set_map_erase_sub [of "realm_key (re_Realm e)" "rt_Routes t"] set_map_insert
  by (fastforce simp: RouteTable_Add_def RouteTable_Remove_def Let_def table_sorted_def
      split: option.splits)

lemma table_sorted_new: "table_sorted (RouteTable_new t)"
  by (simp add: table_sorted_def RouteTable_new_def)

end
