(* ===== verification/Msg_Router.thy ===== *)
theory Msg_Router
  imports Peer_Entry Route_Table
begin

text \<open>
  The message router (\<open>libdiameter/include/aaa_route_framework.h\<close>,
  \<open>aaa_route_msg_router.h\<close>, \<open>src/aaa_route_msg_router.cxx\<close>): the chains of routing
  nodes, the tables of pending requests, the decision where a request goes, the way back of
  its answer, redirection and re-transmission.
\<close>

section \<open>State\<close>

datatype route_result = ROUTE_SUCCESS | ROUTE_FAILED | ROUTE_NEXT_CHAIN

text \<open>What ends a call before it returns: the code throws an \<open>int\<close>, or it uses a null pointer
  or the front of an empty list.\<close>

datatype router_exn = ThrowInt | NullPointer

type_synonym 'a rres = "router_exn + 'a"

text \<open>A peer entry is a handle.\<close>

record pending_req =
  pr_OrigHH :: int
  pr_Source :: "nat option"
  pr_Dest :: "nat option"
  pr_ReTxExpireTime :: nat
  pr_ReTxCount :: nat
  pr_ReqMessage :: "diameter_msg option"

datatype h_type = H_LOCAL | H_PROXY | H_ERROR

text \<open>
  What the router does to its surroundings.  A request is queued at a peer while the router
  keeps it; \<open>Destroyed\<close> is the deletion of a message that a peer still has in its queue.
\<close>

datatype router_effect =
    SentTo nat diameter_msg
  | SentNothing nat
  | Destroyed diameter_msg
  | HandlerRequest h_type diameter_msg "nat option" "nat option"
  | HandlerAnswer h_type diameter_msg "nat option" "nat option"
  | LoopedBack diameter_msg
  | RejectedAnswer diameter_msg
  | NotRouted diameter_msg
  | NoRedirectHost diameter_msg
  | ReTxExceeded pending_req

text \<open>
  What a call of the router finds: the configuration, the table of peers and their states,
  the routes, the time, and the applications' proxy and error handlers.  A proxy handler may
  change the message; a session takes an error message that it knows.
\<close>

record router_env =
  ne_cfg :: dia_config
  ne_peers :: "nat peer_table"
  ne_open :: "nat \<Rightarrow> bool"
  ne_running :: "nat \<Rightarrow> bool"
  ne_routes :: route_table
  ne_now :: nat
  ne_proxy_request :: "diameter_msg \<Rightarrow> diameter_msg \<times> int"
  ne_proxy_answer :: "diameter_msg \<Rightarrow> diameter_msg"
  ne_error_taken :: "diameter_msg \<Rightarrow> bool"

datatype rnode = N_LOCAL | N_FORWARD | N_ROUTED | N_REJECT

record router =
  ro_Local :: "(int, pending_req) pmap"
  ro_Forward :: "(int, pending_req) pmap"
  ro_Routed :: "(int, pending_req) pmap"
  ro_idgen :: id_gen
  ro_effects :: "router_effect list"

definition router_new :: "id_gen \<Rightarrow> router" where
  "router_new g = \<lparr>ro_Local = [], ro_Forward = [], ro_Routed = [], ro_idgen = g, ro_effects = []\<rparr>"

definition ro_emit :: "router_effect \<Rightarrow> router \<Rightarrow> router" where
  "ro_emit e s = s\<lparr>ro_effects := ro_effects s @ [e]\<rparr>"

fun ReqMap :: "rnode \<Rightarrow> router \<Rightarrow> (int, pending_req) pmap" where
  "ReqMap N_LOCAL s = ro_Local s"
| "ReqMap N_FORWARD s = ro_Forward s"
| "ReqMap N_ROUTED s = ro_Routed s"
| "ReqMap N_REJECT s = []"

fun set_ReqMap :: "rnode \<Rightarrow> (int, pending_req) pmap \<Rightarrow> router \<Rightarrow> router" where
  "set_ReqMap N_LOCAL m s = s\<lparr>ro_Local := m\<rparr>"
| "set_ReqMap N_FORWARD m s = s\<lparr>ro_Forward := m\<rparr>"
| "set_ReqMap N_ROUTED m s = s\<lparr>ro_Routed := m\<rparr>"
| "set_ReqMap N_REJECT m s = s"

section \<open>Pending requests\<close>

text \<open>The identifiers are keys of type \<open>int\<close>.\<close>

definition hh_key :: "u32 \<Rightarrow> int" where "hh_key w = sint w"

definition Pend_Add ::
    "router_env \<Rightarrow> rnode \<Rightarrow> int \<Rightarrow> diameter_msg \<Rightarrow> nat option \<Rightarrow> nat option \<Rightarrow> router \<Rightarrow> router" where
  "Pend_Add env n key msg source dest s =
     set_ReqMap n
       (PM_Add key
          \<lparr>pr_OrigHH = hh_key (hh (hdr msg)), pr_Source = source, pr_Dest = dest,
           pr_ReTxExpireTime = ne_now env + unat (cfg_retx_interval (ne_cfg env)),
           pr_ReTxCount = 0, pr_ReqMessage = None\<rparr>
          (ReqMap n s)) s"

definition LookupQueuedMessage :: "rnode \<Rightarrow> int \<Rightarrow> router \<Rightarrow> pending_req option" where
  "LookupQueuedMessage n key s = PM_Lookup key (ReqMap n s)"

definition DeleteQueuedMessage :: "rnode \<Rightarrow> int \<Rightarrow> router \<Rightarrow> router" where
  "DeleteQueuedMessage n key s = set_ReqMap n (snd (pm_del key (ReqMap n s))) s"

text \<open>The entries are pointers: an assignment to a field changes the entry in the table.\<close>

definition upd_pending :: "rnode \<Rightarrow> int \<Rightarrow> (pending_req \<Rightarrow> pending_req) \<Rightarrow> router \<Rightarrow> router" where
  "upd_pending n key f s =
     (case PM_Lookup key (ReqMap n s) of
        None \<Rightarrow> s | Some r \<Rightarrow> set_ReqMap n (map_set key (f r) (ReqMap n s)) s)"

definition StoreRequestMessage :: "rnode \<Rightarrow> int \<Rightarrow> diameter_msg \<Rightarrow> router \<Rightarrow> router" where
  "StoreRequestMessage n key msg s =
     (if PM_Lookup key (ReqMap n s) = None then ro_emit (Destroyed msg) s
      else upd_pending n key (\<lambda>r. r\<lparr>pr_ReqMessage := Some msg\<rparr>) s)"

text \<open>\<open>Lookup\<close> of a delivery node: the answer gets the identifier of the request back.\<close>

definition Delivery_Lookup ::
    "rnode \<Rightarrow> diameter_msg \<Rightarrow> router
      \<Rightarrow> (diameter_msg \<times> diameter_msg option \<times> nat option \<times> router) option" where
  "Delivery_Lookup n m s =
     (if n = N_REJECT then Some (m, None, None, s)
      else
        (let key = hh_key (hh (hdr m)) in
         case LookupQueuedMessage n key s of
           None \<Rightarrow> None
         | Some r \<Rightarrow>
             Some (m\<lparr>hdr := (hdr m)\<lparr>hh := word_of_int (pr_OrigHH r)\<rparr>\<rparr>, pr_ReqMessage r,
               pr_Source r, DeleteQueuedMessage n key s)))"

section \<open>Sending\<close>

text \<open>\<open>DiameterPeerEntry::Send\<close>; a peer that is not open discards the message.\<close>

definition peer_send ::
    "router_env \<Rightarrow> nat \<Rightarrow> diameter_msg option \<Rightarrow> router \<Rightarrow> int \<times> router" where
  "peer_send env p msg s =
     (if \<not> ne_running env p then (-1, s)
      else
        (0, if ne_open env p
            then ro_emit (case msg of Some m \<Rightarrow> SentTo p m | None \<Rightarrow> SentNothing p) s
            else s))"

definition send_rc :: "int \<times> router \<Rightarrow> int rres \<times> router" where
  "send_rc r = (Inr (if fst r \<ge> 0 then 0 else -1), snd r)"

definition send_result :: "int \<times> router \<Rightarrow> route_result rres \<times> router" where
  "send_result r = (Inr (if fst r \<ge> 0 then ROUTE_SUCCESS else ROUTE_FAILED), snd r)"

text \<open>An error answer to the peer that a request came from; there must be one.\<close>

definition send_error ::
    "router_env \<Rightarrow> diameter_msg \<Rightarrow> u32 \<Rightarrow> nat option \<Rightarrow> router \<Rightarrow> int rres \<times> router" where
  "send_error env msg rc source s =
     (case Generate (ne_cfg env) msg rc of
        None \<Rightarrow> (Inl NullPointer, s)
      | Some answer \<Rightarrow>
          (case source of
             None \<Rightarrow> (Inl NullPointer, s)
           | Some p \<Rightarrow> send_rc (peer_send env p (Some answer) s)))"

definition AAA_UNABLE_TO_DELIVER :: u32 where "AAA_UNABLE_TO_DELIVER = 3002"
definition AAA_LOOP_DETECTED :: u32 where "AAA_LOOP_DETECTED = 3005"
definition AAA_REDIRECT_INDICATION :: u32 where "AAA_REDIRECT_INDICATION = 3006"

section \<open>Where a request goes\<close>

text \<open>\<open>RcLocal::Lookup\<close>\<close>

definition local_app :: "dia_config \<Rightarrow> diameter_msg \<Rightarrow> bool" where
  "local_app cfg m \<longleftrightarrow>
     List.member (cfg_authAppIdLst cfg) (appId (hdr m)) \<or>
     List.member (cfg_acctAppIdLst cfg) (appId (hdr m)) \<or>
     list_ex (\<lambda>v. authAppId v = appId (hdr m) \<or> acctAppId v = appId (hdr m))
       (cfg_vendorSpecificId cfg)"

definition RcLocal_Lookup :: "router_env \<Rightarrow> diameter_msg \<Rightarrow> bool" where
  "RcLocal_Lookup env m =
     (case GetStr ''DestinationHost'' 0 (acl m) of
        Some h \<Rightarrow> strcasecmp_eq h (cfg_identity (ne_cfg env))
      | None \<Rightarrow>
          (case GetStr ''DestinationRealm'' 0 (acl m) of
             Some r \<Rightarrow> strcasecmp_eq r (cfg_realm (ne_cfg env)) \<and> local_app (ne_cfg env) m
           | None \<Rightarrow> True))"

text \<open>\<open>RcForwarded::Lookup\<close>\<close>

definition open_peer :: "router_env \<Rightarrow> string \<Rightarrow> nat option" where
  "open_peer env name =
     (case PT_Lookup name (ne_peers env) of
        None \<Rightarrow> None | Some p \<Rightarrow> if ne_open env p then Some p else None)"

definition RcForwarded_Lookup :: "router_env \<Rightarrow> diameter_msg \<Rightarrow> nat option" where
  "RcForwarded_Lookup env m =
     (case GetStr ''DestinationHost'' 0 (acl m) of None \<Rightarrow> None | Some h \<Rightarrow> open_peer env h)"

text \<open>
  \<open>RcRouted::Lookup\<close>: the realm is that of the message or of its user name, from the
  character \<open>@\<close> on.  A user name without it makes \<open>substr\<close> throw, which is caught.
\<close>

definition user_realm :: "string \<Rightarrow> string option" where
  "user_realm u =
     (let n = length (takeWhile (\<lambda>c. c \<noteq> CHR ''@'') u) in
      if n < length u then Some (take (length u - 1) (drop n u)) else None)"

definition routing_realm :: "diameter_msg \<Rightarrow> string option" where
  "routing_realm m =
     (case GetStr ''DestinationRealm'' 0 (acl m) of
        Some r \<Rightarrow> Some r
      | None \<Rightarrow> (case GetStr ''UserName'' 0 (acl m) of None \<Rightarrow> None | Some u \<Rightarrow> user_realm u))"

definition int_key :: "u32 \<Rightarrow> int" where "int_key w = sint w"

definition app_id_avp :: "acl \<Rightarrow> u32 option" where
  "app_id_avp l =
     (case GetU32 ''AuthApplicationId'' 0 l of
        Some i \<Rightarrow> Some i | None \<Rightarrow> GetU32 ''AcctApplicationId'' 0 l)"

text \<open>
  The application of a vendor: \<open>Inl\<close> when the vendor is missing, and the old value when
  there is nothing to look for.
\<close>

definition vendor_lookup ::
    "route_entry \<Rightarrow> acl \<Rightarrow> route_app option \<Rightarrow> unit + route_app option" where
  "vendor_lookup route l app =
     (case GetGrouped ''VendorSpecificApplicationId'' 0 l of
        None \<Rightarrow> Inr app
      | Some g \<Rightarrow>
          (case GetU32 ''VendorId'' 0 g of
             None \<Rightarrow> Inl ()
           | Some vid \<Rightarrow>
               (case app_id_avp g of
                  None \<Rightarrow> Inr app
                | Some i \<Rightarrow> Inr (RouteEntry_Lookup (int_key i) (int_key vid) route))))"

definition find_route_app :: "route_entry \<Rightarrow> diameter_msg \<Rightarrow> unit + route_app option" where
  "find_route_app route m =
     (case RouteEntry_Lookup (int_key (appId (hdr m))) 0 route of
        Some a \<Rightarrow> Inr (Some a)
      | None \<Rightarrow>
          (case app_id_avp (acl m) of
             Some i \<Rightarrow> Inr (RouteEntry_Lookup (int_key i) 0 route)
           | None \<Rightarrow> vendor_lookup route (acl m) None))"

fun first_open :: "router_env \<Rightarrow> route_server list \<Rightarrow> nat option" where
  "first_open env [] = None"
| "first_open env (e # l) =
     (case open_peer env (rs_Server e) of Some p \<Rightarrow> Some p | None \<Rightarrow> first_open env l)"

text \<open>The node accepts (with or without a destination), or defers to the next one.\<close>

definition RcRouted_Lookup :: "router_env \<Rightarrow> diameter_msg \<Rightarrow> nat option option rres" where
  "RcRouted_Lookup env m =
     (case routing_realm m of
        None \<Rightarrow> Inr None
      | Some realm \<Rightarrow>
          (case RouteTable_Lookup realm (ne_routes env) of
             None \<Rightarrow> Inr None
           | Some route \<Rightarrow>
               (case find_route_app route m of
                  Inl _ \<Rightarrow> Inr None
                | Inr None \<Rightarrow> Inr None
                | Inr (Some app) \<Rightarrow>
                    if re_Action route = ROUTE_REDIRECT then Inr (Some None)
                    else if Servers_First (ra_Servers app) = None then Inl NullPointer
                    else (case first_open env (ra_Servers app) of
                            Some p \<Rightarrow> Inr (Some (Some p)) | None \<Rightarrow> Inr None))))"

section \<open>Requests\<close>

text \<open>\<open>DcLocal::RequestMsg\<close>\<close>

definition Local_RequestMsg ::
    "router_env \<Rightarrow> diameter_msg \<Rightarrow> nat option \<Rightarrow> nat option \<Rightarrow> router \<Rightarrow> int rres \<times> router" where
  "Local_RequestMsg env msg source dest s =
     (Inr 0,
      case source of
        None \<Rightarrow> ro_emit (LoopedBack msg) s
      | Some p \<Rightarrow>
          ro_emit (HandlerRequest H_LOCAL msg source dest)
            (Pend_Add env N_LOCAL (hh_key (hh (hdr msg))) msg source dest s))"

definition LoopDetection :: "router_env \<Rightarrow> diameter_msg \<Rightarrow> bool" where
  "LoopDetection env msg \<longleftrightarrow>
     List.member (GetAll as_str ''RouteRecord'' (acl msg)) (cfg_identity (ne_cfg env))"

text \<open>
  A new transaction: the request of a peer gets an identifier of this node; one that was
  generated here keeps those it has.
\<close>

definition new_transaction ::
    "router_env \<Rightarrow> rnode \<Rightarrow> diameter_msg \<Rightarrow> nat option \<Rightarrow> nat option \<Rightarrow> router
      \<Rightarrow> int \<times> diameter_msg \<times> router" where
  "new_transaction env n msg source dest s =
     (case source of
        Some p \<Rightarrow>
          (case HopByHopGet (ro_idgen s) of (h, g) \<Rightarrow>
             (hh_key h, msg\<lparr>hdr := (hdr msg)\<lparr>hh := h\<rparr>\<rparr>,
              Pend_Add env n (hh_key h) msg source dest (s\<lparr>ro_idgen := g\<rparr>)))
      | None \<Rightarrow>
          (let (h, g1) = (if hh (hdr msg) = 0 then HopByHopGet (ro_idgen s)
                          else (hh (hdr msg), ro_idgen s));
               (e, g2) = (if ee (hdr msg) = 0 then EndToEndGet g1 else (ee (hdr msg), g1));
               m = msg\<lparr>hdr := (hdr msg)\<lparr>hh := h, ee := e\<rparr>\<rparr>
           in (hh_key h, m, Pend_Add env n (hh_key h) m source dest (s\<lparr>ro_idgen := g2\<rparr>))))"

definition keep_request :: "rnode \<Rightarrow> int \<Rightarrow> diameter_msg \<Rightarrow> router \<Rightarrow> router" where
  "keep_request n key msg s =
     (if key > 0 then StoreRequestMessage n key msg s else ro_emit (Destroyed msg) s)"

definition send_transaction ::
    "router_env \<Rightarrow> rnode \<Rightarrow> diameter_msg \<Rightarrow> nat option \<Rightarrow> nat option \<Rightarrow> router
      \<Rightarrow> int rres \<times> router" where
  "send_transaction env n msg source dest s =
     (case new_transaction env n msg source dest s of (key, m, s1) \<Rightarrow>
        (case dest of
           None \<Rightarrow> (Inl NullPointer, s1)
         | Some d \<Rightarrow>
             (case send_rc (peer_send env d (Some m) s1) of (rc, s2) \<Rightarrow>
                (rc, keep_request n key m s2))))"

text \<open>A message that this node transmits again has its entry.\<close>

definition is_resend :: "rnode \<Rightarrow> diameter_msg \<Rightarrow> router \<Rightarrow> bool" where
  "is_resend n msg s \<longleftrightarrow>
     flag_t (flags (hdr msg)) \<and> LookupQueuedMessage n (hh_key (hh (hdr msg))) s \<noteq> None"

definition resend ::
    "router_env \<Rightarrow> rnode \<Rightarrow> diameter_msg \<Rightarrow> nat option \<Rightarrow> router \<Rightarrow> int rres \<times> router" where
  "resend env n msg dest s =
     (case dest of
        None \<Rightarrow> (Inl NullPointer, s)
      | Some d \<Rightarrow>
          (case send_rc (peer_send env d (Some msg) s) of (rc, s1) \<Rightarrow>
             (rc, StoreRequestMessage n (hh_key (hh (hdr msg))) msg s1)))"

text \<open>\<open>DcForward::RequestMsg\<close>\<close>

definition Forward_RequestMsg ::
    "router_env \<Rightarrow> diameter_msg \<Rightarrow> nat option \<Rightarrow> nat option \<Rightarrow> router \<Rightarrow> int rres \<times> router" where
  "Forward_RequestMsg env msg source dest s =
     (if is_resend N_FORWARD msg s then resend env N_FORWARD msg dest s
      else if LoopDetection env msg then
        (case source of
           Some p \<Rightarrow> send_error env msg AAA_LOOP_DETECTED source s
         | None \<Rightarrow> (Inr (-1), ro_emit (HandlerRequest H_ERROR msg source dest) s))
      else send_transaction env N_FORWARD msg source dest s)"

text \<open>
  \<open>RedirectAgent::Request\<close>: the realm and the route were found before.  The entries of the
  AVP have only their host name set.
\<close>

definition redirect_uri :: "string \<Rightarrow> diameter_uri" where
  "redirect_uri name = \<lparr>fqdn = name, port = 0, transport = 0, protocol = 0, scheme = 0\<rparr>"

definition redirect_app :: "route_entry \<Rightarrow> diameter_msg \<Rightarrow> unit + route_app option" where
  "redirect_app route msg =
     (let app = RouteEntry_Lookup (int_key (appId (hdr msg))) 0 route in
      case (app, app_id_avp (acl msg)) of
        (None, Some i) \<Rightarrow> Inr (RouteEntry_Lookup (int_key i) 0 route)
      | _ \<Rightarrow> vendor_lookup route (acl msg) app)"

definition redirect_avps :: "route_entry \<Rightarrow> route_app \<Rightarrow> acl" where
  "redirect_avps route app =
     [(''RedirectHostUsage'', [AU32 (usage_code (re_RedirectUsage route))]),
      (''RedirectHost'', map (\<lambda>e. AUri (redirect_uri (rs_Server e))) (ra_Servers app))]"

definition Redirect_Request ::
    "router_env \<Rightarrow> route_entry \<Rightarrow> diameter_msg \<Rightarrow> nat option \<Rightarrow> router \<Rightarrow> int rres \<times> router" where
  "Redirect_Request env route msg source s =
     (case Generate (ne_cfg env) msg AAA_REDIRECT_INDICATION of
        None \<Rightarrow> (Inl NullPointer, s)
      | Some answer \<Rightarrow>
          (case redirect_app route msg of
             Inl _ \<Rightarrow> (Inr (-1), s)
           | Inr app \<Rightarrow>
               (let l = (case app of
                   None \<Rightarrow> Some [] | Some a \<Rightarrow>
                     if Servers_First (ra_Servers a) = None then None
                     else Some (redirect_avps route a))
                in case (l, source) of
                     (Some avps, Some p) \<Rightarrow>
                       send_rc (peer_send env p (Some (answer\<lparr>acl := acl answer @ avps\<rparr>)) s)
                   | _ \<Rightarrow> (Inl NullPointer, s))))"

text \<open>\<open>DcRouted::RequestMsg\<close>\<close>

definition Relay_RequestMsg ::
    "router_env \<Rightarrow> bool \<Rightarrow> diameter_msg \<Rightarrow> nat option \<Rightarrow> nat option \<Rightarrow> router
      \<Rightarrow> int rres \<times> router" where
  "Relay_RequestMsg env proxy msg source dest s =
     (let foreign = (GetStr ''OriginHost'' 0 (acl msg) \<noteq> Some (cfg_identity (ne_cfg env))) in
      if foreign \<and> is_resend N_ROUTED msg s then resend env N_ROUTED msg dest s
      else if foreign \<and> LoopDetection env msg then send_error env msg AAA_LOOP_DETECTED source s
      else
        (let m = (if foreign
                  then msg\<lparr>acl := acl msg @ [(''RouteRecord'', [AStr (cfg_identity (ne_cfg env))])]\<rparr>
                  else msg) in
         if proxy then
           (case ne_proxy_request env m of (m1, rc) \<Rightarrow>
              (let s1 = ro_emit (HandlerRequest H_PROXY m source dest) s in
               if rc \<noteq> 0 then (Inr 0, s1) else send_transaction env N_ROUTED m1 source dest s1))
         else send_transaction env N_ROUTED m source dest s))"

definition Routed_RequestMsg ::
    "router_env \<Rightarrow> diameter_msg \<Rightarrow> nat option \<Rightarrow> nat option \<Rightarrow> router \<Rightarrow> int rres \<times> router" where
  "Routed_RequestMsg env msg source dest s =
     (case GetStr ''DestinationRealm'' 0 (acl msg) of
        None \<Rightarrow> (Inl ThrowInt, s)
      | Some realm \<Rightarrow>
          (case RouteTable_Lookup realm (ne_routes env) of
             None \<Rightarrow> (Inl ThrowInt, s)
           | Some route \<Rightarrow>
               (case re_Action route of
                  ROUTE_LOCAL \<Rightarrow> Local_RequestMsg env msg source dest s
                | ROUTE_REDIRECT \<Rightarrow> Redirect_Request env route msg source s
                | ROUTE_RELAY \<Rightarrow> Relay_RequestMsg env False msg source dest s
                | ROUTE_PROXY \<Rightarrow> Relay_RequestMsg env True msg source dest s)))"

text \<open>\<open>DcReject::RequestMsg\<close>\<close>

definition Reject_RequestMsg ::
    "router_env \<Rightarrow> diameter_msg \<Rightarrow> nat option \<Rightarrow> nat option \<Rightarrow> router \<Rightarrow> int rres \<times> router" where
  "Reject_RequestMsg env msg source dest s =
     (case source of
        None \<Rightarrow> (Inr 0, ro_emit (HandlerRequest H_ERROR msg source dest) s)
      | Some p \<Rightarrow> send_error env msg AAA_UNABLE_TO_DELIVER source s)"

fun Rc_Lookup :: "router_env \<Rightarrow> rnode \<Rightarrow> diameter_msg \<Rightarrow> nat option option rres" where
  "Rc_Lookup env N_LOCAL m = Inr (if RcLocal_Lookup env m then Some None else None)"
| "Rc_Lookup env N_FORWARD m = Inr (map_option Some (RcForwarded_Lookup env m))"
| "Rc_Lookup env N_ROUTED m = RcRouted_Lookup env m"
| "Rc_Lookup env N_REJECT m = Inr (Some None)"

fun Node_RequestMsg ::
    "router_env \<Rightarrow> rnode \<Rightarrow> diameter_msg \<Rightarrow> nat option \<Rightarrow> nat option \<Rightarrow> router
      \<Rightarrow> int rres \<times> router" where
  "Node_RequestMsg env N_LOCAL msg source dest s = Local_RequestMsg env msg source dest s"
| "Node_RequestMsg env N_FORWARD msg source dest s = Forward_RequestMsg env msg source dest s"
| "Node_RequestMsg env N_ROUTED msg source dest s = Routed_RequestMsg env msg source dest s"
| "Node_RequestMsg env N_REJECT msg source dest s = Reject_RequestMsg env msg source dest s"

definition Request_Process ::
    "router_env \<Rightarrow> rnode \<Rightarrow> diameter_msg \<Rightarrow> nat option \<Rightarrow> nat option \<Rightarrow> router
      \<Rightarrow> route_result rres \<times> router" where
  "Request_Process env n msg source dest s =
     (case Node_RequestMsg env n msg source dest s of
        (Inl e, s1) \<Rightarrow> (Inl e, s1)
      | (Inr rc, s1) \<Rightarrow> (Inr (if rc = 0 then ROUTE_SUCCESS else ROUTE_FAILED), s1))"

section \<open>Chains\<close>

definition Chain_Add :: "rnode \<Rightarrow> rnode list \<Rightarrow> rnode list" where
  "Chain_Add n c = c @ [n]"

definition Chain_Lookup :: "rnode \<Rightarrow> rnode list \<Rightarrow> bool" where
  "Chain_Lookup n c = List.member c n"

fun Chain_Remove :: "rnode \<Rightarrow> rnode list \<Rightarrow> int \<times> rnode list" where
  "Chain_Remove n [] = (-1, [])"
| "Chain_Remove n (m # c) =
     (if m = n then (0, c) else (case Chain_Remove n c of (rc, c') \<Rightarrow> (rc, m # c')))"

text \<open>The constructor of the router enters the nodes of both chains in the same order.\<close>

definition router_chain :: "rnode list" where
  "router_chain =
     Chain_Add N_REJECT (Chain_Add N_ROUTED (Chain_Add N_FORWARD (Chain_Add N_LOCAL [])))"

text \<open>\<open>Route\<close> of a chain: an empty chain fails, the last node may not defer.\<close>

fun Route_request ::
    "router_env \<Rightarrow> rnode list \<Rightarrow> diameter_msg \<Rightarrow> nat option \<Rightarrow> router
      \<Rightarrow> route_result rres \<times> router" where
  "Route_request env [] msg source s = (Inr ROUTE_FAILED, s)"
| "Route_request env (n # c) msg source s =
     (case Rc_Lookup env n msg of
        Inl e \<Rightarrow> (Inl e, s)
      | Inr (Some dest) \<Rightarrow> Request_Process env n msg source dest s
      | Inr None \<Rightarrow>
          if c = [] then (Inr ROUTE_NEXT_CHAIN, ro_emit (NotRouted msg) s)
          else Route_request env c msg source s)"

definition RequestMsg ::
    "router_env \<Rightarrow> diameter_msg \<Rightarrow> nat option \<Rightarrow> router \<Rightarrow> route_result rres \<times> router" where
  "RequestMsg env = Route_request env router_chain"

section \<open>Answers\<close>

definition IsRedirected :: "diameter_msg \<Rightarrow> bool" where
  "IsRedirected m \<longleftrightarrow>
     \<not> flag_r (flags (hdr m)) \<and> flag_e (flags (hdr m)) \<and> ResultCode m = AAA_REDIRECT_INDICATION"

text \<open>\<open>RedirectAgent::Answer\<close>: the stored request is sent to the first open host.\<close>

definition redirect_to :: "string \<Rightarrow> diameter_msg \<Rightarrow> diameter_msg" where
  "redirect_to name p =
     (if GetStr ''DestinationHost'' 0 (acl p) \<noteq> None
      then p\<lparr>acl := AddAvp ''DestinationHost'' False (AStr name) (acl p)\<rparr>
      else p\<lparr>acl := acl p @ [(''DestinationHost'', [AStr name])]\<rparr>)"

fun redirect_hosts ::
    "router_env \<Rightarrow> diameter_uri list \<Rightarrow> diameter_msg \<Rightarrow> diameter_msg option \<Rightarrow> router
      \<Rightarrow> int rres \<times> router" where
  "redirect_hosts env [] msg p s = (Inr 0, ro_emit (NoRedirectHost msg) s)"
| "redirect_hosts env (u # us) msg p s =
     (case open_peer env (fqdn u) of
        None \<Rightarrow> redirect_hosts env us msg p s
      | Some d \<Rightarrow>
          (case p of
             None \<Rightarrow> (Inl NullPointer, s)
           | Some m \<Rightarrow> send_rc (peer_send env d (Some (redirect_to (fqdn u) m)) s)))"

definition Redirect_Answer ::
    "router_env \<Rightarrow> diameter_msg \<Rightarrow> diameter_msg option \<Rightarrow> router \<Rightarrow> route_result rres \<times> router" where
  "Redirect_Answer env msg p s =
     (case redirect_hosts env (GetAll as_uri ''RedirectHost'' (acl msg))
             (msg\<lparr>acl := DelAvp ''ResultCode'' (acl msg)\<rparr>) p s of
        (Inl e, s1) \<Rightarrow> (Inl e, s1)
      | (Inr rc, s1) \<Rightarrow> (Inr (if rc = 0 then ROUTE_SUCCESS else ROUTE_FAILED), s1))"

text \<open>\<open>DcLocal::Process\<close>, also that of the forwarding node\<close>

definition Local_Process ::
    "router_env \<Rightarrow> diameter_msg \<Rightarrow> diameter_msg option \<Rightarrow> nat option \<Rightarrow> nat option \<Rightarrow> router
      \<Rightarrow> route_result rres \<times> router" where
  "Local_Process env msg p source dest s =
     (if IsRedirected msg then Redirect_Answer env msg p s
      else
        (case dest of
           Some d \<Rightarrow> send_result (peer_send env d (Some msg) s)
         | None \<Rightarrow>
             (Inr ROUTE_SUCCESS,
              ro_emit (HandlerAnswer (if flag_e (flags (hdr msg)) then H_ERROR else H_LOCAL)
                msg source dest) s)))"

text \<open>\<open>DcRouted::Process\<close>: the handler of errors may have taken the message that is sent.\<close>

definition Routed_Process ::
    "router_env \<Rightarrow> diameter_msg \<Rightarrow> diameter_msg option \<Rightarrow> nat option \<Rightarrow> nat option \<Rightarrow> router
      \<Rightarrow> route_result rres \<times> router" where
  "Routed_Process env msg p source dest s =
     (if IsRedirected msg then Redirect_Answer env msg p s
      else
        (case dest of
           None \<Rightarrow>
             (Inr ROUTE_SUCCESS,
              ro_emit (HandlerAnswer (if flag_e (flags (hdr msg)) then H_ERROR else H_LOCAL)
                msg source dest) s)
         | Some d \<Rightarrow>
             if flag_e (flags (hdr msg)) then
               send_result (peer_send env d (if ne_error_taken env msg then None else Some msg)
                 (ro_emit (HandlerAnswer H_ERROR msg source dest) s))
             else
               send_result (peer_send env d (Some (ne_proxy_answer env msg))
                 (ro_emit (HandlerAnswer H_PROXY msg source dest) s))))"

fun Answer_Process ::
    "router_env \<Rightarrow> rnode \<Rightarrow> diameter_msg \<Rightarrow> diameter_msg option \<Rightarrow> nat option \<Rightarrow> nat option
      \<Rightarrow> router \<Rightarrow> route_result rres \<times> router" where
  "Answer_Process env N_LOCAL msg p source dest s = Local_Process env msg p source dest s"
| "Answer_Process env N_FORWARD msg p source dest s = Local_Process env msg p source dest s"
| "Answer_Process env N_ROUTED msg p source dest s = Routed_Process env msg p source dest s"
| "Answer_Process env N_REJECT msg p source dest s =
     (Inr ROUTE_SUCCESS, ro_emit (RejectedAnswer msg) s)"

fun Route_answer ::
    "router_env \<Rightarrow> rnode list \<Rightarrow> diameter_msg \<Rightarrow> nat option \<Rightarrow> router
      \<Rightarrow> route_result rres \<times> router" where
  "Route_answer env [] msg source s = (Inr ROUTE_FAILED, s)"
| "Route_answer env (n # c) msg source s =
     (case Delivery_Lookup n msg s of
        Some (m, p, dest, s1) \<Rightarrow> Answer_Process env n m p source dest s1
      | None \<Rightarrow>
          if c = [] then (Inr ROUTE_NEXT_CHAIN, ro_emit (NotRouted msg) s)
          else Route_answer env c msg source s)"

definition AnswerMsg ::
    "router_env \<Rightarrow> diameter_msg \<Rightarrow> nat option \<Rightarrow> router \<Rightarrow> route_result rres \<times> router" where
  "AnswerMsg env = Route_answer env router_chain"

section \<open>Re-transmission\<close>

text \<open>Which entries a check selects: the old ones, or those for a peer.\<close>

datatype retx_check = AgeCheck nat | PeerCheck nat

fun retx_match :: "retx_check \<Rightarrow> pending_req \<Rightarrow> bool" where
  "retx_match (AgeCheck now) r \<longleftrightarrow> pr_ReTxExpireTime r < now"
| "retx_match (PeerCheck p) r \<longleftrightarrow> pr_Dest r = Some p"

text \<open>
  The action on an entry: its message is moved out of the entry and routed again; the entry
  must have one.
\<close>

definition mark_resent :: "diameter_msg \<Rightarrow> diameter_msg" where
  "mark_resent m = m\<lparr>hdr := (hdr m)\<lparr>flags := (flags (hdr m))\<lparr>flag_t := True\<rparr>\<rparr>\<rparr>"

definition retransmit :: "router_env \<Rightarrow> rnode \<Rightarrow> int \<Rightarrow> router \<Rightarrow> unit rres \<times> router" where
  "retransmit env n key s =
     (case LookupQueuedMessage n key s of
        None \<Rightarrow> (Inr (), s)
      | Some r \<Rightarrow>
          (case pr_ReqMessage r of
             None \<Rightarrow> (Inl NullPointer, s)
           | Some m \<Rightarrow>
               (let s1 = upd_pending n key (\<lambda>r. r\<lparr>pr_ReqMessage := None,
                      pr_ReTxExpireTime := ne_now env + unat (cfg_retx_interval (ne_cfg env))\<rparr>) s
                in case RequestMsg env (mark_resent m) (pr_Source r) s1 of
                     (Inl e, s2) \<Rightarrow> (Inl e, s2)
                   | (Inr _, s2) \<Rightarrow> (Inr (), s2))))"

definition retx_entry ::
    "router_env \<Rightarrow> retx_check \<Rightarrow> rnode \<Rightarrow> int \<Rightarrow> router \<Rightarrow> unit rres \<times> router" where
  "retx_entry env c n key s =
     (case LookupQueuedMessage n key s of
        None \<Rightarrow> (Inr (), s)
      | Some r \<Rightarrow>
          if \<not> retx_match c r then (Inr (), s)
          else if pr_ReTxCount r < unat (cfg_retx_max_count (ne_cfg env)) then
            retransmit env n key
              (upd_pending n key (\<lambda>r. r\<lparr>pr_ReTxCount := pr_ReTxCount r + 1\<rparr>) s)
          else (Inr (), ro_emit (ReTxExceeded r) (DeleteQueuedMessage n key s)))"

text \<open>
  \<open>Iterate\<close> goes from key to key of the table as it is then: the action may enter requests.
  It holds the lock of the table, which the action takes again: the lock is assumed to let
  its owner pass.
\<close>

fun next_key :: "int option \<Rightarrow> (int, 'a) pmap \<Rightarrow> int option" where
  "next_key k [] = None"
| "next_key k ((j, v) # m) =
     (if (case k of None \<Rightarrow> True | Some i \<Rightarrow> i < j) then Some j else next_key k m)"

partial_function (option) retx_loop ::
    "router_env \<Rightarrow> retx_check \<Rightarrow> rnode \<Rightarrow> int option \<Rightarrow> router \<Rightarrow> (unit rres \<times> router) option" where
  "retx_loop env c n k s =
     (case next_key k (ReqMap n s) of
        None \<Rightarrow> Some (Inr (), s)
      | Some j \<Rightarrow>
          (case retx_entry env c n j s of
             (Inl e, s1) \<Rightarrow> Some (Inl e, s1)
           | (Inr _, s1) \<Rightarrow> retx_loop env c n (Some j) s1))"

declare retx_loop.simps [code]

definition ReTransmitEvent ::
    "router_env \<Rightarrow> nat option \<Rightarrow> router \<Rightarrow> (unit rres \<times> router) option" where
  "ReTransmitEvent env peer s =
     (let c = (case peer of Some p \<Rightarrow> PeerCheck p | None \<Rightarrow> AgeCheck (ne_now env)) in
      case retx_loop env c N_FORWARD None s of
        Some (Inr _, s1) \<Rightarrow> retx_loop env c N_ROUTED None s1
      | r \<Rightarrow> r)"

end
