(* ===== verification/Router_Inv.thy ===== *)
theory Router_Inv
  imports Msg_Router
begin

text \<open>
  What every call of the router preserves: the tables of pending requests are maps whose
  keys are identifiers, a stored request carries the identifier it is stored under, only the
  forwarding and the routing node store requests, and no request is transmitted again more
  often than configured.
\<close>

section \<open>Tables\<close>

lemma ReqMap_set [simp]:
  "ReqMap n (set_ReqMap m x s) = (if n = m \<and> n \<noteq> N_REJECT then x else ReqMap n s)"
  by (cases n; cases m) simp_all

lemma ReqMap_frame [simp]:
  "ReqMap n (ro_emit e s) = ReqMap n s" "ReqMap n (s\<lparr>ro_idgen := g\<rparr>) = ReqMap n s"
  by (cases n; simp add: ro_emit_def)+

lemma ReqMap_peer_send [simp]: "ReqMap n (snd (peer_send env p m s)) = ReqMap n s"
  by (simp add: peer_send_def)

lemma effects_frame [simp]:
  "ro_effects (set_ReqMap n x s) = ro_effects s" "ro_effects (ro_emit e s) = ro_effects s @ [e]"
  "ro_idgen (set_ReqMap n x s) = ro_idgen s" "ro_idgen (ro_emit e s) = ro_idgen s"
  by (cases n; simp add: ro_emit_def)+

lemma snd_send [simp]: "snd (send_rc r) = snd r" "snd (send_result r) = snd r"
  by (simp_all add: send_rc_def send_result_def)

definition id_key :: "int \<Rightarrow> bool" where
  "id_key k \<longleftrightarrow> - 2147483648 \<le> k \<and> k < 2147483648"

lemma id_key_hh [simp]: "id_key (hh_key w)"
proof -
  have "- (2 ^ 31) \<le> sint w" "sint w < 2 ^ 31"
    using sint_greater_eq [of w] sint_lt [of w] by simp_all
  then show ?thesis by (simp add: id_key_def hh_key_def)
qed

lemma hh_key_back [simp]: "word_of_int (hh_key w) = w"
  by (simp add: hh_key_def)

lemma hh_key_inj [simp]: "hh_key v = hh_key w \<longleftrightarrow> v = w"
  by (metis hh_key_back)

text \<open>An entry is sound under its key.\<close>

definition sound_entry :: "router_env \<Rightarrow> rnode \<Rightarrow> int \<Rightarrow> pending_req \<Rightarrow> bool" where
  "sound_entry env n k r \<longleftrightarrow>
     id_key k \<and> id_key (pr_OrigHH r) \<and>
     (\<forall>m. pr_ReqMessage r = Some m \<longrightarrow> n \<noteq> N_LOCAL \<and> hh_key (hh (hdr m)) = k) \<and>
     pr_ReTxCount r \<le> unat (cfg_retx_max_count (ne_cfg env))"

definition router_inv :: "router_env \<Rightarrow> router \<Rightarrow> bool" where
  "router_inv env s \<longleftrightarrow>
     (\<forall>n. wf_pmap (ReqMap n s) \<and> (\<forall>(k, r) \<in> set (ReqMap n s). sound_entry env n k r))"

lemma router_inv_new: "router_inv env (router_new g)"
proof -
  have "ReqMap n (router_new g) = []" for n by (cases n) (simp_all add: router_new_def)
  then show ?thesis by (simp add: router_inv_def)
qed

lemma router_inv_same:
  "router_inv env s \<Longrightarrow> (\<And>n. ReqMap n s' = ReqMap n s) \<Longrightarrow> router_inv env s'"
  by (simp add: router_inv_def)

lemma router_inv_frame [simp]:
  "router_inv env (ro_emit e s) = router_inv env s"
  "router_inv env (s\<lparr>ro_idgen := g\<rparr>) = router_inv env s"
  "router_inv env (snd (peer_send env' p m s)) = router_inv env s"
  by (simp_all add: router_inv_def)

lemma router_inv_lookup:
  "router_inv env s \<Longrightarrow> LookupQueuedMessage n k s = Some r \<Longrightarrow> sound_entry env n k r"
  using map_find_mem by (fastforce simp: router_inv_def LookupQueuedMessage_def PM_Lookup_def)

lemma router_inv_set:
  assumes "router_inv env s" "wf_pmap m" "\<forall>(k, r) \<in> set m. sound_entry env n k r"
  shows "router_inv env (set_ReqMap n m s)"
  using assms by (auto simp: router_inv_def)

lemma all_map_insert:
  "(\<And>j r. (j, r) \<in> set m \<Longrightarrow> P j r) \<Longrightarrow> P k v \<Longrightarrow> (j, r) \<in> set (map_insert k v m) \<Longrightarrow> P j r"
  by (induction m) (auto split: if_splits)

lemma all_map_set:
  "(\<And>j r. (j, r) \<in> set m \<Longrightarrow> P j r) \<Longrightarrow> P k v \<Longrightarrow> (j, r) \<in> set (map_set k v m) \<Longrightarrow> P j r"
  by (induction m) (auto split: if_splits)

lemma router_inv_wf: "router_inv env s \<Longrightarrow> wf_pmap (ReqMap n s)"
  by (simp add: router_inv_def)

lemma router_inv_sound: "router_inv env s \<Longrightarrow> (k, r) \<in> set (ReqMap n s) \<Longrightarrow> sound_entry env n k r"
  by (auto simp: router_inv_def)

lemma router_inv_insert:
  assumes "router_inv env s" "sound_entry env n k r"
  shows "router_inv env (set_ReqMap n (PM_Add k r (ReqMap n s)) s)"
  using all_map_insert [of "ReqMap n s" "sound_entry env n" k r]
    router_inv_sound [OF assms(1)] assms(2)
  by (intro router_inv_set [OF assms(1)])
    (auto simp: PM_Add_def wf_map_insert router_inv_wf [OF assms(1)])

lemma router_inv_update:
  assumes "router_inv env s" "sound_entry env n k r"
  shows "router_inv env (set_ReqMap n (map_set k r (ReqMap n s)) s)"
  using all_map_set [of "ReqMap n s" "sound_entry env n" k r]
    router_inv_sound [OF assms(1)] assms(2)
  by (intro router_inv_set [OF assms(1)]) (auto simp: router_inv_wf [OF assms(1)])

lemma Pend_Add_inv:
  "router_inv env s \<Longrightarrow> id_key k \<Longrightarrow> router_inv env (Pend_Add env n k msg source dest s)"
  unfolding Pend_Add_def by (rule router_inv_insert) (simp_all add: sound_entry_def)

lemma pm_del_cases:
  "snd (pm_del k m) = m \<or> snd (pm_del k m) = map_erase k m"
  by (simp add: pm_del_eq split: option.splits)

lemma DeleteQueuedMessage_inv:
  assumes "router_inv env s" shows "router_inv env (DeleteQueuedMessage n k s)"
  unfolding DeleteQueuedMessage_def
proof (rule router_inv_set [OF assms])
  show "wf_pmap (snd (pm_del k (ReqMap n s)))"
    using pm_del_cases [of k "ReqMap n s"] router_inv_wf [OF assms, of n] wf_map_erase by metis
  have "set (snd (pm_del k (ReqMap n s))) \<subseteq> set (ReqMap n s)"
    using pm_del_cases [of k "ReqMap n s"] set_map_erase_sub by (metis order_refl)
  then show "\<forall>(j, r) \<in> set (snd (pm_del k (ReqMap n s))). sound_entry env n j r"
    by (auto intro!: router_inv_sound [OF assms])
qed

lemma upd_pending_inv:
  assumes "router_inv env s"
    and "\<And>r. LookupQueuedMessage n k s = Some r \<Longrightarrow> sound_entry env n k r \<Longrightarrow> sound_entry env n k (f r)"
  shows "router_inv env (upd_pending n k f s)"
  using assms router_inv_lookup [OF assms(1), of n k]
  by (auto simp: upd_pending_def LookupQueuedMessage_def split: option.splits
      intro!: router_inv_update)

lemma StoreRequestMessage_inv:
  assumes "router_inv env s" "n \<noteq> N_LOCAL" "hh_key (hh (hdr m)) = k"
  shows "router_inv env (StoreRequestMessage n k m s)"
  using assms
  by (auto simp: StoreRequestMessage_def sound_entry_def intro!: upd_pending_inv)

section \<open>Requests\<close>

lemma send_error_inv: "router_inv env s \<Longrightarrow> router_inv env (snd (send_error env m rc source s))"
  by (simp add: send_error_def split: option.splits)

lemma new_transaction_inv:
  assumes "router_inv env s" "new_transaction env n msg source dest s = (k, m, s1)"
  shows "router_inv env s1" "hh_key (hh (hdr m)) = k" "id_key k"
  using assms
  by (auto simp: new_transaction_def Let_def split: option.splits prod.splits
      intro!: Pend_Add_inv)

lemma send_transaction_inv:
  assumes "router_inv env s" "n \<noteq> N_LOCAL"
  shows "router_inv env (snd (send_transaction env n msg source dest s))"
proof -
  obtain k m s1 where t: "new_transaction env n msg source dest s = (k, m, s1)"
    by (cases "new_transaction env n msg source dest s")
  note 1 = new_transaction_inv [OF assms(1) t]
  show ?thesis
    using assms(2) 1
    by (auto simp: send_transaction_def t keep_request_def split_beta split: option.splits
        intro!: StoreRequestMessage_inv)
qed

lemma resend_inv:
  "router_inv env s \<Longrightarrow> n \<noteq> N_LOCAL \<Longrightarrow> router_inv env (snd (resend env n msg dest s))"
  by (auto simp: resend_def split_beta split: option.splits intro!: StoreRequestMessage_inv)

lemma Local_RequestMsg_inv:
  "router_inv env s \<Longrightarrow> router_inv env (snd (Local_RequestMsg env msg source dest s))"
  by (simp add: Local_RequestMsg_def Pend_Add_inv split: option.splits)

lemma Forward_RequestMsg_inv:
  "router_inv env s \<Longrightarrow> router_inv env (snd (Forward_RequestMsg env msg source dest s))"
  by (simp add: Forward_RequestMsg_def resend_inv send_error_inv send_transaction_inv
      split: option.splits)

lemma Relay_RequestMsg_inv:
  "router_inv env s \<Longrightarrow> router_inv env (snd (Relay_RequestMsg env proxy msg source dest s))"
  by (simp add: Relay_RequestMsg_def Let_def resend_inv send_error_inv send_transaction_inv
      split: prod.splits)

lemma Redirect_Request_inv:
  "router_inv env s \<Longrightarrow> router_inv env (snd (Redirect_Request env route msg source s))"
  by (simp add: Redirect_Request_def Let_def split: option.splits sum.splits)

lemma Routed_RequestMsg_inv:
  "router_inv env s \<Longrightarrow> router_inv env (snd (Routed_RequestMsg env msg source dest s))"
  by (simp add: Routed_RequestMsg_def Local_RequestMsg_inv Relay_RequestMsg_inv
      Redirect_Request_inv split: option.splits route_action.splits)

lemma Node_RequestMsg_inv:
  "router_inv env s \<Longrightarrow> router_inv env (snd (Node_RequestMsg env n msg source dest s))"
  by (cases n) (simp_all add: Local_RequestMsg_inv Forward_RequestMsg_inv Routed_RequestMsg_inv
      Reject_RequestMsg_def send_error_inv split: option.splits)

lemma Request_Process_inv:
  "router_inv env s \<Longrightarrow> router_inv env (snd (Request_Process env n msg source dest s))"
  using Node_RequestMsg_inv [of env s n msg source dest]
  by (cases "Node_RequestMsg env n msg source dest s")
    (simp add: Request_Process_def split: sum.splits)

lemma Route_request_inv:
  "router_inv env s \<Longrightarrow> router_inv env (snd (Route_request env c msg source s))"
  by (induction c) (auto simp: Request_Process_inv split: sum.splits option.splits)

lemma RequestMsg_inv: "router_inv env s \<Longrightarrow> router_inv env (snd (RequestMsg env msg source s))"
  by (simp add: RequestMsg_def Route_request_inv)

section \<open>Answers\<close>

lemma redirect_hosts_maps [simp]:
  "ReqMap n (snd (redirect_hosts env us msg p s)) = ReqMap n s"
  by (induction us) (auto split: option.splits)

lemma Redirect_Answer_maps [simp]: "ReqMap n (snd (Redirect_Answer env msg p s)) = ReqMap n s"
proof -
  obtain r s1 where h: "redirect_hosts env (GetAll as_uri ''RedirectHost'' (acl msg))
      (msg\<lparr>acl := DelAvp ''ResultCode'' (acl msg)\<rparr>) p s = (r, s1)" by fastforce
  have "ReqMap n s1 = ReqMap n s"
    using redirect_hosts_maps [of n env "GetAll as_uri ''RedirectHost'' (acl msg)"
        "msg\<lparr>acl := DelAvp ''ResultCode'' (acl msg)\<rparr>" p s] by (simp only: h snd_conv)
  then show ?thesis by (cases r) (simp_all only: Redirect_Answer_def h prod.case sum.case snd_conv)
qed

lemma Answer_Process_maps [simp]:
  "ReqMap k (snd (Answer_Process env n msg p source dest s)) = ReqMap k s"
  by (cases n) (simp_all add: Local_Process_def Routed_Process_def split: option.splits)

lemma Delivery_Lookup_inv:
  "router_inv env s \<Longrightarrow> Delivery_Lookup n m s = Some (m', p, d, s') \<Longrightarrow> router_inv env s'"
  by (auto simp: Delivery_Lookup_def Let_def DeleteQueuedMessage_inv split: if_splits option.splits)

lemma Route_answer_inv:
  "router_inv env s \<Longrightarrow> router_inv env (snd (Route_answer env c msg source s))"
proof (induction c)
  case (Cons n c)
  show ?case
  proof (cases "Delivery_Lookup n msg s")
    case None
    then show ?thesis using Cons by simp
  next
    case (Some x)
    obtain m p d s1 where x: "x = (m, p, d, s1)" by (cases x)
    have "router_inv env s1" using Cons.prems Some x Delivery_Lookup_inv by blast
    then have "router_inv env (snd (Answer_Process env n m p source d s1))"
      by (rule router_inv_same) simp
    then show ?thesis using Some x by simp
  qed
qed simp

lemma AnswerMsg_inv: "router_inv env s \<Longrightarrow> router_inv env (snd (AnswerMsg env msg source s))"
  by (simp add: AnswerMsg_def Route_answer_inv)

section \<open>Re-transmission\<close>

lemma retransmit_inv:
  assumes "router_inv env s" shows "router_inv env (snd (retransmit env n k s))"
proof -
  have u: "router_inv env (upd_pending n k (\<lambda>r. r\<lparr>pr_ReqMessage := None, pr_ReTxExpireTime := t\<rparr>) s)"
    for t using assms by (auto simp: sound_entry_def intro!: upd_pending_inv)
  have r: "router_inv env (snd (case RequestMsg env m src s1 of
      (Inl e, s2) \<Rightarrow> (Inl e :: unit rres, s2) | (Inr _, s2) \<Rightarrow> (Inr (), s2)))"
    if "router_inv env s1" for m src s1
    using RequestMsg_inv [OF that, of m src]
    by (cases "RequestMsg env m src s1") (simp split: sum.splits)
  show ?thesis
    using assms u r by (simp add: retransmit_def Let_def split: option.splits)
qed

lemma retx_entry_inv:
  assumes "router_inv env s" shows "router_inv env (snd (retx_entry env c n k s))"
proof -
  have "router_inv env (upd_pending n k (\<lambda>r. r\<lparr>pr_ReTxCount := pr_ReTxCount r + 1\<rparr>) s)"
    if "LookupQueuedMessage n k s = Some r"
      "pr_ReTxCount r < unat (cfg_retx_max_count (ne_cfg env))" for r
    using assms that by (auto simp: sound_entry_def intro!: upd_pending_inv)
  then show ?thesis
    using assms
    by (simp add: retx_entry_def retransmit_inv DeleteQueuedMessage_inv split: option.splits)
qed

lemma next_key_later:
  "next_key k m = Some j \<Longrightarrow> j \<in> fst ` set m \<and> (\<forall>i. k = Some i \<longrightarrow> i < j)"
  by (induction m) (auto split: if_splits option.splits)

text \<open>The keys of the loop increase and are identifiers, so that it ends.\<close>

definition keys_left :: "int option \<Rightarrow> nat" where
  "keys_left k = nat (2147483649 - (case k of None \<Rightarrow> - 2147483650 | Some i \<Rightarrow> i))"

lemma next_key_decreases:
  assumes "router_inv env s" "next_key k (ReqMap n s) = Some j"
  shows "keys_left (Some j) < keys_left k"
proof -
  have j: "j \<in> fst ` set (ReqMap n s)" "\<forall>i. k = Some i \<longrightarrow> i < j"
    using next_key_later [OF assms(2)] by simp_all
  have "id_key j" using assms(1) j(1) by (fastforce simp: router_inv_def sound_entry_def)
  then show ?thesis using j(2) by (cases k) (auto simp: keys_left_def id_key_def)
qed

lemma retx_loop_returns:
  assumes "router_inv env s"
  shows "\<exists>r s'. retx_loop env c n k s = Some (r, s') \<and> router_inv env s'"
  using assms
proof (induction "keys_left k" arbitrary: k s rule: less_induct)
  case less
  show ?case
  proof (cases "next_key k (ReqMap n s)")
    case None
    then show ?thesis using less.prems by (subst retx_loop.simps) simp
  next
    case (Some j)
    obtain r s1 where e: "retx_entry env c n j s = (r, s1)" by fastforce
    have inv: "router_inv env s1" using retx_entry_inv [OF less.prems, of c n j] e by simp
    show ?thesis
    proof (cases r)
      case (Inl x)
      then show ?thesis using Some e inv by (subst retx_loop.simps) simp
    next
      case (Inr u)
      then show ?thesis
        using Some e less.hyps [OF next_key_decreases [OF less.prems Some] inv]
        by (subst retx_loop.simps) simp
    qed
  qed
qed

lemma ReTransmitEvent_returns:
  assumes "router_inv env s"
  shows "\<exists>r s'. ReTransmitEvent env peer s = Some (r, s') \<and> router_inv env s'"
proof -
  let ?c = "case peer of Some p \<Rightarrow> PeerCheck p | None \<Rightarrow> AgeCheck (ne_now env)"
  obtain r s1 where 1: "retx_loop env ?c N_FORWARD None s = Some (r, s1)" "router_inv env s1"
    using retx_loop_returns [OF assms] by blast
  obtain r' s2 where 2: "retx_loop env ?c N_ROUTED None s1 = Some (r', s2)" "router_inv env s2"
    using retx_loop_returns [OF 1(2)] by blast
  show ?thesis using 1 2 by (cases r) (simp_all add: ReTransmitEvent_def)
qed

end
