(* ===== verification/Router_Props.thy ===== *)
theory Router_Props
  imports Router_Inv
begin

text \<open>
  Properties of the router: its reachable states, the way of a request and of its answer,
  the choice of a server, and what goes wrong with redirection, re-transmission and
  identifiers that two peers share.
\<close>

section \<open>Reachable routers\<close>

text \<open>The surroundings may change between two calls, the configuration does not.\<close>

inductive router_reachable :: "dia_config \<Rightarrow> router \<Rightarrow> bool" for cfg where
  start: "router_reachable cfg (router_new g)"
| request: "router_reachable cfg s \<Longrightarrow> ne_cfg env = cfg \<Longrightarrow>
    router_reachable cfg (snd (RequestMsg env m source s))"
| answer: "router_reachable cfg s \<Longrightarrow> ne_cfg env = cfg \<Longrightarrow>
    router_reachable cfg (snd (AnswerMsg env m source s))"
| retransmit: "router_reachable cfg s \<Longrightarrow> ne_cfg env = cfg \<Longrightarrow>
    ReTransmitEvent env peer s = Some (r, s') \<Longrightarrow> router_reachable cfg s'"

lemma router_inv_cfg: "ne_cfg env = ne_cfg env' \<Longrightarrow> router_inv env s = router_inv env' s"
  by (simp add: router_inv_def sound_entry_def)

lemma router_reachable_inv_aux:
  "router_reachable cfg s \<Longrightarrow> ne_cfg env = cfg \<Longrightarrow> router_inv env s"
proof (induction arbitrary: env rule: router_reachable.induct)
  case (start g)
  then show ?case by (simp add: router_inv_new)
next
  case (request s env' m source)
  then show ?case using RequestMsg_inv [of env' s m source] router_inv_cfg [of env env'] by metis
next
  case (answer s env' m source)
  then show ?case using AnswerMsg_inv [of env' s m source] router_inv_cfg [of env env'] by metis
next
  case (retransmit s env' peer r s')
  then show ?case
    using ReTransmitEvent_returns [of env' s peer] router_inv_cfg [of env env']
    by (metis option.inject prod.inject)
qed


section \<open>Choosing the node and the server\<close>

lemmas chain_simps = router_chain_def Chain_Add_def

lemma RequestMsg_local:
  "RcLocal_Lookup env m \<Longrightarrow>
     RequestMsg env m source s = Request_Process env N_LOCAL m source None s"
  by (simp add: RequestMsg_def chain_simps)

lemma RequestMsg_forward:
  "\<not> RcLocal_Lookup env m \<Longrightarrow> RcForwarded_Lookup env m = Some d \<Longrightarrow>
     RequestMsg env m source s = Request_Process env N_FORWARD m source (Some d) s"
  by (simp add: RequestMsg_def chain_simps)

lemma RequestMsg_routed:
  "\<not> RcLocal_Lookup env m \<Longrightarrow> RcForwarded_Lookup env m = None \<Longrightarrow>
     RcRouted_Lookup env m = Inr (Some d) \<Longrightarrow>
     RequestMsg env m source s = Request_Process env N_ROUTED m source d s"
  by (simp add: RequestMsg_def chain_simps)

lemma RequestMsg_rejected:
  "\<not> RcLocal_Lookup env m \<Longrightarrow> RcForwarded_Lookup env m = None \<Longrightarrow>
     RcRouted_Lookup env m = Inr None \<Longrightarrow>
     RequestMsg env m source s = Request_Process env N_REJECT m source None s"
  by (simp add: RequestMsg_def chain_simps)

lemma first_open_least:
  "first_open env l = Some p \<Longrightarrow> sorted (map rs_Metric l) \<Longrightarrow>
     \<exists>e \<in> set l. open_peer env (rs_Server e) = Some p \<and>
       (\<forall>x \<in> set l. open_peer env (rs_Server x) \<noteq> None \<longrightarrow> rs_Metric e \<le> rs_Metric x)"
proof (induction l)
  case (Cons a l)
  show ?case
  proof (cases "open_peer env (rs_Server a)")
    case None
    then show ?thesis using Cons by (force split: option.splits)
  next
    case (Some q)
    then show ?thesis using Cons.prems by (intro bexI [of _ a]) auto
  qed
qed simp

lemma find_route_app_servers:
  "entry_sorted route \<Longrightarrow> find_route_app route m = Inr (Some app) \<Longrightarrow>
     wf_servers (ra_Servers app)"
  by (auto simp: find_route_app_def vendor_lookup_def split: option.splits dest: entry_sorted_lookup)

text \<open>C10: A request that is routed by its realm goes to an open server of the application in the
  route of the realm, and no open server of it has a smaller metric.\<close>

theorem least_metric_chosen:
  assumes "RcRouted_Lookup env m = Inr (Some (Some p))" "table_sorted (ne_routes env)"
  shows "\<exists>realm route app e. routing_realm m = Some realm \<and>
    RouteTable_Lookup realm (ne_routes env) = Some route \<and>
    find_route_app route m = Inr (Some app) \<and> e \<in> set (ra_Servers app) \<and>
    open_peer env (rs_Server e) = Some p \<and>
    (\<forall>x \<in> set (ra_Servers app). open_peer env (rs_Server x) \<noteq> None \<longrightarrow>
       rs_Metric e \<le> rs_Metric x)"
proof -
  obtain realm route app where 1: "routing_realm m = Some realm"
    "RouteTable_Lookup realm (ne_routes env) = Some route"
    "find_route_app route m = Inr (Some app)" "first_open env (ra_Servers app) = Some p"
    using assms(1)
    by (auto simp: RcRouted_Lookup_def split: option.splits sum.splits if_splits)
  have "sorted (map rs_Metric (ra_Servers app))"
    using find_route_app_servers [OF table_sorted_lookup [OF assms(2) 1(2)] 1(3)]
    by (simp add: wf_servers_def)
  from first_open_least [OF 1(4) this] show ?thesis using 1(1-3) by blast
qed

section \<open>The way of a request and its answer\<close>

definition fresh_key :: "int \<Rightarrow> router \<Rightarrow> bool" where
  "fresh_key k s \<longleftrightarrow> (\<forall>n. LookupQueuedMessage n k s = None)"

lemma map_erase_set [simp]: "map_erase k (map_set k v m) = map_erase k m"
  by (induction m) auto

lemma map_erase_insert: "map_find k m = None \<Longrightarrow> map_erase k (map_insert k v m) = m"
  by (induction m) (auto split: if_splits)

lemma map_find_insert_fresh: "map_find k m = None \<Longrightarrow> map_find k (map_insert k v m) = Some v"
  by (induction m) (auto split: if_splits)

lemma not_queued: "fresh_key k s \<Longrightarrow> map_find k (ReqMap n s) = None"
  by (simp add: fresh_key_def LookupQueuedMessage_def PM_Lookup_def)

lemmas queue_defs = LookupQueuedMessage_def PM_Lookup_def PM_Add_def DeleteQueuedMessage_def pm_del_eq

definition renumber :: "u32 \<Rightarrow> diameter_msg \<Rightarrow> diameter_msg" where
  "renumber h m = m\<lparr>hdr := (hdr m)\<lparr>hh := h\<rparr>\<rparr>"

lemma renumber_simps [simp]:
  "hh (hdr (renumber h m)) = h" "ee (hdr (renumber h m)) = ee (hdr m)"
  "flags (hdr (renumber h m)) = flags (hdr m)" "acl (renumber h m) = acl m"
  by (simp_all add: renumber_def)

text \<open>The entry of a new transaction, and the state after it.\<close>

definition opened ::
    "rnode \<Rightarrow> u32 \<Rightarrow> diameter_msg \<Rightarrow> nat option \<Rightarrow> pending_req \<Rightarrow> router \<Rightarrow> router \<Rightarrow> bool" where
  "opened n h msg source r s s1 \<longleftrightarrow>
     LookupQueuedMessage n (hh_key h) s1 = Some r \<and> pr_Source r = source \<and>
     pr_OrigHH r = hh_key (hh (hdr msg)) \<and>
     (\<forall>k. ReqMap k (DeleteQueuedMessage n (hh_key h) s1) = ReqMap k s) \<and>
     (\<forall>k. k \<noteq> n \<longrightarrow> ReqMap k s1 = ReqMap k s)"

lemma send_transaction_fresh:
  assumes "fresh_key (hh_key h) s" "HopByHopGet (ro_idgen s) = (h, g)" "n \<noteq> N_REJECT"
    and "ne_running env d" "ne_open env d"
  obtains s1 r where
    "send_transaction env n msg (Some p) (Some d) s = (Inr 0, s1)"
    "opened n h msg (Some p) r s s1"
    "pr_ReqMessage r = (if hh_key h > 0 then Some (renumber h msg) else None)"
    "ro_effects s1 = ro_effects s @ SentTo d (renumber h msg) #
       (if hh_key h > 0 then [] else [Destroyed (renumber h msg)])"
proof -
  let ?m = "renumber h msg"
  let ?r = "\<lparr>pr_OrigHH = hh_key (hh (hdr msg)), pr_Source = Some p, pr_Dest = Some d,
           pr_ReTxExpireTime = ne_now env + unat (cfg_retx_interval (ne_cfg env)),
           pr_ReTxCount = 0, pr_ReqMessage = None\<rparr>"
  let ?s1 = "ro_emit (SentTo d ?m)
    (set_ReqMap n (map_insert (hh_key h) ?r (ReqMap n s)) (s\<lparr>ro_idgen := g\<rparr>))"
  have nq: "map_find (hh_key h) (ReqMap n s) = None" using assms(1) by (rule not_queued)
  have st: "send_transaction env n msg (Some p) (Some d) s = (Inr 0, keep_request n (hh_key h) ?m ?s1)"
    using assms(2-5)
    by (simp add: send_transaction_def new_transaction_def Pend_Add_def peer_send_def send_rc_def
        renumber_def PM_Add_def)
  show ?thesis
  proof (cases "hh_key h > 0")
    case True
    let ?r' = "?r\<lparr>pr_ReqMessage := Some ?m\<rparr>"
    have k: "keep_request n (hh_key h) ?m ?s1 =
        set_ReqMap n (map_set (hh_key h) ?r' (map_insert (hh_key h) ?r (ReqMap n s))) ?s1"
      using nq True assms(3)
      by (simp add: keep_request_def StoreRequestMessage_def upd_pending_def PM_Lookup_def
          map_find_insert_fresh)
    have "opened n h msg (Some p) ?r' s (keep_request n (hh_key h) ?m ?s1)"
      using nq assms(3)
      by (simp add: k opened_def queue_defs map_find_set map_find_insert_fresh map_erase_insert)
    then show ?thesis using that [OF st] True k by simp
  next
    case False
    then have k: "keep_request n (hh_key h) ?m ?s1 = ro_emit (Destroyed ?m) ?s1"
      by (simp add: keep_request_def)
    have "opened n h msg (Some p) ?r s (keep_request n (hh_key h) ?m ?s1)"
      using nq assms(3)
      by (simp add: k opened_def queue_defs map_find_insert_fresh map_erase_insert)
    then show ?thesis using that [OF st] False k by simp
  qed
qed

lemma renumber_same [simp]: "renumber (hh (hdr a)) a = a"
  by (simp add: renumber_def)

lemma AnswerMsg_local:
  "LookupQueuedMessage N_LOCAL (hh_key (hh (hdr a))) s = Some r \<Longrightarrow>
     AnswerMsg env a src s =
       Local_Process env (renumber (word_of_int (pr_OrigHH r)) a) (pr_ReqMessage r) src (pr_Source r)
         (DeleteQueuedMessage N_LOCAL (hh_key (hh (hdr a))) s)"
  by (simp add: AnswerMsg_def chain_simps Delivery_Lookup_def renumber_def)

text \<open>An answer that no table knows is rejected, whatever the router does else.\<close>

lemma AnswerMsg_unknown:
  assumes "fresh_key (hh_key (hh (hdr a))) s"
  shows "AnswerMsg env a source s = (Inr ROUTE_SUCCESS, ro_emit (RejectedAnswer a) s)"
  using assms by (simp add: AnswerMsg_def chain_simps Delivery_Lookup_def fresh_key_def)

lemma fresh_same: "(\<And>n. ReqMap n s' = ReqMap n s) \<Longrightarrow> fresh_key k s' = fresh_key k s"
  by (simp add: fresh_key_def LookupQueuedMessage_def)

lemma opened_other: "opened n h msg source r s s1 \<Longrightarrow> k \<noteq> n \<Longrightarrow> ReqMap k s1 = ReqMap k s"
  by (simp add: opened_def)

text \<open>The answer to a transaction of the forwarding node.\<close>

lemma AnswerMsg_forward:
  assumes "opened N_FORWARD h msg source r s s1" "fresh_key (hh_key h) s"
    and "hh (hdr a) = h"
  shows "AnswerMsg env a src s1 =
    Local_Process env (renumber (hh (hdr msg)) a) (pr_ReqMessage r) src (pr_Source r)
      (DeleteQueuedMessage N_FORWARD (hh_key h) s1)"
proof -
  have "LookupQueuedMessage N_LOCAL (hh_key h) s1 = None"
    using not_queued [OF assms(2), of N_LOCAL] opened_other [OF assms(1), of N_LOCAL]
    by (simp add: LookupQueuedMessage_def PM_Lookup_def)
  moreover have "LookupQueuedMessage N_FORWARD (hh_key h) s1 = Some r"
    "pr_OrigHH r = hh_key (hh (hdr msg))" using assms(1) by (simp_all add: opened_def)
  ultimately show ?thesis
    using assms(3) by (simp add: AnswerMsg_def chain_simps Delivery_Lookup_def renumber_def)
qed

lemma opened_closed:
  assumes "opened n h msg source r s s1" "fresh_key k s"
  shows "fresh_key k (DeleteQueuedMessage n (hh_key h) s1)"
  using assms by (simp add: opened_def fresh_key_def LookupQueuedMessage_def)

text \<open>C8: A request that is forwarded to an open peer leaves with an identifier of this node; the
  answer with that identifier goes back to where the request came from with the identifier
  the request had, the tables are then as before, and the same answer is rejected when it
  comes once more.\<close>

theorem forwarded_answer_returns:
  assumes "\<not> RcLocal_Lookup env m" "RcForwarded_Lookup env m = Some d" "ne_running env d"
    and "\<not> is_resend N_FORWARD m s" "\<not> LoopDetection env m"
    and "HopByHopGet (ro_idgen s) = (h, g)" "fresh_key (hh_key h) s"
    and "ne_running env p" "ne_open env p"
    and "hh (hdr a) = h" "\<not> IsRedirected a"
  shows "let (rc1, s1) = RequestMsg env m (Some p) s;
      (rc2, s2) = AnswerMsg env a (Some d) s1;
      (rc3, s3) = AnswerMsg env a (Some d) s2
    in rc1 = Inr ROUTE_SUCCESS \<and> rc2 = Inr ROUTE_SUCCESS \<and>
      ro_effects s1 = ro_effects s @ SentTo d (renumber h m) #
        (if hh_key h > 0 then [] else [Destroyed (renumber h m)]) \<and>
      ro_effects s2 = ro_effects s1 @ [SentTo p (renumber (hh (hdr m)) a)] \<and>
      (\<forall>n. ReqMap n s2 = ReqMap n s) \<and>
      s3 = ro_emit (RejectedAnswer a) s2"
proof -
  have dopen: "ne_open env d"
    using assms(2) by (auto simp: RcForwarded_Lookup_def open_peer_def split: option.splits if_splits)
  obtain s1 r where t: "send_transaction env N_FORWARD m (Some p) (Some d) s = (Inr 0, s1)"
    and o: "opened N_FORWARD h m (Some p) r s s1"
    and e: "ro_effects s1 = ro_effects s @ SentTo d (renumber h m) #
       (if hh_key h > 0 then [] else [Destroyed (renumber h m)])"
    by (rule send_transaction_fresh [OF assms(7,6) _ assms(3) dopen, where n = N_FORWARD and msg = m
        and p = p]) simp_all
  have req: "RequestMsg env m (Some p) s = (Inr ROUTE_SUCCESS, s1)"
    using assms(4,5) t
    by (simp add: RequestMsg_forward [OF assms(1,2)] Request_Process_def Forward_RequestMsg_def)
  let ?a = "renumber (hh (hdr m)) a"
  let ?s2 = "ro_emit (SentTo p ?a) (DeleteQueuedMessage N_FORWARD (hh_key h) s1)"
  have "\<not> IsRedirected ?a" using assms(11) by (simp add: IsRedirected_def ResultCode_def)
  then have ans: "AnswerMsg env a (Some d) s1 = (Inr ROUTE_SUCCESS, ?s2)"
    using o assms(8,9)
    by (simp add: AnswerMsg_forward [OF o assms(7,10)] Local_Process_def send_result_def
        peer_send_def opened_def)
  have maps: "ReqMap n ?s2 = ReqMap n s" for n using o by (simp add: opened_def)
  have "AnswerMsg env a (Some d) ?s2 = (Inr ROUTE_SUCCESS, ro_emit (RejectedAnswer a) ?s2)"
    using fresh_same [OF maps] assms(7,10) by (intro AnswerMsg_unknown) simp
  moreover have "ro_effects (DeleteQueuedMessage N_FORWARD (hh_key h) s1) = ro_effects s1"
    by (simp add: DeleteQueuedMessage_def)
  ultimately show ?thesis using req ans e maps by (simp add: Let_def)
qed

text \<open>C9: A request that no node can deliver is answered to the peer it came from with the result
  code \<open>DIAMETER_UNABLE_TO_DELIVER\<close>, its own identifiers and the error bit; nothing else
  changes.\<close>

theorem undeliverable_is_answered:
  assumes "\<not> RcLocal_Lookup env m" "RcForwarded_Lookup env m = None" "RcRouted_Lookup env m = Inr None"
    and "ne_running env p" "ne_open env p" "Generate (ne_cfg env) m AAA_UNABLE_TO_DELIVER \<noteq> None"
  shows "\<exists>a. RequestMsg env m (Some p) s = (Inr ROUTE_SUCCESS, ro_emit (SentTo p a) s) \<and>
    ResultCode a = 3002 \<and> flag_e (flags (hdr a)) \<and> \<not> IsRequest a \<and>
    code (hdr a) = code (hdr m) \<and> hh (hdr a) = hh (hdr m) \<and> ee (hdr a) = ee (hdr m) \<and>
    GetStr ''SessionId'' 0 (acl a) = GetStr ''SessionId'' 0 (acl m)"
proof -
  obtain a where a: "Generate (ne_cfg env) m AAA_UNABLE_TO_DELIVER = Some a" using assms(6) by blast
  have "RequestMsg env m (Some p) s = (Inr ROUTE_SUCCESS, ro_emit (SentTo p a) s)"
    using assms(4,5) a
    by (simp add: RequestMsg_rejected [OF assms(1-3)] Request_Process_def Reject_RequestMsg_def
        send_error_def send_rc_def peer_send_def)
  then show ?thesis
    using Generate_answers_aux [where cfg = "ne_cfg env" and rq = m and rc = AAA_UNABLE_TO_DELIVER] a
    by (intro exI [of _ a]) (simp add: AAA_UNABLE_TO_DELIVER_def)
qed

section \<open>Where answers go astray\<close>

text \<open>Requests for this node are kept under the identifier their sender chose.  When two peers
  choose the same one, the answer to the second request goes to the first peer, and the other
  answer is rejected.\<close>

theorem shared_identifier_misroutes:
  assumes "RcLocal_Lookup env m" "RcLocal_Lookup env m'" "hh (hdr m') = hh (hdr m)"
    and "fresh_key (hh_key (hh (hdr m))) s" "ne_running env p" "ne_open env p"
    and "hh (hdr a) = hh (hdr m)" "hh (hdr a') = hh (hdr m)" "\<not> IsRedirected a'"
  shows "let s1 = snd (RequestMsg env m' (Some q) (snd (RequestMsg env m (Some p) s)));
      s2 = snd (AnswerMsg env a' None s1); s3 = snd (AnswerMsg env a None s2)
    in ro_effects s3 = ro_effects s @
      [HandlerRequest H_LOCAL m (Some p) None, HandlerRequest H_LOCAL m' (Some q) None,
       SentTo p a', RejectedAnswer a]"
proof -
  let ?k = "hh_key (hh (hdr m))"
  define r where "r = (\<lambda>x. \<lparr>pr_OrigHH = ?k, pr_Source = Some x, pr_Dest = None,
    pr_ReTxExpireTime = ne_now env + unat (cfg_retx_interval (ne_cfg env)), pr_ReTxCount = 0,
    pr_ReqMessage = None\<rparr>)"
  have nq: "map_find ?k (ro_Local s) = None" using not_queued [OF assms(4), of N_LOCAL] by simp
  have ins: "map_insert ?k (r q) (map_insert ?k (r p) l) = map_insert ?k (r p) l" for l
    by (induction l) auto
  define s1 where "s1 = snd (RequestMsg env m' (Some q) (snd (RequestMsg env m (Some p) s)))"
  have s1: "s1 = s\<lparr>ro_Local := map_insert ?k (r p) (ro_Local s),
      ro_effects := ro_effects s @ [HandlerRequest H_LOCAL m (Some p) None,
        HandlerRequest H_LOCAL m' (Some q) None]\<rparr>"
    using assms(3) ins
    by (simp add: s1_def RequestMsg_local [OF assms(1)] RequestMsg_local [OF assms(2)]
        Request_Process_def Local_RequestMsg_def Pend_Add_def ro_emit_def PM_Add_def r_def)
  have q: "LookupQueuedMessage N_LOCAL (hh_key (hh (hdr a'))) s1 = Some (r p)"
    using nq assms(8) by (simp add: s1 queue_defs map_find_insert_fresh)
  have same: "renumber (word_of_int (pr_OrigHH (r p))) a' = a'"
    using renumber_same [of a'] assms(8) by (simp add: r_def)
  have src: "pr_Source (r p) = Some p" by (simp add: r_def)
  have "DeleteQueuedMessage N_LOCAL (hh_key (hh (hdr a'))) s1 = s1\<lparr>ro_Local := ro_Local s\<rparr>"
    using nq assms(8) by (simp add: s1 queue_defs map_find_insert_fresh map_erase_insert)
  then have a': "AnswerMsg env a' None s1 = (Inr ROUTE_SUCCESS,
      ro_emit (SentTo p a') (s1\<lparr>ro_Local := ro_Local s\<rparr>))"
    using assms(5,6,9)
    by (simp add: AnswerMsg_local [OF q] same src Local_Process_def send_result_def peer_send_def)
  have "ReqMap n (ro_emit (SentTo p a') (s1\<lparr>ro_Local := ro_Local s\<rparr>)) = ReqMap n s" for n
    by (cases n) (simp_all add: s1)
  from fresh_same [OF this]
  have "fresh_key (hh_key (hh (hdr a))) (ro_emit (SentTo p a') (s1\<lparr>ro_Local := ro_Local s\<rparr>))"
    using assms(4,7) by simp
  from AnswerMsg_unknown [OF this] show ?thesis
    using a' unfolding s1_def [symmetric] by (simp add: Let_def s1)
qed

text \<open>When a redirect answer makes the router send the stored request to the host that the answer
  names, the transaction is already closed: the answer of that host is rejected, and the
  request is never answered.\<close>

theorem redirected_answer_lost:
  assumes "router_inv env s" "LookupQueuedMessage N_FORWARD (hh_key (hh (hdr a))) s = Some r"
    and "LookupQueuedMessage N_LOCAL (hh_key (hh (hdr a))) s = None"
    and "LookupQueuedMessage N_ROUTED (hh_key (hh (hdr a))) s = None"
    and "pr_ReqMessage r = Some m" "IsRedirected a"
    and "GetAll as_uri ''RedirectHost'' (acl a) = u # us"
    and "open_peer env (fqdn u) = Some d" "ne_running env d"
    and "hh (hdr b) = hh (hdr (redirect_to (fqdn u) m))"
  shows "let (rc1, s1) = AnswerMsg env a src s; (rc2, s2) = AnswerMsg env b (Some d) s1
    in rc1 = Inr ROUTE_SUCCESS \<and> ro_effects s1 = ro_effects s @ [SentTo d (redirect_to (fqdn u) m)] \<and>
      s2 = ro_emit (RejectedAnswer b) s1"
proof -
  let ?k = "hh_key (hh (hdr a))"
  let ?s1 = "ro_emit (SentTo d (redirect_to (fqdn u) m)) (DeleteQueuedMessage N_FORWARD ?k s)"
  have hm: "hh (hdr m) = hh (hdr a)"
    using router_inv_lookup [OF assms(1,2)] assms(5) by (simp add: sound_entry_def)
  have hb: "hh (hdr b) = hh (hdr a)" using assms(10) hm by (simp add: redirect_to_def split: if_splits)
  have "ne_open env d" using assms(8) by (auto simp: open_peer_def split: option.splits if_splits)
  then have "Redirect_Answer env (renumber h a) (Some m) t =
      (Inr ROUTE_SUCCESS, ro_emit (SentTo d (redirect_to (fqdn u) m)) t)" for h t
    using assms(7-9) by (simp add: Redirect_Answer_def send_rc_def peer_send_def)
  moreover have "IsRedirected (renumber h a)" for h
    using assms(6) by (simp add: IsRedirected_def ResultCode_def)
  ultimately have 1: "AnswerMsg env a src s = (Inr ROUTE_SUCCESS, ?s1)"
    using assms(2,3,5)
    by (simp add: AnswerMsg_def chain_simps Delivery_Lookup_def Let_def Local_Process_def
        renumber_def)
  have wf: "wf_pmap (ReqMap N_FORWARD s)" using assms(1) by (rule router_inv_wf)
  have "fresh_key ?k ?s1"
    unfolding fresh_key_def
  proof
    fix n show "LookupQueuedMessage n ?k ?s1 = None"
      using assms(2-4) pm.lookup_del [OF wf, of ?k ?k]
      by (cases n) (simp_all add: LookupQueuedMessage_def DeleteQueuedMessage_def PM_Lookup_def)
  qed
  then have "AnswerMsg env b (Some d) ?s1 = (Inr ROUTE_SUCCESS, ro_emit (RejectedAnswer b) ?s1)"
    using hb by (intro AnswerMsg_unknown) simp
  moreover have "ro_effects (DeleteQueuedMessage N_FORWARD ?k s) = ro_effects s"
    by (simp add: DeleteQueuedMessage_def)
  ultimately show ?thesis unfolding 1 by simp
qed

text \<open>Half of the identifiers a router generates are negative as an \<open>int\<close>.  A request that is
  forwarded under one of them is deleted while the peer has it in its queue, and a redirect
  answer to it makes the router use a null pointer.\<close>

theorem negative_identifier_faults:
  assumes "\<not> RcLocal_Lookup env m" "RcForwarded_Lookup env m = Some d" "ne_running env d"
    and "\<not> is_resend N_FORWARD m s" "\<not> LoopDetection env m"
    and "HopByHopGet (ro_idgen s) = (h, g)" "fresh_key (hh_key h) s" "hh_key h < 0"
    and "hh (hdr a) = h" "IsRedirected a" "GetAll as_uri ''RedirectHost'' (acl a) = u # us"
    and "open_peer env (fqdn u) \<noteq> None"
  shows "let s1 = snd (RequestMsg env m (Some p) s) in
    ro_effects s1 = ro_effects s @ [SentTo d (renumber h m), Destroyed (renumber h m)] \<and>
    fst (AnswerMsg env a (Some d) s1) = Inl NullPointer"
proof -
  have dopen: "ne_open env d"
    using assms(2) by (auto simp: RcForwarded_Lookup_def open_peer_def split: option.splits if_splits)
  obtain s1 r where t: "send_transaction env N_FORWARD m (Some p) (Some d) s = (Inr 0, s1)"
    and o: "opened N_FORWARD h m (Some p) r s s1" and n: "pr_ReqMessage r = None"
    and e: "ro_effects s1 = ro_effects s @ [SentTo d (renumber h m), Destroyed (renumber h m)]"
    by (rule send_transaction_fresh [OF assms(7,6) _ assms(3) dopen, where n = N_FORWARD
          and msg = m and p = p]) (use assms(8) in simp_all)
  have req: "RequestMsg env m (Some p) s = (Inr ROUTE_SUCCESS, s1)"
    using assms(4,5) t
    by (simp add: RequestMsg_forward [OF assms(1,2)] Request_Process_def Forward_RequestMsg_def)
  obtain q where "open_peer env (fqdn u) = Some q" using assms(12) by blast
  then have "fst (Redirect_Answer env (renumber x a) None t) = Inl NullPointer" for x t
    using assms(11) by (simp add: Redirect_Answer_def)
  moreover have "IsRedirected (renumber x a)" for x
    using assms(10) by (simp add: IsRedirected_def ResultCode_def)
  ultimately have "fst (AnswerMsg env a (Some d) s1) = Inl NullPointer"
    by (simp add: AnswerMsg_forward [OF o assms(7,9)] Local_Process_def n)
  then show ?thesis using req e by simp
qed

section \<open>Re-transmission\<close>

lemma mark_resent_simps [simp]:
  "acl (mark_resent m) = acl m" "appId (hdr (mark_resent m)) = appId (hdr m)"
  by (simp_all add: mark_resent_def)

lemma mark_resent_routing [simp]:
  "RcLocal_Lookup env (mark_resent m) = RcLocal_Lookup env m"
  "RcForwarded_Lookup env (mark_resent m) = RcForwarded_Lookup env m"
  "RcRouted_Lookup env (mark_resent m) = RcRouted_Lookup env m"
  by (simp_all add: RcLocal_Lookup_def local_app_def RcForwarded_Lookup_def
      RcRouted_Lookup_def routing_realm_def find_route_app_def cong: option.case_cong)

lemma RequestMsg_undeliverable:
  assumes "\<not> RcLocal_Lookup env m" "RcForwarded_Lookup env m = None" "RcRouted_Lookup env m = Inr None"
    and "ne_running env p" "Generate (ne_cfg env) m AAA_UNABLE_TO_DELIVER \<noteq> None"
  obtains es where "RequestMsg env m (Some p) s =
    (Inr ROUTE_SUCCESS, s\<lparr>ro_effects := ro_effects s @ es\<rparr>)"
proof -
  obtain a where "Generate (ne_cfg env) m AAA_UNABLE_TO_DELIVER = Some a" using assms(5) by blast
  then have "RequestMsg env m (Some p) s = (Inr ROUTE_SUCCESS,
      s\<lparr>ro_effects := ro_effects s @ (if ne_open env p then [SentTo p a] else [])\<rparr>)"
    using assms(4)
    by (simp add: RequestMsg_rejected [OF assms(1-3)] Request_Process_def Reject_RequestMsg_def
        send_error_def send_rc_def peer_send_def ro_emit_def)
  then show ?thesis by (rule that)
qed

text \<open>A pending request whose peer is gone and for which there is no other route loses its
  message at its next re-transmission, but not its entry: the one after that uses a null
  pointer.\<close>

theorem rejected_retransmission_faults:
  assumes "ro_Forward s = [(k, r)]" "pr_ReqMessage r = Some m" "pr_Source r = Some p"
    and "Suc (pr_ReTxCount r) < unat (cfg_retx_max_count (ne_cfg env))"
    and "pr_ReTxExpireTime r < ne_now env"
    and "\<not> RcLocal_Lookup env m" "RcForwarded_Lookup env m = None" "RcRouted_Lookup env m = Inr None"
    and "ne_running env p"
    and "Generate (ne_cfg env) (mark_resent m) AAA_UNABLE_TO_DELIVER \<noteq> None"
    and "ne_cfg env' = ne_cfg env"
    and "ne_now env + unat (cfg_retx_interval (ne_cfg env)) < ne_now env'"
  shows "\<exists>s1 s2. retx_loop env (AgeCheck (ne_now env)) N_FORWARD None s = Some (Inr (), s1) \<and>
    retx_loop env' (AgeCheck (ne_now env')) N_FORWARD None s1 = Some (Inl NullPointer, s2)"
proof -
  let ?r1 = "r\<lparr>pr_ReTxCount := Suc (pr_ReTxCount r)\<rparr>"
  let ?r2 = "?r1\<lparr>pr_ReqMessage := None,
    pr_ReTxExpireTime := ne_now env + unat (cfg_retx_interval (ne_cfg env))\<rparr>"
  let ?s = "s\<lparr>ro_Forward := [(k, ?r2)]\<rparr>"
  obtain es where req: "RequestMsg env (mark_resent m) (Some p) ?s =
      (Inr ROUTE_SUCCESS, ?s\<lparr>ro_effects := ro_effects ?s @ es\<rparr>)"
    by (rule RequestMsg_undeliverable [where m = "mark_resent m" and env = env and p = p and s = ?s])
      (use assms(6-10) in simp_all)
  let ?s1 = "?s\<lparr>ro_effects := ro_effects ?s @ es\<rparr>"
  have e1: "retx_entry env (AgeCheck (ne_now env)) N_FORWARD k s = (Inr (), ?s1)"
    using assms(1-5) req
    by (simp add: retx_entry_def retransmit_def queue_defs upd_pending_def)
  have e2: "fst (retx_entry env' (AgeCheck (ne_now env')) N_FORWARD k ?s1) = Inl NullPointer"
    using assms(4,11,12)
    by (simp add: retx_entry_def retransmit_def queue_defs upd_pending_def)
  have "retx_loop env (AgeCheck (ne_now env)) N_FORWARD None s = Some (Inr (), ?s1)"
    using assms(1) e1 by (subst retx_loop.simps) (simp, subst retx_loop.simps, simp)
  moreover obtain s2 where "retx_entry env' (AgeCheck (ne_now env')) N_FORWARD k ?s1 =
      (Inl NullPointer, s2)" using e2 by (metis prod.collapse)
  then have "retx_loop env' (AgeCheck (ne_now env')) N_FORWARD None ?s1 = Some (Inl NullPointer, s2)"
    by (subst retx_loop.simps) simp
  ultimately show ?thesis by blast
qed

end
