(* ===== verification/Router_Samples.thy ===== *)
theory Router_Samples
  imports Router_Props
begin

text \<open>
  Concrete routers: the properties of the router and of its routing table applied to a node
  \<open>a\<close> of the realm \<open>r\<close> with the open peers \<open>b\<close>, \<open>c\<close> and \<open>d\<close>.
\<close>

section \<open>A node\<close>

definition n_cfg :: dia_config where
  "n_cfg =
     \<lparr>cfg_identity = ''a'', cfg_realm = ''r'', cfg_watchdog_timeout = 30,
      cfg_reconnect_interval = 30, cfg_reconnect_max = 3, cfg_retx_interval = 10,
      cfg_retx_max_count = 3, cfg_advertised_hostname = [], cfg_product = ''p'', cfg_version = 1,
      cfg_vendor = 0, cfg_supportedVendorIdLst = [], cfg_authAppIdLst = [1],
      cfg_acctAppIdLst = [], cfg_vendorSpecificId = [], cfg_originStateId = 1\<rparr>"

definition n_app :: route_app where
  "n_app =
     \<lparr>ra_ApplicationId = 7, ra_VendorId = 0,
      ra_Servers = [\<lparr>rs_Server = ''x'', rs_Metric = 1\<rparr>, \<lparr>rs_Server = ''c'', rs_Metric = 2\<rparr>,
        \<lparr>rs_Server = ''b'', rs_Metric = 3\<rparr>]\<rparr>"

definition n_route :: route_entry where
  "n_route = RouteEntry_Add n_app (RouteEntry_new ''far'' ROUTE_RELAY)"

definition n_env :: "nat \<Rightarrow> router_env" where
  "n_env now =
     \<lparr>ne_cfg = n_cfg, ne_peers = [(''b'', 1), (''c'', 2), (''d'', 3)], ne_open = (\<lambda>_. True),
      ne_running = (\<lambda>_. True), ne_routes = snd (RouteTable_Add n_route (RouteTable_new 0)),
      ne_now = now, ne_proxy_request = (\<lambda>m. (m, 0)), ne_proxy_answer = (\<lambda>m. m),
      ne_error_taken = (\<lambda>_. False)\<rparr>"

definition n_msg :: "bool \<Rightarrow> u32 \<Rightarrow> acl \<Rightarrow> diameter_msg" where
  "n_msg request h l =
     \<lparr>hdr = (hdr (MsgWidget 300 request 7))\<lparr>hh := h, ee := h\<rparr>, acl = l\<rparr>"

definition n_gen :: "u32 \<Rightarrow> id_gen" where
  "n_gen h = \<lparr>hop_Id = h, end_Id = 1, rnd = (\<lambda>n. of_nat n), drawn = 0\<rparr>"

definition to_host :: "string \<Rightarrow> acl" where "to_host h = [(''DestinationHost'', [AStr h])]"

definition to_realm :: "string \<Rightarrow> acl" where "to_realm r = [(''DestinationRealm'', [AStr r])]"

definition redirection :: "u32 \<Rightarrow> diameter_msg" where
  "redirection h =
     (n_msg False h [(''ResultCode'', [AU32 3006]), (''RedirectHost'', [AUri (redirect_uri ''d'')])])
       \<lparr>hdr := (hdr (n_msg False h []))
          \<lparr>flags := \<lparr>flag_r = False, flag_p = False, flag_e = True, flag_t = False\<rparr>\<rparr>\<rparr>"

lemmas node_defs = n_cfg_def n_env_def n_msg_def n_gen_def to_host_def to_realm_def MsgWidget_def
  redirection_def redirect_uri_def

lemmas lookup_defs = GetStr_def GetU32_def GetGrouped_def GetAvp_def open_peer_def
  RcLocal_Lookup_def RcForwarded_Lookup_def RcRouted_Lookup_def routing_realm_def

lemma n_hosts:
  "open_peer (n_env t) ''b'' = Some 1" "open_peer (n_env t) ''c'' = Some 2"
  "open_peer (n_env t) ''d'' = Some 3" "open_peer (n_env t) ''x'' = None"
  by (simp_all add: open_peer_def n_env_def strcasecmp_eq_def lower_char_def)

lemma n_not_local:
  "\<not> RcLocal_Lookup (n_env t) (n_msg q h (to_host ''b''))"
  "\<not> RcLocal_Lookup (n_env t) (n_msg q h (to_host ''x''))"
  "\<not> RcLocal_Lookup (n_env t) (n_msg q h (to_realm ''far''))"
  "\<not> RcLocal_Lookup (n_env t) (n_msg q h (to_realm ''gone''))"
  by (simp_all add: lookup_defs node_defs strcasecmp_eq_def lower_char_def)

lemma n_routes:
  "RcForwarded_Lookup (n_env t) (n_msg q h (to_host ''b'')) = Some 1"
  "RcForwarded_Lookup (n_env t) (n_msg q h (to_host ''x'')) = None"
  "RcForwarded_Lookup (n_env t) (n_msg q h (to_realm z)) = None"
  "RcRouted_Lookup (n_env t) (n_msg q h (to_host ''x'')) = Inr None"
  using n_hosts [of t]
  by (simp_all add: RcForwarded_Lookup_def RcRouted_Lookup_def routing_realm_def n_msg_def
      to_host_def to_realm_def GetStr_def GetAvp_def)

lemma n_empty: "ReqMap n (router_new g) = []"
  by (cases n) (simp_all add: router_new_def)

lemma n_fresh: "fresh_key k (router_new g)"
  by (simp add: fresh_key_def queue_defs n_empty)

lemma n_hop: "HopByHopGet (ro_idgen (router_new (n_gen 1))) = (2, n_gen 2)"
  "HopByHopGet (ro_idgen (router_new (n_gen 0x80000000))) = (0x80000001, n_gen 0x80000001)"
  by (simp_all add: HopByHopGet_def router_new_def n_gen_def)

lemma n_loop: "\<not> LoopDetection (n_env t) (n_msg q h (to_host d))"
  by (simp add: LoopDetection_def node_defs GetAll_def)

lemma n_new: "\<not> is_resend n (n_msg q h l) s"
  by (simp add: is_resend_def node_defs)

lemma n_up: "ne_running (n_env t) p" "ne_open (n_env t) p" "ne_cfg (n_env t) = n_cfg"
  by (simp_all add: n_env_def)

lemma n_sorted: "table_sorted (ne_routes (n_env t))"
  unfolding n_env_def n_route_def
  by (simp add: table_sorted_Add table_sorted_new entry_sorted_Add n_app_def wf_servers_def)

lemma n_hh: "hh (hdr (n_msg q h l)) = h" "acl (n_msg q h l) = l" "appId (hdr (n_msg q h l)) = 7"
  by (simp_all add: n_msg_def MsgWidget_def)

section \<open>The table and the choice of a server\<close>

theorem RouteEntry_Lookup_Add_witness:
  "RouteEntry_Lookup 7 0 n_route = Some n_app \<and> RouteEntry_Lookup 0 7 n_route = None"
proof -
  have wf: "wf_entry (RouteEntry_new ''far'' ROUTE_RELAY)"
    by (simp add: wf_entry_def RouteEntry_new_def)
  have "ra_ApplicationId n_app \<noteq> ra_VendorId n_app" by (simp add: n_app_def)
  from RouteEntry_Lookup_Add [OF wf this, of 7 0] RouteEntry_Lookup_Add [OF wf this, of 0 7]
  show ?thesis by (simp add: n_route_def RouteEntry_Lookup_def RouteEntry_new_def n_app_def)
qed


lemma n_routed: "RcRouted_Lookup (n_env 0) (n_msg True 5 (to_realm ''far'')) = Inr (Some (Some 2))"
  by code_simp

theorem least_metric_chosen_witness:
  "\<exists>realm route app e. routing_realm (n_msg True 5 (to_realm ''far'')) = Some realm \<and>
    RouteTable_Lookup realm (ne_routes (n_env 0)) = Some route \<and>
    find_route_app route (n_msg True 5 (to_realm ''far'')) = Inr (Some app) \<and>
    e \<in> set (ra_Servers app) \<and> open_peer (n_env 0) (rs_Server e) = Some 2 \<and>
    (\<forall>x \<in> set (ra_Servers app). open_peer (n_env 0) (rs_Server x) \<noteq> None \<longrightarrow>
       rs_Metric e \<le> rs_Metric x)"
  by (rule least_metric_chosen [OF n_routed n_sorted])

section \<open>Requests and answers\<close>

theorem forwarded_answer_returns_witness:
  "let (rc1, s1) = RequestMsg (n_env 0) (n_msg True 5 (to_host ''b'')) (Some 2) (router_new (n_gen 1));
       (rc2, s2) = AnswerMsg (n_env 0) (n_msg False 2 []) (Some 1) s1
   in ro_effects s2 = [SentTo 1 (renumber 2 (n_msg True 5 (to_host ''b''))),
        SentTo 2 (renumber 5 (n_msg False 2 []))]"
proof -
  have "\<not> IsRedirected (n_msg False 2 [])" by (simp add: IsRedirected_def node_defs)
  moreover have "hh_key 2 > 0" by code_simp
  ultimately show ?thesis
    using forwarded_answer_returns [OF n_not_local(1) [of 0 True 5] n_routes(1) n_up(1) n_new n_loop
        n_hop(1) n_fresh n_up(1,2), where p = 2 and a = "n_msg False 2 []"]
    by (auto simp: Let_def n_hh router_new_def split: prod.splits)
qed

lemma n_error: "Generate n_cfg (n_msg q h (to_host z)) rc \<noteq> None"
  by (simp add: Generate_def Let_def node_defs GetStr_def GetU32_def GetGrouped_def GetAvp_def)

theorem undeliverable_is_answered_witness:
  "\<exists>a. RequestMsg (n_env 0) (n_msg True 5 (to_host ''x'')) (Some 2) (router_new (n_gen 1)) =
      (Inr ROUTE_SUCCESS, ro_emit (SentTo 2 a) (router_new (n_gen 1))) \<and> ResultCode a = 3002"
  using undeliverable_is_answered [OF n_not_local(2) [of 0 True 5] n_routes(2,4) n_up(1,2),
      where p = 2 and s = "router_new (n_gen 1)"] n_error
  by (auto simp: n_up)

theorem shared_identifier_misroutes_witness:
  "let s1 = snd (RequestMsg (n_env 0) (n_msg True 5 (to_host ''a'')) (Some 2)
        (snd (RequestMsg (n_env 0) (n_msg True 5 (to_host ''a'')) (Some 1) (router_new (n_gen 1)))));
      s2 = snd (AnswerMsg (n_env 0) (n_msg False 5 []) None s1);
      s3 = snd (AnswerMsg (n_env 0) (n_msg False 5 []) None s2)
    in last (ro_effects s3) = RejectedAnswer (n_msg False 5 [])"
proof -
  have l: "RcLocal_Lookup (n_env 0) (n_msg True 5 (to_host ''a''))"
    by (simp add: lookup_defs node_defs)
  have "\<not> IsRedirected (n_msg False 5 [])" by (simp add: IsRedirected_def node_defs)
  from shared_identifier_misroutes [OF l l _ n_fresh [of _ "n_gen 1"] n_up(1,2) _ _ this,
      where p = 1 and q = 2 and a = "n_msg False 5 []"]
  show ?thesis
    by (simp add: n_hh Let_def)
qed

section \<open>Redirection and re-transmission\<close>

lemma n_redirect:
  "IsRedirected (redirection h)" "hh (hdr (redirection h)) = h"
  "GetAll as_uri ''RedirectHost'' (acl (redirection h)) = [redirect_uri ''d'']"
  "open_peer (n_env t) (fqdn (redirect_uri ''d'')) = Some 3"
  using n_hosts(3) [of t]
  by (simp_all add: IsRedirected_def ResultCode_def AAA_REDIRECT_INDICATION_def GetU32_def
      GetAvp_def node_defs GetAll_def)

text \<open>A router that forwarded a request of the peer 2 to the peer 1.\<close>

definition n_pending :: pending_req where
  "n_pending =
     \<lparr>pr_OrigHH = 5, pr_Source = Some 2, pr_Dest = Some 1, pr_ReTxExpireTime = 10,
      pr_ReTxCount = 0, pr_ReqMessage = Some (n_msg True 2 (to_host ''x''))\<rparr>"

definition n_waiting :: router where
  "n_waiting = (router_new (n_gen 2))\<lparr>ro_Forward := [(2, n_pending)]\<rparr>"

lemma n_waiting_inv: "router_inv (n_env t) n_waiting"
  unfolding router_inv_def
proof
  fix n show "wf_pmap (ReqMap n n_waiting) \<and>
    (\<forall>(k, r) \<in> set (ReqMap n n_waiting). sound_entry (n_env t) n k r)"
    by (cases n) (simp_all add: n_waiting_def router_new_def sound_entry_def n_pending_def
        n_hh hh_key_def id_key_def)
qed

theorem redirected_answer_lost_witness:
  "let s1 = snd (AnswerMsg (n_env 0) (redirection 2) (Some 1) n_waiting)
   in ro_effects s1 = [SentTo 3 (redirect_to ''d'' (n_msg True 2 (to_host ''x'')))] \<and>
     snd (AnswerMsg (n_env 0) (n_msg False 2 []) (Some 3) s1) =
       ro_emit (RejectedAnswer (n_msg False 2 [])) s1"
proof -
  have q: "LookupQueuedMessage N_FORWARD (hh_key (hh (hdr (redirection 2)))) n_waiting = Some n_pending"
    "LookupQueuedMessage N_LOCAL (hh_key (hh (hdr (redirection 2)))) n_waiting = None"
    "LookupQueuedMessage N_ROUTED (hh_key (hh (hdr (redirection 2)))) n_waiting = None"
    by (simp_all add: queue_defs n_waiting_def router_new_def n_redirect(2) hh_key_def)
  have m: "pr_ReqMessage n_pending = Some (n_msg True 2 (to_host ''x''))"
    by (simp add: n_pending_def)
  have b: "hh (hdr (n_msg False 2 [])) =
      hh (hdr (redirect_to (fqdn (redirect_uri ''d'')) (n_msg True 2 (to_host ''x''))))"
    by (simp add: redirect_to_def n_hh)
  have e: "ro_effects n_waiting = []" "fqdn (redirect_uri ''d'') = ''d''"
    by (simp_all add: n_waiting_def router_new_def redirect_uri_def)
  from redirected_answer_lost [OF n_waiting_inv q m n_redirect(1) n_redirect(3) n_redirect(4) n_up(1) b,
      of 0 "Some 1"]
  show ?thesis by (simp add: Let_def e split: prod.splits)
qed

theorem negative_identifier_faults_witness:
  "fst (AnswerMsg (n_env 0) (redirection 0x80000001) (Some 1)
     (snd (RequestMsg (n_env 0) (n_msg True 5 (to_host ''b'')) (Some 2)
       (router_new (n_gen 0x80000000))))) = Inl NullPointer"
proof -
  have neg: "hh_key 0x80000001 < 0" by code_simp
  have p: "open_peer (n_env 0) (fqdn (redirect_uri ''d'')) \<noteq> None"
    using n_redirect(4) [of 0] by simp
  show ?thesis
    using negative_identifier_faults [OF n_not_local(1) [of 0 True 5] n_routes(1) n_up(1) n_new n_loop
        n_hop(2) n_fresh neg n_redirect(2,1,3) p, where p = 2]
    by (simp add: Let_def)
qed

theorem rejected_retransmission_faults_witness:
  "\<exists>s1 s2. retx_loop (n_env 20) (AgeCheck 20) N_FORWARD None n_waiting = Some (Inr (), s1) \<and>
    retx_loop (n_env 40) (AgeCheck 40) N_FORWARD None s1 = Some (Inl NullPointer, s2)"
proof -
  have s: "ro_Forward n_waiting = [(2, n_pending)]" by (simp add: n_waiting_def)
  have r: "pr_ReqMessage n_pending = Some (n_msg True 2 (to_host ''x''))"
    "pr_Source n_pending = Some 2"
    "Suc (pr_ReTxCount n_pending) < unat (cfg_retx_max_count (ne_cfg (n_env 20)))"
    "pr_ReTxExpireTime n_pending < ne_now (n_env 20)"
    by (simp_all add: n_pending_def n_env_def n_cfg_def)
  have g: "Generate (ne_cfg (n_env 20)) (mark_resent (n_msg True 2 (to_host ''x'')))
      AAA_UNABLE_TO_DELIVER \<noteq> None"
    by (simp add: Generate_def Let_def node_defs GetStr_def GetU32_def GetGrouped_def GetAvp_def)
  have t: "ne_cfg (n_env 40) = ne_cfg (n_env 20)"
    "ne_now (n_env 20) + unat (cfg_retx_interval (ne_cfg (n_env 20))) < ne_now (n_env 40)"
    by (simp_all add: n_env_def n_cfg_def)
  from rejected_retransmission_faults [OF s r n_not_local(2) n_routes(2,4) n_up(1) g t]
  show ?thesis by (simp add: n_env_def)
qed

end
