(* ===== verification/Event_Chain.thy ===== *)
theory Event_Chain
  imports Fsm_Framework
begin

text \<open>
  Actions that end by passing another event to the machine.  An action returns the new state
  and the event it passes on; the machine follows these events one after the other, as the
  nested calls of \<open>Event\<close> do.  The locale says when this returns and what it preserves.
\<close>

partial_function (option) run_chain ::
    "('e \<Rightarrow> 'w \<Rightarrow> 'w \<times> 'e option) \<Rightarrow> 'e \<Rightarrow> 'w \<Rightarrow> 'w option" where
  "run_chain stp ev w =
     (case stp ev w of
        (w', None) \<Rightarrow> Some w'
      | (w', Some ev') \<Rightarrow> run_chain stp ev' w')"

text \<open>The same with a bound on the number of events.\<close>

fun chain_upto ::
    "nat \<Rightarrow> ('e \<Rightarrow> 'w \<Rightarrow> 'w \<times> 'e option) \<Rightarrow> 'e \<Rightarrow> 'w \<Rightarrow> 'w option" where
  "chain_upto 0 stp ev w = None"
| "chain_upto (Suc k) stp ev w =
     (case stp ev w of
        (w', None) \<Rightarrow> Some w'
      | (w', Some ev') \<Rightarrow> chain_upto k stp ev' w')"

text \<open>One event of a machine whose actions may pass on another.\<close>

definition chain_step ::
    "('s, 'e, 'a) state_table \<Rightarrow> ('w \<Rightarrow> bool) \<Rightarrow> ('w \<Rightarrow> 's) \<Rightarrow> ('s \<Rightarrow> 'w \<Rightarrow> 'w)
     \<Rightarrow> ('a \<Rightarrow> 'w \<Rightarrow> 'w \<times> 'e option) \<Rightarrow> 'e \<Rightarrow> 'w \<Rightarrow> 'w \<times> 'e option" where
  "chain_step t running st set_st act ev w =
     (case sm_dispatch t (running w) (st w) ev of
        Fire s' a \<Rightarrow> act a (set_st s' w)
      | _ \<Rightarrow> (w, None))"

locale event_chain =
  fixes stp :: "'e \<Rightarrow> 'w \<Rightarrow> 'w \<times> 'e option"
    and inv :: "'e option \<Rightarrow> 'w \<Rightarrow> bool"
    and rank :: "'e \<Rightarrow> 'w \<Rightarrow> nat"
  assumes step_inv: "inv (Some ev) w \<Longrightarrow> stp ev w = (w', n) \<Longrightarrow> inv n w'"
    and step_rank: "inv (Some ev) w \<Longrightarrow> stp ev w = (w', Some ev') \<Longrightarrow> rank ev' w' < rank ev w"
begin

lemma chain_returns: "inv (Some ev) w \<Longrightarrow> \<exists>w'. run_chain stp ev w = Some w' \<and> inv None w'"
proof (induction "rank ev w" arbitrary: ev w rule: less_induct)
  case less
  obtain w1 n where s: "stp ev w = (w1, n)" by fastforce
  show ?case
  proof (cases n)
    case None
    then show ?thesis using step_inv [OF less.prems s] s by (simp add: run_chain.simps)
  next
    case (Some ev1)
    then have "rank ev1 w1 < rank ev w" "inv (Some ev1) w1"
      using step_rank [OF less.prems] step_inv [OF less.prems s] s by simp_all
    from less.hyps [OF this] show ?thesis
      using s Some by (simp add: run_chain.simps [of stp ev])
  qed
qed

text \<open>The rank of the first event bounds the length of its chain.\<close>

lemma chain_within: "inv (Some ev) w \<Longrightarrow> rank ev w < k \<Longrightarrow> run_chain stp ev w = chain_upto k stp ev w"
proof (induction k arbitrary: ev w)
  case (Suc k)
  obtain w1 n where s: "stp ev w = (w1, n)" by fastforce
  show ?case
  proof (cases n)
    case None
    then show ?thesis using s by (simp add: run_chain.simps)
  next
    case (Some ev1)
    then have "rank ev1 w1 < k" "inv (Some ev1) w1"
      using step_rank [OF Suc.prems(1)] step_inv [OF Suc.prems(1) s] s Suc.prems(2) by fastforce+
    with Suc.IH show ?thesis using s Some by (simp add: run_chain.simps [of stp ev])
  qed
qed simp

lemma chain_inv: "inv (Some ev) w \<Longrightarrow> run_chain stp ev w = Some w' \<Longrightarrow> inv None w'"
  using chain_returns by fastforce

end

text \<open>A step fires an entry of the table, or it does nothing.\<close>

lemma chain_step_cases:
  assumes "wf_table t"
  obtains (ignored) "chain_step t running st set_st act ev w = (w, None)"
  | (fired) e where "running w" "e \<in> set (entries t)" "prevState e = st w"
    "event e = Some ev \<or> isWildcardEvent e"
    "chain_step t running st set_st act ev w = act (action e) (set_st (nextState e) w)"
proof (cases "sm_dispatch t (running w) (st w) ev")
  case (Fire s' a)
  then have "running w" by (auto simp: sm_dispatch_def split: if_splits)
  moreover obtain e where "e \<in> set (entries t)" "prevState e = st w"
    "event e = Some ev \<or> isWildcardEvent e" "nextState e = s'" "action e = a"
    by (rule dispatch_mem [OF assms Fire])
  ultimately show ?thesis using Fire by (intro fired [of e]) (simp_all add: chain_step_def)
qed (auto simp: chain_step_def intro: ignored)

end
