(* ===== verification/Eap_Packet.thy ===== *)
theory Eap_Packet
  imports DRA_Prelude
begin

text \<open>
  EAP packets (\<open>libeap/include/eap.hxx\<close>, \<open>eap_parser.hxx\<close>) in the message blocks of
  \<open>include/aaa_parser_defs.h\<close>: types, headers, and the payloads of the Identity,
  Notification, MD5-Challenge and Nak types, read and written as the parsers do it.  Where
  the code uses the representation of integers, the host is little-endian; whether \<open>char\<close>
  is signed is an argument.
\<close>

section \<open>Types\<close>

record eap_type =
  et_type :: u8
  et_vendorId :: u16
  et_vendorType :: u16

definition EapType :: "u8 \<Rightarrow> eap_type" where
  "EapType t = \<lparr>et_type = t, et_vendorId = 0, et_vendorType = 0\<rparr>"

definition EapVendorType :: "u16 \<Rightarrow> u16 \<Rightarrow> eap_type" where
  "EapVendorType vid vty = \<lparr>et_type = 254, et_vendorId = vid, et_vendorType = vty\<rparr>"

definition IsVSE :: "eap_type \<Rightarrow> bool" where
  "IsVSE t \<longleftrightarrow> et_type t = 254 \<and> t \<noteq> EapVendorType 0 0"

definition type_Search :: "eap_type \<Rightarrow> eap_type list \<Rightarrow> bool" where
  "type_Search t l \<longleftrightarrow> List.member l t"

definition list_IsVSE :: "eap_type list \<Rightarrow> bool" where
  "list_IsVSE l \<longleftrightarrow> list_ex IsVSE l"

definition EAP_IDENTITY :: eap_type where "EAP_IDENTITY = EapType 1"
definition EAP_NOTIFICATION :: eap_type where "EAP_NOTIFICATION = EapType 2"
definition EAP_NAK :: eap_type where "EAP_NAK = EapType 3"
definition EAP_MD5 :: eap_type where "EAP_MD5 = EapType 4"

lemmas eap_type_defs = EapType_def EapVendorType_def EAP_IDENTITY_def EAP_NOTIFICATION_def
  EAP_NAK_def EAP_MD5_def

definition EAP_Request :: u8 where "EAP_Request = 1"
definition EAP_Response :: u8 where "EAP_Response = 2"
definition EAP_Success :: u8 where "EAP_Success = 3"
definition EAP_Failure :: u8 where "EAP_Failure = 4"

lemmas eap_code_defs = EAP_Request_def EAP_Response_def EAP_Success_def EAP_Failure_def

section \<open>Message blocks\<close>

text \<open>
  A block is its memory with the positions of the two pointers.  A copy into it that does not
  fit is refused as a whole.
\<close>

record mblock =
  mb_mem :: "u8 list"
  mb_rd :: nat
  mb_wr :: nat

definition block_new :: "nat \<Rightarrow> mblock" where
  "block_new n = \<lparr>mb_mem = replicate n 0, mb_rd = 0, mb_wr = 0\<rparr>"

definition block_of :: "u8 list \<Rightarrow> mblock" where
  "block_of bs = \<lparr>mb_mem = bs, mb_rd = 0, mb_wr = length bs\<rparr>"

definition block_copy :: "u8 list \<Rightarrow> mblock \<Rightarrow> mblock" where
  "block_copy bs m =
     (if mb_wr m + length bs \<le> length (mb_mem m)
      then m\<lparr>mb_mem := take (mb_wr m) (mb_mem m) @ bs @ drop (mb_wr m + length bs) (mb_mem m),
             mb_wr := mb_wr m + length bs\<rparr>
      else m)"

definition block_length :: "mblock \<Rightarrow> nat" where
  "block_length m = mb_wr m - mb_rd m"

text \<open>What is between the beginning of the block and the write pointer.\<close>

definition packet :: "mblock \<Rightarrow> u8 list" where
  "packet m = take (mb_wr m) (mb_mem m)"

text \<open>\<open>n\<close> octets from the read pointer, if there are so many.\<close>

definition block_read :: "nat \<Rightarrow> mblock \<Rightarrow> u8 list option" where
  "block_read n m =
     (if mb_rd m + n \<le> length (mb_mem m) then Some (take n (drop (mb_rd m) (mb_mem m)))
      else None)"

text \<open>
  A parser succeeds, throws, or does something that is undefined: it reads beyond the block
  or beyond a variable.
\<close>

datatype 'a eparse = EOk 'a | EThrow | EUndef

section \<open>Header\<close>

record eap_header =
  eh_code :: u8
  eh_identifier :: u8
  eh_length :: u16

text \<open>The length field becomes the position of the write pointer, whatever it is.\<close>

definition header_parse :: "mblock \<Rightarrow> (eap_header \<times> mblock) eparse" where
  "header_parse m =
     (case mb_mem m of
        c # i # a # b # _ \<Rightarrow>
          EOk (\<lparr>eh_code = c, eh_identifier = i, eh_length = rd16 [a, b]\<rparr>,
               m\<lparr>mb_rd := 4, mb_wr := unat (rd16 [a, b])\<rparr>)
      | _ \<Rightarrow> EUndef)"

definition header_print :: "eap_header \<Rightarrow> mblock \<Rightarrow> mblock" where
  "header_print h m =
     m\<lparr>mb_mem := eh_code h # eh_identifier h # be16 (eh_length h) @ drop 4 (mb_mem m),
       mb_wr := 4\<rparr>"

text \<open>The header of a message whose payload is in place, as every sender composes it.\<close>

definition compose :: "u8 \<Rightarrow> u8 \<Rightarrow> mblock \<Rightarrow> mblock" where
  "compose c i m =
     (let n = of_nat (block_length m) in
      (header_print \<lparr>eh_code = c, eh_identifier = i, eh_length = n\<rparr> m)\<lparr>mb_wr := unat n\<rparr>)"

definition short_packet :: "u8 \<Rightarrow> u8 \<Rightarrow> mblock" where
  "short_packet c i =
     header_print \<lparr>eh_code = c, eh_identifier = i, eh_length = 4\<rparr> (block_new 4)"

section \<open>The type of a request or response\<close>

definition swap16 :: "u16 \<Rightarrow> u16" where
  "swap16 w = push_bit 8 w OR drop_bit 8 w"

text \<open>
  \<open>EapRequestParser\<close>.  The vendor of an extended type is the value of a logical conjunction
  whose operands are not zero, its vendor type a single octet.
\<close>

definition char_u16 :: "bool \<Rightarrow> u8 \<Rightarrow> u16" where
  "char_u16 sc c = (if sc then scast c else ucast c)"

definition type_parse :: "bool \<Rightarrow> mblock \<Rightarrow> (eap_type \<times> mblock) eparse" where
  "type_parse sc m =
     (if length (mb_mem m) \<le> 4 then EUndef
      else
        (let t = mb_mem m ! 4 in
         if t = 254 then
           (if length (mb_mem m) \<le> 8 then EUndef
            else EOk (EapVendorType (swap16 1) (swap16 (char_u16 sc (mb_mem m ! 8))),
                      m\<lparr>mb_rd := 8\<rparr>))
         else EOk (EapType t, m\<lparr>mb_rd := 5\<rparr>)))"

text \<open>Writing an extended type copies four octets from a variable of two.\<close>

definition type_print :: "eap_type \<Rightarrow> mblock \<Rightarrow> mblock eparse" where
  "type_print t m =
     (if et_type t = 254 then EUndef else EOk (block_copy [et_type t] (m\<lparr>mb_wr := 4\<rparr>)))"

section \<open>The check for UTF-8\<close>

text \<open>
  \<open>UTF8Checker\<close>.  The loop that counts the leading ones of an octet tests the octet itself
  with a logical conjunction and never changes it.
\<close>

fun lead_loop :: "nat \<Rightarrow> u8 \<Rightarrow> nat" where
  "lead_loop 0 b = 0"
| "lead_loop (Suc k) b = (if b = 0 then 0 else Suc (lead_loop k b))"

definition continuation :: "bool \<Rightarrow> u8 \<Rightarrow> bool" where
  "continuation sc d \<longleftrightarrow> (if sc then sint d div 64 = 2 else uint d div 64 = 2)"

fun skip_continuation :: "bool \<Rightarrow> nat \<Rightarrow> u8 list \<Rightarrow> u8 list option" where
  "skip_continuation sc 0 bs = Some bs"
| "skip_continuation sc (Suc n) [] = None"
| "skip_continuation sc (Suc n) (d # bs) =
     (if continuation sc d then skip_continuation sc n bs else None)"

lemma skip_continuation_length:
  "skip_continuation sc n bs = Some r \<Longrightarrow> length r \<le> length bs"
  by (induction sc n bs rule: skip_continuation.induct) (auto split: if_splits)

function utf8_checker :: "bool \<Rightarrow> bool \<Rightarrow> u8 list \<Rightarrow> bool" where
  "utf8_checker sc nullCheck [] = True"
| "utf8_checker sc nullCheck (b # bs) =
     (if b = 0 \<and> nullCheck then False
      else if b \<noteq> 0 \<and> drop_bit 7 b = 0 then utf8_checker sc nullCheck bs
      else if drop_bit 1 b = 0x76 then False
      else
        (let count = lead_loop 5 (push_bit 1 b) in
         if count = 0 then False
         else
           (case skip_continuation sc count bs of
              None \<Rightarrow> False | Some r \<Rightarrow> utf8_checker sc nullCheck r)))"
  by pat_completeness auto
termination
  by (relation "measure (\<lambda>(_, _, bs). length bs)") (auto dest: skip_continuation_length)

section \<open>Payloads\<close>

text \<open>
  The payload ends at the write pointer, which the header has set.  A length field below that
  of the header makes the difference wrap.
\<close>

definition rest_read :: "mblock \<Rightarrow> u8 list eparse" where
  "rest_read m =
     (if mb_wr m < mb_rd m then EUndef
      else (case block_read (mb_wr m - mb_rd m) m of None \<Rightarrow> EUndef | Some bs \<Rightarrow> EOk bs))"

text \<open>Identity and Notification have the same form.\<close>

definition text_parse :: "bool \<Rightarrow> mblock \<Rightarrow> u8 list eparse" where
  "text_parse sc m =
     (case rest_read m of
        EOk bs \<Rightarrow> if utf8_checker sc False bs then EOk bs else EThrow
      | EThrow \<Rightarrow> EThrow
      | EUndef \<Rightarrow> EUndef)"

definition text_print :: "bool \<Rightarrow> eap_type \<Rightarrow> u8 list \<Rightarrow> mblock \<Rightarrow> mblock eparse" where
  "text_print sc t s m =
     (case type_print t m of
        EOk m1 \<Rightarrow> if utf8_checker sc True s then EOk (block_copy s m1) else EThrow
      | r \<Rightarrow> r)"

text \<open>
  MD5-Challenge: the value and the name.  The length of the name is kept in a signed 16-bit
  variable; a negative one makes \<open>assign\<close> throw.
\<close>

definition md5_parse :: "mblock \<Rightarrow> (u8 list \<times> u8 list) eparse" where
  "md5_parse m =
     (case block_read 1 m of
        Some [n] \<Rightarrow>
          (let m1 = m\<lparr>mb_rd := mb_rd m + 1\<rparr> in
           case block_read (unat n) m1 of
             None \<Rightarrow> EUndef
           | Some v \<Rightarrow>
               if n = 0 then EThrow
               else
                 (let m2 = m1\<lparr>mb_rd := mb_rd m1 + unat n\<rparr>;
                      k = sint (word_of_int (int (mb_wr m) - int (mb_rd m) - (uint n + 1)) :: u16)
                  in if k < 0 then EThrow
                     else (case block_read (nat k) m2 of None \<Rightarrow> EUndef | Some s \<Rightarrow> EOk (v, s))))
      | _ \<Rightarrow> EUndef)"

definition md5_print :: "u8 list \<Rightarrow> u8 list \<Rightarrow> mblock \<Rightarrow> mblock eparse" where
  "md5_print v name m =
     (case type_print EAP_MD5 m of
        EOk m1 \<Rightarrow>
          (let n = of_nat (length v) :: u8 in
           if n = 0 then EThrow
           else EOk (block_copy name (block_copy (take (unat n) v) (block_copy [n] m1))))
      | r \<Rightarrow> r)"

text \<open>
  Nak.  The reader goes over the list that it fills, which is empty, and its other branch
  runs while a pointer is null: no type is ever read.
\<close>

datatype nak_type = LegacyNak | ExtendedNak

fun nak_read :: "nak_type \<Rightarrow> eap_type list \<Rightarrow> mblock \<Rightarrow> eap_type list eparse" where
  "nak_read LegacyNak [] m = EOk []"
| "nak_read LegacyNak (t # l) m = EUndef"
| "nak_read ExtendedNak l m = EOk l"

definition le32 :: "u32 \<Rightarrow> u8 list" where
  "le32 w = [ucast w, ucast (drop_bit 8 w), ucast (drop_bit 16 w), ucast (drop_bit 24 w)]"

definition nak_entry :: "eap_type \<Rightarrow> u8 list" where
  "nak_entry t =
     (let t1 = (if et_type t \<noteq> 254 then EapVendorType 0 (ucast (et_type t)) else t);
          vid = ucast (swap16 (if et_vendorId t1 = 0 then 0 else 1)) :: u32;
          vty = ucast (swap16 (et_vendorType t1)) :: u32
      in le32 vid @ le32 vty)"

definition nak_print :: "nak_type \<Rightarrow> eap_type list \<Rightarrow> mblock \<Rightarrow> mblock eparse" where
  "nak_print d l m =
     (case type_print EAP_NAK m of
        EOk m1 \<Rightarrow>
          EOk (case d of
             LegacyNak \<Rightarrow> fold (\<lambda>t. block_copy [et_type t]) l m1
           | ExtendedNak \<Rightarrow>
               fold (\<lambda>t m. block_copy (drop 4 (nak_entry t)) (block_copy (take 4 (nak_entry t)) m))
                 l (block_copy (le32 (ucast (swap16 3))) (block_copy (le32 0) m1)))
      | r \<Rightarrow> r)"

end
