(* ===== verification/Eap_Policy.thy ===== *)
theory Eap_Policy
  imports Eap_Packet
begin

text \<open>
  The authentication policy of an EAP session (\<open>libeap/include/eap_policy.hxx\<close>,
  \<open>libeap/eapcore/eap_policy.cxx\<close>): a binary tree of policy elements and a current position
  in it.  Trees are built before a session runs, so an element stands for the tree below it.
\<close>

section \<open>Policy elements\<close>

datatype policy =
    FinalSuccess
  | FinalFailure
  | Continued eap_type policy policy

datatype policy_switch = PolicyOnSuccess | PolicyOnFailure

definition ContinuedPolicyElement :: "eap_type \<Rightarrow> policy" where
  "ContinuedPolicyElement t = Continued t FinalSuccess FinalFailure"

fun policy_IsContinued :: "policy \<Rightarrow> bool" where
  "policy_IsContinued (Continued t s f) = True"
| "policy_IsContinued p = False"

text \<open>Operations of a continued element; they are not defined on a leaf.\<close>

fun next_element :: "policy_switch \<Rightarrow> policy \<Rightarrow> policy option" where
  "next_element PolicyOnSuccess (Continued t s f) = Some s"
| "next_element PolicyOnFailure (Continued t s f) = Some f"
| "next_element sw p = None"

fun AddContinuedPolicyElement :: "policy \<Rightarrow> policy_switch \<Rightarrow> policy \<Rightarrow> policy" where
  "AddContinuedPolicyElement p PolicyOnSuccess (Continued t s f) = Continued t p f"
| "AddContinuedPolicyElement p PolicyOnFailure (Continued t s f) = Continued t s p"
| "AddContinuedPolicyElement p sw e = e"

fun AddSuccessPolicyElement :: "policy_switch \<Rightarrow> policy \<Rightarrow> policy" where
  "AddSuccessPolicyElement PolicyOnSuccess (Continued t s f) = Continued t FinalSuccess f"
| "AddSuccessPolicyElement PolicyOnFailure (Continued t s f) = Continued t s FinalSuccess"
| "AddSuccessPolicyElement sw e = e"

text \<open>The element that is added is the one for success.\<close>

fun AddFailurePolicyElement :: "policy \<Rightarrow> policy" where
  "AddFailurePolicyElement (Continued t s f) = Continued t s FinalSuccess"
| "AddFailurePolicyElement e = e"

section \<open>The policy of a session\<close>

record eap_policy =
  initialPolicyElement :: "policy option"
  currentPolicyElement :: "policy option"

definition EapPolicy_new :: eap_policy where
  "EapPolicy_new = \<lparr>initialPolicyElement = None, currentPolicyElement = None\<rparr>"

definition SetInitialPolicyElement :: "policy option \<Rightarrow> eap_policy \<Rightarrow> eap_policy" where
  "SetInitialPolicyElement e p = p\<lparr>initialPolicyElement := e\<rparr>"

text \<open>What every \<open>Start\<close> does first.\<close>

definition policy_restart :: "eap_policy \<Rightarrow> eap_policy" where
  "policy_restart p = p\<lparr>currentPolicyElement := initialPolicyElement p\<rparr>"

definition Allow :: "eap_policy \<Rightarrow> eap_type \<Rightarrow> bool" where
  "Allow p t =
     (if t = EAP_NOTIFICATION then True
      else (case currentPolicyElement p of
          None \<Rightarrow> False
        | Some FinalSuccess \<Rightarrow> True
        | Some FinalFailure \<Rightarrow> False
        | Some (Continued ty s f) \<Rightarrow> ty = t))"

definition IsSatisfied :: "eap_policy \<Rightarrow> bool" where
  "IsSatisfied p \<longleftrightarrow>
     (case currentPolicyElement p of Some FinalSuccess \<Rightarrow> True | _ \<Rightarrow> False)"

text \<open>\<open>None\<close> is the exception \<open>NoCurrentMethod\<close>.\<close>

definition CurrentMethod :: "eap_policy \<Rightarrow> eap_type option" where
  "CurrentMethod p =
     (case currentPolicyElement p of Some (Continued t s f) \<Rightarrow> Some t | _ \<Rightarrow> None)"

definition policy_Update :: "policy_switch \<Rightarrow> eap_policy \<Rightarrow> eap_policy" where
  "policy_Update sw p =
     (case currentPolicyElement p of
        Some (Continued t s f) \<Rightarrow>
          p\<lparr>currentPolicyElement :=
             Some (case sw of PolicyOnSuccess \<Rightarrow> s | PolicyOnFailure \<Rightarrow> f)\<rparr>
      | _ \<Rightarrow> p)"

text \<open>
  The update on a list of types: the type of the new element is read before it is known to
  be a continued one, which is undefined on a leaf.
\<close>

fun nak_walk :: "eap_type list \<Rightarrow> policy \<Rightarrow> policy option" where
  "nak_walk l (Continued t s f) =
     (if l = [] then Some f
      else (case f of
          Continued t' s' f' \<Rightarrow> if type_Search t' l then Some f else nak_walk l f
        | _ \<Rightarrow> None))"
| "nak_walk l p = Some p"

definition policy_Update_list :: "eap_type list \<Rightarrow> eap_policy \<Rightarrow> eap_policy option" where
  "policy_Update_list l p =
     (case currentPolicyElement p of
        None \<Rightarrow> Some p
      | Some e \<Rightarrow> map_option (\<lambda>e'. p\<lparr>currentPolicyElement := Some e'\<rparr>) (nak_walk l e))"

text \<open>
  \<open>MakeTypeList\<close>.  Its recursive calls pass two arguments, of which the second is a test
  for null: they select the function of two arguments, which starts again from the current
  element.  There the element is either found in the list, or added to it as it is.  Since
  the elements of a tree are never null, the test is true.
\<close>

definition type_add :: "eap_type \<Rightarrow> eap_type list \<Rightarrow> eap_type list" where
  "type_add t l = (if type_Search t l then l else l @ [t])"

definition MakeTypeList :: "eap_policy \<Rightarrow> bool \<Rightarrow> eap_type list" where
  "MakeTypeList p isVSE =
     (case CurrentMethod p of
        None \<Rightarrow> [EapType 0]
      | Some t \<Rightarrow> type_add t [if \<not> isVSE \<and> IsVSE t then EapType 254 else t])"

section \<open>Facts\<close>

lemma policy_restart_simps [simp]:
  "currentPolicyElement (policy_restart p) = initialPolicyElement p"
  "initialPolicyElement (policy_restart p) = initialPolicyElement p"
  by (simp_all add: policy_restart_def)

lemma policy_Update_initial [simp]:
  "initialPolicyElement (policy_Update sw p) = initialPolicyElement p"
  by (auto simp: policy_Update_def split: option.splits policy.splits)

lemma nak_walk_Nil [simp]: "nak_walk [] p = Some (case p of Continued t s f \<Rightarrow> f | _ \<Rightarrow> p)"
  by (cases p) simp_all

lemma policy_Update_list_Nil: "policy_Update_list [] p = Some (policy_Update PolicyOnFailure p)"
  by (auto simp: policy_Update_list_def policy_Update_def split: option.splits policy.splits)

end
