(* ===== verification/Eap_Session.thy ===== *)
theory Eap_Session
  imports Event_Chain Eap_Policy
begin

text \<open>
  What the switch state machines of peers and authenticators have in common
  (\<open>libeap/include/eap_fsm.hxx\<close>, \<open>libeap/eapcore/eap_fsm.cxx\<close>): the state of a session with
  its method, the queue of jobs that the session multiplexes, and the registrar of methods.
\<close>

section \<open>Methods\<close>

text \<open>The method state machines of the core library.\<close>

datatype method_kind = AuthIdentity | AuthNotification | AuthMD5 | PeerMD5

datatype eap_role = RolePeer | RoleAuthenticator

datatype me_st =
    MInitialize | MCheckPickUpInit | MWaitResponse | MProcessResponse | MProcessRequest
  | MSuccess | MFailure

datatype me_ev =
    MvIntegrityCheck | MvSuccess | MvFailure | MvFailure_MoreTrial | MvFailure_NoMoreTrial
  | MvPickUpInit | MvNoPickUpInit | MvAccept | MvReject

text \<open>
  The number tells the methods of a session apart: a job in the queue refers to the method
  it was scheduled for.
\<close>

record eap_method =
  me_kind :: method_kind
  me_id :: nat
  me_state :: me_st
  me_running :: bool
  me_events :: "me_ev list"
  me_isDone :: bool
  me_keyData :: "u8 list"
  me_nTrial :: u32
  me_value :: "u8 list"
  me_peerName :: "u8 list"

definition method_new :: "method_kind \<Rightarrow> nat \<Rightarrow> eap_method" where
  "method_new k n =
     \<lparr>me_kind = k, me_id = n, me_state = MInitialize, me_running = False, me_events = [],
      me_isDone = False, me_keyData = [], me_nTrial = 0, me_value = [], me_peerName = []\<rparr>"

section \<open>The environment of a session\<close>

text \<open>
  The entries of the registrar, what the application's callbacks return, and the functions
  of OpenSSL: \<open>en_random n\<close> is what \<open>RAND_bytes\<close> yields for method \<open>n\<close>, if it succeeds.
\<close>

record eap_env =
  en_signed :: bool
  en_table :: "(eap_type \<times> eap_role \<times> method_kind) list"
  en_ProcessIdentity :: "u8 list \<Rightarrow> bool"
  en_passphrase :: "u8 list"
  en_myName :: "u8 list"
  en_md5 :: "u8 list \<Rightarrow> u8 list"
  en_random :: "nat \<Rightarrow> u8 list option"
  en_identity :: "nat \<Rightarrow> u8 list option"

fun method_Find :: "eap_type \<Rightarrow> eap_role \<Rightarrow> (eap_type \<times> eap_role \<times> method_kind) list
    \<Rightarrow> method_kind option" where
  "method_Find t r [] = None"
| "method_Find t r ((t', r', k) # es) = (if t' = t \<and> r' = r then Some k else method_Find t r es)"

text \<open>\<open>registerDefaultMethods\<close>, and \<open>registerMethod\<close>.\<close>

definition default_methods :: "(eap_type \<times> eap_role \<times> method_kind) list" where
  "default_methods = [(EAP_NOTIFICATION, RoleAuthenticator, AuthNotification)]"

definition registerMethod :: "eap_type \<Rightarrow> eap_role \<Rightarrow> method_kind
    \<Rightarrow> (eap_type \<times> eap_role \<times> method_kind) list
    \<Rightarrow> (eap_type \<times> eap_role \<times> method_kind) list" where
  "registerMethod t r k es = es @ [(t, r, k)]"

section \<open>The session\<close>

text \<open>A job is the switch itself or a method of it.\<close>

datatype eap_job = JSwitch | JMethod nat

datatype eap_out =
    OSend "mblock option"
  | OSuccess "mblock option"
  | OFailure "mblock option"
  | OForward "mblock option"
  | ONotification "u8 list"
  | OAbort

text \<open>What ends a run of the model: the code's behaviour is undefined, or it does not return.\<close>

datatype eap_fault =
    NullMethod | NullMessage | Undefined | UseAfterFree | Uncaught | Blocks | Diverges

record 'e eap_switch =
  sw_running :: bool
  sw_timers :: "'e timers"
  sw_events :: "'e list"
  sw_jobs :: "eap_job list"
  sw_currentMethod :: eap_type
  sw_txMessage :: "mblock option"
  sw_rxMessage :: "mblock option"
  sw_rxQueue :: "mblock list"
  sw_currentIdentifier :: u8
  sw_peerIdentity :: "u8 list"
  sw_authIdentity :: "u8 list"
  sw_policy :: eap_policy
  sw_method :: "eap_method option"
  sw_created :: nat
  sw_discardCount :: int
  sw_keyAvailable :: bool
  sw_keyData :: "u8 list"
  sw_out :: "eap_out list"
  sw_fault :: "eap_fault option"

definition sw_emit :: "eap_out \<Rightarrow> ('e, 'z) eap_switch_scheme \<Rightarrow> ('e, 'z) eap_switch_scheme" where
  "sw_emit x w = w\<lparr>sw_out := sw_out w @ [x]\<rparr>"

definition sw_fail :: "eap_fault \<Rightarrow> ('e, 'z) eap_switch_scheme \<Rightarrow> ('e, 'z) eap_switch_scheme" where
  "sw_fail x w = w\<lparr>sw_fault := Some x\<rparr>"

definition SetRxMessage ::
    "mblock option \<Rightarrow> ('e, 'z) eap_switch_scheme \<Rightarrow> ('e, 'z) eap_switch_scheme" where
  "SetRxMessage m w = w\<lparr>sw_rxMessage := m\<rparr>"

definition SetTxMessage ::
    "mblock option \<Rightarrow> ('e, 'z) eap_switch_scheme \<Rightarrow> ('e, 'z) eap_switch_scheme" where
  "SetTxMessage m w = w\<lparr>sw_txMessage := m\<rparr>"

text \<open>An event is stored and a job is scheduled; neither queue is bounded.\<close>

definition sw_Notify :: "'e \<Rightarrow> ('e, 'z) eap_switch_scheme \<Rightarrow> ('e, 'z) eap_switch_scheme" where
  "sw_Notify ev w = w\<lparr>sw_events := sw_events w @ [ev], sw_jobs := sw_jobs w @ [JSwitch]\<rparr>"

text \<open>\<open>Stop\<close> empties the queue of jobs and leaves the events where they are.\<close>

definition sw_Stop :: "('e, 'z) eap_switch_scheme \<Rightarrow> ('e, 'z) eap_switch_scheme" where
  "sw_Stop w = w\<lparr>sw_running := False, sw_jobs := []\<rparr>"

definition sw_ScheduleTimer ::
    "'e \<Rightarrow> nat \<Rightarrow> int \<Rightarrow> ('e, 'z) eap_switch_scheme \<Rightarrow> ('e, 'z) eap_switch_scheme" where
  "sw_ScheduleTimer ev sec ty w = w\<lparr>sw_timers := ScheduleTimer ev sec ty (sw_timers w)\<rparr>"

definition sw_CancelTimer :: "int \<Rightarrow> ('e, 'z) eap_switch_scheme \<Rightarrow> ('e, 'z) eap_switch_scheme" where
  "sw_CancelTimer ty w = w\<lparr>sw_timers := CancelTimer ty (sw_timers w)\<rparr>"

text \<open>A timer that expires stores its event; it stays armed.\<close>

definition sw_Timeout :: "int \<Rightarrow> ('e, 'z) eap_switch_scheme \<Rightarrow> ('e, 'z) eap_switch_scheme" where
  "sw_Timeout ty w = (case sw_timers w ty of None \<Rightarrow> w | Some (ev, sec) \<Rightarrow> sw_Notify ev w)"

section \<open>The method of a session\<close>

definition CreateMethodStateMachine ::
    "eap_env \<Rightarrow> eap_type \<Rightarrow> eap_role \<Rightarrow> ('e, 'z) eap_switch_scheme
     \<Rightarrow> ('e, 'z) eap_switch_scheme" where
  "CreateMethodStateMachine env t r w =
     (case method_Find t r (en_table env) of
        None \<Rightarrow> sw_emit OAbort w
      | Some k \<Rightarrow> w\<lparr>sw_method := Some (method_new k (sw_created w)),
                     sw_created := Suc (sw_created w)\<rparr>)"

definition DeleteMethodStateMachine ::
    "('e, 'z) eap_switch_scheme \<Rightarrow> ('e, 'z) eap_switch_scheme" where
  "DeleteMethodStateMachine w =
     (case sw_method w of
        None \<Rightarrow> w
      | Some _ \<Rightarrow> w\<lparr>sw_method := None, sw_currentMethod := EapType 0\<rparr>)"

definition upd_method ::
    "(eap_method \<Rightarrow> eap_method) \<Rightarrow> ('e, 'z) eap_switch_scheme \<Rightarrow> ('e, 'z) eap_switch_scheme" where
  "upd_method f w = w\<lparr>sw_method := map_option f (sw_method w)\<rparr>"

text \<open>Both are calls through the pointer to the method.\<close>

definition method_Start :: "('e, 'z) eap_switch_scheme \<Rightarrow> ('e, 'z) eap_switch_scheme" where
  "method_Start w =
     (case sw_method w of
        None \<Rightarrow> sw_fail NullMethod w
      | Some _ \<Rightarrow>
          upd_method (\<lambda>m. m\<lparr>me_state := MInitialize, me_running := True,
             me_isDone := (if me_kind m = PeerMD5 then False else me_isDone m)\<rparr>) w)"

definition method_Notify ::
    "me_ev \<Rightarrow> ('e, 'z) eap_switch_scheme \<Rightarrow> ('e, 'z) eap_switch_scheme" where
  "method_Notify ev w =
     (case sw_method w of
        None \<Rightarrow> sw_fail NullMethod w
      | Some m \<Rightarrow> (upd_method (\<lambda>m. m\<lparr>me_events := me_events m @ [ev]\<rparr>) w)
                      \<lparr>sw_jobs := sw_jobs w @ [JMethod (me_id m)]\<rparr>)"

definition me_running_of :: "('e, 'z) eap_switch_scheme \<Rightarrow> bool" where
  "me_running_of w = (case sw_method w of None \<Rightarrow> False | Some m \<Rightarrow> me_running m)"

definition me_state_of :: "('e, 'z) eap_switch_scheme \<Rightarrow> me_st" where
  "me_state_of w = (case sw_method w of None \<Rightarrow> MInitialize | Some m \<Rightarrow> me_state m)"

definition set_me_state :: "me_st \<Rightarrow> ('e, 'z) eap_switch_scheme \<Rightarrow> ('e, 'z) eap_switch_scheme" where
  "set_me_state s = upd_method (\<lambda>m. m\<lparr>me_state := s\<rparr>)"

text \<open>\<open>GetNextIdentifier\<close> adds one and wraps.\<close>

definition GetNextIdentifier :: "u8 \<Rightarrow> u8" where
  "GetNextIdentifier i = i + 1"

section \<open>Serving a job\<close>

text \<open>
  \<open>EapJobMultiplexor::Serve\<close>.  The switch and the method take their first event and follow
  it.  An empty queue leaves the event at the number zero.
\<close>

datatype 'e served = ServeNothing | ServeSwitch 'e | ServeMethod "me_ev option" | ServeStale

definition mux_pop :: "'e \<Rightarrow> ('e, 'z) eap_switch_scheme
    \<Rightarrow> 'e served \<times> ('e, 'z) eap_switch_scheme" where
  "mux_pop zero w =
     (case sw_jobs w of
        [] \<Rightarrow> (ServeNothing, w)
      | JSwitch # js \<Rightarrow>
          (ServeSwitch (case sw_events w of [] \<Rightarrow> zero | ev # _ \<Rightarrow> ev),
           w\<lparr>sw_jobs := js, sw_events := tl (sw_events w)\<rparr>)
      | JMethod n # js \<Rightarrow>
          (case sw_method w of
             None \<Rightarrow> (ServeStale, w)
           | Some m \<Rightarrow>
               if me_id m \<noteq> n then (ServeStale, w)
               else
                 (ServeMethod (case me_events m of [] \<Rightarrow> None | ev # _ \<Rightarrow> Some ev),
                  (upd_method (\<lambda>m. m\<lparr>me_events := tl (me_events m)\<rparr>) w)\<lparr>sw_jobs := js\<rparr>)))"

section \<open>Frame facts\<close>

lemma sw_frames [effect_simps]:
  "sw_fault (sw_emit x w) = sw_fault w" "sw_policy (sw_emit x w) = sw_policy w"
  "sw_method (sw_emit x w) = sw_method w" "sw_out (sw_emit x w) = sw_out w @ [x]"
  "sw_rxQueue (sw_emit x w) = sw_rxQueue w" "sw_events (sw_emit x w) = sw_events w"
  "sw_jobs (sw_emit x w) = sw_jobs w" "sw_rxMessage (sw_emit x w) = sw_rxMessage w"
  "sw_fault (sw_fail y w) = Some y" "sw_policy (sw_fail y w) = sw_policy w"
  "sw_out (sw_fail y w) = sw_out w" "sw_method (sw_fail y w) = sw_method w"
  by (simp_all add: sw_emit_def sw_fail_def)

lemma Delete_frame [effect_simps]:
  "sw_fault (DeleteMethodStateMachine w) = sw_fault w"
  "sw_jobs (DeleteMethodStateMachine w) = sw_jobs w"
  "sw_events (DeleteMethodStateMachine w) = sw_events w"
  "sw_timers (DeleteMethodStateMachine w) = sw_timers w"
  "sw_policy (DeleteMethodStateMachine w) = sw_policy w"
  "sw_rxQueue (DeleteMethodStateMachine w) = sw_rxQueue w"
  "sw_created (DeleteMethodStateMachine w) = sw_created w"
  "sw_rxMessage (DeleteMethodStateMachine w) = sw_rxMessage w"
  "sw_txMessage (DeleteMethodStateMachine w) = sw_txMessage w"
  "sw_out (DeleteMethodStateMachine w) = sw_out w"
  "sw_method (DeleteMethodStateMachine w) = None"
  by (simp_all add: DeleteMethodStateMachine_def split: option.splits)

end
