(* ===== verification/Eap_Method.thy ===== *)
theory Eap_Method
  imports Eap_Session
begin

text \<open>
  The state of an authenticator session (\<open>libeap/include/eap_authfsm.hxx\<close>) and the methods
  that run on it: Identity, Notification and MD5-Challenge
  (\<open>libeap/eapcore/eap_identity.cxx\<close>, \<open>eap_notification.cxx\<close>, \<open>eap_md5.cxx\<close>).
\<close>

section \<open>The session of an authenticator\<close>

datatype ea_class = Standalone | Backend | Passthrough

text \<open>The states and events of the three tables.  The last three events differ from those
  of the same name that the application passes.\<close>

datatype ea_st =
    StBegin | StDisabled | StInitialize | StPickUpMethod | StSelectAction | StProposeMethod
  | StIdle | StIntegrityCheck | StMethodRequest | StMethodResponse | StSendRequest | StNak
  | StRetransmit | StDiscard | StSuccess | StFailure | StTimeoutFailure | StReceived
  | StInitializePassThrough | StAaaRequest | StAaaIdle | StAaaResponse | StIdle2 | StReceived2
  | StSuccess2 | StFailure2 | StSendRequest2 | StDiscard2 | StRetransmit2 | StTimeoutFailure2

datatype ea_ev =
    EvRxMsg | EvSgPortEnabled | EvSgValidResp | EvSgInvalidResp | EvSgEndMethod | EvSgRestart
  | EvSgAaaContinue | EvSgAaaSuccess | EvSgAaaFailure
  | EvUCT | EvSgPolicySat | EvSgPolicyNotSat_EndSess | EvSgNoMethod | EvRxMethodResp
  | EvRxNonResp | EvRxNak | EvTo | EvSgMaxRetransmission | EvElse | EvSgPassThrough
  | EvSgPickUpInit | EvSgNoPickUpInit | EvRxAaaEapReq | EvAaaSuccess | EvAaaFailure | EvDiscard

datatype ea_mstate = PROPOSED | CONT | END

record eap_auth = "ea_ev eap_switch" +
  ea_class :: ea_class
  ea_state :: ea_st
  ea_methodState :: ea_mstate
  ea_retransmissionCount :: u16
  ea_maxRetransmissionCount :: u16
  ea_retransmissionInterval :: u16
  ea_needInitialRequestToSend :: bool
  ea_notification :: "u8 list"
  ea_aaaRxQueue :: "mblock list"

text \<open>The constructors.  The method state is not initialised.\<close>

definition eap_auth_new :: "ea_class \<Rightarrow> ea_mstate \<Rightarrow> eap_auth" where
  "eap_auth_new c ms =
     \<lparr>sw_running = False, sw_timers = Map.empty, sw_events = [], sw_jobs = [],
      sw_currentMethod = EapType 0, sw_txMessage = None, sw_rxMessage = None, sw_rxQueue = [],
      sw_currentIdentifier = 0, sw_peerIdentity = [], sw_authIdentity = [],
      sw_policy = EapPolicy_new, sw_method = None, sw_created = 0, sw_discardCount = 0,
      sw_keyAvailable = False, sw_keyData = [], sw_out = [], sw_fault = None,
      ea_class = c, ea_state = StBegin, ea_methodState = ms, ea_retransmissionCount = 0,
      ea_maxRetransmissionCount = 3,
      ea_retransmissionInterval = (if c = Backend then 0 else 3),
      ea_needInitialRequestToSend = True, ea_notification = [], ea_aaaRxQueue = []\<rparr>"

definition RetransmissionEnabled :: "eap_auth \<Rightarrow> bool" where
  "RetransmissionEnabled w \<longleftrightarrow> ea_retransmissionInterval w \<noteq> 0"

definition IsEapBackend :: "eap_auth \<Rightarrow> bool" where
  "IsEapBackend w \<longleftrightarrow> ea_class w = Backend"

definition upd_policy :: "(eap_policy \<Rightarrow> eap_policy) \<Rightarrow> eap_auth \<Rightarrow> eap_auth" where
  "upd_policy f w = w\<lparr>sw_policy := f (sw_policy w)\<rparr>"

text \<open>
  The received message is given to a reader of payloads.  A reader that succeeds leaves the
  read pointer at the end of the payload.
\<close>

definition with_rx ::
    "(mblock \<Rightarrow> 'a eparse) \<Rightarrow> ('a \<Rightarrow> eap_auth \<Rightarrow> eap_auth \<times> me_ev option)
     \<Rightarrow> (eap_auth \<Rightarrow> eap_auth \<times> me_ev option) \<Rightarrow> eap_auth \<Rightarrow> eap_auth \<times> me_ev option" where
  "with_rx rdr good bad w =
     (case sw_rxMessage w of
        None \<Rightarrow> (sw_fail NullMessage w, None)
      | Some m \<Rightarrow>
          (case rdr m of
             EUndef \<Rightarrow> (sw_fail Undefined w, None)
           | EThrow \<Rightarrow> bad w
           | EOk x \<Rightarrow> good x (SetRxMessage (Some (m\<lparr>mb_rd := mb_wr m\<rparr>)) w)))"

definition with_tx ::
    "mblock eparse \<Rightarrow> (eap_auth \<Rightarrow> eap_auth) \<Rightarrow> (eap_auth \<Rightarrow> eap_auth)
     \<Rightarrow> eap_auth \<Rightarrow> eap_auth" where
  "with_tx r good bad w =
     (case r of
        EUndef \<Rightarrow> sw_fail Undefined w
      | EThrow \<Rightarrow> bad w
      | EOk m \<Rightarrow> good (SetTxMessage (Some m) w))"

section \<open>Identity\<close>

datatype me_ac =
    MaNone
  | MaCheckPickUpInit | MaIdCheck | MaIdSuccess | MaIdFailure | MaIdRequest
  | MaNoCheck | MaNoSuccess | MaNoFailure | MaNoRequest
  | MaMdCheck | MaMdSuccess | MaMdFailure | MaMdRequest

definition maxTrial :: u32 where "maxTrial = 3"

definition identity_cmds :: "(me_st, me_ev, me_ac) table_cmd list" where
  "identity_cmds = [
     Add MInitialize MvIntegrityCheck MCheckPickUpInit MaCheckPickUpInit,
     Add MCheckPickUpInit MvPickUpInit MProcessResponse MaIdCheck,
     Add MCheckPickUpInit MvNoPickUpInit MWaitResponse MaIdRequest,
     Add MWaitResponse MvIntegrityCheck MProcessResponse MaIdCheck,
     Add MProcessResponse MvSuccess MSuccess MaIdSuccess,
     Add MProcessResponse MvFailure_MoreTrial MWaitResponse MaIdRequest,
     Add MProcessResponse MvFailure_NoMoreTrial MFailure MaIdFailure,
     AddWildcard MSuccess MSuccess MaNone,
     AddWildcard MFailure MFailure MaNone,
     Init MInitialize]"

definition ma_CheckPickUpInit :: "eap_auth \<Rightarrow> eap_auth \<times> me_ev option" where
  "ma_CheckPickUpInit w =
     (w, Some (if IsEapBackend w \<and> \<not> ea_needInitialRequestToSend w then MvPickUpInit
               else MvNoPickUpInit))"

text \<open>A failed trial counts, also the last one.\<close>

definition ma_failed_trial :: "eap_auth \<Rightarrow> eap_auth \<times> me_ev option" where
  "ma_failed_trial w =
     (case sw_method w of
        None \<Rightarrow> (sw_fail NullMethod w, None)
      | Some m \<Rightarrow>
          (upd_method (\<lambda>m. m\<lparr>me_nTrial := me_nTrial m + 1\<rparr>) w,
           Some (if me_nTrial m < maxTrial then MvFailure_MoreTrial else MvFailure_NoMoreTrial)))"

definition ma_IdCheck :: "eap_env \<Rightarrow> eap_auth \<Rightarrow> eap_auth \<times> me_ev option" where
  "ma_IdCheck env =
     with_rx (text_parse (en_signed env))
       (\<lambda>ident w.
          let w1 = w\<lparr>sw_peerIdentity := ident\<rparr> in
          if en_ProcessIdentity env ident then (w1, Some MvSuccess) else ma_failed_trial w1)
       ma_failed_trial"

definition ma_finish :: "policy_switch \<Rightarrow> ea_ev \<Rightarrow> eap_auth \<Rightarrow> eap_auth" where
  "ma_finish sw ev w =
     sw_Notify ev (upd_method (\<lambda>m. m\<lparr>me_isDone := True\<rparr>) (upd_policy (policy_Update sw) w))"

definition ma_IdRequest :: "eap_auth \<Rightarrow> eap_auth" where
  "ma_IdRequest =
     with_tx (type_print EAP_IDENTITY (block_new 5)) (sw_Notify EvSgValidResp) (sw_fail Uncaught)"

section \<open>Notification\<close>

definition notification_cmds :: "(me_st, me_ev, me_ac) table_cmd list" where
  "notification_cmds = [
     Add MInitialize MvIntegrityCheck MWaitResponse MaNoRequest,
     Add MWaitResponse MvIntegrityCheck MProcessResponse MaNoCheck,
     Add MProcessResponse MvSuccess MSuccess MaNoSuccess,
     Add MProcessResponse MvFailure MFailure MaNoFailure,
     AddWildcard MSuccess MSuccess MaNone,
     AddWildcard MFailure MFailure MaNone,
     Init MInitialize]"

definition ma_NoCheck :: "eap_env \<Rightarrow> eap_auth \<Rightarrow> eap_auth \<times> me_ev option" where
  "ma_NoCheck env =
     with_rx (text_parse (en_signed env)) (\<lambda>s w. (w, Some MvSuccess)) (\<lambda>w. (w, Some MvFailure))"

definition ma_NoSuccess :: "eap_auth \<Rightarrow> eap_auth" where
  "ma_NoSuccess w = ma_finish PolicyOnSuccess EvSgValidResp (SetTxMessage None w)"

definition ma_NoFailure :: "eap_auth \<Rightarrow> eap_auth" where
  "ma_NoFailure w = ma_finish PolicyOnFailure EvSgInvalidResp (SetTxMessage None w)"

definition ma_NoRequest :: "eap_env \<Rightarrow> eap_auth \<Rightarrow> eap_auth" where
  "ma_NoRequest env w =
     with_tx (text_print (en_signed env) EAP_NOTIFICATION (ea_notification w)
                (block_new (5 + length (ea_notification w))))
       (sw_Notify EvSgValidResp) (sw_Notify EvSgInvalidResp) w"

section \<open>MD5-Challenge\<close>

definition md5_cmds :: "(me_st, me_ev, me_ac) table_cmd list" where
  "md5_cmds = [
     Add MInitialize MvIntegrityCheck MWaitResponse MaMdRequest,
     Add MWaitResponse MvIntegrityCheck MProcessResponse MaMdCheck,
     Add MProcessResponse MvSuccess MSuccess MaMdSuccess,
     Add MProcessResponse MvFailure MFailure MaMdFailure,
     AddWildcard MSuccess MSuccess MaNone,
     AddWildcard MFailure MFailure MaNone,
     Init MInitialize]"

text \<open>The digest that the peer has to send: of the identifier, the secret and the challenge.\<close>

definition md5_response :: "eap_env \<Rightarrow> u8 \<Rightarrow> u8 list \<Rightarrow> u8 list" where
  "md5_response env i challenge = en_md5 env ([i] @ en_passphrase env @ challenge)"

definition ma_MdCheck :: "eap_env \<Rightarrow> eap_auth \<Rightarrow> eap_auth \<times> me_ev option" where
  "ma_MdCheck env =
     with_rx md5_parse
       (\<lambda>(v, name) w.
          let w1 = upd_method (\<lambda>m. m\<lparr>me_peerName := name\<rparr>) w in
          if en_passphrase env = [] then (w1, Some MvFailure)
          else case sw_method w1 of
            None \<Rightarrow> (sw_fail NullMethod w1, None)
          | Some m \<Rightarrow>
              (w1, Some (if md5_response env (sw_currentIdentifier w1) (me_value m) = v
                         then MvSuccess else MvFailure)))
       (\<lambda>w. (w, Some MvFailure))"

text \<open>When there are no random numbers, nothing is prepared and nobody is notified.\<close>

definition ma_MdRequest :: "eap_env \<Rightarrow> eap_auth \<Rightarrow> eap_auth" where
  "ma_MdRequest env w =
     (case sw_method w of
        None \<Rightarrow> sw_fail NullMethod w
      | Some m \<Rightarrow>
          (case en_random env (me_id m) of
             None \<Rightarrow> w
           | Some c \<Rightarrow>
               with_tx (md5_print c (en_myName env)
                          (block_new (5 + length c + 1 + length (en_myName env))))
                 (sw_Notify EvSgValidResp) (sw_fail Uncaught)
                 (upd_method (\<lambda>m. m\<lparr>me_value := c\<rparr>) w)))"

section \<open>The machines\<close>

fun me_action :: "eap_env \<Rightarrow> me_ac \<Rightarrow> eap_auth \<Rightarrow> eap_auth \<times> me_ev option" where
  "me_action env MaNone w = (w, None)"
| "me_action env MaCheckPickUpInit w = ma_CheckPickUpInit w"
| "me_action env MaIdCheck w = ma_IdCheck env w"
| "me_action env MaIdSuccess w = (ma_finish PolicyOnSuccess EvSgValidResp w, None)"
| "me_action env MaIdFailure w = (ma_finish PolicyOnFailure EvSgInvalidResp w, None)"
| "me_action env MaIdRequest w = (ma_IdRequest w, None)"
| "me_action env MaNoCheck w = ma_NoCheck env w"
| "me_action env MaNoSuccess w = (ma_NoSuccess w, None)"
| "me_action env MaNoFailure w = (ma_NoFailure w, None)"
| "me_action env MaNoRequest w = (ma_NoRequest env w, None)"
| "me_action env MaMdCheck w = ma_MdCheck env w"
| "me_action env MaMdSuccess w = (ma_finish PolicyOnSuccess EvSgValidResp w, None)"
| "me_action env MaMdFailure w = (ma_finish PolicyOnFailure EvSgValidResp w, None)"
| "me_action env MaMdRequest w = (ma_MdRequest env w, None)"

definition identity_table :: "(me_st, me_ev, me_ac) state_table" where
  "identity_table = (case build_table identity_cmds of Inr t \<Rightarrow> t | Inl _ \<Rightarrow> empty_table)"

definition notification_table :: "(me_st, me_ev, me_ac) state_table" where
  "notification_table = (case build_table notification_cmds of Inr t \<Rightarrow> t | Inl _ \<Rightarrow> empty_table)"

definition md5_table :: "(me_st, me_ev, me_ac) state_table" where
  "md5_table = (case build_table md5_cmds of Inr t \<Rightarrow> t | Inl _ \<Rightarrow> empty_table)"

lemma build_method_cmds:
  "\<not> isl (build_table identity_cmds)" "\<not> isl (build_table notification_cmds)"
  "\<not> isl (build_table md5_cmds)"
  by code_simp+

lemma identity_table_built: "build_table identity_cmds = Inr identity_table"
  using build_method_cmds(1) by (cases "build_table identity_cmds") (simp_all add: identity_table_def)

lemma notification_table_built: "build_table notification_cmds = Inr notification_table"
  using build_method_cmds(2)
  by (cases "build_table notification_cmds") (simp_all add: notification_table_def)

lemma md5_table_built: "build_table md5_cmds = Inr md5_table"
  using build_method_cmds(3) by (cases "build_table md5_cmds") (simp_all add: md5_table_def)

text \<open>A method for peers has no place in an authenticator; its table is empty here.\<close>

fun method_table :: "method_kind \<Rightarrow> (me_st, me_ev, me_ac) state_table" where
  "method_table AuthIdentity = identity_table"
| "method_table AuthNotification = notification_table"
| "method_table AuthMD5 = md5_table"
| "method_table PeerMD5 = empty_table"

definition method_step :: "eap_env \<Rightarrow> me_ev \<Rightarrow> eap_auth \<Rightarrow> eap_auth \<times> me_ev option" where
  "method_step env ev w =
     (case sw_method w of
        None \<Rightarrow> (w, None)
      | Some m \<Rightarrow> chain_step (method_table (me_kind m)) me_running_of me_state_of set_me_state
                      (me_action env) ev w)"

definition method_event :: "eap_env \<Rightarrow> me_ev \<Rightarrow> eap_auth \<Rightarrow> eap_auth" where
  "method_event env ev w =
     (case run_chain (method_step env) ev w of None \<Rightarrow> sw_fail Diverges w | Some w' \<Rightarrow> w')"

end
