(* ===== verification/Eap_Auth.thy ===== *)
theory Eap_Auth
  imports Eap_Method
begin

text \<open>
  The authenticator state machines (\<open>libeap/eapcore/eap_authfsm.cxx\<close>,
  \<open>eap_standalone_authfsm.cxx\<close>, \<open>eap_backend_authfsm.cxx\<close>, \<open>eap_passthrough_authfsm.cxx\<close>).
  The three classes have their own actions and tables; what is the same code in all of them
  is one definition here, which looks at the class where they differ.
\<close>

section \<open>Decisions\<close>

datatype ea_decision = DecisionSuccess | DecisionFailure | DecisionContinue | DecisionPassthrough

definition auth_Decision :: "eap_policy \<Rightarrow> ea_decision" where
  "auth_Decision p =
     (if IsSatisfied p then DecisionSuccess
      else case CurrentMethod p of None \<Rightarrow> DecisionFailure | Some _ \<Rightarrow> DecisionContinue)"

definition passthrough_Decision :: "eap_policy \<Rightarrow> ea_decision" where
  "passthrough_Decision p =
     (case CurrentMethod p of None \<Rightarrow> DecisionPassthrough | Some _ \<Rightarrow> DecisionContinue)"

definition Decision :: "eap_auth \<Rightarrow> ea_decision" where
  "Decision w =
     (if ea_class w = Passthrough then passthrough_Decision (sw_policy w)
      else auth_Decision (sw_policy w))"

section \<open>Actions common to the classes\<close>

type_synonym ea_step = "eap_auth \<times> ea_ev option"

definition ac_Initialize :: "eap_auth \<Rightarrow> ea_step" where
  "ac_Initialize w = (w\<lparr>sw_currentIdentifier := 0\<rparr>, Some EvUCT)"

definition stop_retransmission :: "eap_auth \<Rightarrow> eap_auth" where
  "stop_retransmission w = sw_CancelTimer 0 w\<lparr>ea_retransmissionCount := 0\<rparr>"

definition make_key_available :: "('e, 'z) eap_switch_scheme \<Rightarrow> ('e, 'z) eap_switch_scheme" where
  "make_key_available w = (if sw_keyData w \<noteq> [] then w\<lparr>sw_keyAvailable := True\<rparr> else w)"

definition ac_SendSuccess :: "eap_auth \<Rightarrow> ea_step" where
  "ac_SendSuccess w =
     (sw_emit (OSuccess (Some (short_packet EAP_Success (sw_currentIdentifier w))))
        (make_key_available (stop_retransmission w)), None)"

definition ac_SendFailure :: "eap_auth \<Rightarrow> ea_step" where
  "ac_SendFailure w =
     (sw_emit (OFailure (Some (short_packet EAP_Failure (sw_currentIdentifier w))))
        (stop_retransmission w), None)"

text \<open>The key of the method is taken; the standalone class takes it only if there is one.\<close>

definition ac_MethodResponse :: "eap_auth \<Rightarrow> ea_step" where
  "ac_MethodResponse w =
     (case sw_method w of
        None \<Rightarrow> (sw_fail NullMethod w, None)
      | Some m \<Rightarrow>
          if me_isDone m then
            ((if ea_class w = Standalone \<and> me_keyData m = [] then w
              else w\<lparr>sw_keyData := me_keyData m\<rparr>)\<lparr>ea_methodState := END\<rparr>, Some EvSgEndMethod)
          else (w\<lparr>ea_methodState := CONT\<rparr>, Some EvElse))"

definition ac_BuildRequest :: "eap_auth \<Rightarrow> ea_step" where
  "ac_BuildRequest w =
     (case sw_method w of
        None \<Rightarrow> (sw_fail NullMethod w, None)
      | Some _ \<Rightarrow>
          (let i = GetNextIdentifier (sw_currentIdentifier w);
               w1 = w\<lparr>sw_currentIdentifier := i\<rparr>
           in case sw_txMessage w1 of
                None \<Rightarrow> (sw_fail NullMessage w1, None)
              | Some m \<Rightarrow> (SetTxMessage (Some (compose EAP_Request i m)) w1, Some EvUCT)))"

definition ac_SendRequest :: "eap_auth \<Rightarrow> ea_step" where
  "ac_SendRequest w =
     (let w1 = (stop_retransmission w)\<lparr>ea_retransmissionCount := 1\<rparr>;
          w2 = (if RetransmissionEnabled w1
                then sw_ScheduleTimer EvTo (unat (ea_retransmissionInterval w1)) 0 w1 else w1)
      in (sw_emit (OSend (sw_txMessage w2)) (sw_Notify EvUCT w2), None))"

definition ac_DoIntegrityCheck :: "('e, 'z) eap_switch_scheme \<Rightarrow> ('e, 'z) eap_switch_scheme" where
  "ac_DoIntegrityCheck w = method_Notify MvIntegrityCheck w"

text \<open>The standalone class tests for the Identity type twice.\<close>

definition ac_ProposeMethod :: "eap_env \<Rightarrow> eap_auth \<Rightarrow> ea_step" where
  "ac_ProposeMethod env w =
     (case CurrentMethod (sw_policy w) of
        None \<Rightarrow> (sw_fail Uncaught w, None)
      | Some t \<Rightarrow>
          (let w1 = (DeleteMethodStateMachine w)\<lparr>sw_currentMethod := t\<rparr>;
               w2 = method_Start (CreateMethodStateMachine env t RoleAuthenticator w1);
               early = (if ea_class w = Standalone then t = EAP_IDENTITY
                        else t = EAP_IDENTITY \<or> t = EAP_NOTIFICATION)
           in if sw_fault w2 \<noteq> None then (w2, None)
              else (ac_DoIntegrityCheck
                      (w2\<lparr>ea_methodState := if early then CONT else PROPOSED\<rparr>), None)))"

definition ac_DoPolicyCheck :: "eap_auth \<Rightarrow> ea_step" where
  "ac_DoPolicyCheck w =
     (w, Some (case Decision w of
                 DecisionSuccess \<Rightarrow> EvSgPolicySat
               | DecisionFailure \<Rightarrow> EvSgPolicyNotSat_EndSess
               | DecisionPassthrough \<Rightarrow> EvSgPassThrough
               | DecisionContinue \<Rightarrow> EvElse))"

definition ac_Discard :: "eap_auth \<Rightarrow> ea_step" where
  "ac_Discard w = (w\<lparr>sw_discardCount := sw_discardCount w + 1\<rparr>, Some EvUCT)"

text \<open>Taking a message from an empty queue waits for one, for ever if need be.\<close>

definition with_msg :: "(mblock \<Rightarrow> eap_auth \<Rightarrow> ea_step) \<Rightarrow> eap_auth \<Rightarrow> ea_step" where
  "with_msg f w =
     (case sw_rxQueue w of
        [] \<Rightarrow> (sw_fail Blocks w, None)
      | m # q \<Rightarrow> f m (w\<lparr>sw_rxQueue := q\<rparr>))"

definition with_aaa_msg :: "(mblock \<Rightarrow> eap_auth \<Rightarrow> ea_step) \<Rightarrow> eap_auth \<Rightarrow> ea_step" where
  "with_aaa_msg f w =
     (case ea_aaaRxQueue w of
        [] \<Rightarrow> (sw_fail Blocks w, None)
      | m # q \<Rightarrow> f m (w\<lparr>ea_aaaRxQueue := q\<rparr>))"

definition ac_Discard2 :: "eap_auth \<Rightarrow> ea_step" where
  "ac_Discard2 w =
     with_msg (\<lambda>m w. (w, if ea_class w = Passthrough then Some EvUCT else None))
       (w\<lparr>sw_discardCount := sw_discardCount w + 1\<rparr>)"

text \<open>No type is ever read from a Nak, so the policy moves to the failure branch.\<close>

definition ac_ResetMethod :: "eap_auth \<Rightarrow> ea_step" where
  "ac_ResetMethod w =
     (case sw_rxMessage w of
        None \<Rightarrow> (sw_fail NullMessage w, None)
      | Some m \<Rightarrow>
          (case nak_read LegacyNak [] m of
             EOk l \<Rightarrow>
               (case policy_Update_list l (sw_policy w) of
                  None \<Rightarrow> (sw_fail Undefined w, None)
                | Some p \<Rightarrow> ((SetRxMessage None w)\<lparr>sw_policy := p\<rparr>, Some EvUCT))
           | _ \<Rightarrow> (sw_fail Undefined w, None)))"

definition ac_Retransmit :: "eap_auth \<Rightarrow> ea_step" where
  "ac_Retransmit w =
     (if ea_retransmissionCount w < ea_maxRetransmissionCount w then
        (sw_emit (OSend (sw_txMessage w))
           (sw_Notify EvElse (w\<lparr>ea_retransmissionCount := ea_retransmissionCount w + 1\<rparr>)), None)
      else (sw_CancelTimer 0 w, Some EvSgMaxRetransmission))"

text \<open>Whether the reception of a message looks at the type of a response.\<close>

definition checks_type :: "eap_auth \<Rightarrow> bool" where
  "checks_type w \<longleftrightarrow> ea_class w = Passthrough \<longrightarrow> Decision w \<noteq> DecisionPassthrough"

definition ac_ReceiveMsg :: "eap_env \<Rightarrow> eap_auth \<Rightarrow> ea_step" where
  "ac_ReceiveMsg env =
     with_msg (\<lambda>m w.
       case header_parse m of
         EOk (h, m1) \<Rightarrow>
           (if eh_code h \<noteq> EAP_Response \<or> eh_identifier h \<noteq> sw_currentIdentifier w
            then (sw_Notify EvElse (SetRxMessage None w), None)
            else case type_parse (en_signed env) m1 of
              EOk (t, m2) \<Rightarrow>
                (let w1 = SetRxMessage (Some m2) w; drop = (SetRxMessage None w, Some EvElse) in
                 if t = EAP_NAK \<and> checks_type w then
                   (if ea_methodState w = PROPOSED then (w1, Some EvRxNak) else drop)
                 else if t \<noteq> sw_currentMethod w \<and> checks_type w then drop
                 else (w1, Some EvRxMethodResp))
            | _ \<Rightarrow> (sw_fail Undefined w, None))
       | _ \<Rightarrow> (sw_fail Undefined w, None))"

section \<open>Actions of the backend authenticator\<close>

definition ac_BackendInitialize :: "eap_env \<Rightarrow> eap_auth \<Rightarrow> ea_step" where
  "ac_BackendInitialize env w =
     (let w0 = w\<lparr>sw_currentIdentifier := 0\<rparr> in
      case sw_rxMessage w0 of
        None \<Rightarrow> (w0, Some EvElse)
      | Some m \<Rightarrow>
          (case header_parse m of
             EOk (h, m1) \<Rightarrow>
               (if eh_code h \<noteq> EAP_Response then (SetRxMessage (Some m1) w0, Some EvRxNonResp)
                else case type_parse (en_signed env) m1 of
                  EOk (t, m2) \<Rightarrow>
                    (let w1 = SetRxMessage (Some m2) (w0\<lparr>sw_currentIdentifier := eh_identifier h\<rparr>)
                     in case CurrentMethod (sw_policy w1) of
                          None \<Rightarrow> (sw_fail Uncaught w1, None)
                        | Some c \<Rightarrow>
                            if c \<noteq> t then (w1, Some EvRxNonResp)
                            else (w1\<lparr>sw_currentMethod := t\<rparr>,
                                  Some (if t = EAP_NAK then EvRxNak else EvElse)))
                | _ \<Rightarrow> (sw_fail Undefined w0, None))
           | _ \<Rightarrow> (sw_fail Undefined w0, None)))"

definition SupportPickUp :: "eap_type \<Rightarrow> bool" where
  "SupportPickUp t \<longleftrightarrow> t = EAP_IDENTITY"

definition ac_PickUpMethod :: "eap_env \<Rightarrow> eap_auth \<Rightarrow> ea_step" where
  "ac_PickUpMethod env w =
     (case CurrentMethod (sw_policy w) of
        None \<Rightarrow> (sw_fail Uncaught w, None)
      | Some t \<Rightarrow>
          if SupportPickUp t then
            (let w1 = method_Start
                   (CreateMethodStateMachine env t RoleAuthenticator (w\<lparr>sw_currentMethod := t\<rparr>))
             in if sw_fault w1 \<noteq> None then (w1, None) else (w1, Some EvElse))
          else (w, Some EvSgNoMethod))"

section \<open>Actions of the pass-through authenticator\<close>

definition ac_Discard3 :: "eap_auth \<Rightarrow> ea_step" where
  "ac_Discard3 = with_aaa_msg (\<lambda>m w. (w, None))"

definition ac_ReceiveMsg2 :: "eap_auth \<Rightarrow> ea_step" where
  "ac_ReceiveMsg2 =
     with_msg (\<lambda>m w.
       case header_parse m of
         EOk (h, m1) \<Rightarrow>
           (if eh_code h \<noteq> EAP_Response \<or> eh_identifier h \<noteq> sw_currentIdentifier w
            then (sw_Notify EvElse (SetRxMessage None w), None)
            else (SetRxMessage (Some m1) w, Some EvRxMethodResp))
       | _ \<Rightarrow> (sw_fail Undefined w, None))"

definition ac_PickUpInitCheck :: "eap_auth \<Rightarrow> ea_step" where
  "ac_PickUpInitCheck w =
     (w, Some (if sw_rxMessage w = None then EvSgNoPickUpInit else EvSgPickUpInit))"

definition ac_ForwardResponse :: "eap_auth \<Rightarrow> ea_step" where
  "ac_ForwardResponse w = (sw_emit (OForward (sw_rxMessage w)) w, None)"

text \<open>A message from the AAA server with the expected code becomes the one to transmit.\<close>

definition aaa_take :: "u8 \<Rightarrow> ea_ev \<Rightarrow> eap_auth \<Rightarrow> ea_step" where
  "aaa_take c ev =
     with_aaa_msg (\<lambda>m w.
       case header_parse m of
         EOk (h, m1) \<Rightarrow>
           (if eh_code h \<noteq> c then (w, Some EvDiscard)
            else (SetTxMessage (Some m1) (w\<lparr>sw_currentIdentifier := eh_identifier h\<rparr>), Some ev))
       | _ \<Rightarrow> (sw_fail Undefined w, None))"

definition ac_AaaContinue :: "eap_auth \<Rightarrow> ea_step" where
  "ac_AaaContinue w =
     (if ea_aaaRxQueue w = [] then (sw_emit OAbort (SetTxMessage None w), None)
      else aaa_take EAP_Request EvRxAaaEapReq w)"

definition ac_AaaSuccess :: "eap_auth \<Rightarrow> ea_step" where
  "ac_AaaSuccess w =
     (if ea_aaaRxQueue w = [] then (SetTxMessage None w, Some EvAaaSuccess)
      else aaa_take EAP_Success EvAaaSuccess w)"

definition ac_AaaFailure :: "eap_auth \<Rightarrow> ea_step" where
  "ac_AaaFailure w =
     (if ea_aaaRxQueue w = [] then (SetTxMessage None w, Some EvAaaFailure)
      else aaa_take EAP_Failure EvAaaFailure w)"

definition ac_CompleteSuccess :: "eap_auth \<Rightarrow> ea_step" where
  "ac_CompleteSuccess w =
     (SetTxMessage None
        (sw_emit (OSuccess (sw_txMessage w)) (make_key_available (stop_retransmission w))), None)"

definition ac_CompleteFailure :: "eap_auth \<Rightarrow> ea_step" where
  "ac_CompleteFailure w =
     (SetTxMessage None (sw_emit (OFailure (sw_txMessage w)) (stop_retransmission w)), None)"

section \<open>The tables\<close>

datatype ea_ac =
    AcNone | AcDisable | AcInitialize | AcBackendInitialize | AcPickUpMethod | AcProposeMethod
  | AcBuildRequest | AcMethodResponse | AcSendSuccess | AcSendFailure | AcSendRequest
  | AcDoIntegrityCheck | AcDoPolicyCheck | AcDiscard | AcDiscard2 | AcResetMethod | AcRetransmit
  | AcReceiveMsg | AcPickUpInitCheck | AcAaaRequest | AcDoIntegrityCheck2
  | AcCompletePassThroughWithSuccess | AcCompletePassThroughWithFailure | AcPrepareRequest
  | AcAaaContinue | AcAaaSuccess | AcAaaFailure | AcDiscard3 | AcReceiveMsg2

fun ea_action :: "eap_env \<Rightarrow> ea_ac \<Rightarrow> eap_auth \<Rightarrow> ea_step" where
  "ea_action env AcNone w = (w, None)"
| "ea_action env AcDisable w = (w, Some EvSgPortEnabled)"
| "ea_action env AcInitialize w = ac_Initialize w"
| "ea_action env AcBackendInitialize w = ac_BackendInitialize env w"
| "ea_action env AcPickUpMethod w = ac_PickUpMethod env w"
| "ea_action env AcProposeMethod w = ac_ProposeMethod env w"
| "ea_action env AcBuildRequest w = ac_BuildRequest w"
| "ea_action env AcMethodResponse w = ac_MethodResponse w"
| "ea_action env AcSendSuccess w = ac_SendSuccess w"
| "ea_action env AcSendFailure w = ac_SendFailure w"
| "ea_action env AcSendRequest w = ac_SendRequest w"
| "ea_action env AcDoIntegrityCheck w = (ac_DoIntegrityCheck w, None)"
| "ea_action env AcDoPolicyCheck w = ac_DoPolicyCheck w"
| "ea_action env AcDiscard w = ac_Discard w"
| "ea_action env AcDiscard2 w = ac_Discard2 w"
| "ea_action env AcResetMethod w = ac_ResetMethod w"
| "ea_action env AcRetransmit w = ac_Retransmit w"
| "ea_action env AcReceiveMsg w = ac_ReceiveMsg env w"
| "ea_action env AcPickUpInitCheck w = ac_PickUpInitCheck w"
| "ea_action env AcAaaRequest w = (w, Some EvUCT)"
| "ea_action env AcDoIntegrityCheck2 w = ac_ForwardResponse w"
| "ea_action env AcCompletePassThroughWithSuccess w = ac_CompleteSuccess w"
| "ea_action env AcCompletePassThroughWithFailure w = ac_CompleteFailure w"
| "ea_action env AcPrepareRequest w = (w, Some EvUCT)"
| "ea_action env AcAaaContinue w = ac_AaaContinue w"
| "ea_action env AcAaaSuccess w = ac_AaaSuccess w"
| "ea_action env AcAaaFailure w = ac_AaaFailure w"
| "ea_action env AcDiscard3 w = ac_Discard3 w"
| "ea_action env AcReceiveMsg2 w = ac_ReceiveMsg2 w"

end
