(* ===== verification/Eap_Auth_Run.thy ===== *)
theory Eap_Auth_Run
  imports Eap_Auth
begin

text \<open>
  The state tables of the three authenticators, and the operations of a session: its start,
  the reception of messages, expiring timers, the calls of the AAA client, and the service
  of a job.
\<close>

section \<open>State tables\<close>

text \<open>The entries that the standalone and the pass-through table start with.\<close>

definition switch_cmds :: "(ea_st, ea_ev, ea_ac) table_cmd list" where
  "switch_cmds = [
     Add StSelectAction EvSgPolicySat StSuccess AcSendSuccess,
     Add StSelectAction EvSgPolicyNotSat_EndSess StFailure AcSendFailure,
     Add StSelectAction EvElse StProposeMethod AcProposeMethod]"

definition method_cmds :: "(ea_st, ea_ev, ea_ac) table_cmd list" where
  "method_cmds = [
     Add StProposeMethod EvSgValidResp StMethodRequest AcBuildRequest,
     Add StMethodRequest EvUCT StSendRequest AcSendRequest,
     Add StIntegrityCheck EvSgValidResp StMethodResponse AcMethodResponse,
     Add StIntegrityCheck EvSgInvalidResp StDiscard AcDiscard,
     Add StIntegrityCheck EvRxMsg StIntegrityCheck AcDiscard2]"

definition response_cmds :: "(ea_st, ea_ev, ea_ac) table_cmd list" where
  "response_cmds = [
     Add StMethodResponse EvSgEndMethod StSelectAction AcDoPolicyCheck,
     Add StMethodResponse EvElse StMethodRequest AcBuildRequest,
     Add StSendRequest EvUCT StIdle AcNone,
     Add StIdle EvTo StRetransmit AcRetransmit,
     Add StIdle EvRxMsg StReceived AcReceiveMsg,
     Add StReceived EvRxMethodResp StIntegrityCheck AcDoIntegrityCheck,
     Add StReceived EvRxNak StNak AcResetMethod,
     Add StReceived EvElse StDiscard AcDiscard,
     Add StRetransmit EvSgMaxRetransmission StTimeoutFailure AcNone,
     Add StRetransmit EvElse StIdle AcNone,
     Add StNak EvUCT StSelectAction AcDoPolicyCheck,
     Add StDiscard EvUCT StIdle AcNone,
     Add StSuccess EvRxMsg StSuccess AcDiscard2,
     AddWildcard StSuccess StSuccess AcNone,
     Add StFailure EvRxMsg StFailure AcDiscard2,
     AddWildcard StFailure StFailure AcNone]"

definition standalone_cmds :: "(ea_st, ea_ev, ea_ac) table_cmd list" where
  "standalone_cmds =
     [Add StBegin EvSgRestart StDisabled AcDisable,
      Add StDisabled EvSgPortEnabled StInitialize AcInitialize,
      Add StInitialize EvUCT StSelectAction AcDoPolicyCheck]
     @ switch_cmds @ method_cmds
     @ [AddWildcard StIntegrityCheck StIntegrityCheck AcNone]
     @ response_cmds @ [Init StBegin]"

definition backend_cmds :: "(ea_st, ea_ev, ea_ac) table_cmd list" where
  "backend_cmds =
     [Add StBegin EvSgRestart StDisabled AcDisable,
      Add StDisabled EvSgPortEnabled StInitialize AcBackendInitialize,
      Add StInitialize EvRxNonResp StSelectAction AcDoPolicyCheck,
      Add StInitialize EvElse StPickUpMethod AcPickUpMethod,
      Add StPickUpMethod EvSgNoMethod StSelectAction AcDoPolicyCheck,
      Add StPickUpMethod EvElse StIntegrityCheck AcDoIntegrityCheck,
      Add StInitialize EvRxNak StNak AcResetMethod]
     @ switch_cmds @ method_cmds @ response_cmds @ [Init StBegin]"

definition aaa_cmds :: "(ea_st, ea_ev, ea_ac) table_cmd list" where
  "aaa_cmds = [
     Add StInitializePassThrough EvSgPickUpInit StAaaRequest AcAaaRequest,
     Add StInitializePassThrough EvSgNoPickUpInit StAaaIdle AcDoIntegrityCheck2,
     Add StAaaRequest EvUCT StAaaIdle AcDoIntegrityCheck2,
     Add StAaaIdle EvRxAaaEapReq StAaaResponse AcPrepareRequest,
     Add StAaaIdle EvAaaSuccess StSuccess2 AcCompletePassThroughWithSuccess,
     Add StAaaIdle EvAaaFailure StFailure2 AcCompletePassThroughWithFailure,
     Add StAaaIdle EvSgAaaContinue StAaaIdle AcAaaContinue,
     Add StAaaIdle EvSgAaaSuccess StAaaIdle AcAaaSuccess,
     Add StAaaIdle EvSgAaaFailure StAaaIdle AcAaaFailure,
     Add StAaaIdle EvDiscard StDiscard2 AcDiscard3,
     AddWildcard StAaaIdle StAaaIdle AcNone,
     Add StDiscard2 EvUCT StIdle2 AcNone,
     Add StReceived2 EvRxMethodResp StAaaRequest AcAaaRequest,
     Add StReceived2 EvElse StDiscard2 AcDiscard,
     Add StIdle2 EvRxMsg StReceived2 AcReceiveMsg2,
     Add StIdle2 EvSgAaaContinue StIdle2 AcDiscard3,
     Add StIdle2 EvTo StRetransmit2 AcRetransmit,
     AddWildcard StIdle2 StIdle2 AcNone,
     Add StAaaResponse EvUCT StSendRequest2 AcSendRequest,
     Add StSendRequest2 EvUCT StIdle2 AcNone,
     Add StSuccess2 EvSgAaaContinue StSuccess2 AcDiscard3,
     AddWildcard StSuccess2 StSuccess2 AcNone,
     Add StFailure2 EvSgAaaContinue StFailure2 AcDiscard3,
     AddWildcard StFailure2 StFailure2 AcNone,
     Add StRetransmit2 EvSgMaxRetransmission StTimeoutFailure2 AcNone,
     Add StRetransmit2 EvElse StIdle2 AcNone]"

definition passthrough_cmds :: "(ea_st, ea_ev, ea_ac) table_cmd list" where
  "passthrough_cmds =
     [Add StBegin EvSgRestart StDisabled AcDisable,
      Add StDisabled EvSgPortEnabled StInitialize AcInitialize,
      Add StInitialize EvUCT StSelectAction AcDoPolicyCheck]
     @ switch_cmds
     @ [Add StSelectAction EvSgPassThrough StInitializePassThrough AcPickUpInitCheck]
     @ method_cmds @ response_cmds @ aaa_cmds @ [Init StBegin]"

lemmas ea_cmds_defs = switch_cmds_def method_cmds_def response_cmds_def aaa_cmds_def

fun ea_cmds :: "ea_class \<Rightarrow> (ea_st, ea_ev, ea_ac) table_cmd list" where
  "ea_cmds Standalone = standalone_cmds"
| "ea_cmds Backend = backend_cmds"
| "ea_cmds Passthrough = passthrough_cmds"

definition ea_table :: "ea_class \<Rightarrow> (ea_st, ea_ev, ea_ac) state_table" where
  "ea_table c = (case build_table (ea_cmds c) of Inr t \<Rightarrow> t | Inl _ \<Rightarrow> empty_table)"

lemma build_ea_cmds: "\<not> isl (build_table (ea_cmds c))"
proof (cases c)
  case Standalone
  have "\<not> isl (build_table standalone_cmds)" by code_simp
  then show ?thesis by (simp add: Standalone)
next
  case Backend
  have "\<not> isl (build_table backend_cmds)" by code_simp
  then show ?thesis by (simp add: Backend)
next
  case Passthrough
  have "\<not> isl (build_table passthrough_cmds)" by code_simp
  then show ?thesis by (simp add: Passthrough)
qed

lemma ea_table_built: "build_table (ea_cmds c) = Inr (ea_table c)"
  using build_ea_cmds [of c] by (cases "build_table (ea_cmds c)") (simp_all add: ea_table_def)

lemma wf_ea_table: "wf_table (ea_table c)"
  using ea_table_built by (rule wf_build_table)

lemma ea_entries: "entries (ea_table c) = concat (map cmd_entries (ea_cmds c))"
  using ea_table_built by (rule build_table_entries)

section \<open>Events\<close>

definition ea_step :: "eap_env \<Rightarrow> ea_ev \<Rightarrow> eap_auth \<Rightarrow> ea_step" where
  "ea_step env ev w =
     chain_step (ea_table (ea_class w)) sw_running ea_state
       (\<lambda>s w. w\<lparr>ea_state := s\<rparr>) (ea_action env) ev w"

definition ea_Event :: "eap_env \<Rightarrow> ea_ev \<Rightarrow> eap_auth \<Rightarrow> eap_auth" where
  "ea_Event env ev w =
     (case run_chain (ea_step env) ev w of None \<Rightarrow> sw_fail Diverges w | Some w' \<Rightarrow> w')"

section \<open>Operations\<close>

definition ea_start_machine :: "eap_auth \<Rightarrow> eap_auth" where
  "ea_start_machine w = w\<lparr>ea_state := StBegin, sw_running := True\<rparr>"

text \<open>Only the standalone class deletes the method of an earlier run.\<close>

definition ea_Start :: "eap_auth \<Rightarrow> eap_auth" where
  "ea_Start w =
     (let w1 = upd_policy policy_restart w;
          w2 = (if ea_class w1 = Standalone then DeleteMethodStateMachine w1 else w1)
      in sw_Notify EvSgRestart
           ((ea_start_machine w2)\<lparr>sw_keyData := [], sw_keyAvailable := False\<rparr>))"

text \<open>The backend is started by a response that has been passed through.\<close>

definition ea_Start_with :: "mblock option \<Rightarrow> eap_auth \<Rightarrow> eap_auth" where
  "ea_Start_with msg w =
     (let w1 = upd_policy policy_restart w;
          w2 = (case msg of None \<Rightarrow> w1 | Some m \<Rightarrow> SetRxMessage (Some m) w1)
      in sw_Notify EvSgRestart (ea_start_machine w2))"

definition ea_Receive :: "mblock \<Rightarrow> eap_auth \<Rightarrow> eap_auth" where
  "ea_Receive m w = sw_Notify EvRxMsg (w\<lparr>sw_rxQueue := sw_rxQueue w @ [m]\<rparr>)"

text \<open>The calls of the AAA client throw, \<open>None\<close>, unless the session passes through.\<close>

definition aaa_notify :: "ea_ev \<Rightarrow> mblock option \<Rightarrow> eap_auth \<Rightarrow> eap_auth option" where
  "aaa_notify ev msg w =
     (if passthrough_Decision (sw_policy w) \<noteq> DecisionPassthrough then None
      else Some (sw_Notify ev (case msg of None \<Rightarrow> w
                   | Some m \<Rightarrow> w\<lparr>ea_aaaRxQueue := ea_aaaRxQueue w @ [m]\<rparr>)))"

definition AAA_Success :: "mblock option \<Rightarrow> eap_auth \<Rightarrow> eap_auth option" where
  "AAA_Success = aaa_notify EvSgAaaSuccess"

definition AAA_Success_key :: "mblock option \<Rightarrow> u8 list \<Rightarrow> eap_auth \<Rightarrow> eap_auth option" where
  "AAA_Success_key msg key w =
     map_option (\<lambda>w'. w'\<lparr>sw_keyData := key\<rparr>) (aaa_notify EvSgAaaSuccess msg w)"

definition AAA_Failure :: "mblock option \<Rightarrow> eap_auth \<Rightarrow> eap_auth option" where
  "AAA_Failure = aaa_notify EvSgAaaFailure"

definition AAA_Continue :: "mblock option \<Rightarrow> eap_auth \<Rightarrow> eap_auth option" where
  "AAA_Continue msg w = (if msg = None then None else aaa_notify EvSgAaaContinue msg w)"

text \<open>
  A session that has come to undefined behaviour, or that waits for ever, does nothing more.
\<close>

definition ea_Serve :: "eap_env \<Rightarrow> eap_auth \<Rightarrow> eap_auth" where
  "ea_Serve env w =
     (if sw_fault w \<noteq> None then w
      else case mux_pop EvUCT w of
        (ServeNothing, w1) \<Rightarrow> w1
      | (ServeSwitch ev, w1) \<Rightarrow> ea_Event env ev w1
      | (ServeMethod ev, w1) \<Rightarrow>
          method_event env (case ev of None \<Rightarrow> MvSuccess | Some e \<Rightarrow> e) w1
      | (ServeStale, w1) \<Rightarrow> sw_fail UseAfterFree w1)"

text \<open>What happens to a session between its start and its end.\<close>

datatype ea_op =
    OpReceive mblock
  | OpTimeout
  | OpServe
  | OpAaaSuccess "mblock option"
  | OpAaaSuccessKey "mblock option" "u8 list"
  | OpAaaFailure "mblock option"
  | OpAaaContinue "mblock option"

definition or_throw :: "(eap_auth \<Rightarrow> eap_auth option) \<Rightarrow> eap_auth \<Rightarrow> eap_auth" where
  "or_throw f w = (case f w of None \<Rightarrow> w | Some w' \<Rightarrow> w')"

fun ea_exec :: "eap_env \<Rightarrow> ea_op \<Rightarrow> eap_auth \<Rightarrow> eap_auth" where
  "ea_exec env (OpReceive m) w = ea_Receive m w"
| "ea_exec env OpTimeout w = sw_Timeout 0 w"
| "ea_exec env OpServe w = ea_Serve env w"
| "ea_exec env (OpAaaSuccess m) w = or_throw (AAA_Success m) w"
| "ea_exec env (OpAaaSuccessKey m k) w = or_throw (AAA_Success_key m k) w"
| "ea_exec env (OpAaaFailure m) w = or_throw (AAA_Failure m) w"
| "ea_exec env (OpAaaContinue m) w = or_throw (AAA_Continue m) w"

definition ea_run :: "eap_env \<Rightarrow> ea_op list \<Rightarrow> eap_auth \<Rightarrow> eap_auth" where
  "ea_run env ops w = fold (ea_exec env) ops w"

end
