(* ===== verification/Eap_Auth_Inv.thy ===== *)
theory Eap_Auth_Inv
  imports Eap_Auth_Run
begin

text \<open>
  Every event of an authenticator, and every event of its methods, is followed to an end:
  the machines are instances of the locale \<open>event_chain\<close>, with a rank on the states that
  the events which actions pass on always decrease.
\<close>

section \<open>What the actions leave alone\<close>

lemmas ea_basic_defs = ac_Initialize_def stop_retransmission_def make_key_available_def
  ac_SendSuccess_def ac_SendFailure_def ac_MethodResponse_def ac_BuildRequest_def
  ac_SendRequest_def ac_DoIntegrityCheck_def ac_ProposeMethod_def ac_DoPolicyCheck_def
  ac_Discard_def with_msg_def with_aaa_msg_def ac_Discard2_def ac_ResetMethod_def
  ac_Retransmit_def ac_ReceiveMsg_def ac_BackendInitialize_def ac_PickUpMethod_def
  ac_Discard3_def ac_ReceiveMsg2_def ac_PickUpInitCheck_def ac_ForwardResponse_def
  aaa_take_def ac_AaaContinue_def ac_AaaSuccess_def ac_AaaFailure_def ac_CompleteSuccess_def
  ac_CompleteFailure_def

lemmas sw_basic_defs = sw_emit_def sw_fail_def SetRxMessage_def SetTxMessage_def sw_Notify_def
  sw_ScheduleTimer_def sw_CancelTimer_def CreateMethodStateMachine_def
  DeleteMethodStateMachine_def upd_method_def method_Start_def method_Notify_def

text \<open>The facts of a switch that its primitives do not change.\<close>

definition ctl_frame :: "eap_auth \<Rightarrow> eap_auth \<Rightarrow> bool" where
  "ctl_frame w w' \<longleftrightarrow>
     ea_state w' = ea_state w \<and> ea_class w' = ea_class w \<and> sw_running w' = sw_running w"

lemma ctl_frame_prims [effect_simps]:
  "ea_state (sw_emit x w) = ea_state w" "ea_class (sw_emit x w) = ea_class w"
  "sw_running (sw_emit x w) = sw_running w"
  "ea_state (sw_fail y w) = ea_state w" "ea_class (sw_fail y w) = ea_class w"
  "sw_running (sw_fail y w) = sw_running w"
  "ea_state (SetRxMessage m w) = ea_state w" "ea_class (SetRxMessage m w) = ea_class w"
  "sw_running (SetRxMessage m w) = sw_running w"
  "ea_state (SetTxMessage m w) = ea_state w" "ea_class (SetTxMessage m w) = ea_class w"
  "sw_running (SetTxMessage m w) = sw_running w"
  "ea_state (sw_Notify ev w) = ea_state w" "ea_class (sw_Notify ev w) = ea_class w"
  "sw_running (sw_Notify ev w) = sw_running w"
  "ea_state (sw_ScheduleTimer ev n t w) = ea_state w"
  "ea_class (sw_ScheduleTimer ev n t w) = ea_class w"
  "sw_running (sw_ScheduleTimer ev n t w) = sw_running w"
  "ea_state (sw_CancelTimer t w) = ea_state w" "ea_class (sw_CancelTimer t w) = ea_class w"
  "sw_running (sw_CancelTimer t w) = sw_running w"
  "ea_state (upd_method f w) = ea_state w" "ea_class (upd_method f w) = ea_class w"
  "sw_running (upd_method f w) = sw_running w"
  by (simp_all add: sw_basic_defs)

lemma ctl_frame_method [effect_simps]:
  "ea_state (CreateMethodStateMachine env t r w) = ea_state w"
  "ea_class (CreateMethodStateMachine env t r w) = ea_class w"
  "sw_running (CreateMethodStateMachine env t r w) = sw_running w"
  "ea_state (DeleteMethodStateMachine w) = ea_state w"
  "ea_class (DeleteMethodStateMachine w) = ea_class w"
  "sw_running (DeleteMethodStateMachine w) = sw_running w"
  "ea_state (method_Start w) = ea_state w" "ea_class (method_Start w) = ea_class w"
  "sw_running (method_Start w) = sw_running w"
  "ea_state (method_Notify ev w) = ea_state w" "ea_class (method_Notify ev w) = ea_class w"
  "sw_running (method_Notify ev w) = sw_running w"
  "ea_state (make_key_available w) = ea_state w" "ea_class (make_key_available w) = ea_class w"
  "sw_running (make_key_available w) = sw_running w"
  "ea_state (stop_retransmission w) = ea_state w" "ea_class (stop_retransmission w) = ea_class w"
  "sw_running (stop_retransmission w) = sw_running w"
  by (auto simp: CreateMethodStateMachine_def DeleteMethodStateMachine_def method_Start_def
      method_Notify_def make_key_available_def stop_retransmission_def effect_simps
      split: option.splits)

lemma ctl_frame_refl [simp]: "ctl_frame w w"
  by (simp add: ctl_frame_def)

lemma ea_action_frame: "ea_action env a w = (w', n) \<Longrightarrow> ctl_frame w w'"
  by (cases a)
    (auto simp: ctl_frame_def ea_basic_defs Let_def effect_simps
      split: option.splits list.splits eparse.splits prod.splits if_splits)

section \<open>Events end\<close>

text \<open>
  The events that may return to their own state and pass on another one count more than the
  others; no action passes on one of them.
\<close>

definition ev_bonus :: "ea_ev \<Rightarrow> nat" where
  "ev_bonus ev = (if ev \<in> {EvRxMsg, EvSgAaaContinue, EvSgAaaSuccess, EvSgAaaFailure} then 1 else 0)"

fun st_weight :: "ea_st \<Rightarrow> nat" where
  "st_weight StBegin = 20"
| "st_weight StDisabled = 19"
| "st_weight StInitialize = 18"
| "st_weight StPickUpMethod = 17"
| "st_weight StIdle = 17"
| "st_weight StReceived = 16"
| "st_weight StIntegrityCheck = 15"
| "st_weight StNak = 14"
| "st_weight StMethodResponse = 14"
| "st_weight StSelectAction = 13"
| "st_weight StInitializePassThrough = 8"
| "st_weight StIdle2 = 8"
| "st_weight StReceived2 = 7"
| "st_weight StAaaRequest = 6"
| "st_weight StAaaIdle = 5"
| "st_weight StProposeMethod = 4"
| "st_weight StAaaResponse = 3"
| "st_weight StMethodRequest = 3"
| "st_weight s = 2"

definition ea_rank :: "ea_ev \<Rightarrow> eap_auth \<Rightarrow> nat" where
  "ea_rank ev w = 2 * st_weight (ea_state w) + ev_bonus ev"

fun emits :: "ea_ac \<Rightarrow> bool" where
  "emits AcNone = False"
| "emits AcProposeMethod = False"
| "emits AcSendSuccess = False"
| "emits AcSendFailure = False"
| "emits AcSendRequest = False"
| "emits AcDoIntegrityCheck = False"
| "emits AcDoIntegrityCheck2 = False"
| "emits AcCompletePassThroughWithSuccess = False"
| "emits AcCompletePassThroughWithFailure = False"
| "emits AcDiscard3 = False"
| "emits a = True"

lemma ea_action_emits: "ea_action env a w = (w', Some ev) \<Longrightarrow> emits a \<and> ev_bonus ev = 0"
  by (cases a)
    (auto simp: ev_bonus_def ea_basic_defs Let_def
      split: option.splits list.splits eparse.splits prod.splits if_splits ea_decision.splits)

text \<open>The only action that passes on an event from a state to itself is \<open>AcDiscard2\<close>.\<close>

definition entry_descends :: "(ea_st, ea_ev, ea_ac) table_entry \<Rightarrow> bool" where
  "entry_descends e \<longleftrightarrow>
     emits (action e) \<longrightarrow>
     (case event e of
        None \<Rightarrow> False
      | Some ev \<Rightarrow> \<not> isWildcardEvent e \<and>
          2 * st_weight (nextState e) < 2 * st_weight (prevState e) + ev_bonus ev)"

lemma ea_entries_descend: "e \<in> set (entries (ea_table c)) \<Longrightarrow> entry_descends e"
proof -
  have "list_all entry_descends (concat (map cmd_entries standalone_cmds))"
    "list_all entry_descends (concat (map cmd_entries backend_cmds))"
    "list_all entry_descends (concat (map cmd_entries passthrough_cmds))"
    by code_simp+
  then have "list_all entry_descends (entries (ea_table c))"
    by (cases c) (simp_all add: ea_entries)
  then show "e \<in> set (entries (ea_table c)) \<Longrightarrow> entry_descends e"
    by (simp add: list_all_iff)
qed

lemma ea_step_cases:
  obtains (ignored) "ea_step env ev w = (w, None)"
  | (fired) e where "sw_running w" "e \<in> set (entries (ea_table (ea_class w)))"
    "prevState e = ea_state w" "event e = Some ev \<or> isWildcardEvent e"
    "ea_step env ev w = ea_action env (action e) (w\<lparr>ea_state := nextState e\<rparr>)"
  unfolding ea_step_def by (rule chain_step_cases [OF wf_ea_table]) blast+

lemma ea_step_rank:
  assumes "ea_step env ev w = (w', Some ev')"
  shows "ea_rank ev' w' < ea_rank ev w"
proof (cases rule: ea_step_cases [of env ev w])
  case ignored
  with assms show ?thesis by simp
next
  case (fired e)
  then have a: "ea_action env (action e) (w\<lparr>ea_state := nextState e\<rparr>) = (w', Some ev')"
    using assms by simp
  from ea_action_emits [OF a] have "emits (action e)" "ev_bonus ev' = 0" by simp_all
  moreover from ea_action_frame [OF a] have "ea_state w' = nextState e"
    by (simp add: ctl_frame_def)
  ultimately show ?thesis
    using ea_entries_descend [OF fired(2)] fired(3,4)
    by (auto simp: entry_descends_def ea_rank_def split: option.splits)
qed

interpretation ea_chain: event_chain "ea_step env" "\<lambda>n w. True" ea_rank
  by unfold_locales (auto dest: ea_step_rank)

section \<open>The methods\<close>

lemmas me_basic_defs = with_rx_def with_tx_def ma_CheckPickUpInit_def ma_failed_trial_def
  ma_IdCheck_def ma_finish_def ma_IdRequest_def ma_NoCheck_def ma_NoSuccess_def ma_NoFailure_def
  ma_NoRequest_def ma_MdCheck_def ma_MdRequest_def upd_policy_def

text \<open>A method leaves the switch, its kind and its state alone.\<close>

definition method_frame :: "eap_auth \<Rightarrow> eap_auth \<Rightarrow> bool" where
  "method_frame w w' \<longleftrightarrow>
     ctl_frame w w' \<and> me_state_of w' = me_state_of w \<and>
     map_option me_kind (sw_method w') = map_option me_kind (sw_method w)"

lemma me_action_frame: "me_action env a w = (w', n) \<Longrightarrow> method_frame w w'"
  by (cases a)
    (auto simp: method_frame_def ctl_frame_def me_basic_defs Let_def sw_basic_defs me_state_of_def
      split: option.splits eparse.splits prod.splits if_splits)

fun me_emits :: "me_ac \<Rightarrow> bool" where
  "me_emits MaCheckPickUpInit = True"
| "me_emits MaIdCheck = True"
| "me_emits MaNoCheck = True"
| "me_emits MaMdCheck = True"
| "me_emits a = False"

lemma me_action_emits: "me_action env a w = (w', Some ev) \<Longrightarrow> me_emits a"
  by (cases a) simp_all

fun me_weight :: "me_st \<Rightarrow> nat" where
  "me_weight MInitialize = 3"
| "me_weight MCheckPickUpInit = 2"
| "me_weight MWaitResponse = 2"
| "me_weight s = 1"

definition me_rank :: "me_ev \<Rightarrow> eap_auth \<Rightarrow> nat" where
  "me_rank ev w = me_weight (me_state_of w)"

lemma method_entries:
  "entries identity_table = concat (map cmd_entries identity_cmds)"
  "entries notification_table = concat (map cmd_entries notification_cmds)"
  "entries md5_table = concat (map cmd_entries md5_cmds)"
  by (rule build_table_entries, rule identity_table_built notification_table_built md5_table_built)+

lemma wf_method_table: "wf_table (method_table k)"
  by (cases k) (auto intro: wf_build_table identity_table_built notification_table_built
      md5_table_built wf_empty_table)

lemma method_entries_descend:
  "e \<in> set (entries (method_table k)) \<Longrightarrow> me_emits (action e)
    \<Longrightarrow> me_weight (nextState e) < me_weight (prevState e)"
  by (cases k) (auto simp: method_entries identity_cmds_def notification_cmds_def md5_cmds_def
      state_entry_def wildcard_entry_def empty_table_def)

lemma method_step_cases:
  obtains (ignored) "method_step env ev w = (w, None)"
  | (fired) m e where "sw_method w = Some m" "me_running m"
    "e \<in> set (entries (method_table (me_kind m)))" "prevState e = me_state m"
    "event e = Some ev \<or> isWildcardEvent e"
    "method_step env ev w = me_action env (action e) (set_me_state (nextState e) w)"
proof (cases "sw_method w")
  case None
  then show ?thesis by (intro ignored) (simp add: method_step_def)
next
  case (Some m)
  show ?thesis
    by (rule chain_step_cases [OF wf_method_table [of "me_kind m"], where running = me_running_of
          and st = me_state_of and set_st = set_me_state and act = "me_action env" and ev = ev and w = w])
      (auto simp: method_step_def Some me_running_of_def me_state_of_def
        intro: ignored fired)
qed

lemma method_step_rank:
  assumes "method_step env ev w = (w', Some ev')"
  shows "me_rank ev' w' < me_rank ev w"
proof (cases rule: method_step_cases [of env ev w])
  case ignored
  with assms show ?thesis by simp
next
  case (fired m e)
  then have a: "me_action env (action e) (set_me_state (nextState e) w) = (w', Some ev')"
    using assms by simp
  from me_action_frame [OF a] have "me_state_of w' = nextState e"
    by (simp add: method_frame_def me_state_of_def set_me_state_def upd_method_def fired(1))
  with method_entries_descend [OF fired(3) me_action_emits [OF a]] fired(1,4)
  show ?thesis by (simp add: me_rank_def me_state_of_def)
qed

interpretation me_chain: event_chain "method_step env" "\<lambda>n w. True" me_rank
  by unfold_locales (auto dest: method_step_rank)

lemma ea_Event_returns: "run_chain (ea_step env) ev w = Some (ea_Event env ev w)"
  using ea_chain.chain_returns [of env ev w] by (auto simp: ea_Event_def)

lemma method_event_returns: "run_chain (method_step env) ev w = Some (method_event env ev w)"
  using me_chain.chain_returns [of env ev w] by (auto simp: method_event_def)

section \<open>Evaluation\<close>

text \<open>Equations by which concrete sessions are evaluated.\<close>

lemma ea_Event_code [code]:
  "ea_Event env ev w =
     (case chain_upto (Suc (ea_rank ev w)) (ea_step env) ev w of
        None \<Rightarrow> sw_fail Diverges w | Some w' \<Rightarrow> w')"
  unfolding ea_Event_def using ea_chain.chain_within [of ev w "Suc (ea_rank ev w)" env] by simp

lemma method_event_code [code]:
  "method_event env ev w =
     (case chain_upto (Suc (me_rank ev w)) (method_step env) ev w of
        None \<Rightarrow> sw_fail Diverges w | Some w' \<Rightarrow> w')"
  unfolding method_event_def using me_chain.chain_within [of ev w "Suc (me_rank ev w)" env] by simp

lemma ea_table_code [code]:
  "ea_table c = \<lparr>entries = concat (map cmd_entries (ea_cmds c)), initialState = Some StBegin\<rparr>"
proof -
  have "list_all (\<lambda>c. initialState (ea_table c) = Some StBegin) [Standalone, Backend, Passthrough]"
    by code_simp
  then have "initialState (ea_table c) = Some StBegin" by (cases c) simp_all
  then show ?thesis using ea_entries [of c] by (cases "ea_table c") simp
qed

end
