(* ===== verification/Eap_Standalone.thy ===== *)
theory Eap_Standalone
  imports Eap_Auth_Inv
begin

text \<open>
  The invariant of a standalone authenticator: the switch and its method pass a token, the
  request for a check or the reply to it, so that no pointer is null when it is used, no job
  refers to a deleted method and no queue is read while it is empty.
\<close>

section \<open>The invariant\<close>

definition is_reply :: "ea_ev \<Rightarrow> bool" where
  "is_reply ev \<longleftrightarrow> ev = EvSgValidResp \<or> ev = EvSgInvalidResp"

definition replies :: "ea_ev list \<Rightarrow> nat" where
  "replies evs = length (filter is_reply evs)"

definition awaits :: "ea_st \<Rightarrow> bool" where
  "awaits s \<longleftrightarrow> s = StProposeMethod \<or> s = StIntegrityCheck"

text \<open>The other states in which the session has a method.\<close>

definition has_method :: "ea_st \<Rightarrow> bool" where
  "has_method s \<longleftrightarrow> s \<in> {StMethodRequest, StSendRequest, StIdle, StReceived,
     StMethodResponse, StRetransmit, StDiscard, StNak, StTimeoutFailure}"

text \<open>Every type of the policy is one for which a method is registered.\<close>

definition registered :: "eap_env \<Rightarrow> eap_type \<Rightarrow> bool" where
  "registered env t \<longleftrightarrow>
     (case method_Find t RoleAuthenticator (en_table env) of
        None \<Rightarrow> False | Some k \<Rightarrow> k \<noteq> PeerMD5)"

fun covered :: "eap_env \<Rightarrow> policy \<Rightarrow> bool" where
  "covered env (Continued t s f) \<longleftrightarrow> registered env t \<and> covered env s \<and> covered env f"
| "covered env p \<longleftrightarrow> True"

definition opt_covered :: "eap_env \<Rightarrow> policy option \<Rightarrow> bool" where
  "opt_covered env p = (case p of None \<Rightarrow> True | Some q \<Rightarrow> covered env q)"

text \<open>A method between two of its events.\<close>

definition me_rest :: "eap_method \<Rightarrow> bool" where
  "me_rest m \<longleftrightarrow> me_running m \<and> me_kind m \<noteq> PeerMD5 \<and>
     me_state m \<in> {MInitialize, MWaitResponse, MSuccess, MFailure}"

text \<open>
  While the switch does not await a reply, the method has nothing to do and no job waits for
  it.  While it awaits one, the request or the reply is under way, or neither is.
\<close>

definition quiet :: "eap_job list \<Rightarrow> eap_method option \<Rightarrow> bool" where
  "quiet jobs meth \<longleftrightarrow>
     filter (\<lambda>j. j \<noteq> JSwitch) jobs = [] \<and>
     (case meth of None \<Rightarrow> True | Some m \<Rightarrow> me_events m = [] \<and> me_rest m)"

definition waiting ::
    "ea_st \<Rightarrow> ea_ev list \<Rightarrow> eap_job list \<Rightarrow> eap_method \<Rightarrow> mblock option \<Rightarrow> mblock option \<Rightarrow> bool" where
  "waiting s evs jobs m rx tx \<longleftrightarrow>
     me_rest m \<and>
     (me_events m = [] \<and> filter (\<lambda>j. j \<noteq> JSwitch) jobs = [] \<and> replies evs \<le> 1 \<or>
      me_events m = [MvIntegrityCheck] \<and> filter (\<lambda>j. j \<noteq> JSwitch) jobs = [JMethod (me_id m)] \<and>
      replies evs = 0 \<and> (if s = StProposeMethod then me_state m = MInitialize else rx \<noteq> None)) \<and>
     (EvSgValidResp \<in> set evs \<longrightarrow> me_isDone m \<or> tx \<noteq> None) \<and>
     (s = StProposeMethod \<longrightarrow> \<not> me_isDone m)"

definition timers_ok :: "ea_ev timers \<Rightarrow> bool" where
  "timers_ok tm \<longleftrightarrow> (\<forall>ty ev n. tm ty = Some (ev, n) \<longrightarrow> ev = EvTo)"

definition events_ok :: "ea_ev list \<Rightarrow> bool" where
  "events_ok evs \<longleftrightarrow>
     set evs \<subseteq> {EvRxMsg, EvTo, EvSgRestart, EvSgValidResp, EvSgInvalidResp, EvUCT, EvElse}"

definition sa_core :: "eap_env \<Rightarrow> ea_ev list \<Rightarrow> eap_auth \<Rightarrow> bool" where
  "sa_core env evs w \<longleftrightarrow>
     ea_class w = Standalone \<and> sw_running w \<and>
     opt_covered env (currentPolicyElement (sw_policy w)) \<and>
     timers_ok (sw_timers w) \<and> events_ok (sw_events w) \<and>
     count_list evs EvRxMsg \<le> length (sw_rxQueue w) \<and>
     (if awaits (ea_state w) then
        (case sw_method w of
           None \<Rightarrow> False
         | Some m \<Rightarrow>
             waiting (ea_state w) evs (sw_jobs w) m (sw_rxMessage w) (sw_txMessage w))
      else
        quiet (sw_jobs w) (sw_method w) \<and> replies evs = 0 \<and>
        (has_method (ea_state w) \<longrightarrow> sw_method w \<noteq> None))"

definition resting :: "ea_st \<Rightarrow> bool" where
  "resting s \<longleftrightarrow> s \<notin> {StDisabled, StInitialize, StSelectAction, StMethodRequest,
     StMethodResponse, StNak}"

text \<open>What an action that passes on an event promises about it.\<close>

definition sa_promise :: "ea_ev \<Rightarrow> eap_auth \<Rightarrow> bool" where
  "sa_promise ev w \<longleftrightarrow>
     (case ea_state w of
        StDisabled \<Rightarrow> ev = EvSgPortEnabled
      | StInitialize \<Rightarrow> ev = EvUCT
      | StSelectAction \<Rightarrow>
          ev = EvSgPolicySat \<or> ev = EvSgPolicyNotSat_EndSess \<or>
          ev = EvElse \<and> CurrentMethod (sw_policy w) \<noteq> None
      | StMethodRequest \<Rightarrow> ev = EvUCT
      | StNak \<Rightarrow> ev = EvUCT
      | StMethodResponse \<Rightarrow> ev = EvSgEndMethod \<or> ev = EvElse \<and> sw_txMessage w \<noteq> None
      | StReceived \<Rightarrow> ev = EvRxMethodResp \<or> ev = EvRxNak \<longrightarrow> sw_rxMessage w \<noteq> None
      | _ \<Rightarrow> True)"

definition sa_ctl :: "ea_ev option \<Rightarrow> eap_auth \<Rightarrow> bool" where
  "sa_ctl n w = (case n of None \<Rightarrow> resting (ea_state w) | Some ev \<Rightarrow> sa_promise ev w)"

fun opt_list :: "'a option \<Rightarrow> 'a list" where
  "opt_list None = []"
| "opt_list (Some x) = [x]"

definition sa_good :: "eap_env \<Rightarrow> ea_ev option \<Rightarrow> eap_auth \<Rightarrow> bool" where
  "sa_good env n w \<longleftrightarrow> sa_core env (opt_list n @ sw_events w) w \<and> sa_ctl n w"

text \<open>The only fault is a message that is too short for what it announces.\<close>

definition sa_inv :: "eap_env \<Rightarrow> ea_ev option \<Rightarrow> eap_auth \<Rightarrow> bool" where
  "sa_inv env n w \<longleftrightarrow>
     sw_fault w = None \<and> sa_good env n w \<or> n = None \<and> sw_fault w = Some Undefined"

section \<open>An event of the switch\<close>

lemma replies_simps [simp]:
  "replies [] = 0" "replies (ev # evs) = (if is_reply ev then Suc (replies evs) else replies evs)"
  "replies (xs @ ys) = replies xs + replies ys"
  by (simp_all add: replies_def)

lemma is_reply_simps [simp]:
  "is_reply EvSgValidResp" "is_reply EvSgInvalidResp" "\<not> is_reply EvRxMsg" "\<not> is_reply EvUCT"
  "\<not> is_reply EvElse" "\<not> is_reply EvTo" "\<not> is_reply EvSgRestart" "\<not> is_reply EvSgPortEnabled"
  "\<not> is_reply EvSgEndMethod" "\<not> is_reply EvSgPolicySat" "\<not> is_reply EvSgPolicyNotSat_EndSess"
  "\<not> is_reply EvRxMethodResp" "\<not> is_reply EvRxNak" "\<not> is_reply EvSgMaxRetransmission"
  by (simp_all add: is_reply_def)

lemma awaits_simps [simp]:
  "awaits StProposeMethod" "awaits StIntegrityCheck"
  "s \<noteq> StProposeMethod \<Longrightarrow> s \<noteq> StIntegrityCheck \<Longrightarrow> \<not> awaits s"
  by (simp_all add: awaits_def)

lemmas sa_defs = sa_inv_def sa_good_def sa_core_def sa_ctl_def

lemma count_list_append1 [simp]: "count_list (xs @ ys) x = count_list xs x + count_list ys x"
  by (induction xs) auto

lemma timers_ok_simps [simp]:
  "timers_ok tm \<Longrightarrow> timers_ok (CancelTimer ty tm)"
  "timers_ok tm \<Longrightarrow> timers_ok (ScheduleTimer EvTo n ty tm)"
  by (auto simp: timers_ok_def CancelTimer_def ScheduleTimer_def split: if_splits)

lemma events_ok_append [simp]:
  "events_ok (evs @ [ev]) \<longleftrightarrow> events_ok evs \<and>
     ev \<in> {EvRxMsg, EvTo, EvSgRestart, EvSgValidResp, EvSgInvalidResp, EvUCT, EvElse}"
  by (auto simp: events_ok_def)

text \<open>The beginning of an entry's action, in the state it leads to.\<close>

definition sa_pre :: "eap_env \<Rightarrow> ea_ev \<Rightarrow> ea_st \<Rightarrow> eap_auth \<Rightarrow> bool" where
  "sa_pre env ev s w \<longleftrightarrow>
     sw_fault w = None \<and> sa_core env (ev # sw_events w) w \<and> sa_promise ev w \<and> ea_state w = s"

lemma has_method_simps [simp]:
  "has_method StMethodRequest" "has_method StSendRequest" "has_method StIdle"
  "has_method StReceived" "has_method StMethodResponse" "has_method StRetransmit"
  "has_method StDiscard" "has_method StNak" "has_method StTimeoutFailure"
  "\<not> has_method StSuccess" "\<not> has_method StFailure" "\<not> has_method StSelectAction"
  "\<not> has_method StBegin" "\<not> has_method StDisabled" "\<not> has_method StInitialize"
  by (simp_all add: has_method_def)

lemma resting_simps [simp]:
  "resting StBegin" "resting StProposeMethod" "resting StIdle" "resting StIntegrityCheck"
  "resting StSendRequest" "resting StRetransmit" "resting StDiscard" "resting StSuccess"
  "resting StFailure" "resting StTimeoutFailure" "resting StReceived"
  by (simp_all add: resting_def)

text \<open>When a reply is served, no other is under way and the method has nothing to do.\<close>

lemma waiting_reply:
  "waiting s (ev # evs) jobs m rx tx \<Longrightarrow> is_reply ev \<Longrightarrow>
     quiet jobs (Some m) \<and> replies evs = 0 \<and>
     (ev = EvSgValidResp \<longrightarrow> me_isDone m \<or> tx \<noteq> None) \<and>
     (s = StProposeMethod \<longrightarrow> \<not> me_isDone m)"
  by (auto simp: waiting_def quiet_def)

lemma waiting_skip [simp]:
  "\<not> is_reply ev \<Longrightarrow> waiting s (ev # evs) jobs m rx tx = waiting s evs jobs m rx tx"
  by (auto simp: waiting_def)

lemma waiting_tl: "waiting s (ev # evs) jobs m rx tx \<Longrightarrow> waiting s evs jobs m rx tx"
  by (auto simp: waiting_def split: if_splits)

lemma quiet_append [simp]: "quiet (jobs @ [JSwitch]) meth = quiet jobs meth"
  by (simp add: quiet_def)

lemma waiting_append [simp]:
  "waiting s evs (jobs @ [JSwitch]) m rx tx = waiting s evs jobs m rx tx"
  by (simp add: waiting_def)

lemma quiet_call:
  "quiet jobs (Some m) \<Longrightarrow> replies evs = 0 \<Longrightarrow>
     waiting StIntegrityCheck evs (jobs @ [JMethod (me_id m)])
       (m\<lparr>me_events := me_events m @ [MvIntegrityCheck]\<rparr>) (Some rx) tx"
  by (auto simp: waiting_def quiet_def me_rest_def replies_def filter_empty_conv)

lemma covered_Update:
  "opt_covered env (currentPolicyElement p) \<Longrightarrow>
     opt_covered env (currentPolicyElement (policy_Update sw p))"
  by (auto simp: policy_Update_def opt_covered_def split: option.splits policy.splits
      policy_switch.splits)

lemma covered_Update_list:
  "policy_Update_list [] p = Some p' \<Longrightarrow> opt_covered env (currentPolicyElement p) \<Longrightarrow>
     opt_covered env (currentPolicyElement p')"
  using covered_Update [of env p PolicyOnFailure] by (simp add: policy_Update_list_Nil)

section \<open>The entries of the table\<close>

text \<open>The entries that neither end nor begin a check.\<close>

lemma sa_ac_start:
  "sa_pre env EvSgRestart StBegin w \<Longrightarrow>
     ea_action env AcDisable (w\<lparr>ea_state := StDisabled\<rparr>) = (w', n) \<Longrightarrow> sa_inv env n w'"
  "sa_pre env EvSgPortEnabled StDisabled w \<Longrightarrow>
     ea_action env AcInitialize (w\<lparr>ea_state := StInitialize\<rparr>) = (w', n) \<Longrightarrow> sa_inv env n w'"
  by (auto simp: sa_pre_def sa_defs sa_promise_def ac_Initialize_def)

lemma sa_policy_check:
  assumes "sw_fault w = None" "sa_core env evs w" "sw_events w = evs" "\<not> awaits (ea_state w)"
  shows "sa_inv env (snd (ac_DoPolicyCheck (w\<lparr>ea_state := StSelectAction\<rparr>)))
           (fst (ac_DoPolicyCheck (w\<lparr>ea_state := StSelectAction\<rparr>)))"
  using assms
  by (auto simp: sa_defs sa_promise_def ac_DoPolicyCheck_def Decision_def auth_Decision_def
      split: option.splits)

lemma sa_ac_check_if:
  assumes "sa_pre env ev s w" and "\<not> awaits s" and "ev \<noteq> EvRxMsg"
    and "ea_action env AcDoPolicyCheck (w\<lparr>ea_state := StSelectAction\<rparr>) = (w', n)"
  shows "sa_inv env n w'"
  using sa_policy_check [of w env "sw_events w"] assms
  by (auto simp: sa_pre_def sa_core_def split: if_splits)

lemma sa_ac_check:
  "sa_pre env EvUCT StInitialize w \<Longrightarrow>
     ea_action env AcDoPolicyCheck (w\<lparr>ea_state := StSelectAction\<rparr>) = (w', n) \<Longrightarrow> sa_inv env n w'"
  "sa_pre env EvSgEndMethod StMethodResponse w \<Longrightarrow>
     ea_action env AcDoPolicyCheck (w\<lparr>ea_state := StSelectAction\<rparr>) = (w', n) \<Longrightarrow> sa_inv env n w'"
  "sa_pre env EvUCT StNak w \<Longrightarrow>
     ea_action env AcDoPolicyCheck (w\<lparr>ea_state := StSelectAction\<rparr>) = (w', n) \<Longrightarrow> sa_inv env n w'"
  by (erule sa_ac_check_if; simp)+

lemma sa_ac_end:
  "sa_pre env EvSgPolicySat StSelectAction w \<Longrightarrow>
     ea_action env AcSendSuccess (w\<lparr>ea_state := StSuccess\<rparr>) = (w', n) \<Longrightarrow> sa_inv env n w'"
  "sa_pre env EvSgPolicyNotSat_EndSess StSelectAction w \<Longrightarrow>
     ea_action env AcSendFailure (w\<lparr>ea_state := StFailure\<rparr>) = (w', n) \<Longrightarrow> sa_inv env n w'"
  by (auto simp: sa_pre_def sa_defs ac_SendSuccess_def ac_SendFailure_def make_key_available_def
      stop_retransmission_def sw_emit_def sw_CancelTimer_def)

lemma sa_ac_SendRequest:
  "sa_pre env EvUCT StMethodRequest w \<Longrightarrow>
     ea_action env AcSendRequest (w\<lparr>ea_state := StSendRequest\<rparr>) = (w', n) \<Longrightarrow> sa_inv env n w'"
  by (auto simp: sa_pre_def sa_defs ac_SendRequest_def stop_retransmission_def sw_basic_defs
      Let_def split: if_splits)

lemma sa_ac_move:
  "sa_pre env EvUCT StSendRequest w \<Longrightarrow>
     ea_action env AcNone (w\<lparr>ea_state := StIdle\<rparr>) = (w', n) \<Longrightarrow> sa_inv env n w'"
  "sa_pre env EvUCT StDiscard w \<Longrightarrow>
     ea_action env AcNone (w\<lparr>ea_state := StIdle\<rparr>) = (w', n) \<Longrightarrow> sa_inv env n w'"
  "sa_pre env EvElse StRetransmit w \<Longrightarrow>
     ea_action env AcNone (w\<lparr>ea_state := StIdle\<rparr>) = (w', n) \<Longrightarrow> sa_inv env n w'"
  "sa_pre env EvSgMaxRetransmission StRetransmit w \<Longrightarrow>
     ea_action env AcNone (w\<lparr>ea_state := StTimeoutFailure\<rparr>) = (w', n) \<Longrightarrow> sa_inv env n w'"
  by (auto simp: sa_pre_def sa_defs)

lemma sa_ac_Retransmit:
  "sa_pre env EvTo StIdle w \<Longrightarrow>
     ea_action env AcRetransmit (w\<lparr>ea_state := StRetransmit\<rparr>) = (w', n) \<Longrightarrow> sa_inv env n w'"
  by (auto simp: sa_pre_def sa_defs sa_promise_def ac_Retransmit_def sw_basic_defs split: if_splits)

lemma sa_ac_Received:
  "sa_pre env EvRxNak StReceived w \<Longrightarrow>
     ea_action env AcResetMethod (w\<lparr>ea_state := StNak\<rparr>) = (w', n) \<Longrightarrow> sa_inv env n w'"
  "sa_pre env EvElse StReceived w \<Longrightarrow>
     ea_action env AcDiscard (w\<lparr>ea_state := StDiscard\<rparr>) = (w', n) \<Longrightarrow> sa_inv env n w'"
  by (auto simp: sa_pre_def sa_defs sa_promise_def ac_ResetMethod_def ac_Discard_def sw_basic_defs
      policy_Update_list_Nil dest: covered_Update split: option.splits)

lemma sa_ac_BuildRequest:
  "sa_pre env EvElse StMethodResponse w \<Longrightarrow>
     ea_action env AcBuildRequest (w\<lparr>ea_state := StMethodRequest\<rparr>) = (w', n) \<Longrightarrow> sa_inv env n w'"
  by (auto simp: sa_pre_def sa_defs sa_promise_def ac_BuildRequest_def sw_basic_defs Let_def
      split: option.splits)

text \<open>Messages that are thrown away.\<close>

lemma sa_ac_Discard2:
  "sa_pre env EvRxMsg StSuccess w \<Longrightarrow>
     ea_action env AcDiscard2 (w\<lparr>ea_state := StSuccess\<rparr>) = (w', n) \<Longrightarrow> sa_inv env n w'"
  "sa_pre env EvRxMsg StFailure w \<Longrightarrow>
     ea_action env AcDiscard2 (w\<lparr>ea_state := StFailure\<rparr>) = (w', n) \<Longrightarrow> sa_inv env n w'"
  "sa_pre env EvRxMsg StIntegrityCheck w \<Longrightarrow>
     ea_action env AcDiscard2 (w\<lparr>ea_state := StIntegrityCheck\<rparr>) = (w', n) \<Longrightarrow> sa_inv env n w'"
  by (auto simp: sa_pre_def sa_defs ac_Discard2_def with_msg_def
      split: option.splits list.splits)

text \<open>What the reception of a message comes to.\<close>

lemma ac_ReceiveMsg_cases:
  assumes "ac_ReceiveMsg env w = (w', n)" and "sw_rxQueue w = m # q"
  obtains (undefd) "w' = sw_fail Undefined (w\<lparr>sw_rxQueue := q\<rparr>)" "n = None"
  | (mismatch) "w' = sw_Notify EvElse (SetRxMessage None (w\<lparr>sw_rxQueue := q\<rparr>))" "n = None"
  | (dropped) "w' = SetRxMessage None (w\<lparr>sw_rxQueue := q\<rparr>)" "n = Some EvElse"
  | (accepted) h m1 t m2 where "header_parse m = EOk (h, m1)" "eh_code h = EAP_Response"
      "eh_identifier h = sw_currentIdentifier w" "type_parse (en_signed env) m1 = EOk (t, m2)"
      "w' = SetRxMessage (Some m2) (w\<lparr>sw_rxQueue := q\<rparr>)"
      "n = Some EvRxNak \<or> n = Some EvRxMethodResp"
      "n = Some EvRxMethodResp \<Longrightarrow> checks_type (w\<lparr>sw_rxQueue := q\<rparr>) \<Longrightarrow> t = sw_currentMethod w"
  using assms
  by (auto simp: ac_ReceiveMsg_def with_msg_def Let_def
      split: eparse.splits prod.splits if_splits)

lemma sa_ac_ReceiveMsg:
  assumes "sa_pre env EvRxMsg StIdle w"
    and "ea_action env AcReceiveMsg (w\<lparr>ea_state := StReceived\<rparr>) = (w', n)"
  shows "sa_inv env n w'"
proof -
  from assms(1) obtain m q where q: "sw_rxQueue w = m # q"
    by (cases "sw_rxQueue w") (simp_all add: sa_pre_def sa_core_def)
  from assms(2) have r: "ac_ReceiveMsg env (w\<lparr>ea_state := StReceived\<rparr>) = (w', n)" by simp
  from q have "sw_rxQueue (w\<lparr>ea_state := StReceived\<rparr>) = m # q" by simp
  from r this show ?thesis
  proof (cases rule: ac_ReceiveMsg_cases)
    case (accepted h m1 t m2)
    then show ?thesis using assms(1) q
      by (auto simp: sa_pre_def sa_defs sa_promise_def SetRxMessage_def)
  qed (use assms(1) q in \<open>auto simp: sa_pre_def sa_defs sa_promise_def sw_fail_def
      SetRxMessage_def sw_Notify_def\<close>)
qed

text \<open>The switch turns to its method.\<close>

lemma sa_ac_DoIntegrityCheck:
  assumes "sa_pre env EvRxMethodResp StReceived w"
    and "ea_action env AcDoIntegrityCheck (w\<lparr>ea_state := StIntegrityCheck\<rparr>) = (w', n)"
  shows "sa_inv env n w'"
  using assms
  by (auto simp: sa_pre_def sa_defs sa_promise_def ac_DoIntegrityCheck_def method_Notify_def
      upd_method_def quiet_call)

text \<open>The replies of the method.\<close>

lemma sa_pre_reply:
  assumes "sa_pre env ev s w" and "is_reply ev" and "awaits s"
  obtains m where "sw_method w = Some m" "quiet (sw_jobs w) (Some m)"
    "replies (sw_events w) = 0" "ev = EvSgValidResp \<longrightarrow> me_isDone m \<or> sw_txMessage w \<noteq> None"
    "s = StProposeMethod \<longrightarrow> \<not> me_isDone m"
    "sw_fault w = None" "ea_class w = Standalone" "sw_running w"
    "opt_covered env (currentPolicyElement (sw_policy w))" "timers_ok (sw_timers w)"
    "events_ok (sw_events w)" "count_list (sw_events w) EvRxMsg \<le> length (sw_rxQueue w)"
proof -
  from assms obtain m where "sw_method w = Some m"
    "waiting s (ev # sw_events w) (sw_jobs w) m (sw_rxMessage w) (sw_txMessage w)"
    by (auto simp: sa_pre_def sa_core_def split: option.splits)
  with waiting_reply [OF this(2) assms(2)] assms show ?thesis
    by (intro that) (auto simp: sa_pre_def sa_core_def split: if_splits)
qed

lemma sa_ac_proposed:
  assumes "sa_pre env EvSgValidResp StProposeMethod w"
    and "ea_action env AcBuildRequest (w\<lparr>ea_state := StMethodRequest\<rparr>) = (w', n)"
  shows "sa_inv env n w'"
  by (rule sa_pre_reply [OF assms(1)])
    (use assms(2) in \<open>auto simp: sa_defs sa_promise_def ac_BuildRequest_def sw_basic_defs Let_def\<close>)

lemma sa_ac_MethodResponse:
  assumes "sa_pre env EvSgValidResp StIntegrityCheck w"
    and "ea_action env AcMethodResponse (w\<lparr>ea_state := StMethodResponse\<rparr>) = (w', n)"
  shows "sa_inv env n w'"
  by (rule sa_pre_reply [OF assms(1)])
    (use assms(2) in \<open>auto simp: sa_defs sa_promise_def ac_MethodResponse_def split: if_splits\<close>)

lemma sa_ac_invalid:
  assumes "sa_pre env EvSgInvalidResp StIntegrityCheck w"
    and "ea_action env AcDiscard (w\<lparr>ea_state := StDiscard\<rparr>) = (w', n)"
  shows "sa_inv env n w'"
  by (rule sa_pre_reply [OF assms(1)])
    (use assms(2) in \<open>auto simp: sa_defs sa_promise_def ac_Discard_def\<close>)

text \<open>A new method is created and asked for its request.\<close>

lemma sa_proposes:
  assumes p: "sa_pre env EvElse StSelectAction w"
  obtains t k where "CurrentMethod (sw_policy w) = Some t"
    "method_Find t RoleAuthenticator (en_table env) = Some k" "k \<noteq> PeerMD5"
proof -
  from p obtain t where t: "CurrentMethod (sw_policy w) = Some t"
    by (auto simp: sa_pre_def sa_promise_def)
  from t p have "registered env t"
    by (auto simp: sa_pre_def sa_core_def CurrentMethod_def opt_covered_def
        split: option.splits policy.splits)
  with t that show ?thesis by (auto simp: registered_def split: option.splits)
qed

text \<open>What the action comes to when the method is registered.\<close>

lemma ac_ProposeMethod_frame:
  assumes "ac_ProposeMethod env w = (w', n)" "CurrentMethod (sw_policy w) = Some t"
    "method_Find t RoleAuthenticator (en_table env) = Some k" "k \<noteq> PeerMD5" "sw_fault w = None"
  shows "n = None" "sw_method w' = Some (method_new k (sw_created w)
      \<lparr>me_state := MInitialize, me_running := True, me_isDone := False,
       me_events := [MvIntegrityCheck]\<rparr>)"
    "sw_jobs w' = sw_jobs w @ [JMethod (sw_created w)]" "sw_fault w' = None"
    "sw_policy w' = sw_policy w" "sw_timers w' = sw_timers w" "sw_events w' = sw_events w"
    "sw_rxQueue w' = sw_rxQueue w" "sw_out w' = sw_out w" "sw_currentMethod w' = t"
  using assms
  by (auto simp: ac_ProposeMethod_def Let_def CreateMethodStateMachine_def method_Start_def
      upd_method_def ac_DoIntegrityCheck_def method_Notify_def method_new_def effect_simps
      split: if_splits)

lemma sa_ac_ProposeMethod:
  assumes p: "sa_pre env EvElse StSelectAction w"
    and a: "ea_action env AcProposeMethod (w\<lparr>ea_state := StProposeMethod\<rparr>) = (w', n)"
  shows "sa_inv env n w'"
proof -
  obtain t k where k: "CurrentMethod (sw_policy w) = Some t"
    "method_Find t RoleAuthenticator (en_table env) = Some k" "k \<noteq> PeerMD5"
    by (rule sa_proposes [OF p])
  from p have c: "quiet (sw_jobs w) (sw_method w)" "replies (sw_events w) = 0"
    "sw_fault w = None" "ea_class w = Standalone" "sw_running w"
    "opt_covered env (currentPolicyElement (sw_policy w))" "timers_ok (sw_timers w)"
    "events_ok (sw_events w)" "count_list (sw_events w) EvRxMsg \<le> length (sw_rxQueue w)"
    by (auto simp: sa_pre_def sa_core_def)
  then have "\<And>x. x \<in> set (sw_jobs w) \<Longrightarrow> x = JSwitch"
    by (auto simp: quiet_def filter_empty_conv)
  then have w: "waiting StProposeMethod (sw_events w) (sw_jobs w @ [JMethod i])
      (method_new k i\<lparr>me_state := MInitialize, me_running := True, me_isDone := False,
         me_events := [MvIntegrityCheck]\<rparr>) rx tx" for i rx tx
    using c(2) k(3)
    by (auto simp: waiting_def me_rest_def method_new_def filter_empty_conv replies_def)
  from a have f: "ac_ProposeMethod env (w\<lparr>ea_state := StProposeMethod\<rparr>) = (w', n)" by simp
  from ac_ProposeMethod_frame [OF f] ea_action_frame [OF a] k c w show ?thesis
    by (simp add: sa_defs ctl_frame_def)
qed

section \<open>The invariant is kept by the switch\<close>

lemma sa_ac_wild:
  "sa_pre env ev StSuccess w \<Longrightarrow>
     ea_action env AcNone (w\<lparr>ea_state := StSuccess\<rparr>) = (w', n) \<Longrightarrow> sa_inv env n w'"
  "sa_pre env ev StFailure w \<Longrightarrow>
     ea_action env AcNone (w\<lparr>ea_state := StFailure\<rparr>) = (w', n) \<Longrightarrow> sa_inv env n w'"
  "sa_pre env ev StIntegrityCheck w \<Longrightarrow>
     ea_action env AcNone (w\<lparr>ea_state := StIntegrityCheck\<rparr>) = (w', n) \<Longrightarrow> sa_inv env n w'"
  by (auto simp: sa_pre_def sa_defs dest: waiting_tl split: option.splits if_splits)

lemmas sa_acs = sa_ac_start sa_ac_check sa_ac_end sa_ac_SendRequest sa_ac_move sa_ac_Retransmit
  sa_ac_Received sa_ac_BuildRequest sa_ac_Discard2 sa_ac_ReceiveMsg sa_ac_DoIntegrityCheck
  sa_ac_proposed sa_ac_MethodResponse sa_ac_invalid sa_ac_ProposeMethod sa_ac_wild

definition sa_keeps :: "eap_env \<Rightarrow> (ea_st, ea_ev, ea_ac) table_entry \<Rightarrow> bool" where
  "sa_keeps env e \<longleftrightarrow>
     (\<forall>ev w w' n. (event e = Some ev \<or> isWildcardEvent e) \<longrightarrow> sa_pre env ev (prevState e) w \<longrightarrow>
        ea_action env (action e) (w\<lparr>ea_state := nextState e\<rparr>) = (w', n) \<longrightarrow> sa_inv env n w')"

lemma sa_keeps_simps:
  "sa_keeps env (state_entry s ev s' a) \<longleftrightarrow>
     (\<forall>w w' n. sa_pre env ev s w \<longrightarrow> ea_action env a (w\<lparr>ea_state := s'\<rparr>) = (w', n) \<longrightarrow> sa_inv env n w')"
  "sa_keeps env (wildcard_entry s s' a) \<longleftrightarrow>
     (\<forall>ev w w' n. sa_pre env ev s w \<longrightarrow> ea_action env a (w\<lparr>ea_state := s'\<rparr>) = (w', n) \<longrightarrow> sa_inv env n w')"
  by (auto simp: sa_keeps_def state_entry_def wildcard_entry_def)

lemma sa_entry: "e \<in> set (entries (ea_table Standalone)) \<Longrightarrow> sa_keeps env e"
proof -
  have "list_all (sa_keeps env) (concat (map cmd_entries standalone_cmds))"
    unfolding standalone_cmds_def ea_cmds_defs
    by (simp del: ea_action.simps add: sa_keeps_simps)
      (intro conjI allI impI; (rule sa_acs; assumption))
  then show "e \<in> set (entries (ea_table Standalone)) \<Longrightarrow> sa_keeps env e"
    unfolding ea_entries ea_cmds.simps list_all_iff by blast
qed

text \<open>The events that are passed on to a state that does not rest find an entry there.\<close>

lemma sa_promise_found:
  assumes "sa_promise ev w" and "\<not> resting (ea_state w)"
  shows "FindStateTableEntry (ea_table Standalone) (ea_state w) ev \<noteq> None"
proof -
  have "list_all (\<lambda>(s, ev). FindStateTableEntry (ea_table Standalone) s ev \<noteq> None)
    [(StDisabled, EvSgPortEnabled), (StInitialize, EvUCT), (StSelectAction, EvSgPolicySat),
     (StSelectAction, EvSgPolicyNotSat_EndSess), (StSelectAction, EvElse),
     (StMethodRequest, EvUCT), (StNak, EvUCT), (StMethodResponse, EvSgEndMethod),
     (StMethodResponse, EvElse)]"
    by code_simp
  then show ?thesis using assms
    by (cases "ea_state w") (auto simp: sa_promise_def resting_def)
qed

lemma sa_ignored:
  assumes "sw_fault w = None" "sa_core env (ev # sw_events w) w" "resting (ea_state w)"
  shows "sa_inv env None w"
  using assms
  by (auto simp: sa_defs dest: waiting_tl split: option.splits if_splits)

lemma sa_step:
  assumes i: "sa_inv env (Some ev) w" and s: "ea_step env ev w = (w', n)"
  shows "sa_inv env n w'"
proof -
  from i have f: "sw_fault w = None" and c: "sa_core env (ev # sw_events w) w"
    and p: "sa_promise ev w" by (simp_all add: sa_inv_def sa_good_def sa_ctl_def)
  from c have cls: "ea_class w = Standalone" and run: "sw_running w" by (simp_all add: sa_core_def)
  show ?thesis
  proof (cases "FindStateTableEntry (ea_table Standalone) (ea_state w) ev")
    case None
    with sa_promise_found [OF p] have "resting (ea_state w)" by blast
    moreover from None s have "w' = w" "n = None"
      by (simp_all add: ea_step_def chain_step_def sm_dispatch_def cls run)
    ultimately show ?thesis using sa_ignored [OF f c] by simp
  next
    case (Some e)
    then have "sm_dispatch (ea_table Standalone) (sw_running w) (ea_state w) ev
        = Fire (nextState e) (action e)" by (simp add: sm_dispatch_def run)
    from dispatch_mem [OF wf_ea_table this] obtain e' where e:
      "e' \<in> set (entries (ea_table Standalone))" "prevState e' = ea_state w"
      "event e' = Some ev \<or> isWildcardEvent e'" "nextState e' = nextState e" "action e' = action e"
      by blast
    have "ea_action env (action e') (w\<lparr>ea_state := nextState e'\<rparr>) = (w', n)"
      using s Some by (simp add: ea_step_def chain_step_def sm_dispatch_def cls run e)
    moreover have "sa_pre env ev (prevState e') w" by (simp add: sa_pre_def f c p e)
    ultimately show ?thesis using sa_entry [OF e(1), of env] e(3) by (auto simp: sa_keeps_def)
  qed
qed

interpretation sa_chain: event_chain "ea_step env" "sa_inv env" ea_rank
  by unfold_locales (auto dest: sa_step ea_step_rank)

lemma sa_Event: "sa_inv env (Some ev) w \<Longrightarrow> sa_inv env None (ea_Event env ev w)"
  using sa_chain.chain_inv ea_Event_returns by blast

end
