(* ===== verification/Eap_Standalone_Run.thy ===== *)
theory Eap_Standalone_Run
  imports Eap_Standalone
begin

text \<open>
  The invariant of a standalone authenticator is kept by its methods and by every operation
  between the start and the end of a session.
\<close>

section \<open>The service of a method\<close>

definition sa_base :: "eap_env \<Rightarrow> eap_auth \<Rightarrow> bool" where
  "sa_base env w \<longleftrightarrow>
     ea_class w = Standalone \<and> sw_running w \<and>
     opt_covered env (currentPolicyElement (sw_policy w)) \<and>
     timers_ok (sw_timers w) \<and> events_ok (sw_events w) \<and>
     count_list (sw_events w) EvRxMsg \<le> length (sw_rxQueue w)"

text \<open>A method while it follows an event.\<close>

definition me_promise :: "method_kind \<Rightarrow> me_st \<Rightarrow> me_ev \<Rightarrow> bool" where
  "me_promise k s ev \<longleftrightarrow>
     (case s of
        MCheckPickUpInit \<Rightarrow> k = AuthIdentity \<and> ev = MvNoPickUpInit
      | MProcessResponse \<Rightarrow>
          ev = MvSuccess \<or> (if k = AuthIdentity then ev = MvFailure_MoreTrial \<or> ev = MvFailure_NoMoreTrial
                            else ev = MvFailure)
      | _ \<Rightarrow> ev = MvIntegrityCheck)"

definition me_busy :: "method_kind \<Rightarrow> me_st \<Rightarrow> eap_auth \<Rightarrow> bool" where
  "me_busy k s w \<longleftrightarrow>
     awaits (ea_state w) \<and> filter (\<lambda>j. j \<noteq> JSwitch) (sw_jobs w) = [] \<and>
     replies (sw_events w) = 0 \<and>
     (case sw_method w of
        None \<Rightarrow> False
      | Some m \<Rightarrow> me_kind m = k \<and> me_state m = s \<and> me_running m \<and> me_events m = [] \<and>
          (ea_state w = StProposeMethod \<longrightarrow> \<not> me_isDone m)) \<and>
     (s = MWaitResponse \<or> s = MProcessResponse \<longrightarrow>
        ea_state w = StIntegrityCheck \<and> sw_rxMessage w \<noteq> None)"

definition me_pre :: "eap_env \<Rightarrow> method_kind \<Rightarrow> me_st \<Rightarrow> me_ev \<Rightarrow> eap_auth \<Rightarrow> bool" where
  "me_pre env k s ev w \<longleftrightarrow>
     sw_fault w = None \<and> sa_base env w \<and> k \<noteq> PeerMD5 \<and> s \<noteq> MProcessRequest \<and> me_promise k s ev \<and>
     me_busy k s w"

definition me_post :: "eap_env \<Rightarrow> method_kind \<Rightarrow> me_ev option \<Rightarrow> eap_auth \<Rightarrow> bool" where
  "me_post env k n w \<longleftrightarrow>
     (case n of None \<Rightarrow> sa_inv env None w | Some ev \<Rightarrow> me_pre env k (me_state_of w) ev w)"

lemma sa_inv_awaits:
  assumes "sw_fault w = None" "sa_base env w" "awaits (ea_state w)" "sw_method w = Some m"
    and "waiting (ea_state w) (sw_events w) (sw_jobs w) m (sw_rxMessage w) (sw_txMessage w)"
  shows "sa_inv env None w"
  using assms by (auto simp: sa_defs sa_base_def awaits_def)

text \<open>The end of a method's turn: it rests, and there is at most one reply.\<close>

lemma me_rests:
  assumes "me_busy k s w" "sa_base env w" "k \<noteq> PeerMD5"
    and "sw_fault w' = None" "sa_base env w'" "ea_state w' = ea_state w"
    "sw_jobs w' = sw_jobs w @ js" "set js \<subseteq> {JSwitch}"
    "sw_method w' = Some m'" "me_running m'" "me_kind m' = k" "me_events m' = []"
    "me_state m' \<in> {MInitialize, MWaitResponse, MSuccess, MFailure}"
    "ea_state w = StProposeMethod \<longrightarrow> \<not> me_isDone m'"
    "sw_events w' = sw_events w @ evs" "replies evs \<le> 1"
    "EvSgValidResp \<in> set evs \<longrightarrow> me_isDone m' \<or> sw_txMessage w' \<noteq> None"
  shows "sa_inv env None w'"
proof (rule sa_inv_awaits)
  have "EvSgValidResp \<notin> set (sw_events w)"
    using assms(1) by (auto simp: me_busy_def replies_def filter_empty_conv is_reply_def)
  moreover have "filter (\<lambda>j. j \<noteq> JSwitch) js = []"
    using assms(8) by (auto simp: filter_empty_conv)
  ultimately show "waiting (ea_state w') (sw_events w') (sw_jobs w') m' (sw_rxMessage w') (sw_txMessage w')"
    using assms by (auto simp: waiting_def me_rest_def me_busy_def)
qed (use assms in \<open>auto simp: me_busy_def\<close>)

lemma sa_base_Notify:
  "sa_base env w \<Longrightarrow> ev \<in> {EvSgValidResp, EvSgInvalidResp} \<Longrightarrow> sa_base env (sw_Notify ev w)"
  by (auto simp: sa_base_def sw_Notify_def)

lemma sa_base_prims [simp]:
  "sa_base env (set_me_state s w) = sa_base env w" "sa_base env (SetTxMessage m w) = sa_base env w"
  "sa_base env (SetRxMessage m w) = sa_base env w" "sa_base env (upd_method f w) = sa_base env w"
  "sa_base env (w\<lparr>sw_peerIdentity := i\<rparr>) = sa_base env w"
  by (simp_all add: sa_base_def set_me_state_def upd_method_def SetTxMessage_def SetRxMessage_def)

lemma sa_base_policy: "sa_base env w \<Longrightarrow> sa_base env (upd_policy (policy_Update sw) w)"
  by (simp add: sa_base_def upd_policy_def covered_Update)

lemma me_preE:
  assumes "me_pre env k s ev w"
  obtains m where "sw_fault w = None" "sa_base env w" "k \<noteq> PeerMD5" "me_busy k s w"
    "sw_method w = Some m" "me_kind m = k" "me_state m = s" "me_running m" "me_events m = []"
    "ea_state w = StProposeMethod \<longrightarrow> \<not> me_isDone m"
  using assms by (auto simp: me_pre_def me_busy_def split: option.splits)

text \<open>A method that has finished, one that has prepared a request, one that checks.\<close>

lemma me_finishes:
  assumes p: "me_pre env k MProcessResponse ev w" and "is_reply r" and "s \<in> {MSuccess, MFailure}"
    and w1: "w1 = set_me_state s w \<or> w1 = SetTxMessage None (set_me_state s w)"
  shows "sa_inv env None (ma_finish sw r w1)"
proof -
  obtain m where m: "sw_fault w = None" "sa_base env w" "k \<noteq> PeerMD5" "me_busy k MProcessResponse w"
    "sw_method w = Some m" "me_kind m = k" "me_state m = MProcessResponse" "me_running m" "me_events m = []"
    "ea_state w = StProposeMethod \<longrightarrow> \<not> me_isDone m"
    by (rule me_preE [OF p])
  from m(4) have st: "ea_state w = StIntegrityCheck" by (simp add: me_busy_def)
  let ?w = "ma_finish sw r w1"
  have b: "sa_base env ?w"
    using w1 assms(2) m(2) by (auto simp: ma_finish_def is_reply_def intro!: sa_base_Notify
        sa_base_policy)
  show ?thesis
    by (rule me_rests [OF m(4,2,3) _ b, where js = "[JSwitch]" and evs = "[r]"
          and m' = "m\<lparr>me_state := s, me_isDone := True\<rparr>"])
      (use w1 assms(3) m st in \<open>auto simp: ma_finish_def sw_Notify_def upd_method_def upd_policy_def
          set_me_state_def SetTxMessage_def\<close>)
qed

lemma me_requests:
  assumes p: "me_pre env k s ev w" and r: "r \<noteq> EThrow \<or> bad = sw_Notify EvSgInvalidResp"
    and w1: "w1 = upd_method (\<lambda>m. m\<lparr>me_state := MWaitResponse, me_value := v m\<rparr>) w"
  shows "sa_inv env None (with_tx r (sw_Notify EvSgValidResp) bad w1)"
proof -
  obtain m where m: "sw_fault w = None" "sa_base env w" "k \<noteq> PeerMD5" "me_busy k s w"
    "sw_method w = Some m" "me_kind m = k" "me_state m = s" "me_running m" "me_events m = []"
    "ea_state w = StProposeMethod \<longrightarrow> \<not> me_isDone m"
    by (rule me_preE [OF p])
  let ?m = "m\<lparr>me_state := MWaitResponse, me_value := v m\<rparr>"
  show ?thesis
  proof (cases r)
    case (EOk b)
    have "sa_base env (sw_Notify EvSgValidResp (SetTxMessage (Some b) w1))"
      using m(2) w1 by (auto intro!: sa_base_Notify)
    from me_rests [OF m(4,2,3) _ this, where js = "[JSwitch]" and evs = "[EvSgValidResp]" and m' = ?m]
    show ?thesis using m w1 EOk
      by (simp add: with_tx_def sw_Notify_def SetTxMessage_def upd_method_def)
  next
    case EThrow
    have "sa_base env (sw_Notify EvSgInvalidResp w1)"
      using m(2) w1 by (auto intro!: sa_base_Notify)
    from me_rests [OF m(4,2,3) _ this, where js = "[JSwitch]" and evs = "[EvSgInvalidResp]" and m' = ?m]
    show ?thesis using m w1 EThrow r
      by (simp add: with_tx_def sw_Notify_def SetTxMessage_def upd_method_def)
  next
    case EUndef
    then show ?thesis by (simp add: with_tx_def sa_inv_def sw_fail_def)
  qed
qed

text \<open>A method that ends its turn without a word.\<close>

lemma me_pauses:
  assumes p: "me_pre env k s ev w" and "s' \<in> {MWaitResponse, MSuccess, MFailure}"
  shows "sa_inv env None (set_me_state s' w)"
proof -
  obtain m where m: "sw_fault w = None" "sa_base env w" "k \<noteq> PeerMD5" "me_busy k s w"
    "sw_method w = Some m" "me_kind m = k" "me_state m = s" "me_running m" "me_events m = []"
    "ea_state w = StProposeMethod \<longrightarrow> \<not> me_isDone m"
    by (rule me_preE [OF p])
  from m(2) have "sa_base env (set_me_state s' w)" by simp
  from me_rests [OF m(4,2,3) _ this, where js = "[]" and evs = "[]" and m' = "m\<lparr>me_state := s'\<rparr>"]
  show ?thesis using m assms(2) by (auto simp: set_me_state_def upd_method_def)
qed

text \<open>The random numbers come in blocks of the size of a digest.\<close>

definition random_ok :: "eap_env \<Rightarrow> bool" where
  "random_ok env \<longleftrightarrow> (\<forall>n c. en_random env n = Some c \<longrightarrow> length c = 16)"

lemma md5_print_ok: "length c = 16 \<Longrightarrow> md5_print c name m \<noteq> EThrow"
  by (simp add: md5_print_def type_print_def EAP_MD5_def EapType_def)

lemma set_me_state_value:
  "set_me_state s w = upd_method (\<lambda>m. m\<lparr>me_state := s, me_value := me_value m\<rparr>) w"
  "upd_method (\<lambda>m. m\<lparr>me_value := c\<rparr>) (set_me_state s w)
     = upd_method (\<lambda>m. m\<lparr>me_state := s, me_value := c\<rparr>) w"
  by (simp_all add: set_me_state_def upd_method_def option.map_comp comp_def)

definition me_keeps :: "eap_env \<Rightarrow> method_kind \<Rightarrow> (me_st, me_ev, me_ac) table_entry \<Rightarrow> bool" where
  "me_keeps env k e \<longleftrightarrow>
     (\<forall>ev w w' n. (event e = Some ev \<or> isWildcardEvent e) \<longrightarrow> me_pre env k (prevState e) ev w \<longrightarrow>
        me_action env (action e) (set_me_state (nextState e) w) = (w', n) \<longrightarrow> me_post env k n w')"

lemma me_keeps_simps:
  "me_keeps env k (state_entry s ev s' a) \<longleftrightarrow>
     (\<forall>w w' n. me_pre env k s ev w \<longrightarrow> me_action env a (set_me_state s' w) = (w', n)
        \<longrightarrow> me_post env k n w')"
  "me_keeps env k (wildcard_entry s s' a) \<longleftrightarrow>
     (\<forall>ev w w' n. me_pre env k s ev w \<longrightarrow> me_action env a (set_me_state s' w) = (w', n)
        \<longrightarrow> me_post env k n w')"
  by (auto simp: me_keeps_def state_entry_def wildcard_entry_def)

lemma me_ac_pickup:
  assumes "me_pre env AuthIdentity MInitialize MvIntegrityCheck w"
    and "me_action env MaCheckPickUpInit (set_me_state MCheckPickUpInit w) = (w', n)"
  shows "me_post env AuthIdentity n w'"
  using assms
  by (auto simp: me_post_def me_pre_def me_busy_def ma_CheckPickUpInit_def IsEapBackend_def
      sa_base_def set_me_state_def upd_method_def me_state_of_def me_promise_def split: option.splits)

lemma me_ac_no_pickup:
  "me_pre env k MCheckPickUpInit MvPickUpInit w \<Longrightarrow> me_post env k n w'"
  by (simp add: me_pre_def me_promise_def)

lemma me_ac_requests:
  "me_pre env k s ev w \<Longrightarrow> me_action env MaIdRequest (set_me_state MWaitResponse w) = (w', n) \<Longrightarrow>
     me_post env k n w'"
  "me_pre env k s ev w \<Longrightarrow> me_action env MaNoRequest (set_me_state MWaitResponse w) = (w', n) \<Longrightarrow>
     me_post env k n w'"
  using me_requests [OF _ _ set_me_state_value(1), of env k s ev w]
  by (auto simp: me_post_def ma_IdRequest_def ma_NoRequest_def type_print_def EAP_IDENTITY_def
      EapType_def)

lemma me_ac_MdRequest:
  assumes p: "me_pre env k s ev w" and r: "random_ok env"
    and a: "me_action env MaMdRequest (set_me_state MWaitResponse w) = (w', n)"
  shows "me_post env k n w'"
proof -
  obtain m where m: "sw_method w = Some m" by (rule me_preE [OF p])
  then have m': "sw_method (set_me_state MWaitResponse w) = Some (m\<lparr>me_state := MWaitResponse\<rparr>)"
    by (simp add: set_me_state_def upd_method_def)
  show ?thesis
  proof (cases "en_random env (me_id m)")
    case None
    then show ?thesis using a m' me_pauses [OF p, of MWaitResponse]
      by (simp add: me_post_def ma_MdRequest_def)
  next
    case (Some c)
    with r have "md5_print c (en_myName env) (block_new (5 + length c + 1 + length (en_myName env))) \<noteq> EThrow"
      by (intro md5_print_ok) (simp add: random_ok_def)
    from me_requests [OF p disjI1 [OF this] set_me_state_value(2)] show ?thesis
      using a m' Some by (auto simp: me_post_def ma_MdRequest_def)
  qed
qed

lemma me_ac_finish:
  "me_pre env k MProcessResponse ev w \<Longrightarrow> s \<in> {MSuccess, MFailure} \<Longrightarrow>
     a \<in> {MaIdSuccess, MaIdFailure, MaNoSuccess, MaNoFailure, MaMdSuccess, MaMdFailure} \<Longrightarrow>
     me_action env a (set_me_state s w) = (w', n) \<Longrightarrow> me_post env k n w'"
  using me_finishes [of env k ev w EvSgValidResp s] me_finishes [of env k ev w EvSgInvalidResp s]
  by (auto simp: me_post_def ma_NoSuccess_def ma_NoFailure_def)

lemma me_ac_none:
  "me_pre env k s ev w \<Longrightarrow> s' \<in> {MSuccess, MFailure} \<Longrightarrow>
     me_action env MaNone (set_me_state s' w) = (w', n) \<Longrightarrow> me_post env k n w'"
  using me_pauses [of env k s ev w s'] by (auto simp: me_post_def)

definition me_stays :: "eap_env \<Rightarrow> eap_method \<Rightarrow> eap_auth \<Rightarrow> eap_auth \<Rightarrow> bool" where
  "me_stays env m w v \<longleftrightarrow>
     sw_fault v = None \<and> sa_base env v \<and> ea_state v = ea_state w \<and> sw_jobs v = sw_jobs w \<and>
     sw_events v = sw_events w \<and> sw_rxMessage v \<noteq> None \<and>
     (\<exists>m'. sw_method v = Some m' \<and> me_kind m' = me_kind m \<and> me_state m' = MProcessResponse \<and>
        me_running m' = me_running m \<and> me_events m' = me_events m \<and> me_isDone m' = me_isDone m)"

lemma me_checking:
  assumes p: "me_pre env k MWaitResponse ev w"
  obtains m r where "sw_fault w = None" "sa_base env w"
    "sw_method w = Some m" "sw_rxMessage w = Some r"
    "\<And>v ev'. me_stays env m w v \<Longrightarrow> me_promise k MProcessResponse ev' \<Longrightarrow> me_post env k (Some ev') v"
proof -
  obtain m where m: "sw_fault w = None" "sa_base env w" "k \<noteq> PeerMD5" "me_busy k MWaitResponse w"
    "sw_method w = Some m" "me_kind m = k" "me_running m" "me_events m = []"
    by (rule me_preE [OF p])
  from m(4) obtain r where r: "sw_rxMessage w = Some r" by (auto simp: me_busy_def)
  have "me_post env k (Some ev') v"
    if "me_stays env m w v" "me_promise k MProcessResponse ev'" for v ev'
    using that m by (auto simp: me_stays_def me_post_def me_pre_def me_busy_def me_state_of_def)
  then show ?thesis using that m r by blast
qed

lemmas me_check_simps = with_rx_def ma_failed_trial_def upd_method_def SetRxMessage_def
  set_me_state_def me_promise_def sa_base_def me_stays_def

lemma me_stops: "me_post env k None (v\<lparr>sw_fault := Some Undefined\<rparr>)"
  by (simp add: me_post_def sa_inv_def)

lemma me_ac_IdCheck:
  assumes p: "me_pre env AuthIdentity MWaitResponse ev w"
    and a: "me_action env MaIdCheck (set_me_state MProcessResponse w) = (w', n)"
  shows "me_post env AuthIdentity n w'"
proof (rule me_checking [OF p])
  fix m r
  assume m: "sw_fault w = None" "sa_base env w" "sw_method w = Some m" "sw_rxMessage w = Some r"
    and go: "\<And>v ev'. me_stays env m w v \<Longrightarrow> me_promise AuthIdentity MProcessResponse ev'
      \<Longrightarrow> me_post env AuthIdentity (Some ev') v"
  show ?thesis
    by (cases "text_parse (en_signed env) r"; use a m in \<open>auto simp: ma_IdCheck_def me_check_simps
        Let_def sw_fail_def me_stops intro!: go split: if_splits\<close>)
qed

lemma me_ac_NoCheck:
  assumes p: "me_pre env AuthNotification MWaitResponse ev w"
    and a: "me_action env MaNoCheck (set_me_state MProcessResponse w) = (w', n)"
  shows "me_post env AuthNotification n w'"
proof (rule me_checking [OF p])
  fix m r
  assume m: "sw_fault w = None" "sa_base env w" "sw_method w = Some m" "sw_rxMessage w = Some r"
    and go: "\<And>v ev'. me_stays env m w v \<Longrightarrow> me_promise AuthNotification MProcessResponse ev'
      \<Longrightarrow> me_post env AuthNotification (Some ev') v"
  show ?thesis
    by (cases "text_parse (en_signed env) r"; use a m in \<open>auto simp: ma_NoCheck_def me_check_simps
        sw_fail_def me_stops intro!: go\<close>)
qed

lemma me_ac_MdCheck:
  assumes p: "me_pre env AuthMD5 MWaitResponse ev w"
    and a: "me_action env MaMdCheck (set_me_state MProcessResponse w) = (w', n)"
  shows "me_post env AuthMD5 n w'"
proof (rule me_checking [OF p])
  fix m r
  assume m: "sw_fault w = None" "sa_base env w" "sw_method w = Some m" "sw_rxMessage w = Some r"
    and go: "\<And>v ev'. me_stays env m w v \<Longrightarrow> me_promise AuthMD5 MProcessResponse ev'
      \<Longrightarrow> me_post env AuthMD5 (Some ev') v"
  show ?thesis
    by (cases "md5_parse r"; use a m in \<open>auto simp: ma_MdCheck_def me_check_simps Let_def
        sw_fail_def me_stops intro!: go split: if_splits\<close>)
qed

lemma me_entry:
  assumes "random_ok env" and "k \<noteq> PeerMD5" and "e \<in> set (entries (method_table k))"
  shows "me_keeps env k e"
proof -
  note acs = me_ac_pickup me_ac_no_pickup me_ac_requests me_ac_MdRequest [OF _ assms(1)]
    me_ac_finish me_ac_none me_ac_IdCheck me_ac_NoCheck me_ac_MdCheck
  have "list_all (me_keeps env AuthIdentity) (concat (map cmd_entries identity_cmds))"
    "list_all (me_keeps env AuthNotification) (concat (map cmd_entries notification_cmds))"
    "list_all (me_keeps env AuthMD5) (concat (map cmd_entries md5_cmds))"
    unfolding identity_cmds_def notification_cmds_def md5_cmds_def
    by (simp_all del: me_action.simps add: me_keeps_simps)
      (intro conjI allI impI; (erule acs; (assumption | simp del: me_action.simps)))+
  then have "list_all (me_keeps env k) (entries (method_table k))"
    using assms(2) by (cases k) (simp_all add: method_entries)
  with assms(3) show ?thesis by (simp add: list_all_iff)
qed

lemma method_ignored:
  assumes "me_pre env k s ev w" and "s \<in> {MInitialize, MWaitResponse, MSuccess, MFailure}"
  shows "sa_inv env None w"
proof -
  obtain m where m: "sw_fault w = None" "sa_base env w" "k \<noteq> PeerMD5" "me_busy k s w"
    "sw_method w = Some m" "me_kind m = k" "me_state m = s" "me_running m" "me_events m = []"
    "ea_state w = StProposeMethod \<longrightarrow> \<not> me_isDone m"
    by (rule me_preE [OF assms(1)])
  from me_rests [OF m(4,2,3,1,2), where js = "[]" and evs = "[]" and m' = m] show ?thesis
    using m assms(2) by simp
qed

text \<open>A method that is in the middle of its turn finds an entry.\<close>

lemma me_promise_found:
  assumes "me_promise k s ev" and "k \<noteq> PeerMD5" and "s \<in> {MCheckPickUpInit, MProcessResponse}"
  shows "FindStateTableEntry (method_table k) s ev \<noteq> None"
proof -
  have "list_all (\<lambda>(k, s, ev). FindStateTableEntry (method_table k) s ev \<noteq> None)
    [(AuthIdentity, MCheckPickUpInit, MvNoPickUpInit), (AuthIdentity, MProcessResponse, MvSuccess),
     (AuthIdentity, MProcessResponse, MvFailure_MoreTrial),
     (AuthIdentity, MProcessResponse, MvFailure_NoMoreTrial),
     (AuthNotification, MProcessResponse, MvSuccess), (AuthNotification, MProcessResponse, MvFailure),
     (AuthMD5, MProcessResponse, MvSuccess), (AuthMD5, MProcessResponse, MvFailure)]"
    by code_simp
  then show ?thesis using assms
    by (cases k) (auto simp: me_promise_def split: if_splits)
qed

definition sm_inv :: "eap_env \<Rightarrow> me_ev option \<Rightarrow> eap_auth \<Rightarrow> bool" where
  "sm_inv env n w \<longleftrightarrow>
     (case n of None \<Rightarrow> sa_inv env None w | Some ev \<Rightarrow> \<exists>k s. me_pre env k s ev w)"

lemma sm_step:
  assumes r: "random_ok env" and i: "sm_inv env (Some ev) w" and st: "method_step env ev w = (w', n)"
  shows "sm_inv env n w'"
proof -
  from i obtain k s where p: "me_pre env k s ev w" by (auto simp: sm_inv_def)
  obtain m where m: "k \<noteq> PeerMD5" "sw_method w = Some m" "me_kind m = k" "me_state m = s" "me_running m"
    by (rule me_preE [OF p])
  show ?thesis
  proof (cases "FindStateTableEntry (method_table k) s ev")
    case None
    then have "s \<in> {MInitialize, MWaitResponse, MSuccess, MFailure}"
      using p me_promise_found [of k s ev] by (cases s) (auto simp: me_pre_def)
    moreover from None st m have "w' = w" "n = None"
      by (simp_all add: method_step_def chain_step_def sm_dispatch_def me_running_of_def me_state_of_def)
    ultimately show ?thesis using method_ignored [OF p] by (simp add: sm_inv_def)
  next
    case (Some e)
    then have "sm_dispatch (method_table k) True s ev = Fire (nextState e) (action e)"
      by (simp add: sm_dispatch_def)
    from dispatch_mem [OF wf_method_table this] obtain e' where e:
      "e' \<in> set (entries (method_table k))" "prevState e' = s"
      "event e' = Some ev \<or> isWildcardEvent e'" "nextState e' = nextState e" "action e' = action e"
      by blast
    have "me_action env (action e') (set_me_state (nextState e') w) = (w', n)"
      using st Some m
      by (simp add: method_step_def chain_step_def sm_dispatch_def me_running_of_def me_state_of_def e)
    then have "me_post env k n w'"
      using me_entry [OF r m(1) e(1)] p e(2,3) by (auto simp: me_keeps_def)
    then show ?thesis by (auto simp: me_post_def sm_inv_def split: option.splits)
  qed
qed

interpretation sm_chain: event_chain "method_step env" "\<lambda>n w. random_ok env \<and> sm_inv env n w" me_rank
  by unfold_locales (auto dest: sm_step method_step_rank)

lemma sm_event:
  "random_ok env \<Longrightarrow> me_pre env k s ev w \<Longrightarrow> sa_inv env None (method_event env ev w)"
  using sm_chain.chain_inv [of env ev w, OF _ method_event_returns]
  by (auto simp: sm_inv_def)

section \<open>Operations\<close>

lemma filter_switch_Cons:
  "filter (\<lambda>j. j \<noteq> JSwitch) jobs = [] \<Longrightarrow> jobs = j # js \<Longrightarrow> j = JSwitch \<and> filter (\<lambda>j. j \<noteq> JSwitch) js = []"
  by (auto split: if_splits)

definition served_event :: "eap_auth \<Rightarrow> ea_ev" where
  "served_event w = (case sw_events w of [] \<Rightarrow> EvUCT | ev # _ \<Rightarrow> ev)"

lemma serve_switch:
  assumes i: "sa_inv env None w" and f: "sw_fault w = None" and j: "sw_jobs w = JSwitch # js"
  shows "sa_inv env (Some (served_event w)) (w\<lparr>sw_jobs := js, sw_events := tl (sw_events w)\<rparr>)"
proof -
  let ?w = "w\<lparr>sw_jobs := js, sw_events := tl (sw_events w)\<rparr>"
  from i f have c: "sa_core env (sw_events w) w" and rest: "resting (ea_state w)"
    by (simp_all add: sa_inv_def sa_good_def sa_ctl_def)
  have "sa_core env (served_event w # sw_events ?w) ?w"
    using c j
    by (cases "sw_events w")
      (auto simp: sa_core_def served_event_def quiet_def waiting_def events_ok_def
        split: option.splits if_splits)
  moreover have "sa_promise (served_event w) ?w"
    using rest c by (cases "sw_events w"; cases "ea_state w")
      (auto simp: sa_promise_def served_event_def resting_def sa_core_def events_ok_def)
  ultimately show ?thesis using f by (simp add: sa_inv_def sa_good_def sa_ctl_def)
qed

lemma serve_method:
  assumes i: "sa_inv env None w" and f: "sw_fault w = None" and j: "sw_jobs w = JMethod i # js"
  obtains m where "sw_method w = Some m" "me_events m = [MvIntegrityCheck]" "i = me_id m"
    "awaits (ea_state w)" "ea_state w = StProposeMethod \<longrightarrow> me_state m = MInitialize"
    "me_pre env (me_kind m) (me_state m) MvIntegrityCheck
       ((upd_method (\<lambda>m. m\<lparr>me_events := tl (me_events m)\<rparr>) w)\<lparr>sw_jobs := js\<rparr>)"
proof -
  from i f have c: "sa_core env (sw_events w) w"
    by (simp_all add: sa_inv_def sa_good_def)
  then have aw: "awaits (ea_state w)" using j by (auto simp: sa_core_def quiet_def split: if_splits)
  with c obtain m where m: "sw_method w = Some m"
    and wt: "waiting (ea_state w) (sw_events w) (sw_jobs w) m (sw_rxMessage w) (sw_txMessage w)"
    by (auto simp: sa_core_def split: option.splits)
  from wt j have me: "me_events m = [MvIntegrityCheck]" "i = me_id m"
    "filter (\<lambda>j. j \<noteq> JSwitch) js = []" "replies (sw_events w) = 0" "me_rest m"
    "ea_state w = StProposeMethod \<longrightarrow> me_state m = MInitialize \<and> \<not> me_isDone m"
    "ea_state w = StIntegrityCheck \<longrightarrow> sw_rxMessage w \<noteq> None"
    by (auto simp: waiting_def split: if_splits)
  then have "me_pre env (me_kind m) (me_state m) MvIntegrityCheck
      ((upd_method (\<lambda>m. m\<lparr>me_events := tl (me_events m)\<rparr>) w)\<lparr>sw_jobs := js\<rparr>)"
    using f c m aw
    by (auto simp: me_pre_def me_busy_def sa_base_def sa_core_def upd_method_def me_rest_def
        me_promise_def awaits_def)
  with that m me aw show ?thesis by blast
qed

text \<open>What the service of a job comes to.\<close>

lemma ea_Serve_cases:
  assumes i: "sa_inv env None w"
  obtains (nothing) "ea_Serve env w = w"
  | (switch) js where "sw_fault w = None" "sw_jobs w = JSwitch # js"
      "ea_Serve env w
         = ea_Event env (served_event w) (w\<lparr>sw_jobs := js, sw_events := tl (sw_events w)\<rparr>)"
  | (meth) i js where "sw_fault w = None" "sw_jobs w = JMethod i # js"
      "ea_Serve env w = method_event env MvIntegrityCheck
         ((upd_method (\<lambda>m. m\<lparr>me_events := tl (me_events m)\<rparr>) w)\<lparr>sw_jobs := js\<rparr>)"
proof (cases "sw_fault w = None")
  case f: True
  show ?thesis
  proof (cases "sw_jobs w")
    case Nil
    then have "ea_Serve env w = w" using f by (simp add: ea_Serve_def mux_pop_def)
    then show ?thesis by (rule nothing)
  next
    case (Cons j js)
    show ?thesis
    proof (cases j)
      case JSwitch
      then show ?thesis using Cons f
        by (intro switch [of js]) (simp_all add: ea_Serve_def mux_pop_def served_event_def)
    next
      case (JMethod k)
      from serve_method [OF i f] Cons JMethod obtain m where
        m: "sw_method w = Some m" "me_events m = [MvIntegrityCheck]" "k = me_id m" by metis
      with Cons JMethod f show ?thesis
        by (intro meth [of k js]) (simp_all add: ea_Serve_def mux_pop_def upd_method_def)
    qed
  qed
qed (rule nothing, simp add: ea_Serve_def)

lemma sa_Serve:
  assumes "random_ok env" and i: "sa_inv env None w"
  shows "sa_inv env None (ea_Serve env w)"
  using i
proof (cases rule: ea_Serve_cases)
  case (switch js)
  then show ?thesis using sa_Event [OF serve_switch [OF i]] by simp
next
  case (meth k js)
  show ?thesis
    by (rule serve_method [OF i meth(1,2)]) (simp add: meth(3) sm_event [OF assms(1)])
qed (use i in simp)

lemma sa_Receive: "sa_inv env None w \<Longrightarrow> sa_inv env None (ea_Receive m w)"
  by (auto simp: sa_defs ea_Receive_def sw_Notify_def waiting_def split: option.splits if_splits)

lemma sa_Timeout:
  assumes "sa_inv env None w"
  shows "sa_inv env None (sw_Timeout ty w)"
proof (cases "sw_timers w ty")
  case None
  then show ?thesis using assms by (simp add: sw_Timeout_def)
next
  case (Some p)
  obtain ev n where p: "p = (ev, n)" by fastforce
  have "sw_fault w \<noteq> Some Undefined \<Longrightarrow> ev = EvTo"
    using assms Some p by (auto simp: sa_defs timers_ok_def)
  then show ?thesis using assms Some p
    by (auto simp: sa_defs sw_Timeout_def sw_Notify_def waiting_def split: option.splits if_splits)
qed

text \<open>The operations that do not come from an AAA client.\<close>

fun local_op :: "ea_op \<Rightarrow> bool" where
  "local_op (OpReceive m) = True"
| "local_op OpTimeout = True"
| "local_op OpServe = True"
| "local_op x = False"

lemma sa_exec: "random_ok env \<Longrightarrow> local_op x \<Longrightarrow> sa_inv env None w \<Longrightarrow> sa_inv env None (ea_exec env x w)"
  by (cases x) (simp_all add: sa_Serve sa_Receive sa_Timeout)

text \<open>A new session with a policy, and its start.\<close>

definition session_of :: "ea_class \<Rightarrow> ea_mstate \<Rightarrow> policy option \<Rightarrow> eap_auth" where
  "session_of c ms p = upd_policy (SetInitialPolicyElement p) (eap_auth_new c ms)"

lemma session_of_simps [simp]:
  "sw_fault (session_of c ms p) = None" "ea_class (session_of c ms p) = c"
  "sw_method (session_of c ms p) = None" "sw_jobs (session_of c ms p) = []"
  "sw_events (session_of c ms p) = []" "sw_timers (session_of c ms p) = Map.empty"
  "initialPolicyElement (sw_policy (session_of c ms p)) = p" "sw_rxQueue (session_of c ms p) = []"
  "sw_out (session_of c ms p) = []" "sw_rxMessage (session_of c ms p) = None"
  by (simp_all add: session_of_def eap_auth_new_def upd_policy_def SetInitialPolicyElement_def)

lemma sa_Start: "opt_covered env p \<Longrightarrow> sa_inv env None (ea_Start (session_of Standalone ms p))"
  by (simp add: sa_defs ea_Start_def Let_def upd_policy_def ea_start_machine_def sw_Notify_def
      DeleteMethodStateMachine_def timers_ok_def events_ok_def quiet_def awaits_def has_method_def)

lemma sa_run:
  "random_ok env \<Longrightarrow> list_all local_op ops \<Longrightarrow> sa_inv env None w \<Longrightarrow> sa_inv env None (ea_run env ops w)"
  unfolding ea_run_def by (induction ops arbitrary: w) (auto intro: sa_exec)

end
