(* ===== verification/Eap_Secure.thy ===== *)
theory Eap_Secure
  imports Eap_Standalone_Run
begin

text \<open>
  What the success of a standalone authenticator means: if every path of its policy to
  success passes MD5-Challenge, then the peer has answered a challenge that was sent, with
  the digest of the identifier, the shared secret and the challenge.
\<close>

section \<open>Challenges and answers\<close>

text \<open>A policy that reaches success only by way of a successful MD5-Challenge.\<close>

fun needs_md5 :: "policy \<Rightarrow> bool" where
  "needs_md5 FinalSuccess = False"
| "needs_md5 FinalFailure = True"
| "needs_md5 (Continued t s f) = ((t = EAP_MD5 \<or> needs_md5 s) \<and> needs_md5 f)"

text \<open>The method for MD5-Challenge is registered for its type, and for no other.\<close>

definition md5_registered :: "eap_env \<Rightarrow> bool" where
  "md5_registered env \<longleftrightarrow>
     method_Find EAP_MD5 RoleAuthenticator (en_table env) = Some AuthMD5 \<and>
     list_all (\<lambda>(t, r, k). k = AuthMD5 \<longrightarrow> t = EAP_MD5) (en_table env)"

fun md5_payload :: "u8 list \<Rightarrow> u8 list \<Rightarrow> bool" where
  "md5_payload c (t # n # rest) \<longleftrightarrow>
     t = 4 \<and> unat n = length c \<and> length c \<le> length rest \<and> take (length c) rest = c"
| "md5_payload c bs \<longleftrightarrow> False"

text \<open>A packet of the MD5-Challenge type, by its code, its identifier and its value.\<close>

fun md5_packet :: "u8 \<Rightarrow> u8 \<Rightarrow> u8 list \<Rightarrow> u8 list \<Rightarrow> bool" where
  "md5_packet code i c (c' # i' # a # b # bs) \<longleftrightarrow> c' = code \<and> i' = i \<and> md5_payload c bs"
| "md5_packet code i c bs \<longleftrightarrow> False"

definition matched :: "eap_env \<Rightarrow> mblock set \<Rightarrow> eap_out list \<Rightarrow> bool" where
  "matched env R out \<longleftrightarrow>
     (\<exists>m i c b. m \<in> R \<and> OSend (Some b) \<in> set out \<and>
        md5_packet EAP_Request i c (mb_mem b) \<and>
        md5_packet EAP_Response i (md5_response env i c) (mb_mem m))"

lemma matched_append: "matched env R out \<Longrightarrow> matched env R (out @ xs)"
  by (auto simp: matched_def)

lemma method_Find_mem: "method_Find t r es = Some k \<Longrightarrow> (t, r, k) \<in> set es"
  by (induction t r es rule: method_Find.induct) (auto split: if_splits)

lemma md5_registered_iff:
  "md5_registered env \<Longrightarrow> method_Find t RoleAuthenticator (en_table env) = Some k \<Longrightarrow>
     k = AuthMD5 \<longleftrightarrow> t = EAP_MD5"
  by (cases "t = EAP_MD5")
    (auto simp: md5_registered_def list_all_iff dest: method_Find_mem)

section \<open>The invariant\<close>

definition linked :: "ea_st \<Rightarrow> bool" where
  "linked s \<longleftrightarrow> s \<in> {StProposeMethod, StMethodRequest, StSendRequest, StIdle, StReceived,
     StIntegrityCheck, StMethodResponse, StRetransmit, StDiscard, StTimeoutFailure}"

text \<open>A method that has not finished is the one for the current element of the policy.\<close>

definition meth_link :: "eap_env \<Rightarrow> eap_policy \<Rightarrow> eap_type \<Rightarrow> eap_method \<Rightarrow> bool" where
  "meth_link env pol cm m \<longleftrightarrow>
     me_state m = MSuccess \<or> me_state m = MFailure \<or>
     CurrentMethod pol = Some cm \<and>
     method_Find cm RoleAuthenticator (en_table env) = Some (me_kind m)"

definition se_link :: "eap_env \<Rightarrow> ea_st \<Rightarrow> eap_policy \<Rightarrow> eap_type \<Rightarrow> eap_method option \<Rightarrow> bool" where
  "se_link env s pol cm meth \<longleftrightarrow>
     linked s \<longrightarrow> (case meth of None \<Rightarrow> True | Some m \<Rightarrow> meth_link env pol cm m)"

text \<open>The challenge of a method that waits for a response is in the message to transmit.\<close>

definition chal_tx :: "u8 option \<Rightarrow> u8 list \<Rightarrow> mblock option \<Rightarrow> bool" where
  "chal_tx i c tx \<longleftrightarrow>
     (case tx of None \<Rightarrow> False
      | Some b \<Rightarrow> (case i of None \<Rightarrow> md5_payload c (drop 4 (mb_mem b)) \<and> 4 \<le> length (mb_mem b)
                     | Some j \<Rightarrow> md5_packet EAP_Request j c (mb_mem b)))"

definition chal_of :: "u8 option \<Rightarrow> eap_method \<Rightarrow> mblock option \<Rightarrow> bool" where
  "chal_of i m tx \<longleftrightarrow>
     me_state m \<noteq> MInitialize \<and> (me_state m = MWaitResponse \<longrightarrow> chal_tx i (me_value m) tx)"

definition se_chal ::
    "ea_st \<Rightarrow> ea_ev list \<Rightarrow> u8 \<Rightarrow> mblock option \<Rightarrow> eap_out list \<Rightarrow> eap_method option \<Rightarrow> bool" where
  "se_chal s evs i tx out meth \<longleftrightarrow>
     (case meth of
        None \<Rightarrow> True
      | Some m \<Rightarrow>
          me_kind m = AuthMD5 \<longrightarrow>
          (s = StProposeMethod \<and> EvSgValidResp \<in> set evs \<longrightarrow> chal_of None m tx) \<and>
          (s = StMethodRequest \<longrightarrow> chal_of (Some i) m tx) \<and>
          (linked s \<and> s \<noteq> StProposeMethod \<and> s \<noteq> StMethodRequest \<longrightarrow>
             chal_of (Some i) m tx \<and> (me_state m = MWaitResponse \<longrightarrow> OSend tx \<in> set out)))"

lemma me_updates [simp]:
  "chal_of i (m\<lparr>me_events := evs\<rparr>) tx = chal_of i m tx"
  "meth_link env pol cm (m\<lparr>me_events := evs\<rparr>) = meth_link env pol cm m"
  by (simp_all add: chal_of_def meth_link_def)

text \<open>The message that the method is to check is a response to the current request.\<close>

definition fresh_rx :: "eap_env \<Rightarrow> mblock set \<Rightarrow> u8 \<Rightarrow> eap_type \<Rightarrow> mblock option \<Rightarrow> bool" where
  "fresh_rx env R i cm rx \<longleftrightarrow>
     (\<exists>m \<in> R. \<exists>h m1 r. header_parse m = EOk (h, m1) \<and> eh_code h = EAP_Response \<and>
        eh_identifier h = i \<and> type_parse (en_signed env) m1 = EOk (cm, r) \<and> rx = Some r)"

definition se_fresh ::
    "eap_env \<Rightarrow> mblock set \<Rightarrow> ea_st \<Rightarrow> u8 \<Rightarrow> eap_type \<Rightarrow> mblock option \<Rightarrow> eap_method option \<Rightarrow> bool" where
  "se_fresh env R s i cm rx meth \<longleftrightarrow>
     (case meth of
        None \<Rightarrow> True
      | Some m \<Rightarrow> s = StIntegrityCheck \<and> me_events m \<noteq> [] \<longrightarrow> fresh_rx env R i cm rx)"

definition se_pol :: "eap_env \<Rightarrow> mblock set \<Rightarrow> eap_policy \<Rightarrow> eap_out list \<Rightarrow> bool" where
  "se_pol env R pol out \<longleftrightarrow>
     matched env R out \<or> (case currentPolicyElement pol of None \<Rightarrow> True | Some p \<Rightarrow> needs_md5 p)"

definition se_done :: "eap_env \<Rightarrow> mblock set \<Rightarrow> eap_out list \<Rightarrow> bool" where
  "se_done env R out \<longleftrightarrow> (\<exists>x. OSuccess x \<in> set out) \<longrightarrow> matched env R out"

definition se_promise :: "eap_env \<Rightarrow> mblock set \<Rightarrow> ea_ev option \<Rightarrow> eap_auth \<Rightarrow> bool" where
  "se_promise env R n w \<longleftrightarrow>
     (n = Some EvSgPolicySat \<longrightarrow> IsSatisfied (sw_policy w)) \<and>
     (n = Some EvRxMethodResp \<longrightarrow>
        fresh_rx env R (sw_currentIdentifier w) (sw_currentMethod w) (sw_rxMessage w))"

definition se_core :: "eap_env \<Rightarrow> mblock set \<Rightarrow> ea_ev list \<Rightarrow> eap_auth \<Rightarrow> bool" where
  "se_core env R evs w \<longleftrightarrow>
     set (sw_rxQueue w) \<subseteq> R \<and> se_pol env R (sw_policy w) (sw_out w) \<and> se_done env R (sw_out w) \<and>
     se_link env (ea_state w) (sw_policy w) (sw_currentMethod w) (sw_method w) \<and>
     se_chal (ea_state w) evs (sw_currentIdentifier w) (sw_txMessage w) (sw_out w) (sw_method w) \<and>
     se_fresh env R (ea_state w) (sw_currentIdentifier w) (sw_currentMethod w) (sw_rxMessage w)
       (sw_method w)"

definition se_inv :: "eap_env \<Rightarrow> mblock set \<Rightarrow> ea_ev option \<Rightarrow> eap_auth \<Rightarrow> bool" where
  "se_inv env R n w \<longleftrightarrow>
     sw_fault w = None \<and> se_core env R (opt_list n @ sw_events w) w \<and> se_promise env R n w \<or>
     n = None \<and> sw_fault w \<noteq> None \<and> se_done env R (sw_out w)"

section \<open>The entries of the table\<close>

definition sp :: "eap_env \<Rightarrow> mblock set \<Rightarrow> ea_ev \<Rightarrow> ea_st \<Rightarrow> eap_auth \<Rightarrow> bool" where
  "sp env R ev s w \<longleftrightarrow>
     sa_pre env ev s w \<and> se_core env R (ev # sw_events w) w \<and> se_promise env R (Some ev) w"

lemma linked_simps [simp]:
  "linked StProposeMethod" "linked StMethodRequest" "linked StSendRequest" "linked StIdle"
  "linked StReceived" "linked StIntegrityCheck" "linked StMethodResponse" "linked StRetransmit"
  "linked StDiscard" "linked StTimeoutFailure" "\<not> linked StSelectAction" "\<not> linked StSuccess"
  "\<not> linked StFailure" "\<not> linked StNak" "\<not> linked StBegin" "\<not> linked StDisabled"
  "\<not> linked StInitialize"
  by (simp_all add: linked_def)

lemma se_out [simp]:
  "se_pol env R pol out \<Longrightarrow> se_pol env R pol (out @ xs)"
  "se_done env R out \<Longrightarrow> \<forall>x. OSuccess x \<notin> set xs \<Longrightarrow> se_done env R (out @ xs)"
  by (auto simp: se_pol_def se_done_def matched_append)

lemmas se_defs = se_inv_def se_core_def se_promise_def sp_def sa_pre_def

text \<open>An action that leaves alone what the invariant speaks of.\<close>

definition se_same :: "eap_auth \<Rightarrow> eap_auth \<Rightarrow> bool" where
  "se_same w w' \<longleftrightarrow>
     sw_fault w' = sw_fault w \<and> sw_policy w' = sw_policy w \<and> sw_method w' = sw_method w \<and>
     sw_currentIdentifier w' = sw_currentIdentifier w \<and> sw_txMessage w' = sw_txMessage w \<and>
     sw_currentMethod w' = sw_currentMethod w \<and> set (sw_rxQueue w') \<subseteq> set (sw_rxQueue w) \<and>
     (\<exists>xs. sw_out w' = sw_out w @ xs \<and> (\<forall>x. OSuccess x \<notin> set xs))"

definition se_moves :: "ea_st \<Rightarrow> ea_st \<Rightarrow> bool" where
  "se_moves s s' \<longleftrightarrow>
     s' \<notin> {StIntegrityCheck, StProposeMethod, StMethodRequest} \<and>
     (linked s' \<longrightarrow> linked s \<and> s \<noteq> StProposeMethod \<and> s \<noteq> StMethodRequest)"

lemma se_move:
  assumes p: "sp env R ev s w" and same: "se_same w w'" and "se_moves s (ea_state w')"
    and "se_promise env R n w'"
  shows "se_inv env R n w'"
proof -
  from same obtain xs where xs: "sw_out w' = sw_out w @ xs" "\<forall>x. OSuccess x \<notin> set xs"
    by (auto simp: se_same_def)
  have "se_core env R (opt_list n @ sw_events w') w'"
    using assms xs
    by (auto simp: se_core_def sp_def sa_pre_def se_same_def se_moves_def se_link_def se_chal_def
        se_fresh_def split: option.splits)
  with assms show ?thesis by (simp add: se_inv_def sp_def sa_pre_def se_same_def)
qed

lemma se_promise_none [simp]:
  "n \<noteq> Some EvSgPolicySat \<Longrightarrow> n \<noteq> Some EvRxMethodResp \<Longrightarrow> se_promise env R n w"
  by (simp add: se_promise_def)

lemma se_same_refl [simp]: "se_same w (w\<lparr>ea_state := s\<rparr>)"
  by (simp add: se_same_def)

lemma se_ac_small:
  "sp env R ev s w \<Longrightarrow> ea_action env a (w\<lparr>ea_state := s'\<rparr>) = (w', n) \<Longrightarrow>
     a \<in> {AcDisable, AcNone} \<Longrightarrow> se_moves s s' \<Longrightarrow> se_inv env R n w'"
  using se_move [of env R ev s w "w\<lparr>ea_state := s'\<rparr>" n] by auto

lemma se_ac_plain:
  "sp env R ev s w \<Longrightarrow> ea_action env a (w\<lparr>ea_state := s'\<rparr>) = (w', n) \<Longrightarrow>
     a \<in> {AcSendFailure, AcDiscard} \<Longrightarrow> se_moves s s' \<Longrightarrow> se_inv env R n w'"
  by (erule se_move [where w' = w']; auto simp: se_same_def ac_SendFailure_def ac_Discard_def
      stop_retransmission_def sw_emit_def sw_CancelTimer_def)

lemma se_ac_Retransmit:
  "sp env R ev s w \<Longrightarrow> ea_action env AcRetransmit (w\<lparr>ea_state := s'\<rparr>) = (w', n) \<Longrightarrow>
     se_moves s s' \<Longrightarrow> se_inv env R n w'"
  by (erule se_move [where w' = w']; auto simp: se_same_def ac_Retransmit_def sw_basic_defs
      split: if_splits)

lemma se_ac_MethodResponse:
  "sp env R ev s w \<Longrightarrow> sw_method w \<noteq> None \<Longrightarrow>
     ea_action env AcMethodResponse (w\<lparr>ea_state := s'\<rparr>) = (w', n) \<Longrightarrow>
     se_moves s s' \<Longrightarrow> se_inv env R n w'"
  by (erule se_move [where w' = w']; auto simp: se_same_def ac_MethodResponse_def split: if_splits)

lemma se_ac_PolicyCheck:
  "sp env R ev s w \<Longrightarrow> ea_action env AcDoPolicyCheck (w\<lparr>ea_state := StSelectAction\<rparr>) = (w', n) \<Longrightarrow>
     se_inv env R n w'"
  by (erule se_move [where w' = w']; auto simp: ac_DoPolicyCheck_def se_moves_def se_promise_def
      Decision_def passthrough_Decision_def auth_Decision_def split: option.splits if_splits)

lemma se_core_unlinked:
  "\<not> linked (ea_state w) \<Longrightarrow>
     se_core env R evs w \<longleftrightarrow>
       set (sw_rxQueue w) \<subseteq> R \<and> se_pol env R (sw_policy w) (sw_out w) \<and> se_done env R (sw_out w)"
  by (cases "ea_state w"; cases "sw_method w")
    (simp_all add: se_core_def se_link_def se_chal_def se_fresh_def)

lemma sp_basic:
  "sp env R ev s w \<Longrightarrow> sw_fault w = None \<and> ea_state w = s \<and> set (sw_rxQueue w) \<subseteq> R \<and>
     se_pol env R (sw_policy w) (sw_out w) \<and> se_done env R (sw_out w)"
  by (simp add: sp_def sa_pre_def se_core_def)

lemma se_ac_Initialize:
  "sp env R ev StDisabled w \<Longrightarrow>
     ea_action env AcInitialize (w\<lparr>ea_state := StInitialize\<rparr>) = (w', n) \<Longrightarrow> se_inv env R n w'"
  by (drule sp_basic) (auto simp: ac_Initialize_def se_inv_def se_core_unlinked)

lemma se_ac_Discard2:
  "sp env R ev s w \<Longrightarrow> sw_rxQueue w \<noteq> [] \<Longrightarrow>
     ea_action env AcDiscard2 (w\<lparr>ea_state := s'\<rparr>) = (w', n) \<Longrightarrow> ea_class w = Standalone \<Longrightarrow>
     se_moves s s' \<Longrightarrow> se_inv env R n w'"
  by (erule se_move [where w' = w']; auto simp: se_same_def ac_Discard2_def with_msg_def
      split: list.splits)

text \<open>Staying in the state that awaits the method's reply.\<close>

lemma se_chal_weaken:
  "se_chal s evs i tx out meth \<Longrightarrow> s \<noteq> StProposeMethod \<Longrightarrow> set out \<subseteq> set out' \<Longrightarrow>
     se_chal s evs' i tx out' meth"
  by (auto simp: se_chal_def split: option.splits)

lemma se_stay:
  assumes p: "sp env R ev StIntegrityCheck w" and same: "se_same w w'"
    and st: "ea_state w' = StIntegrityCheck" "sw_rxMessage w' = sw_rxMessage w"
    and n: "se_promise env R n w'"
  shows "se_inv env R n w'"
proof -
  from same obtain xs where xs: "sw_out w' = sw_out w @ xs" "\<forall>x. OSuccess x \<notin> set xs"
    by (auto simp: se_same_def)
  from p have "se_core env R (ev # sw_events w) w" "ea_state w = StIntegrityCheck" "sw_fault w = None"
    by (simp_all add: sp_def sa_pre_def)
  with same st xs have "se_core env R (opt_list n @ sw_events w') w'" "sw_fault w' = None"
    by (auto simp: se_core_def se_same_def intro: se_chal_weaken)
  with n show ?thesis by (simp add: se_inv_def)
qed

lemma se_ac_stay:
  "sp env R ev StIntegrityCheck w \<Longrightarrow>
     ea_action env AcNone (w\<lparr>ea_state := StIntegrityCheck\<rparr>) = (w', n) \<Longrightarrow> se_inv env R n w'"
  "sp env R EvRxMsg StIntegrityCheck w \<Longrightarrow> sw_rxQueue w \<noteq> [] \<Longrightarrow> ea_class w = Standalone \<Longrightarrow>
     ea_action env AcDiscard2 (w\<lparr>ea_state := StIntegrityCheck\<rparr>) = (w', n) \<Longrightarrow> se_inv env R n w'"
  by (erule se_stay [where w' = w']; auto simp: se_same_def ac_Discard2_def with_msg_def
      split: list.splits)+

text \<open>Success is reported at a leaf of the policy for it.\<close>

lemma se_ac_SendSuccess:
  assumes p: "sp env R EvSgPolicySat StSelectAction w"
    and a: "ea_action env AcSendSuccess (w\<lparr>ea_state := StSuccess\<rparr>) = (w', n)"
  shows "se_inv env R n w'"
proof -
  from p have "IsSatisfied (sw_policy w)" "se_pol env R (sw_policy w) (sw_out w)"
    by (simp_all add: sp_def se_promise_def se_core_def)
  then have "matched env R (sw_out w)"
    by (auto simp: se_pol_def IsSatisfied_def split: option.splits policy.splits)
  then have m: "\<And>xs. matched env R (sw_out w @ xs)" by (rule matched_append)
  from a have "n = None" "ea_state w' = StSuccess" "sw_rxQueue w' = sw_rxQueue w"
    "sw_fault w' = sw_fault w" "\<exists>xs. sw_out w' = sw_out w @ xs"
    by (auto simp: ac_SendSuccess_def stop_retransmission_def make_key_available_def sw_emit_def
        sw_CancelTimer_def)
  then show ?thesis using sp_basic [OF p] m
    by (auto simp: se_inv_def se_core_unlinked se_pol_def se_done_def)
qed

text \<open>A request is composed and sent.\<close>

lemma compose_packet:
  assumes "md5_payload c (drop 4 (mb_mem b))"
  shows "md5_packet EAP_Request i c (mb_mem (compose EAP_Request i b))"
  using assms
  by (simp add: compose_def header_print_def be16_def Let_def)

lemma md5_packet_drop: "md5_packet code i c bs \<Longrightarrow> md5_payload c (drop 4 bs)"
  by (cases "(code, i, c, bs)" rule: md5_packet.cases) auto

lemma chal_tx_compose:
  "chal_tx j c (Some b) \<Longrightarrow> chal_tx (Some i) c (Some (compose EAP_Request i b))"
  by (auto simp: chal_tx_def intro: compose_packet dest: md5_packet_drop split: option.splits)

lemma chal_of_compose:
  "chal_of j m (Some b) \<Longrightarrow> chal_of (Some i) m (Some (compose EAP_Request i b))"
  by (auto simp: chal_of_def intro: chal_tx_compose)

lemma se_ac_BuildRequest:
  assumes p: "sp env R ev s w" and "sw_method w \<noteq> None"
    and s: "s = StProposeMethod \<and> ev = EvSgValidResp \<or> s = StMethodResponse"
    and a: "ea_action env AcBuildRequest (w\<lparr>ea_state := StMethodRequest\<rparr>) = (w', n)"
  shows "se_inv env R n w'"
proof -
  from assms(2) obtain m where m: "sw_method w = Some m" by blast
  show ?thesis
  proof (cases "sw_txMessage w")
    case None
    then show ?thesis using a m p
      by (auto simp: ac_BuildRequest_def Let_def sw_fail_def se_inv_def sp_def se_core_def)
  next
    case (Some b)
    from p m have "se_chal s (ev # sw_events w) (sw_currentIdentifier w) (sw_txMessage w) (sw_out w) (Some m)"
      and l: "meth_link env (sw_policy w) (sw_currentMethod w) m"
      using s by (auto simp: sp_def sa_pre_def se_core_def se_link_def)
    then have "me_kind m = AuthMD5 \<Longrightarrow> \<exists>j. chal_of j m (Some b)"
      using s Some by (auto simp: se_chal_def)
    then have "me_kind m = AuthMD5 \<Longrightarrow> chal_of (Some i) m (Some (compose EAP_Request i b))" for i
      using chal_of_compose by blast
    note c = this
    define i where "i = GetNextIdentifier (sw_currentIdentifier w)"
    have "n = Some EvUCT" "ea_state w' = StMethodRequest" "sw_fault w' = sw_fault w"
      "sw_rxQueue w' = sw_rxQueue w" "sw_out w' = sw_out w" "sw_policy w' = sw_policy w"
      "sw_method w' = Some m" "sw_currentIdentifier w' = i" "sw_currentMethod w' = sw_currentMethod w"
      "sw_txMessage w' = Some (compose EAP_Request i b)"
      using a m Some by (auto simp: ac_BuildRequest_def Let_def SetTxMessage_def i_def)
    then show ?thesis using sp_basic [OF p] l c [of i]
      by (simp add: se_inv_def se_core_def se_link_def se_chal_def se_fresh_def)
  qed
qed

lemma se_ac_SendRequest:
  assumes p: "sp env R ev StMethodRequest w"
    and a: "ea_action env AcSendRequest (w\<lparr>ea_state := StSendRequest\<rparr>) = (w', n)"
  shows "se_inv env R n w'"
proof -
  from a have "n = None" "ea_state w' = StSendRequest" "sw_out w' = sw_out w @ [OSend (sw_txMessage w)]"
    "sw_fault w' = sw_fault w" "sw_rxQueue w' = sw_rxQueue w" "sw_policy w' = sw_policy w"
    "sw_method w' = sw_method w" "sw_currentIdentifier w' = sw_currentIdentifier w"
    "sw_txMessage w' = sw_txMessage w" "sw_currentMethod w' = sw_currentMethod w"
    by (auto simp: ac_SendRequest_def stop_retransmission_def sw_basic_defs Let_def split: if_splits)
  then show ?thesis using p
    by (auto simp: sp_def sa_pre_def se_inv_def se_core_def se_link_def se_chal_def se_fresh_def
        split: option.splits)
qed

text \<open>A step of the policy: success needs the challenge to have been answered.\<close>

lemma se_pol_failure:
  "se_pol env R pol out \<Longrightarrow> se_pol env R (policy_Update PolicyOnFailure pol) out"
  by (auto simp: se_pol_def policy_Update_def split: option.splits policy.splits)

lemma se_pol_success:
  "se_pol env R pol out \<Longrightarrow> CurrentMethod pol = Some t \<Longrightarrow> t \<noteq> EAP_MD5 \<or> matched env R out \<Longrightarrow>
     se_pol env R (policy_Update PolicyOnSuccess pol) out"
  by (auto simp: se_pol_def policy_Update_def CurrentMethod_def split: option.splits policy.splits)

lemma se_ac_ResetMethod:
  assumes p: "sp env R ev s w"
    and a: "ea_action env AcResetMethod (w\<lparr>ea_state := StNak\<rparr>) = (w', n)"
  shows "se_inv env R n w'"
proof (cases "sw_rxMessage w")
  case None
  then show ?thesis using a sp_basic [OF p]
    by (auto simp: ac_ResetMethod_def sw_fail_def se_inv_def)
next
  case (Some m)
  then have "n = Some EvUCT" "ea_state w' = StNak" "sw_rxQueue w' = sw_rxQueue w"
    "sw_fault w' = sw_fault w" "sw_out w' = sw_out w"
    "sw_policy w' = policy_Update PolicyOnFailure (sw_policy w)"
    using a by (auto simp: ac_ResetMethod_def policy_Update_list_Nil SetRxMessage_def)
  then show ?thesis using sp_basic [OF p] se_pol_failure
    by (simp add: se_inv_def se_core_unlinked)
qed

lemma se_ac_ReceiveMsg:
  assumes p: "sp env R EvRxMsg StIdle w" and q: "sw_rxQueue w = m # q" and cls: "ea_class w = Standalone"
    and a: "ea_action env AcReceiveMsg (w\<lparr>ea_state := StReceived\<rparr>) = (w', n)"
  shows "se_inv env R n w'"
proof -
  have r: "ac_ReceiveMsg env (w\<lparr>ea_state := StReceived\<rparr>) = (w', n)"
    "sw_rxQueue (w\<lparr>ea_state := StReceived\<rparr>) = m # q" using a q by simp_all
  have mR: "m \<in> R" using sp_basic [OF p] q by auto
  have mv: "se_moves StIdle StReceived" by (simp add: se_moves_def)
  from r show ?thesis
  proof (cases rule: ac_ReceiveMsg_cases)
    case undefd
    then show ?thesis using sp_basic [OF p] by (simp add: sw_fail_def se_inv_def)
  next
    case mismatch
    then show ?thesis using q
      by (intro se_move [OF p]) (auto simp: se_same_def mv sw_Notify_def SetRxMessage_def)
  next
    case dropped
    then show ?thesis using q
      by (intro se_move [OF p]) (auto simp: se_same_def mv SetRxMessage_def)
  next
    case (accepted h m1 t r)
    then have "se_promise env R n w'" using mR cls
      by (auto simp: se_promise_def fresh_rx_def checks_type_def SetRxMessage_def)
    with accepted q show ?thesis
      by (intro se_move [OF p]) (auto simp: se_same_def mv SetRxMessage_def)
  qed
qed

lemma se_ac_DoIntegrityCheck:
  assumes p: "sp env R EvRxMethodResp StReceived w" and m: "sw_method w = Some m"
    and a: "ea_action env AcDoIntegrityCheck (w\<lparr>ea_state := StIntegrityCheck\<rparr>) = (w', n)"
  shows "se_inv env R n w'"
proof -
  from p m have fr: "fresh_rx env R (sw_currentIdentifier w) (sw_currentMethod w) (sw_rxMessage w)"
    and l: "meth_link env (sw_policy w) (sw_currentMethod w) m"
    and c: "se_chal StReceived (EvRxMethodResp # sw_events w) (sw_currentIdentifier w) (sw_txMessage w)
        (sw_out w) (Some m)"
    by (auto simp: sp_def sa_pre_def se_promise_def se_core_def se_link_def)
  have "n = None" "ea_state w' = StIntegrityCheck" "sw_fault w' = sw_fault w"
    "sw_rxQueue w' = sw_rxQueue w" "sw_out w' = sw_out w" "sw_policy w' = sw_policy w"
    "sw_method w' = Some (m\<lparr>me_events := me_events m @ [MvIntegrityCheck]\<rparr>)"
    "sw_currentIdentifier w' = sw_currentIdentifier w" "sw_currentMethod w' = sw_currentMethod w"
    "sw_txMessage w' = sw_txMessage w" "sw_rxMessage w' = sw_rxMessage w"
    using a m by (auto simp: ac_DoIntegrityCheck_def method_Notify_def upd_method_def)
  then show ?thesis using sp_basic [OF p] l c fr
    by (simp add: se_inv_def se_core_def se_link_def se_chal_def se_fresh_def meth_link_def)
qed

lemma se_ac_ProposeMethod:
  assumes p: "sp env R EvElse StSelectAction w"
    and a: "ea_action env AcProposeMethod (w\<lparr>ea_state := StProposeMethod\<rparr>) = (w', n)"
  shows "se_inv env R n w'"
proof -
  from p have sa: "sa_pre env EvElse StSelectAction w" by (simp add: sp_def)
  obtain t k where k: "CurrentMethod (sw_policy w) = Some t"
    "method_Find t RoleAuthenticator (en_table env) = Some k" "k \<noteq> PeerMD5"
    by (rule sa_proposes [OF sa])
  from sa have "EvSgValidResp \<notin> set (sw_events w)"
    by (auto simp: sa_pre_def sa_core_def replies_def filter_empty_conv is_reply_def split: if_splits)
  moreover from a have f: "ac_ProposeMethod env (w\<lparr>ea_state := StProposeMethod\<rparr>) = (w', n)" by simp
  ultimately show ?thesis
    using ac_ProposeMethod_frame [OF f] ea_action_frame [OF a] k sp_basic [OF p]
    by (auto simp: ctl_frame_def se_inv_def se_core_def se_link_def se_chal_def se_fresh_def
        meth_link_def method_new_def)
qed

lemma sp_facts:
  assumes "sp env R ev s w"
  shows "ea_class w = Standalone" "has_method s \<or> awaits s \<Longrightarrow> \<exists>m. sw_method w = Some m"
    "ev = EvRxMsg \<Longrightarrow> \<exists>m q. sw_rxQueue w = m # q"
  using assms
  by (auto simp: sp_def sa_pre_def sa_core_def neq_Nil_conv [symmetric] split: option.splits if_splits)

lemma se_moves_simps [simp]:
  "se_moves StBegin StDisabled" "se_moves StSelectAction StFailure" "se_moves StIntegrityCheck StDiscard"
  "se_moves StSendRequest StIdle" "se_moves StIdle StRetransmit" "se_moves StReceived StDiscard"
  "se_moves StRetransmit StTimeoutFailure" "se_moves StRetransmit StIdle" "se_moves StDiscard StIdle"
  "se_moves StSuccess StSuccess" "se_moves StFailure StFailure" "se_moves StIntegrityCheck StMethodResponse"
  by (simp_all add: se_moves_def)

definition se_keeps ::
    "eap_env \<Rightarrow> mblock set \<Rightarrow> (ea_st, ea_ev, ea_ac) table_entry \<Rightarrow> bool" where
  "se_keeps env R e \<longleftrightarrow>
     (\<forall>ev w w' n. (event e = Some ev \<or> isWildcardEvent e) \<longrightarrow> sp env R ev (prevState e) w \<longrightarrow>
        ea_action env (action e) (w\<lparr>ea_state := nextState e\<rparr>) = (w', n) \<longrightarrow> se_inv env R n w')"

lemma se_keeps_simps:
  "se_keeps env R (state_entry s ev s' a) \<longleftrightarrow>
     (\<forall>w w' n. sp env R ev s w \<longrightarrow> ea_action env a (w\<lparr>ea_state := s'\<rparr>) = (w', n)
        \<longrightarrow> se_inv env R n w')"
  "se_keeps env R (wildcard_entry s s' a) \<longleftrightarrow>
     (\<forall>ev w w' n. sp env R ev s w \<longrightarrow> ea_action env a (w\<lparr>ea_state := s'\<rparr>) = (w', n)
        \<longrightarrow> se_inv env R n w')"
  by (auto simp: se_keeps_def state_entry_def wildcard_entry_def)

text \<open>The same, with what the first invariant provides.\<close>

lemma se_ac_more:
  "sp env R EvSgValidResp StIntegrityCheck w \<Longrightarrow>
     ea_action env AcMethodResponse (w\<lparr>ea_state := StMethodResponse\<rparr>) = (w', n) \<Longrightarrow> se_inv env R n w'"
  "sp env R EvSgValidResp StProposeMethod w \<Longrightarrow>
     ea_action env AcBuildRequest (w\<lparr>ea_state := StMethodRequest\<rparr>) = (w', n) \<Longrightarrow> se_inv env R n w'"
  "sp env R EvElse StMethodResponse w \<Longrightarrow>
     ea_action env AcBuildRequest (w\<lparr>ea_state := StMethodRequest\<rparr>) = (w', n) \<Longrightarrow> se_inv env R n w'"
  "sp env R EvRxMethodResp StReceived w \<Longrightarrow>
     ea_action env AcDoIntegrityCheck (w\<lparr>ea_state := StIntegrityCheck\<rparr>) = (w', n) \<Longrightarrow> se_inv env R n w'"
  using sp_facts(2) [of env R _ _ w]
  by (force elim: se_ac_MethodResponse se_ac_BuildRequest se_ac_DoIntegrityCheck
      simp del: ea_action.simps)+

lemma se_ac_rx:
  "sp env R EvRxMsg StIdle w \<Longrightarrow>
     ea_action env AcReceiveMsg (w\<lparr>ea_state := StReceived\<rparr>) = (w', n) \<Longrightarrow> se_inv env R n w'"
  "sp env R EvRxMsg StIntegrityCheck w \<Longrightarrow>
     ea_action env AcDiscard2 (w\<lparr>ea_state := StIntegrityCheck\<rparr>) = (w', n) \<Longrightarrow> se_inv env R n w'"
  "sp env R EvRxMsg StSuccess w \<Longrightarrow>
     ea_action env AcDiscard2 (w\<lparr>ea_state := StSuccess\<rparr>) = (w', n) \<Longrightarrow> se_inv env R n w'"
  "sp env R EvRxMsg StFailure w \<Longrightarrow>
     ea_action env AcDiscard2 (w\<lparr>ea_state := StFailure\<rparr>) = (w', n) \<Longrightarrow> se_inv env R n w'"
  using sp_facts(1) [of env R EvRxMsg _ w] sp_facts(3) [of env R EvRxMsg _ w]
  by (force elim: se_ac_ReceiveMsg se_ac_stay(2) se_ac_Discard2 simp del: ea_action.simps)+

text \<open>The entries whose actions leave the invariant's facts alone.\<close>

lemma se_ac_leave:
  "sp env R EvSgRestart StBegin w \<Longrightarrow>
     ea_action env AcDisable (w\<lparr>ea_state := StDisabled\<rparr>) = (w', n) \<Longrightarrow> se_inv env R n w'"
  "sp env R EvUCT StSendRequest w \<Longrightarrow>
     ea_action env AcNone (w\<lparr>ea_state := StIdle\<rparr>) = (w', n) \<Longrightarrow> se_inv env R n w'"
  "sp env R EvSgMaxRetransmission StRetransmit w \<Longrightarrow>
     ea_action env AcNone (w\<lparr>ea_state := StTimeoutFailure\<rparr>) = (w', n) \<Longrightarrow> se_inv env R n w'"
  "sp env R EvElse StRetransmit w \<Longrightarrow>
     ea_action env AcNone (w\<lparr>ea_state := StIdle\<rparr>) = (w', n) \<Longrightarrow> se_inv env R n w'"
  "sp env R EvUCT StDiscard w \<Longrightarrow>
     ea_action env AcNone (w\<lparr>ea_state := StIdle\<rparr>) = (w', n) \<Longrightarrow> se_inv env R n w'"
  "sp env R ev StSuccess w \<Longrightarrow>
     ea_action env AcNone (w\<lparr>ea_state := StSuccess\<rparr>) = (w', n) \<Longrightarrow> se_inv env R n w'"
  "sp env R ev StFailure w \<Longrightarrow>
     ea_action env AcNone (w\<lparr>ea_state := StFailure\<rparr>) = (w', n) \<Longrightarrow> se_inv env R n w'"
  by (erule (1) se_ac_small; simp)+

lemma se_ac_send:
  "sp env R EvSgPolicyNotSat_EndSess StSelectAction w \<Longrightarrow>
     ea_action env AcSendFailure (w\<lparr>ea_state := StFailure\<rparr>) = (w', n) \<Longrightarrow> se_inv env R n w'"
  "sp env R EvSgInvalidResp StIntegrityCheck w \<Longrightarrow>
     ea_action env AcDiscard (w\<lparr>ea_state := StDiscard\<rparr>) = (w', n) \<Longrightarrow> se_inv env R n w'"
  "sp env R EvElse StReceived w \<Longrightarrow>
     ea_action env AcDiscard (w\<lparr>ea_state := StDiscard\<rparr>) = (w', n) \<Longrightarrow> se_inv env R n w'"
  by (erule (1) se_ac_plain; simp)+

lemma se_ac_again:
  "sp env R EvTo StIdle w \<Longrightarrow>
     ea_action env AcRetransmit (w\<lparr>ea_state := StRetransmit\<rparr>) = (w', n) \<Longrightarrow> se_inv env R n w'"
  by (erule (1) se_ac_Retransmit; simp)

lemma se_entry:
  assumes "e \<in> set (entries (ea_table Standalone))"
  shows "se_keeps env R e"
proof -
  note acs = se_ac_Initialize se_ac_PolicyCheck se_ac_SendSuccess se_ac_SendRequest
    se_ac_ResetMethod se_ac_ProposeMethod se_ac_stay(1) se_ac_more se_ac_rx
    se_ac_leave se_ac_send se_ac_again
  have "list_all (se_keeps env R) (concat (map cmd_entries standalone_cmds))"
    unfolding standalone_cmds_def ea_cmds_defs
    by (simp del: ea_action.simps add: se_keeps_simps)
      (intro conjI allI impI; (rule acs; assumption))
  then show ?thesis using assms unfolding ea_entries ea_cmds.simps list_all_iff by blast
qed

section \<open>The switch\<close>

lemma se_ignored:
  "sw_fault w = None \<Longrightarrow> se_core env R (ev # sw_events w) w \<Longrightarrow> se_inv env R None w"
  by (auto simp: se_inv_def se_core_def se_chal_def split: option.splits)

lemma se_step:
  assumes a: "sa_inv env (Some ev) w" and i: "se_inv env R (Some ev) w"
    and s: "ea_step env ev w = (w', n)"
  shows "se_inv env R n w'"
proof -
  have f: "sw_fault w = None" and c: "se_core env R (ev # sw_events w) w"
    and p: "se_promise env R (Some ev) w" and sa: "sa_pre env ev (ea_state w) w"
    using a i by (auto simp: se_inv_def sa_inv_def sa_good_def sa_ctl_def sa_pre_def)
  then have cls: "ea_class w = Standalone" by (simp add: sa_pre_def sa_core_def)
  show ?thesis using wf_ea_table [of Standalone]
  proof (cases rule: chain_step_cases [where running = sw_running and st = ea_state and ev = ev and
        set_st = "\<lambda>s w. w\<lparr>ea_state := s\<rparr>" and act = "ea_action env" and w = w])
    case ignored
    then show ?thesis using s f c by (simp add: ea_step_def cls se_ignored)
  next
    case (fired e)
    have "sp env R ev (prevState e) w" using sa c p fired by (simp add: sp_def)
    then show ?thesis using se_entry [OF fired(2), of env R] fired s
      by (auto simp: se_keeps_def ea_step_def cls)
  qed
qed

interpretation se_chain: event_chain "ea_step env" "\<lambda>n w. sa_inv env n w \<and> se_inv env R n w" ea_rank
  by unfold_locales (auto dest: sa_step se_step ea_step_rank)

lemma se_Event:
  "sa_inv env (Some ev) w \<Longrightarrow> se_inv env R (Some ev) w \<Longrightarrow> se_inv env R None (ea_Event env ev w)"
  using se_chain.chain_inv ea_Event_returns by blast

end
