(* ===== verification/Eap_Secure_Run.thy ===== *)
theory Eap_Secure_Run
  imports Eap_Secure
begin

text \<open>
  The methods and the operations keep the invariant of \<open>Eap_Secure\<close>: a check of the
  MD5-Challenge method that succeeds has seen the answer to the challenge that was sent.
\<close>

section \<open>The service of a method\<close>

definition mc_chal :: "eap_env \<Rightarrow> mblock set \<Rightarrow> eap_method \<Rightarrow> eap_auth \<Rightarrow> bool" where
  "mc_chal env R m w \<longleftrightarrow>
     me_kind m = AuthMD5 \<longrightarrow>
     (ea_state w = StProposeMethod \<and> EvSgValidResp \<in> set (sw_events w) \<longrightarrow>
        chal_of None m (sw_txMessage w)) \<and>
     (ea_state w \<noteq> StProposeMethod \<longrightarrow>
        chal_of (Some (sw_currentIdentifier w)) m (sw_txMessage w) \<and>
        (me_state m = MWaitResponse \<longrightarrow> OSend (sw_txMessage w) \<in> set (sw_out w)))"

definition mc_core :: "eap_env \<Rightarrow> mblock set \<Rightarrow> eap_auth \<Rightarrow> bool" where
  "mc_core env R w \<longleftrightarrow>
     set (sw_rxQueue w) \<subseteq> R \<and> se_pol env R (sw_policy w) (sw_out w) \<and> se_done env R (sw_out w) \<and>
     (\<exists>m. sw_method w = Some m \<and> meth_link env (sw_policy w) (sw_currentMethod w) m \<and>
        mc_chal env R m w)"

text \<open>What is known of the message to check, and what a check that succeeds has shown.\<close>

definition mc_extra :: "eap_env \<Rightarrow> mblock set \<Rightarrow> me_ev \<Rightarrow> eap_auth \<Rightarrow> bool" where
  "mc_extra env R ev w \<longleftrightarrow>
     (case sw_method w of
        None \<Rightarrow> True
      | Some m \<Rightarrow>
          me_kind m = AuthMD5 \<longrightarrow>
          (me_state m = MWaitResponse \<longrightarrow>
             fresh_rx env R (sw_currentIdentifier w) (sw_currentMethod w) (sw_rxMessage w)) \<and>
          (me_state m = MProcessResponse \<and> ev = MvSuccess \<longrightarrow> matched env R (sw_out w)))"

definition mp :: "eap_env \<Rightarrow> mblock set \<Rightarrow> method_kind \<Rightarrow> me_st \<Rightarrow> me_ev \<Rightarrow> eap_auth \<Rightarrow> bool" where
  "mp env R k s ev w \<longleftrightarrow> me_pre env k s ev w \<and> mc_core env R w \<and> mc_extra env R ev w"

definition mq :: "eap_env \<Rightarrow> mblock set \<Rightarrow> me_ev option \<Rightarrow> eap_auth \<Rightarrow> bool" where
  "mq env R n w \<longleftrightarrow>
     (case n of
        None \<Rightarrow> se_inv env R None w
      | Some ev \<Rightarrow> mc_core env R w \<and> mc_extra env R ev w)"

lemma mp_facts:
  assumes "mp env R k s ev w"
  obtains m where "me_pre env k s ev w" "sw_fault w = None" "sw_method w = Some m" "me_kind m = k"
    "me_state m = s" "me_events m = []" "awaits (ea_state w)" "set (sw_rxQueue w) \<subseteq> R"
    "se_pol env R (sw_policy w) (sw_out w)" "se_done env R (sw_out w)"
    "meth_link env (sw_policy w) (sw_currentMethod w) m" "mc_chal env R m w" "mc_extra env R ev w"
proof -
  from assms have p: "me_pre env k s ev w" "mc_core env R w" "mc_extra env R ev w"
    by (simp_all add: mp_def)
  from p(2) obtain m where m: "sw_method w = Some m"
    "meth_link env (sw_policy w) (sw_currentMethod w) m" "mc_chal env R m w"
    by (auto simp: mc_core_def)
  from p(1) m(1) have "sw_fault w = None" "me_kind m = k" "me_state m = s" "me_events m = []"
    "awaits (ea_state w)"
    by (simp_all add: me_pre_def me_busy_def)
  with p m that show ?thesis by (auto simp: mc_core_def)
qed

text \<open>When the method rests again, its turn is over.\<close>

lemma mc_rests:
  assumes "awaits (ea_state w)" "sw_fault w = None" "mc_core env R w"
    "\<And>m. sw_method w = Some m \<Longrightarrow> me_events m = []"
  shows "se_inv env R None w"
  using assms
  by (auto simp: se_inv_def se_core_def mc_core_def mc_chal_def se_link_def se_chal_def se_fresh_def
      awaits_def)

lemma mc_stops [simp]: "mc_core env R w \<Longrightarrow> se_inv env R None (w\<lparr>sw_fault := Some f\<rparr>)"
  by (simp add: se_inv_def mc_core_def)


definition final :: "me_st \<Rightarrow> bool" where
  "final s \<longleftrightarrow> s = MSuccess \<or> s = MFailure"

lemma meth_link_final:
  "meth_link env pol cm m \<longleftrightarrow> final (me_state m) \<or> CurrentMethod pol = Some cm \<and>
     method_Find cm RoleAuthenticator (en_table env) = Some (me_kind m)"
  by (auto simp: meth_link_def final_def)

text \<open>A method that moves on to a state in which it does not wait for an answer.\<close>

lemma mc_moves:
  assumes p: "mp env R k s ev w" and "final s \<Longrightarrow> final s'"
    and "k = AuthMD5 \<Longrightarrow> s' \<noteq> MInitialize \<and> s' \<noteq> MWaitResponse"
  shows "mc_core env R (set_me_state s' w)"
  by (rule mp_facts [OF p])
    (use assms(2,3) in \<open>auto simp: mc_core_def mc_chal_def set_me_state_def upd_method_def
       meth_link_final chal_of_def\<close>)

lemma mc_finishes:
  assumes p: "mp env R k MProcessResponse ev w" and reg: "md5_registered env" and s: "final s"
    and sw: "sw = PolicyOnSuccess \<Longrightarrow> k = AuthMD5 \<Longrightarrow> ev = MvSuccess"
    and w1: "w1 = set_me_state s w \<or> w1 = SetTxMessage None (set_me_state s w)"
  shows "se_inv env R None (ma_finish sw r w1)"
proof (rule mp_facts [OF p])
  fix m
  assume m: "sw_fault w = None" "sw_method w = Some m" "me_kind m = k" "me_state m = MProcessResponse"
    "me_events m = []" "awaits (ea_state w)" "set (sw_rxQueue w) \<subseteq> R"
    "se_pol env R (sw_policy w) (sw_out w)" "se_done env R (sw_out w)"
    "meth_link env (sw_policy w) (sw_currentMethod w) m" "mc_extra env R ev w"
  then have cm: "CurrentMethod (sw_policy w) = Some (sw_currentMethod w)"
    "method_Find (sw_currentMethod w) RoleAuthenticator (en_table env) = Some k"
    by (auto simp: meth_link_def)
  have "se_pol env R (policy_Update sw (sw_policy w)) (sw_out w)"
  proof (cases sw)
    case PolicyOnSuccess
    then have "sw_currentMethod w \<noteq> EAP_MD5 \<or> matched env R (sw_out w)"
      using md5_registered_iff [OF reg cm(2)] sw m by (auto simp: mc_extra_def)
    with PolicyOnSuccess show ?thesis using se_pol_success [OF m(8) cm(1)] by simp
  qed (simp add: se_pol_failure m(8))
  then show ?thesis using m s w1
    by (intro mc_rests) (auto simp: ma_finish_def sw_Notify_def upd_method_def upd_policy_def
        set_me_state_def SetTxMessage_def mc_core_def mc_chal_def meth_link_final chal_of_def final_def)
qed

lemma mc_requests:
  assumes p: "mp env R k s ev w" and "\<not> final s" "k \<noteq> AuthMD5"
    and bad: "bad = sw_Notify EvSgInvalidResp \<or> bad = sw_fail Uncaught"
  shows "se_inv env R None (with_tx r (sw_Notify EvSgValidResp) bad (set_me_state MWaitResponse w))"
proof (rule mp_facts [OF p])
  fix m
  assume m: "sw_fault w = None" "sw_method w = Some m" "me_kind m = k" "me_state m = s"
    "me_events m = []" "awaits (ea_state w)" "set (sw_rxQueue w) \<subseteq> R"
    "se_pol env R (sw_policy w) (sw_out w)" "se_done env R (sw_out w)"
    "meth_link env (sw_policy w) (sw_currentMethod w) m"
  let ?w = "set_me_state MWaitResponse w"
  have c: "mc_core env R (sw_Notify e (SetTxMessage b ?w))" "mc_core env R (sw_Notify e ?w)" "mc_core env R ?w"
    for e b
    using m assms(2,3) by (auto simp: mc_core_def sw_Notify_def SetTxMessage_def set_me_state_def
        upd_method_def meth_link_final mc_chal_def)
  have r: "se_inv env R None (sw_Notify e (SetTxMessage b ?w))" "se_inv env R None (sw_Notify e ?w)" for e b
    by (rule mc_rests [OF _ _ c(1)]; use m in \<open>auto simp: sw_Notify_def SetTxMessage_def
        set_me_state_def upd_method_def\<close>)
      (rule mc_rests [OF _ _ c(2)]; use m in \<open>auto simp: sw_Notify_def set_me_state_def upd_method_def\<close>)
  show ?thesis using bad c(3) r
    by (cases r) (auto simp: with_tx_def sw_fail_def)
qed


lemma block_copy_at:
  "mb_mem m = pre @ old @ post \<Longrightarrow> mb_wr m = length pre \<Longrightarrow> length old = length bs \<Longrightarrow>
     block_copy bs m = m\<lparr>mb_mem := pre @ bs @ post, mb_wr := length (pre @ bs)\<rparr>"
  by (simp add: block_copy_def)

lemma md5_print_block:
  assumes c: "length c = 16"
    and p: "md5_print c name (block_new (5 + length c + 1 + length name)) = EOk b"
  shows "mb_mem b = [0, 0, 0, 0, 4, 16] @ c @ name"
proof -
  let ?n = "length name"
  let ?m = "(block_new (5 + length c + 1 + ?n))\<lparr>mb_wr := 4\<rparr>"
  let ?z = "replicate (length c) 0 @ replicate ?n 0 :: u8 list"
  have n: "5 + length c + 1 + ?n = Suc (Suc (Suc (Suc (Suc (Suc (length c + ?n))))))" by simp
  have mem: "mb_mem ?m = [0, 0, 0, 0] @ [0] @ 0 # ?z"
    unfolding block_new_def n by (simp add: replicate_add)
  define m1 where "m1 = block_copy [4] ?m"
  have m1: "mb_mem m1 = [0, 0, 0, 0, 4] @ [0] @ ?z" "mb_wr m1 = 5"
    using block_copy_at [OF mem, of "[4]"] by (simp_all add: m1_def)
  define m2 where "m2 = block_copy [16] m1"
  have m2: "mb_mem m2 = [0, 0, 0, 0, 4, 16] @ replicate (length c) 0 @ replicate ?n 0" "mb_wr m2 = 6"
    using block_copy_at [OF m1(1), of "[16]"] m1(2) by (simp_all add: m2_def)
  define m3 where "m3 = block_copy c m2"
  have m3: "mb_mem m3 = ([0, 0, 0, 0, 4, 16] @ c) @ replicate ?n 0 @ []" "mb_wr m3 = 6 + length c"
    using block_copy_at [OF m2(1), of c] m2(2) by (simp_all add: m3_def)
  have "block_copy name m3 = m3\<lparr>mb_mem := [0, 0, 0, 0, 4, 16] @ c @ name, mb_wr := 6 + length c + ?n\<rparr>"
    using block_copy_at [OF m3(1), of name] m3(2) by simp
  moreover have "b = block_copy name m3"
    using p c by (simp add: md5_print_def type_print_def eap_type_defs m1_def m2_def m3_def Let_def)
  ultimately show ?thesis by simp
qed

lemma mc_MdRequest:
  assumes p: "mp env R AuthMD5 MInitialize ev w" and rnd: "random_ok env"
  shows "se_inv env R None (ma_MdRequest env (set_me_state MWaitResponse w))"
proof (rule mp_facts [OF p])
  fix m
  assume m: "sw_fault w = None" "sw_method w = Some m" "me_kind m = AuthMD5" "me_state m = MInitialize"
    "me_events m = []" "awaits (ea_state w)" "set (sw_rxQueue w) \<subseteq> R"
    "se_pol env R (sw_policy w) (sw_out w)" "se_done env R (sw_out w)"
    "meth_link env (sw_policy w) (sw_currentMethod w) m" "mc_chal env R m w"
  let ?w = "set_me_state MWaitResponse w"
  have st: "ea_state w = StProposeMethod" "EvSgValidResp \<notin> set (sw_events w)"
    using m by (auto simp: mc_chal_def chal_of_def)
  have r: "se_inv env R None (w'\<lparr>sw_fault := Some f\<rparr>)" if "sw_rxQueue w' = sw_rxQueue w" "sw_out w' = sw_out w"
    for w' f using m that by (simp add: se_inv_def)
  show ?thesis
  proof (cases "en_random env (me_id m)")
    case None
    then show ?thesis using m st
      by (auto simp: ma_MdRequest_def set_me_state_def upd_method_def mc_core_def mc_chal_def
          meth_link_final final_def intro!: mc_rests)
  next
    case (Some c)
    then have c: "length c = 16" using rnd by (simp add: random_ok_def)
    let ?v = "upd_method (\<lambda>m. m\<lparr>me_value := c\<rparr>) ?w"
    have "se_inv env R None (sw_Notify EvSgValidResp (SetTxMessage (Some b) ?v))"
      if "mb_mem b = [0, 0, 0, 0, 4, 16] @ c @ en_myName env" for b
      using m st that c
      by (intro mc_rests) (auto simp: sw_Notify_def SetTxMessage_def set_me_state_def upd_method_def
          mc_core_def mc_chal_def meth_link_final final_def chal_of_def chal_tx_def)
    moreover have "se_inv env R None (sw_fail f ?v)" for f
      using r by (simp add: sw_fail_def set_me_state_def upd_method_def)
    ultimately show ?thesis using m Some md5_print_block [OF c]
      by (auto simp: ma_MdRequest_def set_me_state_def upd_method_def with_tx_def split: eparse.splits)
  qed
qed

lemma block_read_some:
  "block_read n m = Some bs \<longleftrightarrow>
     mb_rd m + n \<le> length (mb_mem m) \<and> bs = take n (drop (mb_rd m) (mb_mem m))"
  by (auto simp: block_read_def)

text \<open>A response of the type that passes the comparison is the answer.\<close>

lemma md5_answer:
  assumes "header_parse m = EOk (h, m1)" "type_parse sc m1 = EOk (EAP_MD5, r)"
    and "md5_parse r = EOk (v, name)"
  shows "md5_packet (eh_code h) (eh_identifier h) v (mb_mem m)"
proof -
  from assms(1) obtain c i a b bs where m: "mb_mem m = c # i # a # b # bs"
    "h = \<lparr>eh_code = c, eh_identifier = i, eh_length = rd16 [a, b]\<rparr>"
    "m1 = m\<lparr>mb_rd := 4, mb_wr := unat (rd16 [a, b])\<rparr>"
    by (auto simp: header_parse_def split: list.splits)
  with assms(2) obtain t ts where t: "bs = t # ts" "t = 4" "r = m1\<lparr>mb_rd := 5\<rparr>"
    by (cases bs) (auto simp: type_parse_def eap_type_defs Let_def split: if_splits)
  with m assms(3) obtain n ns where n: "ts = n # ns" "unat n \<le> length ns" "v = take (unat n) ns"
    by (cases ts) (auto simp: md5_parse_def block_read_some Let_def numeral_eq_Suc
        split: option.splits if_splits list.splits)
  with m t show ?thesis by (simp add: min_def)
qed

lemma chal_tx_sent:
  "chal_tx (Some i) c tx \<Longrightarrow> OSend tx \<in> set out \<Longrightarrow>
     \<exists>b. OSend (Some b) \<in> set out \<and> md5_packet EAP_Request i c (mb_mem b)"
  by (auto simp: chal_tx_def split: option.splits)


text \<open>A check passes its outcome on; a reader leaves alone what is recorded here.\<close>

definition mc_same :: "eap_auth \<Rightarrow> eap_auth \<Rightarrow> bool" where
  "mc_same w w' \<longleftrightarrow>
     sw_rxQueue w' = sw_rxQueue w \<and> sw_policy w' = sw_policy w \<and> sw_out w' = sw_out w \<and>
     sw_currentMethod w' = sw_currentMethod w \<and> sw_currentIdentifier w' = sw_currentIdentifier w \<and>
     sw_txMessage w' = sw_txMessage w \<and> ea_state w' = ea_state w \<and> sw_events w' = sw_events w \<and>
     (\<exists>m m'. sw_method w = Some m \<and> sw_method w' = Some m' \<and> me_kind m' = me_kind m \<and>
        me_state m' = me_state m \<and> me_value m' = me_value m)"

lemma mc_core_same: "mc_same w w' \<Longrightarrow> mc_core env R w \<Longrightarrow> mc_core env R w'"
  by (auto simp: mc_same_def mc_core_def mc_chal_def chal_of_def meth_link_def)

lemma mq_other:
  "mc_core env R w \<Longrightarrow> mc_same w w' \<Longrightarrow> \<exists>m. sw_method w = Some m \<and> me_kind m \<noteq> AuthMD5 \<Longrightarrow>
     mq env R (Some ev) w'"
  using mc_core_same [of w w' env R]
  by (auto simp: mq_def mc_extra_def mc_same_def)

lemma mq_stops: "mc_core env R w \<Longrightarrow> mq env R None (sw_fail f w)"
  by (simp add: mq_def sw_fail_def)

lemma mc_text_check:
  assumes p: "mp env R k MWaitResponse ev w"
    and a: "me_action env a (set_me_state MProcessResponse w) = (w', n)" "a = MaIdCheck \<or> a = MaNoCheck"
    and k: "k \<noteq> AuthMD5"
  shows "mq env R n w'"
proof (rule mp_facts [OF p])
  fix m
  assume m: "sw_method w = Some m" "me_kind m = k"
  let ?w = "set_me_state MProcessResponse w"
  have c: "mc_core env R ?w" by (rule mc_moves [OF p]) (simp_all add: final_def)
  have e: "\<exists>m. sw_method ?w = Some m \<and> me_kind m \<noteq> AuthMD5"
    using m k by (simp add: set_me_state_def upd_method_def)
  have s: "mq env R (Some ev) w'" if "mc_same ?w w'" for ev w'
    using mq_other [OF c that e] .
  show ?thesis
  proof (cases "sw_rxMessage ?w")
    case None
    then show ?thesis using a c
      by (auto simp: ma_IdCheck_def ma_NoCheck_def with_rx_def intro: mq_stops)
  next
    case (Some r)
    then show ?thesis using a e
      by (cases "text_parse (en_signed env) r")
        (auto simp: ma_IdCheck_def ma_NoCheck_def with_rx_def ma_failed_trial_def mc_same_def
          Let_def upd_method_def SetRxMessage_def intro!: s mq_stops [OF c] split: if_splits)
  qed
qed

lemma mc_MdCheck:
  assumes p: "mp env R AuthMD5 MWaitResponse ev w" and reg: "md5_registered env"
    and a: "ma_MdCheck env (set_me_state MProcessResponse w) = (w', n)"
  shows "mq env R n w'"
proof (rule mp_facts [OF p])
  fix m
  assume m: "me_pre env AuthMD5 MWaitResponse ev w" "sw_method w = Some m" "me_kind m = AuthMD5"
    "me_state m = MWaitResponse" "awaits (ea_state w)"
    "meth_link env (sw_policy w) (sw_currentMethod w) m" "mc_chal env R m w" "mc_extra env R ev w"
  let ?w = "set_me_state MProcessResponse w"
  have c: "mc_core env R ?w" by (rule mc_moves [OF p]) (simp_all add: final_def)
  from m(1) have st: "ea_state w = StIntegrityCheck" by (simp add: me_pre_def me_busy_def)
  from m have fr: "fresh_rx env R (sw_currentIdentifier w) (sw_currentMethod w) (sw_rxMessage w)"
    by (simp add: mc_extra_def)
  from m(6) m(4) have "method_Find (sw_currentMethod w) RoleAuthenticator (en_table env) = Some AuthMD5"
    by (simp add: meth_link_def m(3))
  then have cm: "sw_currentMethod w = EAP_MD5" using md5_registered_iff [OF reg] by blast
  have sent: "\<exists>b. OSend (Some b) \<in> set (sw_out w) \<and>
      md5_packet EAP_Request (sw_currentIdentifier w) (me_value m) (mb_mem b)"
    using m st by (intro chal_tx_sent) (auto simp: mc_chal_def chal_of_def)
  from fr obtain x h m1 r where x: "x \<in> R" "header_parse x = EOk (h, m1)" "eh_code h = EAP_Response"
    "eh_identifier h = sw_currentIdentifier w" "type_parse (en_signed env) m1 = EOk (EAP_MD5, r)"
    "sw_rxMessage w = Some r"
    unfolding fresh_rx_def cm by blast
  have ok: "matched env R (sw_out w)"
    if "md5_parse r = EOk (md5_response env (sw_currentIdentifier w) (me_value m), name)" for name
    using md5_answer [OF x(2,5) that] x(1,3,4) sent unfolding matched_def by metis
  show ?thesis
    by (cases "md5_parse r"; use a c x(6) m(2) ok in \<open>auto simp: ma_MdCheck_def with_rx_def Let_def
        set_me_state_def upd_method_def SetRxMessage_def mq_def mc_extra_def mc_core_def mc_chal_def
        chal_of_def meth_link_def sw_fail_def se_inv_def split: if_splits\<close>)
qed


section \<open>The tables of the methods\<close>

definition mk_keeps ::
    "eap_env \<Rightarrow> mblock set \<Rightarrow> method_kind \<Rightarrow> (me_st, me_ev, me_ac) table_entry \<Rightarrow> bool" where
  "mk_keeps env R k e \<longleftrightarrow>
     (\<forall>ev w w' n. (event e = Some ev \<or> isWildcardEvent e) \<longrightarrow> mp env R k (prevState e) ev w \<longrightarrow>
        me_action env (action e) (set_me_state (nextState e) w) = (w', n) \<longrightarrow> mq env R n w')"

lemma mk_keeps_simps:
  "mk_keeps env R k (state_entry s ev s' a) \<longleftrightarrow>
     (\<forall>w w' n. mp env R k s ev w \<longrightarrow> me_action env a (set_me_state s' w) = (w', n)
        \<longrightarrow> mq env R n w')"
  "mk_keeps env R k (wildcard_entry s s' a) \<longleftrightarrow>
     (\<forall>ev w w' n. mp env R k s ev w \<longrightarrow> me_action env a (set_me_state s' w) = (w', n)
        \<longrightarrow> mq env R n w')"
  by (auto simp: mk_keeps_def state_entry_def wildcard_entry_def)

lemma mk_pickup:
  assumes p: "mp env R AuthIdentity MInitialize ev w"
    and a: "me_action env MaCheckPickUpInit (set_me_state MCheckPickUpInit w) = (w', n)"
  shows "mq env R n w'"
proof -
  have "mc_core env R (set_me_state MCheckPickUpInit w)"
    by (rule mc_moves [OF p]) (simp_all add: final_def)
  moreover obtain m where "sw_method w = Some m" "me_kind m = AuthIdentity"
    by (rule mp_facts [OF p])
  ultimately show ?thesis using a
    by (auto simp: ma_CheckPickUpInit_def mq_def mc_extra_def set_me_state_def upd_method_def)
qed

lemma mk_no_pickup:
  "mp env R k MCheckPickUpInit MvPickUpInit w \<Longrightarrow> me_action env a w1 = (w', n) \<Longrightarrow> mq env R n w'"
  by (simp add: mp_def me_pre_def me_promise_def)

lemma mk_requests:
  "mp env R AuthIdentity s ev w \<Longrightarrow> me_action env MaIdRequest (set_me_state MWaitResponse w) = (w', n) \<Longrightarrow>
     \<not> final s \<Longrightarrow> mq env R n w'"
  "mp env R AuthNotification s ev w \<Longrightarrow>
     me_action env MaNoRequest (set_me_state MWaitResponse w) = (w', n) \<Longrightarrow> \<not> final s \<Longrightarrow> mq env R n w'"
  using mc_requests [of env R _ s ev w]
  by (auto simp: mq_def ma_IdRequest_def ma_NoRequest_def)

lemma mk_none:
  assumes p: "mp env R k s ev w" and a: "me_action env MaNone (set_me_state s' w) = (w', n)"
    and f: "final s'"
  shows "mq env R n w'"
proof (rule mp_facts [OF p])
  fix m
  assume m: "sw_fault w = None" "sw_method w = Some m" "me_events m = []" "awaits (ea_state w)"
  have "mc_core env R (set_me_state s' w)"
    using f by (intro mc_moves [OF p]) (auto simp: final_def)
  then have "se_inv env R None (set_me_state s' w)"
    by (rule mc_rests [rotated 2]) (use m in \<open>auto simp: set_me_state_def upd_method_def\<close>)
  with a show ?thesis by (auto simp: mq_def)
qed

lemma mk_finish:
  assumes "md5_registered env"
  shows
    "mp env R AuthIdentity MProcessResponse ev w \<Longrightarrow>
       me_action env MaIdSuccess (set_me_state MSuccess w) = (w', n) \<Longrightarrow> mq env R n w'"
    "mp env R AuthNotification MProcessResponse ev w \<Longrightarrow>
       me_action env MaNoSuccess (set_me_state MSuccess w) = (w', n) \<Longrightarrow> mq env R n w'"
    "mp env R AuthMD5 MProcessResponse MvSuccess w \<Longrightarrow>
       me_action env MaMdSuccess (set_me_state MSuccess w) = (w', n) \<Longrightarrow> mq env R n w'"
    "mp env R k MProcessResponse ev w \<Longrightarrow>
       me_action env MaIdFailure (set_me_state MFailure w) = (w', n) \<Longrightarrow> mq env R n w'"
    "mp env R k MProcessResponse ev w \<Longrightarrow>
       me_action env MaNoFailure (set_me_state MFailure w) = (w', n) \<Longrightarrow> mq env R n w'"
    "mp env R k MProcessResponse ev w \<Longrightarrow>
       me_action env MaMdFailure (set_me_state MFailure w) = (w', n) \<Longrightarrow> mq env R n w'"
  using mc_finishes [OF _ assms, of R k ev w]
    mc_finishes [OF _ assms, of R AuthIdentity ev w MSuccess PolicyOnSuccess]
    mc_finishes [OF _ assms, of R AuthNotification ev w MSuccess PolicyOnSuccess]
    mc_finishes [OF _ assms, of R AuthMD5 MvSuccess w MSuccess PolicyOnSuccess]
  by (auto simp: mq_def ma_NoSuccess_def ma_NoFailure_def final_def)

lemma mk_checks:
  "mp env R AuthIdentity MWaitResponse ev w \<Longrightarrow>
     me_action env MaIdCheck (set_me_state MProcessResponse w) = (w', n) \<Longrightarrow> mq env R n w'"
  "mp env R AuthNotification MWaitResponse ev w \<Longrightarrow>
     me_action env MaNoCheck (set_me_state MProcessResponse w) = (w', n) \<Longrightarrow> mq env R n w'"
  by (erule (1) mc_text_check; simp)+

lemma mk_md5:
  assumes "md5_registered env" "random_ok env"
  shows
    "mp env R AuthMD5 MWaitResponse ev w \<Longrightarrow>
       me_action env MaMdCheck (set_me_state MProcessResponse w) = (w', n) \<Longrightarrow> mq env R n w'"
    "mp env R AuthMD5 MInitialize ev w \<Longrightarrow>
       me_action env MaMdRequest (set_me_state MWaitResponse w) = (w', n) \<Longrightarrow> mq env R n w'"
  using mc_MdCheck [OF _ assms(1), of R ev w w' n] mc_MdRequest [OF _ assms(2), of R ev w]
  by (auto simp: mq_def)

lemma mk_entry:
  assumes "md5_registered env" "random_ok env" "k \<noteq> PeerMD5" "e \<in> set (entries (method_table k))"
  shows "mk_keeps env R k e"
proof -
  note acs = mk_pickup mk_no_pickup mk_requests mk_none mk_finish [OF assms(1)] mk_checks
    mk_md5 [OF assms(1,2)]
  have "list_all (mk_keeps env R AuthIdentity) (concat (map cmd_entries identity_cmds))"
    "list_all (mk_keeps env R AuthNotification) (concat (map cmd_entries notification_cmds))"
    "list_all (mk_keeps env R AuthMD5) (concat (map cmd_entries md5_cmds))"
    unfolding identity_cmds_def notification_cmds_def md5_cmds_def
    by (simp_all del: me_action.simps add: mk_keeps_simps)
      (intro conjI allI impI; (erule (1) acs; simp add: final_def))+
  then have "list_all (mk_keeps env R k) (entries (method_table k))"
    using assms(3) by (cases k) (simp_all add: method_entries)
  with assms(4) show ?thesis by (simp add: list_all_iff)
qed


definition sq :: "eap_env \<Rightarrow> mblock set \<Rightarrow> me_ev option \<Rightarrow> eap_auth \<Rightarrow> bool" where
  "sq env R n w \<longleftrightarrow>
     (case n of
        None \<Rightarrow> sa_inv env None w \<and> se_inv env R None w
      | Some ev \<Rightarrow> \<exists>k s. mp env R k s ev w)"

lemma sq_step:
  assumes "md5_registered env" "random_ok env" and i: "sq env R (Some ev) w"
    and st: "method_step env ev w = (w', n)"
  shows "sq env R n w'"
proof -
  from i obtain k s where p: "mp env R k s ev w" by (auto simp: sq_def)
  obtain m where m: "me_pre env k s ev w" "sw_fault w = None" "sw_method w = Some m" "me_kind m = k"
    "me_state m = s" "me_events m = []" "awaits (ea_state w)"
    by (rule mp_facts [OF p])
  have k: "k \<noteq> PeerMD5" using m(1) by (simp add: me_pre_def)
  have "mc_core env R w" using p by (simp add: mp_def)
  then have stay: "se_inv env R None w" using m by (intro mc_rests) auto
  have sm: "sm_inv env n w'"
    using sm_step [OF assms(2) _ st] m(1) by (auto simp: sm_inv_def)
  show ?thesis using wf_method_table [of k]
  proof (cases rule: chain_step_cases [where running = me_running_of and st = me_state_of and ev = ev
        and set_st = set_me_state and act = "me_action env" and w = w])
    case ignored
    then show ?thesis using st m stay sm by (simp add: method_step_def sq_def sm_inv_def)
  next
    case (fired e)
    then have a: "me_action env (action e) (set_me_state (nextState e) w) = (w', n)"
      and p': "mp env R k (prevState e) ev w" "me_pre env k (prevState e) ev w"
      using st m p by (simp_all add: method_step_def me_state_of_def)
    from mk_entry [OF assms(1,2) k fired(2)] a p' fired(4) have q: "mq env R n w'"
      by (auto simp: mk_keeps_def)
    from me_entry [OF assms(2) k fired(2)] a p' fired(4) have "me_post env k n w'"
      by (auto simp: me_keeps_def)
    with q show ?thesis by (auto simp: sq_def mq_def mp_def me_post_def split: option.splits)
  qed
qed

interpretation sq_chain:
  event_chain "method_step env" "\<lambda>n w. md5_registered env \<and> random_ok env \<and> sq env R n w" me_rank
  by unfold_locales (auto dest: sq_step method_step_rank)

lemma sq_event:
  "md5_registered env \<Longrightarrow> random_ok env \<Longrightarrow> mp env R k s ev w \<Longrightarrow>
     se_inv env R None (method_event env ev w)"
  using sq_chain.chain_inv [of env R ev w, OF _ method_event_returns]
  by (auto simp: sq_def)

section \<open>Operations\<close>

lemma se_inv_events:
  assumes "se_inv env R None w" "sw_fault w = None"
  shows "se_core env R (sw_events w) w"
  using assms by (simp add: se_inv_def)

lemma se_Serve:
  assumes env: "md5_registered env" "random_ok env"
    and i: "sa_inv env None w" and se: "se_inv env R None w"
  shows "se_inv env R None (ea_Serve env w)"
  using i
proof (cases rule: ea_Serve_cases)
  case (switch js)
  let ?w = "w\<lparr>sw_jobs := js, sw_events := tl (sw_events w)\<rparr>"
  have c: "se_core env R (sw_events w) w" by (rule se_inv_events [OF se switch(1)])
  have "set (served_event w # tl (sw_events w)) \<subseteq> insert EvUCT (set (sw_events w))"
    by (cases "sw_events w") (auto simp: served_event_def)
  then have "EvSgValidResp \<in> set (served_event w # tl (sw_events w)) \<Longrightarrow> EvSgValidResp \<in> set (sw_events w)"
    by blast
  with c have "se_core env R (served_event w # tl (sw_events w)) ?w"
    by (auto simp: se_core_def se_chal_def split: option.splits)
  moreover have "events_ok (sw_events w)"
    using i switch(1) by (simp add: sa_inv_def sa_good_def sa_core_def)
  then have "se_promise env R (Some (served_event w)) ?w"
    by (cases "sw_events w") (auto simp: served_event_def events_ok_def)
  ultimately have "se_inv env R (Some (served_event w)) ?w"
    using switch(1) by (simp add: se_inv_def)
  then show ?thesis using se_Event [OF serve_switch [OF i switch(1,2)]] switch(3) by simp
next
  case (meth j js)
  let ?w = "(upd_method (\<lambda>m. m\<lparr>me_events := tl (me_events m)\<rparr>) w)\<lparr>sw_jobs := js\<rparr>"
  have c: "se_core env R (sw_events w) w" by (rule se_inv_events [OF se meth(1)])
  show ?thesis
  proof (rule serve_method [OF i meth(1,2)])
    fix m
    assume m: "sw_method w = Some m" "me_events m = [MvIntegrityCheck]" "awaits (ea_state w)"
      "ea_state w = StProposeMethod \<longrightarrow> me_state m = MInitialize"
      "me_pre env (me_kind m) (me_state m) MvIntegrityCheck ?w"
    have "mp env R (me_kind m) (me_state m) MvIntegrityCheck ?w"
      using c m
      by (auto simp: mp_def se_core_def mc_core_def mc_extra_def mc_chal_def se_link_def se_chal_def
          se_fresh_def upd_method_def awaits_def)
    from sq_event [OF env this] show ?thesis by (simp add: meth(3))
  qed
qed (use se in simp)

lemma se_Receive: "m \<in> R \<Longrightarrow> se_inv env R None w \<Longrightarrow> se_inv env R None (ea_Receive m w)"
  by (auto simp: se_inv_def se_core_def ea_Receive_def sw_Notify_def se_chal_def split: option.splits)

lemma se_Timeout:
  assumes i: "sa_inv env None w" and se: "se_inv env R None w"
  shows "se_inv env R None (sw_Timeout ty w)"
proof (cases "sw_timers w ty")
  case None
  then show ?thesis using se by (simp add: sw_Timeout_def)
next
  case (Some p)
  obtain ev n where p: "p = (ev, n)" by fastforce
  show ?thesis
  proof (cases "sw_fault w = None")
    case True
    with i Some p have "ev = EvTo" by (auto simp: sa_inv_def sa_good_def sa_core_def timers_ok_def)
    then show ?thesis using se Some p
      by (auto simp: se_inv_def se_core_def sw_Timeout_def sw_Notify_def se_chal_def split: option.splits)
  next
    case False
    then show ?thesis using se Some p by (auto simp: se_inv_def sw_Timeout_def sw_Notify_def)
  qed
qed

fun received :: "ea_op \<Rightarrow> mblock option" where
  "received (OpReceive m) = Some m"
| "received x = None"

lemma se_exec:
  "md5_registered env \<Longrightarrow> random_ok env \<Longrightarrow> local_op x \<Longrightarrow> (\<And>m. received x = Some m \<Longrightarrow> m \<in> R) \<Longrightarrow>
     sa_inv env None w \<and> se_inv env R None w \<Longrightarrow> se_inv env R None (ea_exec env x w)"
  by (cases x) (simp_all add: se_Serve se_Receive se_Timeout)

lemma se_run:
  assumes env: "md5_registered env" "random_ok env"
  shows "list_all local_op ops \<Longrightarrow> (\<And>m. OpReceive m \<in> set ops \<Longrightarrow> m \<in> R) \<Longrightarrow>
     sa_inv env None w \<and> se_inv env R None w \<Longrightarrow> se_inv env R None (ea_run env ops w)"
  unfolding ea_run_def
proof (induction ops arbitrary: w)
  case (Cons x ops)
  have "sa_inv env None (ea_exec env x w)" using Cons.prems env by (intro sa_exec) auto
  moreover have "se_inv env R None (ea_exec env x w)"
    by (rule se_exec [OF env]) (use Cons.prems in \<open>auto elim: received.elims\<close>)
  ultimately show ?case using Cons by simp
qed simp

lemma se_Start: "needs_md5 p \<Longrightarrow> se_inv env R None (ea_Start (session_of Standalone ms (Some p)))"
  by (simp add: se_inv_def se_core_def se_done_def se_pol_def ea_Start_def Let_def upd_policy_def
      ea_start_machine_def sw_Notify_def DeleteMethodStateMachine_def se_link_def se_chal_def se_fresh_def)

end
