(* ===== verification/Eap_Passthrough.thy ===== *)
theory Eap_Passthrough
  imports Eap_Standalone_Run
begin

text \<open>
  A pass-through authenticator leaves the verdict to the AAA server: as long as the AAA client
  has not been told of a success, the session does not report one, whatever the peer sends
  and whatever its policy is.
\<close>

section \<open>The invariant\<close>

fun is_success :: "eap_out \<Rightarrow> bool" where
  "is_success (OSuccess x) = True"
| "is_success x = False"

lemma is_success_iff: "list_ex is_success out \<longleftrightarrow> (\<exists>x. OSuccess x \<in> set out)"
proof -
  have "is_success y \<longleftrightarrow> (\<exists>x. y = OSuccess x)" for y by (cases y) simp_all
  then show ?thesis by (auto simp: list_ex_iff)
qed

definition verdict :: "ea_ev \<Rightarrow> bool" where
  "verdict ev \<longleftrightarrow> ev = EvSgAaaSuccess \<or> ev = EvAaaSuccess \<or> ev = EvSgPolicySat"

definition pt_quiet :: "eap_auth \<Rightarrow> bool" where
  "pt_quiet w \<longleftrightarrow>
     ea_class w = Passthrough \<and> \<not> list_ex is_success (sw_out w) \<and>
     \<not> list_ex verdict (sw_events w) \<and> timers_ok (sw_timers w)"

definition pt_inv :: "ea_ev option \<Rightarrow> eap_auth \<Rightarrow> bool" where
  "pt_inv n w \<longleftrightarrow> pt_quiet w \<and> (case n of None \<Rightarrow> True | Some ev \<Rightarrow> \<not> verdict ev)"

lemma verdict_simps [simp]:
  "verdict EvSgAaaSuccess" "verdict EvAaaSuccess" "verdict EvSgPolicySat" "\<not> verdict EvUCT"
  "\<not> verdict EvElse" "\<not> verdict EvRxMsg" "\<not> verdict EvTo" "\<not> verdict EvSgRestart"
  "\<not> verdict EvSgPortEnabled" "\<not> verdict EvSgValidResp" "\<not> verdict EvSgInvalidResp"
  "\<not> verdict EvSgEndMethod" "\<not> verdict EvSgAaaContinue" "\<not> verdict EvSgAaaFailure"
  "\<not> verdict EvSgPolicyNotSat_EndSess" "\<not> verdict EvSgNoMethod" "\<not> verdict EvRxMethodResp"
  "\<not> verdict EvRxNonResp" "\<not> verdict EvRxNak" "\<not> verdict EvSgMaxRetransmission"
  "\<not> verdict EvSgPassThrough" "\<not> verdict EvSgPickUpInit" "\<not> verdict EvSgNoPickUpInit"
  "\<not> verdict EvRxAaaEapReq" "\<not> verdict EvAaaFailure" "\<not> verdict EvDiscard"
  by (simp_all add: verdict_def)

definition gives_verdict :: "ea_ac \<Rightarrow> bool" where
  "gives_verdict a \<longleftrightarrow>
     a = AcSendSuccess \<or> a = AcCompletePassThroughWithSuccess \<or> a = AcAaaSuccess"

lemma timers_ok_prims [simp]:
  "timers_ok tm \<Longrightarrow> timers_ok (CancelTimer ty tm)"
  "timers_ok tm \<Longrightarrow> timers_ok (ScheduleTimer EvTo n ty tm)"
  by (auto simp: timers_ok_def CancelTimer_def ScheduleTimer_def split: if_splits)

lemma pt_action:
  assumes "pt_quiet w" "\<not> gives_verdict a" "ea_action env a w = (w', n)"
  shows "pt_inv n w'"
  using assms
  by (cases a)
    (auto simp: gives_verdict_def pt_inv_def pt_quiet_def ea_basic_defs sw_basic_defs Let_def
      Decision_def passthrough_Decision_def upd_policy_def
      split: option.splits list.splits eparse.splits prod.splits if_splits)

text \<open>Only a verdict leads to an action that gives one.\<close>

definition judged :: "(ea_st, ea_ev, ea_ac) table_entry \<Rightarrow> bool" where
  "judged e \<longleftrightarrow>
     gives_verdict (action e) \<longrightarrow>
     \<not> isWildcardEvent e \<and> (case event e of None \<Rightarrow> False | Some ev \<Rightarrow> verdict ev)"

lemma pt_entries: "e \<in> set (entries (ea_table Passthrough)) \<Longrightarrow> judged e"
proof -
  have "list_all judged (concat (map cmd_entries passthrough_cmds))" by code_simp
  then have "list_all judged (entries (ea_table Passthrough))" by (simp add: ea_entries)
  then show "e \<in> set (entries (ea_table Passthrough)) \<Longrightarrow> judged e" by (simp add: list_all_iff)
qed

lemma pt_step:
  assumes i: "pt_inv (Some ev) w" and s: "ea_step env ev w = (w', n)"
  shows "pt_inv n w'"
proof (cases rule: ea_step_cases [of env ev w])
  case ignored
  then show ?thesis using i s by (simp add: pt_inv_def)
next
  case (fired e)
  from i have q: "pt_quiet (w\<lparr>ea_state := nextState e\<rparr>)" and cls: "ea_class w = Passthrough"
    and ev: "\<not> verdict ev" by (simp_all add: pt_inv_def pt_quiet_def)
  have "\<not> gives_verdict (action e)"
    using pt_entries [of e] fired(2,4) ev by (auto simp: cls judged_def)
  then show ?thesis using pt_action [OF q] fired(5) s by simp
qed

interpretation pt_chain: event_chain "ea_step env" pt_inv ea_rank
  by unfold_locales (auto dest: pt_step ea_step_rank)

lemma pt_Event: "pt_inv (Some ev) w \<Longrightarrow> pt_inv None (ea_Event env ev w)"
  using pt_chain.chain_inv ea_Event_returns by blast

lemma pt_method_step: "pt_quiet w \<Longrightarrow> method_step env ev w = (w', n) \<Longrightarrow> pt_quiet w'"
proof (cases rule: method_step_cases [of env ev w])
  case (fired m e)
  assume "pt_quiet w" "method_step env ev w = (w', n)"
  then have "pt_quiet (set_me_state (nextState e) w)"
    "me_action env (action e) (set_me_state (nextState e) w) = (w', n)"
    using fired by (simp_all add: pt_quiet_def set_me_state_def upd_method_def)
  then show ?thesis
    by (cases "action e") (auto simp: pt_quiet_def me_basic_defs sw_basic_defs Let_def
      split: option.splits eparse.splits prod.splits if_splits)
qed simp

interpretation pt_method_chain: event_chain "method_step env" "\<lambda>n w. pt_quiet w" me_rank
  by unfold_locales (auto dest: pt_method_step method_step_rank)

lemma pt_method_event: "pt_quiet w \<Longrightarrow> pt_quiet (method_event env ev w)"
  using pt_method_chain.chain_inv method_event_returns by blast

section \<open>Operations\<close>

fun aaa_success_op :: "ea_op \<Rightarrow> bool" where
  "aaa_success_op (OpAaaSuccess m) = True"
| "aaa_success_op (OpAaaSuccessKey m k) = True"
| "aaa_success_op x = False"

lemma pt_Serve: "pt_quiet w \<Longrightarrow> pt_quiet (ea_Serve env w)"
proof -
  assume q: "pt_quiet w"
  have sw: "pt_inv (Some (case sw_events w of [] \<Rightarrow> EvUCT | ev # _ \<Rightarrow> ev))
      (w\<lparr>sw_jobs := js, sw_events := tl (sw_events w)\<rparr>)" for js
    using q by (cases "sw_events w") (auto simp: pt_inv_def pt_quiet_def)
  have me: "pt_quiet ((upd_method f w)\<lparr>sw_jobs := js\<rparr>)" for f js
    using q by (simp add: pt_quiet_def upd_method_def)
  show "pt_quiet (ea_Serve env w)"
    using q pt_Event [OF sw] pt_method_event [OF me]
    by (auto simp: ea_Serve_def mux_pop_def pt_inv_def pt_quiet_def sw_fail_def
      split: list.splits eap_job.splits option.splits)
qed

lemma pt_Notify: "pt_quiet w \<Longrightarrow> \<not> verdict ev \<Longrightarrow> pt_quiet (sw_Notify ev w)"
  by (simp add: pt_quiet_def sw_Notify_def)

lemma pt_Timeout: "pt_quiet w \<Longrightarrow> pt_quiet (sw_Timeout ty w)"
proof -
  assume q: "pt_quiet w"
  then have "sw_timers w ty = Some (ev, n) \<Longrightarrow> ev = EvTo" for ev n
    unfolding pt_quiet_def timers_ok_def by blast
  with q show ?thesis
    by (cases "sw_timers w ty") (auto simp: sw_Timeout_def intro!: pt_Notify)
qed

lemma pt_exec: "pt_quiet w \<Longrightarrow> \<not> aaa_success_op x \<Longrightarrow> pt_quiet (ea_exec env x w)"
proof (cases x)
  case (OpReceive m)
  assume "pt_quiet w"
  then have "pt_quiet (w\<lparr>sw_rxQueue := q\<rparr>)" for q by (simp add: pt_quiet_def)
  then show ?thesis by (simp add: OpReceive ea_Receive_def pt_Notify)
next
  case (OpAaaFailure m)
  assume "pt_quiet w"
  moreover from this have "pt_quiet (w\<lparr>ea_aaaRxQueue := q\<rparr>)" for q by (simp add: pt_quiet_def)
  ultimately show ?thesis
    by (auto simp: OpAaaFailure or_throw_def AAA_Failure_def aaa_notify_def intro: pt_Notify
        split: option.splits)
next
  case (OpAaaContinue m)
  assume "pt_quiet w"
  moreover from this have "pt_quiet (w\<lparr>ea_aaaRxQueue := q\<rparr>)" for q by (simp add: pt_quiet_def)
  ultimately show ?thesis
    by (auto simp: OpAaaContinue or_throw_def AAA_Continue_def aaa_notify_def intro: pt_Notify
        split: option.splits)
qed (simp_all add: pt_Serve pt_Timeout)

lemma pt_run: "pt_quiet w \<Longrightarrow> \<not> list_ex aaa_success_op ops \<Longrightarrow> pt_quiet (ea_run env ops w)"
  unfolding ea_run_def by (induction ops arbitrary: w) (auto intro: pt_exec)

lemma pt_Start: "pt_quiet (ea_Start (session_of Passthrough ms p))"
  by (simp add: pt_quiet_def ea_Start_def Let_def upd_policy_def ea_start_machine_def sw_Notify_def
      timers_ok_def)

end
