(* ===== verification/Eap_Codec.thy ===== *)
theory Eap_Codec
  imports Eap_Packet
begin

text \<open>
  What the parsers of EAP packets read back of what the printers write, and which texts the
  check for UTF-8 lets through.
\<close>

section \<open>Text\<close>

lemma lead_loop_pos: "b \<noteq> 0 \<Longrightarrow> lead_loop (Suc k) b = Suc k"
  by (induction k) simp_all

lemma signed_continuation: "\<not> continuation True d"
proof -
  have "sint d < 128" using sint_lt [of d] by simp
  then have "sint d div 64 \<le> 1" by linarith
  then show ?thesis by (simp add: continuation_def)
qed

lemma skip_signed: "skip_continuation True (Suc n) bs = None"
  by (cases bs) (simp_all add: signed_continuation)

lemma ascii_iff: "drop_bit 7 b = 0 \<longleftrightarrow> b < 128" for b :: u8
proof -
  have "drop_bit 7 b = 0 \<longleftrightarrow> unat (drop_bit 7 b) = 0" by (simp add: unat_eq_zero)
  also have "\<dots> \<longleftrightarrow> unat b < 128"
    by (subst unat_drop_bit_eq) (simp add: drop_bit_eq_div div_eq_0_iff)
  finally show ?thesis by (simp add: word_less_nat_alt)
qed

text \<open>Where \<open>char\<close> is signed, no octet is a continuation, and only ASCII passes.\<close>

lemma signed_step:
  "utf8_checker True nc (b # bs) \<longleftrightarrow> b \<noteq> 0 \<and> b < 128 \<and> utf8_checker True nc bs"
proof (cases "b \<noteq> 0 \<and> drop_bit 7 b = 0")
  case False
  have "\<not> (case skip_continuation True count bs of None \<Rightarrow> False | Some r \<Rightarrow> utf8_checker True nc r)"
    if "count \<noteq> 0" for count
    using that by (cases count) (simp_all add: skip_signed)
  then show ?thesis using False by (auto simp: Let_def ascii_iff)
qed (simp add: ascii_iff)

lemma utf8_signed: "utf8_checker True nc bs \<longleftrightarrow> list_all (\<lambda>b. b \<noteq> 0 \<and> b < 128) bs"
  by (induction bs) (simp_all add: signed_step del: utf8_checker.simps(2))

lemma utf8_null: "utf8_checker sc True bs \<Longrightarrow> utf8_checker sc False bs"
  by (induction sc "False" bs rule: utf8_checker.induct)
    (auto simp: Let_def split: if_splits option.splits)

section \<open>Packets\<close>

lemma rd16_print [simp]: "rd16 [ucast (drop_bit 8 w), ucast w] = w"
  using rd16_be16 [of w "[]"] by (simp add: be16_def)

lemma unat_u8: "n < 256 \<Longrightarrow> unat (of_nat n :: u8) = n"
  by (simp add: unat_of_nat take_bit_nat_eq_self)

lemma unat_u16: "n < 65536 \<Longrightarrow> unat (of_nat n :: u16) = n"
  by (simp add: unat_of_nat take_bit_nat_eq_self)

lemma u8_nonzero: "0 < n \<Longrightarrow> n < 256 \<Longrightarrow> (of_nat n :: u8) \<noteq> 0"
  using unat_u8 [of n] by force

text \<open>A block that holds a type and a payload behind the place of the header.\<close>

definition filled :: "u8 \<Rightarrow> u8 list \<Rightarrow> mblock" where
  "filled t bs = \<lparr>mb_mem = [0, 0, 0, 0, t] @ bs, mb_rd = 0, mb_wr = 5 + length bs\<rparr>"

lemma block_copy_into:
  "mb_mem m = pre @ old @ post \<Longrightarrow> mb_wr m = length pre \<Longrightarrow> length old = length bs \<Longrightarrow>
     block_copy bs m = m\<lparr>mb_mem := pre @ bs @ post, mb_wr := length (pre @ bs)\<rparr>"
  by (simp add: block_copy_def)

lemma type_print_filled:
  "et_type t \<noteq> 254 \<Longrightarrow>
     type_print t (block_new (5 + n)) =
       EOk \<lparr>mb_mem = [0, 0, 0, 0, et_type t] @ replicate n 0, mb_rd = 0, mb_wr = 5\<rparr>"
proof -
  have "replicate (5 + n) (0 :: u8) = [0, 0, 0, 0] @ [0] @ replicate n 0"
    using replicate_add [of 5 n 0] by (simp add: numeral_eq_Suc)
  then show "et_type t \<noteq> 254 \<Longrightarrow> ?thesis"
    by (simp add: type_print_def block_copy_into [of _ "[0, 0, 0, 0]" "[0]"] block_new_def)
qed

lemma text_print_filled:
  assumes "et_type t \<noteq> 254" "utf8_checker sc True s"
  shows "text_print sc t s (block_new (5 + length s)) = EOk (filled (et_type t) s)"
  using assms by (simp add: text_print_def type_print_filled filled_def
      block_copy_into [of _ "[0, 0, 0, 0, et_type t]" "replicate (length s) 0" "[]"])

lemma md5_print_filled:
  assumes "v \<noteq> []" "length v < 256"
  shows "md5_print v name (block_new (5 + (length v + 1 + length name)))
    = EOk (filled 4 (of_nat (length v) # v @ name))"
proof -
  let ?n = "of_nat (length v) :: u8"
  have n: "unat ?n = length v" "?n \<noteq> 0"
    using assms by (simp_all add: unat_u8 u8_nonzero)
  have z: "replicate (length v + 1 + length name) (0 :: u8)
      = [0] @ replicate (length v) 0 @ replicate (length name) 0"
    by (simp add: replicate_add)
  have t: "type_print EAP_MD5 (block_new (5 + k))
      = EOk \<lparr>mb_mem = [0, 0, 0, 0, 4] @ replicate k 0, mb_rd = 0, mb_wr = 5\<rparr>" for k
    using type_print_filled [of EAP_MD5 k] by (simp add: EAP_MD5_def EapType_def)
  show ?thesis using n
    unfolding md5_print_def t z
    by (simp add: filled_def Let_def
        block_copy_into [of _ "[0, 0, 0, 0, 4]" "[0]" "replicate (length v) 0 @ replicate (length name) 0"]
          block_copy_into [of _ "[0, 0, 0, 0, 4, ?n]" "replicate (length v) 0" "replicate (length name) 0"]
          block_copy_into [of _ "[0, 0, 0, 0, 4, ?n] @ v" "replicate (length name) 0" "[]"])
qed

text \<open>A composed packet is taken apart again: its header, its type and its payload.\<close>

lemma parse_filled:
  assumes "length bs + 5 < 65536" "t \<noteq> 254"
  obtains h m1 m2 where "header_parse (compose c i (filled t bs)) = EOk (h, m1)"
    "eh_code h = c" "eh_identifier h = i" "unat (eh_length h) = length bs + 5"
    "type_parse sc m1 = EOk (EapType t, m2)"
    "mb_mem m2 = mb_mem (compose c i (filled t bs))" "drop 5 (mb_mem m2) = bs"
    "length (mb_mem m2) = length bs + 5" "mb_rd m2 = 5" "mb_wr m2 = length bs + 5"
proof -
  let ?n = "of_nat (5 + length bs) :: u16"
  let ?p = "compose c i (filled t bs)"
  let ?h = "\<lparr>eh_code = c, eh_identifier = i, eh_length = ?n\<rparr>"
  let ?m1 = "?p\<lparr>mb_rd := 4, mb_wr := unat ?n\<rparr>"
  have n: "unat ?n = length bs + 5" using assms(1) unat_u16 [of "5 + length bs"] by simp
  have mem: "mb_mem ?p = c # i # be16 ?n @ t # bs"
    by (simp add: compose_def header_print_def filled_def block_length_def Let_def)
  have h: "header_parse ?p = EOk (?h, ?m1)"
    by (simp add: header_parse_def mem be16_def)
  have t: "type_parse sc ?m1 = EOk (EapType t, ?m1\<lparr>mb_rd := 5\<rparr>)"
    using assms(2) by (simp add: type_parse_def mem be16_def Let_def)
  show ?thesis
    by (rule that [OF h _ _ _ t]) (use n in \<open>simp_all add: mem be16_def\<close>)
qed

lemma text_parse_back:
  assumes "drop 5 (mb_mem m) = s" "length (mb_mem m) = length s + 5" "mb_rd m = 5"
    "mb_wr m = length s + 5" "utf8_checker sc True s"
  shows "text_parse sc m = EOk s"
  using assms by (simp add: text_parse_def rest_read_def block_read_def utf8_null)

lemma md5_parse_back:
  assumes "drop 5 (mb_mem m) = of_nat (length v) # v @ name" "mb_rd m = 5"
    "length (mb_mem m) = length v + length name + 6" "mb_wr m = length v + length name + 6"
    "v \<noteq> []" "length v < 256" "length name < 32768"
  shows "md5_parse m = EOk (v, name)"
proof -
  let ?n = "of_nat (length v) :: u8"
  have n: "unat ?n = length v" "?n \<noteq> 0" "uint ?n = int (length v)"
    using assms(5,6) unat_u8 [of "length v"] uint_nat [of ?n] by (simp_all add: u8_nonzero)
  have d: "drop 6 (mb_mem m) = v @ name" "drop (6 + length v) (mb_mem m) = name"
    using arg_cong [OF assms(1), of "drop 1"] arg_cong [OF assms(1), of "drop (1 + length v)"]
    by (simp_all add: ac_simps)
  have k: "sint (word_of_int (int (length name)) :: u16) = int (length name)"
    using assms(7) unat_u16 [of "length name"] uint_nat [of "of_nat (length name) :: u16"]
    by (simp add: sint_uint signed_take_bit_int_eq_self)
  show ?thesis
    using assms n k d
    by (simp add: md5_parse_def block_read_def Let_def ac_simps)
qed

end
