(* ===== verification/Eap_Props.thy ===== *)
theory Eap_Props
  imports Eap_Secure_Run Eap_Passthrough Eap_Codec
begin

text \<open>
  What holds of the EAP authenticators and their packets, with concrete sessions.
\<close>

section \<open>Concrete sessions\<close>

text \<open>A digest that depends on every octet, and an environment with all methods.\<close>

definition ex_digest :: "u8 list \<Rightarrow> u8 list" where
  "ex_digest bs = replicate 16 (sum_list bs)"

definition ex_env :: eap_env where
  "ex_env =
     \<lparr>en_signed = True,
      en_table = registerMethod EAP_MD5 RoleAuthenticator AuthMD5
                   (registerMethod EAP_IDENTITY RoleAuthenticator AuthIdentity default_methods),
      en_ProcessIdentity = (\<lambda>i. i \<noteq> []), en_passphrase = [112, 119], en_myName = [97],
      en_md5 = ex_digest, en_random = (\<lambda>n. Some (replicate 16 (7 + of_nat n))),
      en_identity = (\<lambda>n. None)\<rparr>"

definition ex_policy :: policy where
  "ex_policy = Continued EAP_IDENTITY (ContinuedPolicyElement EAP_MD5) FinalFailure"

definition ex_identity_reply :: mblock where
  "ex_identity_reply = block_of [2, 1, 0, 6, 1, 98]"

definition ex_md5_reply :: "u8 list \<Rightarrow> mblock" where
  "ex_md5_reply d = block_of ([2, 2, 0, 22, 4, 16] @ d)"

definition ex_ops :: "u8 list \<Rightarrow> ea_op list" where
  "ex_ops d =
     replicate 4 OpServe @ OpReceive ex_identity_reply # replicate 6 OpServe
     @ OpReceive (ex_md5_reply d) # replicate 3 OpServe"

definition ex_session :: "policy \<Rightarrow> eap_auth" where
  "ex_session p = ea_Start (session_of Standalone PROPOSED (Some p))"

definition ex_answer :: "u8 list" where
  "ex_answer = md5_response ex_env 2 (replicate 16 8)"


lemma ex_env_ok: "md5_registered ex_env" "random_ok ex_env" "covered ex_env ex_policy"
  "needs_md5 ex_policy" "list_all local_op (ex_ops d)"
  by (simp_all add: md5_registered_def ex_env_def registerMethod_def default_methods_def random_ok_def
      eap_type_defs ex_policy_def ContinuedPolicyElement_def registered_def ex_ops_def list_all_iff)

lemma ex_success: "list_ex is_success (sw_out (ea_run ex_env (ex_ops ex_answer) (ex_session ex_policy)))"
  by code_simp

section \<open>The standalone authenticator\<close>

text \<open>C5: A standalone authenticator whose policy reaches success only by way of MD5-Challenge
  reports success only if it has sent a challenge and received the response that carries the
  same identifier and the digest of the identifier, the shared secret and the challenge.\<close>

theorem standalone_success_answered:
  assumes "md5_registered env" "random_ok env" "covered env p" "needs_md5 p" "list_all local_op ops"
    and "w = ea_run env ops (ea_Start (session_of Standalone ms (Some p)))"
    and "OSuccess x \<in> set (sw_out w)"
  shows "\<exists>m i c b. OpReceive m \<in> set ops \<and> OSend (Some b) \<in> set (sw_out w) \<and>
    md5_packet EAP_Request i c (mb_mem b) \<and>
    md5_packet EAP_Response i (md5_response env i c) (mb_mem m)"
proof -
  let ?R = "{m. OpReceive m \<in> set ops}" and ?w0 = "ea_Start (session_of Standalone ms (Some p))"
  have "sa_inv env None ?w0" by (rule sa_Start) (simp add: opt_covered_def assms(3))
  with se_Start [OF assms(4)] have "se_inv env ?R None w"
    unfolding assms(6) by (intro se_run [OF assms(1,2,5)]) auto
  then have "se_done env ?R (sw_out w)" by (auto simp: se_inv_def se_core_def)
  with assms(7) have "matched env ?R (sw_out w)" by (auto simp: se_done_def)
  then show ?thesis by (auto simp: matched_def)
qed

lemma standalone_success_answered_witness:
  "\<exists>m i c b. OpReceive m \<in> set (ex_ops ex_answer) \<and>
     OSend (Some b) \<in> set (sw_out (ea_run ex_env (ex_ops ex_answer) (ex_session ex_policy))) \<and>
     md5_packet EAP_Request i c (mb_mem b) \<and>
     md5_packet EAP_Response i (md5_response ex_env i c) (mb_mem m)"
proof -
  obtain x where
    "OSuccess x \<in> set (sw_out (ea_run ex_env (ex_ops ex_answer) (ex_session ex_policy)))"
    using ex_success by (auto simp: is_success_iff)
  then show ?thesis
    unfolding ex_session_def
    by (rule standalone_success_answered [OF ex_env_ok refl])
qed


definition ex_short_ops :: "ea_op list" where
  "ex_short_ops = replicate 4 OpServe @ [OpReceive (block_of [2, 1, 0]), OpServe]"


lemma ex_short_reads_beyond:
  "sw_fault (ea_run ex_env ex_short_ops (ex_session ex_policy)) = Some Undefined"
  by code_simp

section \<open>All authenticators\<close>

text \<open>C23: Every event of every authenticator and of every method is followed to an end: the
  actions that pass on a further event in the same call do not do so for ever.\<close>

theorem event_chains_end:
  "run_chain (ea_step env) ev w = Some (ea_Event env ev w) \<and>
   run_chain (method_step env) mev w = Some (method_event env mev w)"
  by (simp add: ea_Event_returns method_event_returns)

section \<open>The pass-through authenticator\<close>

text \<open>C21: A pass-through authenticator reports success only if the AAA client has reported it,
  whatever its policy and its methods are and whatever the peer sends.\<close>

theorem passthrough_success_from_aaa:
  assumes "OSuccess x \<in> set (sw_out (ea_run env ops (ea_Start (session_of Passthrough ms p))))"
  shows "list_ex aaa_success_op ops"
proof (rule ccontr)
  assume "\<not> list_ex aaa_success_op ops"
  from pt_run [OF pt_Start this] have "pt_quiet (ea_run env ops (ea_Start (session_of Passthrough ms p)))" .
  then show False using assms unfolding pt_quiet_def is_success_iff by blast
qed

definition ex_aaa_ops :: "ea_op list" where
  "ex_aaa_ops =
     replicate 4 OpServe @ OpReceive ex_identity_reply # replicate 3 OpServe
     @ [OpAaaSuccess (Some (block_of [3, 2, 0, 4])), OpServe]"

definition ex_aaa_session :: eap_auth where
  "ex_aaa_session =
     ea_Start (session_of Passthrough PROPOSED (Some (ContinuedPolicyElement EAP_IDENTITY)))"

lemma ex_aaa_success: "list_ex is_success (sw_out (ea_run ex_env ex_aaa_ops ex_aaa_session))"
  by code_simp

lemma passthrough_success_from_aaa_witness: "list_ex aaa_success_op ex_aaa_ops"
proof -
  obtain x where "OSuccess x \<in> set (sw_out (ea_run ex_env ex_aaa_ops ex_aaa_session))"
    using ex_aaa_success by (auto simp: is_success_iff)
  then show ?thesis unfolding ex_aaa_session_def by (rule passthrough_success_from_aaa)
qed

section \<open>Policies\<close>

text \<open>The element that \<open>AddFailurePolicyElement\<close> puts in place grants access: with it, the
  digest of a wrong secret is as good as the right one.\<close>

definition ex_md5_ops :: "u8 list \<Rightarrow> ea_op list" where
  "ex_md5_ops d =
     replicate 4 OpServe @ OpReceive (block_of ([2, 1, 0, 22, 4, 16] @ d)) # replicate 3 OpServe"

lemma added_failure_is_success:
  "list_ex is_success (sw_out (ea_run ex_env (ex_md5_ops (replicate 16 0))
     (ex_session (AddFailurePolicyElement (ContinuedPolicyElement EAP_MD5)))))"
  by code_simp

lemma unchanged_failure_is_failure:
  "\<not> list_ex is_success (sw_out (ea_run ex_env (ex_md5_ops (replicate 16 0))
     (ex_session (ContinuedPolicyElement EAP_MD5))))"
  by code_simp

section \<open>Packets\<close>

text \<open>Where \<open>char\<close> is signed, the check for UTF-8 passes exactly the texts whose octets are
  between 1 and 127: no text with a character beyond ASCII is ever accepted.\<close>

theorem utf8_check_is_ascii:
  "utf8_checker True nullCheck bs = list_all (\<lambda>b. 1 \<le> b \<and> b \<le> 127) bs"
proof -
  have "b \<noteq> 0 \<and> b < 128 \<longleftrightarrow> 1 \<le> b \<and> b \<le> 127" for b :: u8
    by (simp add: word_le_nat_alt word_less_nat_alt unat_eq_zero [symmetric] del: unat_eq_zero) linarith
  then show ?thesis by (simp add: utf8_signed)
qed

text \<open>An Identity or Notification packet is read back as it was written: its code, its
  identifier, its type and its text, whatever follows the packet in the session.\<close>

theorem text_packet_roundtrip:
  assumes "utf8_checker sc True s" "length s + 5 < 65536" "t \<noteq> 254"
    and "text_print sc (EapType t) s (block_new (5 + length s)) = EOk b"
  shows "\<exists>h m1 m2. header_parse (compose c i b) = EOk (h, m1) \<and> eh_code h = c \<and> eh_identifier h = i \<and>
    unat (eh_length h) = length s + 5 \<and> type_parse sc m1 = EOk (EapType t, m2) \<and>
    text_parse sc m2 = EOk s"
proof -
  have b: "b = filled t s"
    using text_print_filled [of "EapType t" sc s] assms by (simp add: EapType_def)
  obtain h m1 m2 where "header_parse (compose c i b) = EOk (h, m1)" "eh_code h = c"
    "eh_identifier h = i" "unat (eh_length h) = length s + 5" "type_parse sc m1 = EOk (EapType t, m2)"
    "drop 5 (mb_mem m2) = s" "length (mb_mem m2) = length s + 5" "mb_rd m2 = 5" "mb_wr m2 = length s + 5"
    using parse_filled [OF assms(2,3), of c i sc] unfolding b by metis
  then show ?thesis using text_parse_back assms(1) by blast
qed

lemma text_packet_roundtrip_witness:
  "\<exists>h m1 m2. header_parse (compose EAP_Response 7 (filled 1 [98, 111, 98])) = EOk (h, m1) \<and>
    eh_code h = EAP_Response \<and> eh_identifier h = 7 \<and> unat (eh_length h) = length [98, 111, 98 :: u8] + 5 \<and>
    type_parse True m1 = EOk (EapType 1, m2) \<and> text_parse True m2 = EOk [98, 111, 98]"
  by (rule text_packet_roundtrip) (code_simp, simp, simp, code_simp)

text \<open>An MD5-Challenge packet is read back as it was written: its header, its type, the value
  of up to 255 octets, and the name.\<close>

theorem md5_packet_roundtrip:
  assumes "v \<noteq> []" "length v < 256" "length name < 32768"
    and "md5_print v name (block_new (5 + (length v + 1 + length name))) = EOk b"
  shows "\<exists>h m1 m2. header_parse (compose c i b) = EOk (h, m1) \<and> eh_code h = c \<and> eh_identifier h = i \<and>
    unat (eh_length h) = length v + length name + 6 \<and> type_parse sc m1 = EOk (EAP_MD5, m2) \<and>
    md5_parse m2 = EOk (v, name)"
proof -
  let ?bs = "of_nat (length v) # v @ name"
  have b: "b = filled 4 ?bs" using md5_print_filled [OF assms(1,2), of name] assms(4) by simp
  have len: "length ?bs + 5 < 65536" "(4 :: u8) \<noteq> 254" using assms(2,3) by simp_all
  obtain h m1 m2 where r: "header_parse (compose c i b) = EOk (h, m1)" "eh_code h = c"
    "eh_identifier h = i" "unat (eh_length h) = length ?bs + 5" "type_parse sc m1 = EOk (EapType 4, m2)"
    "drop 5 (mb_mem m2) = ?bs" "length (mb_mem m2) = length ?bs + 5" "mb_rd m2 = 5"
    "mb_wr m2 = length ?bs + 5"
    using parse_filled [OF len, of c i sc] unfolding b by metis
  then have "md5_parse m2 = EOk (v, name)"
    using assms by (intro md5_parse_back) simp_all
  with r show ?thesis by (auto simp: EAP_MD5_def)
qed

lemma md5_packet_roundtrip_witness:
  "\<exists>h m1 m2. header_parse (compose EAP_Request 1 (filled 4 [2, 9, 8, 97])) = EOk (h, m1) \<and>
    eh_code h = EAP_Request \<and> eh_identifier h = 1 \<and>
    unat (eh_length h) = length [9, 8 :: u8] + length [97 :: u8] + 6 \<and>
    type_parse True m1 = EOk (EAP_MD5, m2) \<and> md5_parse m2 = EOk ([9, 8], [97])"
  by (rule md5_packet_roundtrip) (simp, simp, simp, code_simp)

end
