(* ===== verification/Acct_Session.thy ===== *)
theory Acct_Session
  imports Auth_Session
begin

text \<open>
  What the client and the server side of an accounting session share: states, events and
  attributes, the call-backs of the application, the observable effects and the delivery of
  a message (\<open>libdiameter/include/aaa_session_acct_fsm.h\<close>, \<open>aaa_session.h\<close>,
  \<open>aaa_session_attributes.h\<close>).  The common attributes and the resolution of the parties
  of a message are those of \<open>Auth_Session\<close>.
\<close>

section \<open>States, events and constants\<close>

datatype acct_st =
    CST_IDLE | CST_OPEN | CST_PENDING_S | CST_PENDING_I | CST_PENDING_E | CST_PENDING_B
  | CST_PENDING_L

datatype acct_ev =
    CEV_REQUEST_ACCESS | CEV_REQUEST_ONETIME_ACCESS | CEV_REC_IN_STORAGE | CEV_RX_ACA_OK
  | CEV_FTS_NOT_DAG | CEV_FTS_AND_GAL | CEV_FTS_NOT_GAL | CEV_RX_ACA_FAIL_AND_GAL
  | CEV_RX_ACA_FAIL_NOT_GAL | CEV_INT_EXPIRE | CEV_RX_ACA_FAIL | CEV_FTS | CEV_FTS_BUF
  | CEV_FTS_NO_BUF | CEV_RX_ACR_START_OK | CEV_RX_ACR_EV_OK | CEV_RX_ACR_INT_OK
  | CEV_RX_ACR_STOP_OK | CEV_RX_ACR_NO_BUF | CEV_SESSION_TOUT | CEV_STOP

definition RECTYPE_EVENT :: u32 where "RECTYPE_EVENT = 1"
definition RECTYPE_START :: u32 where "RECTYPE_START = 2"
definition RECTYPE_INTERIM :: u32 where "RECTYPE_INTERIM = 3"
definition RECTYPE_STOP :: u32 where "RECTYPE_STOP = 4"
definition DELIVER_AND_GRANT :: u32 where "DELIVER_AND_GRANT = 1"
definition GRANT_AND_STORE :: u32 where "GRANT_AND_STORE = 2"
definition GRANT_AND_LOSE :: u32 where "GRANT_AND_LOSE = 3"
definition TIMER_INTERVAL :: int where "TIMER_INTERVAL = 4"
definition ACCT_OUT_OF_SPACE :: u32 where "ACCT_OUT_OF_SPACE = 4002"

lemmas rectype_defs = RECTYPE_EVENT_def RECTYPE_START_def RECTYPE_INTERIM_def RECTYPE_STOP_def
lemmas realtime_defs = DELIVER_AND_GRANT_def GRANT_AND_STORE_def GRANT_AND_LOSE_def

section \<open>Attributes\<close>

record acct_attrs = sess_attrs +
  aa_SubSessionId :: "64 word"
  aa_RealtimeRequired :: negotiated
  aa_InterimInterval :: negotiated
  aa_RecordType :: u32
  aa_RecordNumber :: u32
  aa_RadiusAcctSessionId :: "string option"
  aa_MultiSessionId :: "string option"
  aa_BackwardCompatibility :: bool

record acct_config =
  cc_sessionTm :: u32
  cc_recIntervalTm :: u32
  cc_realtime :: u32

text \<open>
  The constructor leaves the number of the sub-session uninitialised: \<open>junk\<close> is what the
  memory holds.
\<close>

definition new_acct_attrs :: "acct_config \<Rightarrow> u32 \<Rightarrow> 64 word \<Rightarrow> acct_attrs" where
  "new_acct_attrs c app junk =
     \<lparr>at_SessionId = sid_empty, at_LastTxHopId = 0, at_LastTxEndId = 0, at_LastRxHopId = 0,
      at_LastRxEndId = 0, at_ApplicationId = app, at_DestinationHost = None,
      at_DestinationRealm = None, at_Username = None,
      at_SessionTimeout = \<lparr>neg_value = cc_sessionTm c, isNegotiated = False\<rparr>,
      aa_SubSessionId = junk,
      aa_RealtimeRequired = \<lparr>neg_value = cc_realtime c, isNegotiated = False\<rparr>,
      aa_InterimInterval = \<lparr>neg_value = cc_recIntervalTm c, isNegotiated = False\<rparr>,
      aa_RecordType = RECTYPE_EVENT, aa_RecordNumber = 0, aa_RadiusAcctSessionId = None,
      aa_MultiSessionId = None, aa_BackwardCompatibility = False\<rparr>"

record acct_app = sess_app +
  app_SetRealTimeRequired :: "u32 option"
  app_SetInterimInterval :: "u32 option"
  app_SetRadiusAcctSessionId :: "string option"
  app_SetMultiSessionId :: "string option"

text \<open>What a session runs in; each side extends it.\<close>

record acct_env =
  ce_cfg :: dia_config
  ce_acct :: acct_config
  ce_app :: acct_app
  ce_routed :: "diameter_msg \<Rightarrow> bool"
  ce_platform :: platform

section \<open>A session\<close>

text \<open>
  Observable calls: of the router, of the collector or the storage of records, of the
  application and of the session data base.
\<close>

datatype acct_effect =
    AcRouted diameter_msg
  | AcNoRealm diameter_msg
  | AcDiscarded diameter_msg
  | AcGenerated u32 u32
  | AcStoredLast u32
  | AcDeletedLast u32
  | AcStoreRecord acl u32 u32
  | AcSuccess
  | AcFailed u32
  | AcSessionTimeout
  | AcError diameter_msg
  | AcDbRemove session_id
  | AcScheduledForDeletion

record 'c acct_session =
  ac_state :: acct_st
  ac_running :: bool
  ac_timers :: "acct_ev timers"
  ac_attrs :: acct_attrs
  ac_records :: 'c
  ac_PendingMsg :: "diameter_msg option"
  ac_idgen :: id_gen
  ac_effects :: "acct_effect list"
  ac_fault :: bool

definition ac_emit :: "acct_effect \<Rightarrow> 'c acct_session \<Rightarrow> 'c acct_session" where
  "ac_emit e s = s\<lparr>ac_effects := ac_effects s @ [e]\<rparr>"

definition ac_upd :: "(acct_attrs \<Rightarrow> acct_attrs) \<Rightarrow> 'c acct_session \<Rightarrow> 'c acct_session" where
  "ac_upd f s = s\<lparr>ac_attrs := f (ac_attrs s)\<rparr>"

definition ac_cancel_all :: "'c acct_session \<Rightarrow> 'c acct_session" where
  "ac_cancel_all s = s\<lparr>ac_timers := CancelAllTimer (ac_timers s)\<rparr>"

definition ac_schedule :: "acct_ev \<Rightarrow> u32 \<Rightarrow> int \<Rightarrow> 'c acct_session \<Rightarrow> 'c acct_session" where
  "ac_schedule ev sec ty s = s\<lparr>ac_timers := ScheduleTimer ev (unat sec) ty (ac_timers s)\<rparr>"

definition set_ac_state :: "acct_st \<Rightarrow> 'c acct_session \<Rightarrow> 'c acct_session" where
  "set_ac_state st s = s\<lparr>ac_state := st\<rparr>"

definition neg_assign :: "u32 \<Rightarrow> negotiated \<Rightarrow> negotiated" where
  "neg_assign v n = n\<lparr>neg_value := v\<rparr>"

definition new_acct_session ::
    "acct_config \<Rightarrow> u32 \<Rightarrow> 64 word \<Rightarrow> id_gen \<Rightarrow> 'c \<Rightarrow> 'c acct_session" where
  "new_acct_session c app junk g r =
     \<lparr>ac_state = CST_IDLE, ac_running = False, ac_timers = Map.empty,
      ac_attrs = new_acct_attrs c app junk, ac_records = r, ac_PendingMsg = None, ac_idgen = g,
      ac_effects = [], ac_fault = False\<rparr>"

section \<open>Messages\<close>

definition Acct_MsgIdRx :: "diameter_msg \<Rightarrow> 'c acct_session \<Rightarrow> 'c acct_session" where
  "Acct_MsgIdRx msg = ac_upd (attrs_MsgIdRx msg)"

definition Acct_TxDelivery ::
    "'e acct_env_scheme \<Rightarrow> diameter_msg \<Rightarrow> 'c acct_session \<Rightarrow> aaa_rc \<times> 'c acct_session" where
  "Acct_TxDelivery env m s =
     (case deliver (ce_cfg env) (ce_app env) m (ac_attrs s) (ac_idgen s) of
        (Inl m1, a, g) \<Rightarrow>
          (AAA_ERR_FAILURE, ac_emit (AcNoRealm m1) (s\<lparr>ac_attrs := a, ac_idgen := g\<rparr>))
      | (Inr m1, a, g) \<Rightarrow>
          (if ce_routed env m1 then AAA_ERR_SUCCESS else AAA_ERR_FAILURE,
           ac_emit (AcRouted m1) (s\<lparr>ac_attrs := a, ac_idgen := g\<rparr>)))"

definition acct_base :: "bool \<Rightarrow> acct_attrs \<Rightarrow> acl \<Rightarrow> diameter_msg" where
  "acct_base request a l =
     (let m = SessionId_Set (at_SessionId a)
                (MsgWidget MSG_ACCOUNTING request (at_ApplicationId a))
      in m\<lparr>acl := acl m @ l\<rparr>)"

definition acct_origin :: "dia_config \<Rightarrow> acl" where
  "acct_origin cfg =
     [(''OriginHost'', [AStr (cfg_identity cfg)]), (''OriginRealm'', [AStr (cfg_realm cfg)])]"

definition acct_ids :: "acct_attrs \<Rightarrow> acl" where
  "acct_ids a =
     [(''AcctApplicationId'', [AU32 (at_ApplicationId a)]),
      (''AccountingSubSessionId'', [AU64 (aa_SubSessionId a)])]"

definition acct_terms :: "acct_attrs \<Rightarrow> acl" where
  "acct_terms a =
     [(''AccountingRealtimeRequired'', [AU32 (neg_value (aa_RealtimeRequired a))]),
      (''AcctInterimInterval'', [AU32 (neg_value (aa_InterimInterval a))])]"

definition acct_optional :: "acct_attrs \<Rightarrow> acl" where
  "acct_optional a =
     optional_str ''AcctSessionId'' (aa_RadiusAcctSessionId a)
      @ optional_str ''AcctMultiSessionId'' (aa_MultiSessionId a)
      @ optional_str ''UserName'' (at_Username a)"

definition ACR_msg :: "dia_config \<Rightarrow> acct_attrs \<Rightarrow> diameter_msg" where
  "ACR_msg cfg a =
     acct_base True a
       (acct_origin cfg
        @ [(''AccountingRecordNumber'', [AU32 (aa_RecordNumber a)]),
           (''AccountingRecordType'', [AU32 (aa_RecordType a)])]
        @ acct_ids a @ acct_terms a @ acct_optional a
        @ optional_str ''DestinationHost'' (at_DestinationHost a)
        @ [(''OriginStateId'', [AU32 (cfg_originStateId cfg)])])"

definition ACA_msg :: "dia_config \<Rightarrow> u32 \<Rightarrow> acct_attrs \<Rightarrow> diameter_msg" where
  "ACA_msg cfg rcode a =
     acct_base False a
       ([(''ResultCode'', [AU32 rcode])]
        @ acct_origin cfg
        @ [(''AccountingRecordType'', [AU32 (aa_RecordType a)]),
           (''AccountingRecordNumber'', [AU32 (aa_RecordNumber a)])]
        @ acct_ids a
        @ [(''ErrorReportingHost'', [AStr (cfg_identity cfg)])]
        @ acct_terms a @ acct_optional a
        @ [(''OriginStateId'', [AU32 (cfg_originStateId cfg)])])"

section \<open>Frame facts\<close>

lemma ac_update_simps [effect_simps]:
  "ac_state (ac_emit e s) = ac_state s" "ac_running (ac_emit e s) = ac_running s"
  "ac_timers (ac_emit e s) = ac_timers s" "ac_attrs (ac_emit e s) = ac_attrs s"
  "ac_records (ac_emit e s) = ac_records s" "ac_PendingMsg (ac_emit e s) = ac_PendingMsg s"
  "ac_fault (ac_emit e s) = ac_fault s" "ac_effects (ac_emit e s) = ac_effects s @ [e]"
  "ac_state (ac_upd f s) = ac_state s" "ac_running (ac_upd f s) = ac_running s"
  "ac_timers (ac_upd f s) = ac_timers s" "ac_attrs (ac_upd f s) = f (ac_attrs s)"
  "ac_records (ac_upd f s) = ac_records s" "ac_PendingMsg (ac_upd f s) = ac_PendingMsg s"
  "ac_fault (ac_upd f s) = ac_fault s" "ac_effects (ac_upd f s) = ac_effects s"
  by (simp_all add: ac_emit_def ac_upd_def)

lemma ac_timer_simps [effect_simps]:
  "ac_state (ac_cancel_all s) = ac_state s" "ac_running (ac_cancel_all s) = ac_running s"
  "ac_timers (ac_cancel_all s) = Map.empty" "ac_attrs (ac_cancel_all s) = ac_attrs s"
  "ac_records (ac_cancel_all s) = ac_records s"
  "ac_PendingMsg (ac_cancel_all s) = ac_PendingMsg s" "ac_fault (ac_cancel_all s) = ac_fault s"
  "ac_effects (ac_cancel_all s) = ac_effects s"
  "ac_state (ac_schedule ev sec ty s) = ac_state s"
  "ac_running (ac_schedule ev sec ty s) = ac_running s"
  "ac_timers (ac_schedule ev sec ty s) = (ac_timers s)(ty \<mapsto> (ev, unat sec))"
  "ac_attrs (ac_schedule ev sec ty s) = ac_attrs s"
  "ac_records (ac_schedule ev sec ty s) = ac_records s"
  "ac_PendingMsg (ac_schedule ev sec ty s) = ac_PendingMsg s"
  "ac_fault (ac_schedule ev sec ty s) = ac_fault s"
  "ac_effects (ac_schedule ev sec ty s) = ac_effects s"
  by (simp_all add: ac_cancel_all_def ac_schedule_def CancelAllTimer_def ScheduleTimer_def
      CancelTimer_def)

lemma set_ac_state_simps [effect_simps]:
  "ac_state (set_ac_state st s) = st" "ac_running (set_ac_state st s) = ac_running s"
  "ac_timers (set_ac_state st s) = ac_timers s" "ac_attrs (set_ac_state st s) = ac_attrs s"
  "ac_records (set_ac_state st s) = ac_records s"
  "ac_PendingMsg (set_ac_state st s) = ac_PendingMsg s"
  "ac_fault (set_ac_state st s) = ac_fault s" "ac_effects (set_ac_state st s) = ac_effects s"
  by (simp_all add: set_ac_state_def)

lemma deliver_same: "deliver cfg app m a g = (r, a', g') \<Longrightarrow> same_attrs a a'"
proof (cases r)
  case (Inl m1)
  assume d: "deliver cfg app m a g = (r, a', g')"
  obtain m1 a1 where 1: "resolve_host app m a = (m1, a1)" by fastforce
  have "a' = a1" using d Inl
    by (auto simp: deliver_def 1 Let_def split: option.splits prod.splits)
  then show ?thesis using resolve_same(1) [OF 1] by simp
qed (use deliver_routes(3) in blast)

lemma acct_same: "same_attrs a (b :: acct_attrs) \<Longrightarrow>
    aa_SubSessionId b = aa_SubSessionId a \<and> aa_RealtimeRequired b = aa_RealtimeRequired a \<and>
    aa_InterimInterval b = aa_InterimInterval a \<and> aa_RecordType b = aa_RecordType a \<and>
    aa_RecordNumber b = aa_RecordNumber a \<and> at_SessionId b = at_SessionId a \<and>
    at_SessionTimeout b = at_SessionTimeout a \<and>
    aa_BackwardCompatibility b = aa_BackwardCompatibility a"
  by (cases a; cases b) (simp add: same_attrs_def)

text \<open>A delivery changes only the parties and the identifiers of the last message.\<close>

lemma Acct_TxDelivery_frame [effect_simps]:
  "ac_state (snd (Acct_TxDelivery env m s)) = ac_state s"
  "ac_running (snd (Acct_TxDelivery env m s)) = ac_running s"
  "ac_timers (snd (Acct_TxDelivery env m s)) = ac_timers s"
  "ac_records (snd (Acct_TxDelivery env m s)) = ac_records s"
  "ac_PendingMsg (snd (Acct_TxDelivery env m s)) = ac_PendingMsg s"
  "ac_fault (snd (Acct_TxDelivery env m s)) = ac_fault s"
  by (simp_all add: Acct_TxDelivery_def effect_simps split: prod.splits sum.splits)

lemma Acct_TxDelivery_same:
  "same_attrs (ac_attrs s) (ac_attrs (snd (Acct_TxDelivery env m s)))"
  by (auto simp: Acct_TxDelivery_def effect_simps dest: deliver_same split: prod.splits sum.splits)

lemma Acct_TxDelivery_effects:
  "\<exists>m'. ac_effects (snd (Acct_TxDelivery env m s)) = ac_effects s @ [AcRouted m'] \<or>
     ac_effects (snd (Acct_TxDelivery env m s)) = ac_effects s @ [AcNoRealm m']"
  by (auto simp: Acct_TxDelivery_def effect_simps split: prod.splits sum.splits)

lemma Acct_MsgIdRx_frame [effect_simps]:
  "ac_state (Acct_MsgIdRx m s) = ac_state s" "ac_running (Acct_MsgIdRx m s) = ac_running s"
  "ac_timers (Acct_MsgIdRx m s) = ac_timers s" "ac_records (Acct_MsgIdRx m s) = ac_records s"
  "ac_PendingMsg (Acct_MsgIdRx m s) = ac_PendingMsg s" "ac_fault (Acct_MsgIdRx m s) = ac_fault s"
  "ac_effects (Acct_MsgIdRx m s) = ac_effects s"
  by (simp_all add: Acct_MsgIdRx_def effect_simps)

end
