(* ===== verification/Acct_Client.thy ===== *)
theory Acct_Client
  imports Acct_Session
begin

text \<open>
  The client side of accounting: the state table and the actions of a sub-session
  (\<open>libdiameter/include/aaa_session_acct_client_fsm.h\<close>,
  \<open>src/aaa_session_acct_client_fsm.cxx\<close>), its operations
  (\<open>include/aaa_session_client.inl\<close>) and the session that holds the sub-sessions and
  hands them their messages (\<open>src/aaa_session_client.cxx\<close>).
\<close>

section \<open>The collector of records\<close>

text \<open>
  The class that the application provides, over a state of its own.
\<close>

record 'c rec_collector =
  rec_GenerateRecord :: "acl \<Rightarrow> u32 \<Rightarrow> u32 \<Rightarrow> 'c \<Rightarrow> acl \<times> 'c"
  rec_IsLastRecordInStorage :: "'c \<Rightarrow> bool"
  rec_IsStorageSpaceAvailable :: "'c \<Rightarrow> bool"
  rec_StoreLastRecord :: "u32 \<Rightarrow> 'c \<Rightarrow> 'c"
  rec_DeleteLastRecord :: "u32 \<Rightarrow> 'c \<Rightarrow> 'c"

record 'c acct_cenv = acct_env +
  ce_collector :: "'c rec_collector"

section \<open>State table\<close>

datatype acct_ac =
    ACC_Null
  | ACC_TxACR
  | ACC_InterimTimout
  | ACC_RxACA_Success
  | ACC_StartIntTimer
  | ACC_StoreRecord u32
  | ACC_DeleteRecord
  | ACC_Disconnect

definition acct_cmds_IDLE :: "(acct_st, acct_ev, acct_ac) table_cmd list" where
  "acct_cmds_IDLE = [
     Add CST_IDLE CEV_REQUEST_ACCESS CST_PENDING_S ACC_TxACR,
     Add CST_IDLE CEV_REQUEST_ONETIME_ACCESS CST_PENDING_E ACC_TxACR,
     Add CST_IDLE CEV_REC_IN_STORAGE CST_PENDING_B ACC_TxACR,
     AddWildcard CST_IDLE CST_IDLE ACC_Null]"

definition acct_cmds_PENDING_S :: "(acct_st, acct_ev, acct_ac) table_cmd list" where
  "acct_cmds_PENDING_S = [
     Add CST_PENDING_S CEV_RX_ACA_OK CST_OPEN ACC_RxACA_Success,
     Add CST_PENDING_S CEV_FTS_NOT_DAG CST_OPEN (ACC_StoreRecord RECTYPE_START),
     Add CST_PENDING_S CEV_FTS_AND_GAL CST_OPEN ACC_StartIntTimer,
     Add CST_PENDING_S CEV_FTS_NOT_GAL CST_IDLE ACC_Disconnect,
     Add CST_PENDING_S CEV_RX_ACA_FAIL_AND_GAL CST_OPEN ACC_StartIntTimer,
     Add CST_PENDING_S CEV_RX_ACA_FAIL_NOT_GAL CST_IDLE ACC_Disconnect,
     Add CST_PENDING_S CEV_STOP CST_PENDING_S (ACC_StoreRecord RECTYPE_STOP),
     AddWildcard CST_PENDING_S CST_PENDING_S ACC_Null]"

definition acct_cmds_OPEN :: "(acct_st, acct_ev, acct_ac) table_cmd list" where
  "acct_cmds_OPEN = [
     Add CST_OPEN CEV_INT_EXPIRE CST_PENDING_I ACC_InterimTimout,
     Add CST_OPEN CEV_STOP CST_PENDING_L ACC_TxACR,
     AddWildcard CST_OPEN CST_OPEN ACC_Null]"

definition acct_cmds_PENDING_I :: "(acct_st, acct_ev, acct_ac) table_cmd list" where
  "acct_cmds_PENDING_I = [
     Add CST_PENDING_I CEV_RX_ACA_OK CST_OPEN ACC_RxACA_Success,
     Add CST_PENDING_I CEV_FTS_NOT_DAG CST_OPEN (ACC_StoreRecord RECTYPE_INTERIM),
     Add CST_PENDING_I CEV_FTS_AND_GAL CST_OPEN ACC_StartIntTimer,
     Add CST_PENDING_I CEV_FTS_NOT_GAL CST_IDLE ACC_Disconnect,
     Add CST_PENDING_I CEV_RX_ACA_FAIL_AND_GAL CST_OPEN ACC_StartIntTimer,
     Add CST_PENDING_I CEV_RX_ACA_FAIL_NOT_GAL CST_IDLE ACC_Disconnect,
     Add CST_PENDING_I CEV_STOP CST_PENDING_I (ACC_StoreRecord RECTYPE_STOP),
     AddWildcard CST_PENDING_I CST_PENDING_I ACC_Null]"

definition acct_cmds_last :: "(acct_st, acct_ev, acct_ac) table_cmd list" where
  "acct_cmds_last = [
     Add CST_PENDING_E CEV_RX_ACA_OK CST_IDLE ACC_RxACA_Success,
     Add CST_PENDING_E CEV_FTS_BUF CST_IDLE (ACC_StoreRecord RECTYPE_EVENT),
     Add CST_PENDING_E CEV_FTS_NO_BUF CST_IDLE ACC_Null,
     Add CST_PENDING_E CEV_RX_ACA_FAIL CST_IDLE ACC_Null,
     AddWildcard CST_PENDING_E CST_PENDING_E ACC_Null,
     Add CST_PENDING_B CEV_RX_ACA_OK CST_IDLE ACC_RxACA_Success,
     Add CST_PENDING_B CEV_FTS CST_IDLE ACC_Null,
     Add CST_PENDING_B CEV_RX_ACA_FAIL CST_IDLE ACC_DeleteRecord,
     AddWildcard CST_PENDING_B CST_PENDING_B ACC_Null,
     Add CST_PENDING_L CEV_RX_ACA_OK CST_IDLE ACC_RxACA_Success,
     Add CST_PENDING_L CEV_FTS_BUF CST_IDLE (ACC_StoreRecord RECTYPE_STOP),
     Add CST_PENDING_L CEV_FTS_NO_BUF CST_IDLE ACC_Null,
     Add CST_PENDING_L CEV_RX_ACA_FAIL CST_IDLE ACC_Null,
     AddWildcard CST_PENDING_L CST_PENDING_L ACC_Null,
     Init CST_IDLE]"

definition acct_cmds :: "(acct_st, acct_ev, acct_ac) table_cmd list" where
  "acct_cmds =
     acct_cmds_IDLE @ acct_cmds_PENDING_S @ acct_cmds_OPEN @ acct_cmds_PENDING_I @ acct_cmds_last"

lemmas acct_cmds_defs = acct_cmds_def acct_cmds_IDLE_def acct_cmds_PENDING_S_def
  acct_cmds_OPEN_def acct_cmds_PENDING_I_def acct_cmds_last_def

definition acct_table :: "(acct_st, acct_ev, acct_ac) state_table" where
  "acct_table = (case build_table acct_cmds of Inr t \<Rightarrow> t | Inl _ \<Rightarrow> empty_table)"

lemma build_acct_cmds: "\<not> isl (build_table acct_cmds)"
  by code_simp

lemma acct_table_built: "build_table acct_cmds = Inr acct_table"
  using build_acct_cmds by (cases "build_table acct_cmds") (simp_all add: acct_table_def)

lemma wf_acct_table: "wf_table acct_table"
  using acct_table_built by (rule wf_build_table)

lemma acct_entries: "entries acct_table = concat (map cmd_entries acct_cmds)"
  using acct_table_built by (rule build_table_entries)

section \<open>Actions\<close>

text \<open>
  The event for a record that cannot be sent; the record may be the last one of a session.
\<close>

definition acct_fts_event :: "'c acct_cenv \<Rightarrow> 'c acct_session \<Rightarrow> acct_ev" where
  "acct_fts_event env s =
     (let rec = ce_collector env; a = ac_attrs s in
      if rec_IsLastRecordInStorage rec (ac_records s) then CEV_FTS
      else if aa_RecordType a = RECTYPE_EVENT \<or> aa_RecordType a = RECTYPE_STOP then
        (if rec_IsStorageSpaceAvailable rec (ac_records s) then CEV_FTS_BUF else CEV_FTS_NO_BUF)
      else if rec_IsStorageSpaceAvailable rec (ac_records s)
              \<and> neg_value (aa_RealtimeRequired a) \<noteq> DELIVER_AND_GRANT then CEV_FTS_NOT_DAG
      else if neg_value (aa_RealtimeRequired a) = GRANT_AND_LOSE then CEV_FTS_AND_GAL
      else CEV_FTS_NOT_GAL)"

definition acct_failed :: "'c acct_session \<Rightarrow> 'c acct_session" where
  "acct_failed s = ac_emit (AcFailed (aa_RecordNumber (ac_attrs s))) s"

text \<open>The part that \<open>TxACR\<close> and \<open>Send\<close> share.\<close>

definition acct_transmit ::
    "(acct_ev \<Rightarrow> 'c acct_session \<Rightarrow> 'c acct_session) \<Rightarrow> 'c acct_cenv \<Rightarrow> diameter_msg
      \<Rightarrow> 'c acct_session \<Rightarrow> 'c acct_session" where
  "acct_transmit notify env m s =
     (case Acct_TxDelivery env m s of
        (rc, s1) \<Rightarrow>
          if rc \<noteq> AAA_ERR_SUCCESS then acct_failed (notify (acct_fts_event env s1) s1) else s1)"

definition acct_generate ::
    "'c acct_cenv \<Rightarrow> acl \<Rightarrow> 'c acct_session \<Rightarrow> acl \<times> 'c acct_session" where
  "acct_generate env l s =
     (let a = ac_attrs s in
      case rec_GenerateRecord (ce_collector env) l (aa_RecordType a) (aa_RecordNumber a)
             (ac_records s) of
        (l', c) \<Rightarrow>
          (l', ac_emit (AcGenerated (aa_RecordType a) (aa_RecordNumber a)) (s\<lparr>ac_records := c\<rparr>)))"

definition TxACR ::
    "(acct_ev \<Rightarrow> 'c acct_session \<Rightarrow> 'c acct_session) \<Rightarrow> 'c acct_cenv \<Rightarrow> 'c acct_session
      \<Rightarrow> 'c acct_session" where
  "TxACR notify env s =
     (let s1 = ac_upd (\<lambda>a. a\<lparr>aa_RecordNumber := aa_RecordNumber a + 1\<rparr>) s in
      if aa_BackwardCompatibility (ac_attrs s) then snd (acct_generate env [] s1)
      else
        (let m = ACR_msg (ce_cfg env) (ac_attrs s1);
             (l, s2) = acct_generate env (acl m) s1
         in acct_transmit notify env (m\<lparr>acl := l\<rparr>) s2))"

text \<open>Beside the identifiers, what an answer carries is written to the log only.\<close>

definition RxACA :: "diameter_msg \<Rightarrow> 'c acct_session \<Rightarrow> 'c acct_session" where
  "RxACA msg s = Acct_MsgIdRx msg s"

definition acct_interim_timer :: "'c acct_session \<Rightarrow> 'c acct_session" where
  "acct_interim_timer s =
     ac_schedule CEV_INT_EXPIRE (neg_value (aa_InterimInterval (ac_attrs s))) TIMER_INTERVAL s"

definition running_type :: "u32 \<Rightarrow> bool" where
  "running_type t \<longleftrightarrow> t = RECTYPE_START \<or> t = RECTYPE_INTERIM"

definition delete_last :: "'c acct_cenv \<Rightarrow> 'c acct_session \<Rightarrow> 'c acct_session" where
  "delete_last env s =
     (let t = aa_RecordType (ac_attrs s) in
      ac_emit (AcDeletedLast t)
        (s\<lparr>ac_records := rec_DeleteLastRecord (ce_collector env) t (ac_records s)\<rparr>))"

definition store_last :: "'c acct_cenv \<Rightarrow> u32 \<Rightarrow> 'c acct_session \<Rightarrow> 'c acct_session" where
  "store_last env t s =
     ac_emit (AcStoredLast t)
       (s\<lparr>ac_records := rec_StoreLastRecord (ce_collector env) t (ac_records s)\<rparr>)"

fun acct_action ::
    "(acct_ev \<Rightarrow> 'c acct_session \<Rightarrow> 'c acct_session) \<Rightarrow> 'c acct_cenv \<Rightarrow> acct_ac
      \<Rightarrow> 'c acct_session \<Rightarrow> 'c acct_session" where
  "acct_action notify env ACC_Null s = s"
| "acct_action notify env ACC_TxACR s = TxACR notify env (ac_cancel_all s)"
| "acct_action notify env ACC_InterimTimout s =
     TxACR notify env (ac_upd (\<lambda>a. a\<lparr>aa_RecordType := RECTYPE_INTERIM\<rparr>) (ac_cancel_all s))"
| "acct_action notify env ACC_RxACA_Success s =
     ac_emit AcSuccess
       (if rec_IsLastRecordInStorage (ce_collector env) (ac_records s) then delete_last env s
        else if running_type (aa_RecordType (ac_attrs s)) then acct_interim_timer (ac_cancel_all s)
        else s)"
| "acct_action notify env ACC_StartIntTimer s =
     (let s1 = ac_cancel_all s in
      ac_schedule CEV_SESSION_TOUT (neg_value (at_SessionTimeout (ac_attrs s1))) TIMER_SESSION s1)"
| "acct_action notify env (ACC_StoreRecord t) s =
     (let s1 = store_last env t (ac_cancel_all s) in
      if running_type t then acct_interim_timer s1 else s1)"
| "acct_action notify env ACC_DeleteRecord s = delete_last env s"
| "acct_action notify env ACC_Disconnect s = ac_cancel_all s"

text \<open>
  The notification of an event.  An action may notify another event; the number bounds the
  nesting, and exceeding it counts as a fault.
\<close>

primrec acct_event :: "nat \<Rightarrow> 'c acct_cenv \<Rightarrow> acct_ev \<Rightarrow> 'c acct_session \<Rightarrow> 'c acct_session" where
  "acct_event 0 env = (\<lambda>ev s. s\<lparr>ac_fault := True\<rparr>)"
| "acct_event (Suc n) env =
     (\<lambda>ev s. sm_event acct_table ac_running ac_state set_ac_state
        (acct_action (acct_event n env) env) ev s)"

definition Acct_Notify :: "'c acct_cenv \<Rightarrow> acct_ev \<Rightarrow> 'c acct_session \<Rightarrow> 'c acct_session" where
  "Acct_Notify = acct_event 2"

section \<open>Operations of a sub-session\<close>

definition assign_some :: "u32 option \<Rightarrow> negotiated \<Rightarrow> negotiated" where
  "assign_some v n = (case v of None \<Rightarrow> n | Some x \<Rightarrow> neg_assign x n)"

text \<open>
  The application's multi-session identifier only decides whether that of RADIUS is copied.
\<close>

definition acct_begin_attrs :: "acct_app \<Rightarrow> acct_attrs \<Rightarrow> acct_attrs" where
  "acct_begin_attrs app a =
     (let rsid = app_SetRadiusAcctSessionId app in
      a\<lparr>aa_RadiusAcctSessionId := (if rsid \<noteq> None then rsid else aa_RadiusAcctSessionId a),
        aa_MultiSessionId := (if app_SetMultiSessionId app \<noteq> None then rsid
                              else aa_MultiSessionId a),
        aa_RealtimeRequired := assign_some (app_SetRealTimeRequired app) (aa_RealtimeRequired a),
        aa_InterimInterval := assign_some (app_SetInterimInterval app) (aa_InterimInterval a)\<rparr>)"

definition set_RecordType :: "u32 \<Rightarrow> 'c acct_session \<Rightarrow> 'c acct_session" where
  "set_RecordType t = ac_upd (\<lambda>a. a\<lparr>aa_RecordType := t\<rparr>)"

definition Acct_Begin :: "'c acct_cenv \<Rightarrow> bool \<Rightarrow> 'c acct_session \<Rightarrow> 'c acct_session" where
  "Acct_Begin env oneTime s =
     (let s1 = ac_upd (acct_begin_attrs (ce_app env)) s in
      if rec_IsLastRecordInStorage (ce_collector env) (ac_records s1)
      then Acct_Notify env CEV_REC_IN_STORAGE s1
      else if oneTime
      then Acct_Notify env CEV_REQUEST_ONETIME_ACCESS (set_RecordType RECTYPE_EVENT s1)
      else Acct_Notify env CEV_REQUEST_ACCESS (set_RecordType RECTYPE_START s1))"

definition Acct_Send :: "'c acct_cenv \<Rightarrow> diameter_msg \<Rightarrow> 'c acct_session \<Rightarrow> 'c acct_session" where
  "Acct_Send env = acct_transmit (Acct_Notify env) env"

definition Acct_RxRequest :: "diameter_msg \<Rightarrow> 'c acct_session \<Rightarrow> 'c acct_session" where
  "Acct_RxRequest msg = ac_emit (AcDiscarded msg)"

definition filter_answer :: "diameter_msg \<Rightarrow> acct_attrs \<Rightarrow> acct_attrs" where
  "filter_answer msg a =
     a\<lparr>aa_RecordType := (case GetU32 ''AccountingRecordType'' 0 (acl msg) of
          None \<Rightarrow> aa_RecordType a | Some t \<Rightarrow> t),
       aa_RealtimeRequired :=
         assign_some (GetU32 ''AccountingRealtimeRequired'' 0 (acl msg)) (aa_RealtimeRequired a),
       aa_InterimInterval :=
         assign_some (GetU32 ''AcctInterimInterval'' 0 (acl msg)) (aa_InterimInterval a)\<rparr>"

text \<open>The event for an answer.\<close>

definition acct_answer_event :: "'c acct_cenv \<Rightarrow> diameter_msg \<Rightarrow> 'c acct_session \<Rightarrow> acct_ev" where
  "acct_answer_event env msg s =
     (let a = ac_attrs s in
      if InterpretedResultCode msg = RCODE_SUCCESS then CEV_RX_ACA_OK
      else if rec_IsLastRecordInStorage (ce_collector env) (ac_records s)
              \<or> aa_RecordType a = RECTYPE_STOP \<or> aa_RecordType a = RECTYPE_EVENT
      then CEV_RX_ACA_FAIL
      else if neg_value (aa_RealtimeRequired a) = DELIVER_AND_GRANT then CEV_RX_ACA_FAIL_AND_GAL
      else CEV_RX_ACA_FAIL_NOT_GAL)"

definition Acct_RxAnswer :: "'c acct_cenv \<Rightarrow> diameter_msg \<Rightarrow> 'c acct_session \<Rightarrow> 'c acct_session" where
  "Acct_RxAnswer env msg s =
     (if code (hdr msg) \<noteq> MSG_ACCOUNTING then ac_emit (AcDiscarded msg) s
      else
        (let s1 = ac_upd (filter_answer msg) (RxACA msg s);
             ev = acct_answer_event env msg s1;
             s2 = Acct_Notify env ev s1
         in if ev = CEV_RX_ACA_OK then s2 else acct_failed s2))"

definition Acct_RxError :: "diameter_msg \<Rightarrow> 'c acct_session \<Rightarrow> 'c acct_session" where
  "Acct_RxError msg = ac_emit (AcError msg)"

definition Acct_End :: "'c acct_cenv \<Rightarrow> 'c acct_session \<Rightarrow> 'c acct_session" where
  "Acct_End env s = Acct_Notify env CEV_STOP (ac_cancel_all (set_RecordType RECTYPE_STOP s))"

definition Acct_Timeout :: "'c acct_cenv \<Rightarrow> int \<Rightarrow> 'c acct_session \<Rightarrow> 'c acct_session" where
  "Acct_Timeout env ty s =
     (case ac_timers s ty of None \<Rightarrow> s | Some (ev, sec) \<Rightarrow> Acct_Notify env ev s)"

text \<open>What the outside may do to a sub-session.\<close>

datatype acct_op =
    Ac_Begin bool
  | Ac_Send diameter_msg
  | Ac_RxRequest diameter_msg
  | Ac_RxAnswer diameter_msg
  | Ac_RxError diameter_msg
  | Ac_End
  | Ac_Timeout int

fun acct_step :: "'c acct_cenv \<Rightarrow> acct_op \<Rightarrow> 'c acct_session \<Rightarrow> 'c acct_session" where
  "acct_step env (Ac_Begin oneTime) = Acct_Begin env oneTime"
| "acct_step env (Ac_Send m) = Acct_Send env m"
| "acct_step env (Ac_RxRequest m) = Acct_RxRequest m"
| "acct_step env (Ac_RxAnswer m) = Acct_RxAnswer env m"
| "acct_step env (Ac_RxError m) = Acct_RxError m"
| "acct_step env Ac_End = Acct_End env"
| "acct_step env (Ac_Timeout ty) = Acct_Timeout env ty"

section \<open>The session of the sub-sessions\<close>

text \<open>
  The map leads from a number to the sub-session object; \<open>ap_objs\<close> are the objects that
  exist.  A message for an entry without an object is a dangling pointer.
\<close>

record 'c acct_parent =
  ap_SessionId :: session_id
  ap_ApplicationId :: u32
  ap_SubSessionId :: "64 word"
  ap_SubSessionMap :: "64 word \<rightharpoonup> nat"
  ap_objs :: "nat \<rightharpoonup> 'c acct_session"
  ap_unclaimed :: "diameter_msg list"
  ap_fault :: bool

definition Parent_new :: "dia_config \<Rightarrow> u32 \<Rightarrow> string option \<Rightarrow> u32 \<times> u32 \<Rightarrow> 'c acct_parent" where
  "Parent_new cfg app optionalValue cnt =
     (let i = sid_empty\<lparr>DiameterId := cfg_identity cfg @ ''.'' @ cfg_realm cfg\<rparr>;
          i1 = (case optionalValue of None \<Rightarrow> i | Some v \<Rightarrow> i\<lparr>OptionalValue := v\<rparr>)
      in \<lparr>ap_SessionId = db_assign cnt i1, ap_ApplicationId = app, ap_SubSessionId = 0,
          ap_SubSessionMap = Map.empty, ap_objs = Map.empty, ap_unclaimed = [],
          ap_fault = False\<rparr>)"

text \<open>
  The insertion into the map keeps an entry that is there; the caller ignores the result.
\<close>

definition RegisterSubSession ::
    "nat \<Rightarrow> 'c acct_session \<Rightarrow> 'c acct_parent \<Rightarrow> bool \<times> 'c acct_session \<times> 'c acct_parent" where
  "RegisterSubSession ref o1 p =
     (if ap_SubSessionMap p (aa_SubSessionId (ac_attrs o1)) = None then
        (let n = ap_SubSessionId p + 1;
             o2 = ac_upd (\<lambda>a. a\<lparr>at_SessionId := ap_SessionId p, aa_SubSessionId := n\<rparr>) o1
         in (True, o2,
             p\<lparr>ap_SubSessionId := n,
               ap_SubSessionMap := (if ap_SubSessionMap p n = None
                                    then (ap_SubSessionMap p)(n \<mapsto> ref)
                                    else ap_SubSessionMap p)\<rparr>))
      else (False, o1, p))"

definition RemoveSubSession :: "64 word \<Rightarrow> 'c acct_parent \<Rightarrow> bool \<times> 'c acct_parent" where
  "RemoveSubSession n p =
     (if ap_SubSessionMap p n = None then (False, p)
      else (True, p\<lparr>ap_SubSessionMap := (ap_SubSessionMap p)(n := None)\<rparr>))"

text \<open>The constructor and the destructor of a sub-session at a free address.\<close>

definition Sub_new ::
    "'c acct_cenv \<Rightarrow> nat \<Rightarrow> 64 word \<Rightarrow> id_gen \<Rightarrow> 'c \<Rightarrow> 'c acct_parent \<Rightarrow> 'c acct_parent" where
  "Sub_new env ref junk g r p =
     (case RegisterSubSession ref (new_acct_session (ce_acct env) (ap_ApplicationId p) junk g r) p of
        (_, o1, p1) \<Rightarrow>
          p1\<lparr>ap_objs := (ap_objs p1)(ref \<mapsto> o1\<lparr>ac_state := CST_IDLE, ac_running := True\<rparr>)\<rparr>)"

definition Sub_delete :: "nat \<Rightarrow> 'c acct_parent \<Rightarrow> 'c acct_parent" where
  "Sub_delete ref p =
     (case ap_objs p ref of
        None \<Rightarrow> p
      | Some o1 \<Rightarrow>
          (let p1 = snd (RemoveSubSession (aa_SubSessionId (ac_attrs o1)) p)
           in p1\<lparr>ap_objs := (ap_objs p1)(ref := None)\<rparr>))"

text \<open>The three receptions differ in the operation only.\<close>

definition Parent_dispatch ::
    "(diameter_msg \<Rightarrow> 'c acct_session \<Rightarrow> 'c acct_session) \<Rightarrow> diameter_msg \<Rightarrow> 'c acct_parent
      \<Rightarrow> 'c acct_parent" where
  "Parent_dispatch f msg p =
     (case GetU64 ''AccountingSubSessionId'' 0 (acl msg) of
        None \<Rightarrow> p\<lparr>ap_unclaimed := ap_unclaimed p @ [msg]\<rparr>
      | Some n \<Rightarrow>
          (case ap_SubSessionMap p n of
             None \<Rightarrow> p\<lparr>ap_unclaimed := ap_unclaimed p @ [msg]\<rparr>
           | Some ref \<Rightarrow>
               (case ap_objs p ref of
                  None \<Rightarrow> p\<lparr>ap_fault := True\<rparr>
                | Some o1 \<Rightarrow> p\<lparr>ap_objs := (ap_objs p)(ref \<mapsto> f msg o1)\<rparr>)))"

definition Parent_RxRequest :: "diameter_msg \<Rightarrow> 'c acct_parent \<Rightarrow> 'c acct_parent" where
  "Parent_RxRequest = Parent_dispatch Acct_RxRequest"

definition Parent_RxAnswer ::
    "'c acct_cenv \<Rightarrow> diameter_msg \<Rightarrow> 'c acct_parent \<Rightarrow> 'c acct_parent" where
  "Parent_RxAnswer env = Parent_dispatch (Acct_RxAnswer env)"

definition Parent_RxError :: "diameter_msg \<Rightarrow> 'c acct_parent \<Rightarrow> 'c acct_parent" where
  "Parent_RxError = Parent_dispatch Acct_RxError"

text \<open>An operation of the application or a timer on one sub-session.\<close>

definition Sub_op :: "'c acct_cenv \<Rightarrow> nat \<Rightarrow> acct_op \<Rightarrow> 'c acct_parent \<Rightarrow> 'c acct_parent" where
  "Sub_op env ref op p =
     (case ap_objs p ref of
        None \<Rightarrow> p
      | Some o1 \<Rightarrow> p\<lparr>ap_objs := (ap_objs p)(ref \<mapsto> acct_step env op o1)\<rparr>)"

end
