(* ===== verification/Acct_Client_Inv.thy ===== *)
theory Acct_Client_Inv
  imports Acct_Client
begin

text \<open>
  The invariant of an accounting sub-session: it keeps running, its notifications nest at
  most twice, at most one timer is armed and none while an answer is awaited, and its records
  are numbered from one without a gap.
\<close>

section \<open>The invariant\<close>

definition pending :: "acct_st \<Rightarrow> bool" where
  "pending st \<longleftrightarrow> st \<noteq> CST_IDLE \<and> st \<noteq> CST_OPEN"

definition acct_timers :: "acct_ev timers \<Rightarrow> bool" where
  "acct_timers t \<longleftrightarrow>
     t = Map.empty \<or> (\<exists>a. t = [TIMER_INTERVAL \<mapsto> (CEV_INT_EXPIRE, a)]) \<or>
     (\<exists>a. t = [TIMER_SESSION \<mapsto> (CEV_SESSION_TOUT, a)])"

text \<open>The numbers of the records that the collector was asked for.\<close>

fun record_number :: "acct_effect \<Rightarrow> u32 option" where
  "record_number (AcGenerated t n) = Some n"
| "record_number _ = None"

definition generated :: "acct_effect list \<Rightarrow> u32 list" where
  "generated es = List.map_filter record_number es"

text \<open>Session number \<open>n\<close> has numbered its records from one.\<close>

definition numbered :: "64 word \<Rightarrow> 'c acct_session \<Rightarrow> bool" where
  "numbered n s \<longleftrightarrow>
     aa_SubSessionId (ac_attrs s) = n \<and>
     (let ns = generated (ac_effects s) in
      ns = map of_nat [1..<Suc (length ns)] \<and>
      aa_RecordNumber (ac_attrs s) = of_nat (length ns))"

definition acct_inv :: "'c acct_session \<Rightarrow> bool" where
  "acct_inv s \<longleftrightarrow>
     \<not> ac_fault s \<and> ac_running s \<and> acct_timers (ac_timers s) \<and>
     (pending (ac_state s) \<longrightarrow> ac_timers s = Map.empty)"

text \<open>What changes neither the records generated nor the two numbers.\<close>

definition same_records :: "'c acct_session \<Rightarrow> 'c acct_session \<Rightarrow> bool" where
  "same_records s s' \<longleftrightarrow>
     generated (ac_effects s') = generated (ac_effects s) \<and>
     aa_SubSessionId (ac_attrs s') = aa_SubSessionId (ac_attrs s) \<and>
     aa_RecordNumber (ac_attrs s') = aa_RecordNumber (ac_attrs s)"

lemma acct_timers_simps [simp]:
  "acct_timers Map.empty" "acct_timers [TIMER_INTERVAL \<mapsto> (CEV_INT_EXPIRE, a)]"
  "acct_timers [TIMER_SESSION \<mapsto> (CEV_SESSION_TOUT, a)]"
  by (auto simp: acct_timers_def)

lemma generated_simps [simp]:
  "generated [] = []" "generated (es @ fs) = generated es @ generated fs"
  "generated (e # es) = (case record_number e of None \<Rightarrow> generated es | Some n \<Rightarrow> n # generated es)"
  by (simp_all add: generated_def List.map_filter_def split: option.splits)

lemma same_records_refl [simp]: "same_records s s"
  by (simp add: same_records_def)

lemma same_records_trans: "same_records s t \<Longrightarrow> same_records t u \<Longrightarrow> same_records s u"
  by (simp add: same_records_def)

lemma same_records_numbered: "same_records s s' \<Longrightarrow> numbered k s \<Longrightarrow> numbered k s'"
  by (simp add: same_records_def numbered_def Let_def)

section \<open>Frame facts of the actions\<close>

lemma records_frame [effect_simps]:
  "ac_state (delete_last env s) = ac_state s" "ac_running (delete_last env s) = ac_running s"
  "ac_timers (delete_last env s) = ac_timers s" "ac_fault (delete_last env s) = ac_fault s"
  "ac_attrs (delete_last env s) = ac_attrs s"
  "ac_effects (delete_last env s) =
     ac_effects s @ [AcDeletedLast (aa_RecordType (ac_attrs s))]"
  "ac_state (store_last env t s) = ac_state s" "ac_running (store_last env t s) = ac_running s"
  "ac_timers (store_last env t s) = ac_timers s" "ac_fault (store_last env t s) = ac_fault s"
  "ac_attrs (store_last env t s) = ac_attrs s"
  "ac_effects (store_last env t s) = ac_effects s @ [AcStoredLast t]"
  by (simp_all add: delete_last_def store_last_def Let_def effect_simps)

lemma acct_interim_frame [effect_simps]:
  "ac_state (acct_interim_timer s) = ac_state s"
  "ac_running (acct_interim_timer s) = ac_running s"
  "ac_fault (acct_interim_timer s) = ac_fault s"
  "ac_attrs (acct_interim_timer s) = ac_attrs s"
  "ac_effects (acct_interim_timer s) = ac_effects s"
  "ac_records (acct_interim_timer s) = ac_records s"
  "ac_timers (acct_interim_timer s) = (ac_timers s)
     (TIMER_INTERVAL \<mapsto> (CEV_INT_EXPIRE, unat (neg_value (aa_InterimInterval (ac_attrs s)))))"
  by (simp_all add: acct_interim_timer_def effect_simps)

lemma acct_failed_frame [effect_simps]:
  "ac_state (acct_failed s) = ac_state s" "ac_running (acct_failed s) = ac_running s"
  "ac_timers (acct_failed s) = ac_timers s" "ac_fault (acct_failed s) = ac_fault s"
  "ac_attrs (acct_failed s) = ac_attrs s"
  "ac_effects (acct_failed s) = ac_effects s @ [AcFailed (aa_RecordNumber (ac_attrs s))]"
  by (simp_all add: acct_failed_def effect_simps)

section \<open>The state table\<close>

definition sends :: "acct_ac \<Rightarrow> bool" where
  "sends a \<longleftrightarrow> a = ACC_TxACR \<or> a = ACC_InterimTimout"

definition acct_entry_facts :: "(acct_st, acct_ev, acct_ac) table_entry \<Rightarrow> bool" where
  "acct_entry_facts e \<longleftrightarrow>
     (sends (action e) \<longrightarrow> \<not> pending (prevState e) \<and> pending (nextState e)) \<and>
     (pending (nextState e) \<longrightarrow>
        sends (action e) \<or> action e = ACC_StoreRecord RECTYPE_STOP \<or>
        action e = ACC_Null \<and> prevState e = nextState e)"

lemma acct_table_facts: "e \<in> set (entries acct_table) \<Longrightarrow> acct_entry_facts e"
proof -
  have "list_all acct_entry_facts (concat (map cmd_entries acct_cmds))" by code_simp
  then show "e \<in> set (entries acct_table) \<Longrightarrow> acct_entry_facts e"
    unfolding acct_entries list_all_iff by blast
qed

lemma acct_event_cases:
  obtains (ignored) "acct_event (Suc n) env ev s = s"
  | (fired) e where "ac_running s" "e \<in> set (entries acct_table)" "ac_state s = prevState e"
    "event e = Some ev \<or> isWildcardEvent e"
    "acct_event (Suc n) env ev s =
      acct_action (acct_event n env) env (action e) (set_ac_state (nextState e) s)"
proof (cases "\<exists>st ac. sm_dispatch acct_table (ac_running s) (ac_state s) ev = Fire st ac")
  case True
  then obtain st ac where
    Fire: "sm_dispatch acct_table (ac_running s) (ac_state s) ev = Fire st ac" by blast
  then have run: "ac_running s" by (auto simp: sm_dispatch_def split: if_splits)
  have "acct_event (Suc n) env ev s = acct_action (acct_event n env) env ac (set_ac_state st s)"
    by (simp add: sm_event_def Fire)
  with run show ?thesis
    using dispatch_mem [OF wf_acct_table Fire] fired by metis
next
  case False
  then have "acct_event (Suc n) env ev s = s"
    by (cases "sm_dispatch acct_table (ac_running s) (ac_state s) ev") (auto simp: sm_event_def)
  then show ?thesis by (rule ignored)
qed

lemma acct_fires:
  "sm_dispatch acct_table True (ac_state s) ev = Fire st ac \<Longrightarrow> ac_running s \<Longrightarrow>
     acct_event (Suc n) env ev s = acct_action (acct_event n env) env ac (set_ac_state st s)"
  by (simp add: sm_event_def)

declare acct_event.simps [simp del]

section \<open>Preservation\<close>

text \<open>The actions that send nothing.\<close>

lemma acct_leaf:
  assumes "\<not> ac_fault s" "ac_running s" "acct_timers (ac_timers s)" "\<not> sends a"
    and "pending st \<Longrightarrow> a = ACC_StoreRecord RECTYPE_STOP \<or>
      a = ACC_Null \<and> ac_timers s = Map.empty"
  shows "acct_inv (acct_action notify env a (set_ac_state st s))"
    and "same_records s (acct_action notify env a (set_ac_state st s))"
proof -
  have stop: "\<not> running_type RECTYPE_STOP"
    by (simp add: running_type_def rectype_defs)
  show "acct_inv (acct_action notify env a (set_ac_state st s))"
    using assms stop
    by (cases a) (auto simp: acct_inv_def sends_def effect_simps Let_def)
  show "same_records s (acct_action notify env a (set_ac_state st s))"
    using assms(4)
    by (cases a) (auto simp: same_records_def sends_def effect_simps Let_def)
qed

lemma acct_pending_event:
  assumes "acct_inv s" "pending (ac_state s)"
  shows "acct_inv (acct_event (Suc n) env ev s)" and "same_records s (acct_event (Suc n) env ev s)"
proof -
  have "acct_inv (acct_event (Suc n) env ev s) \<and> same_records s (acct_event (Suc n) env ev s)"
  proof (cases rule: acct_event_cases [of n env ev s])
    case ignored
    then show ?thesis using assms by simp
  next
    case (fired e)
    have f: "acct_entry_facts e" using fired(2) by (rule acct_table_facts)
    have t: "ac_timers s = Map.empty" using assms by (simp add: acct_inv_def)
    show ?thesis
      unfolding fired(5) using assms f t fired(1,3)
      by (intro conjI acct_leaf) (auto simp: acct_inv_def acct_entry_facts_def)
  qed
  then show "acct_inv (acct_event (Suc n) env ev s)" "same_records s (acct_event (Suc n) env ev s)"
    by simp_all
qed

lemma acct_generate_frame:
  assumes "acct_generate env l s = (l', s')"
  shows "ac_state s' = ac_state s" "ac_running s' = ac_running s" "ac_timers s' = ac_timers s"
    "ac_fault s' = ac_fault s" "ac_attrs s' = ac_attrs s"
    "ac_effects s' = ac_effects s @
      [AcGenerated (aa_RecordType (ac_attrs s)) (aa_RecordNumber (ac_attrs s))]"
  using assms by (auto simp: acct_generate_def Let_def effect_simps split: prod.splits)

lemma Acct_TxDelivery_same_records: "same_records s (snd (Acct_TxDelivery env m s))"
  using Acct_TxDelivery_effects [of env m s] acct_same [OF Acct_TxDelivery_same [of s env m]]
  by (auto simp: same_records_def)

lemma acct_transmit_inv:
  assumes "acct_inv s"
    and "\<And>ev t. acct_inv t \<Longrightarrow> ac_state t = ac_state s \<Longrightarrow> acct_inv (notify ev t) \<and> same_records t (notify ev t)"
  shows "acct_inv (acct_transmit notify env m s)" and "same_records s (acct_transmit notify env m s)"
proof -
  obtain rc s1 where d: "Acct_TxDelivery env m s = (rc, s1)" by fastforce
  have i: "acct_inv s1"
    using assms(1) Acct_TxDelivery_frame [of env m s] by (simp add: d acct_inv_def)
  have st: "ac_state s1 = ac_state s" using Acct_TxDelivery_frame(1) [of env m s] by (simp add: d)
  have q: "same_records s s1" using Acct_TxDelivery_same_records [of s env m] by (simp add: d)
  have n: "acct_inv (notify ev s1)" "same_records s (notify ev s1)" for ev
    using assms(2) [OF i st, of ev] same_records_trans [OF q] by blast+
  show "acct_inv (acct_transmit notify env m s)"
    using i n(1) [of "acct_fts_event env s1"]
    by (simp add: acct_transmit_def d acct_inv_def effect_simps)
  show "same_records s (acct_transmit notify env m s)"
    using q n(2) [of "acct_fts_event env s1"]
    by (simp add: acct_transmit_def d same_records_def effect_simps)
qed

lemma numbered_next:
  assumes "numbered k s" "same_records (s\<lparr>ac_attrs := a, ac_effects := ac_effects s @ [AcGenerated t n]\<rparr>) s'"
    "n = aa_RecordNumber (ac_attrs s) + 1" "aa_RecordNumber a = n"
    "aa_SubSessionId a = aa_SubSessionId (ac_attrs s)"
  shows "numbered k s'"
  using assms by (simp add: numbered_def same_records_def Let_def)

lemma TxACR_inv:
  assumes "\<not> ac_fault s" "ac_running s" "ac_timers s = Map.empty" "pending (ac_state s)"
    and "numbered k s"
  shows "acct_inv (TxACR (acct_event (Suc n) env) env s)"
    and "numbered k (TxACR (acct_event (Suc n) env) env s)"
proof -
  let ?s1 = "ac_upd (\<lambda>a. a\<lparr>aa_RecordNumber := aa_RecordNumber a + 1\<rparr>) s"
  have gen: "acct_inv s2 \<and> pending (ac_state s2) \<and> (\<forall>s'. same_records s2 s' \<longrightarrow> numbered k s')"
    if "acct_generate env l ?s1 = (l', s2)" for l l' s2
  proof -
    note g = acct_generate_frame [OF that]
    have "numbered k s'" if "same_records s2 s'" for s'
    proof (rule numbered_next [OF assms(5)])
      show "same_records (s\<lparr>ac_attrs := ac_attrs ?s1, ac_effects := ac_effects s @
          [AcGenerated (aa_RecordType (ac_attrs s)) (aa_RecordNumber (ac_attrs s) + 1)]\<rparr>) s'"
        using that g by (simp add: same_records_def effect_simps)
    qed (simp_all add: effect_simps)
    then show ?thesis using g assms by (simp add: acct_inv_def effect_simps)
  qed
  have "acct_inv (TxACR (acct_event (Suc n) env) env s) \<and>
      numbered k (TxACR (acct_event (Suc n) env) env s)"
  proof (cases "aa_BackwardCompatibility (ac_attrs s)")
    case True
    obtain l' s2 where g: "acct_generate env [] ?s1 = (l', s2)" by fastforce
    show ?thesis using gen [OF g] True by (simp add: TxACR_def g)
  next
    case False
    let ?m = "ACR_msg (ce_cfg env) (ac_attrs ?s1)"
    obtain l' s2 where g: "acct_generate env (acl ?m) ?s1 = (l', s2)" by fastforce
    note i = gen [OF g]
    have e: "TxACR (acct_event (Suc n) env) env s =
        acct_transmit (acct_event (Suc n) env) env (?m\<lparr>acl := l'\<rparr>) s2"
      using False by (simp add: TxACR_def Let_def g)
    have "acct_inv (acct_event (Suc n) env ev t) \<and> same_records t (acct_event (Suc n) env ev t)"
      if "acct_inv t" "ac_state t = ac_state s2" for ev t
      using acct_pending_event [OF that(1), of n env ev] that(2) i by simp
    note tr = acct_transmit_inv [of s2 "acct_event (Suc n) env" env, OF _ this]
    show ?thesis unfolding e using i tr by blast
  qed
  then show "acct_inv (TxACR (acct_event (Suc n) env) env s)"
    "numbered k (TxACR (acct_event (Suc n) env) env s)" by simp_all
qed

lemma acct_notify_inv:
  assumes "acct_inv s" "numbered k s"
  shows "acct_inv (Acct_Notify env ev s) \<and> numbered k (Acct_Notify env ev s)"
proof (cases rule: acct_event_cases [of 1 env ev s])
  case ignored
  then show ?thesis using assms by (simp add: Acct_Notify_def numeral_2_eq_2)
next
  case (fired e)
  have f: "acct_entry_facts e" using fired(2) by (rule acct_table_facts)
  have q: "numbered k (ac_cancel_all (set_ac_state st s))" for st
    using assms(2) by (rule same_records_numbered [rotated]) (simp add: same_records_def effect_simps)
  show ?thesis
  proof (cases "sends (action e)")
    case True
    let ?t = "ac_cancel_all (set_ac_state (nextState e) s)"
    let ?i = "ac_upd (\<lambda>a. a\<lparr>aa_RecordType := RECTYPE_INTERIM\<rparr>) ?t"
    have p: "pending (nextState e)"
      using True f by (simp add: acct_entry_facts_def)
    have qi: "numbered k ?i"
      using q by (rule same_records_numbered [rotated]) (simp add: same_records_def effect_simps)
    have "acct_inv (TxACR (acct_event 1 env) env u) \<and> numbered k (TxACR (acct_event 1 env) env u)"
      if "u = ?t \<or> u = ?i" for u
      using that TxACR_inv [of u k 0 env] assms(1) p q qi
      by (auto simp: acct_inv_def effect_simps)
    then show ?thesis
      using True fired(5) by (auto simp: Acct_Notify_def numeral_2_eq_2 sends_def)
  next
    case False
    have "acct_inv (acct_event 2 env ev s) \<and> same_records s (acct_event 2 env ev s)"
      unfolding numeral_2_eq_2 fired(5) [unfolded One_nat_def] using assms f False fired(1,3)
      by (intro conjI acct_leaf) (auto simp: acct_inv_def acct_entry_facts_def)
    then show ?thesis using assms(2) same_records_numbered by (auto simp: Acct_Notify_def)
  qed
qed

section \<open>The operations\<close>

definition acct_good :: "64 word \<Rightarrow> 'c acct_session \<Rightarrow> bool" where
  "acct_good k s \<longleftrightarrow> acct_inv s \<and> numbered k s"

lemma acct_good_upd:
  assumes "acct_good k s" "ac_fault s' = ac_fault s" "ac_running s' = ac_running s"
    "ac_state s' = ac_state s" "ac_timers s' = ac_timers s \<or> ac_timers s' = Map.empty" "same_records s s'"
  shows "acct_good k s'"
  using assms same_records_numbered [OF assms(6)] by (auto simp: acct_good_def acct_inv_def)

lemma acct_good_notify: "acct_good k s \<Longrightarrow> acct_good k (Acct_Notify env ev s)"
  using acct_notify_inv by (auto simp: acct_good_def)

lemma acct_good_emit:
  "record_number e = None \<Longrightarrow> acct_good k s \<Longrightarrow> acct_good k (ac_emit e s)"
  by (erule acct_good_upd) (simp_all add: same_records_def effect_simps)

lemma acct_good_attrs:
  "(\<And>a. aa_RecordNumber (f a) = aa_RecordNumber a \<and> aa_SubSessionId (f a) = aa_SubSessionId a) \<Longrightarrow>
     acct_good k s \<Longrightarrow> acct_good k (ac_upd f s)"
  by (erule acct_good_upd) (simp_all add: same_records_def effect_simps)

lemma acct_good_cancel: "acct_good k s \<Longrightarrow> acct_good k (ac_cancel_all s)"
  by (erule acct_good_upd) (simp_all add: same_records_def effect_simps)

lemma acct_good_failed: "acct_good k s \<Longrightarrow> acct_good k (acct_failed s)"
  by (simp add: acct_failed_def acct_good_emit)

lemma acct_good_send:
  assumes "acct_good k s" shows "acct_good k (Acct_Send env m s)"
proof -
  obtain rc s1 where d: "Acct_TxDelivery env m s = (rc, s1)" by fastforce
  have "acct_good k s1"
    using assms Acct_TxDelivery_same_records [of s env m] Acct_TxDelivery_frame [of env m s]
    by (intro acct_good_upd [OF assms]) (simp_all add: d)
  then show ?thesis
    by (simp add: Acct_Send_def acct_transmit_def d acct_good_failed acct_good_notify)
qed

lemmas acct_attr_defs = filter_answer_def set_RecordType_def acct_begin_attrs_def Let_def

lemma acct_good_step: "acct_good k s \<Longrightarrow> acct_good k (acct_step env op s)"
proof (cases op)
  case (Ac_Begin o1)
  assume "acct_good k s"
  then show ?thesis
    by (auto simp: Ac_Begin Acct_Begin_def acct_attr_defs intro!: acct_good_notify acct_good_attrs)
next
  case (Ac_RxAnswer m)
  assume good: "acct_good k s"
  have "acct_good k (ac_upd (filter_answer m) (RxACA m s))"
    using good
    by (auto simp: RxACA_def Acct_MsgIdRx_def acct_attr_defs attrs_MsgIdRx_def
        intro!: acct_good_attrs)
  then show ?thesis
    using good by (simp add: Ac_RxAnswer Acct_RxAnswer_def Let_def acct_good_notify
        acct_good_failed acct_good_emit)
next
  case (Ac_Timeout ty)
  assume "acct_good k s"
  then show ?thesis by (simp add: Ac_Timeout Acct_Timeout_def acct_good_notify split: option.splits)
next
  case Ac_End
  assume "acct_good k s"
  then show ?thesis
    by (auto simp: Ac_End Acct_End_def acct_attr_defs
        intro!: acct_good_notify acct_good_cancel acct_good_attrs)
qed (simp_all add: acct_good_send Acct_RxRequest_def Acct_RxError_def acct_good_emit)

lemma acct_good_steps: "acct_good k s \<Longrightarrow> acct_good k (fold (acct_step env) ops s)"
  by (induction ops arbitrary: s) (simp_all add: acct_good_step)

section \<open>The sub-sessions of a session\<close>

text \<open>
  Every entry of the map leads to a living object with the number of the entry, and every
  object has the invariant.
\<close>

definition parent_inv :: "'c acct_parent \<Rightarrow> bool" where
  "parent_inv p \<longleftrightarrow>
     \<not> ap_fault p \<and>
     (\<forall>n ref. ap_SubSessionMap p n = Some ref \<longrightarrow>
        (\<exists>s. ap_objs p ref = Some s \<and> aa_SubSessionId (ac_attrs s) = n)) \<and>
     (\<forall>ref s. ap_objs p ref = Some s \<longrightarrow> acct_good (aa_SubSessionId (ac_attrs s)) s)"

datatype 'c parent_op =
    Pa_new nat "64 word" id_gen 'c
  | Pa_delete nat
  | Pa_RxRequest diameter_msg
  | Pa_RxAnswer diameter_msg
  | Pa_RxError diameter_msg
  | Pa_sub nat acct_op

text \<open>A constructor gets an address that is free.\<close>

fun parent_step :: "'c acct_cenv \<Rightarrow> 'c parent_op \<Rightarrow> 'c acct_parent \<Rightarrow> 'c acct_parent" where
  "parent_step env (Pa_new ref junk g r) p =
     (if ap_objs p ref = None then Sub_new env ref junk g r p else p)"
| "parent_step env (Pa_delete ref) p = Sub_delete ref p"
| "parent_step env (Pa_RxRequest m) p = Parent_RxRequest m p"
| "parent_step env (Pa_RxAnswer m) p = Parent_RxAnswer env m p"
| "parent_step env (Pa_RxError m) p = Parent_RxError m p"
| "parent_step env (Pa_sub ref op) p = Sub_op env ref op p"

lemma parent_inv_new: "parent_inv (Parent_new cfg app opt cnt)"
  by (simp add: parent_inv_def Parent_new_def Let_def)

lemma parent_inv_entry:
  assumes "parent_inv p" "ap_SubSessionMap p n = Some ref"
  obtains s where "ap_objs p ref = Some s" "aa_SubSessionId (ac_attrs s) = n"
  using assms by (auto simp: parent_inv_def)

text \<open>A step of one object that keeps its number keeps the invariant.\<close>

lemma parent_inv_obj:
  assumes "parent_inv p" "ap_objs p ref = Some s" "acct_good (aa_SubSessionId (ac_attrs s)) s'"
  shows "parent_inv (p\<lparr>ap_objs := (ap_objs p)(ref \<mapsto> s')\<rparr>)"
proof -
  have "aa_SubSessionId (ac_attrs s') = aa_SubSessionId (ac_attrs s)"
    using assms(3) by (simp add: acct_good_def numbered_def)
  then show ?thesis using assms by (fastforce simp: parent_inv_def)
qed

lemma parent_inv_dispatch:
  assumes "parent_inv p" "\<And>k s. acct_good k s \<Longrightarrow> acct_good k (f m s)"
  shows "parent_inv (Parent_dispatch f m p)"
proof (cases "GetU64 ''AccountingSubSessionId'' 0 (acl m)")
  case (Some n)
  show ?thesis
  proof (cases "ap_SubSessionMap p n")
    case (Some ref)
    then obtain s where s: "ap_objs p ref = Some s" "aa_SubSessionId (ac_attrs s) = n"
      by (rule parent_inv_entry [OF assms(1)])
    then have "acct_good (aa_SubSessionId (ac_attrs s)) (f m s)"
      using assms by (auto simp: parent_inv_def)
    from parent_inv_obj [OF assms(1) s(1) this] show ?thesis
      using Some s \<open>GetU64 _ 0 (acl m) = Some n\<close> by (simp add: Parent_dispatch_def)
  qed (use assms(1) Some in \<open>simp add: Parent_dispatch_def parent_inv_def\<close>)
qed (use assms(1) in \<open>simp add: Parent_dispatch_def parent_inv_def\<close>)

lemma new_session_good:
  assumes "aa_SubSessionId (ac_attrs s) = k" "aa_RecordNumber (ac_attrs s) = 0"
    "ac_effects s = []" "ac_timers s = Map.empty" "\<not> ac_fault s"
  shows "acct_good k (s\<lparr>ac_state := CST_IDLE, ac_running := True\<rparr>)"
  using assms by (simp add: acct_good_def acct_inv_def numbered_def pending_def)

lemma parent_inv_Sub_new:
  assumes "parent_inv p" "ap_objs p ref = None"
  shows "parent_inv (Sub_new env ref junk g r p)"
proof -
  let ?s = "new_acct_session (ce_acct env) (ap_ApplicationId p) junk g r"
  obtain ok o1 p1 where reg: "RegisterSubSession ref ?s p = (ok, o1, p1)" by (metis prod_cases3)
  have o1: "aa_RecordNumber (ac_attrs o1) = 0" "ac_effects o1 = []" "ac_timers o1 = Map.empty"
    "\<not> ac_fault o1"
    using reg by (auto simp: RegisterSubSession_def Let_def effect_simps new_acct_session_def
        new_acct_attrs_def split: if_splits)
  have good: "acct_good (aa_SubSessionId (ac_attrs o1)) (o1\<lparr>ac_state := CST_IDLE, ac_running := True\<rparr>)"
    using o1 by (intro new_session_good) simp_all
  have p1: "ap_objs p1 = ap_objs p" "ap_fault p1 = ap_fault p"
    "\<And>n ref'. ap_SubSessionMap p1 n = Some ref' \<Longrightarrow>
       ap_SubSessionMap p n = Some ref' \<or> ref' = ref \<and> aa_SubSessionId (ac_attrs o1) = n"
    using reg by (auto simp: RegisterSubSession_def Let_def effect_simps split: if_splits)
  have old: "ref' \<noteq> ref" if "ap_SubSessionMap p n = Some ref'" for n ref'
    using parent_inv_entry [OF assms(1) that] assms(2) by force
  show ?thesis
    using assms(1) good p1(1,2) old
    by (auto simp: Sub_new_def reg parent_inv_def dest!: p1(3))
qed

lemma parent_inv_Sub_delete:
  assumes "parent_inv p" shows "parent_inv (Sub_delete ref p)"
proof (cases "ap_objs p ref")
  case (Some s)
  let ?n = "aa_SubSessionId (ac_attrs s)"
  let ?p = "snd (RemoveSubSession ?n p)"
  have p: "ap_objs ?p = ap_objs p" "ap_fault ?p = ap_fault p" "ap_SubSessionMap ?p = (ap_SubSessionMap p)(?n := None)"
    by (auto simp: RemoveSubSession_def)
  have "ref' \<noteq> ref" if "ap_SubSessionMap p n = Some ref'" "n \<noteq> ?n" for n ref'
    using parent_inv_entry [OF assms that(1)] Some that(2) by force
  then show ?thesis
    using assms Some p by (auto simp: Sub_delete_def Let_def parent_inv_def)
qed (use assms in \<open>simp add: Sub_delete_def\<close>)

lemma parent_inv_step:
  assumes "parent_inv p" shows "parent_inv (parent_step env op p)"
proof (cases op)
  case (Pa_sub ref o1)
  show ?thesis
  proof (cases "ap_objs p ref")
    case (Some s)
    then have "acct_good (aa_SubSessionId (ac_attrs s)) (acct_step env o1 s)"
      using assms by (auto simp: parent_inv_def intro: acct_good_step)
    from parent_inv_obj [OF assms Some this] show ?thesis
      using Some by (simp add: Pa_sub Sub_op_def)
  qed (use assms in \<open>simp add: Pa_sub Sub_op_def\<close>)
next
  case (Pa_RxAnswer m)
  show ?thesis
    using parent_inv_dispatch [OF assms, of "Acct_RxAnswer env" m] acct_good_step
    by (metis Pa_RxAnswer Parent_RxAnswer_def acct_step.simps(4) parent_step.simps(4))
next
  case (Pa_RxRequest m)
  show ?thesis
    using parent_inv_dispatch [OF assms, of Acct_RxRequest m] acct_good_step
    by (metis Pa_RxRequest Parent_RxRequest_def acct_step.simps(3) parent_step.simps(3))
next
  case (Pa_RxError m)
  show ?thesis
    using parent_inv_dispatch [OF assms, of Acct_RxError m] acct_good_step
    by (metis Pa_RxError Parent_RxError_def acct_step.simps(5) parent_step.simps(5))
qed (use assms in \<open>simp_all add: parent_inv_Sub_new parent_inv_Sub_delete\<close>)

lemma parent_inv_steps: "parent_inv p \<Longrightarrow> parent_inv (fold (parent_step env) ops p)"
  by (induction ops arbitrary: p) (simp_all add: parent_inv_step)

end
