(* ===== verification/Acct_Server.thy ===== *)
theory Acct_Server
  imports Acct_Session
begin

text \<open>
  The server side of an accounting session: the state table and the actions
  (\<open>libdiameter/include/aaa_session_acct_server_fsm.h\<close>,
  \<open>src/aaa_session_acct_server_fsm.cxx\<close>) and the operations of the session
  (\<open>include/aaa_session_server.inl\<close>).
\<close>

section \<open>The storage of records\<close>

record 'c rec_storage =
  rec_IsSpaceAvailableOnDevice :: "'c \<Rightarrow> bool"
  rec_StoreRecord :: "acl \<Rightarrow> u32 \<Rightarrow> u32 \<Rightarrow> 'c \<Rightarrow> 'c"
  rec_UpdateAcctResponse :: "diameter_msg \<Rightarrow> 'c \<Rightarrow> diameter_msg \<times> 'c"

record 'c acct_senv = acct_env +
  ce_stateful :: bool
  ce_storage :: "'c rec_storage"

text \<open>The storage that converts a record and outputs what the conversion yields.\<close>

definition converting_StoreRecord ::
    "(acl \<Rightarrow> u32 \<Rightarrow> u32 \<Rightarrow> 'c \<Rightarrow> 'r option \<times> 'c) \<Rightarrow> ('r \<Rightarrow> 'c \<Rightarrow> 'c)
      \<Rightarrow> acl \<Rightarrow> u32 \<Rightarrow> u32 \<Rightarrow> 'c \<Rightarrow> 'c" where
  "converting_StoreRecord convert output l ty num st =
     (case convert l ty num st of (None, st1) \<Rightarrow> st1 | (Some r, st1) \<Rightarrow> output r st1)"

section \<open>State table\<close>

datatype acct_sac =
    ASC_Null
  | ASC_RxACR_Start
  | ASC_RxACR_Stop
  | ASC_RxACR
  | ASC_OutofSpace
  | ASC_SessionTimeout

definition acct_scmds :: "(acct_st, acct_ev, acct_sac) table_cmd list" where
  "acct_scmds = [
     Add CST_IDLE CEV_RX_ACR_START_OK CST_OPEN ASC_RxACR_Start,
     Add CST_IDLE CEV_RX_ACR_EV_OK CST_IDLE ASC_RxACR,
     Add CST_IDLE CEV_RX_ACR_NO_BUF CST_IDLE ASC_OutofSpace,
     AddWildcard CST_IDLE CST_IDLE ASC_Null,
     Add CST_OPEN CEV_RX_ACR_INT_OK CST_OPEN ASC_RxACR_Start,
     Add CST_OPEN CEV_RX_ACR_STOP_OK CST_IDLE ASC_RxACR_Stop,
     Add CST_OPEN CEV_RX_ACR_NO_BUF CST_IDLE ASC_OutofSpace,
     Add CST_OPEN CEV_SESSION_TOUT CST_IDLE ASC_SessionTimeout,
     Add CST_OPEN CEV_RX_ACR_EV_OK CST_OPEN ASC_RxACR,
     Add CST_OPEN CEV_RX_ACR_START_OK CST_OPEN ASC_RxACR_Start,
     AddWildcard CST_OPEN CST_OPEN ASC_Null,
     Init CST_IDLE]"

definition acct_stable :: "(acct_st, acct_ev, acct_sac) state_table" where
  "acct_stable = (case build_table acct_scmds of Inr t \<Rightarrow> t | Inl _ \<Rightarrow> empty_table)"

lemma build_acct_scmds: "\<not> isl (build_table acct_scmds)"
  by code_simp

lemma acct_stable_built: "build_table acct_scmds = Inr acct_stable"
  using build_acct_scmds by (cases "build_table acct_scmds") (simp_all add: acct_stable_def)

lemma wf_acct_stable: "wf_table acct_stable"
  using acct_stable_built by (rule wf_build_table)

lemma acct_sentries: "entries acct_stable = concat (map cmd_entries acct_scmds)"
  using acct_stable_built by (rule build_table_entries)

section \<open>Actions\<close>

definition RxACR :: "diameter_msg \<Rightarrow> 'c acct_session \<Rightarrow> 'c acct_session" where
  "RxACR msg s = Acct_MsgIdRx msg s"

definition TxACA :: "'c acct_senv \<Rightarrow> u32 \<Rightarrow> 'c acct_session \<Rightarrow> 'c acct_session" where
  "TxACA env rcode s =
     (if aa_BackwardCompatibility (ac_attrs s) then s
      else
        (case rec_UpdateAcctResponse (ce_storage env) (ACA_msg (ce_cfg env) rcode (ac_attrs s))
                (ac_records s) of
           (m, c) \<Rightarrow> snd (Acct_TxDelivery env m (s\<lparr>ac_records := c\<rparr>))))"

definition store_record :: "'c acct_senv \<Rightarrow> diameter_msg \<Rightarrow> 'c acct_session \<Rightarrow> 'c acct_session" where
  "store_record env m s =
     (let ty = aa_RecordType (ac_attrs s); num = aa_RecordNumber (ac_attrs s) in
      ac_emit (AcStoreRecord (acl m) ty num)
        (s\<lparr>ac_records := rec_StoreRecord (ce_storage env) (acl m) ty num (ac_records s)\<rparr>))"

text \<open>The pending message is moved out of the state machine.\<close>

definition with_record ::
    "(diameter_msg \<Rightarrow> 'c acct_session \<Rightarrow> 'c acct_session) \<Rightarrow> 'c acct_session \<Rightarrow> 'c acct_session" where
  "with_record f s =
     (case ac_PendingMsg s of
        None \<Rightarrow> s\<lparr>ac_fault := True\<rparr>
      | Some m \<Rightarrow> f m (s\<lparr>ac_PendingMsg := None\<rparr>))"

definition AcctServer_Reset :: "'c acct_session \<Rightarrow> 'c acct_session" where
  "AcctServer_Reset s =
     (let s1 = ac_emit (AcDbRemove (at_SessionId (ac_attrs s))) s
      in ac_emit AcScheduledForDeletion (s1\<lparr>ac_running := False\<rparr>))"

fun acct_saction :: "'c acct_senv \<Rightarrow> acct_sac \<Rightarrow> 'c acct_session \<Rightarrow> 'c acct_session" where
  "acct_saction env ASC_Null s = s"
| "acct_saction env ASC_RxACR_Start s =
     with_record (\<lambda>m s1.
       (let s2 = TxACA env AAA_SUCCESS (store_record env m (ac_cancel_all s1)) in
        ac_emit AcSuccess
          (ac_schedule CEV_SESSION_TOUT (neg_value (at_SessionTimeout (ac_attrs s2)))
             TIMER_SESSION s2))) s"
| "acct_saction env ASC_RxACR_Stop s =
     with_record (\<lambda>m s1.
       AcctServer_Reset
         (ac_emit AcSuccess (TxACA env AAA_SUCCESS (store_record env m (ac_cancel_all s1))))) s"
| "acct_saction env ASC_RxACR s =
     with_record (\<lambda>m s1. ac_emit AcSuccess (TxACA env AAA_SUCCESS (store_record env m s1))) s"
| "acct_saction env ASC_OutofSpace s =
     (let s1 = TxACA env ACCT_OUT_OF_SPACE s in
      AcctServer_Reset (ac_emit (AcFailed (aa_RecordNumber (ac_attrs s1))) s1))"
| "acct_saction env ASC_SessionTimeout s =
     AcctServer_Reset (ac_emit AcSessionTimeout (ac_cancel_all s))"

definition AcctServer_Notify :: "'c acct_senv \<Rightarrow> acct_ev \<Rightarrow> 'c acct_session \<Rightarrow> 'c acct_session" where
  "AcctServer_Notify env =
     sm_event acct_stable ac_running ac_state set_ac_state (acct_saction env)"

definition AcctServer_NotifyMsg ::
    "'c acct_senv \<Rightarrow> acct_ev \<Rightarrow> diameter_msg \<Rightarrow> 'c acct_session \<Rightarrow> 'c acct_session" where
  "AcctServer_NotifyMsg env ev m s = AcctServer_Notify env ev (s\<lparr>ac_PendingMsg := Some m\<rparr>)"

section \<open>Operations\<close>

definition AcctServer_new ::
    "'c acct_senv \<Rightarrow> u32 \<Rightarrow> 64 word \<Rightarrow> id_gen \<Rightarrow> 'c \<Rightarrow> 'c acct_session" where
  "AcctServer_new env app junk g r =
     (let s = new_acct_session (ce_acct env) app junk g r in
      if ce_stateful env then
        (ac_upd (\<lambda>a. a\<lparr>aa_RealtimeRequired := neg_Set DELIVER_AND_GRANT\<rparr>) s)
          \<lparr>ac_state := CST_IDLE, ac_running := True\<rparr>
      else s)"

definition AcctServer_Send ::
    "'c acct_senv \<Rightarrow> diameter_msg \<Rightarrow> 'c acct_session \<Rightarrow> aaa_rc \<times> 'c acct_session" where
  "AcctServer_Send env msg s = Acct_TxDelivery env msg s"

text \<open>A session without an identifier takes that of its first request.\<close>

definition acct_adopt_sid ::
    "'c acct_senv \<Rightarrow> diameter_msg \<Rightarrow> 'c acct_session \<Rightarrow> bool \<times> 'c acct_session" where
  "acct_adopt_sid env msg s =
     (if DiameterId (at_SessionId (ac_attrs s)) = [] then
        (case SessionId_Get (ce_platform env) (GetStr ''SessionId'' 0 (acl msg)) sid_empty of
           None \<Rightarrow> (False, s\<lparr>ac_fault := True\<rparr>)
         | Some (rc, i) \<Rightarrow>
             (if rc \<noteq> AAA_ERR_SUCCESS then (False, s)
              else (True, ac_upd (\<lambda>a. a\<lparr>at_SessionId := i\<rparr>) s)))
      else (True, s))"

definition or_else :: "'a option \<Rightarrow> 'a \<Rightarrow> 'a" where
  "or_else v d = (case v of None \<Rightarrow> d | Some x \<Rightarrow> x)"

text \<open>
  What a request sets; then a value that is not negotiated yet is that of the application, or
  stays as configured.
\<close>

definition settle :: "u32 option \<Rightarrow> negotiated \<Rightarrow> negotiated" where
  "settle v n =
     (if isNegotiated n then n
      else (case v of Some x \<Rightarrow> neg_Set x | None \<Rightarrow> n\<lparr>isNegotiated := True\<rparr>))"

definition filter_request :: "acct_app \<Rightarrow> diameter_msg \<Rightarrow> acct_attrs \<Rightarrow> acct_attrs" where
  "filter_request app msg a =
     a\<lparr>aa_SubSessionId := or_else (GetU64 ''AccountingSubSessionId'' 0 (acl msg)) (aa_SubSessionId a),
       aa_RecordNumber := or_else (GetU32 ''AccountingRecordNumber'' 0 (acl msg)) (aa_RecordNumber a),
       aa_RecordType := or_else (GetU32 ''AccountingRecordType'' 0 (acl msg)) (aa_RecordType a),
       aa_RadiusAcctSessionId :=
         (case GetStr ''AcctSessionId'' 0 (acl msg) of
            None \<Rightarrow> aa_RadiusAcctSessionId a | Some v \<Rightarrow> Some v),
       aa_MultiSessionId :=
         (case GetStr ''AcctMultiSessionId'' 0 (acl msg) of
            None \<Rightarrow> aa_MultiSessionId a | Some v \<Rightarrow> Some v),
       aa_RealtimeRequired := settle (app_SetRealTimeRequired app) (aa_RealtimeRequired a),
       aa_InterimInterval := settle (app_SetInterimInterval app) (aa_InterimInterval a)\<rparr>"

definition record_event :: "u32 \<Rightarrow> acct_ev option" where
  "record_event t =
     (if t = RECTYPE_EVENT then Some CEV_RX_ACR_EV_OK
      else if t = RECTYPE_START then Some CEV_RX_ACR_START_OK
      else if t = RECTYPE_INTERIM then Some CEV_RX_ACR_INT_OK
      else if t = RECTYPE_STOP then Some CEV_RX_ACR_STOP_OK
      else None)"

definition take_record :: "'c acct_senv \<Rightarrow> diameter_msg \<Rightarrow> 'c acct_session \<Rightarrow> 'c acct_session" where
  "take_record env msg s =
     (let space = rec_IsSpaceAvailableOnDevice (ce_storage env) in
      if ce_stateful env then
        (if \<not> space (ac_records s) then AcctServer_Notify env CEV_RX_ACR_NO_BUF s
         else (case record_event (aa_RecordType (ac_attrs s)) of
                 None \<Rightarrow> s
               | Some ev \<Rightarrow> AcctServer_NotifyMsg env ev msg s))
      else
        (let s1 = store_record env msg s in
         if space (ac_records s1) then ac_emit AcSuccess (TxACA env AAA_SUCCESS s1)
         else TxACA env ACCT_OUT_OF_SPACE s1))"

definition AcctServer_RxRequest ::
    "'c acct_senv \<Rightarrow> diameter_msg \<Rightarrow> 'c acct_session \<Rightarrow> 'c acct_session" where
  "AcctServer_RxRequest env msg s0 =
     (if code (hdr msg) \<noteq> MSG_ACCOUNTING then ac_emit (AcDiscarded msg) s0
      else
        (case acct_adopt_sid env msg s0 of
           (False, s) \<Rightarrow> s
         | (True, s) \<Rightarrow>
             take_record env msg (RxACR msg (ac_upd (filter_request (ce_app env) msg) s))))"

definition AcctServer_RxAnswer :: "diameter_msg \<Rightarrow> 'c acct_session \<Rightarrow> 'c acct_session" where
  "AcctServer_RxAnswer msg = ac_emit (AcDiscarded msg)"

definition AcctServer_RxError :: "diameter_msg \<Rightarrow> 'c acct_session \<Rightarrow> 'c acct_session" where
  "AcctServer_RxError msg = ac_emit (AcError msg)"

definition AcctServer_Timeout :: "'c acct_senv \<Rightarrow> int \<Rightarrow> 'c acct_session \<Rightarrow> 'c acct_session" where
  "AcctServer_Timeout env ty s =
     (case ac_timers s ty of None \<Rightarrow> s | Some (ev, sec) \<Rightarrow> AcctServer_Notify env ev s)"

end
