(* ===== verification/Acct_Props.thy ===== *)
theory Acct_Props
  imports Acct_Client_Inv Acct_Server
begin

text \<open>
  Properties of accounting: the invariant of the sub-sessions of a session, the states that
  wait for an answer, the records of a session that runs, and the exchange of a client with
  its server.
\<close>

section \<open>Every run\<close>


section \<open>Waiting for an answer\<close>

definition no_answer :: "acct_op \<Rightarrow> bool" where
  "no_answer op = (case op of Ac_RxAnswer m \<Rightarrow> False | Ac_Send m \<Rightarrow> False | _ \<Rightarrow> True)"

definition outside_event :: "acct_ev \<Rightarrow> bool" where
  "outside_event ev \<longleftrightarrow> List.member [CEV_REQUEST_ACCESS, CEV_REQUEST_ONETIME_ACCESS,
     CEV_REC_IN_STORAGE, CEV_STOP] ev"

definition waiting_entry :: "(acct_st, acct_ev, acct_ac) table_entry \<Rightarrow> bool" where
  "waiting_entry e \<longleftrightarrow>
     pending (prevState e) \<and>
     (isWildcardEvent e \<or> (case event e of None \<Rightarrow> False | Some ev \<Rightarrow> outside_event ev)) \<longrightarrow>
     nextState e = prevState e"

lemma acct_table_waits: "e \<in> set (entries acct_table) \<Longrightarrow> waiting_entry e"
proof -
  have "list_all waiting_entry (concat (map cmd_entries acct_cmds))" by code_simp
  then show "e \<in> set (entries acct_table) \<Longrightarrow> waiting_entry e"
    unfolding acct_entries list_all_iff by blast
qed

lemma acct_leaf_state: "\<not> sends a \<Longrightarrow> ac_state (acct_action notify env a s) = ac_state s"
  by (cases a) (simp_all add: sends_def effect_simps Let_def)

lemma pending_ignores:
  assumes "pending (ac_state s)" "outside_event ev"
  shows "ac_state (Acct_Notify env ev s) = ac_state s"
proof (cases rule: acct_event_cases [of 1 env ev s])
  case ignored
  then show ?thesis by (simp add: Acct_Notify_def numeral_2_eq_2)
next
  case (fired e)
  have "nextState e = prevState e"
    using acct_table_waits [OF fired(2)] fired(3,4) assms by (auto simp: waiting_entry_def)
  moreover have "\<not> sends (action e)"
    using acct_table_facts [OF fired(2)] fired(3) assms by (auto simp: acct_entry_facts_def)
  ultimately show ?thesis
    using fired(3,5) by (simp add: Acct_Notify_def numeral_2_eq_2 acct_leaf_state effect_simps)
qed

lemma pending_step:
  assumes "acct_inv s" "pending (ac_state s)" "no_answer op"
  shows "ac_state (acct_step env op s) = ac_state s"
proof (cases op)
  case (Ac_Timeout ty)
  then show ?thesis using assms by (simp add: Acct_Timeout_def acct_inv_def)
qed (use assms in \<open>simp_all add: no_answer_def Acct_Begin_def Acct_End_def Let_def effect_simps
  pending_ignores outside_event_def set_RecordType_def Acct_RxRequest_def Acct_RxError_def\<close>)

text \<open>C36: A sub-session that waits for an answer has no timer: without the answer it stays in its
  state for ever, whatever timers expire and whether the application ends it or begins
  anew.\<close>

theorem lost_answer_waits_for_ever:
  assumes "acct_good k s" "pending (ac_state s)" "list_all no_answer ops"
  shows "ac_state (fold (acct_step env) ops s) = ac_state s \<and>
    ac_timers (fold (acct_step env) ops s) = Map.empty"
  using assms
proof (induction ops arbitrary: s)
  case Nil
  then show ?case by (simp add: acct_good_def acct_inv_def)
next
  case (Cons op ops)
  have "ac_state (acct_step env op s) = ac_state s"
    using Cons.prems by (intro pending_step) (simp_all add: acct_good_def)
  then show ?case
    using Cons.IH [OF acct_good_step [OF Cons.prems(1), of env op]] Cons.prems by simp
qed

section \<open>A stored record\<close>

definition no_end :: "acct_op \<Rightarrow> bool" where
  "no_end op = (case op of Ac_End \<Rightarrow> False | Ac_Send m \<Rightarrow> False | _ \<Rightarrow> True)"

lemma open_ignores:
  assumes "ac_state s = CST_OPEN" "ev \<noteq> CEV_INT_EXPIRE" "ev \<noteq> CEV_STOP"
  shows "Acct_Notify env ev s = s"
proof (cases "ac_running s")
  case True
  have "sm_dispatch acct_table True CST_OPEN ev = Fire CST_OPEN ACC_Null"
    using assms(2,3) by (cases ev) (simp_all, code_simp+)
  then have "Acct_Notify env ev s = set_ac_state CST_OPEN s"
    using True assms(1) acct_fires [of s ev CST_OPEN ACC_Null 1 env]
    by (simp add: Acct_Notify_def numeral_2_eq_2)
  then show ?thesis using assms(1) by (simp add: set_ac_state_def)
qed (simp add: Acct_Notify_def numeral_2_eq_2 acct_event.simps sm_event_def sm_dispatch_def)

lemma open_without_timer_step:
  assumes "ac_state s = CST_OPEN" "ac_timers s = Map.empty" "no_end op"
  shows "ac_state (acct_step env op s) = CST_OPEN \<and> ac_timers (acct_step env op s) = Map.empty \<and>
    generated (ac_effects (acct_step env op s)) = generated (ac_effects s)"
proof (cases op)
  case (Ac_RxAnswer m)
  have "acct_answer_event env m t \<noteq> CEV_INT_EXPIRE" "acct_answer_event env m t \<noteq> CEV_STOP" for t
    by (simp_all add: acct_answer_event_def Let_def)
  then show ?thesis
    using assms by (simp add: Ac_RxAnswer Acct_RxAnswer_def Let_def open_ignores effect_simps RxACA_def)
qed (use assms in \<open>simp_all add: no_end_def Acct_Begin_def Acct_Timeout_def Let_def effect_simps
  open_ignores set_RecordType_def Acct_RxRequest_def Acct_RxError_def\<close>)

lemma open_without_timer:
  assumes "ac_state s = CST_OPEN" "ac_timers s = Map.empty" "list_all no_end ops"
  shows "ac_state (fold (acct_step env) ops s) = CST_OPEN \<and>
    generated (ac_effects (fold (acct_step env) ops s)) = generated (ac_effects s)"
  using assms
proof (induction ops arbitrary: s)
  case (Cons op ops)
  have o1: "no_end op" "list_all no_end ops" using Cons.prems(3) by simp_all
  show ?case
    using open_without_timer_step [OF Cons.prems(1,2) o1(1), of env]
      Cons.IH [OF _ _ o1(2), of "acct_step env op s"] by simp
qed simp

lemma pending_answered:
  assumes "ac_state s = CST_PENDING_S \<or> ac_state s = CST_PENDING_I" "ac_running s"
  shows "Acct_Notify env CEV_RX_ACA_OK s =
    acct_action (acct_event 1 env) env ACC_RxACA_Success (set_ac_state CST_OPEN s)"
proof -
  have "sm_dispatch acct_table True CST_PENDING_S CEV_RX_ACA_OK = Fire CST_OPEN ACC_RxACA_Success"
    "sm_dispatch acct_table True CST_PENDING_I CEV_RX_ACA_OK = Fire CST_OPEN ACC_RxACA_Success"
    by code_simp+
  then show ?thesis
    using acct_fires [of s CEV_RX_ACA_OK CST_OPEN ACC_RxACA_Success 1 env] assms
    by (auto simp: Acct_Notify_def numeral_2_eq_2)
qed

text \<open>C37: When a record of the session is in storage because it could not be sent, the answer to
  a later record deletes it although it was never sent, and arms no timer: the session stays
  open and generates no further record, whatever happens, until the application ends it.\<close>

theorem stored_record_is_lost:
  assumes "acct_good k s" "ac_state s = CST_PENDING_S \<or> ac_state s = CST_PENDING_I"
    and "rec_IsLastRecordInStorage (ce_collector env) (ac_records s)"
    and "code (hdr m) = MSG_ACCOUNTING" "InterpretedResultCode m = RCODE_SUCCESS"
    and "list_all no_end ops"
  shows "\<exists>t s1. s1 = Acct_RxAnswer env m s \<and>
    ac_effects s1 = ac_effects s @ [AcDeletedLast t, AcSuccess] \<and>
    ac_timers s1 = Map.empty \<and>
    ac_state (fold (acct_step env) ops s1) = CST_OPEN \<and>
    generated (ac_effects (fold (acct_step env) ops s1)) = generated (ac_effects s)"
proof -
  let ?t = "ac_upd (filter_answer m) (RxACA m s)"
  have t: "ac_state ?t = ac_state s" "ac_running ?t" "ac_timers ?t = Map.empty"
    "ac_records ?t = ac_records s"
    using assms(1,2) by (auto simp: acct_good_def acct_inv_def pending_def effect_simps RxACA_def)
  define s1 where "s1 = Acct_RxAnswer env m s"
  have "s1 = acct_action (acct_event 1 env) env ACC_RxACA_Success (set_ac_state CST_OPEN ?t)"
    using assms(4,5) pending_answered [of ?t env] t(1,2) assms(2)
    by (simp add: s1_def Acct_RxAnswer_def Let_def acct_answer_event_def)
  then have s1: "s1 = ac_emit AcSuccess (delete_last env (set_ac_state CST_OPEN ?t))"
    using assms(3) t(4) by (simp add: effect_simps)
  obtain r where e: "ac_effects s1 = ac_effects s @ [AcDeletedLast r, AcSuccess]"
    by (simp add: s1 effect_simps RxACA_def)
  have tm: "ac_timers s1 = Map.empty" using t(3) by (simp add: s1 effect_simps)
  have "ac_state s1 = CST_OPEN" by (simp add: s1 effect_simps)
  from open_without_timer [OF this tm assms(6), of env] e tm
  have "ac_state (fold (acct_step env) ops s1) = CST_OPEN"
    "generated (ac_effects (fold (acct_step env) ops s1)) = generated (ac_effects s)"
    by auto
  then show ?thesis using e tm s1_def by blast
qed

section \<open>What the messages say\<close>

lemma acl_search_first: "acl_search n l = Some v \<Longrightarrow> acl_search n (l @ x) = Some v"
  by (induction l rule: acl_search.induct) (auto split: if_splits)

lemma GetAvp_append: "GetAvp n 0 l = Some v \<Longrightarrow> GetAvp n 0 (l @ x) = Some v"
  by (auto simp: GetAvp_def acl_search_first split: option.splits)

lemma SessionId_Set_new: "acl (SessionId_Set i (MsgWidget c r app)) = [(''SessionId'', [AStr (sid_text i)])]"
  by (simp add: SessionId_Set_def MsgWidget_def AddAvp_def)

lemmas acct_msg_defs = acct_base_def acct_origin_def acct_ids_def acct_terms_def
  SessionId_Set_new GetAvp_def

lemma ACR_says:
  "GetAvp ''AccountingRecordType'' 0 (acl (ACR_msg cfg a)) = Some (AU32 (aa_RecordType a))"
  "GetAvp ''AccountingRecordNumber'' 0 (acl (ACR_msg cfg a)) = Some (AU32 (aa_RecordNumber a))"
  "GetAvp ''AccountingSubSessionId'' 0 (acl (ACR_msg cfg a)) = Some (AU64 (aa_SubSessionId a))"
  "code (hdr (ACR_msg cfg a)) = MSG_ACCOUNTING" "flag_r (flags (hdr (ACR_msg cfg a)))"
  by (simp_all add: ACR_msg_def acct_msg_defs Let_def) (simp_all add: SessionId_Set_def MsgWidget_def)

lemma ACA_says:
  "GetAvp ''ResultCode'' 0 (acl (ACA_msg cfg r a)) = Some (AU32 r)"
  "GetAvp ''AccountingRecordType'' 0 (acl (ACA_msg cfg r a)) = Some (AU32 (aa_RecordType a))"
  "GetAvp ''AccountingRecordNumber'' 0 (acl (ACA_msg cfg r a)) = Some (AU32 (aa_RecordNumber a))"
  "GetAvp ''AccountingSubSessionId'' 0 (acl (ACA_msg cfg r a)) = Some (AU64 (aa_SubSessionId a))"
  "GetAvp ''AccountingRealtimeRequired'' 0 (acl (ACA_msg cfg r a)) =
     Some (AU32 (neg_value (aa_RealtimeRequired a)))"
  "GetAvp ''AcctInterimInterval'' 0 (acl (ACA_msg cfg r a)) =
     Some (AU32 (neg_value (aa_InterimInterval a)))"
  "code (hdr (ACA_msg cfg r a)) = MSG_ACCOUNTING" "\<not> flag_r (flags (hdr (ACA_msg cfg r a)))"
  by (simp_all add: ACA_msg_def acct_msg_defs Let_def) (simp_all add: SessionId_Set_def MsgWidget_def)

lemma header_same_fields:
  assumes "header_same m m'"
  shows "code (hdr m') = code (hdr m)" "flags (hdr m') = flags (hdr m)"
proof -
  have e: "hdr m' = (hdr m)\<lparr>hh := hh (hdr m'), ee := ee (hdr m')\<rparr>"
    using assms by (simp only: header_same_def)
  show "code (hdr m') = code (hdr m)" by (subst e) simp
  show "flags (hdr m') = flags (hdr m)" by (subst e) simp
qed

lemma resolve_host_realm:
  "resolve_host app m a = (m', a') \<Longrightarrow> at_DestinationRealm a' = at_DestinationRealm a"
  by (auto simp: resolve_host_def split: option.splits)

text \<open>A request is routed when the realm of its destination is known.\<close>

lemma deliver_request:
  assumes "at_DestinationRealm a \<noteq> None \<or> app_SetDestinationRealm app \<noteq> None"
  obtains m' a' g' where "deliver cfg app m a g = (Inr m', a', g')"
proof -
  obtain m1 a1 where 1: "resolve_host app m a = (m1, a1)" by fastforce
  have "resolve_realm app m1 a1 \<noteq> None"
    using assms resolve_host_realm [OF 1] by (auto simp: resolve_realm_def split: option.splits)
  then obtain m2 a2 where 2: "resolve_realm app m1 a1 = Some (m2, a2)" by force
  show ?thesis
  proof (cases "resolve_user app m2 a2")
    case (Pair m3 a3)
    let ?m5 = "SessionId_Set (at_SessionId a3)
      (put_missing ''OriginRealm'' (cfg_realm cfg) (put_missing ''OriginHost'' (cfg_identity cfg) m3))"
    obtain m' a' g' where "attrs_MsgIdTx ?m5 a3 g = (m', a', g')" by (metis prod_cases3)
    then show ?thesis using that by (simp add: deliver_def 1 2 Pair Let_def)
  qed
qed

section \<open>The server takes a record\<close>

definition record_taken :: "acct_st \<Rightarrow> u32 \<Rightarrow> bool" where
  "record_taken st t \<longleftrightarrow>
     st = CST_IDLE \<and> List.member [RECTYPE_EVENT, RECTYPE_START] t \<or>
     st = CST_OPEN \<and> List.member [RECTYPE_EVENT, RECTYPE_START, RECTYPE_INTERIM, RECTYPE_STOP] t"

definition taken_state :: "acct_st \<Rightarrow> u32 \<Rightarrow> acct_st" where
  "taken_state st t =
     (if t = RECTYPE_STOP then CST_IDLE else if t = RECTYPE_EVENT then st else CST_OPEN)"

definition taken_action :: "u32 \<Rightarrow> acct_sac" where
  "taken_action t =
     (if t = RECTYPE_STOP then ASC_RxACR_Stop else if t = RECTYPE_EVENT then ASC_RxACR
      else ASC_RxACR_Start)"

definition taken_timers :: "u32 \<Rightarrow> u32 \<Rightarrow> acct_ev timers \<Rightarrow> acct_ev timers" where
  "taken_timers t tout tm =
     (if t = RECTYPE_STOP then Map.empty else if t = RECTYPE_EVENT then tm
      else [TIMER_SESSION \<mapsto> (CEV_SESSION_TOUT, unat tout)])"

lemma server_dispatch:
  assumes "record_taken st t"
  obtains ev where "record_event t = Some ev"
    "sm_dispatch acct_stable True st ev = Fire (taken_state st t) (taken_action t)"
proof -
  have d: "list_all (\<lambda>(st, t). case record_event t of None \<Rightarrow> False | Some ev \<Rightarrow>
        sm_dispatch acct_stable True st ev = Fire (taken_state st t) (taken_action t))
      [(CST_IDLE, RECTYPE_EVENT), (CST_IDLE, RECTYPE_START), (CST_OPEN, RECTYPE_EVENT),
       (CST_OPEN, RECTYPE_START), (CST_OPEN, RECTYPE_INTERIM), (CST_OPEN, RECTYPE_STOP)]"
    by code_simp
  have "\<exists>ev. record_event t = Some ev \<and>
      sm_dispatch acct_stable True st ev = Fire (taken_state st t) (taken_action t)"
    using assms d by (auto simp: record_taken_def split: option.splits)
  then show ?thesis using that by blast
qed

text \<open>The answer is what the storage makes of it, which is the answer itself here.\<close>

definition plain_storage :: "'c rec_storage \<Rightarrow> bool" where
  "plain_storage st \<longleftrightarrow> (\<forall>m c. fst (rec_UpdateAcctResponse st m c) = m)"

definition answers_record :: "dia_config \<Rightarrow> acct_attrs \<Rightarrow> diameter_msg \<Rightarrow> bool" where
  "answers_record cfg a m \<longleftrightarrow>
     hdr m = (hdr (ACA_msg cfg AAA_SUCCESS a))\<lparr>hh := at_LastRxHopId a, ee := at_LastRxEndId a\<rparr> \<and>
     (\<forall>n. \<not> delivery_avp n \<longrightarrow> GetAvp n 0 (acl m) = GetAvp n 0 (acl (ACA_msg cfg AAA_SUCCESS a)))"

lemma TxACA_answers:
  assumes "plain_storage (ce_storage env)" "\<not> aa_BackwardCompatibility (ac_attrs s)"
  obtains m' a' c where "TxACA env AAA_SUCCESS s =
      ac_emit (AcRouted m') (s\<lparr>ac_records := c, ac_attrs := a'\<rparr>)"
    "answers_record (ce_cfg env) (ac_attrs s) m'" "same_attrs (ac_attrs s) a'"
proof -
  let ?m = "ACA_msg (ce_cfg env) AAA_SUCCESS (ac_attrs s)"
  obtain c where u: "rec_UpdateAcctResponse (ce_storage env) ?m (ac_records s) = (?m, c)"
    using assms(1) by (metis plain_storage_def prod.collapse)
  obtain m' a' where
    d: "deliver (ce_cfg env) (ce_app env) ?m (ac_attrs s) (ac_idgen s) = (Inr m', a', ac_idgen s)"
    by (rule deliver_answer [of ?m "ce_cfg env" "ce_app env" "ac_attrs s" "ac_idgen s"])
      (simp_all add: ACA_says(8))
  note r = deliver_routes [OF d]
  have "TxACA env AAA_SUCCESS s = ac_emit (AcRouted m') (s\<lparr>ac_records := c, ac_attrs := a'\<rparr>)"
    using assms(2) by (simp add: TxACA_def u Acct_TxDelivery_def d)
  then show ?thesis
    using that [OF _ _ r(3)] r(2) r(4) [OF ACA_says(8)] by (simp add: answers_record_def)
qed

lemma server_takes_record:
  assumes "record_taken (ac_state s) t" "aa_RecordType (ac_attrs s) = t" "ac_running s"
    and "ce_stateful env" "rec_IsSpaceAvailableOnDevice (ce_storage env) (ac_records s)"
    and "plain_storage (ce_storage env)" "\<not> aa_BackwardCompatibility (ac_attrs s)"
  obtains m' where
    "ac_effects (take_record env m s) = ac_effects s @
       [AcStoreRecord (acl m) t (aa_RecordNumber (ac_attrs s)), AcRouted m', AcSuccess] @
       (if t = RECTYPE_STOP then [AcDbRemove (at_SessionId (ac_attrs s)), AcScheduledForDeletion]
        else [])"
    "answers_record (ce_cfg env) (ac_attrs s) m'"
    "ac_state (take_record env m s) = taken_state (ac_state s) t"
    "ac_timers (take_record env m s) =
       taken_timers t (neg_value (at_SessionTimeout (ac_attrs s))) (ac_timers s)"
proof -
  define st where "st = taken_state (ac_state s) t"
  obtain ev where ev: "record_event t = Some ev"
    "sm_dispatch acct_stable True (ac_state s) ev = Fire st (taken_action t)"
    by (rule server_dispatch [OF assms(1)]) (simp add: st_def)
  define s1 where "s1 = (set_ac_state st s)\<lparr>ac_PendingMsg := None\<rparr>"
  define s2 where "s2 = store_record env m (if t = RECTYPE_EVENT then s1 else ac_cancel_all s1)"
  have s2: "ac_attrs s2 = ac_attrs s" "ac_state s2 = st"
    "ac_timers s2 = (if t = RECTYPE_EVENT then ac_timers s else Map.empty)"
    "ac_effects s2 = ac_effects s @ [AcStoreRecord (acl m) t (aa_RecordNumber (ac_attrs s))]"
    using assms(2) by (auto simp: s2_def s1_def store_record_def Let_def effect_simps)
  obtain m' a' c where tx: "TxACA env AAA_SUCCESS s2 =
      ac_emit (AcRouted m') (s2\<lparr>ac_records := c, ac_attrs := a'\<rparr>)"
    "answers_record (ce_cfg env) (ac_attrs s2) m'" "same_attrs (ac_attrs s2) a'"
    by (rule TxACA_answers [OF assms(6), of s2]) (simp_all add: assms(7) s2(1))
  have a': "at_SessionId a' = at_SessionId (ac_attrs s)"
    "at_SessionTimeout a' = at_SessionTimeout (ac_attrs s)"
    using tx(3) s2(1) by (simp_all add: same_attrs_def)
  have e: "take_record env m s = acct_saction env (taken_action t)
      (set_ac_state st (s\<lparr>ac_PendingMsg := Some m\<rparr>))"
    using assms(2,3,4,5) ev
    by (simp add: take_record_def AcctServer_NotifyMsg_def AcctServer_Notify_def sm_event_def)
  have p: "(set_ac_state st (s\<lparr>ac_PendingMsg := Some m\<rparr>))\<lparr>ac_PendingMsg := None\<rparr> = s1"
    by (simp add: s1_def set_ac_state_def)
  have ne: "RECTYPE_EVENT \<noteq> RECTYPE_STOP" by (simp add: rectype_defs)
  have r: "take_record env m s =
      (if t = RECTYPE_STOP then AcctServer_Reset (ac_emit AcSuccess (TxACA env AAA_SUCCESS s2))
       else if t = RECTYPE_EVENT then ac_emit AcSuccess (TxACA env AAA_SUCCESS s2)
       else ac_emit AcSuccess (ac_schedule CEV_SESSION_TOUT
         (neg_value (at_SessionTimeout (ac_attrs (TxACA env AAA_SUCCESS s2)))) TIMER_SESSION
         (TxACA env AAA_SUCCESS s2)))"
    using ne by (simp add: e taken_action_def with_record_def effect_simps p s2_def Let_def)
  show ?thesis
  proof (rule that [of m'])
    show "answers_record (ce_cfg env) (ac_attrs s) m'" using tx(2) s2(1) by simp
    show "ac_effects (take_record env m s) = ac_effects s @
       [AcStoreRecord (acl m) t (aa_RecordNumber (ac_attrs s)), AcRouted m', AcSuccess] @
       (if t = RECTYPE_STOP then [AcDbRemove (at_SessionId (ac_attrs s)), AcScheduledForDeletion]
        else [])"
      by (simp add: r tx(1) AcctServer_Reset_def Let_def effect_simps s2 a')
    show "ac_state (take_record env m s) = taken_state (ac_state s) t"
      by (simp add: st_def [symmetric] r tx(1) AcctServer_Reset_def Let_def effect_simps s2)
    show "ac_timers (take_record env m s) =
       taken_timers t (neg_value (at_SessionTimeout (ac_attrs s))) (ac_timers s)"
      using ne by (simp add: r tx(1) AcctServer_Reset_def Let_def effect_simps s2 taken_timers_def a')
  qed
qed

text \<open>A request that carries the type and the number of its record.\<close>

definition record_request :: "diameter_msg \<Rightarrow> u32 \<Rightarrow> u32 \<Rightarrow> bool" where
  "record_request m t n \<longleftrightarrow>
     code (hdr m) = MSG_ACCOUNTING \<and> flag_r (flags (hdr m)) \<and>
     GetU32 ''AccountingRecordType'' 0 (acl m) = Some t \<and>
     GetU32 ''AccountingRecordNumber'' 0 (acl m) = Some n"

text \<open>The answer to a request accepts its record and has its identifiers.\<close>

definition record_answer :: "diameter_msg \<Rightarrow> u32 \<Rightarrow> u32 \<Rightarrow> diameter_msg \<Rightarrow> bool" where
  "record_answer m t n m' \<longleftrightarrow>
     code (hdr m') = MSG_ACCOUNTING \<and> \<not> flag_r (flags (hdr m')) \<and>
     hh (hdr m') = hh (hdr m) \<and> ee (hdr m') = ee (hdr m) \<and>
     GetU32 ''ResultCode'' 0 (acl m') = Some AAA_SUCCESS \<and>
     GetU32 ''AccountingRecordType'' 0 (acl m') = Some t \<and>
     GetU32 ''AccountingRecordNumber'' 0 (acl m') = Some n"

lemma acct_delivery_names [simp]:
  "\<not> delivery_avp ''ResultCode''" "\<not> delivery_avp ''AccountingRecordType''"
  "\<not> delivery_avp ''AccountingRecordNumber''" "\<not> delivery_avp ''AccountingSubSessionId''"
  "\<not> delivery_avp ''AccountingRealtimeRequired''" "\<not> delivery_avp ''AcctInterimInterval''"
  by (simp_all add: delivery_avp_def)

lemma server_request_taken:
  assumes "acct_adopt_sid env m s0 = (True, s)" "record_request m t n"
    and "record_taken (ac_state s) t" "ac_running s" "ce_stateful env"
    and "rec_IsSpaceAvailableOnDevice (ce_storage env) (ac_records s)"
    and "plain_storage (ce_storage env)" "\<not> aa_BackwardCompatibility (ac_attrs s)"
  obtains m' where
    "ac_effects (AcctServer_RxRequest env m s0) = ac_effects s @
       [AcStoreRecord (acl m) t n, AcRouted m', AcSuccess] @
       (if t = RECTYPE_STOP then [AcDbRemove (at_SessionId (ac_attrs s)), AcScheduledForDeletion]
        else [])"
    "record_answer m t n m'"
    "GetU64 ''AccountingSubSessionId'' 0 (acl m') =
       Some (aa_SubSessionId (filter_request (ce_app env) m (ac_attrs s)))"
    "GetU32 ''AccountingRealtimeRequired'' 0 (acl m') =
       Some (neg_value (aa_RealtimeRequired (filter_request (ce_app env) m (ac_attrs s))))"
    "GetU32 ''AcctInterimInterval'' 0 (acl m') =
       Some (neg_value (aa_InterimInterval (filter_request (ce_app env) m (ac_attrs s))))"
    "ac_state (AcctServer_RxRequest env m s0) = taken_state (ac_state s) t"
    "ac_timers (AcctServer_RxRequest env m s0) =
       taken_timers t (neg_value (at_SessionTimeout (ac_attrs s))) (ac_timers s)"
proof -
  define s1 where "s1 = RxACR m (ac_upd (filter_request (ce_app env) m) s)"
  let ?f = "filter_request (ce_app env) m (ac_attrs s)"
  have a1: "ac_attrs s1 = ?f\<lparr>at_LastRxHopId := hh (hdr m), at_LastRxEndId := ee (hdr m)\<rparr>"
    using assms(2)
    by (simp add: s1_def RxACR_def Acct_MsgIdRx_def attrs_MsgIdRx_def effect_simps
        record_request_def)
  have f: "aa_RecordType ?f = t" "aa_RecordNumber ?f = n"
    "at_SessionTimeout ?f = at_SessionTimeout (ac_attrs s)" "at_SessionId ?f = at_SessionId (ac_attrs s)"
    "aa_BackwardCompatibility ?f = aa_BackwardCompatibility (ac_attrs s)"
    using assms(2) by (simp_all add: filter_request_def or_else_def record_request_def)
  have s1: "ac_state s1 = ac_state s" "ac_running s1 = ac_running s" "ac_timers s1 = ac_timers s"
    "ac_records s1 = ac_records s" "ac_effects s1 = ac_effects s"
    by (simp_all add: s1_def RxACR_def effect_simps)
  have e: "AcctServer_RxRequest env m s0 = take_record env m s1"
    using assms(1,2) by (simp add: AcctServer_RxRequest_def record_request_def s1_def)
  obtain m' where m':
    "ac_effects (take_record env m s1) = ac_effects s1 @
       [AcStoreRecord (acl m) t (aa_RecordNumber (ac_attrs s1)), AcRouted m', AcSuccess] @
       (if t = RECTYPE_STOP then [AcDbRemove (at_SessionId (ac_attrs s1)), AcScheduledForDeletion]
        else [])"
    "answers_record (ce_cfg env) (ac_attrs s1) m'"
    "ac_state (take_record env m s1) = taken_state (ac_state s1) t"
    "ac_timers (take_record env m s1) =
       taken_timers t (neg_value (at_SessionTimeout (ac_attrs s1))) (ac_timers s1)"
    by (rule server_takes_record [of s1 t env m]) (simp_all add: assms(3-8) s1 a1 f)
  show ?thesis
    using that [of m'] m' ACA_says [of "ce_cfg env" AAA_SUCCESS "ac_attrs s1"]
    by (simp add: e s1 a1 f answers_record_def record_answer_def GetU32_def GetU64_def)
qed


section \<open>A session starts\<close>

text \<open>
  A collector that appends to the message and keeps nothing in storage while it does.
\<close>

definition plain_collector :: "'c rec_collector \<Rightarrow> bool" where
  "plain_collector col \<longleftrightarrow>
     (\<forall>l t n c. (\<exists>x. fst (rec_GenerateRecord col l t n c) = l @ x) \<and>
        rec_IsLastRecordInStorage col (snd (rec_GenerateRecord col l t n c)) =
        rec_IsLastRecordInStorage col c)"

text \<open>A sub-session before it begins.\<close>

definition ready :: "'c acct_cenv \<Rightarrow> 'c acct_session \<Rightarrow> bool" where
  "ready env c \<longleftrightarrow>
     ac_running c \<and> ac_state c = CST_IDLE \<and> \<not> aa_BackwardCompatibility (ac_attrs c) \<and>
     \<not> rec_IsLastRecordInStorage (ce_collector env) (ac_records c) \<and>
     (at_DestinationRealm (ac_attrs c) \<noteq> None \<or> app_SetDestinationRealm (ce_app env) \<noteq> None)"

lemma begin_sends:
  assumes "ready env c" "plain_collector (ce_collector env)" "\<forall>m. ce_routed env m"
  obtains m where
    "ac_effects (Acct_Begin env False c) = ac_effects c @
       [AcGenerated RECTYPE_START (aa_RecordNumber (ac_attrs c) + 1), AcRouted m]"
    "ac_state (Acct_Begin env False c) = CST_PENDING_S"
    "ac_running (Acct_Begin env False c)"
    "\<not> rec_IsLastRecordInStorage (ce_collector env) (ac_records (Acct_Begin env False c))"
    "record_request m RECTYPE_START (aa_RecordNumber (ac_attrs c) + 1)"
    "GetU64 ''AccountingSubSessionId'' 0 (acl m) = Some (aa_SubSessionId (ac_attrs c))"
    "GetStr ''SessionId'' 0 (acl m) = Some (sid_text (at_SessionId (ac_attrs c)))"
proof -
  define t where "t = set_RecordType RECTYPE_START (ac_upd (acct_begin_attrs (ce_app env)) c)"
  define u where "u = ac_cancel_all (set_ac_state CST_PENDING_S t)"
  let ?n = "aa_RecordNumber (ac_attrs c) + 1"
  have d: "sm_dispatch acct_table True CST_IDLE CEV_REQUEST_ACCESS = Fire CST_PENDING_S ACC_TxACR"
    by code_simp
  have t: "ac_state t = CST_IDLE" "ac_running t" "ac_records t = ac_records c"
    using assms(1) by (simp_all add: t_def set_RecordType_def ready_def effect_simps)
  have b: "Acct_Begin env False c = TxACR (acct_event 1 env) env u"
    using assms(1) t acct_fires [of t CEV_REQUEST_ACCESS CST_PENDING_S ACC_TxACR 1 env] d
    by (simp add: Acct_Begin_def Let_def ready_def effect_simps t_def [symmetric] Acct_Notify_def
        numeral_2_eq_2 u_def)
  define v where "v = ac_upd (\<lambda>a. a\<lparr>aa_RecordNumber := aa_RecordNumber a + 1\<rparr>) u"
  have v: "aa_RecordType (ac_attrs v) = RECTYPE_START" "aa_RecordNumber (ac_attrs v) = ?n"
    "aa_SubSessionId (ac_attrs v) = aa_SubSessionId (ac_attrs c)"
    "at_SessionId (ac_attrs v) = at_SessionId (ac_attrs c)"
    "at_DestinationRealm (ac_attrs v) = at_DestinationRealm (ac_attrs c)"
    "ac_effects v = ac_effects c" "ac_records v = ac_records c" "ac_running v"
    "ac_state v = CST_PENDING_S"
    using t(2) by (simp_all add: v_def u_def t_def set_RecordType_def acct_begin_attrs_def Let_def
        effect_simps)
  have bc: "\<not> aa_BackwardCompatibility (ac_attrs u)"
    using assms(1) by (simp add: u_def t_def set_RecordType_def acct_begin_attrs_def Let_def
        effect_simps ready_def)
  let ?m = "ACR_msg (ce_cfg env) (ac_attrs v)"
  let ?g = "rec_GenerateRecord (ce_collector env) (acl ?m) RECTYPE_START ?n (ac_records c)"
  obtain x where x: "fst ?g = acl ?m @ x"
    using assms(2) unfolding plain_collector_def by blast
  define w where "w = ac_emit (AcGenerated RECTYPE_START ?n) (v\<lparr>ac_records := snd ?g\<rparr>)"
  have w: "ac_attrs w = ac_attrs v" "ac_state w = CST_PENDING_S" "ac_running w"
    "ac_effects w = ac_effects c @ [AcGenerated RECTYPE_START ?n]"
    "\<not> rec_IsLastRecordInStorage (ce_collector env) (ac_records w)"
    using v assms(1,2) by (simp_all add: w_def effect_simps ready_def plain_collector_def)
  have gen: "acct_generate env (acl ?m) v = (acl ?m @ x, w)"
    using x by (simp add: acct_generate_def Let_def v w_def case_prod_unfold)
  have tx: "TxACR (acct_event 1 env) env u =
      acct_transmit (acct_event 1 env) env (?m\<lparr>acl := acl ?m @ x\<rparr>) w"
    using bc by (simp add: TxACR_def Let_def v_def [symmetric] gen)
  have "at_DestinationRealm (ac_attrs w) \<noteq> None \<or> app_SetDestinationRealm (ce_app env) \<noteq> None"
    using assms(1) by (simp add: ready_def w v)
  then obtain m' a' g' where del: "deliver (ce_cfg env) (ce_app env) (?m\<lparr>acl := acl ?m @ x\<rparr>)
      (ac_attrs w) (ac_idgen w) = (Inr m', a', g')"
    by (rule deliver_request)
  have r: "Acct_Begin env False c = ac_emit (AcRouted m') (w\<lparr>ac_attrs := a', ac_idgen := g'\<rparr>)"
    using assms(3) unfolding b tx by (simp add: acct_transmit_def Acct_TxDelivery_def del)
  note R = deliver_routes [OF del]
  have avp: "GetAvp ''AccountingRecordType'' 0 (acl m') = Some (AU32 RECTYPE_START)"
    "GetAvp ''AccountingRecordNumber'' 0 (acl m') = Some (AU32 ?n)"
    "GetAvp ''AccountingSubSessionId'' 0 (acl m') = Some (AU64 (aa_SubSessionId (ac_attrs c)))"
    using GetAvp_append [OF ACR_says(1), of "ce_cfg env" "ac_attrs v" x]
      GetAvp_append [OF ACR_says(2), of "ce_cfg env" "ac_attrs v" x]
      GetAvp_append [OF ACR_says(3), of "ce_cfg env" "ac_attrs v" x]
    by (simp_all add: R(2) v)
  have h: "code (hdr m') = MSG_ACCOUNTING" "flag_r (flags (hdr m'))"
    using header_same_fields [OF R(1)] ACR_says(4,5) [of "ce_cfg env" "ac_attrs v"] by simp_all
  show ?thesis
    using that [of m'] w R(5) avp h
    by (simp add: r effect_simps record_request_def GetU32_def GetU64_def v)
qed

text \<open>The answer to a record opens a session that waits, under the values that it dictates.\<close>

lemma answer_opens_pending:
  assumes "ac_state c = CST_PENDING_S" "ac_running c" "record_answer m t n m'" "running_type t"
    and "\<not> rec_IsLastRecordInStorage (ce_collector env) (ac_records c)"
    and "GetU32 ''AcctInterimInterval'' 0 (acl m') = Some v"
  shows "ac_state (Acct_RxAnswer env m' c) = CST_OPEN"
    and "ac_timers (Acct_RxAnswer env m' c) = [TIMER_INTERVAL \<mapsto> (CEV_INT_EXPIRE, unat v)]"
    and "ac_effects (Acct_RxAnswer env m' c) = ac_effects c @ [AcSuccess]"
proof -
  let ?t = "ac_upd (filter_answer m') (RxACA m' c)"
  have t: "ac_state ?t = CST_PENDING_S" "ac_running ?t" "ac_records ?t = ac_records c"
    "ac_effects ?t = ac_effects c"
    using assms(1,2) by (simp_all add: RxACA_def effect_simps)
  have "InterpretedResultCode m' = RCODE_SUCCESS"
    using assms(3)
    by (simp add: record_answer_def InterpretedResultCode_def ResultCode_def AAA_SUCCESS_def
        InterpretedCode_class rcode_class_def)
  then have "Acct_RxAnswer env m' c =
      acct_action (acct_event 1 env) env ACC_RxACA_Success (set_ac_state CST_OPEN ?t)"
    using assms(3) pending_answered [of ?t env] t(1,2)
    by (simp add: Acct_RxAnswer_def record_answer_def Let_def acct_answer_event_def)
  moreover have "aa_RecordType (ac_attrs ?t) = t" "neg_value (aa_InterimInterval (ac_attrs ?t)) = v"
    using assms(3,6)
    by (simp_all add: effect_simps filter_answer_def record_answer_def assign_some_def neg_assign_def)
  ultimately have e: "Acct_RxAnswer env m' c =
      ac_emit AcSuccess (acct_interim_timer (ac_cancel_all (set_ac_state CST_OPEN ?t)))"
    and v: "neg_value (aa_InterimInterval (ac_attrs ?t)) = v"
    using assms(4,5) t(3) by (simp_all add: effect_simps)
  show "ac_state (Acct_RxAnswer env m' c) = CST_OPEN" by (simp add: e effect_simps)
  show "ac_timers (Acct_RxAnswer env m' c) = [TIMER_INTERVAL \<mapsto> (CEV_INT_EXPIRE, unat v)]"
    using v by (simp add: e effect_simps)
  show "ac_effects (Acct_RxAnswer env m' c) = ac_effects c @ [AcSuccess]"
    using t(4) by (simp add: e effect_simps)
qed

definition server_interval :: "'c acct_senv \<Rightarrow> u32" where
  "server_interval senv =
     or_else (app_SetInterimInterval (ce_app senv)) (cc_recIntervalTm (ce_acct senv))"


end
