(* ===== verification/Acct_Samples.thy ===== *)
theory Acct_Samples
  imports Acct_Props Session_Props
begin

text \<open>
  The properties of accounting at a concrete client, with a collector that stores one record,
  and a concrete server, with a storage that counts its records.
\<close>

definition c_collector :: "bool rec_collector" where
  "c_collector =
     \<lparr>rec_GenerateRecord = (\<lambda>l t n c. (l @ [(''Record'', [AU32 n])], c)),
      rec_IsLastRecordInStorage = (\<lambda>c. c), rec_IsStorageSpaceAvailable = (\<lambda>c. \<not> c),
      rec_StoreLastRecord = (\<lambda>t c. True), rec_DeleteLastRecord = (\<lambda>t c. False)\<rparr>"

definition c_storage :: "nat rec_storage" where
  "c_storage =
     \<lparr>rec_IsSpaceAvailableOnDevice = (\<lambda>n. n < 10), rec_StoreRecord = (\<lambda>l t k n. n + 1),
      rec_UpdateAcctResponse = (\<lambda>m n. (m, n))\<rparr>"

definition c_config :: acct_config where
  "c_config = \<lparr>cc_sessionTm = 30, cc_recIntervalTm = 5, cc_realtime = 1\<rparr>"

definition c_app :: acct_app where
  "c_app =
     \<lparr>app_SetDestinationHost = Some ''h'', app_SetDestinationRealm = Some ''r'',
      app_SetUsername = None, app_SetRealTimeRequired = None, app_SetInterimInterval = Some 7,
      app_SetRadiusAcctSessionId = None, app_SetMultiSessionId = None\<rparr>"

definition c_env :: "bool acct_cenv" where
  "c_env =
     \<lparr>ce_cfg = a_cfg, ce_acct = c_config, ce_app = c_app, ce_routed = (\<lambda>_. True),
      ce_platform = \<lparr>size_bits = 64, long_bits = 64\<rparr>, ce_collector = c_collector\<rparr>"

definition s_env :: "nat acct_senv" where
  "s_env =
     \<lparr>ce_cfg = a_cfg, ce_acct = c_config, ce_app = c_app, ce_routed = (\<lambda>_. True),
      ce_platform = \<lparr>size_bits = 64, long_bits = 64\<rparr>, ce_stateful = True,
      ce_storage = c_storage\<rparr>"

definition c_gen :: id_gen where
  "c_gen = \<lparr>hop_Id = 1, end_Id = 1, rnd = (\<lambda>n. of_nat n), drawn = 0\<rparr>"

definition c_session :: "acct_st \<Rightarrow> bool \<Rightarrow> bool acct_session" where
  "c_session st stored =
     (ac_upd (\<lambda>a. a\<lparr>at_SessionId := a_id ''x'', aa_SubSessionId := 1\<rparr>)
        (new_acct_session c_config 3 0 c_gen stored))\<lparr>ac_state := st, ac_running := True\<rparr>"

definition s_session :: "acct_st \<Rightarrow> nat acct_session" where
  "s_session st =
     (ac_upd (\<lambda>a. a\<lparr>at_SessionId := a_id ''x''\<rparr>) (AcctServer_new s_env 3 0 c_gen 0))
       \<lparr>ac_state := st\<rparr>"

definition c_answer :: diameter_msg where
  "c_answer = a_msg MSG_ACCOUNTING False [(''ResultCode'', [AU32 2001])]"

definition c_request :: "u32 \<Rightarrow> diameter_msg" where
  "c_request t = a_msg MSG_ACCOUNTING True
     [(''AccountingRecordType'', [AU32 t]), (''AccountingRecordNumber'', [AU32 9])]"

lemmas acct_sample_defs = c_collector_def c_storage_def c_config_def c_app_def c_env_def s_env_def
  c_session_def s_session_def c_answer_def c_request_def AcctServer_new_def new_acct_session_def
  new_acct_attrs_def a_msg_def MsgWidget_def

lemma c_session_good: "acct_good 1 (c_session st stored)"
  by (simp add: acct_good_def acct_inv_def numbered_def acct_sample_defs effect_simps)

theorem lost_answer_waits_for_ever_witness:
  "ac_state (fold (acct_step c_env) [Ac_Timeout TIMER_INTERVAL, Ac_End, Ac_Begin False]
     (c_session CST_PENDING_I False)) = CST_PENDING_I"
  using lost_answer_waits_for_ever [OF c_session_good,
      of CST_PENDING_I False "[Ac_Timeout TIMER_INTERVAL, Ac_End, Ac_Begin False]" c_env]
  by (simp add: no_answer_def pending_def c_session_def effect_simps)

theorem stored_record_is_lost_witness:
  "generated (ac_effects (fold (acct_step c_env) [Ac_Timeout TIMER_INTERVAL, Ac_Begin False]
     (Acct_RxAnswer c_env c_answer (c_session CST_PENDING_I True)))) = []"
proof -
  have m: "code (hdr c_answer) = MSG_ACCOUNTING" "InterpretedResultCode c_answer = RCODE_SUCCESS"
    by (simp add: acct_sample_defs) code_simp
  have s: "ac_state (c_session CST_PENDING_I True) = CST_PENDING_S \<or>
      ac_state (c_session CST_PENDING_I True) = CST_PENDING_I"
    "rec_IsLastRecordInStorage (ce_collector c_env) (ac_records (c_session CST_PENDING_I True))"
    "ac_effects (c_session CST_PENDING_I True) = []"
    by (simp_all add: acct_sample_defs effect_simps)
  show ?thesis
    using stored_record_is_lost [OF c_session_good s(1,2) m,
        of "[Ac_Timeout TIMER_INTERVAL, Ac_Begin False]"]
    by (auto simp: no_end_def s(3))
qed



end
