(* ===== verification/Rb_Tree.thy ===== *)
theory Rb_Tree
  imports DRA_Prelude
begin

text \<open>
  The red-black tree of \<open>libodutl/src/od_utl_rbtree.cxx\<close>.  Every node is linked from its
  parent alone, so that the linked nodes are a tree; the pointer to a node with its chain of
  \<open>parent\<close> links is the subtree at the node with the path to the root.  The comparisons are
  the virtual operators of the data, and what the code would do to the shared \<open>nil\<close> node or
  through a null parent is the result \<open>None\<close>.
\<close>

section \<open>Trees and positions\<close>

datatype rb_color = RB_BLACK | RB_RED

datatype 'a rb =
    RbNil
  | RbNode rb_color "'a rb" 'a "'a rb"

datatype side = LeftOf | RightOf

text \<open>
  The parent of a position: on which side of it the position is, its colour and data, and its
  other subtree.
\<close>

datatype 'a frame = Fr side rb_color 'a "'a rb"

fun rb_plug :: "'a frame \<Rightarrow> 'a rb \<Rightarrow> 'a rb" where
  "rb_plug (Fr LeftOf c d t) x = RbNode c x d t"
| "rb_plug (Fr RightOf c d t) x = RbNode c t d x"

fun zip_up :: "'a rb \<Rightarrow> 'a frame list \<Rightarrow> 'a rb" where
  "zip_up x [] = x"
| "zip_up x (f # path) = zip_up (rb_plug f x) path"

lemma rb_color_not [simp]: "c \<noteq> RB_RED \<longleftrightarrow> c = RB_BLACK" "c \<noteq> RB_BLACK \<longleftrightarrow> c = RB_RED"
  by (cases c, simp_all)+

text \<open>The \<open>nil\<close> node is black.\<close>

fun rb_color_of :: "'a rb \<Rightarrow> rb_color" where
  "rb_color_of RbNil = RB_BLACK"
| "rb_color_of (RbNode c l d r) = c"

fun rb_paint :: "rb_color \<Rightarrow> 'a rb \<Rightarrow> 'a rb" where
  "rb_paint c RbNil = RbNil"
| "rb_paint c (RbNode c' l d r) = RbNode c l d r"

lemma color_rb_plug [simp]: "rb_color_of (rb_plug (Fr s c d t) x) = c"
  by (cases s) simp_all

fun RotateLeft :: "'a rb \<Rightarrow> 'a rb option" where
  "RotateLeft (RbNode c a d (RbNode c' b e r)) = Some (RbNode c' (RbNode c a d b) e r)"
| "RotateLeft t = None"

fun RotateRight :: "'a rb \<Rightarrow> 'a rb option" where
  "RotateRight (RbNode c (RbNode c' l e b) d a) = Some (RbNode c' l e (RbNode c b d a))"
| "RotateRight t = None"

section \<open>Insertion\<close>

text \<open>
  One turn of the loop, at a node \<open>x\<close> whose parent and grandparent are the frames: the
  position at which the next turn starts.
\<close>

definition insert_turn ::
    "'a rb \<Rightarrow> 'a frame \<Rightarrow> 'a frame \<Rightarrow> 'a frame list \<Rightarrow> ('a rb \<times> 'a frame list) option" where
  "insert_turn x p g path =
     (case (p, g) of (Fr s c d t, Fr gs gc gd u) \<Rightarrow>
        if rb_color_of u = RB_RED then
          Some (rb_plug (Fr gs RB_RED gd (rb_paint RB_BLACK u)) (rb_plug (Fr s RB_BLACK d t) x), path)
        else if gs = LeftOf then
          (case if s = RightOf then RotateLeft (rb_plug p x) else Some (rb_plug p x) of
             Some (RbNode cq l dq r) \<Rightarrow>
               (case RotateRight (RbNode RB_RED (RbNode RB_BLACK l dq r) gd u) of
                  Some (RbNode c1 l1 d1 r1) \<Rightarrow> Some (l1, Fr LeftOf c1 d1 r1 # path)
                | _ \<Rightarrow> None)
           | _ \<Rightarrow> None)
        else
          (case if s = LeftOf then RotateRight (rb_plug p x) else Some (rb_plug p x) of
             Some (RbNode cq l dq r) \<Rightarrow>
               (case RotateLeft (RbNode RB_RED u gd (RbNode RB_BLACK l dq r)) of
                  Some (RbNode c1 l1 d1 r1) \<Rightarrow> Some (r1, Fr RightOf c1 d1 l1 # path)
                | _ \<Rightarrow> None)
           | _ \<Rightarrow> None))"

lemma insert_turn_shorter:
  "insert_turn x p g path = Some (x', path') \<Longrightarrow> length path' < Suc (Suc (length path))"
  by (auto simp: insert_turn_def split: frame.splits if_splits option.splits rb.splits)

function FixupInsert :: "'a rb \<Rightarrow> 'a frame list \<Rightarrow> 'a rb option" where
  "FixupInsert x [] = Some (rb_paint RB_BLACK x)"
| "FixupInsert x [Fr s c d t] =
     (if c = RB_RED then None else Some (rb_paint RB_BLACK (zip_up x [Fr s c d t])))"
| "FixupInsert x (Fr s c d t # g # path) =
     (if c = RB_RED then
        (case insert_turn x (Fr s c d t) g path of
           None \<Rightarrow> None
         | Some (x', path') \<Rightarrow> FixupInsert x' path')
      else Some (rb_paint RB_BLACK (zip_up x (Fr s c d t # g # path))))"
  by pat_completeness auto
termination
  by (relation "measure (\<lambda>(x, path). length path)") (auto dest: insert_turn_shorter)

text \<open>
  The search for the place of new data.  The result is the data that is in the tree, an equal
  one that was there or the new one.
\<close>

fun insert_at ::
    "('a \<Rightarrow> 'a \<Rightarrow> bool) \<Rightarrow> ('a \<Rightarrow> 'a \<Rightarrow> bool) \<Rightarrow> 'a \<Rightarrow> 'a rb \<Rightarrow> 'a frame list
      \<Rightarrow> ('a \<times> 'a rb) option" where
  "insert_at eq lt k RbNil path = map_option (Pair k) (FixupInsert (RbNode RB_RED RbNil k RbNil) path)"
| "insert_at eq lt k (RbNode c l d r) path =
     (if eq d k then Some (d, zip_up (RbNode c l d r) path)
      else if lt k d then insert_at eq lt k l (Fr LeftOf c d r # path)
      else insert_at eq lt k r (Fr RightOf c d l # path))"

definition rb_Insert ::
    "('a \<Rightarrow> 'a \<Rightarrow> bool) \<Rightarrow> ('a \<Rightarrow> 'a \<Rightarrow> bool) \<Rightarrow> 'a \<Rightarrow> 'a rb \<Rightarrow> ('a \<times> 'a rb) option" where
  "rb_Insert eq lt k t = insert_at eq lt k t []"

section \<open>Search\<close>

fun rb_Find :: "('a \<Rightarrow> 'a \<Rightarrow> bool) \<Rightarrow> ('a \<Rightarrow> 'a \<Rightarrow> bool) \<Rightarrow> 'a \<Rightarrow> 'a rb \<Rightarrow> 'a option" where
  "rb_Find eq lt k RbNil = None"
| "rb_Find eq lt k (RbNode c l d r) =
     (if eq d k then Some d
      else if lt k d then rb_Find eq lt k l else rb_Find eq lt k r)"

text \<open>The caller changes the data that it found in place.\<close>

fun rb_Change ::
    "('a \<Rightarrow> 'a \<Rightarrow> bool) \<Rightarrow> ('a \<Rightarrow> 'a \<Rightarrow> bool) \<Rightarrow> 'a \<Rightarrow> ('a \<Rightarrow> 'a) \<Rightarrow> 'a rb \<Rightarrow> 'a rb" where
  "rb_Change eq lt k f RbNil = RbNil"
| "rb_Change eq lt k f (RbNode c l d r) =
     (if eq d k then RbNode c l (f d) r
      else if lt k d then RbNode c (rb_Change eq lt k f l) d r
      else RbNode c l d (rb_Change eq lt k f r))"

section \<open>Removal\<close>

text \<open>
  The end of a turn, with a black sibling \<open>w\<close> that has a red child: the rotations make
  the tree balanced, and the loop stops at the root.
\<close>

definition remove_last ::
    "side \<Rightarrow> 'a rb \<Rightarrow> rb_color \<Rightarrow> 'a \<Rightarrow> 'a rb \<Rightarrow> 'a rb option" where
  "remove_last s x c d w =
     (case w of
        RbNil \<Rightarrow> None
      | RbNode cw l dw r \<Rightarrow>
          if s = LeftOf then
            (case if rb_color_of r = RB_BLACK
                  then RotateRight (RbNode RB_RED (rb_paint RB_BLACK l) dw r)
                  else Some w of
               Some (RbNode c2 l2 d2 r2) \<Rightarrow>
                 RotateLeft (RbNode RB_BLACK x d (RbNode c l2 d2 (rb_paint RB_BLACK r2)))
             | _ \<Rightarrow> None)
          else
            (case if rb_color_of l = RB_BLACK
                  then RotateLeft (RbNode RB_RED l dw (rb_paint RB_BLACK r))
                  else Some w of
               Some (RbNode c2 l2 d2 r2) \<Rightarrow>
                 RotateRight (RbNode RB_BLACK (RbNode c (rb_paint RB_BLACK l2) d2 r2) d x)
             | _ \<Rightarrow> None))"

text \<open>
  The sibling of a position below the frame is made black: a red one is rotated up.  The
  result is the frame of the position and the frames above.
\<close>

definition black_sibling :: "'a frame \<Rightarrow> 'a frame list \<Rightarrow> 'a frame \<times> 'a frame list" where
  "black_sibling f path =
     (case f of Fr s c d w \<Rightarrow>
        (case w of
           RbNil \<Rightarrow> (f, path)
         | RbNode cw l dw r \<Rightarrow>
             if cw = RB_RED then
               (if s = LeftOf then (Fr LeftOf RB_RED d l, Fr LeftOf RB_BLACK dw r # path)
                else (Fr RightOf RB_RED d r, Fr RightOf RB_BLACK dw l # path))
             else (f, path)))"

text \<open>Whether both children of the sibling are black; those of \<open>nil\<close> are.\<close>

fun black_children :: "'a rb \<Rightarrow> bool" where
  "black_children RbNil = True"
| "black_children (RbNode c l d r) \<longleftrightarrow> rb_color_of l = RB_BLACK \<and> rb_color_of r = RB_BLACK"

function FixupRemove :: "'a rb \<Rightarrow> 'a frame list \<Rightarrow> 'a rb option" where
  "FixupRemove x [] = Some (rb_paint RB_BLACK x)"
| "FixupRemove x (f # path) =
     (if rb_color_of x = RB_RED then Some (zip_up (rb_paint RB_BLACK x) (f # path))
      else
        (case black_sibling f path of (Fr s c d w, path') \<Rightarrow>
           if w = RbNil then None
           else if black_children w then
             FixupRemove (rb_plug (Fr s c d (rb_paint RB_RED w)) x) path'
           else map_option (\<lambda>t. rb_paint RB_BLACK (zip_up t path')) (remove_last s x c d w)))"
  by pat_completeness auto
termination
  by (relation "measure (\<lambda>(x, path). length path + (if rb_color_of x = RB_BLACK then 1 else 0))")
    (auto simp: black_sibling_def split: frame.splits rb.splits if_splits side.splits)

text \<open>The leftmost node below \<open>r\<close>, with its right subtree and its path.\<close>

fun successor :: "'a rb \<Rightarrow> 'a frame list \<Rightarrow> (rb_color \<times> 'a \<times> 'a rb \<times> 'a frame list) option" where
  "successor RbNil path = None"
| "successor (RbNode c RbNil d r) path = Some (c, d, r, path)"
| "successor (RbNode c l d r) path = successor l (Fr LeftOf c d r # path)"

text \<open>
  The node with two subtrees gets the data of its successor, whose place is taken by the
  right subtree of the successor.
\<close>

definition rb_splice :: "rb_color \<Rightarrow> 'a rb \<Rightarrow> 'a frame list \<Rightarrow> 'a rb option" where
  "rb_splice c x path =
     (if c = RB_BLACK then FixupRemove x path else Some (zip_up x path))"

definition remove_node :: "rb_color \<Rightarrow> 'a rb \<Rightarrow> 'a rb \<Rightarrow> 'a frame list \<Rightarrow> 'a rb option" where
  "remove_node c l r path =
     (if l = RbNil \<or> r = RbNil then rb_splice c (if l \<noteq> RbNil then l else r) path
      else
        (case successor r [] of
           None \<Rightarrow> None
         | Some (cy, dy, x, sub) \<Rightarrow> rb_splice cy x (sub @ Fr RightOf c dy l # path)))"

fun remove_at ::
    "('a \<Rightarrow> 'a \<Rightarrow> bool) \<Rightarrow> ('a \<Rightarrow> 'a \<Rightarrow> bool) \<Rightarrow> 'a \<Rightarrow> 'a rb \<Rightarrow> 'a frame list
      \<Rightarrow> ('a option \<times> 'a rb) option" where
  "remove_at eq lt k RbNil path = Some (None, zip_up RbNil path)"
| "remove_at eq lt k (RbNode c l d r) path =
     (if eq d k then map_option (Pair (Some d)) (remove_node c l r path)
      else if lt k d then remove_at eq lt k l (Fr LeftOf c d r # path)
      else remove_at eq lt k r (Fr RightOf c d l # path))"

definition rb_Remove ::
    "('a \<Rightarrow> 'a \<Rightarrow> bool) \<Rightarrow> ('a \<Rightarrow> 'a \<Rightarrow> bool) \<Rightarrow> 'a \<Rightarrow> 'a rb \<Rightarrow> ('a option \<times> 'a rb) option" where
  "rb_Remove eq lt k t = remove_at eq lt k t []"

end
