(* ===== verification/Rb_Tree_Inv.thy ===== *)
theory Rb_Tree_Inv
  imports Rb_Tree
begin

text \<open>
  The red-black tree never uses the shared \<open>nil\<close> node or a null parent as a node: insertion
  and removal keep the colour and height invariants, and change the sequence of the data by
  the one element only.
\<close>

section \<open>Sequences\<close>

fun inorder :: "'a rb \<Rightarrow> 'a list" where
  "inorder RbNil = []"
| "inorder (RbNode c l d r) = inorder l @ d # inorder r"

fun left_of :: "'a frame list \<Rightarrow> 'a list" where
  "left_of [] = []"
| "left_of (Fr LeftOf c d t # p) = left_of p"
| "left_of (Fr RightOf c d t # p) = left_of p @ inorder t @ [d]"

fun right_of :: "'a frame list \<Rightarrow> 'a list" where
  "right_of [] = []"
| "right_of (Fr LeftOf c d t # p) = d # inorder t @ right_of p"
| "right_of (Fr RightOf c d t # p) = right_of p"

lemma inorder_zip [simp]: "inorder (zip_up x path) = left_of path @ inorder x @ right_of path"
proof (induction path arbitrary: x)
  case (Cons f path)
  obtain s c d t where f: "f = Fr s c d t" by (cases f)
  show ?case using Cons by (cases s) (simp_all add: f)
qed simp

lemma inorder_paint [simp]: "inorder (rb_paint c t) = inorder t"
  by (cases t) simp_all

section \<open>Colours and heights\<close>

fun bh :: "'a rb \<Rightarrow> nat \<Rightarrow> bool" where
  "bh RbNil n \<longleftrightarrow> n = 0"
| "bh (RbNode c l d r) n \<longleftrightarrow>
     (if c = RB_BLACK then (case n of 0 \<Rightarrow> False | Suc m \<Rightarrow> bh l m \<and> bh r m) else bh l n \<and> bh r n)"

fun invc :: "'a rb \<Rightarrow> bool" where
  "invc RbNil \<longleftrightarrow> True"
| "invc (RbNode c l d r) \<longleftrightarrow>
     (c = RB_RED \<longrightarrow> rb_color_of l = RB_BLACK \<and> rb_color_of r = RB_BLACK) \<and> invc l \<and> invc r"

definition rbt :: "'a rb \<Rightarrow> bool" where
  "rbt t \<longleftrightarrow> invc t \<and> (\<exists>n. bh t n) \<and> rb_color_of t = RB_BLACK"

text \<open>The same of a path whose position expects a subtree of height \<open>n\<close>.\<close>

fun pbh :: "'a frame list \<Rightarrow> nat \<Rightarrow> bool" where
  "pbh [] n \<longleftrightarrow> True"
| "pbh (Fr s c d t # p) n \<longleftrightarrow> bh t n \<and> pbh p (if c = RB_BLACK then Suc n else n)"

fun top_color :: "'a frame list \<Rightarrow> rb_color" where
  "top_color [] = RB_BLACK"
| "top_color (Fr s c d t # p) = c"

fun pinvc :: "'a frame list \<Rightarrow> bool" where
  "pinvc [] \<longleftrightarrow> True"
| "pinvc (Fr s c d t # p) \<longleftrightarrow>
     invc t \<and> (c = RB_RED \<longrightarrow> rb_color_of t = RB_BLACK \<and> p \<noteq> [] \<and> top_color p = RB_BLACK) \<and>
     pinvc p"

lemma bh_black [simp]:
  "bh (RbNode RB_BLACK l d r) n \<longleftrightarrow> (\<exists>m. n = Suc m \<and> bh l m \<and> bh r m)"
  by (cases n) simp_all

lemma bh_red [simp]: "bh (RbNode RB_RED l d r) n \<longleftrightarrow> bh l n \<and> bh r n"
  by simp

declare bh.simps(2) [simp del]

lemma bh_plug:
  "bh (rb_plug (Fr s c d t) x) (if c = RB_BLACK then Suc n else n) \<longleftrightarrow> bh x n \<and> bh t n"
  by (cases s; cases c) auto

lemma bh_paint: "bh t n \<Longrightarrow> rb_color_of t = RB_RED \<Longrightarrow> bh (rb_paint RB_BLACK t) (Suc n)"
  by (cases t) simp_all

lemma bh_paint_red: "bh t (Suc n) \<Longrightarrow> rb_color_of t = RB_BLACK \<Longrightarrow> bh (rb_paint RB_RED t) n"
  by (cases t) simp_all

lemma color_paint [simp]:
  "rb_color_of (rb_paint RB_BLACK t) = RB_BLACK"
  "rb_color_of t = RB_RED \<Longrightarrow> rb_color_of (rb_paint c t) = c"
  "rb_color_of t = RB_BLACK \<Longrightarrow> rb_paint RB_BLACK t = t"
  by (cases t; simp)+

lemma invc_paint [simp]: "invc t \<Longrightarrow> invc (rb_paint RB_BLACK t)"
  by (cases t) simp_all

lemma rbt_blacken: "invc (rb_paint RB_BLACK x) \<Longrightarrow> bh x n \<Longrightarrow> rbt (rb_paint RB_BLACK x)"
  by (cases "rb_color_of x") (auto simp: rbt_def dest: bh_paint)

text \<open>A subtree that fits below its path.\<close>

lemma rbt_zip:
  assumes "invc x" "bh x n" "pbh path n" "pinvc path"
    and "rb_color_of x = RB_RED \<Longrightarrow> path \<noteq> [] \<and> top_color path = RB_BLACK"
  shows "rbt (zip_up x path)"
  using assms
proof (induction path arbitrary: x n)
  case Nil
  then show ?case by (cases "rb_color_of x") (auto simp: rbt_def)
next
  case (Cons f path)
  obtain s c d t where f: "f = Fr s c d t" by (cases f)
  have "bh (rb_plug f x) (if c = RB_BLACK then Suc n else n)"
    using Cons.prems(2,3) by (simp add: f bh_plug del: bh_black bh_red)
  moreover have "invc (rb_plug f x)"
    using Cons.prems(1,4,5) by (cases s; cases "rb_color_of x") (auto simp: f)
  moreover have "pbh path (if c = RB_BLACK then Suc n else n)" "pinvc path"
    "rb_color_of (rb_plug f x) = RB_RED \<Longrightarrow> path \<noteq> [] \<and> top_color path = RB_BLACK"
    using Cons.prems(3,4) by (auto simp: f)
  ultimately show ?case using Cons.IH by (simp del: bh_black bh_red)
qed

section \<open>Insertion\<close>

text \<open>A red subtree that is in order below its path but for the colour of its parent.\<close>

definition red_at :: "'a rb \<Rightarrow> 'a frame list \<Rightarrow> bool" where
  "red_at x path \<longleftrightarrow>
     rb_color_of x = RB_RED \<and> invc x \<and> (\<exists>n. bh x n \<and> pbh path n) \<and> pinvc path"

lemma insert_turn_ok:
  assumes "red_at x (Fr s RB_RED d t # g # path)"
  shows "\<exists>x' path'. insert_turn x (Fr s RB_RED d t) g path = Some (x', path') \<and> red_at x' path' \<and>
    left_of path' @ inorder x' @ right_of path' =
      left_of (Fr s RB_RED d t # g # path) @ inorder x @ right_of (Fr s RB_RED d t # g # path)"
proof -
  obtain gs gc gd u where g: "g = Fr gs gc gd u" by (cases g)
  obtain l e r where x: "x = RbNode RB_RED l e r"
    using assms by (cases x) (auto simp: red_at_def)
  have gc: "gc = RB_BLACK" using assms by (simp add: red_at_def g)
  show ?thesis
  proof (cases u)
    case RbNil
    then show ?thesis
      using assms by (cases s; cases gs) (auto simp: insert_turn_def g gc x red_at_def)
  next
    case (RbNode uc ul ud ur)
    then show ?thesis
      using assms
      by (cases s; cases gs; cases uc) (auto simp: insert_turn_def g gc x red_at_def)
  qed
qed

lemma FixupInsert_ok:
  "red_at x path \<Longrightarrow> \<exists>t. FixupInsert x path = Some t \<and> rbt t \<and>
     inorder t = left_of path @ inorder x @ right_of path"
proof (induction x path rule: FixupInsert.induct)
  case (1 x)
  then show ?case by (auto simp: red_at_def intro: rbt_blacken)
next
  case (2 x s c d t)
  then have "rbt (zip_up x [Fr s c d t])"
    by (auto simp: red_at_def simp del: zip_up.simps intro!: rbt_zip)
  then have "rb_paint RB_BLACK (zip_up x [Fr s c d t]) = zip_up x [Fr s c d t]"
    by (simp only: rbt_def color_paint)
  with \<open>rbt _\<close> "2.prems" show ?case
    by (simp add: red_at_def del: zip_up.simps)
next
  case (3 x s c d t g path)
  show ?case
  proof (cases "c = RB_RED")
    case True
    with "3.prems" have "red_at x (Fr s RB_RED d t # g # path)" by simp
    from insert_turn_ok [OF this]
    obtain x' path' where t: "insert_turn x (Fr s RB_RED d t) g path = Some (x', path')"
      "red_at x' path'" "left_of path' @ inorder x' @ right_of path' =
        left_of (Fr s RB_RED d t # g # path) @ inorder x @ right_of (Fr s RB_RED d t # g # path)"
      by blast
    show ?thesis
      using "3.IH" [OF True t(1) [folded True] refl t(2)] t(1,3) True by simp
  next
    case False
    then have "rbt (zip_up x (Fr s c d t # g # path))"
      using 3 by (auto simp: red_at_def simp del: zip_up.simps intro!: rbt_zip)
    then show ?thesis using False by (auto simp: rbt_def simp del: zip_up.simps)
  qed
qed

section \<open>Removal\<close>

lemma remove_last_ok:
  assumes "invc x" "rb_color_of x = RB_BLACK" "bh x n" "invc w" "bh w (Suc n)"
    and "rb_color_of w = RB_BLACK" "\<not> black_children w"
  shows "\<exists>t. remove_last s x c d w = Some t \<and> inorder t = inorder (rb_plug (Fr s c d w) x) \<and>
    invc t \<and> bh t (if c = RB_BLACK then Suc (Suc n) else Suc n) \<and> rb_color_of t = c"
proof -
  obtain l e r where w: "w = RbNode RB_BLACK l e r" using assms by (cases w) auto
  show ?thesis
  proof (cases s)
    case LeftOf
    show ?thesis
    proof (cases "rb_color_of r")
      case RB_BLACK
      then obtain a b e' where "l = RbNode RB_RED a e' b" using assms w by (cases l) auto
      then show ?thesis using assms w RB_BLACK LeftOf by (auto simp: remove_last_def)
    next
      case RB_RED
      then obtain a b e' where "r = RbNode RB_RED a e' b" by (cases r) auto
      then show ?thesis using assms w LeftOf by (auto simp: remove_last_def)
    qed
  next
    case RightOf
    show ?thesis
    proof (cases "rb_color_of l")
      case RB_BLACK
      then obtain a b e' where "r = RbNode RB_RED a e' b" using assms w by (cases r) auto
      then show ?thesis using assms w RB_BLACK RightOf by (auto simp: remove_last_def)
    next
      case RB_RED
      then obtain a b e' where "l = RbNode RB_RED a e' b" by (cases l) auto
      then show ?thesis using assms w RightOf by (auto simp: remove_last_def)
    qed
  qed
qed

text \<open>A subtree that lacks one black node below its path.\<close>

definition short_at :: "'a rb \<Rightarrow> 'a frame list \<Rightarrow> bool" where
  "short_at x path \<longleftrightarrow>
     invc (rb_paint RB_BLACK x) \<and> (\<exists>n. bh x n \<and> pbh path (Suc n)) \<and> pinvc path"

lemma black_sibling_ok:
  assumes "black_sibling f path = (Fr s c d w, path')" "pbh (f # path) (Suc n)" "pinvc (f # path)"
  shows "pbh (Fr s c d w # path') (Suc n)" "pinvc (Fr s c d w # path')" "rb_color_of w = RB_BLACK"
    "w \<noteq> RbNil" "left_of (Fr s c d w # path') = left_of (f # path)"
    "right_of (Fr s c d w # path') = right_of (f # path)"
proof -
  obtain s1 c1 d1 w1 where f: "f = Fr s1 c1 d1 w1" by (cases f)
  have "pbh (Fr s c d w # path') (Suc n) \<and> pinvc (Fr s c d w # path') \<and> rb_color_of w = RB_BLACK \<and>
    w \<noteq> RbNil \<and> left_of (Fr s c d w # path') = left_of (f # path) \<and>
    right_of (Fr s c d w # path') = right_of (f # path)"
    using assms by (cases s1) (auto simp: f black_sibling_def split: rb.splits if_splits)
  then show "pbh (Fr s c d w # path') (Suc n)" "pinvc (Fr s c d w # path')" "rb_color_of w = RB_BLACK"
    "w \<noteq> RbNil" "left_of (Fr s c d w # path') = left_of (f # path)"
    "right_of (Fr s c d w # path') = right_of (f # path)"
    by blast+
qed

lemma left_right_plug:
  "left_of path @ inorder (rb_plug (Fr s c d w) x) @ right_of path =
     left_of (Fr s c d w # path) @ inorder x @ right_of (Fr s c d w # path)"
  by (cases s) simp_all

lemma FixupRemove_ok:
  "short_at x path \<Longrightarrow> \<exists>t. FixupRemove x path = Some t \<and> rbt t \<and>
     inorder t = left_of path @ inorder x @ right_of path"
proof (induction x path rule: FixupRemove.induct)
  case (1 x)
  then show ?case by (auto simp: short_at_def intro: rbt_blacken)
next
  case (2 x f path)
  then obtain n where n: "invc (rb_paint RB_BLACK x)" "bh x n" "pbh (f # path) (Suc n)"
    "pinvc (f # path)" by (auto simp: short_at_def)
  show ?case
  proof (cases "rb_color_of x = RB_RED")
    case True
    have "rbt (zip_up (rb_paint RB_BLACK x) (f # path))"
      using n bh_paint [OF n(2) True] by (intro rbt_zip) (simp_all del: zip_up.simps)
    then show ?thesis using True by (simp del: zip_up.simps)
  next
    case False
    obtain s c d w path' where b: "black_sibling f path = (Fr s c d w, path')"
      by (metis frame.exhaust surj_pair)
    note B = black_sibling_ok [OF b n(3,4)]
    have bx: "rb_color_of x = RB_BLACK" "invc x" using False n(1) by simp_all
    have io: "left_of path' @ inorder (rb_plug (Fr s c d w) x) @ right_of path' =
        left_of (f # path) @ inorder x @ right_of (f # path)"
      using left_right_plug [of path' s c d w x] B(5,6) by simp
    show ?thesis
    proof (cases "black_children w")
      case True
      let ?y = "rb_plug (Fr s c d (rb_paint RB_RED w)) x"
      have "bh (rb_paint RB_RED w) n" using B(1,3) by (intro bh_paint_red) simp_all
      moreover have "invc (rb_paint RB_RED w)" using True B(2) by (cases w) auto
      ultimately have "short_at ?y path'"
        using B(1,2) bx n(2) by (cases s; cases c) (auto simp: short_at_def)
      moreover have "inorder ?y = inorder (rb_plug (Fr s c d w) x)" by (cases s) simp_all
      ultimately show ?thesis
        using "2.IH" [OF _ b [symmetric] refl] False True B(4) b io by simp
    next
      case nb: False
      have w: "invc w" "bh w (Suc n)" using B(1,2) by simp_all
      obtain t where t: "remove_last s x c d w = Some t"
        "inorder t = inorder (rb_plug (Fr s c d w) x)" "invc t"
        "bh t (if c = RB_BLACK then Suc (Suc n) else Suc n)" "rb_color_of t = c"
        using remove_last_ok [OF bx(2,1) n(2) w B(3) nb] by blast
      have "rbt (zip_up t path')" using B(1,2) t(3-5) by (intro rbt_zip) (auto split: if_splits)
      then show ?thesis
        using False nb b B(4) t(1,2) io by (auto simp: rbt_def)
    qed
  qed
qed

section \<open>Operations\<close>

text \<open>A subtree at its place in a balanced tree.\<close>

definition fits :: "'a rb \<Rightarrow> 'a frame list \<Rightarrow> bool" where
  "fits x path \<longleftrightarrow>
     invc x \<and> (\<exists>n. bh x n \<and> pbh path n) \<and> pinvc path \<and>
     (rb_color_of x = RB_RED \<longrightarrow> path \<noteq> [] \<and> top_color path = RB_BLACK)"

lemma fits_zip: "fits x path \<Longrightarrow> rbt (zip_up x path)"
  unfolding fits_def by (blast intro: rbt_zip)

lemma fits_root: "rbt t \<Longrightarrow> fits t []"
  by (auto simp: fits_def rbt_def)

lemma fits_child:
  assumes "fits (RbNode c l d r) path"
  shows "fits l (Fr LeftOf c d r # path)" "fits r (Fr RightOf c d l # path)"
  using assms by (cases c; auto simp: fits_def)+

lemma rbt_empty [simp]: "rbt RbNil"
  by (simp add: rbt_def)

lemma insert_leaf_ok:
  assumes "fits RbNil path"
  shows "\<exists>t. FixupInsert (RbNode RB_RED RbNil k RbNil) path = Some t \<and> rbt t \<and>
    inorder t = left_of path @ k # right_of path"
proof -
  have "red_at (RbNode RB_RED RbNil k RbNil) path"
    using assms by (auto simp: fits_def red_at_def)
  from FixupInsert_ok [OF this] show ?thesis by simp
qed

lemma rb_Change_shape: "rb_color_of (rb_Change eq lt k f t) = rb_color_of t"
  "bh (rb_Change eq lt k f t) n \<longleftrightarrow> bh t n" "invc (rb_Change eq lt k f t) \<longleftrightarrow> invc t"
proof -
  show c: "rb_color_of (rb_Change eq lt k f t) = rb_color_of t" for t by (cases t) simp_all
  show "bh (rb_Change eq lt k f t) n \<longleftrightarrow> bh t n"
  proof (induction t arbitrary: n)
    case (RbNode c l d r)
    then show ?case by (cases c) auto
  qed simp
  show "invc (rb_Change eq lt k f t) \<longleftrightarrow> invc t" by (induction t) (auto simp: c)
qed

lemma rb_Change_rbt [simp]: "rbt (rb_Change eq lt k f t) \<longleftrightarrow> rbt t"
  by (simp add: rbt_def rb_Change_shape)

text \<open>The node that is unlinked, and the one that takes its place.\<close>

lemma successor_ok:
  "r \<noteq> RbNil \<Longrightarrow> \<exists>cy dy x sub'. successor r sub = Some (cy, dy, x, sub') \<and>
     (\<forall>up. fits r (sub @ up) \<longrightarrow> fits (RbNode cy RbNil dy x) (sub' @ up)) \<and>
     dy # inorder x @ right_of sub' = inorder r @ right_of sub \<and> left_of sub' = left_of sub"
proof (induction r sub rule: successor.induct)
  case (3 c c' ll dd rr d r path)
  then obtain cy dy x sub' where y:
    "successor (RbNode c' ll dd rr) (Fr LeftOf c d r # path) = Some (cy, dy, x, sub')"
    "\<forall>up. fits (RbNode c' ll dd rr) ((Fr LeftOf c d r # path) @ up) \<longrightarrow>
      fits (RbNode cy RbNil dy x) (sub' @ up)"
    "dy # inorder x @ right_of sub' = inorder (RbNode c' ll dd rr) @ d # inorder r @ right_of path"
    "left_of sub' = left_of path"
    by auto
  then show ?case using fits_child(1) by fastforce
qed auto

lemma rb_splice_ok:
  assumes "fits (RbNode cy RbNil dy x) path \<or> fits (RbNode cy x dy RbNil) path"
  shows "\<exists>t. rb_splice cy x path = Some t \<and> rbt t \<and>
    inorder t = left_of path @ inorder x @ right_of path"
proof (cases cy)
  case RB_BLACK
  have "short_at x path"
    using assms RB_BLACK by (auto simp: fits_def short_at_def)
  from FixupRemove_ok [OF this] RB_BLACK show ?thesis by (simp add: rb_splice_def)
next
  case RB_RED
  have "fits x path" using assms RB_RED by (auto simp: fits_def)
  from fits_zip [OF this] RB_RED show ?thesis by (simp add: rb_splice_def)
qed

lemma sides_append [simp]:
  "left_of (p @ q) = left_of q @ left_of p" "right_of (p @ q) = right_of p @ right_of q"
proof -
  have "left_of (p @ q) = left_of q @ left_of p \<and> right_of (p @ q) = right_of p @ right_of q"
  proof (induction p)
    case (Cons f p)
    obtain s c d t where "f = Fr s c d t" by (cases f)
    then show ?case using Cons by (cases s) simp_all
  qed simp
  then show "left_of (p @ q) = left_of q @ left_of p" "right_of (p @ q) = right_of p @ right_of q"
    by blast+
qed

lemma remove_node_ok:
  assumes "fits (RbNode c l d r) path"
  shows "\<exists>t. remove_node c l r path = Some t \<and> rbt t \<and>
    inorder t = left_of path @ inorder l @ inorder r @ right_of path"
proof (cases "l = RbNil \<or> r = RbNil")
  case True
  then show ?thesis
    using rb_splice_ok [of c d "if l \<noteq> RbNil then l else r" path] assms
    by (auto simp: remove_node_def)
next
  case False
  then obtain cy dy x sub where y: "successor r [] = Some (cy, dy, x, sub)"
    "\<forall>up. fits r up \<longrightarrow> fits (RbNode cy RbNil dy x) (sub @ up)"
    "dy # inorder x @ right_of sub = inorder r" "left_of sub = []"
    using successor_ok [of r "[]"] by auto
  have "fits (RbNode c l dy r) path" using assms by (cases c) (auto simp: fits_def)
  then have "fits (RbNode cy RbNil dy x) (sub @ Fr RightOf c dy l # path)"
    by (rule y(2) [rule_format, OF fits_child(2)])
  from rb_splice_ok [OF disjI1 [OF this]] obtain t where
    "rb_splice cy x (sub @ Fr RightOf c dy l # path) = Some t" "rbt t"
    "inorder t = left_of (sub @ Fr RightOf c dy l # path) @ inorder x @
      right_of (sub @ Fr RightOf c dy l # path)"
    by blast
  then show ?thesis using False y(1,4) y(3) [symmetric] by (simp add: remove_node_def)
qed

text \<open>
  Between \<open>L\<close> and \<open>R\<close>, one element leaves the sequence \<open>A\<close> or enters it.
\<close>

definition cut_out :: "'a list \<Rightarrow> 'a list \<Rightarrow> 'a list \<Rightarrow> 'a \<Rightarrow> 'a list \<Rightarrow> bool" where
  "cut_out L A R e B \<longleftrightarrow> (\<exists>xs ys. A = xs @ e # ys \<and> B = L @ xs @ ys @ R)"

definition put_in :: "'a list \<Rightarrow> 'a list \<Rightarrow> 'a list \<Rightarrow> 'a \<Rightarrow> 'a list \<Rightarrow> bool" where
  "put_in L A R e B \<longleftrightarrow> (\<exists>xs ys. A = xs @ ys \<and> B = L @ xs @ e # ys @ R)"

lemma cut_out_extend:
  "cut_out L A (d # C @ R) e B \<Longrightarrow> cut_out L (A @ d # C) R e B"
  "cut_out (L @ C @ [d]) A R e B \<Longrightarrow> cut_out L (C @ d # A) R e B"
  unfolding cut_out_def by (metis append.assoc append_Cons append_Nil)+

lemma put_in_extend:
  "put_in L A (d # C @ R) e B \<Longrightarrow> put_in L (A @ d # C) R e B"
  "put_in (L @ C @ [d]) A R e B \<Longrightarrow> put_in L (C @ d # A) R e B"
  unfolding put_in_def by (metis append.assoc append_Cons append_Nil)+

text \<open>
  Whatever the comparison operators are, a search that leads to a node removes its data and no
  other, and one that leads to a leaf changes nothing.
\<close>

lemma remove_at_ok:
  "fits t path \<Longrightarrow> \<exists>t'. remove_at eq lt k t path = Some (rb_Find eq lt k t, t') \<and> rbt t' \<and>
     (rb_Find eq lt k t = None \<longrightarrow> t' = zip_up t path) \<and>
     (\<forall>d. rb_Find eq lt k t = Some d \<longrightarrow>
        cut_out (left_of path) (inorder t) (right_of path) d (inorder t'))"
proof (induction t arbitrary: path)
  case RbNil
  then show ?case using fits_zip by auto
next
  case (RbNode c l d r)
  note ch = fits_child [OF RbNode.prems]
  show ?case
  proof (cases "eq d k")
    case True
    then show ?thesis using remove_node_ok [OF RbNode.prems] by (auto simp: cut_out_def)
  next
    case False
    show ?thesis
    proof (cases "lt k d")
      case True
      with False RbNode.IH(1) [OF ch(1)] show ?thesis by (elim exE conjE) (auto intro: cut_out_extend)
    next
      case nl: False
      with False RbNode.IH(2) [OF ch(2)] show ?thesis by (elim exE conjE) (auto intro: cut_out_extend)
    qed
  qed
qed

lemma insert_at_ok:
  "fits t path \<Longrightarrow> \<exists>t'. insert_at eq lt k t path =
       Some (case rb_Find eq lt k t of None \<Rightarrow> k | Some d \<Rightarrow> d, t') \<and> rbt t' \<and>
     (rb_Find eq lt k t \<noteq> None \<longrightarrow> t' = zip_up t path) \<and>
     (rb_Find eq lt k t = None \<longrightarrow>
        put_in (left_of path) (inorder t) (right_of path) k (inorder t'))"
proof (induction t arbitrary: path)
  case RbNil
  then show ?case using insert_leaf_ok [of path k] by (auto simp: put_in_def)
next
  case (RbNode c l d r)
  note ch = fits_child [OF RbNode.prems]
  show ?case
  proof (cases "eq d k")
    case True
    then show ?thesis using fits_zip [OF RbNode.prems] by auto
  next
    case False
    show ?thesis
    proof (cases "lt k d")
      case True
      with False RbNode.IH(1) [OF ch(1)] show ?thesis by (elim exE conjE) (auto intro: put_in_extend)
    next
      case nl: False
      with False RbNode.IH(2) [OF ch(2)] show ?thesis by (elim exE conjE) (auto intro: put_in_extend)
    qed
  qed
qed

lemma rb_Remove_ok:
  assumes "rbt t"
  shows "\<exists>t'. rb_Remove eq lt k t = Some (rb_Find eq lt k t, t') \<and> rbt t' \<and>
     (rb_Find eq lt k t = None \<longrightarrow> t' = t) \<and>
     (\<forall>d. rb_Find eq lt k t = Some d \<longrightarrow> cut_out [] (inorder t) [] d (inorder t'))"
  using remove_at_ok [OF fits_root [OF assms], of eq lt k] by (simp add: rb_Remove_def)

lemma rb_Insert_ok:
  assumes "rbt t"
  shows "\<exists>t'. rb_Insert eq lt k t =
       Some (case rb_Find eq lt k t of None \<Rightarrow> k | Some d \<Rightarrow> d, t') \<and> rbt t' \<and>
     (rb_Find eq lt k t \<noteq> None \<longrightarrow> t' = t) \<and>
     (rb_Find eq lt k t = None \<longrightarrow> put_in [] (inorder t) [] k (inorder t'))"
  using insert_at_ok [OF fits_root [OF assms], of eq lt k] by (simp add: rb_Insert_def)

end
