(* ===== verification/Rb_Tree_Map.thy ===== *)
theory Rb_Tree_Map
  imports Rb_Tree_Inv
begin

text \<open>
  The tree as a map.  What its user has to promise is a locale: on the data that it stores the
  two comparison operators are the order of a key.  Then the tree is searched as a map from
  keys, and insertion and removal update that map.
\<close>

definition key_map :: "('a \<Rightarrow> 'k) \<Rightarrow> 'a list \<Rightarrow> 'k \<Rightarrow> 'a option" where
  "key_map key xs = map_of (map (\<lambda>d. (key d, d)) xs)"

definition key_sorted :: "('a \<Rightarrow> 'k::linorder) \<Rightarrow> 'a list \<Rightarrow> bool" where
  "key_sorted key xs \<longleftrightarrow> sorted_wrt (<) (map key xs)"

lemma key_map_append: "key_map key (xs @ ys) = key_map key ys ++ key_map key xs"
  by (simp add: key_map_def)

lemma key_map_Cons: "key_map key (x # xs) = (key_map key xs)(key x \<mapsto> x)"
  by (simp add: key_map_def fun_upd_def)

lemma key_map_Nil [simp]: "key_map key [] = Map.empty"
  by (simp add: key_map_def)

lemma key_map_None: "key_map key xs k = None \<longleftrightarrow> k \<notin> key ` set xs"
  by (auto simp: key_map_def map_of_eq_None_iff image_iff)

lemma key_map_Some: "key_map key xs k = Some d \<Longrightarrow> d \<in> set xs \<and> key d = k"
  by (auto simp: key_map_def dest: map_of_SomeD)

lemma key_map_member:
  "key_sorted key xs \<Longrightarrow> d \<in> set xs \<Longrightarrow> key_map key xs (key d) = Some d"
  by (induction xs) (auto simp: key_map_Cons key_sorted_def)

lemma key_sorted_append:
  "key_sorted key (xs @ ys) \<longleftrightarrow>
     key_sorted key xs \<and> key_sorted key ys \<and> (\<forall>x\<in>set xs. \<forall>y\<in>set ys. key x < key y)"
  by (auto simp: key_sorted_def sorted_wrt_append)

lemma key_sorted_Cons:
  "key_sorted key (x # xs) \<longleftrightarrow> (\<forall>y\<in>set xs. key x < key y) \<and> key_sorted key xs"
  by (auto simp: key_sorted_def)

lemma key_sorted_Nil [simp]: "key_sorted key []"
  by (simp add: key_sorted_def)

lemmas key_rules = key_map_append key_map_Cons key_sorted_append key_sorted_Cons

lemma key_map_put:
  assumes "\<forall>x\<in>set xs. key x < key (d :: 'a)"
  shows "key_map (key :: 'a \<Rightarrow> 'k::linorder) (xs @ d # ys) = (key_map key (xs @ ys))(key d \<mapsto> d)"
proof -
  have "key_map key xs (key d) = None" using assms by (auto simp: key_map_None)
  then show ?thesis by (auto simp: key_rules map_add_def fun_eq_iff split: option.splits)
qed

lemma key_map_cut:
  assumes "key_sorted key (xs @ d # ys)"
  shows "key_map key (xs @ ys) = (key_map key (xs @ d # ys))(key d := None)"
proof -
  have "key_map key xs (key d) = None" "key_map key ys (key d) = None"
    using assms by (auto simp: key_map_None key_rules)
  then show ?thesis by (auto simp: key_rules map_add_def fun_eq_iff split: option.splits)
qed

locale key_order =
  fixes eq lt :: "'a \<Rightarrow> 'a \<Rightarrow> bool" and key :: "'a \<Rightarrow> 'k::linorder" and valid :: "'a \<Rightarrow> bool"
  assumes eq_iff: "valid a \<Longrightarrow> valid b \<Longrightarrow> eq a b \<longleftrightarrow> key a = key b"
    and lt_iff: "valid a \<Longrightarrow> valid b \<Longrightarrow> lt a b \<longleftrightarrow> key a < key b"
begin

definition ordered :: "'a rb \<Rightarrow> bool" where
  "ordered t \<longleftrightarrow> key_sorted key (inorder t) \<and> list_all valid (inorder t)"

lemma ordered_Node:
  "ordered (RbNode c l d r) \<longleftrightarrow> ordered l \<and> ordered r \<and> valid d \<and>
     (\<forall>x\<in>set (inorder l). key x < key d) \<and> (\<forall>x\<in>set (inorder r). key d < key x) \<and>
     (\<forall>x\<in>set (inorder l). \<forall>y\<in>set (inorder r). key x < key y)"
  by (auto simp: ordered_def key_rules)

lemma ordered_valid: "ordered t \<Longrightarrow> d \<in> set (inorder t) \<Longrightarrow> valid d"
  by (auto simp: ordered_def list_all_iff)

lemma Find_key:
  "ordered t \<Longrightarrow> valid k \<Longrightarrow> rb_Find eq lt k t = key_map key (inorder t) (key k)"
proof (induction t)
  case (RbNode c l d r)
  have o: "ordered l" "ordered r" "valid d" "\<forall>x\<in>set (inorder l). key x < key d"
    "\<forall>x\<in>set (inorder r). key d < key x"
    using RbNode.prems(1) by (simp_all add: ordered_Node)
  have l: "key_map key (inorder l) (key k) = None" if "\<not> key k < key d"
    using o(4) that by (force simp: key_map_None)
  have r: "key_map key (inorder r) (key k) = None" if "\<not> key d < key k"
    using o(5) that by (force simp: key_map_None)
  show ?case
    using RbNode.IH o RbNode.prems(2) l r
    by (cases "key k" "key d" rule: linorder_cases)
      (auto simp: eq_iff lt_iff key_rules map_add_def split: option.splits)
qed simp

text \<open>Where a new element is put, everything to its left has a smaller key.\<close>

lemma insert_at_sorted:
  "ordered t \<Longrightarrow> valid k \<Longrightarrow> rb_Find eq lt k t = None \<Longrightarrow> fits t path \<Longrightarrow>
   \<exists>t' xs ys. insert_at eq lt k t path = Some (k, t') \<and> rbt t' \<and> inorder t = xs @ ys \<and>
     inorder t' = left_of path @ xs @ k # ys @ right_of path \<and>
     (\<forall>x\<in>set xs. key x < key k) \<and> (\<forall>y\<in>set ys. key k < key y)"
proof (induction t arbitrary: path)
  case RbNil
  then show ?case using insert_leaf_ok [of path k] by auto
next
  case (RbNode c l d r)
  note ch = fits_child [OF RbNode.prems(4)]
  have o: "ordered l" "ordered r" "valid d" "\<forall>x\<in>set (inorder l). key x < key d"
    "\<forall>x\<in>set (inorder r). key d < key x"
    using RbNode.prems(1) by (simp_all add: ordered_Node)
  have ne: "\<not> eq d k" using RbNode.prems(3) by (simp split: if_splits)
  show ?case
  proof (cases "lt k d")
    case True
    then have kd: "key k < key d" using o(3) RbNode.prems(2) by (simp add: lt_iff)
    from RbNode.IH(1) [OF o(1) RbNode.prems(2) _ ch(1)] RbNode.prems(3) ne True
    obtain t' xs ys where t': "insert_at eq lt k l (Fr LeftOf c d r # path) = Some (k, t')" "rbt t'"
      "inorder l = xs @ ys" "inorder t' = left_of path @ xs @ k # ys @ d # inorder r @ right_of path"
      "\<forall>x\<in>set xs. key x < key k" "\<forall>y\<in>set ys. key k < key y"
      by auto
    show ?thesis
      using t' ne True kd o(5)
      by (intro exI [of _ t'] exI [of _ xs] exI [of _ "ys @ d # inorder r"]) auto
  next
    case False
    then have kd: "key d < key k"
      using o(3) RbNode.prems(2) ne by (simp add: lt_iff eq_iff)
    from RbNode.IH(2) [OF o(2) RbNode.prems(2) _ ch(2)] RbNode.prems(3) ne False
    obtain t' xs ys where t': "insert_at eq lt k r (Fr RightOf c d l # path) = Some (k, t')" "rbt t'"
      "inorder r = xs @ ys" "inorder t' = left_of path @ inorder l @ d # xs @ k # ys @ right_of path"
      "\<forall>x\<in>set xs. key x < key k" "\<forall>y\<in>set ys. key k < key y"
      by auto
    show ?thesis
      using t' ne False kd o(4)
      by (intro exI [of _ t'] exI [of _ "inorder l @ d # xs"] exI [of _ ys]) auto
  qed
qed

lemma Insert_key:
  assumes "rbt t" "ordered t" "valid k" "key_map key (inorder t) (key k) = None"
  shows "\<exists>t'. rb_Insert eq lt k t = Some (k, t') \<and> rbt t' \<and> ordered t' \<and>
    key_map key (inorder t') = (key_map key (inorder t))(key k \<mapsto> k)"
proof -
  have "rb_Find eq lt k t = None" using assms by (simp add: Find_key)
  from insert_at_sorted [OF assms(2,3) this fits_root [OF assms(1)]]
  obtain t' xs ys where t': "insert_at eq lt k t [] = Some (k, t')" "rbt t'" "inorder t = xs @ ys"
    "inorder t' = xs @ k # ys" "\<forall>x\<in>set xs. key x < key k" "\<forall>y\<in>set ys. key k < key y"
    by auto
  have "ordered t'"
    using assms(2,3) t'(3-6) by (auto simp: ordered_def key_rules)
  then show ?thesis using t' key_map_put [OF t'(5)] by (auto simp: rb_Insert_def)
qed

lemma Remove_key:
  assumes "rbt t" "ordered t" "valid k"
  shows "\<exists>t'. rb_Remove eq lt k t = Some (key_map key (inorder t) (key k), t') \<and> rbt t' \<and>
    ordered t' \<and> key_map key (inorder t') = (key_map key (inorder t))(key k := None)"
proof -
  have f: "rb_Find eq lt k t = key_map key (inorder t) (key k)"
    using assms by (simp add: Find_key)
  from rb_Remove_ok [OF assms(1), of eq lt k] f
  obtain t' where t': "rb_Remove eq lt k t = Some (key_map key (inorder t) (key k), t')" "rbt t'"
    "key_map key (inorder t) (key k) = None \<longrightarrow> t' = t"
    "\<forall>d. key_map key (inorder t) (key k) = Some d \<longrightarrow> cut_out [] (inorder t) [] d (inorder t')"
    by auto
  have "ordered t' \<and> key_map key (inorder t') = (key_map key (inorder t))(key k := None)"
  proof (cases "key_map key (inorder t) (key k)")
    case None
    then show ?thesis using t'(3) assms(2) by (simp add: fun_upd_idem)
  next
    case (Some d)
    then obtain xs ys where xy: "inorder t = xs @ d # ys" "inorder t' = xs @ ys"
      using t'(4) by (auto simp: cut_out_def)
    have "key d = key k" using Some key_map_Some by fast
    moreover have "ordered t'" using assms(2) xy by (auto simp: ordered_def key_rules)
    moreover have "key_sorted key (xs @ d # ys)" using assms(2) xy(1) by (simp add: ordered_def)
    ultimately show ?thesis using key_map_cut xy by metis
  qed
  then show ?thesis using t'(1,2) by blast
qed

lemma Change_key:
  assumes "ordered t" "valid k" "key_map key (inorder t) (key k) = Some d"
    and "valid (f d)" "key (f d) = key d"
  shows "ordered (rb_Change eq lt k f t) \<and>
    key_map key (inorder (rb_Change eq lt k f t)) = (key_map key (inorder t))(key k \<mapsto> f d)"
proof -
  have "\<exists>xs ys. inorder t = xs @ d # ys \<and> inorder (rb_Change eq lt k f t) = xs @ f d # ys"
    using assms(1,3)
  proof (induction t)
    case (RbNode c l e r)
    have o: "ordered l" "ordered r" "valid e" "\<forall>x\<in>set (inorder l). key x < key e"
      "\<forall>x\<in>set (inorder r). key e < key x"
      using RbNode.prems(1) by (simp_all add: ordered_Node)
    have l: "key_map key (inorder l) (key k) = None" if "\<not> key k < key e"
      using o(4) that by (force simp: key_map_None)
    have r: "key_map key (inorder r) (key k) = None" if "\<not> key e < key k"
      using o(5) that by (force simp: key_map_None)
    show ?case
    proof (cases "key k" "key e" rule: linorder_cases)
      case less
      then have "key_map key (inorder l) (key k) = Some d"
        using RbNode.prems(2) r [OF less_not_sym [OF less]] less_imp_neq [OF less] by (auto simp: key_rules map_add_def split: option.splits)
      with RbNode.IH(1) [OF o(1)] obtain xs ys where
        "inorder l = xs @ d # ys" "inorder (rb_Change eq lt k f l) = xs @ f d # ys" by blast
      then show ?thesis
        using less less_imp_neq [OF less] o(3) assms(2)
        by (intro exI [of _ xs] exI [of _ "ys @ e # inorder r"]) (auto simp: eq_iff lt_iff)
    next
      case equal
      then have "e = d"
        using RbNode.prems(2) l by (simp add: key_rules map_add_def split: option.splits)
      then show ?thesis
        using equal o(3) assms(2)
        by (intro exI [of _ "inorder l"] exI [of _ "inorder r"]) (simp add: eq_iff)
    next
      case greater
      then have "key_map key (inorder r) (key k) = Some d"
        using RbNode.prems(2) l [OF less_not_sym [OF greater]] less_imp_neq [OF greater] by (auto simp: key_rules map_add_def split: option.splits)
      with RbNode.IH(2) [OF o(2)] obtain xs ys where
        "inorder r = xs @ d # ys" "inorder (rb_Change eq lt k f r) = xs @ f d # ys" by blast
      then show ?thesis
        using greater less_imp_neq [OF greater] o(3) assms(2)
        by (intro exI [of _ "inorder l @ e # xs"] exI [of _ ys]) (auto simp: eq_iff lt_iff)
    qed
  qed simp
  then obtain xs ys where xy: "inorder t = xs @ d # ys"
    "inorder (rb_Change eq lt k f t) = xs @ f d # ys" by blast
  have dk: "key d = key k" using assms(3) key_map_Some by fast
  have xs: "\<forall>x\<in>set xs. key x < key d"
    using assms(1) xy(1) by (auto simp: ordered_def key_rules)
  have "key_map key (xs @ f d # ys) = (key_map key (xs @ d # ys))(key k \<mapsto> f d)"
    using xs assms(5) dk by (simp add: key_map_put)
  moreover have "ordered (rb_Change eq lt k f t)"
    using assms(1,4,5) xy by (auto simp: ordered_def key_rules)
  ultimately show ?thesis using xy by simp
qed

end

end
