(* ===== verification/Session_Db.thy ===== *)
theory Session_Db
  imports Rb_Tree_Map Session_Data "HOL-Library.List_Lexorder" "HOL-Library.Char_ord"
begin

text \<open>
  The data base of the sessions (\<open>libdiameter/include/aaa_session_db.h\<close>,
  \<open>src/aaa_session_db.cxx\<close>): a tree of nodes with the host part and the optional part of an
  identifier, each with the list of the sessions that share them.  Strings are compared by
  their octets.  Results are \<open>None\<close> where the tree would use a null pointer.
\<close>

section \<open>The sessions of a node\<close>

type_synonym counter = "u32 \<times> u32"

record 'd entry_list =
  el_entries :: "(counter \<times> 'd) list"
  LastKnownCounter :: counter

text \<open>The clock, seconds and microseconds, is the first last known counter.\<close>

definition Entries_new :: "counter \<Rightarrow> 'd entry_list" where
  "Entries_new clock = \<lparr>el_entries = [], LastKnownCounter = clock\<rparr>"

definition sid_counter :: "session_id \<Rightarrow> counter" where
  "sid_counter i = (sid_High i, sid_Low i)"

definition Entries_Add :: "session_id \<Rightarrow> 'd \<Rightarrow> 'd entry_list \<Rightarrow> session_id \<times> 'd entry_list" where
  "Entries_Add i d el =
     (let l = (if sid_counter i = (0, 0) then counter_inc (LastKnownCounter el)
               else LastKnownCounter el);
          i' = db_assign l i
      in (i', \<lparr>el_entries = (sid_counter i', d) # el_entries el, LastKnownCounter = l\<rparr>))"

fun entry_lookup :: "counter \<Rightarrow> (counter \<times> 'd) list \<Rightarrow> 'd option" where
  "entry_lookup c [] = None"
| "entry_lookup c (e # es) = (if fst e = c then Some (snd e) else entry_lookup c es)"

definition Entries_Lookup :: "session_id \<Rightarrow> 'd entry_list \<Rightarrow> 'd option" where
  "Entries_Lookup i el = entry_lookup (sid_counter i) (el_entries el)"

fun entry_erase :: "counter \<Rightarrow> (counter \<times> 'd) list \<Rightarrow> (counter \<times> 'd) list option" where
  "entry_erase c [] = None"
| "entry_erase c (e # es) = (if fst e = c then Some es else map_option (Cons e) (entry_erase c es))"

definition Entries_Remove :: "session_id \<Rightarrow> 'd entry_list \<Rightarrow> bool \<times> 'd entry_list" where
  "Entries_Remove i el =
     (case entry_erase (sid_counter i) (el_entries el) of
        None \<Rightarrow> (False, el)
      | Some es \<Rightarrow> (True, el\<lparr>el_entries := es\<rparr>))"

section \<open>The nodes\<close>

record 'd db_node =
  dn_DiameterId :: string
  dn_OptionalVal :: string
  dn_EntryList :: "'d entry_list"

definition node_new :: "counter \<Rightarrow> session_id \<Rightarrow> 'd db_node" where
  "node_new clock i =
     \<lparr>dn_DiameterId = DiameterId i, dn_OptionalVal = OptionalValue i,
      dn_EntryList = Entries_new clock\<rparr>"

definition node_eq :: "'d db_node \<Rightarrow> 'd db_node \<Rightarrow> bool" where
  "node_eq a b \<longleftrightarrow>
     dn_DiameterId a = dn_DiameterId b \<and>
     (length (dn_OptionalVal a) > 0 \<longrightarrow> dn_OptionalVal a = dn_OptionalVal b)"

definition node_less :: "'d db_node \<Rightarrow> 'd db_node \<Rightarrow> bool" where
  "node_less a b \<longleftrightarrow>
     dn_DiameterId a < dn_DiameterId b \<and>
     (length (dn_OptionalVal a) > 0 \<longrightarrow> dn_OptionalVal a < dn_OptionalVal b)"

section \<open>The data base\<close>

type_synonym 'd session_db = "'d db_node rb"

definition SessionDb_Find :: "session_id \<Rightarrow> 'd session_db \<Rightarrow> 'd db_node option" where
  "SessionDb_Find i db = rb_Find node_eq node_less (node_new (0, 0) i) db"

definition SessionDb_Put :: "session_id \<Rightarrow> 'd entry_list \<Rightarrow> 'd session_db \<Rightarrow> 'd session_db" where
  "SessionDb_Put i el db =
     rb_Change node_eq node_less (node_new (0, 0) i) (\<lambda>n. n\<lparr>dn_EntryList := el\<rparr>) db"

text \<open>The identifier of the caller gets the counter that the list assigned.\<close>

definition SessionDb_Add ::
    "counter \<Rightarrow> session_id \<Rightarrow> 'd \<Rightarrow> 'd session_db \<Rightarrow> (bool \<times> session_id \<times> 'd session_db) option" where
  "SessionDb_Add clock i d db =
     (case SessionDb_Find i db of
        Some n \<Rightarrow>
          (case Entries_Lookup i (dn_EntryList n) of
             Some _ \<Rightarrow> Some (False, i, db)
           | None \<Rightarrow>
               (case Entries_Add i d (dn_EntryList n) of (i', el) \<Rightarrow>
                  Some (True, i', SessionDb_Put i el db)))
      | None \<Rightarrow>
          (case Entries_Add i d (Entries_new clock) of (i', el) \<Rightarrow>
             map_option (\<lambda>(k, db'). (True, i', db'))
               (rb_Insert node_eq node_less ((node_new clock i)\<lparr>dn_EntryList := el\<rparr>) db)))"

definition SessionDb_Lookup :: "session_id \<Rightarrow> 'd session_db \<Rightarrow> 'd option" where
  "SessionDb_Lookup i db =
     (case SessionDb_Find i db of
        Some n \<Rightarrow> Entries_Lookup i (dn_EntryList n)
      | None \<Rightarrow> None)"

definition SessionDb_Remove :: "session_id \<Rightarrow> 'd session_db \<Rightarrow> (bool \<times> 'd session_db) option" where
  "SessionDb_Remove i db =
     (case SessionDb_Find i db of
        Some n \<Rightarrow>
          (case Entries_Remove i (dn_EntryList n) of (removed, el) \<Rightarrow>
             if removed then
               (let db' = SessionDb_Put i el db
                in if el_entries el = [] then
                     map_option (\<lambda>(k, t). (True, t))
                       (rb_Remove node_eq node_less (node_new (0, 0) i) db')
                   else Some (True, db'))
             else Some (False, db))
      | None \<Rightarrow> Some (False, db))"

section \<open>What the data base promises\<close>

text \<open>
  For every host part and counter the sessions that were added under them, the last one
  first, and for every host part with sessions the last counter that was assigned.
\<close>

record 'd spec_db =
  sp_stack :: "string \<times> counter \<Rightarrow> 'd list"
  sp_last :: "string \<rightharpoonup> counter"

definition spec_Lookup :: "session_id \<Rightarrow> 'd spec_db \<Rightarrow> 'd option" where
  "spec_Lookup i s =
     (case sp_stack s (DiameterId i, sid_counter i) of [] \<Rightarrow> None | d # ds \<Rightarrow> Some d)"

definition spec_Add ::
    "counter \<Rightarrow> session_id \<Rightarrow> 'd \<Rightarrow> 'd spec_db \<Rightarrow> bool \<times> session_id \<times> 'd spec_db" where
  "spec_Add clock i d s =
     (if sp_stack s (DiameterId i, sid_counter i) \<noteq> [] then (False, i, s)
      else
        (let l0 = (case sp_last s (DiameterId i) of None \<Rightarrow> clock | Some l \<Rightarrow> l);
             l = (if sid_counter i = (0, 0) then counter_inc l0 else l0);
             i' = db_assign l i;
             k = (DiameterId i, sid_counter i')
         in (True, i', \<lparr>sp_stack = (sp_stack s)(k := d # sp_stack s k),
                        sp_last = (sp_last s)(DiameterId i \<mapsto> l)\<rparr>)))"

definition spec_Remove :: "session_id \<Rightarrow> 'd spec_db \<Rightarrow> bool \<times> 'd spec_db" where
  "spec_Remove i s =
     (let k = (DiameterId i, sid_counter i) in
      if sp_stack s k = [] then (False, s)
      else
        (let st = (sp_stack s)(k := tl (sp_stack s k))
         in (True, \<lparr>sp_stack = st,
                    sp_last = (if \<forall>c. st (DiameterId i, c) = [] then (sp_last s)(DiameterId i := None)
                               else sp_last s)\<rparr>)))"

definition node_stack :: "counter \<Rightarrow> (counter \<times> 'd) list \<Rightarrow> 'd list" where
  "node_stack c es = map snd (filter (\<lambda>e. fst e = c) es)"

definition spec_of :: "(string \<rightharpoonup> 'd db_node) \<Rightarrow> 'd spec_db" where
  "spec_of m =
     \<lparr>sp_stack = (\<lambda>(i, c). case m i of None \<Rightarrow> []
                  | Some n \<Rightarrow> node_stack c (el_entries (dn_EntryList n))),
      sp_last = (\<lambda>i. map_option (LastKnownCounter \<circ> dn_EntryList) (m i))\<rparr>"

definition abs_db :: "'d session_db \<Rightarrow> 'd spec_db" where
  "abs_db db = spec_of (key_map dn_DiameterId (inorder db))"

definition no_option :: "'d db_node \<Rightarrow> bool" where
  "no_option n \<longleftrightarrow> dn_OptionalVal n = []"

interpretation dbt: key_order node_eq node_less dn_DiameterId no_option
  by unfold_locales (auto simp: node_eq_def node_less_def no_option_def)

definition db_ok :: "'d session_db \<Rightarrow> bool" where
  "db_ok db \<longleftrightarrow> rbt db \<and> key_sorted dn_DiameterId (inorder db) \<and>
     list_all (\<lambda>n. no_option n \<and> el_entries (dn_EntryList n) \<noteq> []) (inorder db)"

lemma db_ok_ordered: "db_ok db \<Longrightarrow> dbt.ordered db"
  by (auto simp: db_ok_def dbt.ordered_def list_all_iff)

lemma db_ok_empty: "db_ok RbNil"
  by (simp add: db_ok_def)

subsection \<open>The lists\<close>

lemma entry_lookup_stack:
  "entry_lookup c es = (case node_stack c es of [] \<Rightarrow> None | d # ds \<Rightarrow> Some d)"
  by (induction es) (auto simp: node_stack_def)

lemma entry_erase_None: "entry_erase c es = None \<longleftrightarrow> node_stack c es = []"
  by (induction es) (auto simp: node_stack_def)

lemma entry_erase_Some:
  "entry_erase c es = Some es' \<Longrightarrow>
     node_stack c es' = tl (node_stack c es) \<and> (\<forall>c'. c' \<noteq> c \<longrightarrow> node_stack c' es' = node_stack c' es)"
proof (induction es arbitrary: es')
  case (Cons e es)
  then show ?case by (force simp: node_stack_def split: if_splits)
qed simp

lemma node_stack_Cons:
  "node_stack c (e # es) = (if fst e = c then snd e # node_stack c es else node_stack c es)"
  by (simp add: node_stack_def)

lemma node_stack_empty: "(\<forall>c. node_stack c es = []) \<longleftrightarrow> es = []"
proof (cases es)
  case (Cons e es')
  then have "node_stack (fst e) es \<noteq> []" by (simp add: node_stack_Cons)
  then show ?thesis using Cons by blast
qed (simp add: node_stack_def)

lemma Entries_Lookup_stack:
  "Entries_Lookup i el = (case node_stack (sid_counter i) (el_entries el) of [] \<Rightarrow> None | d # ds \<Rightarrow> Some d)"
  by (simp add: Entries_Lookup_def entry_lookup_stack)

subsection \<open>The tree\<close>

lemma SessionDb_Find_map:
  "db_ok db \<Longrightarrow> OptionalValue i = [] \<Longrightarrow>
     SessionDb_Find i db = key_map dn_DiameterId (inorder db) (DiameterId i)"
  using dbt.Find_key [of db "node_new (0, 0) i"]
  by (simp add: SessionDb_Find_def db_ok_ordered no_option_def node_new_def)

lemma SessionDb_Put_map:
  assumes "db_ok db" "OptionalValue i = []" "SessionDb_Find i db = Some n"
  shows "rbt (SessionDb_Put i el db)" "dbt.ordered (SessionDb_Put i el db)"
    "key_map dn_DiameterId (inorder (SessionDb_Put i el db)) =
       (key_map dn_DiameterId (inorder db))(DiameterId i \<mapsto> n\<lparr>dn_EntryList := el\<rparr>)"
proof -
  have k: "no_option (node_new (0, 0) i)" "dn_DiameterId (node_new (0, 0) i) = DiameterId i"
    using assms(2) by (simp_all add: no_option_def node_new_def)
  have m: "key_map dn_DiameterId (inorder db) (DiameterId i) = Some n"
    using assms SessionDb_Find_map by metis
  have "no_option n"
    using key_map_Some [OF m] assms(1) by (auto simp: db_ok_def list_all_iff)
  then have "no_option (n\<lparr>dn_EntryList := el\<rparr>)" by (simp add: no_option_def)
  with dbt.Change_key [OF db_ok_ordered [OF assms(1)] k(1), of n "\<lambda>n. n\<lparr>dn_EntryList := el\<rparr>",
      unfolded k(2)] m
  show "dbt.ordered (SessionDb_Put i el db)"
    "key_map dn_DiameterId (inorder (SessionDb_Put i el db)) =
       (key_map dn_DiameterId (inorder db))(DiameterId i \<mapsto> n\<lparr>dn_EntryList := el\<rparr>)"
    by (simp_all add: SessionDb_Put_def)
  show "rbt (SessionDb_Put i el db)"
    using assms(1) by (simp add: SessionDb_Put_def db_ok_def)
qed

text \<open>The nodes of an ordered tree are the values of its map.\<close>

lemma db_ok_map:
  assumes "rbt db" "dbt.ordered db"
  shows "db_ok db \<longleftrightarrow>
    (\<forall>n\<in>ran (key_map dn_DiameterId (inorder db)). el_entries (dn_EntryList n) \<noteq> [])"
proof -
  have s: "key_sorted dn_DiameterId (inorder db)" "list_all no_option (inorder db)"
    using assms(2) by (simp_all add: dbt.ordered_def)
  have "n \<in> ran (key_map dn_DiameterId (inorder db)) \<longleftrightarrow> n \<in> set (inorder db)" for n
    using key_map_member [OF s(1)] key_map_Some by (fastforce simp: ran_def)
  then show ?thesis using assms(1) s by (auto simp: db_ok_def list_all_iff)
qed

lemma db_ok_update:
  assumes "db_ok db" "rbt db'" "dbt.ordered db'" "el_entries (dn_EntryList n) \<noteq> []"
    and "key_map dn_DiameterId (inorder db') = (key_map dn_DiameterId (inorder db))(k \<mapsto> n)"
  shows "db_ok db'"
proof -
  have r: "\<forall>n\<in>ran (key_map dn_DiameterId (inorder db)). el_entries (dn_EntryList n) \<noteq> []"
    using assms(1) db_ok_map [OF _ db_ok_ordered [OF assms(1)]] db_ok_def by blast
  show ?thesis
    unfolding db_ok_map [OF assms(2,3)] assms(5) using r assms(4)
    by (auto simp: ran_def split: if_splits)
qed

subsection \<open>The operations implement the specification\<close>

lemma Lookup_spec:
  "db_ok db \<Longrightarrow> OptionalValue i = [] \<Longrightarrow> SessionDb_Lookup i db = spec_Lookup i (abs_db db)"
  by (auto simp: SessionDb_Lookup_def SessionDb_Find_map Entries_Lookup_stack spec_Lookup_def
      abs_db_def spec_of_def split: option.splits)

lemma Entries_Add_entries:
  "Entries_Add i d el = (i', el') \<Longrightarrow>
     el' = \<lparr>el_entries = (sid_counter i', d) # el_entries el,
       LastKnownCounter = (if sid_counter i = (0, 0) then counter_inc (LastKnownCounter el)
         else LastKnownCounter el)\<rparr> \<and>
     i' = db_assign (if sid_counter i = (0, 0) then counter_inc (LastKnownCounter el)
         else LastKnownCounter el) i"
  by (auto simp: Entries_Add_def Let_def)

lemma spec_of_push:
  assumes "el_entries (dn_EntryList n) =
      (c, d) # (case m k of None \<Rightarrow> [] | Some n \<Rightarrow> el_entries (dn_EntryList n))"
  shows "spec_of (m(k \<mapsto> n)) =
     \<lparr>sp_stack = (sp_stack (spec_of m))((k, c) := d # sp_stack (spec_of m) (k, c)),
      sp_last = (sp_last (spec_of m))(k \<mapsto> LastKnownCounter (dn_EntryList n))\<rparr>"
proof -
  have "node_stack c' (el_entries (dn_EntryList n)) =
      (if c' = c then [d] else []) @ sp_stack (spec_of m) (k, c')" for c'
    by (simp add: assms node_stack_Cons spec_of_def node_stack_def split: option.split)
  then show ?thesis by (auto simp: spec_of_def fun_eq_iff)
qed

lemma Add_spec:
  assumes "db_ok db" "OptionalValue i = []"
  shows "\<exists>r i' db'. SessionDb_Add clock i d db = Some (r, i', db') \<and> db_ok db' \<and>
    spec_Add clock i d (abs_db db) = (r, i', abs_db db')"
proof (cases "SessionDb_Find i db")
  case None
  let ?m = "key_map dn_DiameterId (inorder db)"
  obtain i' el where a: "Entries_Add i d (Entries_new clock) = (i', el)" by fastforce
  note el = Entries_Add_entries [OF a]
  let ?n = "(node_new clock i)\<lparr>dn_EntryList := el\<rparr>"
  have k: "no_option ?n" "dn_DiameterId ?n = DiameterId i"
    using assms(2) by (simp_all add: no_option_def node_new_def)
  have m: "?m (DiameterId i) = None" using None assms SessionDb_Find_map by metis
  with dbt.Insert_key [OF _ db_ok_ordered [OF assms(1)] k(1), unfolded k(2)] assms(1)
  obtain db' where db': "rb_Insert node_eq node_less ?n db = Some (?n, db')" "rbt db'"
    "dbt.ordered db'" "key_map dn_DiameterId (inorder db') = ?m(DiameterId i \<mapsto> ?n)"
    by (auto simp: db_ok_def)
  have "db_ok db'"
    by (rule db_ok_update [OF assms(1) db'(2,3) _ db'(4)]) (simp add: el)
  moreover have "SessionDb_Add clock i d db = Some (True, i', db')"
    using None a db'(1) by (simp add: SessionDb_Add_def)
  moreover have "abs_db db' =
      \<lparr>sp_stack = (sp_stack (abs_db db))((DiameterId i, sid_counter i') :=
         d # sp_stack (abs_db db) (DiameterId i, sid_counter i')),
       sp_last = (sp_last (abs_db db))(DiameterId i \<mapsto> LastKnownCounter el)\<rparr>"
    using spec_of_push [of ?n "sid_counter i'" d ?m "DiameterId i"] m el
    by (simp add: abs_db_def db'(4) Entries_new_def)
  moreover have "sp_stack (abs_db db) (DiameterId i, sid_counter i) = []"
    "sp_last (abs_db db) (DiameterId i) = None"
    using m by (simp_all add: abs_db_def spec_of_def)
  then have "spec_Add clock i d (abs_db db) = (True, i',
      \<lparr>sp_stack = (sp_stack (abs_db db))((DiameterId i, sid_counter i') :=
         d # sp_stack (abs_db db) (DiameterId i, sid_counter i')),
       sp_last = (sp_last (abs_db db))(DiameterId i \<mapsto> LastKnownCounter el)\<rparr>)"
    using el by (simp add: spec_Add_def Entries_new_def Let_def)
  ultimately show ?thesis by auto
next
  case (Some n)
  let ?m = "key_map dn_DiameterId (inorder db)"
  have m: "?m (DiameterId i) = Some n" using Some assms SessionDb_Find_map by metis
  have sp: "sp_stack (abs_db db) (DiameterId i, c) = node_stack c (el_entries (dn_EntryList n))"
    "sp_last (abs_db db) (DiameterId i) = Some (LastKnownCounter (dn_EntryList n))" for c
    using m by (simp_all add: abs_db_def spec_of_def)
  show ?thesis
  proof (cases "Entries_Lookup i (dn_EntryList n)")
    case e: (Some e)
    then have "spec_Add clock i d (abs_db db) = (False, i, abs_db db)"
      using sp by (auto simp: spec_Add_def Entries_Lookup_stack split: list.splits)
    moreover have "SessionDb_Add clock i d db = Some (False, i, db)"
      using e Some by (simp add: SessionDb_Add_def)
    ultimately show ?thesis using assms(1) by blast
  next
    case None
    obtain i' el where a: "Entries_Add i d (dn_EntryList n) = (i', el)" by fastforce
    note el = Entries_Add_entries [OF a]
    note put = SessionDb_Put_map [OF assms Some, of el]
    have "db_ok (SessionDb_Put i el db)"
      by (rule db_ok_update [OF assms(1) put(1,2) _ put(3)]) (simp add: el)
    moreover have "SessionDb_Add clock i d db = Some (True, i', SessionDb_Put i el db)"
      using None a Some by (simp add: SessionDb_Add_def)
    moreover have "abs_db (SessionDb_Put i el db) =
        \<lparr>sp_stack = (sp_stack (abs_db db))((DiameterId i, sid_counter i') :=
           d # sp_stack (abs_db db) (DiameterId i, sid_counter i')),
         sp_last = (sp_last (abs_db db))(DiameterId i \<mapsto> LastKnownCounter el)\<rparr>"
    proof -
      have "el_entries (dn_EntryList (n\<lparr>dn_EntryList := el\<rparr>)) = (sid_counter i', d) #
          (case ?m (DiameterId i) of None \<Rightarrow> [] | Some n \<Rightarrow> el_entries (dn_EntryList n))"
        using el m by simp
      from spec_of_push [of "n\<lparr>dn_EntryList := el\<rparr>" _ _ ?m "DiameterId i", OF this]
      show ?thesis by (simp add: abs_db_def put(3))
    qed
    moreover have "sp_stack (abs_db db) (DiameterId i, sid_counter i) = []"
      using None sp(1) by (simp add: Entries_Lookup_stack split: list.splits)
    then have "spec_Add clock i d (abs_db db) = (True, i',
        \<lparr>sp_stack = (sp_stack (abs_db db))((DiameterId i, sid_counter i') :=
           d # sp_stack (abs_db db) (DiameterId i, sid_counter i')),
         sp_last = (sp_last (abs_db db))(DiameterId i \<mapsto> LastKnownCounter el)\<rparr>)"
      using el sp(2) by (simp add: spec_Add_def Let_def)
    ultimately show ?thesis by auto
  qed
qed

lemma db_ok_drop:
  assumes "db_ok db" "rbt db'" "dbt.ordered db'"
    and "key_map dn_DiameterId (inorder db') = (key_map dn_DiameterId (inorder db))(k := None)"
  shows "db_ok db'"
proof -
  have r: "\<forall>n\<in>ran (key_map dn_DiameterId (inorder db)). el_entries (dn_EntryList n) \<noteq> []"
    using assms(1) db_ok_map [OF _ db_ok_ordered [OF assms(1)]] db_ok_def by blast
  show ?thesis
    unfolding db_ok_map [OF assms(2,3)] assms(4) using r
    by (auto simp: ran_def split: if_splits)
qed

lemma spec_of_pop:
  assumes "m k = Some n" "entry_erase c (el_entries (dn_EntryList n)) = Some es"
  shows "sp_stack (spec_of (m(k \<mapsto> n\<lparr>dn_EntryList := (dn_EntryList n)\<lparr>el_entries := es\<rparr>\<rparr>))) =
      (sp_stack (spec_of m))((k, c) := tl (sp_stack (spec_of m) (k, c)))"
    "sp_last (spec_of (m(k \<mapsto> n\<lparr>dn_EntryList := (dn_EntryList n)\<lparr>el_entries := es\<rparr>\<rparr>))) =
      sp_last (spec_of m)"
    "es = [] \<Longrightarrow> spec_of (m(k := None)) =
      \<lparr>sp_stack = (sp_stack (spec_of m))((k, c) := tl (sp_stack (spec_of m) (k, c))),
       sp_last = (sp_last (spec_of m))(k := None)\<rparr>"
proof -
  note e = entry_erase_Some [OF assms(2)]
  show "sp_stack (spec_of (m(k \<mapsto> n\<lparr>dn_EntryList := (dn_EntryList n)\<lparr>el_entries := es\<rparr>\<rparr>))) =
      (sp_stack (spec_of m))((k, c) := tl (sp_stack (spec_of m) (k, c)))"
    using e assms(1) by (auto simp: spec_of_def fun_eq_iff)
  show "sp_last (spec_of (m(k \<mapsto> n\<lparr>dn_EntryList := (dn_EntryList n)\<lparr>el_entries := es\<rparr>\<rparr>))) =
      sp_last (spec_of m)"
    using assms(1) by (auto simp: spec_of_def fun_eq_iff)
  assume "es = []"
  then have none: "node_stack c' es = []" for c' by (simp add: node_stack_def)
  have "tl (node_stack c (el_entries (dn_EntryList n))) = []" using e none by metis
  moreover have "node_stack c' (el_entries (dn_EntryList n)) = []" if "c' \<noteq> c" for c'
    using e none that by metis
  ultimately show "spec_of (m(k := None)) =
      \<lparr>sp_stack = (sp_stack (spec_of m))((k, c) := tl (sp_stack (spec_of m) (k, c))),
       sp_last = (sp_last (spec_of m))(k := None)\<rparr>"
    using assms(1) by (auto simp: spec_of_def fun_eq_iff)
qed

lemma Remove_spec:
  assumes "db_ok db" "OptionalValue i = []"
  shows "\<exists>r db'. SessionDb_Remove i db = Some (r, db') \<and> db_ok db' \<and>
    spec_Remove i (abs_db db) = (r, abs_db db')"
proof (cases "SessionDb_Find i db")
  case None
  then have "key_map dn_DiameterId (inorder db) (DiameterId i) = None"
    using assms SessionDb_Find_map by metis
  then have "sp_stack (abs_db db) (DiameterId i, sid_counter i) = []"
    by (simp add: abs_db_def spec_of_def)
  with None have "SessionDb_Remove i db = Some (False, db)"
    "spec_Remove i (abs_db db) = (False, abs_db db)"
    by (simp_all add: SessionDb_Remove_def spec_Remove_def Let_def)
  then show ?thesis using assms(1) by blast
next
  case (Some n)
  let ?m = "key_map dn_DiameterId (inorder db)" and ?k = "(DiameterId i, sid_counter i)"
  have m: "?m (DiameterId i) = Some n" using Some assms SessionDb_Find_map by metis
  have sp: "sp_stack (abs_db db) (DiameterId i, c) = node_stack c (el_entries (dn_EntryList n))" for c
    using m by (simp add: abs_db_def spec_of_def)
  show ?thesis
  proof (cases "entry_erase (sid_counter i) (el_entries (dn_EntryList n))")
    case None
    then have "sp_stack (abs_db db) ?k = []" by (simp add: sp entry_erase_None)
    with None Some have "SessionDb_Remove i db = Some (False, db)"
      "spec_Remove i (abs_db db) = (False, abs_db db)"
      by (simp_all add: SessionDb_Remove_def Entries_Remove_def spec_Remove_def Let_def)
    then show ?thesis using assms(1) by blast
  next
    case es: (Some es)
    let ?el = "(dn_EntryList n)\<lparr>el_entries := es\<rparr>"
    have ne: "sp_stack (abs_db db) ?k \<noteq> []" by (simp add: sp es flip: entry_erase_None)
    note put = SessionDb_Put_map [OF assms Some, of ?el]
    note pop = spec_of_pop [of ?m "DiameterId i" n "sid_counter i", OF m es, folded abs_db_def]
    have "((sp_stack (abs_db db))(?k := tl (sp_stack (abs_db db) ?k))) (DiameterId i, c) =
        node_stack c es" for c
      using entry_erase_Some [OF es] by (cases "c = sid_counter i") (simp_all add: sp del: split_paired_All)
    then have empty: "(\<forall>c. ((sp_stack (abs_db db))(?k := tl (sp_stack (abs_db db) ?k)))
        (DiameterId i, c) = []) \<longleftrightarrow> es = []"
      by (simp only: node_stack_empty)
    have sr: "spec_Remove i (abs_db db) = (True,
        \<lparr>sp_stack = (sp_stack (abs_db db))(?k := tl (sp_stack (abs_db db) ?k)),
         sp_last = (if es = [] then (sp_last (abs_db db))(DiameterId i := None)
           else sp_last (abs_db db))\<rparr>)"
      using ne empty by (simp add: spec_Remove_def Let_def)
    show ?thesis
    proof (cases "es = []")
      case True
      have k: "no_option (node_new (0, 0) i)" "dn_DiameterId (node_new (0, 0) i) = DiameterId i"
        using assms(2) by (simp_all add: no_option_def node_new_def)
      from dbt.Remove_key [OF put(1,2) k(1), unfolded k(2) put(3)] obtain x db' where db':
        "rb_Remove node_eq node_less (node_new (0, 0) i) (SessionDb_Put i ?el db) = Some (x, db')"
        "rbt db'" "dbt.ordered db'"
        "key_map dn_DiameterId (inorder db') = ?m(DiameterId i := None)"
        by auto
      have "db_ok db'" by (rule db_ok_drop [OF assms(1) db'(2-4)])
      moreover have "abs_db db' = spec_of (?m(DiameterId i := None))" by (simp add: abs_db_def db'(4))
      moreover have "SessionDb_Remove i db = Some (True, db')"
        using es Some db'(1) True by (simp add: SessionDb_Remove_def Entries_Remove_def Let_def)
      ultimately show ?thesis using True pop(3) [OF True] sr by auto
    next
      case False
      have "db_ok (SessionDb_Put i ?el db)"
        by (rule db_ok_update [OF assms(1) put(1,2) _ put(3)]) (simp add: False)
      moreover have "abs_db (SessionDb_Put i ?el db) =
          spec_of (?m(DiameterId i \<mapsto> n\<lparr>dn_EntryList := ?el\<rparr>))"
        by (simp add: abs_db_def put(3))
      moreover have "SessionDb_Remove i db = Some (True, SessionDb_Put i ?el db)"
        using es Some False by (simp add: SessionDb_Remove_def Entries_Remove_def Let_def)
      ultimately show ?thesis using False pop(1,2) sr by auto
    qed
  qed
qed

end
