(* ===== verification/Session_Rx.thy ===== *)
theory Session_Rx
  imports Session_Db Auth_Session
begin

text \<open>
  What the message router calls for the messages that are for this node
  (\<open>libdiameter/include/aaa_session_msg_rx.h\<close>, \<open>src/aaa_session_msg_rx.cxx\<close>,
  \<open>include/aaa_session_msg_mux.h\<close>): the session of a message is looked up in the session data
  base, a new one is made by the factory of its application, and a proxy handler takes what is
  forwarded.  The virtual functions of sessions, factories and handlers are arguments; a
  session may throw, and may change the data base.
\<close>

section \<open>The maps\<close>

text \<open>\<open>std::map\<close> as its pairs; \<open>insert\<close> keeps the entry that is there.\<close>

definition AppMap_Add :: "u32 \<Rightarrow> 'v \<Rightarrow> (u32 \<times> 'v) list \<Rightarrow> bool \<times> (u32 \<times> 'v) list" where
  "AppMap_Add k v m = (True, if map_of m k = None then (k, v) # m else m)"

definition AppMap_Lookup :: "u32 \<Rightarrow> (u32 \<times> 'v) list \<Rightarrow> 'v option" where
  "AppMap_Lookup k m = map_of m k"

definition AppMap_Remove :: "u32 \<Rightarrow> (u32 \<times> 'v) list \<Rightarrow> bool \<times> (u32 \<times> 'v) list" where
  "AppMap_Remove k m =
     (if map_of m k = None then (False, m) else (True, filter (\<lambda>e. fst e \<noteq> k) m))"

definition FactoryMap_Empty :: "(u32 \<times> 'f) list \<Rightarrow> bool" where
  "FactoryMap_Empty m \<longleftrightarrow> m = []"

section \<open>Calls\<close>

text \<open>How a session returns.\<close>

datatype io_result = IO_Returned | IO_MissingSessionId | IO_Thrown

text \<open>The session data base is one for the process, and so is reached by every call.\<close>

type_synonym ('d, 'w) rx_state = "'w \<times> 'd session_db"

record ('d, 'f, 'p, 'w) rx_env =
  io_RxRequest :: "'d \<Rightarrow> diameter_msg \<Rightarrow> ('d, 'w) rx_state \<Rightarrow> io_result \<times> ('d, 'w) rx_state"
  io_RxAnswer :: "'d \<Rightarrow> diameter_msg \<Rightarrow> ('d, 'w) rx_state \<Rightarrow> io_result \<times> ('d, 'w) rx_state"
  io_RxError :: "'d \<Rightarrow> diameter_msg \<Rightarrow> ('d, 'w) rx_state \<Rightarrow> io_result \<times> ('d, 'w) rx_state"
  io_delete :: "'d \<Rightarrow> 'w \<Rightarrow> 'w"
  fac_CreateInstance :: "'f \<Rightarrow> 'w \<Rightarrow> 'd option \<times> 'w"
  px_RequestMsg :: "'p \<Rightarrow> diameter_msg \<Rightarrow> 'w \<Rightarrow> aaa_rc \<times> 'w"
  px_AnswerMsg :: "'p \<Rightarrow> diameter_msg \<Rightarrow> 'w \<Rightarrow> aaa_rc \<times> 'w"
  px_ErrorMsg :: "'p \<Rightarrow> diameter_msg \<Rightarrow> 'w \<Rightarrow> aaa_rc \<times> 'w"
  rt_AnswerMsg :: "diameter_msg \<Rightarrow> 'w \<Rightarrow> 'w"
  rx_platform :: platform
  rx_cfg :: dia_config

record ('f, 'p) rx_maps =
  SessionFactoryMap :: "(u32 \<times> 'f) list"
  ProxyHandlerMap :: "(u32 \<times> 'p) list"

text \<open>A call inside \<open>try\<close>: what was thrown is dropped, what was done stays.\<close>

definition guarded :: "io_result \<times> ('d, 'w) rx_state \<Rightarrow> ('d, 'w) rx_state" where
  "guarded r = snd r"

definition read_sid :: "platform \<Rightarrow> diameter_msg \<Rightarrow> (aaa_rc \<times> session_id) option" where
  "read_sid pf m = SessionId_Get pf (GetStr ''SessionId'' 0 (acl m)) sid_empty"

section \<open>Unknown sessions\<close>

definition AAA_UNKNOWN_SESSION_ID :: u32 where "AAA_UNKNOWN_SESSION_ID = 5002"

definition ASA_unknown :: "dia_config \<Rightarrow> session_id \<Rightarrow> diameter_msg \<Rightarrow> diameter_msg" where
  "ASA_unknown cfg sid asr =
     (let m = SessionId_Set sid (MsgWidget MSG_ABORTSESSION False DIAMETER_BASE_APPLICATION_ID)
      in m\<lparr>hdr := (hdr m)\<lparr>hh := hh (hdr asr), ee := ee (hdr asr)\<rparr>,
           acl := acl m @
             [(''ResultCode'', [AU32 AAA_UNKNOWN_SESSION_ID]),
              (''OriginHost'', [AStr (cfg_identity cfg)]),
              (''OriginRealm'', [AStr (cfg_realm cfg)]),
              (''ErrorMessage'', [AStr ''Unknown Session Id'']),
              (''ErrorReportingHost'', [AStr (cfg_identity cfg)])]\<rparr>)"

definition Rx_TxASA ::
    "('d, 'f, 'p, 'w) rx_env \<Rightarrow> diameter_msg \<Rightarrow> ('d, 'w) rx_state \<Rightarrow> ('d, 'w) rx_state option" where
  "Rx_TxASA env asr st =
     map_option (\<lambda>(rc, sid). (rt_AnswerMsg env (ASA_unknown (rx_cfg env) sid asr) (fst st), snd st))
       (read_sid (rx_platform env) asr)"

definition RxUnknownSession ::
    "('d, 'f, 'p, 'w) rx_env \<Rightarrow> diameter_msg \<Rightarrow> ('d, 'w) rx_state
      \<Rightarrow> (aaa_rc \<times> ('d, 'w) rx_state) option" where
  "RxUnknownSession env m st =
     (if code (hdr m) = MSG_ABORTSESSION then
        map_option (Pair AAA_ERR_SUCCESS) (Rx_TxASA env m st)
      else Some (AAA_ERR_FAILURE, st))"

section \<open>Messages for this node\<close>

text \<open>
  A new session gets its first request before it is in the data base; it stays outside if it
  throws.
\<close>

definition New_session_request ::
    "('d, 'f, 'p, 'w) rx_env \<Rightarrow> counter \<Rightarrow> session_id \<Rightarrow> 'd \<Rightarrow> diameter_msg \<Rightarrow> ('d, 'w) rx_state
      \<Rightarrow> ('d, 'w) rx_state option" where
  "New_session_request env clock sid d m st =
     (case io_RxRequest env d m st of
        (IO_Returned, w, db) \<Rightarrow>
          map_option (\<lambda>(r, sid', db'). (w, db')) (SessionDb_Add clock sid d db)
      | (IO_MissingSessionId, w, db) \<Rightarrow> Some (io_delete env d w, db)
      | (IO_Thrown, st') \<Rightarrow> Some st')"

definition Local_Request ::
    "('d, 'f, 'p, 'w) rx_env \<Rightarrow> ('f, 'p) rx_maps \<Rightarrow> counter \<Rightarrow> diameter_msg \<Rightarrow> ('d, 'w) rx_state
      \<Rightarrow> (int \<times> ('d, 'w) rx_state) option" where
  "Local_Request env maps clock m st =
     (case read_sid (rx_platform env) m of
        None \<Rightarrow> None
      | Some (rc, sid) \<Rightarrow>
          if rc \<noteq> AAA_ERR_SUCCESS then Some (- 1, st)
          else
            (case SessionDb_Lookup sid (snd st) of
               Some d \<Rightarrow> Some (0, guarded (io_RxRequest env d m st))
             | None \<Rightarrow>
                 if FactoryMap_Empty (SessionFactoryMap maps) then
                   map_option (\<lambda>(rc, st'). (0, st')) (RxUnknownSession env m st)
                 else
                   (case AppMap_Lookup (appId (hdr m)) (SessionFactoryMap maps) of
                      None \<Rightarrow> Some (- 1, st)
                    | Some f \<Rightarrow>
                        (case fac_CreateInstance env f (fst st) of
                           (None, w) \<Rightarrow> Some (- 1, (w, snd st))
                         | (Some d, w) \<Rightarrow>
                             map_option (Pair 0)
                               (New_session_request env clock sid d m (w, snd st))))))"

definition Local_Answer ::
    "('d, 'f, 'p, 'w) rx_env \<Rightarrow> diameter_msg \<Rightarrow> ('d, 'w) rx_state
      \<Rightarrow> (int \<times> ('d, 'w) rx_state) option" where
  "Local_Answer env m st =
     (case read_sid (rx_platform env) m of
        None \<Rightarrow> None
      | Some (rc, sid) \<Rightarrow>
          if rc \<noteq> AAA_ERR_SUCCESS then Some (- 1, st)
          else
            (case SessionDb_Lookup sid (snd st) of
               Some d \<Rightarrow> Some (0, guarded (io_RxAnswer env d m st))
             | None \<Rightarrow> Some (- 1, st)))"

definition LocalErrorHandling ::
    "('d, 'f, 'p, 'w) rx_env \<Rightarrow> ('f, 'p) rx_maps \<Rightarrow> diameter_msg \<Rightarrow> ('d, 'w) rx_state
      \<Rightarrow> (int \<times> ('d, 'w) rx_state) option" where
  "LocalErrorHandling env maps m st =
     (case read_sid (rx_platform env) m of
        None \<Rightarrow> None
      | Some (rc, sid) \<Rightarrow>
          if rc \<noteq> AAA_ERR_SUCCESS then Some (- 1, st)
          else
            (case SessionDb_Lookup sid (snd st) of
               Some d \<Rightarrow> Some (0, guarded (io_RxError env d m st))
             | None \<Rightarrow>
                 (case AppMap_Lookup (appId (hdr m)) (ProxyHandlerMap maps) of
                    Some p \<Rightarrow> Some (0, (snd (px_ErrorMsg env p m (fst st)), snd st))
                  | None \<Rightarrow> Some (- 1, st))))"

section \<open>Messages that are forwarded\<close>

definition Proxy_Request ::
    "('d, 'f, 'p, 'w) rx_env \<Rightarrow> ('f, 'p) rx_maps \<Rightarrow> diameter_msg \<Rightarrow> 'w \<Rightarrow> int \<times> 'w" where
  "Proxy_Request env maps m w =
     (case AppMap_Lookup (appId (hdr m)) (ProxyHandlerMap maps) of
        Some p \<Rightarrow>
          (case px_RequestMsg env p m w of (rc, w') \<Rightarrow>
             (if rc = AAA_ERR_SUCCESS then 0 else - 1, w'))
      | None \<Rightarrow> (- 1, w))"

definition Proxy_Answer ::
    "('d, 'f, 'p, 'w) rx_env \<Rightarrow> ('f, 'p) rx_maps \<Rightarrow> diameter_msg \<Rightarrow> 'w \<Rightarrow> int \<times> 'w" where
  "Proxy_Answer env maps m w =
     (case AppMap_Lookup (appId (hdr m)) (ProxyHandlerMap maps) of
        Some p \<Rightarrow> (0, snd (px_AnswerMsg env p m w))
      | None \<Rightarrow> (- 1, w))"

section \<open>Handlers by command\<close>

record ('h, 'w) mux_env =
  mh_RequestMsg :: "'h \<Rightarrow> diameter_msg \<Rightarrow> 'w \<Rightarrow> aaa_rc \<times> 'w"
  mh_AnswerMsg :: "'h \<Rightarrow> diameter_msg \<Rightarrow> 'w \<Rightarrow> aaa_rc \<times> 'w"
  mh_ErrorMsg :: "'h \<Rightarrow> diameter_msg \<Rightarrow> 'w \<Rightarrow> aaa_rc \<times> 'w"

definition Mux_Register :: "24 word \<Rightarrow> 'h \<Rightarrow> (24 word \<times> 'h) list \<Rightarrow> (24 word \<times> 'h) list" where
  "Mux_Register c h m = (if map_of m c = None then (c, h) # m else m)"

definition Mux_Remove :: "24 word \<Rightarrow> (24 word \<times> 'h) list \<Rightarrow> (24 word \<times> 'h) list" where
  "Mux_Remove c m = filter (\<lambda>e. fst e \<noteq> c) m"

definition Mux ::
    "('h, 'w) mux_env \<Rightarrow> (24 word \<times> 'h) list \<Rightarrow> diameter_msg \<Rightarrow> 'w \<Rightarrow> aaa_rc \<times> 'w" where
  "Mux env handlers m w =
     (case map_of handlers (code (hdr m)) of
        None \<Rightarrow> (AAA_ERR_FAILURE, w)
      | Some h \<Rightarrow>
          if flag_e (flags (hdr m)) then mh_ErrorMsg env h m w
          else if flag_r (flags (hdr m)) then mh_RequestMsg env h m w
          else mh_AnswerMsg env h m w)"

end
