(* ===== verification/Session_Db_Props.thy ===== *)
theory Session_Db_Props
  imports Session_Db Session_Props
begin

text \<open>
  The session data base as its callers see it: a map while no identifier has an optional
  value, and what happens to identifiers that have one.
\<close>

section \<open>Any identifiers\<close>

datatype 'd db_op =
    Op_Add counter session_id 'd
  | Op_Remove session_id

fun db_op_step :: "'d db_op \<Rightarrow> 'd session_db \<Rightarrow> 'd session_db option" where
  "db_op_step (Op_Add clock i d) db = map_option (snd \<circ> snd) (SessionDb_Add clock i d db)"
| "db_op_step (Op_Remove i) db = map_option snd (SessionDb_Remove i db)"

fun db_run :: "'d db_op list \<Rightarrow> 'd session_db \<Rightarrow> 'd session_db option" where
  "db_run [] db = Some db"
| "db_run (op # ops) db = Option.bind (db_op_step op db) (db_run ops)"

lemma db_op_step_safe: "rbt db \<Longrightarrow> \<exists>db'. db_op_step op db = Some db' \<and> rbt db'"
proof (cases op)
  case (Op_Add clock i d)
  assume "rbt db"
  then obtain db' x where "rb_Insert node_eq node_less ((node_new clock i)\<lparr>dn_EntryList :=
      snd (Entries_Add i d (Entries_new clock))\<rparr>) db = Some (x, db')" "rbt db'"
    using rb_Insert_ok by metis
  with \<open>rbt db\<close> show ?thesis
    by (auto simp: Op_Add SessionDb_Add_def SessionDb_Put_def split: option.split prod.split)
next
  case (Op_Remove i)
  assume "rbt db"
  then have "\<exists>db' x. rb_Remove node_eq node_less (node_new (0, 0) i) (SessionDb_Put i el db) =
      Some (x, db') \<and> rbt db'" for el
    using rb_Remove_ok [of "SessionDb_Put i el db"] by (metis rb_Change_rbt SessionDb_Put_def)
  with \<open>rbt db\<close> show ?thesis
    by (fastforce simp: Op_Remove SessionDb_Remove_def SessionDb_Put_def Let_def
        split: option.split prod.split)
qed

text \<open>C18: Whatever identifiers are added and removed, in any order, the tree of the session data
  base never uses a null pointer and stays in balance.\<close>

theorem session_db_safe: "\<exists>db. db_run ops RbNil = Some db \<and> rbt db"
proof -
  have "rbt db \<Longrightarrow> \<exists>db'. db_run ops db = Some db' \<and> rbt db'" for db
  proof (induction ops arbitrary: db)
    case (Cons op ops)
    then show ?case using db_op_step_safe [of db op] by auto
  qed simp
  then show ?thesis by simp
qed

section \<open>Without optional values\<close>

text \<open>C17: On identifiers without an optional value the data base is a map: searching, adding and
  removing a session give the results of the specification on the tree's contents, the tree
  stays a search tree in balance, and no operation uses a null pointer.\<close>

theorem session_db_refines:
  assumes "db_ok db" "OptionalValue i = []"
  shows "SessionDb_Lookup i db = spec_Lookup i (abs_db db) \<and>
    (\<exists>r i' db'. SessionDb_Add clock i d db = Some (r, i', db') \<and> db_ok db' \<and>
       spec_Add clock i d (abs_db db) = (r, i', abs_db db')) \<and>
    (\<exists>r db'. SessionDb_Remove i db = Some (r, db') \<and> db_ok db' \<and>
       spec_Remove i (abs_db db) = (r, abs_db db'))"
  using Lookup_spec [OF assms] Add_spec [OF assms] Remove_spec [OF assms] by blast

theorem session_db_refines_witness:
  "spec_Add (7, 7) (a_id []) (5::nat) (abs_db RbNil) =
     (True, a_id [], \<lparr>sp_stack = (\<lambda>_. [])((''a.r'', 1, 2) := [5]), sp_last = [''a.r'' \<mapsto> (7, 7)]\<rparr>) \<and>
   (\<exists>db. SessionDb_Add (7, 7) (a_id []) (5::nat) RbNil = Some (True, a_id [], db) \<and> db_ok db)"
proof -
  have s: "spec_Add (7, 7) (a_id []) (5::nat) (abs_db RbNil) =
     (True, a_id [], \<lparr>sp_stack = (\<lambda>_. [])((''a.r'', 1, 2) := [5]), sp_last = [''a.r'' \<mapsto> (7, 7)]\<rparr>)"
    by (auto simp: spec_Add_def abs_db_def spec_of_def a_id_def sid_counter_def db_assign_def
        fun_eq_iff)
  then show ?thesis
    using session_db_refines [OF db_ok_empty, of "a_id []" "(7, 7)" "5::nat"]
    by (auto simp: a_id_def)
qed

lemma added_is_found:
  assumes "db_ok db" "OptionalValue i = []" "sid_counter i \<noteq> (0, 0)" "SessionDb_Lookup i db = None"
  shows "\<exists>db'. SessionDb_Add clock i d db = Some (True, i, db') \<and> db_ok db' \<and>
    SessionDb_Lookup i db' = Some d"
proof -
  obtain r i' db' where a: "SessionDb_Add clock i d db = Some (r, i', db')" "db_ok db'"
    "spec_Add clock i d (abs_db db) = (r, i', abs_db db')"
    using Add_spec [OF assms(1,2)] by blast
  have e: "sp_stack (abs_db db) (DiameterId i, sid_counter i) = []"
    using assms(4) Lookup_spec [OF assms(1,2)] by (simp add: spec_Lookup_def split: list.splits)
  have i: "db_assign c i = i" for c using assms(3) by (auto simp: db_assign_def sid_counter_def)
  have "r" "i' = i" "sp_stack (abs_db db') =
      (sp_stack (abs_db db))((DiameterId i, sid_counter i) := [d])"
    using a(3) e by (auto simp: spec_Add_def Let_def i dest: arg_cong [where f = sp_stack])
  then show ?thesis using a(1,2) Lookup_spec [OF a(2) assms(2)] by (simp add: spec_Lookup_def)
qed

lemma absent_is_not_removed:
  "SessionDb_Lookup i db = None \<Longrightarrow> SessionDb_Remove i db = Some (False, db)"
  by (auto simp: SessionDb_Lookup_def SessionDb_Remove_def Entries_Lookup_stack Entries_Remove_def
      simp flip: entry_erase_None split: option.splits list.splits)

section \<open>With optional values\<close>

definition db_add_all :: "(counter \<times> session_id \<times> 'd) list \<Rightarrow> 'd session_db \<Rightarrow> 'd session_db option" where
  "db_add_all xs db =
     foldl (\<lambda>t (clock, i, d). Option.bind t (\<lambda>db. map_option (snd \<circ> snd) (SessionDb_Add clock i d db)))
       (Some db) xs"

definition db_sessions :: "'d session_db \<Rightarrow> 'd list" where
  "db_sessions db = concat (map (\<lambda>n. map snd (el_entries (dn_EntryList n))) (inorder db))"

text \<open>
  Nodes with the same host part are never less than one another, so that a search can only
  go to the right of them; the third insertion turns the first node to the left.
\<close>

lemma third_option_hides:
  assumes "DiameterId i1 = h" "DiameterId i2 = h" "DiameterId i3 = h"
    and "OptionalValue i1 \<noteq> []" "OptionalValue i2 \<noteq> []" "OptionalValue i3 \<noteq> []"
    and "OptionalValue i1 \<noteq> OptionalValue i2" "OptionalValue i1 \<noteq> OptionalValue i3"
      "OptionalValue i2 \<noteq> OptionalValue i3"
  shows "\<exists>db. db_add_all [(c1, i1, d1), (c2, i2, d2), (c3, i3, d3)] RbNil = Some db \<and>
    SessionDb_Lookup i1 db = None \<and> SessionDb_Remove i1 db = Some (False, db) \<and>
    db_sessions db = [d1, d2, d3]"
proof -
  obtain j1 e1 where 1: "Entries_Add i1 d1 (Entries_new c1) = (j1, e1)" by fastforce
  obtain j2 e2 where 2: "Entries_Add i2 d2 (Entries_new c2) = (j2, e2)" by fastforce
  obtain j3 e3 where 3: "Entries_Add i3 d3 (Entries_new c3) = (j3, e3)" by fastforce
  have e: "el_entries e1 = [(sid_counter j1, d1)]" "el_entries e2 = [(sid_counter j2, d2)]"
    "el_entries e3 = [(sid_counter j3, d3)]"
    using Entries_Add_entries [OF 1] Entries_Add_entries [OF 2] Entries_Add_entries [OF 3]
    by (simp_all add: Entries_new_def)
  let ?n1 = "(node_new c1 i1)\<lparr>dn_EntryList := e1\<rparr>"
  let ?n2 = "(node_new c2 i2)\<lparr>dn_EntryList := e2\<rparr>"
  let ?n3 = "(node_new c3 i3)\<lparr>dn_EntryList := e3\<rparr>"
  note cmp = node_eq_def node_less_def node_new_def SessionDb_Find_def
  let ?t1 = "RbNode RB_BLACK RbNil ?n1 RbNil"
  let ?t2 = "RbNode RB_BLACK RbNil ?n1 (RbNode RB_RED RbNil ?n2 RbNil)"
  let ?t3 = "RbNode RB_BLACK (RbNode RB_RED RbNil ?n1 RbNil) ?n2 (RbNode RB_RED RbNil ?n3 RbNil)"
  have "SessionDb_Add c1 i1 d1 RbNil = Some (True, j1, ?t1)"
    by (simp add: SessionDb_Add_def SessionDb_Find_def 1 rb_Insert_def)
  moreover have "SessionDb_Add c2 i2 d2 ?t1 = Some (True, j2, ?t2)"
    using assms by (simp add: SessionDb_Add_def cmp 2 rb_Insert_def)
  moreover have "SessionDb_Add c3 i3 d3 ?t2 = Some (True, j3, ?t3)"
    using assms by (simp add: SessionDb_Add_def cmp 3 rb_Insert_def insert_turn_def)
  moreover have "SessionDb_Find i1 ?t3 = None" using assms by (simp add: cmp)
  ultimately show ?thesis
    by (simp add: db_add_all_def SessionDb_Lookup_def SessionDb_Remove_def db_sessions_def e)
qed

text \<open>C39: Where \<open>size_t\<close> is wider than the position variables, the identifiers that a server reads
  get their whole text as the optional value, and the third session of a client makes the
  first one unreachable: it is in the data base, but the lookup does not find it and removal
  leaves it there.\<close>

theorem third_session_hides_first:
  assumes "supported pf" "size_bits pf = 64"
    and "list_all (\<lambda>i. DiameterId i = h \<and> length (sid_text i) < 2147483648 \<and>
      unat (sid_Low i) < 2147483648 \<and> OptionalValue i = []) [i1, i2, i3]"
    and "CHR '';'' \<notin> set h" "distinct (map sid_counter [i1, i2, i3])"
  shows "\<exists>j1 j2 j3 db.
    SessionId_Get pf (Some (sid_text i1)) sid_empty = Some (AAA_ERR_SUCCESS, j1) \<and>
    SessionId_Get pf (Some (sid_text i2)) sid_empty = Some (AAA_ERR_SUCCESS, j2) \<and>
    SessionId_Get pf (Some (sid_text i3)) sid_empty = Some (AAA_ERR_SUCCESS, j3) \<and>
    db_add_all [(c1, j1, d1), (c2, j2, d2), (c3, j3, d3)] RbNil = Some db \<and>
    SessionDb_Lookup j1 db = None \<and> SessionDb_Remove j1 db = Some (False, db) \<and>
    db_sessions db = [d1, d2, d3]"
proof -
  have get: "SessionId_Get pf (Some (sid_text i)) sid_empty =
      Some (AAA_ERR_SUCCESS, i\<lparr>OptionalValue := sid_text i\<rparr>)" if "List.member [i1, i2, i3] i" for i
  proof -
    have "DiameterId i = h" "length (sid_text i) < 2147483648" "unat (sid_Low i) < 2147483648"
      "OptionalValue i = []"
      using assms(3) that by auto
    then show ?thesis
      using SessionId_Get_text [of i pf sid_empty] assms(1,2,4) by (simp add: read_optional_def)
  qed
  have texts: "sid_text a \<noteq> sid_text b"
    if "List.member [i1, i2, i3] a" "List.member [i1, i2, i3] b" "sid_counter a \<noteq> sid_counter b" for a b
  proof
    assume "sid_text a = sid_text b"
    with get [OF that(1)] get [OF that(2)]
    have "a\<lparr>OptionalValue := sid_text a\<rparr> = b\<lparr>OptionalValue := sid_text a\<rparr>" by simp
    then have "sid_counter (a\<lparr>OptionalValue := sid_text a\<rparr>) = sid_counter (b\<lparr>OptionalValue := sid_text a\<rparr>)"
      by (rule arg_cong)
    with that(3) show False by (simp add: sid_counter_def)
  qed
  have ne: "sid_text i \<noteq> []" for i by (simp add: sid_text_def)
  let ?j = "\<lambda>i. i\<lparr>OptionalValue := sid_text i\<rparr>"
  have "\<exists>db. db_add_all [(c1, ?j i1, d1), (c2, ?j i2, d2), (c3, ?j i3, d3)] RbNil = Some db \<and>
    SessionDb_Lookup (?j i1) db = None \<and> SessionDb_Remove (?j i1) db = Some (False, db) \<and>
    db_sessions db = [d1, d2, d3]"
  proof (rule third_option_hides [where h = h])
    show "OptionalValue (?j i1) \<noteq> OptionalValue (?j i2)" "OptionalValue (?j i1) \<noteq> OptionalValue (?j i3)"
      "OptionalValue (?j i2) \<noteq> OptionalValue (?j i3)"
      using assms(5) texts [of i1 i2] texts [of i1 i3] texts [of i2 i3] by simp_all
  qed (use assms(3) ne in simp_all)
  then show ?thesis using get by auto
qed

theorem third_session_hides_first_witness:
  "\<exists>j1 j2 j3 db.
    SessionId_Get \<lparr>size_bits = 64, long_bits = 64\<rparr> (Some ''a.r;1;2'') sid_empty =
      Some (AAA_ERR_SUCCESS, j1) \<and>
    db_add_all [((7, 7), j1, 1::nat), ((8, 8), j2, 2), ((9, 9), j3, 3)] RbNil = Some db \<and>
    SessionDb_Lookup j1 db = None \<and> db_sessions db = [1, 2, 3]"
proof -
  let ?i = "\<lambda>n. (a_id [])\<lparr>sid_Low := n\<rparr>"
  have t: "sid_text (?i 2) = ''a.r;1;2''" "sid_text (?i 3) = ''a.r;1;3''"
    "sid_text (?i 4) = ''a.r;1;4''"
    by code_simp+
  have u: "unat (2::u32) = 2" "unat (3::u32) = 3" "unat (4::u32) = 4" by simp_all
  have "list_all (\<lambda>i. DiameterId i = ''a.r'' \<and> length (sid_text i) < 2147483648 \<and>
      unat (sid_Low i) < 2147483648 \<and> OptionalValue i = []) [?i 2, ?i 3, ?i 4]"
    by (simp add: t u) (simp add: a_id_def)
  from third_session_hides_first [OF a_id_ok(3) _ this, of "(7, 7)" "1::nat" "(8, 8)" 2 "(9, 9)" 3]
  show ?thesis by (simp add: t sid_counter_def) blast
qed

end
