(* ===== verification/Session_Rx_Props.thy ===== *)
theory Session_Rx_Props
  imports Session_Rx Session_Db_Props
begin

text \<open>
  The entry of messages into the sessions: which session a message reaches, what is answered
  for no session, and the composition with the authorization sessions of a server.
\<close>

section \<open>Registered sessions\<close>

lemma read_sid_text:
  assumes "GetStr ''SessionId'' 0 (acl m) = Some (sid_text i)" "CHR '';'' \<notin> set (DiameterId i)"
    and "length (sid_text i) < 2147483648" "unat (sid_Low i) < 2147483648" "supported pf"
  shows "read_sid pf m = Some (AAA_ERR_SUCCESS,
    i\<lparr>OptionalValue := read_optional pf (sid_text i) [] (OptionalValue i)\<rparr>)"
  using SessionId_Get_text [OF assms(2-5), of sid_empty] assms(1)
  by (simp add: read_sid_def sid_empty_def)


section \<open>Unknown sessions\<close>

text \<open>A node without server applications answers the abort request for a session that it does
  not know with DIAMETER_UNKNOWN_SESSION_ID: the answer has the identifiers of the request and
  names the node; it carries the session identifier that was read, whose text is the one of the
  request on a 32-bit host.\<close>

theorem unknown_abort_answered:
  assumes "GetStr ''SessionId'' 0 (acl m) = Some (sid_text i)" "CHR '';'' \<notin> set (DiameterId i)"
    and "length (sid_text i) < 2147483648" "unat (sid_Low i) < 2147483648"
    and "supported (rx_platform env)" "size_bits (rx_platform env) = 32" "OptionalValue i = []"
    and "code (hdr m) = MSG_ABORTSESSION" "SessionFactoryMap maps = []"
    and "SessionDb_Lookup i db = None"
  shows "\<exists>asa. Local_Request env maps clock m (w, db) = Some (0, rt_AnswerMsg env asa w, db) \<and>
    code (hdr asa) = MSG_ABORTSESSION \<and> \<not> flag_r (flags (hdr asa)) \<and>
    hh (hdr asa) = hh (hdr m) \<and> ee (hdr asa) = ee (hdr m) \<and>
    GetU32 ''ResultCode'' 0 (acl asa) = Some AAA_UNKNOWN_SESSION_ID \<and>
    GetStr ''SessionId'' 0 (acl asa) = GetStr ''SessionId'' 0 (acl m) \<and>
    GetStr ''OriginHost'' 0 (acl asa) = Some (cfg_identity (rx_cfg env))"
proof -
  have "read_sid (rx_platform env) m = Some (AAA_ERR_SUCCESS, i)"
    using read_sid_text [OF assms(1-5)] assms(6,7) by (simp add: read_optional_def)
  then have "Local_Request env maps clock m (w, db) =
      Some (0, rt_AnswerMsg env (ASA_unknown (rx_cfg env) i m) w, db)"
    using assms(8-10)
    by (simp add: Local_Request_def FactoryMap_Empty_def RxUnknownSession_def Rx_TxASA_def)
  then show ?thesis
    using assms(1)
    by (intro exI [of _ "ASA_unknown (rx_cfg env) i m"])
      (simp add: ASA_unknown_def Let_def MsgWidget_def SessionId_Set_def GetU32_def GetStr_def
        GetAvp_def AddAvp_def)
qed

section \<open>The sessions of a server\<close>

text \<open>
  The authorization sessions of a server as the sessions of the data base: a reference is a
  position in the list of all that were created.
\<close>

record auth_world =
  aw_sessions :: "auth_session list"
  aw_answers :: "diameter_msg list"

definition db_effect :: "sess_effect \<Rightarrow> nat session_db \<Rightarrow> nat session_db" where
  "db_effect e db =
     (case e of
        DbRemove i \<Rightarrow> (case SessionDb_Remove i db of Some (r, db') \<Rightarrow> db' | None \<Rightarrow> db)
      | _ \<Rightarrow> db)"

definition session_call ::
    "(auth_session \<Rightarrow> auth_session) \<Rightarrow> nat \<Rightarrow> (nat, auth_world) rx_state
      \<Rightarrow> io_result \<times> (nat, auth_world) rx_state" where
  "session_call f d st =
     (let s = aw_sessions (fst st) ! d;
          s' = f s
      in (IO_Returned, (fst st)\<lparr>aw_sessions := (aw_sessions (fst st))[d := s']\<rparr>,
          fold db_effect (drop (length (au_effects s)) (au_effects s')) (snd st)))"

definition auth_calls ::
    "auth_env \<Rightarrow> u32 \<Rightarrow> id_gen \<Rightarrow> (nat, unit, unit, auth_world) rx_env" where
  "auth_calls env app g =
     \<lparr>io_RxRequest = (\<lambda>d m. session_call (Server_RxRequest env m) d),
      io_RxAnswer = (\<lambda>d m. session_call (Server_RxAnswer env m) d),
      io_RxError = (\<lambda>d m. session_call (Server_RxError m) d),
      io_delete = (\<lambda>d w. w),
      fac_CreateInstance = (\<lambda>f w.
        case Server_new env app g of
          None \<Rightarrow> (None, w)
        | Some s \<Rightarrow> (Some (length (aw_sessions w)), w\<lparr>aw_sessions := aw_sessions w @ [s]\<rparr>)),
      px_RequestMsg = (\<lambda>p m w. (AAA_ERR_SUCCESS, w)),
      px_AnswerMsg = (\<lambda>p m w. (AAA_ERR_SUCCESS, w)),
      px_ErrorMsg = (\<lambda>p m w. (AAA_ERR_SUCCESS, w)),
      rt_AnswerMsg = (\<lambda>m w. w\<lparr>aw_answers := aw_answers w @ [m]\<rparr>),
      rx_platform = ae_platform env, rx_cfg = ae_cfg env\<rparr>"

lemma server_dispatch_STR_idle:
  "sm_dispatch server_table True AST_IDLE AEV_RX_STR = Fire AST_IDLE VAC_TxSTACleanupIdle"
  by code_simp

lemma TxSTA_effects:
  "\<exists>sta a'. TxSTA env rc t = au_emit (Routed sta) (t\<lparr>au_attrs := a'\<rparr>) \<and>
     at_SessionId a' = at_SessionId (au_attrs t)"
proof -
  let ?sta = "STA_msg env rc (au_attrs t)"
  obtain m1 a1 where d: "dictate_msg ?sta (au_attrs t) = (m1, a1)" by fastforce
  have "\<not> flag_r (flags (hdr ?sta))" by (simp add: STA_msg_says)
  then obtain r m' a' where
    "Server_TxDelivery env ?sta t = (r, au_emit (Routed m') (t\<lparr>au_attrs := a'\<rparr>))"
    "same_session a1 a'"
    using Server_TxDelivery_answer [OF _ d] by metis
  then show ?thesis
    using dictate_msg_frame(4) [OF d]
    by (auto simp: TxSTA_def Server_Tx_def same_session_def)
qed

text \<open>A termination request as the first message of a server session.\<close>

lemma STR_ends_new_session:
  assumes "Server_new env app g = Some s" "ac_stateful (ae_auth env) = SESSION_STATE_MAINTAINED"
    and "code (hdr m) = MSG_SESSIONTERMINATION"
    and "read_sid (ae_platform env) m = Some (AAA_ERR_SUCCESS, i)"
  shows "au_effects s = [] \<and> \<not> au_running (Server_RxRequest env m s) \<and>
    (\<exists>es sta. au_effects (Server_RxRequest env m s) =
       es @ [Routed sta, DbRemove i, ScheduledForDeletion] \<and> (\<forall>e\<in>set es. \<exists>c. e = CbClassAvp c))"
proof -
  define s1 where "s1 = RxSTR m (upd_attrs (\<lambda>a. a\<lparr>at_SessionId := i\<rparr>) s)"
  have s: "s = (new_session (ae_auth env) app g)\<lparr>au_running := True\<rparr>"
    using assms(1) by (simp add: Server_new_def split: if_splits)
  have s1: "au_running s1" "au_state s1 = AST_IDLE" "at_SessionId (au_attrs s1) = i"
    "\<forall>e\<in>set (au_effects s1). \<exists>c. e = CbClassAvp c"
    by (auto simp: s1_def s RxSTR_def Let_def new_session_def Sess_MsgIdRx_def attrs_MsgIdRx_def
        effect_simps split: option.splits)
  have "adopt_sid env m s = (True, upd_attrs (\<lambda>a. a\<lparr>at_SessionId := i\<rparr>) s)"
    using assms(4) by (simp add: adopt_sid_def s new_session_def new_attrs_def sid_empty_def read_sid_def)
  moreover have "stateful (upd_attrs (\<lambda>a. a\<lparr>at_SessionId := i\<rparr>) s)"
    using assms(2) by (simp add: stateful_def s new_session_def new_attrs_def upd_attrs_def)
  ultimately have "Server_RxRequest env m s = Server_Notify env AEV_RX_STR s1"
    using assms(3) by (simp add: Server_RxRequest_def s1_def)
  also have "\<dots> = Server_Reset (forget_ASR (TxSTA env AAA_AUTHORIZATION_REJECTED
      (au_cancel_all (set_au_state AST_IDLE s1))))"
    using s1(1,2) server_dispatch_STR_idle
    by (simp add: Server_Notify_def numeral_2_eq_2 sm_event_def)
  finally have rx: "Server_RxRequest env m s = \<dots>" .
  obtain sta a' where "TxSTA env AAA_AUTHORIZATION_REJECTED (au_cancel_all (set_au_state AST_IDLE s1)) =
      au_emit (Routed sta) ((au_cancel_all (set_au_state AST_IDLE s1))\<lparr>au_attrs := a'\<rparr>)"
    "at_SessionId a' = at_SessionId (au_attrs (au_cancel_all (set_au_state AST_IDLE s1)))"
    using TxSTA_effects by blast
  moreover have "au_effects s = []" by (simp add: s new_session_def)
  ultimately show ?thesis
    using s1(3,4)
    by (simp add: rx Server_Reset_def Let_def forget_ASR_def au_stop_def not_negotiated_def
        effect_simps set_au_state_def)
qed

lemma fold_class_effects: "\<forall>e\<in>set es. \<exists>c. e = CbClassAvp c \<Longrightarrow> fold db_effect es db = db"
  by (induction es) (auto simp: db_effect_def)

text \<open>C40: A termination request that comes first, for instance after the server lost its state,
  leaves a dead session behind: the new session answers, stops and is scheduled for deletion
  while it is not yet in the data base, and is registered there afterwards.\<close>

theorem terminated_session_is_registered:
  assumes "GetStr ''SessionId'' 0 (acl m) = Some (sid_text i)" "CHR '';'' \<notin> set (DiameterId i)"
    and "length (sid_text i) < 2147483648" "unat (sid_Low i) < 2147483648"
    and "supported (ae_platform env)" "size_bits (ae_platform env) = 32" "OptionalValue i = []"
    and "sid_counter i \<noteq> (0, 0)" "db_ok db" "SessionDb_Lookup i db = None"
    and "AppMap_Lookup (appId (hdr m)) (SessionFactoryMap maps) = Some ()"
    and "Server_new env app g = Some s" "ac_stateful (ae_auth env) = SESSION_STATE_MAINTAINED"
    and "code (hdr m) = MSG_SESSIONTERMINATION"
  shows "\<exists>s' db2. Local_Request (auth_calls env app g) maps clock m (w, db) =
      Some (0, w\<lparr>aw_sessions := aw_sessions w @ [s']\<rparr>, db2) \<and>
    ScheduledForDeletion \<in> set (au_effects s') \<and> \<not> au_running s' \<and>
    SessionDb_Lookup i db2 = Some (length (aw_sessions w))"
proof -
  let ?c = "auth_calls env app g" and ?d = "length (aw_sessions w)"
  let ?s' = "Server_RxRequest env m s"
  have sid: "read_sid (ae_platform env) m = Some (AAA_ERR_SUCCESS, i)"
    using read_sid_text [OF assms(1-5)] assms(6,7) by (simp add: read_optional_def)
  note ends = STR_ends_new_session [OF assms(12-14) sid]
  then obtain es sta where e: "au_effects s = []" "\<not> au_running ?s'"
    "au_effects ?s' = es @ [Routed sta, DbRemove i, ScheduledForDeletion]"
    "\<forall>e\<in>set es. \<exists>c. e = CbClassAvp c"
    by blast
  have db: "fold db_effect (au_effects ?s') db = db"
    using fold_class_effects [OF e(4)] absent_is_not_removed [OF assms(10)]
    by (simp add: e(3) db_effect_def)
  obtain db2 where a: "SessionDb_Add clock i ?d db = Some (True, i, db2)"
    "SessionDb_Lookup i db2 = Some ?d"
    using added_is_found [OF assms(9,7,8,10)] by blast
  have "io_RxRequest ?c ?d m (w\<lparr>aw_sessions := aw_sessions w @ [s]\<rparr>, db) =
      (IO_Returned, w\<lparr>aw_sessions := aw_sessions w @ [?s']\<rparr>, db)"
    by (simp add: auth_calls_def session_call_def Let_def e(1) db)
  moreover have "fac_CreateInstance ?c () w = (Some ?d, w\<lparr>aw_sessions := aw_sessions w @ [s]\<rparr>)"
    using assms(12) by (simp add: auth_calls_def)
  moreover have "rx_platform ?c = ae_platform env" by (simp add: auth_calls_def)
  moreover have "\<not> FactoryMap_Empty (SessionFactoryMap maps)"
    using assms(11) by (auto simp: FactoryMap_Empty_def AppMap_Lookup_def)
  ultimately have "Local_Request ?c maps clock m (w, db) =
      Some (0, w\<lparr>aw_sessions := aw_sessions w @ [?s']\<rparr>, db2)"
    using assms(10,11) sid a(1) by (simp add: Local_Request_def New_session_request_def)
  then show ?thesis using e(2,3) a(2) by force
qed

section \<open>Instances\<close>

definition env32 :: auth_env where
  "env32 = (a_env [])\<lparr>ae_platform := \<lparr>size_bits = 32, long_bits = 32\<rparr>\<rparr>"

definition a_maps :: "(unit, unit) rx_maps" where
  "a_maps = \<lparr>SessionFactoryMap = [(1, ())], ProxyHandlerMap = []\<rparr>"

definition a_gen :: id_gen where
  "a_gen = \<lparr>hop_Id = 1, end_Id = 1, rnd = (\<lambda>n. of_nat n), drawn = 0\<rparr>"

definition a_request :: "24 word \<Rightarrow> diameter_msg" where
  "a_request c = a_msg c True [(''SessionId'', [AStr ''a.r;1;2''])]"

definition no_sessions :: auth_world where
  "no_sessions = \<lparr>aw_sessions = [], aw_answers = []\<rparr>"

lemma a_request_facts:
  "GetStr ''SessionId'' 0 (acl (a_request c)) = Some (sid_text (a_id []))"
  "length (sid_text (a_id [])) < 2147483648" "supported (ae_platform env32)"
  "size_bits (ae_platform env32) = 32" "sid_counter (a_id []) \<noteq> (0, 0)"
  "SessionDb_Lookup (a_id []) RbNil = None" "code (hdr (a_request c)) = c"
  "AppMap_Lookup (appId (hdr (a_request c))) (SessionFactoryMap a_maps) = Some ()"
proof -
  show "GetStr ''SessionId'' 0 (acl (a_request c)) = Some (sid_text (a_id []))"
    "length (sid_text (a_id [])) < 2147483648"
    by (simp_all add: a_id_text a_request_def a_msg_def GetStr_def GetAvp_def)
qed (simp_all add: supported_def env32_def sid_counter_def a_id_def SessionDb_Lookup_def
    SessionDb_Find_def a_request_def a_msg_def MsgWidget_def AppMap_Lookup_def a_maps_def)

theorem terminated_session_is_registered_witness:
  "\<exists>s' db2. Local_Request (auth_calls env32 1 a_gen) a_maps (7, 7)
      (a_request MSG_SESSIONTERMINATION) (no_sessions, RbNil) =
        Some (0, no_sessions\<lparr>aw_sessions := [s']\<rparr>, db2) \<and>
    \<not> au_running s' \<and> SessionDb_Lookup (a_id []) db2 = Some 0"
proof -
  obtain s where "Server_new env32 1 a_gen = Some s"
    by (simp add: Server_new_def env32_def a_env_def a_app_def)
  moreover have "ac_stateful (ae_auth env32) = SESSION_STATE_MAINTAINED"
    by (simp add: env32_def a_env_def)
  ultimately show ?thesis
    using terminated_session_is_registered [OF a_request_facts(1) a_id_ok(1) a_request_facts(2)
        a_id_ok(2) a_request_facts(3,4) a_id_ok(4) a_request_facts(5) db_ok_empty
        a_request_facts(6,8), where g = a_gen and app = 1 and s = s and clock = "(7, 7)"
          and w = no_sessions]
      a_request_facts(7)
    by (force simp: no_sessions_def)
qed

theorem unknown_abort_answered_witness:
  "\<exists>asa. Local_Request (auth_calls env32 1 a_gen) (a_maps\<lparr>SessionFactoryMap := []\<rparr>) (7, 7)
      (a_request MSG_ABORTSESSION) (no_sessions, RbNil) =
        Some (0, no_sessions\<lparr>aw_answers := [asa]\<rparr>, RbNil) \<and>
    GetU32 ''ResultCode'' 0 (acl asa) = Some AAA_UNKNOWN_SESSION_ID"
proof -
  let ?c = "auth_calls env32 1 a_gen"
  have "rx_platform ?c = ae_platform env32" "\<And>m. rt_AnswerMsg ?c m no_sessions = no_sessions\<lparr>aw_answers := [m]\<rparr>"
    by (simp_all add: auth_calls_def no_sessions_def)
  then show ?thesis
    using unknown_abort_answered [OF a_request_facts(1) a_id_ok(1) a_request_facts(2) a_id_ok(2),
        of ?c MSG_ABORTSESSION "a_maps\<lparr>SessionFactoryMap := []\<rparr>" RbNil "(7, 7)" no_sessions]
      a_request_facts(3,4,6,7) a_id_ok(4)
    by auto
qed

text \<open>Sessions that note the calls they get.\<close>

definition noting :: "(nat, unit, unit, (nat \<times> diameter_msg) list) rx_env" where
  "noting =
     (let note = (\<lambda>d m st. (IO_Returned, (fst st @ [(d, m)], snd st)));
          proxy = (\<lambda>p m w. (AAA_ERR_SUCCESS, w))
      in \<lparr>io_RxRequest = note, io_RxAnswer = note, io_RxError = note, io_delete = (\<lambda>d w. w),
          fac_CreateInstance = (\<lambda>f w. (Some 5, w)), px_RequestMsg = proxy, px_AnswerMsg = proxy,
          px_ErrorMsg = proxy, rt_AnswerMsg = (\<lambda>m w. w), rx_platform = ae_platform env32,
          rx_cfg = a_cfg\<rparr>)"


end
