(* ===== verification/Rb_Dbase.thy ===== *)
theory Rb_Dbase
  imports Rb_Tree_Map
begin

text \<open>
  The table of indexed arguments on top of the tree
  (\<open>libodutl/include/od_utl_rbtree_dbase.h\<close>): the entries are compared by their index.  What
  is thrown is a value of \<open>DB_ERROR\<close>; the outer \<open>None\<close> is the null pointer that the tree would
  use.
\<close>

datatype db_error = ENTRY_ALLOC_FAILURE | ENTRY_INSERTION_FAILURE | ENTRY_NOT_FOUND

record ('k, 'v) db_entry =
  de_Index :: 'k
  de_payload :: 'v

definition entry_eq :: "('k, 'v) db_entry \<Rightarrow> ('k, 'v) db_entry \<Rightarrow> bool" where
  "entry_eq a b \<longleftrightarrow> de_Index a = de_Index b"

definition entry_less :: "('k::linorder, 'v) db_entry \<Rightarrow> ('k, 'v) db_entry \<Rightarrow> bool" where
  "entry_less a b \<longleftrightarrow> de_Index a < de_Index b"

text \<open>
  \<open>Insert\<close> returns the entry that is in the tree, which is never null, and so addition never
  throws.
\<close>

definition Dbase_Add ::
    "'k::linorder \<Rightarrow> 'v \<Rightarrow> ('k, 'v) db_entry rb \<Rightarrow> ('k, 'v) db_entry rb option" where
  "Dbase_Add k v t =
     map_option snd (rb_Insert entry_eq entry_less \<lparr>de_Index = k, de_payload = v\<rparr> t)"

text \<open>The looked-up entry has only an index; its argument is not read.\<close>

definition Dbase_Remove ::
    "'k::linorder \<Rightarrow> 'v \<Rightarrow> ('k, 'v) db_entry rb \<Rightarrow> ((db_error + 'v) \<times> ('k, 'v) db_entry rb) option" where
  "Dbase_Remove k unused t =
     map_option (\<lambda>(e, t'). (case e of None \<Rightarrow> Inl ENTRY_NOT_FOUND | Some x \<Rightarrow> Inr (de_payload x), t'))
       (rb_Remove entry_eq entry_less \<lparr>de_Index = k, de_payload = unused\<rparr> t)"

definition Dbase_Search :: "'k::linorder \<Rightarrow> 'v \<Rightarrow> ('k, 'v) db_entry rb \<Rightarrow> db_error + 'v" where
  "Dbase_Search k unused t =
     (case rb_Find entry_eq entry_less \<lparr>de_Index = k, de_payload = unused\<rparr> t of
        None \<Rightarrow> Inl ENTRY_NOT_FOUND
      | Some x \<Rightarrow> Inr (de_payload x))"

interpretation dbase: key_order entry_eq entry_less de_Index "\<lambda>e. True"
  by unfold_locales (simp_all add: entry_eq_def entry_less_def)

definition dbase_ok :: "('k::linorder, 'v) db_entry rb \<Rightarrow> bool" where
  "dbase_ok t \<longleftrightarrow> rbt t \<and> key_sorted de_Index (inorder t)"

definition dbase_map :: "('k, 'v) db_entry rb \<Rightarrow> 'k \<rightharpoonup> 'v" where
  "dbase_map t = (\<lambda>k. map_option de_payload (key_map de_Index (inorder t) k))"

lemma dbase_ordered: "dbase_ok t \<Longrightarrow> rbt t \<and> dbase.ordered t"
  by (simp add: dbase_ok_def dbase.ordered_def list_all_iff)

lemma dbase_ok_iff: "rbt t \<Longrightarrow> dbase.ordered t \<Longrightarrow> dbase_ok t"
  by (simp add: dbase_ok_def dbase.ordered_def)

text \<open>The indexed table is a map: a search gives the value of the map or ENTRY_NOT_FOUND,
  removal gives the value and deletes it, and addition inserts a new index; an index that is
  there keeps its old value without any error.\<close>

theorem dbase_refines_map:
  assumes "dbase_ok t"
  shows "Dbase_Search k u t =
      (case dbase_map t k of None \<Rightarrow> Inl ENTRY_NOT_FOUND | Some v \<Rightarrow> Inr v) \<and>
    (\<exists>t'. Dbase_Add k v t = Some t' \<and> dbase_ok t' \<and>
       dbase_map t' = (if dbase_map t k = None then (dbase_map t)(k \<mapsto> v) else dbase_map t)) \<and>
    (\<exists>t'. Dbase_Remove k u t =
         Some (case dbase_map t k of None \<Rightarrow> Inl ENTRY_NOT_FOUND | Some v \<Rightarrow> Inr v, t') \<and>
       dbase_ok t' \<and> dbase_map t' = (dbase_map t)(k := None))"
proof (intro conjI)
  note o = dbase_ordered [OF assms]
  let ?m = "key_map de_Index (inorder t)" and ?e = "\<lambda>v. \<lparr>de_Index = k, de_payload = v\<rparr>"
  have f: "rb_Find entry_eq entry_less (?e v) t = ?m k" for v
    using dbase.Find_key [of t "?e v"] o by simp
  show "Dbase_Search k u t =
      (case dbase_map t k of None \<Rightarrow> Inl ENTRY_NOT_FOUND | Some v \<Rightarrow> Inr v)"
    by (simp add: Dbase_Search_def f dbase_map_def split: option.split)
  show "\<exists>t'. Dbase_Add k v t = Some t' \<and> dbase_ok t' \<and>
       dbase_map t' = (if dbase_map t k = None then (dbase_map t)(k \<mapsto> v) else dbase_map t)"
  proof (cases "?m k")
    case None
    with dbase.Insert_key [of t "?e v"] o obtain t' where
      "rb_Insert entry_eq entry_less (?e v) t = Some (?e v, t')" "rbt t'" "dbase.ordered t'"
      "key_map de_Index (inorder t') = ?m(k \<mapsto> ?e v)" by auto
    then show ?thesis
      using None dbase_ok_iff by (auto simp: Dbase_Add_def dbase_map_def fun_eq_iff)
  next
    case (Some e)
    then show ?thesis
      using rb_Insert_ok [of t entry_eq entry_less "?e v"] o f assms
      by (auto simp: Dbase_Add_def dbase_map_def)
  qed
  from dbase.Remove_key [of t "?e u"] o obtain t' where
    "rb_Remove entry_eq entry_less (?e u) t = Some (?m k, t')" "rbt t'" "dbase.ordered t'"
    "key_map de_Index (inorder t') = ?m(k := None)" by auto
  then show "\<exists>t'. Dbase_Remove k u t =
         Some (case dbase_map t k of None \<Rightarrow> Inl ENTRY_NOT_FOUND | Some v \<Rightarrow> Inr v, t') \<and>
       dbase_ok t' \<and> dbase_map t' = (dbase_map t)(k := None)"
    using dbase_ok_iff by (auto simp: Dbase_Remove_def dbase_map_def fun_eq_iff split: option.split)
qed

theorem dbase_refines_map_witness:
  "Dbase_Search (3::nat) ''u'' RbNil = Inl ENTRY_NOT_FOUND \<and>
   (\<exists>t. Dbase_Add (3::nat) ''v'' RbNil = Some t \<and> dbase_map t = [3 \<mapsto> ''v''])"
proof -
  have "dbase_ok (RbNil :: (nat, string) db_entry rb)" "dbase_map (RbNil :: (nat, string) db_entry rb) = Map.empty"
    by (simp_all add: dbase_ok_def dbase_map_def)
  with dbase_refines_map [OF this(1), of 3 "''u''" "''v''"] show ?thesis by auto
qed

end
