(* ===== verification/Pana_Data.thy ===== *)
theory Pana_Data
  imports Fsm_Framework
begin

text \<open>
  The data of the PANA library (\<open>libpana\<close>): serial numbers (\<open>pana_serial_num.h\<close>),
  messages and AVPs (\<open>pana_message.h\<close>, \<open>pana_defs.h\<close>), the security association
  (\<open>pana_security_assoc.h\<close>), the configuration, the state of a session
  (\<open>pana_session.h\<close>) together with that of its state machine (\<open>pana_fsm.h\<close>), and
  the outcome of code that may throw.
\<close>

section \<open>Serial numbers\<close>

definition SERIAL_VALUE_LESS_ONE :: u32 where
  "SERIAL_VALUE_LESS_ONE = 0x80000000"

text \<open>\<open>operator+\<close>: the sum of 32 bits is reduced modulo the half of the number space.\<close>

definition serial_add :: "u32 \<Rightarrow> u32 \<Rightarrow> u32" where
  "serial_add s n = (s + n) mod SERIAL_VALUE_LESS_ONE"

definition serial_inc :: "u32 \<Rightarrow> u32" where
  "serial_inc s = serial_add s 1"

definition serial_less :: "u32 \<Rightarrow> u32 \<Rightarrow> bool" where
  "serial_less s n \<longleftrightarrow>
     s < n \<and> n - s < SERIAL_VALUE_LESS_ONE \<or> s > n \<and> s - n > SERIAL_VALUE_LESS_ONE"

definition serial_greater :: "u32 \<Rightarrow> u32 \<Rightarrow> bool" where
  "serial_greater s n \<longleftrightarrow>
     s < n \<and> n - s > SERIAL_VALUE_LESS_ONE \<or> s > n \<and> s - n < SERIAL_VALUE_LESS_ONE"

section \<open>Messages\<close>

type_synonym pana_octets = "u8 list"
type_synonym inet_addr = "u32 \<times> u16"

abbreviation PANA_MTYPE_PCI :: u16 where "PANA_MTYPE_PCI \<equiv> 1"
abbreviation PANA_MTYPE_PSR :: u16 where "PANA_MTYPE_PSR \<equiv> 2"
abbreviation PANA_MTYPE_PAR :: u16 where "PANA_MTYPE_PAR \<equiv> 3"
abbreviation PANA_MTYPE_PRR :: u16 where "PANA_MTYPE_PRR \<equiv> 4"
abbreviation PANA_MTYPE_PBR :: u16 where "PANA_MTYPE_PBR \<equiv> 5"
abbreviation PANA_MTYPE_PPR :: u16 where "PANA_MTYPE_PPR \<equiv> 6"
abbreviation PANA_MTYPE_PTR :: u16 where "PANA_MTYPE_PTR \<equiv> 7"
abbreviation PANA_MTYPE_PER :: u16 where "PANA_MTYPE_PER \<equiv> 8"
abbreviation PANA_MTYPE_PUR :: u16 where "PANA_MTYPE_PUR \<equiv> 9"

definition PANA_RCODE_SUCCESS :: u32 where "PANA_RCODE_SUCCESS = 0"
definition PANA_RCODE_AUTHENTICATION_REJECTED :: u32 where
  "PANA_RCODE_AUTHENTICATION_REJECTED = 1"
definition PANA_TERMCAUSE_LOGOUT :: u32 where "PANA_TERMCAUSE_LOGOUT = 1"
definition PANA_TERMCAUSE_ADMINISTRATIVE :: u32 where "PANA_TERMCAUSE_ADMINISTRATIVE = 4"
definition PANA_TERMCAUSE_SESSION_TIMEOUT :: u32 where "PANA_TERMCAUSE_SESSION_TIMEOUT = 8"
definition PANA_ERROR_UNABLE_TO_COMPLY :: u32 where "PANA_ERROR_UNABLE_TO_COMPLY = 1013"

text \<open>
  An AVP of the dictionary with its data; a 32-bit value is the number after
  \<open>ACE_NTOHL\<close>, so the conversions of the two ends do not appear.
\<close>

datatype pana_avp =
    AVP_Algorithm u32
  | AVP_Auth pana_octets
  | AVP_Eap pana_octets
  | AVP_FailedMsgHdr pana_octets
  | AVP_KeyId u32
  | AVP_Nonce pana_octets
  | AVP_ResultCode u32
  | AVP_SessionLifetime u32
  | AVP_TermCause u32

fun as_algorithm :: "pana_avp \<Rightarrow> u32 option" where
  "as_algorithm (AVP_Algorithm v) = Some v"
| "as_algorithm _ = None"

fun as_auth :: "pana_avp \<Rightarrow> pana_octets option" where
  "as_auth (AVP_Auth v) = Some v"
| "as_auth _ = None"

fun as_eap :: "pana_avp \<Rightarrow> pana_octets option" where
  "as_eap (AVP_Eap v) = Some v"
| "as_eap _ = None"

fun as_keyid :: "pana_avp \<Rightarrow> u32 option" where
  "as_keyid (AVP_KeyId v) = Some v"
| "as_keyid _ = None"

fun as_nonce :: "pana_avp \<Rightarrow> pana_octets option" where
  "as_nonce (AVP_Nonce v) = Some v"
| "as_nonce _ = None"

fun as_resultcode :: "pana_avp \<Rightarrow> u32 option" where
  "as_resultcode (AVP_ResultCode v) = Some v"
| "as_resultcode _ = None"

fun as_lifetime :: "pana_avp \<Rightarrow> u32 option" where
  "as_lifetime (AVP_SessionLifetime v) = Some v"
| "as_lifetime _ = None"

fun as_termcause :: "pana_avp \<Rightarrow> u32 option" where
  "as_termcause (AVP_TermCause v) = Some v"
| "as_termcause _ = None"

text \<open>\<open>GetAvp\<close>: the first entry of the first container with the name.\<close>

fun pana_GetAvp :: "(pana_avp \<Rightarrow> 'a option) \<Rightarrow> pana_avp list \<Rightarrow> 'a option" where
  "pana_GetAvp sel [] = None"
| "pana_GetAvp sel (a # as) = (case sel a of Some v \<Rightarrow> Some v | None \<Rightarrow> pana_GetAvp sel as)"

record pana_hdr =
  pm_request :: bool
  pm_type :: u16
  pm_sessionId :: u32
  pm_seq :: u32

record pana_msg = pana_hdr +
  pm_avps :: "pana_avp list"
  pm_src :: inet_addr
  pm_dest :: inet_addr

definition no_addr :: inet_addr where
  "no_addr = (0, 0)"

definition pana_hdr_new :: pana_hdr where
  "pana_hdr_new = \<lparr>pm_request = False, pm_type = 0, pm_sessionId = 0, pm_seq = 0\<rparr>"

definition pana_msg_new :: pana_msg where
  "pana_msg_new =
     \<lparr>pm_request = False, pm_type = 0, pm_sessionId = 0, pm_seq = 0,
      pm_avps = [], pm_src = no_addr, pm_dest = no_addr\<rparr>"

section \<open>Configuration and surroundings\<close>

text \<open>
  Besides the configuration the sessions use the numbers of \<open>ACE_OS::rand\<close> (one per
  draw), the randomised part of a retransmission time (\<open>int(RAND()*float(base))\<close>), the
  hash of \<open>OD_Utl_Sha1\<close>, the encoding of a message by the parsers, and the
  octets of a header object in memory.
\<close>

record pana_env =
  cfg_SessionLifetime :: u32
  cfg_IRT :: u32
  cfg_MRC :: u32
  cfg_MRT :: u32
  cfg_MRD :: u32
  cfg_EapResponseTimeout :: u32
  cfg_EapPiggyback :: bool
  cfg_PaaAddress :: inet_addr
  cfg_OptimizedHandshake :: bool
  cfg_RetryPSR :: bool
  pe_rand :: "nat \<Rightarrow> u32"
  pe_jitter :: "nat \<Rightarrow> u32 \<Rightarrow> int"
  pe_sha1 :: "pana_octets \<Rightarrow> pana_octets"
  pe_pdu :: "pana_hdr \<Rightarrow> pana_avp list \<Rightarrow> pana_octets"
  pe_object :: "pana_hdr \<Rightarrow> pana_octets"

section \<open>Security association\<close>

text \<open>\<open>PANA_ScholarValue\<close>: \<open>Reset\<close> clears the flag only, the value stays.\<close>

record scholar =
  sv_value :: pana_octets
  sv_set :: bool

definition scholar_new :: scholar where
  "scholar_new = \<lparr>sv_value = [], sv_set = False\<rparr>"

definition scholar_Set :: "pana_octets \<Rightarrow> scholar" where
  "scholar_Set v = \<lparr>sv_value = v, sv_set = True\<rparr>"

definition scholar_Reset :: "scholar \<Rightarrow> scholar" where
  "scholar_Reset s = s\<lparr>sv_set := False\<rparr>"

record pana_sa =
  sa_Auth :: scholar
  sa_PacNonce :: scholar
  sa_PaaNonce :: scholar
  sa_MSK :: scholar
  sa_MskId :: u32

section \<open>Session and state machine\<close>

datatype pana_st =
    ST_OFFLINE
  | ST_WAIT_PAA
  | ST_WAIT_SUCC_PBA
  | ST_WAIT_FAIL_PBA
  | ST_WAIT_EAP_MSG
  | ST_WAIT_EAP_RESULT
  | ST_WAIT_EAP_RESULT_CLOSE
  | ST_OPEN
  | ST_WAIT_PRA
  | ST_WAIT_PAN_OR_PAR
  | ST_WAIT_PPA
  | ST_WAIT_PUA
  | ST_WAIT_PEA
  | ST_SESS_TERM
  | ST_CLOSED

datatype pana_tid = TID_RETRY | TID_SESSION | TID_EAP_RESP

record pana_auth_args =
  aa_PacAddress :: inet_addr
  aa_PaaAddress :: inet_addr
  aa_Key :: "pana_octets option"
  aa_Lifetime :: u32

text \<open>The calls of \<open>PANA_SessionEventInterface\<close> and its two extensions.\<close>

datatype pana_call =
    CallEapStart
  | CallAuthorize pana_auth_args
  | CallDisconnect u32
  | CallEapAltReject
  | CallError u32
  | CallEapRequest pana_octets
  | CallEapResponse pana_octets

text \<open>
  The two classes of session, the client (PaC) and the agent (PAA), differ in the event
  variable their timers use and in the addresses they put into a message.  \<open>ps_app_key\<close> is
  the answer of the application to \<open>IsKeyAvailable\<close> and \<open>ps_app_authorized\<close> that to
  \<open>IsUserAuthorized\<close>.  A key block of \<open>ps_TxEapMessageQueue\<close> is the whole buffer that
  \<open>PANA_MsgBlockGuard::Clone\<close> made, whose size is its length.
\<close>

datatype pana_role = RolePac | RolePaa

record pana_session =
  ps_role :: pana_role
  ps_SessionId :: u32
  ps_PacAddress :: inet_addr
  ps_PaaAddress :: inet_addr
  ps_LastTxSeqNum :: u32
  ps_LastRxSeqNum :: u32
  ps_LastTxReqMsg :: "pana_msg option"
  ps_CachedAnsMsg :: "pana_msg option"
  ps_SessionLifetime :: u32
  ps_LastRxHeader :: pana_hdr
  ps_Authorized :: bool
  ps_AlgorithmIsSet :: bool
  ps_RxMsgQueue :: "pana_msg list"
  ps_TxEapMessageQueue :: "pana_octets list"
  ps_SA :: pana_sa
  ps_GlobalId :: u32
  ps_Timeout :: u32
  ps_Duration :: u32
  ps_Count :: u32
  ps_running :: bool
  ps_state :: pana_st
  ps_timers :: "int timers"
  ps_events :: "int list"
  ps_received :: "pana_msg list"
  ps_sent :: "pana_msg list"
  ps_calls :: "pana_call list"
  ps_draws :: nat
  ps_app_key :: "pana_octets option"
  ps_app_authorized :: bool

section \<open>Code that may throw\<close>

text \<open>
  \<open>PExn\<close> is a \<open>PANA_Exception\<close> with the state it leaves behind; \<open>PUndef\<close> stands for
  undefined behaviour: the front of an empty queue, a null pointer, an object freed twice.
\<close>

datatype pana_code = FAILED | NO_MEMORY | INVALID_MESSAGE | MISSING_EAP_PAYLOAD

datatype 'w pana_out =
    POk 'w
  | PExn pana_code 'w
  | PUndef

fun and_then :: "'w pana_out \<Rightarrow> ('w \<Rightarrow> 'w pana_out) \<Rightarrow> 'w pana_out" where
  "and_then (POk w) f = f w"
| "and_then (PExn c w) f = PExn c w"
| "and_then PUndef f = PUndef"

text \<open>What holds of every state an outcome may leave behind, and of no undefined one.\<close>

fun out_all :: "('w \<Rightarrow> bool) \<Rightarrow> 'w pana_out \<Rightarrow> bool" where
  "out_all P (POk w) = P w"
| "out_all P (PExn c w) = P w"
| "out_all P PUndef = True"

lemma and_then_assoc: "and_then (and_then x f) g = and_then x (\<lambda>w. and_then (f w) g)"
  by (cases x) auto

lemma out_all_and_then:
  "out_all P x \<Longrightarrow> (\<And>w. P w \<Longrightarrow> out_all Q (f w)) \<Longrightarrow> (\<And>w. P w \<Longrightarrow> Q w)
    \<Longrightarrow> out_all Q (and_then x f)"
  by (cases x) auto

lemma out_all_step:
  "out_all P x \<Longrightarrow> (\<And>w. P w \<Longrightarrow> out_all P (f w)) \<Longrightarrow> out_all P (and_then x f)"
  by (rule out_all_and_then)

section \<open>Facts of serial numbers\<close>

lemma unat_serial_inc: "unat (serial_inc s) = (unat s + 1) mod 2 ^ 31"
proof -
  have "unat (s + 1) = (unat s + 1) mod 2 ^ 32"
    by (simp add: unat_word_ariths)
  then have "unat (serial_inc s) = (unat s + 1) mod 2 ^ 32 mod 2 ^ 31"
    by (simp add: serial_inc_def serial_add_def SERIAL_VALUE_LESS_ONE_def unat_mod_distrib)
  also have "\<dots> = (unat s + 1) mod 2 ^ 31"
    by (rule mod_mod_cancel) (simp add: dvd_def)
  finally show ?thesis .
qed

lemma serial_inc_below: "unat s + 1 < 2 ^ 31 \<Longrightarrow> serial_inc s = s + 1"
  by (rule word_unat_eq_iff [THEN iffD2])
    (simp add: unat_serial_inc unat_word_ariths)

lemma serial_inc_wraps: "serial_inc 0x7FFFFFFF = 0"
  by (simp add: serial_inc_def serial_add_def SERIAL_VALUE_LESS_ONE_def)

text \<open>
  The comparison of RFC 1982: \<open>n\<close> is ahead of \<open>s\<close> by less than half of the number space.
  The two branches of the code are that, and each number has an opposite one that is
  neither less nor greater.
\<close>

lemma serial_less_iff: "serial_less s n \<longleftrightarrow> 0 < n - s \<and> n - s < 0x80000000"
  unfolding serial_less_def SERIAL_VALUE_LESS_ONE_def by unat_arith auto

end
