(* ===== verification/Pana_Events.thy ===== *)
theory Pana_Events
  imports Pana_Data
begin

text \<open>
  The event variables of the two state machines (\<open>PANA_PacEventVariable\<close> in
  \<open>pana_client_fsm.h\<close>, \<open>PANA_PaaEventVariable\<close> in \<open>pana_paa_fsm.h\<close>): a union of a struct
  of bit fields with the number of 32 bits that is the event.  The fields are allocated
  from the least significant bit on, as the compilers of the platform do; no field
  overflows, so that two settings of the fields are two events.
\<close>

section \<open>Enumerations\<close>

datatype pana_msg_type =
    MT_PCI | MT_PSR | MT_PSA | MT_PAR | MT_PAN | MT_PRR | MT_PRA | MT_PBR | MT_PBA
  | MT_PPR | MT_PPA | MT_PTR | MT_PTA | MT_PER | MT_PEA | MT_PUR | MT_PUA

fun msg_type_code :: "pana_msg_type option \<Rightarrow> int" where
  "msg_type_code None = 0"
| "msg_type_code (Some MT_PCI) = 1"
| "msg_type_code (Some MT_PSR) = 2"
| "msg_type_code (Some MT_PSA) = 3"
| "msg_type_code (Some MT_PAR) = 4"
| "msg_type_code (Some MT_PAN) = 5"
| "msg_type_code (Some MT_PRR) = 6"
| "msg_type_code (Some MT_PRA) = 7"
| "msg_type_code (Some MT_PBR) = 8"
| "msg_type_code (Some MT_PBA) = 9"
| "msg_type_code (Some MT_PPR) = 10"
| "msg_type_code (Some MT_PPA) = 11"
| "msg_type_code (Some MT_PTR) = 12"
| "msg_type_code (Some MT_PTA) = 13"
| "msg_type_code (Some MT_PER) = 14"
| "msg_type_code (Some MT_PEA) = 15"
| "msg_type_code (Some MT_PUR) = 16"
| "msg_type_code (Some MT_PUA) = 17"

datatype pana_eap_event =
    EAP_EV_SUCCESS | EAP_EV_FAILURE | EAP_EV_REQUEST | EAP_EV_RESPONSE | EAP_EV_INVALID_MSG
  | EAP_EV_TIMEOUT | EAP_EV_RESP_TIMEOUT

fun eap_event_code :: "pana_eap_event option \<Rightarrow> int" where
  "eap_event_code None = 0"
| "eap_event_code (Some EAP_EV_SUCCESS) = 1"
| "eap_event_code (Some EAP_EV_FAILURE) = 2"
| "eap_event_code (Some EAP_EV_REQUEST) = 3"
| "eap_event_code (Some EAP_EV_RESPONSE) = 4"
| "eap_event_code (Some EAP_EV_INVALID_MSG) = 5"
| "eap_event_code (Some EAP_EV_TIMEOUT) = 6"
| "eap_event_code (Some EAP_EV_RESP_TIMEOUT) = 7"

datatype pana_app_event =
    APP_START | APP_PAC_FOUND | APP_REAUTH | APP_TERMINATE | APP_AUTH_USER | APP_UPDATE
  | APP_PING

fun app_event_code :: "pana_app_event option \<Rightarrow> int" where
  "app_event_code None = 0"
| "app_event_code (Some APP_START) = 1"
| "app_event_code (Some APP_PAC_FOUND) = 2"
| "app_event_code (Some APP_REAUTH) = 3"
| "app_event_code (Some APP_TERMINATE) = 4"
| "app_event_code (Some APP_AUTH_USER) = 5"
| "app_event_code (Some APP_UPDATE) = 6"
| "app_event_code (Some APP_PING) = 7"

datatype pana_result_code = RESULT_CODE_UNSET | RESULT_CODE_FAIL | RESULT_CODE_SUCCESS

fun result_code_code :: "pana_result_code option \<Rightarrow> int" where
  "result_code_code None = 0"
| "result_code_code (Some RESULT_CODE_UNSET) = 1"
| "result_code_code (Some RESULT_CODE_FAIL) = 2"
| "result_code_code (Some RESULT_CODE_SUCCESS) = 3"

definition bit_code :: "bool \<Rightarrow> int" where
  "bit_code b = (if b then 1 else 0)"

section \<open>Events of the client\<close>

text \<open>A field of an enumeration that holds zero is \<open>None\<close>.\<close>

record pac_ev =
  pe_Type_Msg :: "pana_msg_type option"
  pe_Event_App :: "pana_app_event option"
  pe_Event_Eap :: "pana_eap_event option"
  pe_Cfg_EapPiggyback :: bool
  pe_Do_Ping :: bool
  pe_Do_RetryTimeout :: bool
  pe_Do_ReTransmission :: bool
  pe_Do_FatalError :: bool
  pe_Do_SessTimeout :: bool
  pe_ResultCode :: "pana_result_code option"
  pe_AvpExist_KeyId :: bool
  pe_AvpExist_Auth :: bool
  pe_AvpExist_EapPayload :: bool
  pe_AlgoNotSupported :: bool

definition pac_Reset :: pac_ev where
  "pac_Reset =
     \<lparr>pe_Type_Msg = None, pe_Event_App = None, pe_Event_Eap = None, pe_Cfg_EapPiggyback = False,
      pe_Do_Ping = False, pe_Do_RetryTimeout = False, pe_Do_ReTransmission = False,
      pe_Do_FatalError = False, pe_Do_SessTimeout = False, pe_ResultCode = None,
      pe_AvpExist_KeyId = False, pe_AvpExist_Auth = False, pe_AvpExist_EapPayload = False,
      pe_AlgoNotSupported = False\<rparr>"

text \<open>\<open>MsgType\<close> clears the variable first.\<close>

definition pac_MsgType :: "pana_msg_type \<Rightarrow> pac_ev" where
  "pac_MsgType t = pac_Reset\<lparr>pe_Type_Msg := Some t\<rparr>"

definition pac_App :: "pana_app_event \<Rightarrow> pac_ev" where
  "pac_App e = pac_Reset\<lparr>pe_Event_App := Some e\<rparr>"

definition pac_Eap :: "pana_eap_event \<Rightarrow> pac_ev" where
  "pac_Eap e = pac_Reset\<lparr>pe_Event_Eap := Some e\<rparr>"

definition pac_piggyback :: "pac_ev \<Rightarrow> pac_ev" where
  "pac_piggyback e = e\<lparr>pe_Cfg_EapPiggyback := True\<rparr>"

definition pac_SessTimeout :: pac_ev where
  "pac_SessTimeout = pac_Reset\<lparr>pe_Do_SessTimeout := True\<rparr>"

definition pac_RetryTimeout :: pac_ev where
  "pac_RetryTimeout = pac_Reset\<lparr>pe_Do_RetryTimeout := True\<rparr>"

definition pac_ReTransmission :: pac_ev where
  "pac_ReTransmission = pac_Reset\<lparr>pe_Do_ReTransmission := True\<rparr>"

definition pac_FatalError :: "pac_ev \<Rightarrow> pac_ev" where
  "pac_FatalError e = e\<lparr>pe_Do_FatalError := True\<rparr>"

definition pac_ResultCode :: "pana_result_code \<Rightarrow> pac_ev \<Rightarrow> pac_ev" where
  "pac_ResultCode r e = e\<lparr>pe_ResultCode := Some r\<rparr>"

definition pac_KeyId :: "pac_ev \<Rightarrow> pac_ev" where
  "pac_KeyId e = e\<lparr>pe_AvpExist_KeyId := True\<rparr>"

definition pac_EapPayload :: "pac_ev \<Rightarrow> pac_ev" where
  "pac_EapPayload e = e\<lparr>pe_AvpExist_EapPayload := True\<rparr>"

definition pac_Algorithm :: "pac_ev \<Rightarrow> pac_ev" where
  "pac_Algorithm e = e\<lparr>pe_AlgoNotSupported := True\<rparr>"

definition pac_Get :: "pac_ev \<Rightarrow> int" where
  "pac_Get e =
     msg_type_code (pe_Type_Msg e) + 32 * (app_event_code (pe_Event_App e)
     + 16 * (eap_event_code (pe_Event_Eap e) + 8 * (bit_code (pe_Cfg_EapPiggyback e)
     + 2 * (bit_code (pe_Do_Ping e) + 2 * (bit_code (pe_Do_RetryTimeout e)
     + 2 * (bit_code (pe_Do_ReTransmission e) + 2 * (bit_code (pe_Do_FatalError e)
     + 2 * (bit_code (pe_Do_SessTimeout e) + 2 * (result_code_code (pe_ResultCode e)
     + 4 * (bit_code (pe_AvpExist_KeyId e) + 2 * (bit_code (pe_AvpExist_Auth e)
     + 2 * (bit_code (pe_AvpExist_EapPayload e)
     + 2 * bit_code (pe_AlgoNotSupported e)))))))))))))"

section \<open>Events of the agent\<close>

record paa_ev =
  pa_Type_Msg :: "pana_msg_type option"
  pa_Event_Eap :: "pana_eap_event option"
  pa_Event_App :: "pana_app_event option"
  pa_Cfg_OptimizedHshk :: bool
  pa_Do_Authorize :: bool
  pa_Do_Ping :: bool
  pa_Do_RetryTimeout :: bool
  pa_Do_ReTransmission :: bool
  pa_Do_EapRespTimeout :: bool
  pa_Do_FatalError :: bool
  pa_Do_SessTimeout :: bool
  pa_AvpExist_EapPayload :: bool

definition paa_Reset :: paa_ev where
  "paa_Reset =
     \<lparr>pa_Type_Msg = None, pa_Event_Eap = None, pa_Event_App = None,
      pa_Cfg_OptimizedHshk = False, pa_Do_Authorize = False, pa_Do_Ping = False,
      pa_Do_RetryTimeout = False, pa_Do_ReTransmission = False, pa_Do_EapRespTimeout = False,
      pa_Do_FatalError = False, pa_Do_SessTimeout = False, pa_AvpExist_EapPayload = False\<rparr>"

definition paa_MsgType :: "pana_msg_type \<Rightarrow> paa_ev" where
  "paa_MsgType t = paa_Reset\<lparr>pa_Type_Msg := Some t\<rparr>"

definition paa_App :: "pana_app_event \<Rightarrow> paa_ev" where
  "paa_App e = paa_Reset\<lparr>pa_Event_App := Some e\<rparr>"

definition paa_Eap :: "pana_eap_event \<Rightarrow> paa_ev" where
  "paa_Eap e = paa_Reset\<lparr>pa_Event_Eap := Some e\<rparr>"

definition paa_optimized :: "paa_ev \<Rightarrow> paa_ev" where
  "paa_optimized e = e\<lparr>pa_Cfg_OptimizedHshk := True\<rparr>"

definition paa_Authorize :: "paa_ev \<Rightarrow> paa_ev" where
  "paa_Authorize e = e\<lparr>pa_Do_Authorize := True\<rparr>"

definition paa_SessTimeout :: paa_ev where
  "paa_SessTimeout = paa_Reset\<lparr>pa_Do_SessTimeout := True\<rparr>"

definition paa_RetryTimeout :: paa_ev where
  "paa_RetryTimeout = paa_Reset\<lparr>pa_Do_RetryTimeout := True\<rparr>"

definition paa_ReTransmission :: paa_ev where
  "paa_ReTransmission = paa_Reset\<lparr>pa_Do_ReTransmission := True\<rparr>"

definition paa_FatalError :: "paa_ev \<Rightarrow> paa_ev" where
  "paa_FatalError e = e\<lparr>pa_Do_FatalError := True\<rparr>"

definition paa_EapPayload :: "paa_ev \<Rightarrow> paa_ev" where
  "paa_EapPayload e = e\<lparr>pa_AvpExist_EapPayload := True\<rparr>"

definition paa_Get :: "paa_ev \<Rightarrow> int" where
  "paa_Get e =
     msg_type_code (pa_Type_Msg e) + 32 * (eap_event_code (pa_Event_Eap e)
     + 16 * (app_event_code (pa_Event_App e) + 16 * (bit_code (pa_Cfg_OptimizedHshk e)
     + 2 * (bit_code (pa_Do_Authorize e) + 2 * (bit_code (pa_Do_Ping e)
     + 2 * (bit_code (pa_Do_RetryTimeout e) + 2 * (bit_code (pa_Do_ReTransmission e)
     + 2 * (bit_code (pa_Do_EapRespTimeout e) + 2 * (bit_code (pa_Do_FatalError e)
     + 2 * (bit_code (pa_Do_SessTimeout e)
     + 2 * bit_code (pa_AvpExist_EapPayload e)))))))))))"

text \<open>The event of a timer, per class of machine (\<open>FsmTimer::Schedule\<close>, \<open>Cancel\<close>).\<close>

fun timer_event :: "pana_role \<Rightarrow> pana_env \<Rightarrow> pana_tid \<Rightarrow> int" where
  "timer_event RolePac env TID_RETRY = pac_Get pac_ReTransmission"
| "timer_event RolePac env TID_SESSION = pac_Get pac_SessTimeout"
| "timer_event RolePac env TID_EAP_RESP =
     pac_Get (if cfg_EapPiggyback env then pac_piggyback (pac_Eap EAP_EV_RESP_TIMEOUT)
              else pac_Eap EAP_EV_RESP_TIMEOUT)"
| "timer_event RolePaa env TID_RETRY = paa_Get paa_ReTransmission"
| "timer_event RolePaa env TID_SESSION = paa_Get paa_SessTimeout"
| "timer_event RolePaa env TID_EAP_RESP = paa_Get (paa_Eap EAP_EV_RESP_TIMEOUT)"

lemmas ev_defs =
  pac_Reset_def pac_MsgType_def pac_App_def pac_Eap_def pac_piggyback_def pac_SessTimeout_def
  pac_RetryTimeout_def pac_ReTransmission_def pac_FatalError_def pac_ResultCode_def
  pac_KeyId_def pac_EapPayload_def pac_Algorithm_def
  paa_Reset_def paa_MsgType_def paa_App_def paa_Eap_def paa_optimized_def paa_Authorize_def
  paa_SessTimeout_def paa_RetryTimeout_def paa_ReTransmission_def paa_FatalError_def
  paa_EapPayload_def

section \<open>Two events are two numbers\<close>

lemma mixed_radix:
  fixes a a' b b' k :: int
  assumes "a + k * b = a' + k * b'" and "0 \<le> a" "a < k" and "0 \<le> a'" "a' < k"
  shows "a = a' \<and> b = b'"
proof -
  have "(a + k * b) mod k = (a' + k * b') mod k" using assms(1) by simp
  then have "a = a'" using assms(2-5) by simp
  then show ?thesis using assms by simp
qed

lemma msg_type_code_range: "0 \<le> msg_type_code t" "msg_type_code t < 32"
  by (cases t rule: msg_type_code.cases; simp)+

lemma eap_event_code_range:
  "0 \<le> eap_event_code e" "eap_event_code e < 8" "eap_event_code e < 16"
  by (cases e rule: eap_event_code.cases; simp)+

lemma app_event_code_range: "0 \<le> app_event_code e" "app_event_code e < 16"
  by (cases e rule: app_event_code.cases; simp)+

lemma result_code_code_range: "0 \<le> result_code_code r" "result_code_code r < 4"
  by (cases r rule: result_code_code.cases; simp)+

lemma bit_code_range: "0 \<le> bit_code b" "bit_code b < 2"
  by (simp_all add: bit_code_def)

lemmas code_ranges = msg_type_code_range eap_event_code_range app_event_code_range
  result_code_code_range bit_code_range

lemma msg_type_code_inj: "msg_type_code t = msg_type_code u \<longleftrightarrow> t = u"
  by (cases t rule: msg_type_code.cases; cases u rule: msg_type_code.cases; simp)

lemma eap_event_code_inj: "eap_event_code t = eap_event_code u \<longleftrightarrow> t = u"
  by (cases t rule: eap_event_code.cases; cases u rule: eap_event_code.cases; simp)

lemma app_event_code_inj: "app_event_code t = app_event_code u \<longleftrightarrow> t = u"
  by (cases t rule: app_event_code.cases; cases u rule: app_event_code.cases; simp)

lemma result_code_code_inj: "result_code_code t = result_code_code u \<longleftrightarrow> t = u"
  by (cases t rule: result_code_code.cases; cases u rule: result_code_code.cases; simp)

lemma bit_code_inj: "bit_code b = bit_code c \<longleftrightarrow> b = c"
  by (simp add: bit_code_def)

lemmas code_injs = msg_type_code_inj eap_event_code_inj app_event_code_inj
  result_code_code_inj bit_code_inj

lemma mixed_radix_iff:
  fixes a a' b b' k :: int
  assumes "0 \<le> a" "a < k" and "0 \<le> a'" "a' < k"
  shows "a + k * b = a' + k * b' \<longleftrightarrow> a = a' \<and> b = b'"
  using mixed_radix assms by blast

lemma pac_Get_inj: "pac_Get e = pac_Get e' \<longleftrightarrow> e = e'"
  by (cases e; cases e'; simp only: pac_Get_def pac_ev.simps)
    (simp only: mixed_radix_iff code_ranges code_injs simp_thms pac_ev.ext_inject)

lemma paa_Get_inj: "paa_Get e = paa_Get e' \<longleftrightarrow> e = e'"
  by (cases e; cases e'; simp only: paa_Get_def paa_ev.simps)
    (simp only: mixed_radix_iff code_ranges code_injs simp_thms paa_ev.ext_inject)

end
