(* ===== verification/Pana_Session.thy ===== *)
theory Pana_Session
  imports Pana_Events
begin

text \<open>
  What the two classes of PANA session share (\<open>pana_session.cxx\<close>, \<open>pana_security_assoc.cxx\<close>)
  and their state machine base class (\<open>pana_fsm.h\<close>): timers and retransmission, the security
  association, validation of a received message, the requests and answers that both sides
  send and receive, and the ends of a session.
\<close>

section \<open>Timers\<close>

definition pana_Schedule :: "pana_env \<Rightarrow> pana_tid \<Rightarrow> u32 \<Rightarrow> pana_session \<Rightarrow> pana_session" where
  "pana_Schedule env tid sec w =
     (let ev = timer_event (ps_role w) env tid
      in w\<lparr>ps_timers := ScheduleTimer ev (unat sec) ev (ps_timers w)\<rparr>)"

definition pana_Cancel :: "pana_env \<Rightarrow> pana_tid \<Rightarrow> pana_session \<Rightarrow> pana_session" where
  "pana_Cancel env tid w =
     w\<lparr>ps_timers := CancelTimer (timer_event (ps_role w) env tid) (ps_timers w)\<rparr>"

definition ScheduleEapResponse :: "pana_env \<Rightarrow> pana_session \<Rightarrow> pana_session" where
  "ScheduleEapResponse env w = pana_Schedule env TID_EAP_RESP (cfg_EapResponseTimeout env) w"

definition NotifyScheduleLifetime :: "pana_env \<Rightarrow> pana_session \<Rightarrow> pana_session" where
  "NotifyScheduleLifetime env w = pana_Schedule env TID_SESSION (ps_SessionLifetime w) w"

text \<open>The randomised part of a time is one draw; the sum is of 32 bits.\<close>

definition rt_jitter :: "pana_env \<Rightarrow> u32 \<Rightarrow> u32 \<Rightarrow> pana_session \<Rightarrow> u32 \<times> pana_session" where
  "rt_jitter env rt base w =
     (rt + word_of_int (pe_jitter env (ps_draws w) base), w\<lparr>ps_draws := Suc (ps_draws w)\<rparr>)"

definition rt_cap :: "pana_env \<Rightarrow> u32 \<times> pana_session \<Rightarrow> u32 \<times> pana_session" where
  "rt_cap env rw =
     (case rw of (rt, w) \<Rightarrow>
        if rt > cfg_MRT env then rt_jitter env (cfg_MRT env) (cfg_MRT env) w else (rt, w))"

definition ScheduleTxRetry :: "pana_env \<Rightarrow> pana_session \<Rightarrow> pana_session" where
  "ScheduleTxRetry env w =
     (case rt_cap env (rt_jitter env (cfg_IRT env) (cfg_IRT env) w) of (rt, w1) \<Rightarrow>
        pana_Schedule env TID_RETRY rt
          (w1\<lparr>ps_Timeout := rt, ps_Duration := rt, ps_Count := 1\<rparr>))"

definition ReScheduleTxRetry :: "pana_env \<Rightarrow> pana_session \<Rightarrow> bool \<times> pana_session" where
  "ReScheduleTxRetry env w =
     (let w0 = pana_Cancel env TID_RETRY w
      in case rt_cap env (rt_jitter env (2 * ps_Timeout w0) (ps_Timeout w0) w0) of (rt, w1) \<Rightarrow>
        if cfg_MRC env > 0 \<and> ps_Count w1 \<ge> cfg_MRC env then (False, w1)
        else if cfg_MRD env > 0 \<and> ps_Duration w1 + rt > cfg_MRD env then (False, w1)
        else (True, pana_Schedule env TID_RETRY rt
               (w1\<lparr>ps_Timeout := rt, ps_Duration := ps_Duration w1 + rt,
                   ps_Count := ps_Count w1 + 1\<rparr>)))"

section \<open>Security association\<close>

definition pana_le32 :: "u32 \<Rightarrow> pana_octets" where
  "pana_le32 w = rev (be32 w)"

text \<open>\<open>PANA_MSK::Reset\<close> takes the next number of the process; the value stays set.\<close>

definition msk_Reset :: "pana_session \<Rightarrow> pana_session" where
  "msk_Reset w =
     (let g = ps_GlobalId w + 1
      in w\<lparr>ps_GlobalId := g, ps_SA := (ps_SA w)\<lparr>sa_MskId := g\<rparr>\<rparr>)"

definition sa_Reset :: "pana_session \<Rightarrow> pana_session" where
  "sa_Reset w =
     (let w1 = msk_Reset w
      in w1\<lparr>ps_SA := (ps_SA w1)\<lparr>sa_Auth := scholar_Reset (sa_Auth (ps_SA w1))\<rparr>\<rparr>)"

definition pana_rand :: "pana_env \<Rightarrow> pana_session \<Rightarrow> u32 \<times> pana_session" where
  "pana_rand env w = (pe_rand env (ps_draws w), w\<lparr>ps_draws := Suc (ps_draws w)\<rparr>)"

definition nonce_Generate :: "pana_env \<Rightarrow> pana_session \<Rightarrow> pana_octets \<times> pana_session" where
  "nonce_Generate env w =
     (let n = ps_draws w
      in (pana_le32 (pe_rand env n) @ pana_le32 (pe_rand env (n + 1)) @ pana_le32 (pe_rand env (n + 2))
            @ pana_le32 (pe_rand env (n + 3)),
          w\<lparr>ps_draws := n + 4\<rparr>))"

text \<open>The key is a hash of the octets in memory, so the two numbers are little-endian.\<close>

definition auth_key :: "pana_env \<Rightarrow> pana_sa \<Rightarrow> u32 \<Rightarrow> pana_octets" where
  "auth_key env sa sid =
     pe_sha1 env (sv_value (sa_MSK sa) @ sv_value (sa_PacNonce sa) @ sv_value (sa_PaaNonce sa)
       @ pana_le32 sid @ pana_le32 (sa_MskId sa))"

definition GenerateAuthKey :: "pana_env \<Rightarrow> pana_sa \<Rightarrow> u32 \<Rightarrow> pana_sa" where
  "GenerateAuthKey env sa sid = sa\<lparr>sa_Auth := scholar_Set (auth_key env sa sid)\<rparr>"

definition GenerateAuthAvpValue :: "pana_env \<Rightarrow> pana_sa \<Rightarrow> pana_hdr \<Rightarrow> pana_avp list
    \<Rightarrow> pana_octets" where
  "GenerateAuthAvpValue env sa h avps = pe_sha1 env (sv_value (sa_Auth sa) @ pe_pdu env h avps)"

definition no_auth :: pana_octets where
  "no_auth = replicate 20 0"

definition AddKeyIdAvp :: "pana_sa \<Rightarrow> pana_msg \<Rightarrow> pana_msg" where
  "AddKeyIdAvp sa m = m\<lparr>pm_avps := pm_avps m @ [AVP_KeyId (sa_MskId sa)]\<rparr>"

definition AddAuthAvp :: "pana_env \<Rightarrow> pana_sa \<Rightarrow> pana_msg \<Rightarrow> pana_msg" where
  "AddAuthAvp env sa m =
     m\<lparr>pm_avps := pm_avps m @
         [AVP_Auth (GenerateAuthAvpValue env sa (pana_hdr.truncate m)
            (pm_avps m @ [AVP_Auth no_auth]))]\<rparr>"

text \<open>The data of the first AUTH AVP is replaced by zeros before the hash is taken.\<close>

fun zero_auth :: "pana_avp list \<Rightarrow> pana_avp list" where
  "zero_auth [] = []"
| "zero_auth (AVP_Auth v # as) = AVP_Auth no_auth # as"
| "zero_auth (a # as) = a # zero_auth as"

definition ValidateAuthAvp :: "pana_env \<Rightarrow> pana_sa \<Rightarrow> pana_msg \<Rightarrow> bool" where
  "ValidateAuthAvp env sa m =
     (case pana_GetAvp as_auth (pm_avps m) of
        None \<Rightarrow> False
      | Some v \<Rightarrow>
          GenerateAuthAvpValue env sa (pana_hdr.truncate m) (zero_auth (pm_avps m)) = v)"

definition add_auth_if_set :: "pana_env \<Rightarrow> pana_session \<Rightarrow> pana_msg \<Rightarrow> pana_msg" where
  "add_auth_if_set env w m =
     (if sv_set (sa_Auth (ps_SA w)) then AddAuthAvp env (ps_SA w) m else m)"

section \<open>Sending\<close>

definition TxPrepareMessage :: "pana_session \<Rightarrow> pana_msg \<Rightarrow> pana_msg" where
  "TxPrepareMessage w m =
     (case ps_role w of
        RolePac \<Rightarrow> m\<lparr>pm_src := ps_PacAddress w, pm_dest := ps_PaaAddress w\<rparr>
      | RolePaa \<Rightarrow> m\<lparr>pm_src := ps_PaaAddress w, pm_dest := ps_PacAddress w\<rparr>)"

definition pana_transmit :: "pana_msg \<Rightarrow> pana_session \<Rightarrow> pana_session" where
  "pana_transmit m w = w\<lparr>ps_sent := ps_sent w @ [m]\<rparr>"

definition SendReqMsg :: "pana_env \<Rightarrow> bool \<Rightarrow> pana_msg \<Rightarrow> pana_session \<Rightarrow> pana_session" where
  "SendReqMsg env allowRetry m w =
     (let m' = TxPrepareMessage w m;
          w1 = pana_transmit m' w;
          w2 = (if allowRetry then ScheduleTxRetry env w1 else w1)
      in w2\<lparr>ps_LastTxReqMsg := Some m'\<rparr>)"

definition SendAnsMsg :: "pana_msg \<Rightarrow> pana_session \<Rightarrow> pana_session" where
  "SendAnsMsg m w =
     (let m' = TxPrepareMessage w m
      in (pana_transmit m' w)\<lparr>ps_CachedAnsMsg := Some m'\<rparr>)"

text \<open>
  The last request and the cached answer are shared pointers, which are null until the first
  of their kind has been sent.
\<close>

definition TxLastReqMsg :: "pana_env \<Rightarrow> pana_session \<Rightarrow> (bool \<times> pana_session) option" where
  "TxLastReqMsg env w =
     (case ReScheduleTxRetry env w of
        (False, w1) \<Rightarrow> Some (False, w1)
      | (True, w1) \<Rightarrow>
          (case ps_LastTxReqMsg w1 of
             None \<Rightarrow> None
           | Some m \<Rightarrow>
               (let m' = TxPrepareMessage w1 m
                in Some (True, (pana_transmit m' w1)\<lparr>ps_LastTxReqMsg := Some m'\<rparr>))))"

definition TxLastAnsMsg :: "pana_msg \<Rightarrow> pana_session \<Rightarrow> pana_session" where
  "TxLastAnsMsg c w =
     (let m' = TxPrepareMessage w c
      in (pana_transmit m' w)\<lparr>ps_CachedAnsMsg := Some m'\<rparr>)"

definition next_TxSeq :: "pana_session \<Rightarrow> pana_session" where
  "next_TxSeq w = w\<lparr>ps_LastTxSeqNum := serial_inc (ps_LastTxSeqNum w)\<rparr>"

definition pana_request :: "u16 \<Rightarrow> pana_avp list \<Rightarrow> pana_session \<Rightarrow> pana_msg" where
  "pana_request t avps w =
     pana_msg_new\<lparr>pm_type := t, pm_request := True, pm_sessionId := ps_SessionId w,
       pm_seq := ps_LastTxSeqNum w, pm_avps := avps\<rparr>"

definition pana_answer :: "u16 \<Rightarrow> pana_avp list \<Rightarrow> pana_session \<Rightarrow> pana_msg" where
  "pana_answer t avps w =
     pana_msg_new\<lparr>pm_type := t, pm_seq := ps_LastRxSeqNum w, pm_sessionId := ps_SessionId w,
       pm_avps := avps\<rparr>"

definition TxPUR :: "pana_env \<Rightarrow> pana_session \<Rightarrow> pana_session" where
  "TxPUR env w =
     (let w1 = next_TxSeq w
      in SendReqMsg env True (add_auth_if_set env w1 (pana_request PANA_MTYPE_PUR [] w1)) w1)"

definition TxPUA :: "pana_env \<Rightarrow> pana_session \<Rightarrow> pana_session" where
  "TxPUA env w = SendAnsMsg (add_auth_if_set env w (pana_answer PANA_MTYPE_PUR [] w)) w"

definition TxPPR :: "pana_env \<Rightarrow> pana_session \<Rightarrow> pana_session" where
  "TxPPR env w =
     (let w1 = next_TxSeq w
      in SendReqMsg env True (add_auth_if_set env w1 (pana_request PANA_MTYPE_PPR [] w1)) w1)"

definition TxPPA :: "pana_env \<Rightarrow> pana_session \<Rightarrow> pana_session" where
  "TxPPA env w = SendAnsMsg (add_auth_if_set env w (pana_answer PANA_MTYPE_PPR [] w)) w"

definition TxPTR :: "pana_env \<Rightarrow> u32 \<Rightarrow> pana_session \<Rightarrow> pana_session" where
  "TxPTR env cause w =
     (let w1 = next_TxSeq w;
          m = add_auth_if_set env w1 (pana_request PANA_MTYPE_PTR [AVP_TermCause cause] w1)
      in SendReqMsg env True m (pana_Cancel env TID_SESSION w1))"

definition TxPTA :: "pana_env \<Rightarrow> pana_session \<Rightarrow> pana_session" where
  "TxPTA env w = SendAnsMsg (add_auth_if_set env w (pana_answer PANA_MTYPE_PTR [] w)) w"

text \<open>The \<open>Failed-Message-Header\<close> is copied from the header object, not from its encoding.\<close>

definition TxPER :: "pana_env \<Rightarrow> u32 \<Rightarrow> pana_session \<Rightarrow> pana_session" where
  "TxPER env rcode w =
     (let w1 = next_TxSeq w;
          m = add_auth_if_set env w1
                (pana_request PANA_MTYPE_PER
                   [AVP_ResultCode rcode, AVP_FailedMsgHdr (pe_object env (ps_LastRxHeader w1))] w1)
      in SendReqMsg env True m (pana_Cancel env TID_EAP_RESP w1))"

definition TxPEA :: "pana_session \<Rightarrow> pana_session" where
  "TxPEA w = SendAnsMsg (pana_answer PANA_MTYPE_PER [] w) w"

section \<open>Ends of a session\<close>

definition aux_Reset :: "pana_session \<Rightarrow> pana_session" where
  "aux_Reset w =
     w\<lparr>ps_Authorized := False, ps_AlgorithmIsSet := False, ps_RxMsgQueue := [],
       ps_TxEapMessageQueue := []\<rparr>"

definition attribute_Reset :: "pana_env \<Rightarrow> pana_session \<Rightarrow> pana_session" where
  "attribute_Reset env w =
     (case pana_rand env w of (isn, w1) \<Rightarrow>
        w1\<lparr>ps_SessionId := 0, ps_LastTxSeqNum := isn, ps_LastRxSeqNum := 0,
           ps_SessionLifetime := cfg_SessionLifetime env\<rparr>)"

definition session_Reset :: "pana_env \<Rightarrow> pana_session \<Rightarrow> pana_session" where
  "session_Reset env w = attribute_Reset env (aux_Reset (sa_Reset w))"

definition app_call :: "pana_call \<Rightarrow> pana_session \<Rightarrow> pana_session" where
  "app_call c w = w\<lparr>ps_calls := ps_calls w @ [c]\<rparr>"

definition cancel_timers :: "pana_env \<Rightarrow> pana_session \<Rightarrow> pana_session" where
  "cancel_timers env w =
     pana_Cancel env TID_EAP_RESP (pana_Cancel env TID_SESSION (pana_Cancel env TID_RETRY w))"

definition session_Disconnect :: "pana_env \<Rightarrow> u32 \<Rightarrow> pana_session \<Rightarrow> pana_session" where
  "session_Disconnect env cause w =
     session_Reset env (app_call (CallDisconnect cause) (cancel_timers env w))"

definition session_Error :: "pana_env \<Rightarrow> u32 \<Rightarrow> pana_session \<Rightarrow> pana_session" where
  "session_Error env rcode w =
     session_Reset env (app_call (CallError rcode) (cancel_timers env w))"

section \<open>Receiving\<close>

text \<open>The action of a message takes the front of the queue, whatever that message is.\<close>

definition rx_Dequeue :: "(pana_msg \<Rightarrow> pana_session \<Rightarrow> pana_session pana_out)
    \<Rightarrow> pana_session \<Rightarrow> pana_session pana_out" where
  "rx_Dequeue f w =
     (case ps_RxMsgQueue w of
        [] \<Rightarrow> PUndef
      | m # q \<Rightarrow> f m (w\<lparr>ps_RxMsgQueue := q\<rparr>))"

definition RxPUA :: "pana_env \<Rightarrow> pana_session \<Rightarrow> pana_session pana_out" where
  "RxPUA env = rx_Dequeue (\<lambda>m w. POk (pana_Cancel env TID_RETRY w))"

definition RxPPR :: "pana_env \<Rightarrow> pana_session \<Rightarrow> pana_session pana_out" where
  "RxPPR env = rx_Dequeue (\<lambda>m w. POk (TxPPA env w))"

definition RxPUR :: "pana_env \<Rightarrow> pana_session \<Rightarrow> pana_session pana_out" where
  "RxPUR env = rx_Dequeue (\<lambda>m w. POk (TxPUA env w))"

definition RxPPA :: "pana_env \<Rightarrow> pana_session \<Rightarrow> pana_session pana_out" where
  "RxPPA env = rx_Dequeue (\<lambda>m w. POk (pana_Cancel env TID_RETRY w))"

definition RxPTR :: "pana_env \<Rightarrow> pana_session \<Rightarrow> pana_session pana_out" where
  "RxPTR env = rx_Dequeue (\<lambda>m w.
     POk (session_Disconnect env
       (case pana_GetAvp as_termcause (pm_avps m) of
          Some c \<Rightarrow> c
        | None \<Rightarrow> PANA_TERMCAUSE_ADMINISTRATIVE) (TxPTA env w)))"

definition RxPTA :: "pana_env \<Rightarrow> pana_session \<Rightarrow> pana_session pana_out" where
  "RxPTA env = rx_Dequeue (\<lambda>m w. POk (session_Disconnect env PANA_TERMCAUSE_LOGOUT w))"

definition RxPER :: "pana_env \<Rightarrow> pana_session \<Rightarrow> pana_session pana_out" where
  "RxPER env = rx_Dequeue (\<lambda>m w.
     case pana_GetAvp as_resultcode (pm_avps m) of
       None \<Rightarrow> PExn FAILED w
     | Some rc \<Rightarrow> POk (session_Error env rc w))"

definition RxPEA :: "pana_env \<Rightarrow> pana_session \<Rightarrow> pana_session pana_out" where
  "RxPEA env = rx_Dequeue (\<lambda>m w.
     POk (session_Disconnect env 0 (pana_Cancel env TID_RETRY w)))"

definition IsFatalError :: "pana_session \<Rightarrow> bool" where
  "IsFatalError w = True"

section \<open>Validation\<close>

text \<open>
  The sequence number first.  A request that repeats the number of the last one is answered
  from the cache and then refused; the first request of all sets the number at once, any
  other one only after the checks that follow.
\<close>

definition RxValidateSeq :: "pana_msg \<Rightarrow> pana_session \<Rightarrow> pana_session pana_out" where
  "RxValidateSeq m w =
     (if pm_request m then
        (if ps_LastRxSeqNum w = 0 then POk (w\<lparr>ps_LastRxSeqNum := pm_seq m\<rparr>)
         else if ps_LastRxSeqNum w = pm_seq m then
           (case ps_CachedAnsMsg w of
              None \<Rightarrow> PUndef
            | Some c \<Rightarrow>
                if pm_type m = pm_type c then PExn INVALID_MESSAGE (TxLastAnsMsg c w)
                else PExn INVALID_MESSAGE w)
         else if pm_seq m \<noteq> ps_LastRxSeqNum w + 1 then PExn INVALID_MESSAGE w
         else POk w)
      else if pm_seq m \<noteq> ps_LastTxSeqNum w then PExn INVALID_MESSAGE w
      else POk w)"

text \<open>An AUTH AVP is checked if the message has one and there is a key.\<close>

definition auth_refused :: "pana_env \<Rightarrow> bool \<Rightarrow> pana_msg \<Rightarrow> pana_session \<Rightarrow> bool" where
  "auth_refused env skipAuth m w \<longleftrightarrow>
     \<not> skipAuth \<and> pana_GetAvp as_auth (pm_avps m) \<noteq> None \<and> sv_set (sa_Auth (ps_SA w))
     \<and> \<not> ValidateAuthAvp env (ps_SA w) m"

definition RxValidateMsg :: "pana_env \<Rightarrow> bool \<Rightarrow> pana_msg \<Rightarrow> pana_session
    \<Rightarrow> pana_session pana_out" where
  "RxValidateMsg env skipAuth m w =
     (let doUpdate = (ps_LastRxSeqNum w \<noteq> 0)
      in and_then (RxValidateSeq m w) (\<lambda>w1.
           if auth_refused env skipAuth m w1 then PExn INVALID_MESSAGE w1
           else if pm_type m \<noteq> PANA_MTYPE_PCI \<and> pm_sessionId m \<noteq> ps_SessionId w1
             then PExn INVALID_MESSAGE w1
           else POk (if pm_request m \<and> doUpdate
                     then w1\<lparr>ps_LastRxSeqNum := serial_inc (ps_LastRxSeqNum w1)\<rparr> else w1)))"

section \<open>The state machine base class\<close>

definition pana_Notify :: "int \<Rightarrow> pana_session \<Rightarrow> pana_session" where
  "pana_Notify ev w = (if ps_running w then w\<lparr>ps_events := ps_events w @ [ev]\<rparr> else w)"

definition pana_Receive :: "pana_msg \<Rightarrow> pana_session \<Rightarrow> pana_session" where
  "pana_Receive m w = w\<lparr>ps_received := ps_received w @ [m]\<rparr>"

text \<open>
  A job of the session serves one received message and one event.  What the handler of
  the message throws is caught with the message (an unhandled type is only logged); what an
  action throws is answered by \<open>Stop\<close>, which both classes override to queue a
  termination event.
\<close>

definition handler_Receive :: "(pana_msg \<Rightarrow> pana_session \<Rightarrow> pana_session pana_out)
    \<Rightarrow> pana_msg \<Rightarrow> pana_session \<Rightarrow> pana_session pana_out" where
  "handler_Receive h m w = (case h m w of PExn c w1 \<Rightarrow> POk w1 | r \<Rightarrow> r)"

definition pana_Serve :: "(pana_msg \<Rightarrow> pana_session \<Rightarrow> pana_session pana_out)
    \<Rightarrow> (int \<Rightarrow> pana_session \<Rightarrow> pana_session pana_out)
    \<Rightarrow> (pana_session \<Rightarrow> pana_session) \<Rightarrow> pana_session \<Rightarrow> pana_session pana_out" where
  "pana_Serve handle served stop w =
     and_then
       (case ps_received w of
          [] \<Rightarrow> POk w
        | m # q \<Rightarrow> handler_Receive handle m (w\<lparr>ps_received := q\<rparr>))
       (\<lambda>w1. case ps_events w1 of
          [] \<Rightarrow> POk w1
        | ev # q \<Rightarrow>
            (case served ev (w1\<lparr>ps_events := q\<rparr>) of
               PExn c w2 \<Rightarrow> POk (stop w2)
             | r \<Rightarrow> r))"

text \<open>\<open>Stop\<close> of the base class, which the destructors of the sessions call.\<close>

definition machine_Stop :: "pana_session \<Rightarrow> pana_session" where
  "machine_Stop w = w\<lparr>ps_running := False, ps_timers := CancelAllTimer (ps_timers w)\<rparr>"

text \<open>\<open>AAA_StateMachine::Event\<close> for actions that may throw: the state moves first.\<close>

definition pana_event :: "(pana_st, int, 'a) state_table
    \<Rightarrow> ('a \<Rightarrow> pana_session \<Rightarrow> pana_session pana_out)
    \<Rightarrow> int \<Rightarrow> pana_session \<Rightarrow> pana_session pana_out" where
  "pana_event tbl act ev w =
     (case sm_dispatch tbl (ps_running w) (ps_state w) ev of
        Fire s' a \<Rightarrow> act a (w\<lparr>ps_state := s'\<rparr>)
      | _ \<Rightarrow> POk w)"

section \<open>Construction\<close>

text \<open>
  The members are constructed, which draws a number for each of the two serial numbers and
  takes an MSK number, and the constructor of the session attributes resets them.
\<close>

definition session_new :: "pana_env \<Rightarrow> pana_role \<Rightarrow> pana_session" where
  "session_new env r =
     \<lparr>ps_role = r, ps_SessionId = 0, ps_PacAddress = no_addr, ps_PaaAddress = no_addr,
      ps_LastTxSeqNum = pe_rand env 2, ps_LastRxSeqNum = 0, ps_LastTxReqMsg = None,
      ps_CachedAnsMsg = None, ps_SessionLifetime = cfg_SessionLifetime env,
      ps_LastRxHeader = pana_hdr_new, ps_Authorized = False, ps_AlgorithmIsSet = False,
      ps_RxMsgQueue = [], ps_TxEapMessageQueue = [],
      ps_SA = \<lparr>sa_Auth = scholar_new, sa_PacNonce = scholar_new, sa_PaaNonce = scholar_new,
               sa_MSK = scholar_new, sa_MskId = 1\<rparr>,
      ps_GlobalId = 1, ps_Timeout = 0, ps_Duration = 0, ps_Count = 0, ps_running = False,
      ps_state = ST_OFFLINE, ps_timers = Map.empty, ps_events = [], ps_received = [],
      ps_sent = [], ps_calls = [], ps_draws = 3, ps_app_key = None,
      ps_app_authorized = False\<rparr>"

section \<open>Steps of a session\<close>

text \<open>
  What may happen to a session object: its jobs run, a datagram has been parsed, a
  timer fires, the application changes its answers, or one of the calls of its public
  interface is made.
\<close>

definition fire_timer :: "int \<Rightarrow> pana_session \<Rightarrow> pana_session" where
  "fire_timer type w =
     (case ps_timers w type of
        None \<Rightarrow> w
      | Some (ev, sec) \<Rightarrow> pana_Notify ev w)"

end
