(* ===== verification/Pana_Client.thy ===== *)
theory Pana_Client
  imports Pana_Session
begin

text \<open>
  The PANA client: the operations of \<open>PANA_Client\<close> (\<open>pana_client.cxx\<close>), the state table and
  its actions, the message handlers and the public calls of \<open>PANA_PacSession\<close>
  (\<open>pana_client_fsm.h\<close>, \<open>pana_client_fsm.cxx\<close>).
\<close>

section \<open>Notifications\<close>

definition pac_NotifyEapRestart :: "pana_env \<Rightarrow> pana_session \<Rightarrow> pana_session" where
  "pac_NotifyEapRestart env w = sa_Reset (app_call CallEapStart (pana_Cancel env TID_SESSION w))"

definition pac_NotifyAuthorization :: "pana_session \<Rightarrow> pana_session" where
  "pac_NotifyAuthorization w =
     (app_call (CallAuthorize
        \<lparr>aa_PacAddress = ps_PacAddress w, aa_PaaAddress = ps_PaaAddress w,
         aa_Key = (if sv_set (sa_MSK (ps_SA w)) then Some (sv_value (sa_MSK (ps_SA w))) else None),
         aa_Lifetime = ps_SessionLifetime w\<rparr>) w)\<lparr>ps_Authorized := True\<rparr>"

definition pac_NotifyEapRequest :: "pana_octets \<Rightarrow> pana_session \<Rightarrow> pana_session" where
  "pac_NotifyEapRequest payload w = app_call (CallEapRequest payload) w"

section \<open>Messages\<close>

definition eap_Dequeue :: "(pana_octets \<Rightarrow> pana_session \<Rightarrow> pana_session pana_out)
    \<Rightarrow> pana_session \<Rightarrow> pana_session pana_out" where
  "eap_Dequeue f w =
     (case ps_TxEapMessageQueue w of
        [] \<Rightarrow> PUndef
      | p # q \<Rightarrow> f p (w\<lparr>ps_TxEapMessageQueue := q\<rparr>))"

definition pac_TxPSA :: "bool \<Rightarrow> pana_session \<Rightarrow> pana_session pana_out" where
  "pac_TxPSA eapOptimization w =
     (if eapOptimization then
        eap_Dequeue (\<lambda>p w. POk (SendAnsMsg (pana_answer PANA_MTYPE_PSR [AVP_Eap p] w) w)) w
      else POk (SendAnsMsg (pana_answer PANA_MTYPE_PSR [] w) w))"

definition pac_RxPSR :: "pana_env \<Rightarrow> pana_session \<Rightarrow> pana_session pana_out" where
  "pac_RxPSR env = rx_Dequeue (\<lambda>m w.
     let w1 = pac_NotifyEapRestart env (pana_Cancel env TID_RETRY w)
     in case pana_GetAvp as_eap (pm_avps m) of
          Some p \<Rightarrow> POk (ScheduleEapResponse env (pac_NotifyEapRequest p w1))
        | None \<Rightarrow> pac_TxPSA False w1)"

text \<open>The number of the session is cleared, that of the message is zero anyway.\<close>

definition pac_TxPCI :: "pana_env \<Rightarrow> pana_session \<Rightarrow> pana_session" where
  "pac_TxPCI env w =
     SendReqMsg env True (pana_msg_new\<lparr>pm_type := PANA_MTYPE_PCI, pm_seq := 0\<rparr>)
       (w\<lparr>ps_SessionId := 0\<rparr>)"

text \<open>The nonce is generated once and sent with the message that generates it.\<close>

definition pac_nonce :: "pana_env \<Rightarrow> pana_session \<Rightarrow> pana_avp list \<times> pana_session" where
  "pac_nonce env w =
     (if sv_set (sa_PacNonce (ps_SA w)) then ([], w)
      else case nonce_Generate env w of (n, w1) \<Rightarrow>
        ([AVP_Nonce n], w1\<lparr>ps_SA := (ps_SA w1)\<lparr>sa_PacNonce := scholar_Set n\<rparr>\<rparr>))"

definition pac_TxPAN :: "pana_env \<Rightarrow> bool \<Rightarrow> pana_session \<Rightarrow> pana_session pana_out" where
  "pac_TxPAN env eapPiggyBack w =
     (case pac_nonce env w of (nonce, w1) \<Rightarrow>
        if eapPiggyBack then
          eap_Dequeue (\<lambda>p w2. POk (SendAnsMsg
              (add_auth_if_set env w2 (pana_answer PANA_MTYPE_PAR (nonce @ [AVP_Eap p]) w2)) w2))
            (pana_Cancel env TID_EAP_RESP w1)
        else POk (SendAnsMsg (add_auth_if_set env w1 (pana_answer PANA_MTYPE_PAR nonce w1)) w1))"

definition pac_RxPAR :: "pana_env \<Rightarrow> pana_session \<Rightarrow> pana_session pana_out" where
  "pac_RxPAR env = rx_Dequeue (\<lambda>m w.
     let w1 = pana_Cancel env TID_RETRY w;
         w2 = (case pana_GetAvp as_nonce (pm_avps m) of
                 Some n \<Rightarrow> if sv_set (sa_PaaNonce (ps_SA w1)) then w1
                           else w1\<lparr>ps_SA := (ps_SA w1)\<lparr>sa_PaaNonce := scholar_Set n\<rparr>\<rparr>
               | None \<Rightarrow> w1)
     in and_then (if cfg_EapPiggyback env then POk w2 else pac_TxPAN env False w2)
          (\<lambda>w3. case pana_GetAvp as_eap (pm_avps m) of
             Some p \<Rightarrow> POk (ScheduleEapResponse env (pac_NotifyEapRequest p w3))
           | None \<Rightarrow> PExn FAILED w3))"

definition pac_RxPAN :: "pana_env \<Rightarrow> pana_session \<Rightarrow> pana_session pana_out" where
  "pac_RxPAN env = rx_Dequeue (\<lambda>m w.
     POk (pana_Cancel env TID_SESSION (pana_Cancel env TID_RETRY w)))"

definition pac_TxPAR :: "pana_env \<Rightarrow> pana_session \<Rightarrow> pana_session pana_out" where
  "pac_TxPAR env w =
     eap_Dequeue (\<lambda>p w1. POk (SendReqMsg env True
         (add_auth_if_set env w1 (pana_request PANA_MTYPE_PAR [AVP_Eap p] w1)) w1))
       (pana_Cancel env TID_EAP_RESP (next_TxSeq w))"

definition pac_RxPBR :: "pana_env \<Rightarrow> pana_session \<Rightarrow> pana_session pana_out" where
  "pac_RxPBR env = rx_Dequeue (\<lambda>m w.
     case pana_GetAvp as_resultcode (pm_avps m) of
       None \<Rightarrow> PExn FAILED w
     | Some rcode \<Rightarrow>
         (let w1 = (case pana_GetAvp as_lifetime (pm_avps m) of
                      Some sl \<Rightarrow> w\<lparr>ps_SessionLifetime := sl\<rparr> | None \<Rightarrow> w);
              w2 = (case pana_GetAvp as_keyid (pm_avps m) of
                      Some k \<Rightarrow> w1\<lparr>ps_SA := (ps_SA w1)\<lparr>sa_MskId := k\<rparr>\<rparr> | None \<Rightarrow> w1)
          in case pana_GetAvp as_eap (pm_avps m) of
               Some p \<Rightarrow> POk (pac_NotifyEapRequest p w2)
             | None \<Rightarrow>
                 if rcode \<noteq> PANA_RCODE_SUCCESS
                 then POk (session_Error env rcode (app_call CallEapAltReject w2))
                 else PExn FAILED w2))"

definition pac_new_key :: "pana_env \<Rightarrow> pana_session \<Rightarrow> pana_session" where
  "pac_new_key env w =
     (case ps_app_key w of
        None \<Rightarrow> w
      | Some k \<Rightarrow>
          w\<lparr>ps_SA := GenerateAuthKey env ((ps_SA w)\<lparr>sa_MSK := scholar_Set k\<rparr>) (ps_SessionId w)\<rparr>)"

text \<open>The answer is signed if there is an MSK, whether or not the key made of it is set.\<close>

definition pac_TxPBA :: "pana_env \<Rightarrow> bool \<Rightarrow> pana_session \<Rightarrow> pana_session" where
  "pac_TxPBA env authSuccess w =
     (let w1 = (if authSuccess then pac_new_key env w else w);
          sa = ps_SA w1;
          m = pana_answer PANA_MTYPE_PBR [] w1;
          m1 = (if sa_MskId sa \<noteq> 0 then AddKeyIdAvp sa m else m)
      in SendAnsMsg (if sv_set (sa_MSK sa) then AddAuthAvp env sa m1 else m) w1)"

definition pac_TxPRR :: "pana_env \<Rightarrow> pana_session \<Rightarrow> pana_session" where
  "pac_TxPRR env w =
     (let w1 = next_TxSeq w
      in SendReqMsg env True (add_auth_if_set env w1 (pana_request PANA_MTYPE_PRR [] w1)) w1)"

definition pac_RxPRA :: "pana_env \<Rightarrow> pana_session \<Rightarrow> pana_session pana_out" where
  "pac_RxPRA env = rx_Dequeue (\<lambda>m w.
     POk (pac_NotifyEapRestart env (pana_Cancel env TID_RETRY w)))"

section \<open>Actions and state table\<close>

datatype pac_action =
    AcNull | AcRxPSR | AcTxPCI | AcTxPSA | AcRxPAR | AcRxPAN | AcRxPBR | AcTxPAN | AcTxPAR
  | AcTxPANTout | AcEapOpen | AcSuccessClose | AcFailClose | AcRxPPR | AcTxPPR | AcOpenRxPAR
  | AcRxPTR | AcTxPTR | AcTxPUR | AcRxPUR | AcTxPRR | AcRxPRA | AcRxPPA | AcRxPUA | AcRxPTA
  | AcTimeout | AcRetransmission | AcTxPEA | AcTxPER | AcRxPEA

definition pac_Retransmission :: "pana_env \<Rightarrow> pana_session \<Rightarrow> pana_session pana_out" where
  "pac_Retransmission env w =
     (case TxLastReqMsg env w of
        None \<Rightarrow> PUndef
      | Some (sent, w1) \<Rightarrow> POk (if sent then w1 else pana_Notify (pac_Get pac_RetryTimeout) w1))"

definition pac_TxPANTout :: "pana_env \<Rightarrow> pana_session \<Rightarrow> pana_session pana_out" where
  "pac_TxPANTout env w =
     and_then (if cfg_EapPiggyback env then pac_TxPAN env False w else POk w)
       (\<lambda>w1. POk (pana_Cancel env TID_EAP_RESP w1))"

definition pac_EapOpen :: "pana_env \<Rightarrow> pana_session \<Rightarrow> pana_session" where
  "pac_EapOpen env w = NotifyScheduleLifetime env (pac_NotifyAuthorization (pac_TxPBA env True w))"

fun pac_act :: "pana_env \<Rightarrow> pac_action \<Rightarrow> pana_session \<Rightarrow> pana_session pana_out" where
  "pac_act env AcNull w = POk w"
| "pac_act env AcRxPSR w = pac_RxPSR env w"
| "pac_act env AcTxPCI w = POk (pac_TxPCI env w)"
| "pac_act env AcTxPSA w = pac_TxPSA True w"
| "pac_act env AcRxPAR w = pac_RxPAR env w"
| "pac_act env AcRxPAN w = pac_RxPAN env w"
| "pac_act env AcRxPBR w = pac_RxPBR env w"
| "pac_act env AcTxPAN w = pac_TxPAN env True w"
| "pac_act env AcTxPAR w = pac_TxPAR env w"
| "pac_act env AcTxPANTout w = pac_TxPANTout env w"
| "pac_act env AcEapOpen w = POk (pac_EapOpen env w)"
| "pac_act env AcSuccessClose w = POk (session_Disconnect env 0 (pac_TxPBA env True w))"
| "pac_act env AcFailClose w = POk (session_Disconnect env 0 (pac_TxPBA env False w))"
| "pac_act env AcRxPPR w = RxPPR env w"
| "pac_act env AcTxPPR w = POk (TxPPR env w)"
| "pac_act env AcOpenRxPAR w = pac_RxPAR env (pac_NotifyEapRestart env w)"
| "pac_act env AcRxPTR w = RxPTR env w"
| "pac_act env AcTxPTR w = POk (TxPTR env PANA_TERMCAUSE_LOGOUT w)"
| "pac_act env AcTxPUR w = POk (TxPUR env w)"
| "pac_act env AcRxPUR w = RxPUR env w"
| "pac_act env AcTxPRR w = POk (pac_TxPRR env w)"
| "pac_act env AcRxPRA w = pac_RxPRA env w"
| "pac_act env AcRxPPA w = RxPPA env w"
| "pac_act env AcRxPUA w = RxPUA env w"
| "pac_act env AcRxPTA w = RxPTA env w"
| "pac_act env AcTimeout w = POk (session_Disconnect env PANA_TERMCAUSE_SESSION_TIMEOUT w)"
| "pac_act env AcRetransmission w = pac_Retransmission env w"
| "pac_act env AcTxPEA w = POk (TxPEA w)"
| "pac_act env AcTxPER w = POk (TxPER env PANA_ERROR_UNABLE_TO_COMPLY w)"
| "pac_act env AcRxPEA w = RxPEA env w"

text \<open>The constructor of the table, state by state; the wildcard entries are compiled in.\<close>

definition pac_table_OFFLINE :: "(pana_st, int, pac_action) table_cmd list" where
  "pac_table_OFFLINE =
    [Add ST_OFFLINE (pac_Get (pac_App APP_AUTH_USER)) ST_OFFLINE AcTxPCI,
     Add ST_OFFLINE (pac_Get (pac_MsgType MT_PSR)) ST_WAIT_PAA AcRxPSR,
     Add ST_OFFLINE (pac_Get (pac_EapPayload (pac_MsgType MT_PSR))) ST_OFFLINE AcRxPSR,
     Add ST_OFFLINE (pac_Get (pac_Eap EAP_EV_RESPONSE)) ST_WAIT_PAA AcTxPSA,
     Add ST_OFFLINE (pac_Get (pac_piggyback (pac_Eap EAP_EV_RESPONSE))) ST_WAIT_PAA AcTxPSA,
     Add ST_OFFLINE (pac_Get (pac_Eap EAP_EV_INVALID_MSG)) ST_OFFLINE AcNull,
     Add ST_OFFLINE (pac_Get (pac_Eap EAP_EV_RESP_TIMEOUT)) ST_OFFLINE AcTimeout,
     Add ST_OFFLINE (pac_Get (pac_piggyback (pac_Eap EAP_EV_RESP_TIMEOUT))) ST_OFFLINE AcTimeout,
     Add ST_OFFLINE (pac_Get pac_ReTransmission) ST_OFFLINE AcRetransmission,
     Add ST_OFFLINE (pac_Get pac_RetryTimeout) ST_CLOSED AcTimeout,
     Add ST_OFFLINE (pac_Get (pac_FatalError (pac_MsgType MT_PER))) ST_CLOSED AcTxPEA,
     Add ST_OFFLINE (pac_Get (pac_MsgType MT_PER)) ST_OFFLINE AcTxPEA,
     AddWildcard ST_OFFLINE ST_OFFLINE AcNull]"

definition pac_table_WAIT_PAA :: "(pana_st, int, pac_action) table_cmd list" where
  "pac_table_WAIT_PAA =
    [Add ST_WAIT_PAA (pac_Get (pac_MsgType MT_PAR)) ST_WAIT_EAP_MSG AcRxPAR,
     Add ST_WAIT_PAA (pac_Get (pac_piggyback (pac_MsgType MT_PAR))) ST_WAIT_EAP_MSG AcRxPAR,
     Add ST_WAIT_PAA (pac_Get (pac_MsgType MT_PAN)) ST_WAIT_PAA AcRxPAN,
     Add ST_WAIT_PAA (pac_Get (pac_ResultCode RESULT_CODE_SUCCESS (pac_EapPayload (pac_MsgType MT_PBR))))
        ST_WAIT_EAP_RESULT AcRxPBR,
     Add ST_WAIT_PAA (pac_Get (pac_ResultCode RESULT_CODE_SUCCESS (pac_Algorithm (pac_EapPayload (pac_MsgType MT_PBR)))))
        ST_WAIT_EAP_RESULT_CLOSE AcRxPBR,
     Add ST_WAIT_PAA (pac_Get (pac_EapPayload (pac_ResultCode RESULT_CODE_FAIL (pac_MsgType MT_PBR))))
        ST_WAIT_EAP_RESULT_CLOSE AcRxPBR,
     Add ST_WAIT_PAA (pac_Get (pac_ResultCode RESULT_CODE_FAIL (pac_MsgType MT_PBR)))
        ST_WAIT_EAP_RESULT_CLOSE AcRxPBR,
     Add ST_WAIT_PAA (pac_Get pac_ReTransmission) ST_WAIT_PAA AcRetransmission,
     Add ST_WAIT_PAA (pac_Get pac_RetryTimeout) ST_CLOSED AcTimeout,
     Add ST_WAIT_PAA (pac_Get (pac_FatalError (pac_MsgType MT_PER))) ST_CLOSED AcTxPEA,
     Add ST_WAIT_PAA (pac_Get (pac_MsgType MT_PER)) ST_WAIT_PAA AcTxPEA,
     AddWildcard ST_WAIT_PAA ST_WAIT_PAA AcNull]"

definition pac_table_WAIT_EAP_MSG :: "(pana_st, int, pac_action) table_cmd list" where
  "pac_table_WAIT_EAP_MSG =
    [Add ST_WAIT_EAP_MSG (pac_Get (pac_piggyback (pac_Eap EAP_EV_RESPONSE))) ST_WAIT_PAA AcTxPAN,
     Add ST_WAIT_EAP_MSG (pac_Get (pac_Eap EAP_EV_RESPONSE)) ST_WAIT_PAA AcTxPAR,
     Add ST_WAIT_EAP_MSG (pac_Get (pac_piggyback (pac_Eap EAP_EV_RESP_TIMEOUT)))
        ST_WAIT_PAA AcTxPANTout,
     Add ST_WAIT_EAP_MSG (pac_Get (pac_Eap EAP_EV_RESP_TIMEOUT)) ST_WAIT_EAP_MSG AcNull,
     Add ST_WAIT_EAP_MSG (pac_Get (pac_Eap EAP_EV_INVALID_MSG)) ST_WAIT_PEA AcTxPER,
     Add ST_WAIT_EAP_MSG (pac_Get (pac_Eap EAP_EV_SUCCESS)) ST_WAIT_PEA AcTxPER,
     Add ST_WAIT_EAP_MSG (pac_Get (pac_Eap EAP_EV_FAILURE)) ST_WAIT_PEA AcTxPER,
     Add ST_WAIT_EAP_MSG (pac_Get (pac_FatalError (pac_MsgType MT_PER))) ST_CLOSED AcTxPEA,
     Add ST_WAIT_EAP_MSG (pac_Get (pac_MsgType MT_PER)) ST_WAIT_EAP_MSG AcTxPEA,
     AddWildcard ST_WAIT_EAP_MSG ST_WAIT_EAP_MSG AcNull]"

definition pac_table_WAIT_EAP_RESULT :: "(pana_st, int, pac_action) table_cmd list" where
  "pac_table_WAIT_EAP_RESULT =
    [Add ST_WAIT_EAP_RESULT (pac_Get (pac_KeyId (pac_Eap EAP_EV_SUCCESS))) ST_OPEN AcEapOpen,
     Add ST_WAIT_EAP_RESULT (pac_Get (pac_Eap EAP_EV_SUCCESS)) ST_OPEN AcEapOpen,
     Add ST_WAIT_EAP_RESULT (pac_Get (pac_Eap EAP_EV_FAILURE)) ST_CLOSED AcFailClose,
     Add ST_WAIT_EAP_RESULT (pac_Get (pac_Eap EAP_EV_INVALID_MSG)) ST_WAIT_PAA AcNull,
     AddWildcard ST_WAIT_EAP_RESULT ST_WAIT_EAP_RESULT AcNull]"

definition pac_table_WAIT_EAP_RESULT_CLOSE :: "(pana_st, int, pac_action) table_cmd list" where
  "pac_table_WAIT_EAP_RESULT_CLOSE =
    [Add ST_WAIT_EAP_RESULT_CLOSE (pac_Get (pac_KeyId (pac_Eap EAP_EV_SUCCESS)))
        ST_CLOSED AcSuccessClose,
     Add ST_WAIT_EAP_RESULT_CLOSE (pac_Get (pac_Eap EAP_EV_SUCCESS)) ST_CLOSED AcSuccessClose,
     Add ST_WAIT_EAP_RESULT_CLOSE (pac_Get (pac_Eap EAP_EV_FAILURE)) ST_CLOSED AcFailClose,
     Add ST_WAIT_EAP_RESULT_CLOSE (pac_Get (pac_Eap EAP_EV_INVALID_MSG)) ST_WAIT_PAA AcNull,
     AddWildcard ST_WAIT_EAP_RESULT_CLOSE ST_WAIT_EAP_RESULT_CLOSE AcNull]"

definition pac_table_OPEN :: "(pana_st, int, pac_action) table_cmd list" where
  "pac_table_OPEN =
    [Add ST_OPEN (pac_Get (pac_MsgType MT_PPR)) ST_OPEN AcRxPPR,
     Add ST_OPEN (pac_Get (pac_App APP_PING)) ST_WAIT_PPA AcTxPPR,
     Add ST_OPEN (pac_Get (pac_App APP_REAUTH)) ST_WAIT_PRA AcTxPRR,
     Add ST_OPEN (pac_Get (pac_MsgType MT_PAR)) ST_WAIT_EAP_MSG AcOpenRxPAR,
     Add ST_OPEN (pac_Get (pac_piggyback (pac_MsgType MT_PAR))) ST_WAIT_EAP_MSG AcOpenRxPAR,
     Add ST_OPEN (pac_Get (pac_MsgType MT_PTR)) ST_CLOSED AcRxPTR,
     Add ST_OPEN (pac_Get (pac_App APP_TERMINATE)) ST_SESS_TERM AcTxPTR,
     Add ST_OPEN (pac_Get (pac_App APP_UPDATE)) ST_WAIT_PUA AcTxPUR,
     Add ST_OPEN (pac_Get (pac_MsgType MT_PUR)) ST_OPEN AcRxPUR,
     Add ST_OPEN (pac_Get pac_SessTimeout) ST_CLOSED AcTimeout,
     Add ST_OPEN (pac_Get (pac_FatalError (pac_MsgType MT_PER))) ST_CLOSED AcTxPEA,
     Add ST_OPEN (pac_Get (pac_MsgType MT_PER)) ST_OPEN AcTxPEA,
     AddWildcard ST_OPEN ST_OPEN AcNull]"

definition pac_table_WAIT_PRA :: "(pana_st, int, pac_action) table_cmd list" where
  "pac_table_WAIT_PRA =
    [Add ST_WAIT_PRA (pac_Get (pac_MsgType MT_PRA)) ST_WAIT_PAA AcRxPRA,
     Add ST_WAIT_PRA (pac_Get pac_SessTimeout) ST_CLOSED AcTimeout,
     Add ST_WAIT_PRA (pac_Get pac_ReTransmission) ST_WAIT_PRA AcRetransmission,
     Add ST_WAIT_PRA (pac_Get pac_RetryTimeout) ST_CLOSED AcRetransmission,
     Add ST_WAIT_PRA (pac_Get (pac_FatalError (pac_MsgType MT_PER))) ST_CLOSED AcTxPEA,
     Add ST_WAIT_PRA (pac_Get (pac_MsgType MT_PER)) ST_WAIT_PRA AcTxPEA,
     AddWildcard ST_WAIT_PRA ST_WAIT_PRA AcNull]"

definition pac_table_WAIT_PPA :: "(pana_st, int, pac_action) table_cmd list" where
  "pac_table_WAIT_PPA =
    [Add ST_WAIT_PPA (pac_Get (pac_MsgType MT_PPA)) ST_OPEN AcRxPPA,
     Add ST_WAIT_PPA (pac_Get pac_SessTimeout) ST_CLOSED AcTimeout,
     Add ST_WAIT_PPA (pac_Get pac_RetryTimeout) ST_CLOSED AcTimeout,
     Add ST_WAIT_PPA (pac_Get pac_ReTransmission) ST_WAIT_PPA AcRetransmission,
     Add ST_WAIT_PPA (pac_Get (pac_FatalError (pac_MsgType MT_PER))) ST_CLOSED AcTxPEA,
     Add ST_WAIT_PPA (pac_Get (pac_MsgType MT_PER)) ST_WAIT_PPA AcTxPEA,
     AddWildcard ST_WAIT_PPA ST_WAIT_PPA AcNull]"

definition pac_table_WAIT_PUA :: "(pana_st, int, pac_action) table_cmd list" where
  "pac_table_WAIT_PUA =
    [Add ST_WAIT_PUA (pac_Get (pac_MsgType MT_PUA)) ST_OPEN AcRxPUA,
     Add ST_WAIT_PUA (pac_Get pac_SessTimeout) ST_CLOSED AcTimeout,
     Add ST_WAIT_PUA (pac_Get pac_RetryTimeout) ST_CLOSED AcTimeout,
     Add ST_WAIT_PUA (pac_Get pac_ReTransmission) ST_WAIT_PUA AcRetransmission,
     Add ST_WAIT_PUA (pac_Get (pac_FatalError (pac_MsgType MT_PER))) ST_CLOSED AcTxPEA,
     Add ST_WAIT_PUA (pac_Get (pac_MsgType MT_PER)) ST_WAIT_PUA AcTxPEA,
     AddWildcard ST_WAIT_PUA ST_WAIT_PUA AcNull]"

definition pac_table_SESS_TERM :: "(pana_st, int, pac_action) table_cmd list" where
  "pac_table_SESS_TERM =
    [Add ST_SESS_TERM (pac_Get (pac_MsgType MT_PTA)) ST_CLOSED AcRxPTA,
     Add ST_SESS_TERM (pac_Get pac_SessTimeout) ST_CLOSED AcTimeout,
     Add ST_SESS_TERM (pac_Get pac_RetryTimeout) ST_CLOSED AcTimeout,
     Add ST_SESS_TERM (pac_Get pac_ReTransmission) ST_SESS_TERM AcRetransmission,
     Add ST_SESS_TERM (pac_Get (pac_FatalError (pac_MsgType MT_PER))) ST_CLOSED AcTxPEA,
     Add ST_SESS_TERM (pac_Get (pac_MsgType MT_PER)) ST_SESS_TERM AcTxPEA,
     AddWildcard ST_SESS_TERM ST_SESS_TERM AcNull]"

definition pac_table_WAIT_PEA :: "(pana_st, int, pac_action) table_cmd list" where
  "pac_table_WAIT_PEA =
    [Add ST_WAIT_PEA (pac_Get (pac_MsgType MT_PEA)) ST_CLOSED AcRxPEA,
     Add ST_WAIT_PEA (pac_Get pac_SessTimeout) ST_CLOSED AcTimeout,
     Add ST_WAIT_PEA (pac_Get pac_RetryTimeout) ST_CLOSED AcTimeout,
     Add ST_WAIT_PEA (pac_Get pac_ReTransmission) ST_WAIT_PEA AcRetransmission,
     AddWildcard ST_WAIT_PEA ST_WAIT_PEA AcNull]"

definition pac_table_CLOSED :: "(pana_st, int, pac_action) table_cmd list" where
  "pac_table_CLOSED =
    [AddWildcard ST_CLOSED ST_CLOSED AcNull]"

definition pac_script :: "(pana_st, int, pac_action) table_cmd list" where
  "pac_script =
     pac_table_OFFLINE
     @ pac_table_WAIT_PAA
     @ pac_table_WAIT_EAP_MSG
     @ pac_table_WAIT_EAP_RESULT
     @ pac_table_WAIT_EAP_RESULT_CLOSE
     @ pac_table_OPEN
     @ pac_table_WAIT_PRA
     @ pac_table_WAIT_PPA
     @ pac_table_WAIT_PUA
     @ pac_table_SESS_TERM
     @ pac_table_WAIT_PEA
     @ pac_table_CLOSED @ [Init ST_OFFLINE]"


definition pac_table :: "(pana_st, int, pac_action) state_table" where
  "pac_table = (case build_table pac_script of Inr t \<Rightarrow> t | Inl _ \<Rightarrow> empty_table)"

definition pac_event :: "pana_env \<Rightarrow> int \<Rightarrow> pana_session \<Rightarrow> pana_session pana_out" where
  "pac_event env = pana_event pac_table (pac_act env)"

section \<open>Handlers of received messages\<close>

text \<open>The states in which a handler accepts a message; elsewhere the message is deleted.\<close>

definition pac_states :: "u16 \<Rightarrow> pana_st list" where
  "pac_states t =
     (if t = PANA_MTYPE_PSR then [ST_OFFLINE]
      else if t = PANA_MTYPE_PAR then [ST_WAIT_PAA, ST_OPEN]
      else if t = PANA_MTYPE_PBR then [ST_WAIT_PAA]
      else if t = PANA_MTYPE_PPR then [ST_WAIT_PPA, ST_OPEN]
      else if t = PANA_MTYPE_PUR then [ST_OPEN, ST_WAIT_PUA]
      else if t = PANA_MTYPE_PTR then [ST_OPEN, ST_SESS_TERM]
      else if t = PANA_MTYPE_PRR then [ST_WAIT_PRA]
      else if t = PANA_MTYPE_PER then
        [ST_WAIT_PAA, ST_OPEN, ST_WAIT_EAP_MSG, ST_WAIT_PRA, ST_WAIT_PPA, ST_SESS_TERM,
         ST_WAIT_PUA]
      else [])"

definition save_paa :: "pana_msg \<Rightarrow> pana_session \<Rightarrow> pana_session" where
  "save_paa m w = w\<lparr>ps_PaaAddress := pm_src m, ps_LastRxHeader := pana_hdr.truncate m\<rparr>"

definition rx_accept :: "int \<Rightarrow> pana_msg \<Rightarrow> pana_session \<Rightarrow> pana_session" where
  "rx_accept ev m w = pana_Notify ev (w\<lparr>ps_RxMsgQueue := ps_RxMsgQueue w @ [m]\<rparr>)"

definition PANA_AUTH_ALGORITHM :: u32 where
  "PANA_AUTH_ALGORITHM = 0x20007"

definition algo_unsupported :: "pana_msg \<Rightarrow> bool" where
  "algo_unsupported m =
     (case pana_GetAvp as_algorithm (pm_avps m) of
        None \<Rightarrow> False | Some a \<Rightarrow> a \<noteq> PANA_AUTH_ALGORITHM)"

definition pac_CsmRxPSR :: "pana_env \<Rightarrow> pana_msg \<Rightarrow> pana_session \<Rightarrow> pana_session pana_out" where
  "pac_CsmRxPSR env m w =
     (if \<not> pm_request m then PExn INVALID_MESSAGE w
      else and_then (RxValidateMsg env False m (w\<lparr>ps_SessionId := pm_sessionId m\<rparr>)) (\<lambda>w1.
        let w2 = save_paa m w1;
            ev = pac_MsgType MT_PSR
        in if algo_unsupported m then PExn FAILED w2
           else POk (rx_accept
             (pac_Get (if pana_GetAvp as_eap (pm_avps m) \<noteq> None then pac_EapPayload ev else ev)) m w2)))"

definition pac_CsmRxPA :: "pana_env \<Rightarrow> pana_msg \<Rightarrow> pana_session \<Rightarrow> pana_session pana_out" where
  "pac_CsmRxPA env m w =
     and_then (RxValidateMsg env False m w) (\<lambda>w1.
       POk (rx_accept
         (pac_Get (if pm_request m then
                     (if cfg_EapPiggyback env then pac_piggyback (pac_MsgType MT_PAR)
                      else pac_MsgType MT_PAR)
                   else pac_MsgType MT_PAN)) m (save_paa m w1)))"

definition pac_PBR_event :: "pana_msg \<Rightarrow> pac_ev" where
  "pac_PBR_event m =
     (let ev = pac_MsgType MT_PBR;
          ev1 = (if pana_GetAvp as_eap (pm_avps m) \<noteq> None then pac_EapPayload ev else ev)
      in if pana_GetAvp as_resultcode (pm_avps m) = Some PANA_RCODE_SUCCESS
         then pac_ResultCode RESULT_CODE_SUCCESS
                (if algo_unsupported m then pac_Algorithm ev1 else ev1)
         else pac_ResultCode RESULT_CODE_FAIL ev1)"

definition pac_CsmRxPBR :: "pana_env \<Rightarrow> pana_msg \<Rightarrow> pana_session \<Rightarrow> pana_session pana_out" where
  "pac_CsmRxPBR env m w =
     (if \<not> pm_request m then PExn INVALID_MESSAGE w
      else and_then (RxValidateMsg env True m w) (\<lambda>w1.
        POk (rx_accept (pac_Get (pac_PBR_event m)) m (save_paa m w1))))"

definition pac_CsmRxPP :: "pana_env \<Rightarrow> pana_msg \<Rightarrow> pana_session \<Rightarrow> pana_session pana_out" where
  "pac_CsmRxPP env m w =
     and_then (RxValidateMsg env False m w) (\<lambda>w1.
       POk (rx_accept (pac_Get (pac_MsgType (if pm_request m then MT_PPR else MT_PPA))) m
              (save_paa m w1)))"

definition pac_CsmRxPU :: "pana_env \<Rightarrow> pana_msg \<Rightarrow> pana_session \<Rightarrow> pana_session pana_out" where
  "pac_CsmRxPU env m w =
     and_then (RxValidateMsg env False m w) (\<lambda>w1.
       POk (rx_accept (pac_Get (pac_MsgType (if pm_request m then MT_PUR else MT_PUA))) m
              (save_paa m w1)))"

definition pac_CsmRxPT :: "pana_env \<Rightarrow> pana_msg \<Rightarrow> pana_session \<Rightarrow> pana_session pana_out" where
  "pac_CsmRxPT env m w =
     and_then (RxValidateMsg env False m w) (\<lambda>w1.
       POk (rx_accept (pac_Get (pac_MsgType (if pm_request m then MT_PTR else MT_PTA))) m
              (save_paa m w1)))"

definition pac_CsmRxPRA :: "pana_env \<Rightarrow> pana_msg \<Rightarrow> pana_session \<Rightarrow> pana_session pana_out" where
  "pac_CsmRxPRA env m w =
     (if pm_request m then PExn INVALID_MESSAGE w
      else and_then (RxValidateMsg env False m w) (\<lambda>w1.
        POk (rx_accept (pac_Get (pac_MsgType MT_PRA)) m (save_paa m w1))))"

text \<open>
  An error request is processed here and not by an action: the message is queued and
  \<open>RxPER\<close> takes the front of the queue, with which the session is reset before the
  event is even notified.  If \<open>RxPER\<close> throws, the message that it has freed, or that
  is still queued, is deleted by the catch clause of \<open>Receive\<close>.  An error answer is not
  queued at all.
\<close>

definition pac_CsmRxPE :: "pana_env \<Rightarrow> pana_msg \<Rightarrow> pana_session \<Rightarrow> pana_session pana_out" where
  "pac_CsmRxPE env m w =
     and_then (RxValidateMsg env False m w) (\<lambda>w1.
       let w2 = w1\<lparr>ps_PaaAddress := pm_src m\<rparr>
       in if pm_request m then
            (let ev = (if IsFatalError w2 \<and> pana_GetAvp as_auth (pm_avps m) \<noteq> None
                          \<and> sv_set (sa_Auth (ps_SA w2))
                       then pac_FatalError (pac_MsgType MT_PER) else pac_MsgType MT_PER)
             in case RxPER env (w2\<lparr>ps_RxMsgQueue := ps_RxMsgQueue w2 @ [m]\<rparr>) of
                  POk w3 \<Rightarrow> POk (pana_Notify (pac_Get ev) w3)
                | _ \<Rightarrow> PUndef)
          else POk (pana_Notify (pac_Get (pac_MsgType MT_PEA)) w2))"

definition pac_Handle :: "pana_env \<Rightarrow> pana_msg \<Rightarrow> pana_session \<Rightarrow> pana_session pana_out" where
  "pac_Handle env m w =
     (let t = pm_type m
      in if \<not> List.member (pac_states t) (ps_state w) then POk w
         else if t = PANA_MTYPE_PSR then pac_CsmRxPSR env m w
         else if t = PANA_MTYPE_PAR then pac_CsmRxPA env m w
         else if t = PANA_MTYPE_PBR then pac_CsmRxPBR env m w
         else if t = PANA_MTYPE_PPR then pac_CsmRxPP env m w
         else if t = PANA_MTYPE_PRR then pac_CsmRxPRA env m w
         else if t = PANA_MTYPE_PUR then pac_CsmRxPU env m w
         else if t = PANA_MTYPE_PTR then pac_CsmRxPT env m w
         else pac_CsmRxPE env m w)"

section \<open>The session object\<close>

text \<open>
  The constructor of \<open>PANA_Client\<close> resets the session once more; that of the session sets
  the address of the agent and starts the machine.
\<close>

definition pac_new :: "pana_env \<Rightarrow> pana_session" where
  "pac_new env =
     (session_Reset env (session_new env RolePac))
       \<lparr>ps_PaaAddress := cfg_PaaAddress env, ps_running := True, ps_state := ST_OFFLINE\<rparr>"

definition pac_Start :: "pana_session \<Rightarrow> pana_session" where
  "pac_Start w = pana_Notify (pac_Get (pac_App APP_AUTH_USER)) w"

definition pac_EapSendResponse :: "pana_env \<Rightarrow> pana_octets \<Rightarrow> pana_session \<Rightarrow> pana_session" where
  "pac_EapSendResponse env p w =
     pana_Notify
       (pac_Get (if cfg_EapPiggyback env then pac_piggyback (pac_Eap EAP_EV_RESPONSE)
                 else pac_Eap EAP_EV_RESPONSE))
       (w\<lparr>ps_TxEapMessageQueue := ps_TxEapMessageQueue w @ [p]\<rparr>)"

definition pac_EapInvalidMessage :: "pana_session \<Rightarrow> pana_session" where
  "pac_EapInvalidMessage w = pana_Notify (pac_Get (pac_Eap EAP_EV_INVALID_MSG)) w"

definition pac_EapSuccess :: "pana_session \<Rightarrow> pana_session" where
  "pac_EapSuccess w =
     pana_Notify
       (pac_Get (if sa_MskId (ps_SA w) > 0 then pac_KeyId (pac_Eap EAP_EV_SUCCESS)
                 else pac_Eap EAP_EV_SUCCESS)) w"

definition pac_EapTimeout :: "pana_session \<Rightarrow> pana_session" where
  "pac_EapTimeout w = pana_Notify (pac_Get (pac_Eap EAP_EV_TIMEOUT)) w"

definition pac_EapFailure :: "pana_session \<Rightarrow> pana_session" where
  "pac_EapFailure w = pana_Notify (pac_Get (pac_Eap EAP_EV_FAILURE)) w"

definition pac_ReAuthenticate :: "pana_session \<Rightarrow> pana_session" where
  "pac_ReAuthenticate w = pana_Notify (pac_Get (pac_App APP_REAUTH)) w"

definition pac_Update :: "inet_addr \<Rightarrow> pana_session \<Rightarrow> pana_session" where
  "pac_Update a w = pana_Notify (pac_Get (pac_App APP_UPDATE)) (w\<lparr>ps_PacAddress := a\<rparr>)"

definition pac_Ping :: "pana_session \<Rightarrow> pana_session" where
  "pac_Ping w = pana_Notify (pac_Get (pac_App APP_PING)) w"

definition pac_Stop :: "pana_session \<Rightarrow> pana_session" where
  "pac_Stop w = pana_Notify (pac_Get (pac_App APP_TERMINATE)) w"

text \<open>\<open>Abort\<close> of the base class calls the overridden \<open>Stop\<close> and resets the session.\<close>

definition pac_Abort :: "pana_env \<Rightarrow> pana_session \<Rightarrow> pana_session" where
  "pac_Abort env w = session_Reset env (pac_Stop w)"

definition pac_Serve :: "pana_env \<Rightarrow> pana_session \<Rightarrow> pana_session pana_out" where
  "pac_Serve env = pana_Serve (pac_Handle env) (pac_event env) pac_Stop"

text \<open>What can happen to the object; \<open>PacKey\<close> changes the answer to \<open>IsKeyAvailable\<close>.\<close>

datatype pac_input =
    PacServe
  | PacDatagram pana_msg
  | PacTimer int
  | PacStart
  | PacEapSendResponse pana_octets
  | PacEapInvalidMessage
  | PacEapSuccess
  | PacEapTimeout
  | PacEapFailure
  | PacReAuthenticate
  | PacUpdate inet_addr
  | PacPing
  | PacStop
  | PacAbort
  | PacKey "pana_octets option"

fun pac_step :: "pana_env \<Rightarrow> pac_input \<Rightarrow> pana_session \<Rightarrow> pana_session pana_out" where
  "pac_step env PacServe w = pac_Serve env w"
| "pac_step env (PacDatagram m) w = POk (pana_Receive m w)"
| "pac_step env (PacTimer type) w = POk (fire_timer type w)"
| "pac_step env PacStart w = POk (pac_Start w)"
| "pac_step env (PacEapSendResponse p) w = POk (pac_EapSendResponse env p w)"
| "pac_step env PacEapInvalidMessage w = POk (pac_EapInvalidMessage w)"
| "pac_step env PacEapSuccess w = POk (pac_EapSuccess w)"
| "pac_step env PacEapTimeout w = POk (pac_EapTimeout w)"
| "pac_step env PacEapFailure w = POk (pac_EapFailure w)"
| "pac_step env PacReAuthenticate w = POk (pac_ReAuthenticate w)"
| "pac_step env (PacUpdate a) w = POk (pac_Update a w)"
| "pac_step env PacPing w = POk (pac_Ping w)"
| "pac_step env PacStop w = POk (pac_Stop w)"
| "pac_step env PacAbort w = POk (pac_Abort env w)"
| "pac_step env (PacKey k) w = POk (w\<lparr>ps_app_key := k\<rparr>)"

fun pac_run :: "pana_env \<Rightarrow> pac_input list \<Rightarrow> pana_session \<Rightarrow> pana_session pana_out" where
  "pac_run env [] w = POk w"
| "pac_run env (i # is) w = and_then (pac_step env i w) (pac_run env is)"

inductive pac_reach :: "pana_env \<Rightarrow> pana_session \<Rightarrow> bool" for env where
  new: "pac_reach env (pac_new env)"
| step: "pac_reach env w \<Longrightarrow> pac_step env i w = POk w' \<Longrightarrow> pac_reach env w'"

section \<open>The table as built\<close>

lemmas pac_segment_defs =
  pac_table_OFFLINE_def pac_table_WAIT_PAA_def pac_table_WAIT_EAP_MSG_def
  pac_table_WAIT_EAP_RESULT_def pac_table_WAIT_EAP_RESULT_CLOSE_def pac_table_OPEN_def
  pac_table_WAIT_PRA_def pac_table_WAIT_PPA_def pac_table_WAIT_PUA_def pac_table_SESS_TERM_def
  pac_table_WAIT_PEA_def pac_table_CLOSED_def

lemma build_pac_script: "\<not> isl (build_table pac_script)"
  by code_simp

lemma pac_table_built: "build_table pac_script = Inr pac_table"
  using build_pac_script by (cases "build_table pac_script") (simp_all add: pac_table_def)

lemma pac_table_wf: "wf_table pac_table"
  using pac_table_built by (rule wf_build_table)

lemma pac_table_entries: "entries pac_table = concat (map cmd_entries pac_script)"
  using pac_table_built by (rule build_table_entries)

end
