(* ===== verification/Pana_Paa.thy ===== *)
theory Pana_Paa
  imports Pana_Client
begin

text \<open>
  The PANA authentication agent: the operations of \<open>PANA_Paa\<close> (\<open>pana_paa.cxx\<close>), the state
  table and its actions, the message handlers and the public calls of \<open>PANA_PaaSession\<close>
  (\<open>pana_paa_fsm.h\<close>, \<open>pana_paa_fsm.cxx\<close>).
\<close>

section \<open>Notifications\<close>

definition paa_NotifyAuthorization :: "pana_session \<Rightarrow> pana_session" where
  "paa_NotifyAuthorization w =
     app_call (CallAuthorize
        \<lparr>aa_PacAddress = ps_PacAddress w, aa_PaaAddress = ps_PaaAddress w,
         aa_Key = (if sv_set (sa_MSK (ps_SA w)) then Some (sv_value (sa_MSK (ps_SA w))) else None),
         aa_Lifetime = ps_SessionLifetime w\<rparr>) w"

definition paa_NotifyEapRestart :: "pana_env \<Rightarrow> pana_session \<Rightarrow> pana_session" where
  "paa_NotifyEapRestart env w = app_call CallEapStart (pana_Cancel env TID_SESSION w)"

definition paa_NotifyEapResponse :: "pana_octets \<Rightarrow> pana_session \<Rightarrow> pana_session" where
  "paa_NotifyEapResponse payload w = app_call (CallEapResponse payload) w"

definition paa_NotifyEapTimeout :: "pana_env \<Rightarrow> pana_session \<Rightarrow> pana_session" where
  "paa_NotifyEapTimeout env w =
     session_Disconnect env PANA_ERROR_UNABLE_TO_COMPLY (TxPER env PANA_ERROR_UNABLE_TO_COMPLY w)"

definition paa_NotifyEapReAuth :: "pana_env \<Rightarrow> pana_session \<Rightarrow> pana_session" where
  "paa_NotifyEapReAuth env w = pana_Cancel env TID_SESSION (app_call CallEapStart w)"

definition paa_IsUserAuthorized :: "pana_session \<Rightarrow> bool \<times> pana_session" where
  "paa_IsUserAuthorized w =
     (ps_app_authorized w, w\<lparr>ps_Authorized := ps_app_authorized w\<rparr>)"

section \<open>Messages\<close>

text \<open>
  The sequence number has moved on when a missing EAP packet is noticed.
\<close>

definition paa_TxPSR :: "pana_env \<Rightarrow> pana_session \<Rightarrow> pana_session pana_out" where
  "paa_TxPSR env w =
     (let w1 = next_TxSeq w
      in if cfg_OptimizedHandshake env then
           (case ps_TxEapMessageQueue w1 of
              [] \<Rightarrow> PExn MISSING_EAP_PAYLOAD w1
            | p # q \<Rightarrow> POk (SendReqMsg env (cfg_RetryPSR env)
                 (pana_request PANA_MTYPE_PSR [AVP_Eap p] w1) (w1\<lparr>ps_TxEapMessageQueue := q\<rparr>)))
         else POk (SendReqMsg env (cfg_RetryPSR env) (pana_request PANA_MTYPE_PSR [] w1) w1))"

definition paa_RxPSA :: "pana_env \<Rightarrow> pana_session \<Rightarrow> pana_session pana_out" where
  "paa_RxPSA env = rx_Dequeue (\<lambda>m w.
     if \<not> cfg_OptimizedHandshake env \<and> \<not> cfg_RetryPSR env then POk (paa_NotifyEapRestart env w)
     else
       (let w1 = (if cfg_RetryPSR env then pana_Cancel env TID_RETRY w else w)
        in POk (case pana_GetAvp as_eap (pm_avps m) of
             Some p \<Rightarrow> paa_NotifyEapResponse p w1
           | None \<Rightarrow> paa_NotifyEapRestart env w1)))"

definition paa_nonce :: "pana_env \<Rightarrow> pana_session \<Rightarrow> pana_avp list \<times> pana_session" where
  "paa_nonce env w =
     (if sv_set (sa_PaaNonce (ps_SA w)) then ([], w)
      else case nonce_Generate env w of (n, w1) \<Rightarrow>
        ([AVP_Nonce n], w1\<lparr>ps_SA := (ps_SA w1)\<lparr>sa_PaaNonce := scholar_Set n\<rparr>\<rparr>))"

definition paa_TxPAR :: "pana_env \<Rightarrow> pana_session \<Rightarrow> pana_session pana_out" where
  "paa_TxPAR env w =
     (let w1 = next_TxSeq w
      in case ps_TxEapMessageQueue w1 of
           [] \<Rightarrow> PExn MISSING_EAP_PAYLOAD w1
         | p # q \<Rightarrow>
             (case paa_nonce env (w1\<lparr>ps_TxEapMessageQueue := q\<rparr>) of (nonce, w2) \<Rightarrow>
                POk (SendReqMsg env True
                  (add_auth_if_set env w2 (pana_request PANA_MTYPE_PAR (AVP_Eap p # nonce) w2)) w2)))"

datatype paa_eap_event = PAA_EAP_SUCCESS | PAA_EAP_FAILURE | PAA_EAP_TIMEOUT

text \<open>The AVPs of a result, with the session in which the key has been made.\<close>

definition paa_bind_key :: "pana_env \<Rightarrow> pana_session \<Rightarrow> pana_avp list \<times> pana_session" where
  "paa_bind_key env w =
     (case ps_app_key w of
        None \<Rightarrow> ([], w)
      | Some k \<Rightarrow>
          (let sa = (ps_SA w)\<lparr>sa_MSK := scholar_Set k\<rparr>
           in ((if ps_AlgorithmIsSet w then [] else [AVP_Algorithm PANA_AUTH_ALGORITHM])
                 @ [AVP_KeyId (sa_MskId sa)],
               w\<lparr>ps_AlgorithmIsSet := True, ps_SA := GenerateAuthKey env sa (ps_SessionId w)\<rparr>)))"

definition paa_bind_avps :: "pana_env \<Rightarrow> paa_eap_event \<Rightarrow> pana_session
    \<Rightarrow> pana_avp list \<times> pana_session" where
  "paa_bind_avps env ev w =
     (if ev = PAA_EAP_SUCCESS then
        (let lifetime = (if ps_Authorized w \<and> ps_SessionLifetime w > 0
                         then [AVP_SessionLifetime (ps_SessionLifetime w)] else [])
         in case paa_bind_key env w of (avps, w1) \<Rightarrow> (lifetime @ avps, w1))
      else ([], w))"

definition paa_TxPBR :: "pana_env \<Rightarrow> u32 \<Rightarrow> paa_eap_event \<Rightarrow> pana_session
    \<Rightarrow> pana_session pana_out" where
  "paa_TxPBR env rcode ev w =
     eap_Dequeue (\<lambda>p w1.
       case paa_bind_avps env ev w1 of (avps, w2) \<Rightarrow>
         POk (SendReqMsg env True
           (add_auth_if_set env w2
              (pana_request PANA_MTYPE_PBR
                 (AVP_ResultCode rcode # (if ev = PAA_EAP_TIMEOUT then [] else [AVP_Eap p]) @ avps) w2))
           w2)) (next_TxSeq w)"

definition paa_RxPBA :: "pana_env \<Rightarrow> bool \<Rightarrow> pana_session \<Rightarrow> pana_session pana_out" where
  "paa_RxPBA env success = rx_Dequeue (\<lambda>m w.
     let w1 = pana_Cancel env TID_RETRY w
     in POk (if success then paa_NotifyAuthorization (NotifyScheduleLifetime env w1)
             else session_Disconnect env 0 w1))"

definition paa_TxPAN :: "pana_env \<Rightarrow> pana_session \<Rightarrow> pana_session" where
  "paa_TxPAN env w = SendAnsMsg (add_auth_if_set env w (pana_answer PANA_MTYPE_PAR [] w)) w"

definition paa_RxPAR :: "pana_env \<Rightarrow> pana_session \<Rightarrow> pana_session pana_out" where
  "paa_RxPAR env = rx_Dequeue (\<lambda>m w.
     let w1 = (case pana_GetAvp as_eap (pm_avps m) of
                 Some p \<Rightarrow> paa_NotifyEapResponse p w | None \<Rightarrow> w)
     in POk (paa_TxPAN env (pana_Cancel env TID_RETRY w1)))"

definition paa_RxPAN :: "pana_env \<Rightarrow> pana_session \<Rightarrow> pana_session pana_out" where
  "paa_RxPAN env = rx_Dequeue (\<lambda>m w.
     let w1 = pana_Cancel env TID_RETRY w;
         w2 = (case pana_GetAvp as_nonce (pm_avps m) of
                 Some n \<Rightarrow> if sv_set (sa_PacNonce (ps_SA w1)) then w1
                           else w1\<lparr>ps_SA := (ps_SA w1)\<lparr>sa_PacNonce := scholar_Set n\<rparr>\<rparr>
               | None \<Rightarrow> w1)
     in POk (case pana_GetAvp as_eap (pm_avps m) of
               Some p \<Rightarrow> paa_NotifyEapResponse p w2 | None \<Rightarrow> w2))"

definition paa_TxPRA :: "pana_env \<Rightarrow> pana_session \<Rightarrow> pana_session" where
  "paa_TxPRA env w = SendAnsMsg (add_auth_if_set env w (pana_answer PANA_MTYPE_PRR [] w)) w"

definition paa_RxPRR :: "pana_env \<Rightarrow> pana_session \<Rightarrow> pana_session pana_out" where
  "paa_RxPRR env = rx_Dequeue (\<lambda>m w. POk (paa_TxPRA env (paa_NotifyEapReAuth env w)))"

section \<open>Actions and state table\<close>

datatype paa_action =
    AgNull | AgEapRestart | AgTxPSR | AgRxPSA | AgEapTimeout | AgTxPAR | AgTxPBREapSuccess
  | AgTxPBREapSuccessFail | AgTxPBREapFail | AgTxPBREapTimeout | AgTxPER | AgTxPEA | AgRxPEA
  | AgRxPBASuccess | AgRxPBAFail | AgRxPPR | AgRxPRR | AgReAuth | AgTxPPR | AgTxPTR | AgRxPTR
  | AgTxPUR | AgRxPUA | AgRxPUR | AgRxPPA | AgRxPAN | AgRxPAR | AgRxPTA | AgTimeout
  | AgRetransmission

definition paa_Retransmission :: "pana_env \<Rightarrow> pana_session \<Rightarrow> pana_session pana_out" where
  "paa_Retransmission env w =
     (case TxLastReqMsg env w of
        None \<Rightarrow> PUndef
      | Some (sent, w1) \<Rightarrow> POk (if sent then w1 else pana_Notify (paa_Get paa_RetryTimeout) w1))"

fun paa_act :: "pana_env \<Rightarrow> paa_action \<Rightarrow> pana_session \<Rightarrow> pana_session pana_out" where
  "paa_act env AgNull w = POk w"
| "paa_act env AgEapRestart w = POk (paa_NotifyEapRestart env w)"
| "paa_act env AgTxPSR w = paa_TxPSR env w"
| "paa_act env AgRxPSA w = paa_RxPSA env w"
| "paa_act env AgEapTimeout w = POk (paa_NotifyEapTimeout env w)"
| "paa_act env AgTxPAR w = paa_TxPAR env w"
| "paa_act env AgTxPBREapSuccess w = paa_TxPBR env PANA_RCODE_SUCCESS PAA_EAP_SUCCESS w"
| "paa_act env AgTxPBREapSuccessFail w =
     paa_TxPBR env PANA_RCODE_AUTHENTICATION_REJECTED PAA_EAP_SUCCESS w"
| "paa_act env AgTxPBREapFail w =
     paa_TxPBR env PANA_RCODE_AUTHENTICATION_REJECTED PAA_EAP_FAILURE w"
| "paa_act env AgTxPBREapTimeout w =
     paa_TxPBR env PANA_RCODE_AUTHENTICATION_REJECTED PAA_EAP_TIMEOUT w"
| "paa_act env AgTxPER w = POk (TxPER env PANA_ERROR_UNABLE_TO_COMPLY w)"
| "paa_act env AgTxPEA w = POk (TxPEA w)"
| "paa_act env AgRxPEA w = RxPEA env w"
| "paa_act env AgRxPBASuccess w = paa_RxPBA env True w"
| "paa_act env AgRxPBAFail w = paa_RxPBA env False w"
| "paa_act env AgRxPPR w = RxPPR env w"
| "paa_act env AgRxPRR w = paa_RxPRR env w"
| "paa_act env AgReAuth w = POk (paa_NotifyEapReAuth env w)"
| "paa_act env AgTxPPR w = POk (TxPPR env w)"
| "paa_act env AgTxPTR w = POk (TxPTR env PANA_TERMCAUSE_ADMINISTRATIVE w)"
| "paa_act env AgRxPTR w = RxPTR env w"
| "paa_act env AgTxPUR w = POk (TxPUR env w)"
| "paa_act env AgRxPUA w = RxPUA env w"
| "paa_act env AgRxPUR w = RxPUR env w"
| "paa_act env AgRxPPA w = RxPPA env w"
| "paa_act env AgRxPAN w = paa_RxPAN env w"
| "paa_act env AgRxPAR w = paa_RxPAR env w"
| "paa_act env AgRxPTA w = POk (session_Disconnect env 0 w)"
| "paa_act env AgTimeout w = POk (session_Disconnect env PANA_TERMCAUSE_SESSION_TIMEOUT w)"
| "paa_act env AgRetransmission w = paa_Retransmission env w"

definition paa_table_OFFLINE :: "(pana_st, int, paa_action) table_cmd list" where
  "paa_table_OFFLINE =
    [Add ST_OFFLINE (paa_Get (paa_optimized (paa_App APP_PAC_FOUND))) ST_OFFLINE AgEapRestart,
     Add ST_OFFLINE (paa_Get (paa_Eap EAP_EV_REQUEST)) ST_OFFLINE AgTxPSR,
     Add ST_OFFLINE (paa_Get (paa_Eap EAP_EV_TIMEOUT)) ST_OFFLINE AgTimeout,
     Add ST_OFFLINE (paa_Get (paa_App APP_PAC_FOUND)) ST_OFFLINE AgTxPSR,
     Add ST_OFFLINE (paa_Get (paa_MsgType MT_PSA)) ST_WAIT_EAP_MSG AgRxPSA,
     Add ST_OFFLINE (paa_Get paa_RetryTimeout) ST_CLOSED AgTimeout,
     Add ST_OFFLINE (paa_Get paa_ReTransmission) ST_OFFLINE AgRetransmission,
     AddWildcard ST_OFFLINE ST_OFFLINE AgNull]"

definition paa_table_WAIT_EAP_MSG :: "(pana_st, int, paa_action) table_cmd list" where
  "paa_table_WAIT_EAP_MSG =
    [Add ST_WAIT_EAP_MSG (paa_Get (paa_Eap EAP_EV_REQUEST)) ST_WAIT_PAN_OR_PAR AgTxPAR,
     Add ST_WAIT_EAP_MSG (paa_Get (paa_Eap EAP_EV_FAILURE)) ST_WAIT_FAIL_PBA AgTxPBREapFail,
     Add ST_WAIT_EAP_MSG (paa_Get (paa_Authorize (paa_Eap EAP_EV_SUCCESS)))
        ST_WAIT_SUCC_PBA AgTxPBREapSuccess,
     Add ST_WAIT_EAP_MSG (paa_Get (paa_Eap EAP_EV_SUCCESS))
        ST_WAIT_FAIL_PBA AgTxPBREapSuccessFail,
     Add ST_WAIT_EAP_MSG (paa_Get (paa_MsgType MT_PRR)) ST_WAIT_EAP_MSG AgRxPRR,
     Add ST_WAIT_EAP_MSG (paa_Get (paa_FatalError (paa_MsgType MT_PER))) ST_CLOSED AgTxPEA,
     Add ST_WAIT_EAP_MSG (paa_Get (paa_MsgType MT_PER)) ST_WAIT_EAP_MSG AgTxPEA,
     AddWildcard ST_WAIT_EAP_MSG ST_WAIT_EAP_MSG AgNull]"

definition paa_table_WAIT_SUCC_PBA :: "(pana_st, int, paa_action) table_cmd list" where
  "paa_table_WAIT_SUCC_PBA =
    [Add ST_WAIT_SUCC_PBA (paa_Get (paa_MsgType MT_PBA)) ST_OPEN AgRxPBASuccess,
     Add ST_WAIT_SUCC_PBA (paa_Get paa_RetryTimeout) ST_CLOSED AgTimeout,
     Add ST_WAIT_SUCC_PBA (paa_Get paa_ReTransmission) ST_WAIT_SUCC_PBA AgRetransmission,
     Add ST_WAIT_SUCC_PBA (paa_Get (paa_FatalError (paa_MsgType MT_PER))) ST_CLOSED AgTxPEA,
     Add ST_WAIT_SUCC_PBA (paa_Get (paa_MsgType MT_PER)) ST_WAIT_SUCC_PBA AgTxPEA,
     AddWildcard ST_WAIT_SUCC_PBA ST_WAIT_SUCC_PBA AgNull]"

definition paa_table_WAIT_FAIL_PBA :: "(pana_st, int, paa_action) table_cmd list" where
  "paa_table_WAIT_FAIL_PBA =
    [Add ST_WAIT_FAIL_PBA (paa_Get (paa_MsgType MT_PBA)) ST_CLOSED AgRxPBAFail,
     Add ST_WAIT_FAIL_PBA (paa_Get paa_RetryTimeout) ST_CLOSED AgTimeout,
     Add ST_WAIT_FAIL_PBA (paa_Get paa_ReTransmission) ST_WAIT_FAIL_PBA AgRetransmission,
     Add ST_WAIT_FAIL_PBA (paa_Get (paa_FatalError (paa_MsgType MT_PER))) ST_CLOSED AgTxPEA,
     Add ST_WAIT_FAIL_PBA (paa_Get (paa_MsgType MT_PER)) ST_WAIT_FAIL_PBA AgTxPEA,
     AddWildcard ST_WAIT_FAIL_PBA ST_WAIT_FAIL_PBA AgNull]"

definition paa_table_OPEN :: "(pana_st, int, paa_action) table_cmd list" where
  "paa_table_OPEN =
    [Add ST_OPEN (paa_Get (paa_MsgType MT_PRR)) ST_WAIT_EAP_MSG AgRxPRR,
     Add ST_OPEN (paa_Get (paa_App APP_REAUTH)) ST_WAIT_EAP_MSG AgReAuth,
     Add ST_OPEN (paa_Get (paa_App APP_PING)) ST_WAIT_PPA AgTxPPR,
     Add ST_OPEN (paa_Get (paa_MsgType MT_PPR)) ST_OPEN AgRxPPR,
     Add ST_OPEN (paa_Get (paa_App APP_TERMINATE)) ST_SESS_TERM AgTxPTR,
     Add ST_OPEN (paa_Get (paa_MsgType MT_PTR)) ST_CLOSED AgRxPTR,
     Add ST_OPEN (paa_Get (paa_App APP_UPDATE)) ST_WAIT_PUA AgTxPUR,
     Add ST_OPEN (paa_Get (paa_MsgType MT_PUR)) ST_OPEN AgRxPUR,
     Add ST_OPEN (paa_Get paa_SessTimeout) ST_CLOSED AgTimeout,
     AddWildcard ST_OPEN ST_OPEN AgNull]"

definition paa_table_WAIT_PPA :: "(pana_st, int, paa_action) table_cmd list" where
  "paa_table_WAIT_PPA =
    [Add ST_WAIT_PPA (paa_Get (paa_MsgType MT_PPA)) ST_OPEN AgRxPPA,
     Add ST_WAIT_PPA (paa_Get paa_SessTimeout) ST_CLOSED AgTimeout,
     Add ST_WAIT_PPA (paa_Get paa_RetryTimeout) ST_CLOSED AgTimeout,
     Add ST_WAIT_PPA (paa_Get paa_ReTransmission) ST_WAIT_PPA AgRetransmission,
     Add ST_WAIT_PPA (paa_Get (paa_FatalError (paa_MsgType MT_PER))) ST_CLOSED AgTxPEA,
     Add ST_WAIT_PPA (paa_Get (paa_MsgType MT_PER)) ST_WAIT_PPA AgTxPEA,
     AddWildcard ST_WAIT_PPA ST_WAIT_PPA AgNull]"

definition paa_table_WAIT_PAN_OR_PAR :: "(pana_st, int, paa_action) table_cmd list" where
  "paa_table_WAIT_PAN_OR_PAR =
    [Add ST_WAIT_PAN_OR_PAR (paa_Get (paa_EapPayload (paa_MsgType MT_PAN)))
        ST_WAIT_EAP_MSG AgRxPAN,
     Add ST_WAIT_PAN_OR_PAR (paa_Get (paa_MsgType MT_PAN)) ST_WAIT_PAN_OR_PAR AgRxPAN,
     Add ST_WAIT_PAN_OR_PAR (paa_Get (paa_MsgType MT_PAR)) ST_WAIT_EAP_MSG AgRxPAR,
     Add ST_WAIT_PAN_OR_PAR (paa_Get (paa_Eap EAP_EV_REQUEST)) ST_WAIT_PAN_OR_PAR AgTxPAR,
     Add ST_WAIT_PAN_OR_PAR (paa_Get (paa_Eap EAP_EV_TIMEOUT)) ST_WAIT_PEA AgEapTimeout,
     Add ST_WAIT_PAN_OR_PAR (paa_Get paa_RetryTimeout) ST_CLOSED AgTimeout,
     Add ST_WAIT_PAN_OR_PAR (paa_Get paa_ReTransmission) ST_WAIT_PAN_OR_PAR AgRetransmission,
     Add ST_WAIT_PAN_OR_PAR (paa_Get (paa_FatalError (paa_MsgType MT_PER))) ST_CLOSED AgTxPEA,
     Add ST_WAIT_PAN_OR_PAR (paa_Get (paa_MsgType MT_PER)) ST_WAIT_PAN_OR_PAR AgTxPEA,
     AddWildcard ST_WAIT_PAN_OR_PAR ST_WAIT_PAN_OR_PAR AgNull]"

definition paa_table_WAIT_PUA :: "(pana_st, int, paa_action) table_cmd list" where
  "paa_table_WAIT_PUA =
    [Add ST_WAIT_PUA (paa_Get (paa_MsgType MT_PUA)) ST_OPEN AgRxPUA,
     Add ST_WAIT_PUA (paa_Get paa_SessTimeout) ST_CLOSED AgTimeout,
     Add ST_WAIT_PUA (paa_Get paa_RetryTimeout) ST_CLOSED AgTimeout,
     Add ST_WAIT_PUA (paa_Get paa_ReTransmission) ST_WAIT_PUA AgRetransmission,
     Add ST_WAIT_PUA (paa_Get (paa_FatalError (paa_MsgType MT_PER))) ST_CLOSED AgTxPEA,
     Add ST_WAIT_PUA (paa_Get (paa_MsgType MT_PER)) ST_WAIT_PUA AgTxPEA,
     AddWildcard ST_WAIT_PUA ST_WAIT_PUA AgNull]"

definition paa_table_SESS_TERM :: "(pana_st, int, paa_action) table_cmd list" where
  "paa_table_SESS_TERM =
    [Add ST_SESS_TERM (paa_Get (paa_MsgType MT_PTA)) ST_CLOSED AgRxPTA,
     Add ST_SESS_TERM (paa_Get paa_SessTimeout) ST_CLOSED AgTimeout,
     Add ST_SESS_TERM (paa_Get paa_RetryTimeout) ST_CLOSED AgTimeout,
     Add ST_SESS_TERM (paa_Get paa_ReTransmission) ST_SESS_TERM AgRetransmission,
     Add ST_SESS_TERM (paa_Get (paa_FatalError (paa_MsgType MT_PER))) ST_CLOSED AgTxPEA,
     Add ST_SESS_TERM (paa_Get (paa_MsgType MT_PER)) ST_SESS_TERM AgTxPEA,
     AddWildcard ST_SESS_TERM ST_SESS_TERM AgNull]"

definition paa_table_WAIT_PEA :: "(pana_st, int, paa_action) table_cmd list" where
  "paa_table_WAIT_PEA =
    [Add ST_WAIT_PEA (paa_Get (paa_MsgType MT_PEA)) ST_CLOSED AgRxPEA,
     Add ST_WAIT_PEA (paa_Get paa_SessTimeout) ST_CLOSED AgTimeout,
     Add ST_WAIT_PEA (paa_Get paa_RetryTimeout) ST_CLOSED AgTimeout,
     Add ST_WAIT_PEA (paa_Get paa_ReTransmission) ST_WAIT_PEA AgRetransmission,
     AddWildcard ST_WAIT_PEA ST_WAIT_PEA AgNull]"

definition paa_table_CLOSED :: "(pana_st, int, paa_action) table_cmd list" where
  "paa_table_CLOSED =
    [AddWildcard ST_CLOSED ST_CLOSED AgNull]"

definition paa_script :: "(pana_st, int, paa_action) table_cmd list" where
  "paa_script =
     paa_table_OFFLINE
     @ paa_table_WAIT_EAP_MSG
     @ paa_table_WAIT_SUCC_PBA
     @ paa_table_WAIT_FAIL_PBA
     @ paa_table_OPEN
     @ paa_table_WAIT_PPA
     @ paa_table_WAIT_PAN_OR_PAR
     @ paa_table_WAIT_PUA
     @ paa_table_SESS_TERM
     @ paa_table_WAIT_PEA
     @ paa_table_CLOSED @ [Init ST_OFFLINE]"


definition paa_table :: "(pana_st, int, paa_action) state_table" where
  "paa_table = (case build_table paa_script of Inr t \<Rightarrow> t | Inl _ \<Rightarrow> empty_table)"

definition paa_event :: "pana_env \<Rightarrow> int \<Rightarrow> pana_session \<Rightarrow> pana_session pana_out" where
  "paa_event env = pana_event paa_table (paa_act env)"

section \<open>Handlers of received messages\<close>

definition paa_states :: "u16 \<Rightarrow> pana_st list" where
  "paa_states t =
     (if t = PANA_MTYPE_PCI \<or> t = PANA_MTYPE_PSR then [ST_OFFLINE]
      else if t = PANA_MTYPE_PAR then [ST_WAIT_PAN_OR_PAR]
      else if t = PANA_MTYPE_PBR then [ST_WAIT_SUCC_PBA, ST_WAIT_FAIL_PBA]
      else if t = PANA_MTYPE_PRR then [ST_OPEN, ST_WAIT_EAP_MSG]
      else if t = PANA_MTYPE_PTR then [ST_OPEN, ST_SESS_TERM]
      else if t = PANA_MTYPE_PUR then [ST_OPEN, ST_WAIT_PUA]
      else if t = PANA_MTYPE_PPR then [ST_OPEN, ST_WAIT_PPA]
      else if t = PANA_MTYPE_PER then
        [ST_WAIT_SUCC_PBA, ST_WAIT_PEA, ST_WAIT_PAN_OR_PAR, ST_WAIT_FAIL_PBA, ST_WAIT_PEA,
         ST_OPEN, ST_WAIT_EAP_MSG, ST_WAIT_PPA, ST_WAIT_PAN_OR_PAR, ST_SESS_TERM, ST_CLOSED]
      else [])"

definition save_pac :: "pana_msg \<Rightarrow> pana_session \<Rightarrow> pana_session" where
  "save_pac m w = w\<lparr>ps_PacAddress := pm_src m, ps_LastRxHeader := pana_hdr.truncate m\<rparr>"

definition paa_accept :: "pana_env \<Rightarrow> paa_ev \<Rightarrow> pana_msg \<Rightarrow> pana_session
    \<Rightarrow> pana_session pana_out" where
  "paa_accept env ev m w =
     and_then (RxValidateMsg env False m w) (\<lambda>w1. POk (rx_accept (paa_Get ev) m (save_pac m w1)))"

definition paa_PsmRxPCI :: "pana_env \<Rightarrow> pana_msg \<Rightarrow> pana_session \<Rightarrow> pana_session pana_out" where
  "paa_PsmRxPCI env m w =
     (if pm_request m then PExn INVALID_MESSAGE w
      else paa_accept env (paa_MsgType MT_PCI) m w)"

definition paa_PsmRxPSA :: "pana_env \<Rightarrow> pana_msg \<Rightarrow> pana_session \<Rightarrow> pana_session pana_out" where
  "paa_PsmRxPSA env m w =
     (if pm_request m then PExn INVALID_MESSAGE w
      else paa_accept env (paa_MsgType MT_PSA) m w)"

definition paa_PsmRxPBA :: "pana_env \<Rightarrow> pana_msg \<Rightarrow> pana_session \<Rightarrow> pana_session pana_out" where
  "paa_PsmRxPBA env m w =
     (if pm_request m then PExn INVALID_MESSAGE w
      else paa_accept env (paa_MsgType MT_PBA) m w)"

definition paa_PsmRxPRR :: "pana_env \<Rightarrow> pana_msg \<Rightarrow> pana_session \<Rightarrow> pana_session pana_out" where
  "paa_PsmRxPRR env m w =
     (if \<not> pm_request m then PExn INVALID_MESSAGE w
      else paa_accept env (paa_MsgType MT_PRR) m w)"

definition paa_PsmRxPT :: "pana_env \<Rightarrow> pana_msg \<Rightarrow> pana_session \<Rightarrow> pana_session pana_out" where
  "paa_PsmRxPT env m w =
     paa_accept env (paa_MsgType (if pm_request m then MT_PTR else MT_PTA)) m w"

text \<open>The address is saved before it is compared, so the comparison only guards a log line.\<close>

definition paa_PsmRxPU :: "pana_env \<Rightarrow> pana_msg \<Rightarrow> pana_session \<Rightarrow> pana_session pana_out" where
  "paa_PsmRxPU env m w =
     paa_accept env (paa_MsgType (if pm_request m then MT_PUR else MT_PUA)) m w"

definition paa_PsmRxPP :: "pana_env \<Rightarrow> pana_msg \<Rightarrow> pana_session \<Rightarrow> pana_session pana_out" where
  "paa_PsmRxPP env m w =
     paa_accept env (paa_MsgType (if pm_request m then MT_PPR else MT_PPA)) m w"

definition paa_PsmRxPA :: "pana_env \<Rightarrow> pana_msg \<Rightarrow> pana_session \<Rightarrow> pana_session pana_out" where
  "paa_PsmRxPA env m w =
     paa_accept env
       (if pm_request m then paa_MsgType MT_PAR
        else if pana_GetAvp as_eap (pm_avps m) \<noteq> None then paa_EapPayload (paa_MsgType MT_PAN)
        else paa_MsgType MT_PAN) m w"

text \<open>\<open>RxPER\<close> is called for requests and answers alike, before the event is made.\<close>

definition paa_PsmRxPE :: "pana_env \<Rightarrow> pana_msg \<Rightarrow> pana_session \<Rightarrow> pana_session pana_out" where
  "paa_PsmRxPE env m w =
     and_then (RxValidateMsg env False m w) (\<lambda>w1.
       case RxPER env (w1\<lparr>ps_PacAddress := pm_src m, ps_RxMsgQueue := ps_RxMsgQueue w1 @ [m]\<rparr>) of
         POk w2 \<Rightarrow>
           POk (pana_Notify (paa_Get
             (if pm_request m then
                (if IsFatalError w2 then paa_FatalError (paa_MsgType MT_PER) else paa_MsgType MT_PER)
              else paa_MsgType MT_PEA)) w2)
       | _ \<Rightarrow> PUndef)"

definition paa_Handle :: "pana_env \<Rightarrow> pana_msg \<Rightarrow> pana_session \<Rightarrow> pana_session pana_out" where
  "paa_Handle env m w =
     (let t = pm_type m
      in if \<not> List.member (paa_states t) (ps_state w) then POk w
         else if t = PANA_MTYPE_PCI then paa_PsmRxPCI env m w
         else if t = PANA_MTYPE_PSR then paa_PsmRxPSA env m w
         else if t = PANA_MTYPE_PAR then paa_PsmRxPA env m w
         else if t = PANA_MTYPE_PBR then paa_PsmRxPBA env m w
         else if t = PANA_MTYPE_PRR then paa_PsmRxPRR env m w
         else if t = PANA_MTYPE_PTR then paa_PsmRxPT env m w
         else if t = PANA_MTYPE_PUR then paa_PsmRxPU env m w
         else if t = PANA_MTYPE_PPR then paa_PsmRxPP env m w
         else paa_PsmRxPE env m w)"

section \<open>The session object\<close>

text \<open>The number of the session is the time of day, seconds plus microseconds.\<close>

definition paa_new :: "pana_env \<Rightarrow> u32 \<Rightarrow> pana_session" where
  "paa_new env now =
     (session_Reset env (session_new env RolePaa))
       \<lparr>ps_SessionId := now, ps_running := True, ps_state := ST_OFFLINE\<rparr>"

definition paa_queue_eap :: "pana_octets option \<Rightarrow> pana_session \<Rightarrow> pana_session" where
  "paa_queue_eap req w =
     (case req of
        None \<Rightarrow> w
      | Some p \<Rightarrow> w\<lparr>ps_TxEapMessageQueue := ps_TxEapMessageQueue w @ [p]\<rparr>)"

definition paa_EapSendRequest :: "pana_octets \<Rightarrow> pana_session \<Rightarrow> pana_session" where
  "paa_EapSendRequest p w =
     pana_Notify (paa_Get (paa_Eap EAP_EV_REQUEST)) (paa_queue_eap (Some p) w)"

definition paa_EapInvalidMessage :: "pana_session \<Rightarrow> pana_session" where
  "paa_EapInvalidMessage w = pana_Notify (paa_Get (paa_Eap EAP_EV_INVALID_MSG)) w"

definition paa_EapSuccess :: "pana_octets option \<Rightarrow> pana_session \<Rightarrow> pana_session" where
  "paa_EapSuccess req w =
     (case paa_IsUserAuthorized (paa_queue_eap req w) of (authorized, w1) \<Rightarrow>
        pana_Notify (paa_Get (if authorized then paa_Authorize (paa_Eap EAP_EV_SUCCESS)
                              else paa_Eap EAP_EV_SUCCESS)) w1)"

definition paa_EapFailure :: "pana_octets option \<Rightarrow> pana_session \<Rightarrow> pana_session" where
  "paa_EapFailure req w = pana_Notify (paa_Get (paa_Eap EAP_EV_FAILURE)) (paa_queue_eap req w)"

definition paa_EapTimeout :: "pana_session \<Rightarrow> pana_session" where
  "paa_EapTimeout w = pana_Notify (paa_Get (paa_Eap EAP_EV_TIMEOUT)) w"

definition paa_EapReAuthenticate :: "pana_session \<Rightarrow> pana_session" where
  "paa_EapReAuthenticate w = pana_Notify (paa_Get (paa_App APP_REAUTH)) w"

definition paa_Update :: "inet_addr \<Rightarrow> pana_session \<Rightarrow> pana_session" where
  "paa_Update a w = pana_Notify (paa_Get (paa_App APP_UPDATE)) (w\<lparr>ps_PacAddress := a\<rparr>)"

definition paa_Ping :: "pana_session \<Rightarrow> pana_session" where
  "paa_Ping w = pana_Notify (paa_Get (paa_App APP_PING)) w"

definition paa_Stop :: "pana_session \<Rightarrow> pana_session" where
  "paa_Stop w = pana_Notify (paa_Get (paa_App APP_TERMINATE)) w"

text \<open>\<open>Abort\<close> of the base class calls the overridden \<open>Stop\<close> and resets the session.\<close>

definition paa_Abort :: "pana_env \<Rightarrow> pana_session \<Rightarrow> pana_session" where
  "paa_Abort env w = session_Reset env (paa_Stop w)"

definition paa_Serve :: "pana_env \<Rightarrow> pana_session \<Rightarrow> pana_session pana_out" where
  "paa_Serve env = pana_Serve (paa_Handle env) (paa_event env) paa_Stop"

text \<open>
  What can happen to the object; \<open>PaaKey\<close> and \<open>PaaUser\<close> change the answers of the
  application, \<open>PaaFound\<close> is the event of the session factory.
\<close>

datatype paa_input =
    PaaServe
  | PaaDatagram pana_msg
  | PaaTimer int
  | PaaFound bool
  | PaaEapSendRequest pana_octets
  | PaaEapInvalidMessage
  | PaaEapSuccess "pana_octets option"
  | PaaEapFailure "pana_octets option"
  | PaaEapTimeout
  | PaaEapReAuthenticate
  | PaaUpdate inet_addr
  | PaaPing
  | PaaStop
  | PaaAbort
  | PaaKey "pana_octets option"
  | PaaUser bool

definition paa_Found :: "bool \<Rightarrow> pana_session \<Rightarrow> pana_session" where
  "paa_Found optimized w =
     pana_Notify (paa_Get (if optimized then paa_optimized (paa_App APP_PAC_FOUND)
                           else paa_App APP_PAC_FOUND)) w"

fun paa_step :: "pana_env \<Rightarrow> paa_input \<Rightarrow> pana_session \<Rightarrow> pana_session pana_out" where
  "paa_step env PaaServe w = paa_Serve env w"
| "paa_step env (PaaDatagram m) w = POk (pana_Receive m w)"
| "paa_step env (PaaTimer type) w = POk (fire_timer type w)"
| "paa_step env (PaaFound opt) w = POk (paa_Found opt w)"
| "paa_step env (PaaEapSendRequest p) w = POk (paa_EapSendRequest p w)"
| "paa_step env PaaEapInvalidMessage w = POk (paa_EapInvalidMessage w)"
| "paa_step env (PaaEapSuccess r) w = POk (paa_EapSuccess r w)"
| "paa_step env (PaaEapFailure r) w = POk (paa_EapFailure r w)"
| "paa_step env PaaEapTimeout w = POk (paa_EapTimeout w)"
| "paa_step env PaaEapReAuthenticate w = POk (paa_EapReAuthenticate w)"
| "paa_step env (PaaUpdate a) w = POk (paa_Update a w)"
| "paa_step env PaaPing w = POk (paa_Ping w)"
| "paa_step env PaaStop w = POk (paa_Stop w)"
| "paa_step env PaaAbort w = POk (paa_Abort env w)"
| "paa_step env (PaaKey k) w = POk (w\<lparr>ps_app_key := k\<rparr>)"
| "paa_step env (PaaUser b) w = POk (w\<lparr>ps_app_authorized := b\<rparr>)"

fun paa_run :: "pana_env \<Rightarrow> paa_input list \<Rightarrow> pana_session \<Rightarrow> pana_session pana_out" where
  "paa_run env [] w = POk w"
| "paa_run env (i # is) w = and_then (paa_step env i w) (paa_run env is)"

inductive paa_reach :: "pana_env \<Rightarrow> pana_session \<Rightarrow> bool" for env where
  new: "paa_reach env (paa_new env now)"
| step: "paa_reach env w \<Longrightarrow> paa_step env i w = POk w' \<Longrightarrow> paa_reach env w'"

section \<open>The table as built\<close>

lemmas paa_segment_defs =
  paa_table_OFFLINE_def paa_table_WAIT_EAP_MSG_def paa_table_WAIT_SUCC_PBA_def
  paa_table_WAIT_FAIL_PBA_def paa_table_OPEN_def paa_table_WAIT_PPA_def
  paa_table_WAIT_PAN_OR_PAR_def paa_table_WAIT_PUA_def paa_table_SESS_TERM_def
  paa_table_WAIT_PEA_def paa_table_CLOSED_def

lemma build_paa_script: "\<not> isl (build_table paa_script)"
  by code_simp

lemma paa_table_built: "build_table paa_script = Inr paa_table"
  using build_paa_script by (cases "build_table paa_script") (simp_all add: paa_table_def)

lemma paa_table_wf: "wf_table paa_table"
  using paa_table_built by (rule wf_build_table)

lemma paa_table_entries: "entries paa_table = concat (map cmd_entries paa_script)"
  using paa_table_built by (rule build_table_entries)

end
