(* ===== verification/Pana_Factory.thy ===== *)
theory Pana_Factory
  imports Pana_Paa Rb_Dbase
begin

text \<open>
  The session factory of the agent (\<open>pana_paa_factory.cxx\<close>): datagrams are given to the session
  that the session data base has for their session identifier, and an initiation or a
  start answer of an unknown session begins one, with or without state of its own before
  the client has answered.
\<close>

text \<open>
  The data base is the indexed red-black tree of \<open>OD_Utl_DbaseTree\<close>; the sessions are objects,
  which a number stands for.  \<open>pf_RetryPSR\<close> is the configuration value that the factory sets
  when it acts with optimisation, and \<open>pf_sent\<close> holds the messages that it sends itself.
\<close>

record pana_factory =
  pf_db :: "(u32, nat) db_entry rb"
  pf_sessions :: "pana_session list"
  pf_RetryPSR :: bool
  pf_sent :: "pana_msg list"
  pf_draws :: nat

definition pf_env :: "pana_env \<Rightarrow> pana_factory \<Rightarrow> pana_env" where
  "pf_env env f = env\<lparr>cfg_RetryPSR := pf_RetryPSR f\<rparr>"

definition pf_new :: "pana_env \<Rightarrow> pana_factory" where
  "pf_new env =
     \<lparr>pf_db = RbNil, pf_sessions = [], pf_RetryPSR = cfg_RetryPSR env, pf_sent = [], pf_draws = 0\<rparr>"

text \<open>Addition to the data base does not replace an entry that is there.\<close>

definition pf_add :: "u32 \<Rightarrow> pana_session \<Rightarrow> pana_factory \<Rightarrow> pana_factory pana_out" where
  "pf_add sid s f =
     (case Dbase_Add sid (length (pf_sessions f)) (pf_db f) of
        None \<Rightarrow> PUndef
      | Some t \<Rightarrow> POk (f\<lparr>pf_db := t, pf_sessions := pf_sessions f @ [s]\<rparr>))"

definition StatelessTxPSR :: "pana_env \<Rightarrow> u32 \<Rightarrow> inet_addr \<Rightarrow> pana_factory \<Rightarrow> pana_factory" where
  "StatelessTxPSR env now a f =
     f\<lparr>pf_sent := pf_sent f @
         [pana_msg_new\<lparr>pm_type := PANA_MTYPE_PSR, pm_seq := pe_rand env (pf_draws f),
            pm_request := True, pm_sessionId := now, pm_dest := a\<rparr>],
       pf_draws := Suc (pf_draws f)\<rparr>"

text \<open>
  \<open>now\<close> is the time of day when the session, or the stateless request, gets its number.
\<close>

definition PacFound :: "pana_env \<Rightarrow> u32 \<Rightarrow> inet_addr \<Rightarrow> pana_factory \<Rightarrow> pana_factory pana_out" where
  "PacFound env now a f =
     (if cfg_OptimizedHandshake env \<or> pf_RetryPSR f then
        (let s = paa_new env now;
             f1 = f\<lparr>pf_RetryPSR := cfg_OptimizedHandshake env \<or> pf_RetryPSR f\<rparr>
         in pf_add (ps_SessionId s)
              (paa_Found (cfg_OptimizedHandshake env) (s\<lparr>ps_PacAddress := a\<rparr>)) f1)
      else POk (StatelessTxPSR env now a f))"

definition pf_RxPCI :: "pana_env \<Rightarrow> u32 \<Rightarrow> pana_msg \<Rightarrow> pana_factory \<Rightarrow> pana_factory pana_out" where
  "pf_RxPCI env now m f =
     (if pm_seq m \<noteq> 0 then PExn INVALID_MESSAGE f
      else if pm_sessionId m \<noteq> 0 then PExn INVALID_MESSAGE f
      else PacFound env now (pm_src m) f)"

definition StatelessRxPSA :: "pana_env \<Rightarrow> u32 \<Rightarrow> pana_msg \<Rightarrow> pana_factory
    \<Rightarrow> pana_factory pana_out" where
  "StatelessRxPSA env now m f =
     (if pm_sessionId m = 0 then PExn NO_MEMORY f
      else pf_add (pm_sessionId m)
        (pana_Receive m
          ((paa_new env now)\<lparr>ps_PacAddress := pm_src m, ps_LastTxSeqNum := pm_seq m,
             ps_SessionId := pm_sessionId m\<rparr>)) f)"

text \<open>
  A session that is found gets the message; what a handler throws leaves \<open>Receive\<close>, to be
  caught and logged by the parser job.
\<close>

definition pf_Receive :: "pana_env \<Rightarrow> u32 \<Rightarrow> pana_msg \<Rightarrow> pana_factory \<Rightarrow> pana_factory pana_out" where
  "pf_Receive env now m f =
     (case Dbase_Search (pm_sessionId m) 0 (pf_db f) of
        Inr i \<Rightarrow> POk (f\<lparr>pf_sessions := (pf_sessions f)[i := pana_Receive m (pf_sessions f ! i)]\<rparr>)
      | Inl _ \<Rightarrow>
          if pm_type m = PANA_MTYPE_PCI then pf_RxPCI env now m f
          else if pm_type m = PANA_MTYPE_PSR then StatelessRxPSA env now m f
          else POk f)"

definition pf_deliver :: "pana_env \<Rightarrow> u32 \<Rightarrow> pana_msg \<Rightarrow> pana_factory \<Rightarrow> pana_factory pana_out" where
  "pf_deliver env now m f = (case pf_Receive env now m f of PExn c f' \<Rightarrow> POk f' | r \<Rightarrow> r)"

text \<open>A session object does one of its own steps.\<close>

definition pf_session_step :: "pana_env \<Rightarrow> nat \<Rightarrow> paa_input \<Rightarrow> pana_factory
    \<Rightarrow> pana_factory pana_out" where
  "pf_session_step env i inp f =
     (if i < length (pf_sessions f) then
        (case paa_step (pf_env env f) inp (pf_sessions f ! i) of
           POk s \<Rightarrow> POk (f\<lparr>pf_sessions := (pf_sessions f)[i := s]\<rparr>)
         | PExn c s \<Rightarrow> PExn c (f\<lparr>pf_sessions := (pf_sessions f)[i := s]\<rparr>)
         | PUndef \<Rightarrow> PUndef)
      else POk f)"

end
