(* ===== verification/Pana_System.thy ===== *)
theory Pana_System
  imports Pana_Factory
begin

text \<open>
  A client and the sessions of an agent connected by a network, and the frame facts with which
  their steps are followed.
\<close>

section \<open>The composition\<close>

fun out_map :: "('a \<Rightarrow> 'b) \<Rightarrow> 'a pana_out \<Rightarrow> 'b pana_out" where
  "out_map f (POk w) = POk (f w)"
| "out_map f (PExn c w) = PExn c (f w)"
| "out_map f PUndef = PUndef"

text \<open>
  Besides the steps of the two sides, the last message that a side has sent may arrive at the
  other one, with the address of its sender.
\<close>

datatype sys_input =
    ClientDoes pac_input
  | AgentDoes nat paa_input
  | ToAgent
  | ToClient nat
  | StartToClient

record pana_net =
  nt_client_env :: pana_env
  nt_agent_env :: pana_env
  nt_client_addr :: inet_addr
  nt_agent_addr :: inet_addr
  nt_now :: u32

definition arrives :: "inet_addr \<Rightarrow> pana_msg list \<Rightarrow> (pana_msg \<Rightarrow> 'w \<Rightarrow> 'w pana_out) \<Rightarrow> 'w \<Rightarrow> 'w pana_out" where
  "arrives a ms f w = (if ms = [] then POk w else f ((last ms)\<lparr>pm_src := a\<rparr>) w)"

fun sys_step :: "pana_net \<Rightarrow> sys_input \<Rightarrow> pana_session \<times> pana_factory
    \<Rightarrow> (pana_session \<times> pana_factory) pana_out" where
  "sys_step n (ClientDoes i) (c, f) = out_map (\<lambda>c'. (c', f)) (pac_step (nt_client_env n) i c)"
| "sys_step n (AgentDoes k i) (c, f) =
     out_map (\<lambda>f'. (c, f')) (pf_session_step (nt_agent_env n) k i f)"
| "sys_step n ToAgent (c, f) =
     out_map (\<lambda>f'. (c, f'))
       (arrives (nt_client_addr n) (ps_sent c) (pf_deliver (nt_agent_env n) (nt_now n)) f)"
| "sys_step n (ToClient k) (c, f) =
     out_map (\<lambda>c'. (c', f))
       (arrives (nt_agent_addr n) (ps_sent (pf_sessions f ! k)) (\<lambda>m w. POk (pana_Receive m w)) c)"
| "sys_step n StartToClient (c, f) =
     out_map (\<lambda>c'. (c', f))
       (arrives (nt_agent_addr n) (pf_sent f) (\<lambda>m w. POk (pana_Receive m w)) c)"

fun sys_run :: "pana_net \<Rightarrow> sys_input list \<Rightarrow> pana_session \<times> pana_factory
    \<Rightarrow> (pana_session \<times> pana_factory) pana_out" where
  "sys_run n [] s = POk s"
| "sys_run n (i # is) s = and_then (sys_step n i s) (sys_run n is)"

lemma and_then_cong: "(\<And>w. f w = g w) \<Longrightarrow> and_then x f = and_then x g"
  by (cases x) auto

lemma sys_run_append: "sys_run n (xs @ ys) s = and_then (sys_run n xs s) (sys_run n ys)"
  by (induction xs arbitrary: s) (auto simp: and_then_assoc intro: and_then_cong)

section \<open>What the steps leave alone\<close>

lemma Cancel_frame [effect_simps]:
  "ps_role (pana_Cancel env t w) = ps_role w"
  "ps_SessionId (pana_Cancel env t w) = ps_SessionId w"
  "ps_PacAddress (pana_Cancel env t w) = ps_PacAddress w"
  "ps_PaaAddress (pana_Cancel env t w) = ps_PaaAddress w"
  "ps_LastTxSeqNum (pana_Cancel env t w) = ps_LastTxSeqNum w"
  "ps_LastRxSeqNum (pana_Cancel env t w) = ps_LastRxSeqNum w"
  "ps_LastTxReqMsg (pana_Cancel env t w) = ps_LastTxReqMsg w"
  "ps_CachedAnsMsg (pana_Cancel env t w) = ps_CachedAnsMsg w"
  "ps_SessionLifetime (pana_Cancel env t w) = ps_SessionLifetime w"
  "ps_LastRxHeader (pana_Cancel env t w) = ps_LastRxHeader w"
  "ps_Authorized (pana_Cancel env t w) = ps_Authorized w"
  "ps_AlgorithmIsSet (pana_Cancel env t w) = ps_AlgorithmIsSet w"
  "ps_RxMsgQueue (pana_Cancel env t w) = ps_RxMsgQueue w"
  "ps_TxEapMessageQueue (pana_Cancel env t w) = ps_TxEapMessageQueue w"
  "ps_SA (pana_Cancel env t w) = ps_SA w"
  "ps_running (pana_Cancel env t w) = ps_running w"
  "ps_state (pana_Cancel env t w) = ps_state w"
  "ps_events (pana_Cancel env t w) = ps_events w"
  "ps_received (pana_Cancel env t w) = ps_received w"
  "ps_sent (pana_Cancel env t w) = ps_sent w"
  "ps_calls (pana_Cancel env t w) = ps_calls w"
  "ps_draws (pana_Cancel env t w) = ps_draws w"
  "ps_app_key (pana_Cancel env t w) = ps_app_key w"
  "ps_app_authorized (pana_Cancel env t w) = ps_app_authorized w"
  "ps_Count (pana_Cancel env t w) = ps_Count w"
  "ps_Duration (pana_Cancel env t w) = ps_Duration w"
  by (simp_all add: pana_Cancel_def)

lemma Schedule_frame [effect_simps]:
  "ps_role (pana_Schedule env t s w) = ps_role w"
  "ps_SessionId (pana_Schedule env t s w) = ps_SessionId w"
  "ps_PacAddress (pana_Schedule env t s w) = ps_PacAddress w"
  "ps_PaaAddress (pana_Schedule env t s w) = ps_PaaAddress w"
  "ps_LastTxSeqNum (pana_Schedule env t s w) = ps_LastTxSeqNum w"
  "ps_LastRxSeqNum (pana_Schedule env t s w) = ps_LastRxSeqNum w"
  "ps_LastTxReqMsg (pana_Schedule env t s w) = ps_LastTxReqMsg w"
  "ps_CachedAnsMsg (pana_Schedule env t s w) = ps_CachedAnsMsg w"
  "ps_SessionLifetime (pana_Schedule env t s w) = ps_SessionLifetime w"
  "ps_LastRxHeader (pana_Schedule env t s w) = ps_LastRxHeader w"
  "ps_Authorized (pana_Schedule env t s w) = ps_Authorized w"
  "ps_AlgorithmIsSet (pana_Schedule env t s w) = ps_AlgorithmIsSet w"
  "ps_RxMsgQueue (pana_Schedule env t s w) = ps_RxMsgQueue w"
  "ps_TxEapMessageQueue (pana_Schedule env t s w) = ps_TxEapMessageQueue w"
  "ps_SA (pana_Schedule env t s w) = ps_SA w"
  "ps_running (pana_Schedule env t s w) = ps_running w"
  "ps_state (pana_Schedule env t s w) = ps_state w"
  "ps_events (pana_Schedule env t s w) = ps_events w"
  "ps_received (pana_Schedule env t s w) = ps_received w"
  "ps_sent (pana_Schedule env t s w) = ps_sent w"
  "ps_calls (pana_Schedule env t s w) = ps_calls w"
  "ps_draws (pana_Schedule env t s w) = ps_draws w"
  "ps_app_key (pana_Schedule env t s w) = ps_app_key w"
  "ps_app_authorized (pana_Schedule env t s w) = ps_app_authorized w"
  "ps_Count (pana_Schedule env t s w) = ps_Count w"
  "ps_Duration (pana_Schedule env t s w) = ps_Duration w"
  by (simp_all add: pana_Schedule_def Let_def)

lemma TxRetry_frame [effect_simps]:
  "ps_role (ScheduleTxRetry env w) = ps_role w"
  "ps_SessionId (ScheduleTxRetry env w) = ps_SessionId w"
  "ps_PacAddress (ScheduleTxRetry env w) = ps_PacAddress w"
  "ps_PaaAddress (ScheduleTxRetry env w) = ps_PaaAddress w"
  "ps_LastTxSeqNum (ScheduleTxRetry env w) = ps_LastTxSeqNum w"
  "ps_LastRxSeqNum (ScheduleTxRetry env w) = ps_LastRxSeqNum w"
  "ps_LastTxReqMsg (ScheduleTxRetry env w) = ps_LastTxReqMsg w"
  "ps_CachedAnsMsg (ScheduleTxRetry env w) = ps_CachedAnsMsg w"
  "ps_SessionLifetime (ScheduleTxRetry env w) = ps_SessionLifetime w"
  "ps_LastRxHeader (ScheduleTxRetry env w) = ps_LastRxHeader w"
  "ps_Authorized (ScheduleTxRetry env w) = ps_Authorized w"
  "ps_AlgorithmIsSet (ScheduleTxRetry env w) = ps_AlgorithmIsSet w"
  "ps_RxMsgQueue (ScheduleTxRetry env w) = ps_RxMsgQueue w"
  "ps_TxEapMessageQueue (ScheduleTxRetry env w) = ps_TxEapMessageQueue w"
  "ps_SA (ScheduleTxRetry env w) = ps_SA w"
  "ps_running (ScheduleTxRetry env w) = ps_running w"
  "ps_state (ScheduleTxRetry env w) = ps_state w"
  "ps_events (ScheduleTxRetry env w) = ps_events w"
  "ps_received (ScheduleTxRetry env w) = ps_received w"
  "ps_sent (ScheduleTxRetry env w) = ps_sent w"
  "ps_calls (ScheduleTxRetry env w) = ps_calls w"
  "ps_app_key (ScheduleTxRetry env w) = ps_app_key w"
  "ps_app_authorized (ScheduleTxRetry env w) = ps_app_authorized w"
  by (simp_all add: ScheduleTxRetry_def rt_cap_def rt_jitter_def pana_Schedule_def Let_def)

lemma TxPrepare_frame [effect_simps]:
  "pm_request (TxPrepareMessage w m) = pm_request m"
  "pm_type (TxPrepareMessage w m) = pm_type m"
  "pm_sessionId (TxPrepareMessage w m) = pm_sessionId m"
  "pm_seq (TxPrepareMessage w m) = pm_seq m"
  "pm_avps (TxPrepareMessage w m) = pm_avps m"
  "pana_hdr.truncate (TxPrepareMessage w m) = pana_hdr.truncate m"
  by (simp_all add: TxPrepareMessage_def pana_hdr.defs split: pana_role.split)

text \<open>Sending a request or an answer, a record update with the timers left open.\<close>

lemmas send_defs = SendReqMsg_def SendAnsMsg_def pana_transmit_def Let_def

end
