(* ===== verification/Pana_Stages.thy ===== *)
theory Pana_Stages
  imports Pana_System
begin

definition pana_idle :: "pana_session \<Rightarrow> bool" where
  "pana_idle w \<longleftrightarrow> ps_running w \<and> ps_events w = [] \<and> ps_received w = [] \<and> ps_RxMsgQueue w = []
     \<and> ps_TxEapMessageQueue w = []"

lemma pac_dispatch:
  "sm_dispatch pac_table True ST_OFFLINE (pac_Get (pac_App APP_AUTH_USER)) = Fire ST_OFFLINE AcTxPCI"
  "sm_dispatch pac_table True ST_OFFLINE (pac_Get (pac_MsgType MT_PSR)) = Fire ST_WAIT_PAA AcRxPSR"
  "sm_dispatch pac_table True ST_WAIT_PAA (pac_Get (pac_MsgType MT_PAR)) = Fire ST_WAIT_EAP_MSG AcRxPAR"
  "sm_dispatch pac_table True ST_WAIT_EAP_MSG (pac_Get (pac_Eap EAP_EV_RESPONSE)) = Fire ST_WAIT_PAA AcTxPAR"
  "sm_dispatch pac_table True ST_WAIT_PAA (pac_Get (pac_MsgType MT_PAN)) = Fire ST_WAIT_PAA AcRxPAN"
  "sm_dispatch pac_table True ST_WAIT_PAA (pac_Get (pac_ResultCode RESULT_CODE_SUCCESS (pac_EapPayload (pac_MsgType MT_PBR)))) = Fire ST_WAIT_EAP_RESULT AcRxPBR"
  "sm_dispatch pac_table True ST_WAIT_EAP_RESULT (pac_Get (pac_KeyId (pac_Eap EAP_EV_SUCCESS))) = Fire ST_OPEN AcEapOpen"
  "sm_dispatch pac_table True ST_WAIT_EAP_RESULT (pac_Get (pac_Eap EAP_EV_SUCCESS)) = Fire ST_OPEN AcEapOpen"
  by code_simp+

lemmas pac_serve_defs = pac_Serve_def pana_Serve_def pac_Handle_def handler_Receive_def pac_event_def
  pana_event_def pac_dispatch pana_Receive_def pana_Notify_def rx_accept_def rx_Dequeue_def
  RxValidateMsg_def RxValidateSeq_def auth_refused_def save_paa_def Let_def pac_states_def
lemma pac_start_stage:
  assumes "pana_idle w" "ps_state w = ST_OFFLINE" "ps_role w = RolePac"
  shows "\<exists>w' m. pac_run env [PacStart, PacServe] w = POk w' \<and> pana_idle w' \<and> ps_role w' = RolePac
    \<and> ps_state w' = ST_OFFLINE \<and> ps_LastRxSeqNum w' = ps_LastRxSeqNum w \<and> ps_SA w' = ps_SA w
    \<and> ps_sent w' = ps_sent w @ [m] \<and> pm_type m = PANA_MTYPE_PCI \<and> \<not> pm_request m \<and> pm_seq m = 0
    \<and> pm_sessionId m = 0 \<and> pm_avps m = []"
  using assms
  by (simp add: pana_idle_def pac_Start_def pac_serve_defs pac_TxPCI_def send_defs effect_simps
      pana_msg_new_def)

lemma pac_PSR_stage:
  assumes "pana_idle w" "ps_state w = ST_OFFLINE" "ps_role w = RolePac" "ps_LastRxSeqNum w = 0"
    and "pm_request m" "pm_type m = PANA_MTYPE_PSR" "pm_avps m = []"
  shows "\<exists>w' m'. pac_run env [PacDatagram m, PacServe] w = POk w' \<and> pana_idle w' \<and> ps_role w' = RolePac
    \<and> ps_state w' = ST_WAIT_PAA \<and> ps_LastRxSeqNum w' = pm_seq m \<and> ps_SessionId w' = pm_sessionId m
    \<and> sa_PacNonce (ps_SA w') = sa_PacNonce (ps_SA w) \<and> sa_PaaNonce (ps_SA w') = sa_PaaNonce (ps_SA w)
    \<and> \<not> sv_set (sa_Auth (ps_SA w'))
    \<and> ps_sent w' = ps_sent w @ [m'] \<and> pm_type m' = PANA_MTYPE_PSR \<and> \<not> pm_request m'
    \<and> pm_seq m' = pm_seq m \<and> pm_sessionId m' = pm_sessionId m \<and> pm_avps m' = []"
  using assms
  by (simp add: pana_idle_def pac_serve_defs pac_CsmRxPSR_def pac_RxPSR_def algo_unsupported_def
      pac_NotifyEapRestart_def sa_Reset_def msk_Reset_def scholar_Reset_def pac_TxPSA_def app_call_def
      send_defs effect_simps pana_answer_def pana_msg_new_def)

lemma pac_PAR_stage:
  assumes "pana_idle w" "ps_state w = ST_WAIT_PAA" "ps_role w = RolePac" "ps_LastRxSeqNum w \<noteq> 0"
    and "serial_inc (ps_LastRxSeqNum w) = ps_LastRxSeqNum w + 1"
    and "pm_request m" "pm_type m = PANA_MTYPE_PAR" "pm_seq m = ps_LastRxSeqNum w + 1"
      "pm_sessionId m = ps_SessionId w" "pm_avps m = [AVP_Eap p, AVP_Nonce n]"
    and "\<not> cfg_EapPiggyback env" "\<not> sv_set (sa_Auth (ps_SA w))" "\<not> sv_set (sa_PacNonce (ps_SA w))"
      "\<not> sv_set (sa_PaaNonce (ps_SA w))"
  shows "\<exists>w' m' n'. pac_run env [PacDatagram m, PacServe] w = POk w' \<and> pana_idle w' \<and> ps_role w' = RolePac
    \<and> ps_state w' = ST_WAIT_EAP_MSG \<and> ps_LastRxSeqNum w' = pm_seq m \<and> ps_SessionId w' = ps_SessionId w
    \<and> sa_PacNonce (ps_SA w') = scholar_Set n' \<and> sa_PaaNonce (ps_SA w') = scholar_Set n
    \<and> \<not> sv_set (sa_Auth (ps_SA w')) \<and> CallEapRequest p \<in> set (ps_calls w')
    \<and> ps_sent w' = ps_sent w @ [m'] \<and> pm_type m' = PANA_MTYPE_PAR \<and> \<not> pm_request m'
    \<and> pm_seq m' = pm_seq m \<and> pm_sessionId m' = pm_sessionId m \<and> pm_avps m' = [AVP_Nonce n']"
  using assms
  by (simp add: pana_idle_def pac_serve_defs pac_CsmRxPA_def pac_RxPAR_def pac_TxPAN_def pac_nonce_def
      nonce_Generate_def add_auth_if_set_def ScheduleEapResponse_def pac_NotifyEapRequest_def
      app_call_def send_defs effect_simps pana_answer_def pana_msg_new_def)

lemma pac_response_stage:
  assumes "pana_idle w" "ps_state w = ST_WAIT_EAP_MSG" "ps_role w = RolePac"
    and "\<not> cfg_EapPiggyback env" "\<not> sv_set (sa_Auth (ps_SA w))"
  shows "\<exists>w' m'. pac_run env [PacEapSendResponse r, PacServe] w = POk w' \<and> pana_idle w'
    \<and> ps_role w' = RolePac \<and> ps_state w' = ST_WAIT_PAA \<and> ps_LastRxSeqNum w' = ps_LastRxSeqNum w
    \<and> ps_SessionId w' = ps_SessionId w \<and> ps_SA w' = ps_SA w
    \<and> ps_sent w' = ps_sent w @ [m'] \<and> pm_type m' = PANA_MTYPE_PAR \<and> pm_request m'
    \<and> pm_seq m' = ps_LastTxSeqNum w' \<and> pm_sessionId m' = ps_SessionId w \<and> pm_avps m' = [AVP_Eap r]"
  using assms
  by (simp add: pana_idle_def pac_EapSendResponse_def pac_serve_defs pac_TxPAR_def eap_Dequeue_def
      next_TxSeq_def add_auth_if_set_def send_defs effect_simps pana_request_def pana_msg_new_def)

lemma pac_PAN_stage:
  assumes "pana_idle w" "ps_state w = ST_WAIT_PAA" "ps_role w = RolePac"
    and "\<not> pm_request m" "pm_type m = PANA_MTYPE_PAR" "pm_seq m = ps_LastTxSeqNum w"
      "pm_sessionId m = ps_SessionId w" "pm_avps m = []"
  shows "\<exists>w'. pac_run env [PacDatagram m, PacServe] w = POk w' \<and> pana_idle w' \<and> ps_role w' = RolePac
    \<and> ps_state w' = ST_WAIT_PAA \<and> ps_LastRxSeqNum w' = ps_LastRxSeqNum w
    \<and> ps_SessionId w' = ps_SessionId w \<and> ps_SA w' = ps_SA w \<and> ps_sent w' = ps_sent w"
  using assms
  by (simp add: pana_idle_def pac_serve_defs pac_CsmRxPA_def pac_RxPAN_def effect_simps)

lemma pac_PBR_stage:
  assumes "pana_idle w" "ps_state w = ST_WAIT_PAA" "ps_role w = RolePac" "ps_LastRxSeqNum w \<noteq> 0"
    and "serial_inc (ps_LastRxSeqNum w) = ps_LastRxSeqNum w + 1"
    and "pm_request m" "pm_type m = PANA_MTYPE_PBR" "pm_seq m = ps_LastRxSeqNum w + 1"
      "pm_sessionId m = ps_SessionId w"
    and "pana_GetAvp as_resultcode (pm_avps m) = Some PANA_RCODE_SUCCESS"
      "pana_GetAvp as_eap (pm_avps m) = Some p" "pana_GetAvp as_keyid (pm_avps m) = Some kid"
      "\<not> algo_unsupported m"
  shows "\<exists>w'. pac_run env [PacDatagram m, PacServe] w = POk w' \<and> pana_idle w' \<and> ps_role w' = RolePac
    \<and> ps_state w' = ST_WAIT_EAP_RESULT \<and> ps_LastRxSeqNum w' = pm_seq m
    \<and> ps_SessionId w' = ps_SessionId w \<and> ps_SA w' = (ps_SA w)\<lparr>sa_MskId := kid\<rparr>
    \<and> ps_sent w' = ps_sent w"
  using assms
  by (simp add: pana_idle_def pac_serve_defs pac_CsmRxPBR_def
      pac_PBR_event_def pac_RxPBR_def pac_NotifyEapRequest_def app_call_def effect_simps
      split: option.split)

definition pac_bound_sa :: "pana_env \<Rightarrow> pana_octets \<Rightarrow> pana_session \<Rightarrow> pana_sa" where
  "pac_bound_sa env k w = GenerateAuthKey env ((ps_SA w)\<lparr>sa_MSK := scholar_Set k\<rparr>) (ps_SessionId w)"

lemma pac_success_stage:
  assumes "pana_idle w" "ps_state w = ST_WAIT_EAP_RESULT" "ps_role w = RolePac"
    and "sa_MskId (ps_SA w) \<noteq> 0"
  shows "\<exists>w' m' a. pac_run env [PacKey (Some k), PacEapSuccess, PacServe] w = POk w'
    \<and> ps_state w' = ST_OPEN \<and> ps_SA w' = pac_bound_sa env k w
    \<and> ps_sent w' = ps_sent w @ [m'] \<and> pm_type m' = PANA_MTYPE_PBR \<and> \<not> pm_request m'
    \<and> pm_seq m' = ps_LastRxSeqNum w \<and> pm_sessionId m' = ps_SessionId w
    \<and> pm_avps m' = [AVP_KeyId (sa_MskId (ps_SA w)),
         AVP_Auth (GenerateAuthAvpValue env (pac_bound_sa env k w) (pana_hdr.truncate m')
           [AVP_KeyId (sa_MskId (ps_SA w)), AVP_Auth no_auth])]
    \<and> ps_calls w' = ps_calls w @ [CallAuthorize a] \<and> aa_Key a = Some k
    \<and> ps_SessionId w' = ps_SessionId w"
  using assms
  by (simp add: pana_idle_def pac_serve_defs pac_EapSuccess_def word_neq_0_conv pac_EapOpen_def
      pac_TxPBA_def pac_new_key_def AddKeyIdAvp_def AddAuthAvp_def GenerateAuthKey_def
      NotifyScheduleLifetime_def pac_NotifyAuthorization_def app_call_def send_defs effect_simps
      pana_answer_def pana_msg_new_def pac_bound_sa_def scholar_Set_def pana_hdr.defs)

section \<open>The agent\<close>

lemma paa_dispatch:
  "sm_dispatch paa_table True ST_OFFLINE (paa_Get (paa_App APP_PAC_FOUND)) = Fire ST_OFFLINE AgTxPSR"
  "sm_dispatch paa_table True ST_OFFLINE (paa_Get (paa_MsgType MT_PSA)) = Fire ST_WAIT_EAP_MSG AgRxPSA"
  "sm_dispatch paa_table True ST_WAIT_EAP_MSG (paa_Get (paa_Eap EAP_EV_REQUEST))
     = Fire ST_WAIT_PAN_OR_PAR AgTxPAR"
  "sm_dispatch paa_table True ST_WAIT_PAN_OR_PAR (paa_Get (paa_MsgType MT_PAN))
     = Fire ST_WAIT_PAN_OR_PAR AgRxPAN"
  "sm_dispatch paa_table True ST_WAIT_PAN_OR_PAR (paa_Get (paa_MsgType MT_PAR))
     = Fire ST_WAIT_EAP_MSG AgRxPAR"
  "sm_dispatch paa_table True ST_WAIT_EAP_MSG (paa_Get (paa_Authorize (paa_Eap EAP_EV_SUCCESS)))
     = Fire ST_WAIT_SUCC_PBA AgTxPBREapSuccess"
  "sm_dispatch paa_table True ST_WAIT_SUCC_PBA (paa_Get (paa_MsgType MT_PBA))
     = Fire ST_OPEN AgRxPBASuccess"
  by code_simp+

lemmas paa_serve_defs = paa_Serve_def pana_Serve_def paa_Handle_def handler_Receive_def paa_event_def
  pana_event_def paa_dispatch pana_Receive_def pana_Notify_def rx_accept_def rx_Dequeue_def
  RxValidateMsg_def RxValidateSeq_def auth_refused_def save_pac_def Let_def paa_states_def paa_accept_def

lemma paa_PSR_stage:
  assumes "ps_running w" "ps_events w = [paa_Get (paa_App APP_PAC_FOUND)]" "ps_received w = []"
      "ps_RxMsgQueue w = []" "ps_TxEapMessageQueue w = []" "ps_state w = ST_OFFLINE"
      "ps_role w = RolePaa" "\<not> cfg_OptimizedHandshake env"
  shows "\<exists>w' m'. paa_run env [PaaServe] w = POk w' \<and> pana_idle w' \<and> ps_role w' = RolePaa
    \<and> ps_state w' = ST_OFFLINE \<and> ps_LastTxSeqNum w' = serial_inc (ps_LastTxSeqNum w)
    \<and> ps_LastRxSeqNum w' = ps_LastRxSeqNum w
    \<and> ps_SessionId w' = ps_SessionId w \<and> ps_SA w' = ps_SA w
    \<and> ps_AlgorithmIsSet w' = ps_AlgorithmIsSet w
    \<and> ps_sent w' = ps_sent w @ [m'] \<and> pm_type m' = PANA_MTYPE_PSR \<and> pm_request m'
    \<and> pm_seq m' = ps_LastTxSeqNum w' \<and> pm_sessionId m' = ps_SessionId w \<and> pm_avps m' = []"
  using assms
  by (simp add: pana_idle_def paa_serve_defs paa_TxPSR_def next_TxSeq_def send_defs effect_simps
      pana_request_def pana_msg_new_def)

lemma paa_PSA_stage:
  assumes "ps_running w" "ps_events w = []" "ps_received w = [m]"
      "ps_RxMsgQueue w = []" "ps_TxEapMessageQueue w = []" "ps_state w = ST_OFFLINE"
      "ps_role w = RolePaa" "\<not> cfg_OptimizedHandshake env"
    and "\<not> pm_request m" "pm_type m = PANA_MTYPE_PSR" "pm_seq m = ps_LastTxSeqNum w"
      "pm_sessionId m = ps_SessionId w" "pm_avps m = []"
  shows "\<exists>w'. paa_run env [PaaServe] w = POk w' \<and> pana_idle w' \<and> ps_role w' = RolePaa
    \<and> ps_state w' = ST_WAIT_EAP_MSG \<and> ps_LastTxSeqNum w' = ps_LastTxSeqNum w
    \<and> ps_LastRxSeqNum w' = ps_LastRxSeqNum w
    \<and> ps_SessionId w' = ps_SessionId w \<and> ps_SA w' = ps_SA w
    \<and> ps_AlgorithmIsSet w' = ps_AlgorithmIsSet w \<and> ps_sent w' = ps_sent w"
  using assms
  by (simp add: pana_idle_def paa_serve_defs paa_PsmRxPSA_def paa_RxPSA_def paa_NotifyEapRestart_def
      app_call_def effect_simps)

lemma paa_PAR_stage:
  assumes "pana_idle w" "ps_state w = ST_WAIT_EAP_MSG" "ps_role w = RolePaa"
      "\<not> sv_set (sa_Auth (ps_SA w))" "\<not> sv_set (sa_PaaNonce (ps_SA w))"
  shows "\<exists>w' m' n. paa_run env [PaaEapSendRequest p, PaaServe] w = POk w' \<and> pana_idle w'
    \<and> ps_role w' = RolePaa \<and> ps_state w' = ST_WAIT_PAN_OR_PAR
    \<and> ps_LastTxSeqNum w' = serial_inc (ps_LastTxSeqNum w)
    \<and> ps_LastRxSeqNum w' = ps_LastRxSeqNum w \<and> ps_SessionId w' = ps_SessionId w
    \<and> ps_SA w' = (ps_SA w)\<lparr>sa_PaaNonce := scholar_Set n\<rparr>
    \<and> ps_AlgorithmIsSet w' = ps_AlgorithmIsSet w
    \<and> ps_sent w' = ps_sent w @ [m'] \<and> pm_type m' = PANA_MTYPE_PAR \<and> pm_request m'
    \<and> pm_seq m' = ps_LastTxSeqNum w' \<and> pm_sessionId m' = ps_SessionId w
    \<and> pm_avps m' = [AVP_Eap p, AVP_Nonce n]"
  using assms
  by (simp add: pana_idle_def paa_EapSendRequest_def paa_queue_eap_def paa_serve_defs paa_TxPAR_def
      paa_nonce_def nonce_Generate_def add_auth_if_set_def next_TxSeq_def send_defs effect_simps
      pana_request_def pana_msg_new_def)

lemma paa_PAN_stage:
  assumes "pana_idle w" "ps_state w = ST_WAIT_PAN_OR_PAR" "ps_role w = RolePaa"
      "\<not> sv_set (sa_PacNonce (ps_SA w))"
    and "\<not> pm_request m" "pm_type m = PANA_MTYPE_PAR" "pm_seq m = ps_LastTxSeqNum w"
      "pm_sessionId m = ps_SessionId w" "pm_avps m = [AVP_Nonce n]"
  shows "\<exists>w'. paa_run env [PaaServe] (pana_Receive m w) = POk w' \<and> pana_idle w'
    \<and> ps_role w' = RolePaa \<and> ps_state w' = ST_WAIT_PAN_OR_PAR
    \<and> ps_LastTxSeqNum w' = ps_LastTxSeqNum w
    \<and> ps_LastRxSeqNum w' = ps_LastRxSeqNum w \<and> ps_SessionId w' = ps_SessionId w
    \<and> ps_SA w' = (ps_SA w)\<lparr>sa_PacNonce := scholar_Set n\<rparr>
    \<and> ps_AlgorithmIsSet w' = ps_AlgorithmIsSet w \<and> ps_sent w' = ps_sent w"
  using assms
  by (simp add: pana_idle_def paa_serve_defs paa_PsmRxPA_def paa_RxPAN_def effect_simps)

lemma paa_rxPAR_stage:
  assumes "pana_idle w" "ps_state w = ST_WAIT_PAN_OR_PAR" "ps_role w = RolePaa"
      "\<not> sv_set (sa_Auth (ps_SA w))" "ps_LastRxSeqNum w = 0"
    and "pm_request m" "pm_type m = PANA_MTYPE_PAR"
      "pm_sessionId m = ps_SessionId w" "pm_avps m = [AVP_Eap r]"
  shows "\<exists>w' m'. paa_run env [PaaServe] (pana_Receive m w) = POk w' \<and> pana_idle w'
    \<and> ps_role w' = RolePaa \<and> ps_state w' = ST_WAIT_EAP_MSG
    \<and> ps_LastTxSeqNum w' = ps_LastTxSeqNum w \<and> ps_SessionId w' = ps_SessionId w
    \<and> ps_SA w' = ps_SA w \<and> ps_AlgorithmIsSet w' = ps_AlgorithmIsSet w
    \<and> CallEapResponse r \<in> set (ps_calls w')
    \<and> ps_sent w' = ps_sent w @ [m'] \<and> pm_type m' = PANA_MTYPE_PAR \<and> \<not> pm_request m'
    \<and> pm_seq m' = pm_seq m \<and> pm_sessionId m' = ps_SessionId w \<and> pm_avps m' = []"
  using assms
  by (simp add: pana_idle_def paa_serve_defs paa_PsmRxPA_def paa_RxPAR_def paa_NotifyEapResponse_def
      app_call_def paa_TxPAN_def add_auth_if_set_def send_defs effect_simps pana_answer_def
      pana_msg_new_def)

lemma paa_PBR_stage:
  assumes "pana_idle w" "ps_state w = ST_WAIT_EAP_MSG" "ps_role w = RolePaa"
    and "\<not> ps_AlgorithmIsSet w"
  shows "\<exists>w' m'. paa_run env [PaaUser True, PaaKey (Some k), PaaEapSuccess (Some p), PaaServe] w = POk w'
    \<and> pana_idle w' \<and> ps_role w' = RolePaa \<and> ps_state w' = ST_WAIT_SUCC_PBA
    \<and> ps_LastTxSeqNum w' = serial_inc (ps_LastTxSeqNum w) \<and> ps_SessionId w' = ps_SessionId w
    \<and> ps_SA w' = pac_bound_sa env k w
    \<and> ps_sent w' = ps_sent w @ [m'] \<and> pm_type m' = PANA_MTYPE_PBR \<and> pm_request m'
    \<and> pm_seq m' = ps_LastTxSeqNum w' \<and> pm_sessionId m' = ps_SessionId w
    \<and> pana_GetAvp as_resultcode (pm_avps m') = Some PANA_RCODE_SUCCESS
    \<and> pana_GetAvp as_eap (pm_avps m') = Some p
    \<and> pana_GetAvp as_keyid (pm_avps m') = Some (sa_MskId (ps_SA w))
    \<and> \<not> algo_unsupported m'"
  using assms
  by (simp add: pana_idle_def paa_EapSuccess_def paa_IsUserAuthorized_def paa_queue_eap_def
      paa_serve_defs paa_TxPBR_def eap_Dequeue_def paa_bind_avps_def paa_bind_key_def next_TxSeq_def
      add_auth_if_set_def AddAuthAvp_def GenerateAuthKey_def scholar_Set_def pac_bound_sa_def
      algo_unsupported_def send_defs effect_simps pana_request_def pana_msg_new_def)

lemma paa_PBA_stage:
  assumes "pana_idle w" "ps_state w = ST_WAIT_SUCC_PBA" "ps_role w = RolePaa"
    and "\<not> pm_request m" "pm_type m = PANA_MTYPE_PBR" "pm_seq m = ps_LastTxSeqNum w"
      "pm_sessionId m = ps_SessionId w"
      "pm_avps m = [AVP_KeyId kid, AVP_Auth (GenerateAuthAvpValue env (ps_SA w) (pana_hdr.truncate m)
         [AVP_KeyId kid, AVP_Auth no_auth])]"
    and "sa_MSK (ps_SA w) = scholar_Set k"
  shows "\<exists>w' a. paa_run env [PaaServe] (pana_Receive m w) = POk w' \<and> ps_state w' = ST_OPEN
    \<and> ps_SA w' = ps_SA w \<and> ps_calls w' = ps_calls w @ [CallAuthorize a] \<and> aa_Key a = Some k
    \<and> ps_SessionId w' = ps_SessionId w"
  using assms
  by (simp add: pana_idle_def paa_serve_defs paa_PsmRxPBA_def ValidateAuthAvp_def paa_RxPBA_def
      NotifyScheduleLifetime_def paa_NotifyAuthorization_def app_call_def scholar_Set_def effect_simps)

end
