(* ===== verification/Pana_Handshake.thy ===== *)
theory Pana_Handshake
  imports Pana_Stages
begin

text \<open>
  The authentication of a client by an agent, followed from stage to stage: each lemma takes
  the two sides over one exchange of messages.
\<close>

section \<open>The two sides and the network\<close>

text \<open>One session, which the data base has for its identifier.\<close>

definition serves :: "pana_factory \<Rightarrow> u32 \<Rightarrow> pana_session \<Rightarrow> bool" where
  "serves f sid s \<longleftrightarrow> pf_sessions f = [s] \<and> Dbase_Search sid 0 (pf_db f) = Inr 0"

lemma sys_client:
  "pac_run (nt_client_env n) is c = POk c' \<Longrightarrow> sys_run n (map ClientDoes is) (c, f) = POk (c', f)"
proof (induction "is" arbitrary: c)
  case (Cons i "is")
  then show ?case by (cases "pac_step (nt_client_env n) i c") auto
qed simp

lemma sys_then: "sys_run n xs s = POk s' \<Longrightarrow> sys_run n ys s' = r \<Longrightarrow> sys_run n (xs @ ys) s = r"
  by (simp add: sys_run_append)

lemma serves_update [simp]: "serves f sid s \<Longrightarrow> serves (f\<lparr>pf_sessions := [s']\<rparr>) sid s'"
  by (simp add: serves_def)

lemma sys_agent:
  "paa_run (pf_env (nt_agent_env n) f) is s = POk s' \<Longrightarrow> serves f sid s
    \<Longrightarrow> sys_run n (map (AgentDoes 0) is) (c, f) = POk (c, f\<lparr>pf_sessions := [s']\<rparr>)"
proof (induction "is" arbitrary: s f)
  case Nil
  then show ?case by (simp add: serves_def)
next
  case (Cons i "is")
  from Cons.prems obtain s1 where s1: "paa_step (pf_env (nt_agent_env n) f) i s = POk s1"
    and run: "paa_run (pf_env (nt_agent_env n) f) is s1 = POk s'"
    by (cases "paa_step (pf_env (nt_agent_env n) f) i s") auto
  have "pf_env (nt_agent_env n) (f\<lparr>pf_sessions := [s1]\<rparr>) = pf_env (nt_agent_env n) f"
    by (simp add: pf_env_def)
  with Cons.IH [of "f\<lparr>pf_sessions := [s1]\<rparr>" s1] run Cons.prems(2) s1 show ?case
    by (simp add: pf_session_step_def serves_def)
qed

lemma sys_to_client:
  assumes "serves f sid s" "ps_sent s = xs @ [m]"
    and "pac_run (nt_client_env n) (PacDatagram (m\<lparr>pm_src := nt_agent_addr n\<rparr>) # is) c = POk c'"
  shows "sys_run n (ToClient 0 # map ClientDoes is) (c, f) = POk (c', f)"
  using sys_client [OF assms(3)] assms(1,2) by (simp add: serves_def arrives_def)

lemma sys_to_agent:
  assumes "serves f sid s" "ps_sent c = xs @ [m]" "pm_sessionId m = sid"
    and "paa_run (pf_env (nt_agent_env n) f) is
      (pana_Receive (m\<lparr>pm_src := nt_client_addr n\<rparr>) s) = POk s'"
  shows "sys_run n (ToAgent # map (AgentDoes 0) is) (c, f) = POk (c, f\<lparr>pf_sessions := [s']\<rparr>)"
proof -
  let ?s = "pana_Receive (m\<lparr>pm_src := nt_client_addr n\<rparr>) s"
  let ?f = "f\<lparr>pf_sessions := [?s]\<rparr>"
  have "sys_step n ToAgent (c, f) = POk (c, ?f)"
    using assms(1-3) by (simp add: serves_def arrives_def pf_deliver_def pf_Receive_def)
  moreover have "pf_env (nt_agent_env n) ?f = pf_env (nt_agent_env n) f" by (simp add: pf_env_def)
  ultimately show ?thesis
    using sys_agent [of n ?f "is" ?s s' sid c] assms(1,4) by simp
qed

lemma truncate_src [simp]: "pana_hdr.truncate (m\<lparr>pm_src := a\<rparr>) = pana_hdr.truncate m"
  by (simp add: pana_hdr.defs)

lemma algo_src [simp]: "algo_unsupported (m\<lparr>pm_src := a\<rparr>) = algo_unsupported m"
  by (simp add: algo_unsupported_def)

lemma bound_sa_eq:
  "sa_MskId (ps_SA w) = sa_MskId (ps_SA v) \<Longrightarrow> sa_PacNonce (ps_SA w) = sa_PacNonce (ps_SA v)
    \<Longrightarrow> sa_PaaNonce (ps_SA w) = sa_PaaNonce (ps_SA v) \<Longrightarrow> ps_SessionId w = ps_SessionId v
    \<Longrightarrow> pe_sha1 e = pe_sha1 d \<Longrightarrow> pac_bound_sa e k w = pac_bound_sa d k v"
  by (simp add: pac_bound_sa_def GenerateAuthKey_def auth_key_def)

section \<open>Between two exchanges\<close>

definition hs_link :: "pana_session \<Rightarrow> pana_factory \<Rightarrow> pana_session \<Rightarrow> u32 \<Rightarrow> bool" where
  "hs_link c f s q \<longleftrightarrow>
     pana_idle c \<and> ps_role c = RolePac \<and> ps_LastRxSeqNum c = q
     \<and> pana_idle s \<and> ps_role s = RolePaa \<and> ps_LastTxSeqNum s = q
     \<and> ps_SessionId c = ps_SessionId s \<and> serves f (ps_SessionId s) s"

text \<open>No key yet: the key identifier of the agent is set and no message is authenticated.\<close>

definition hs_open_air :: "pana_session \<Rightarrow> pana_session \<Rightarrow> bool" where
  "hs_open_air c s \<longleftrightarrow>
     \<not> sv_set (sa_Auth (ps_SA c)) \<and> \<not> sv_set (sa_Auth (ps_SA s)) \<and> \<not> ps_AlgorithmIsSet s
     \<and> ps_LastRxSeqNum s = 0 \<and> sa_MskId (ps_SA s) \<noteq> 0"

definition hs_met :: "pana_session \<Rightarrow> pana_factory \<Rightarrow> pana_session \<Rightarrow> u32 \<Rightarrow> bool" where
  "hs_met c f s q \<longleftrightarrow> hs_link c f s q \<and> hs_open_air c s
     \<and> ps_state c = ST_WAIT_PAA \<and> ps_state s = ST_WAIT_EAP_MSG
     \<and> \<not> sv_set (sa_PacNonce (ps_SA c)) \<and> \<not> sv_set (sa_PaaNonce (ps_SA c))
     \<and> \<not> sv_set (sa_PacNonce (ps_SA s)) \<and> \<not> sv_set (sa_PaaNonce (ps_SA s))"

definition same_nonces :: "pana_session \<Rightarrow> pana_session \<Rightarrow> bool" where
  "same_nonces c s \<longleftrightarrow> sa_PacNonce (ps_SA c) = sa_PacNonce (ps_SA s)
     \<and> sa_PaaNonce (ps_SA c) = sa_PaaNonce (ps_SA s)"

definition serial_small :: "u32 \<Rightarrow> nat \<Rightarrow> bool" where
  "serial_small q n \<longleftrightarrow> q \<noteq> 0 \<and> unat q + n < 2 ^ 31"

lemma serial_small_inc:
  assumes "serial_small q (Suc n)"
  shows "serial_inc q = q + 1" "serial_small (q + 1) n"
proof -
  show "serial_inc q = q + 1" using assms by (intro serial_inc_below) (simp add: serial_small_def)
  have "unat (q + 1) = unat q + 1" using assms by (simp add: serial_small_def unat_word_ariths)
  moreover from this have "q + 1 \<noteq> 0" by (metis Suc_eq_plus1 nat.distinct(1) unat_0)
  ultimately show "serial_small (q + 1) n" using assms by (simp add: serial_small_def)
qed

lemmas hs_defs = hs_link_def hs_open_air_def same_nonces_def

definition hs_request :: "pana_octets \<Rightarrow> sys_input list" where
  "hs_request p = [AgentDoes 0 (PaaEapSendRequest p), AgentDoes 0 PaaServe]
     @ [ToClient 0, ClientDoes PacServe] @ [ToAgent, AgentDoes 0 PaaServe]"

definition hs_response :: "pana_octets \<Rightarrow> sys_input list" where
  "hs_response r = [ClientDoes (PacEapSendResponse r), ClientDoes PacServe]
     @ [ToAgent, AgentDoes 0 PaaServe] @ [ToClient 0, ClientDoes PacServe]"

definition hs_success :: "pana_octets \<Rightarrow> pana_octets \<Rightarrow> sys_input list" where
  "hs_success p k = [AgentDoes 0 (PaaUser True), AgentDoes 0 (PaaKey (Some k)),
       AgentDoes 0 (PaaEapSuccess (Some p)), AgentDoes 0 PaaServe]
     @ [ToClient 0, ClientDoes PacServe]"

definition hs_bind :: "pana_octets \<Rightarrow> sys_input list" where
  "hs_bind k = [ClientDoes (PacKey (Some k)), ClientDoes PacEapSuccess, ClientDoes PacServe]
     @ [ToAgent, AgentDoes 0 PaaServe]"

lemma env_sessions [simp]: "pf_env e (f\<lparr>pf_sessions := x\<rparr>) = pf_env e f"
  by (simp add: pf_env_def)

lemma serves_any: "serves f i s \<Longrightarrow> serves (f\<lparr>pf_sessions := [x]\<rparr>) i x"
  by (rule serves_update)

section \<open>The exchanges\<close>

lemma hs_request_run:
  assumes met: "hs_met c f s q" and q: "serial_small q (Suc i)"
    and cfg: "\<not> cfg_EapPiggyback (nt_client_env n)"
  shows "\<exists>c' s'. sys_run n (hs_request p) (c, f) = POk (c', f\<lparr>pf_sessions := [s']\<rparr>)
    \<and> hs_link c' (f\<lparr>pf_sessions := [s']\<rparr>) s' (q + 1) \<and> hs_open_air c' s' \<and> same_nonces c' s'
    \<and> ps_state c' = ST_WAIT_EAP_MSG \<and> ps_state s' = ST_WAIT_PAN_OR_PAR"
proof -
  let ?ce = "nt_client_env n" and ?ae = "pf_env (nt_agent_env n) f"
  let ?at = "\<lambda>m. m\<lparr>pm_src := nt_client_addr n\<rparr>" and ?ct = "\<lambda>m. m\<lparr>pm_src := nt_agent_addr n\<rparr>"
  note M = met [unfolded hs_met_def hs_defs]
  have srv: "serves f (ps_SessionId s) s" using M by simp
  note inc = serial_small_inc [OF q]
  obtain s1 m1 n1 where s1: "paa_run ?ae [PaaEapSendRequest p, PaaServe] s = POk s1"
    "pana_idle s1" "ps_role s1 = RolePaa" "ps_state s1 = ST_WAIT_PAN_OR_PAR"
    "ps_LastTxSeqNum s1 = q + 1" "ps_LastRxSeqNum s1 = 0" "ps_SessionId s1 = ps_SessionId s"
    "ps_SA s1 = (ps_SA s)\<lparr>sa_PaaNonce := scholar_Set n1\<rparr>" "\<not> ps_AlgorithmIsSet s1"
    "ps_sent s1 = ps_sent s @ [m1]" "pm_type m1 = PANA_MTYPE_PAR" "pm_request m1"
    "pm_seq m1 = q + 1" "pm_sessionId m1 = ps_SessionId s" "pm_avps m1 = [AVP_Eap p, AVP_Nonce n1]"
    using paa_PAR_stage [of s ?ae p] M inc by auto
  note r1 = sys_agent [where n = n, OF s1(1) srv, of c]
  obtain c1 m2 n2 where c1: "pac_run ?ce [PacDatagram (?ct m1), PacServe] c = POk c1"
    "pana_idle c1" "ps_role c1 = RolePac" "ps_state c1 = ST_WAIT_EAP_MSG"
    "ps_LastRxSeqNum c1 = q + 1" "ps_SessionId c1 = ps_SessionId s"
    "sa_PacNonce (ps_SA c1) = scholar_Set n2" "sa_PaaNonce (ps_SA c1) = scholar_Set n1"
    "\<not> sv_set (sa_Auth (ps_SA c1))" "ps_sent c1 = ps_sent c @ [m2]" "pm_type m2 = PANA_MTYPE_PAR"
    "\<not> pm_request m2" "pm_seq m2 = q + 1" "pm_sessionId m2 = ps_SessionId s"
    "pm_avps m2 = [AVP_Nonce n2]"
    using pac_PAR_stage [of c "?ct m1" p n1 ?ce] M s1 cfg inc q by (auto simp: serial_small_def)
  note r2 = sys_to_client [where n = n, OF serves_any [OF srv] s1(10) c1(1)]
  obtain s2 where s2: "paa_run ?ae [PaaServe] (pana_Receive (?at m2) s1) = POk s2"
    "pana_idle s2" "ps_role s2 = RolePaa" "ps_state s2 = ST_WAIT_PAN_OR_PAR"
    "ps_LastTxSeqNum s2 = q + 1" "ps_LastRxSeqNum s2 = 0" "ps_SessionId s2 = ps_SessionId s"
    "ps_SA s2 = (ps_SA s1)\<lparr>sa_PacNonce := scholar_Set n2\<rparr>" "\<not> ps_AlgorithmIsSet s2"
    using paa_PAN_stage [of s1 "?at m2" n2 ?ae] M s1 c1 by auto
  note r3 = sys_to_agent [where n = n, OF serves_any [OF srv] c1(10) c1(14), unfolded env_sessions, OF s2(1)]
  have "sys_run n (hs_request p) (c, f) = POk (c1, f\<lparr>pf_sessions := [s2]\<rparr>)"
    unfolding hs_request_def by (rule sys_then, rule r1 [simplified list.map],
      rule sys_then, rule r2 [simplified list.map], use r3 in simp)
  then show ?thesis
    using s1 s2 c1 M srv by (intro exI [of _ c1] exI [of _ s2]) (auto simp: hs_defs serves_any)
qed

lemma hs_response_run:
  assumes link: "hs_link c f s q" "hs_open_air c s" "same_nonces c s"
    and st: "ps_state c = ST_WAIT_EAP_MSG" "ps_state s = ST_WAIT_PAN_OR_PAR"
    and cfg: "\<not> cfg_EapPiggyback (nt_client_env n)"
  shows "\<exists>c' s'. sys_run n (hs_response r) (c, f) = POk (c', f\<lparr>pf_sessions := [s']\<rparr>)
    \<and> hs_link c' (f\<lparr>pf_sessions := [s']\<rparr>) s' q \<and> same_nonces c' s' \<and> \<not> ps_AlgorithmIsSet s'
    \<and> sa_MskId (ps_SA s') \<noteq> 0 \<and> ps_state c' = ST_WAIT_PAA \<and> ps_state s' = ST_WAIT_EAP_MSG"
proof -
  let ?ce = "nt_client_env n" and ?ae = "pf_env (nt_agent_env n) f"
  let ?at = "\<lambda>m. m\<lparr>pm_src := nt_client_addr n\<rparr>" and ?ct = "\<lambda>m. m\<lparr>pm_src := nt_agent_addr n\<rparr>"
  note M = link [unfolded hs_defs] st
  have srv: "serves f (ps_SessionId s) s" using M by simp
  obtain c2 m3 where c2: "pac_run ?ce [PacEapSendResponse r, PacServe] c = POk c2"
    "pana_idle c2" "ps_role c2 = RolePac" "ps_state c2 = ST_WAIT_PAA" "ps_LastRxSeqNum c2 = q"
    "ps_SessionId c2 = ps_SessionId s" "ps_SA c2 = ps_SA c" "ps_sent c2 = ps_sent c @ [m3]"
    "pm_type m3 = PANA_MTYPE_PAR" "pm_request m3" "pm_seq m3 = ps_LastTxSeqNum c2"
    "pm_sessionId m3 = ps_SessionId s" "pm_avps m3 = [AVP_Eap r]"
    using pac_response_stage [of c ?ce r] M cfg by auto
  note r4 = sys_client [where n = n, OF c2(1), of f]
  obtain s3 m4 where s3: "paa_run ?ae [PaaServe] (pana_Receive (?at m3) s) = POk s3"
    "pana_idle s3" "ps_role s3 = RolePaa" "ps_state s3 = ST_WAIT_EAP_MSG"
    "ps_LastTxSeqNum s3 = q" "ps_SessionId s3 = ps_SessionId s" "ps_SA s3 = ps_SA s"
    "\<not> ps_AlgorithmIsSet s3" "ps_sent s3 = ps_sent s @ [m4]" "pm_type m4 = PANA_MTYPE_PAR"
    "\<not> pm_request m4" "pm_seq m4 = pm_seq m3" "pm_sessionId m4 = ps_SessionId s" "pm_avps m4 = []"
    using paa_rxPAR_stage [of s "?at m3" r ?ae] M c2 by auto
  note r5 = sys_to_agent [where n = n, OF srv c2(8) c2(12) s3(1)]
  obtain c3 where c3: "pac_run ?ce [PacDatagram (?ct m4), PacServe] c2 = POk c3"
    "pana_idle c3" "ps_role c3 = RolePac" "ps_state c3 = ST_WAIT_PAA" "ps_LastRxSeqNum c3 = q"
    "ps_SessionId c3 = ps_SessionId s" "ps_SA c3 = ps_SA c"
    using pac_PAN_stage [of c2 "?ct m4" ?ce] c2 s3 by auto
  note r6 = sys_to_client [where n = n, OF serves_any [OF srv] s3(9) c3(1)]
  have "sys_run n (hs_response r) (c, f) = POk (c3, f\<lparr>pf_sessions := [s3]\<rparr>)"
    unfolding hs_response_def by (rule sys_then, rule r4 [simplified list.map],
      rule sys_then, rule r5 [simplified list.map], use r6 in simp)
  then show ?thesis
    using s3 c3 M srv by (intro exI [of _ c3] exI [of _ s3]) (auto simp: hs_defs serves_any)
qed

lemma hs_success_run:
  assumes link: "hs_link c f s q" "same_nonces c s" "\<not> ps_AlgorithmIsSet s" "sa_MskId (ps_SA s) \<noteq> 0"
    and st: "ps_state c = ST_WAIT_PAA" "ps_state s = ST_WAIT_EAP_MSG"
    and q: "serial_small q (Suc i)" and sha: "pe_sha1 (nt_client_env n) = pe_sha1 (nt_agent_env n)"
  shows "\<exists>c' s'. sys_run n (hs_success p k) (c, f) = POk (c', f\<lparr>pf_sessions := [s']\<rparr>)
    \<and> hs_link c' (f\<lparr>pf_sessions := [s']\<rparr>) s' (q + 1) \<and> sa_MskId (ps_SA c') \<noteq> 0
    \<and> ps_state c' = ST_WAIT_EAP_RESULT \<and> ps_state s' = ST_WAIT_SUCC_PBA
    \<and> ps_SA s' = pac_bound_sa (nt_client_env n) k c'"
proof -
  let ?ce = "nt_client_env n" and ?ae = "pf_env (nt_agent_env n) f"
  let ?ct = "\<lambda>m. m\<lparr>pm_src := nt_agent_addr n\<rparr>"
  note M = link [unfolded hs_defs] st
  have srv: "serves f (ps_SessionId s) s" using M by simp
  note inc = serial_small_inc [OF q]
  obtain s4 m5 where s4: "paa_run ?ae [PaaUser True, PaaKey (Some k), PaaEapSuccess (Some p), PaaServe] s = POk s4"
    "pana_idle s4" "ps_role s4 = RolePaa" "ps_state s4 = ST_WAIT_SUCC_PBA"
    "ps_LastTxSeqNum s4 = q + 1" "ps_SessionId s4 = ps_SessionId s"
    "ps_SA s4 = pac_bound_sa ?ae k s" "ps_sent s4 = ps_sent s @ [m5]"
    "pm_type m5 = PANA_MTYPE_PBR" "pm_request m5" "pm_seq m5 = q + 1"
    "pm_sessionId m5 = ps_SessionId s"
    "pana_GetAvp as_resultcode (pm_avps m5) = Some PANA_RCODE_SUCCESS"
    "pana_GetAvp as_eap (pm_avps m5) = Some p"
    "pana_GetAvp as_keyid (pm_avps m5) = Some (sa_MskId (ps_SA s))" "\<not> algo_unsupported m5"
    using paa_PBR_stage [of s ?ae k p] M inc by auto
  note r7 = sys_agent [where n = n, OF s4(1) srv, of c]
  obtain c4 where c4: "pac_run ?ce [PacDatagram (?ct m5), PacServe] c = POk c4"
    "pana_idle c4" "ps_role c4 = RolePac" "ps_state c4 = ST_WAIT_EAP_RESULT"
    "ps_LastRxSeqNum c4 = q + 1" "ps_SessionId c4 = ps_SessionId s"
    "ps_SA c4 = (ps_SA c)\<lparr>sa_MskId := sa_MskId (ps_SA s)\<rparr>"
    using pac_PBR_stage [of c "?ct m5" p "sa_MskId (ps_SA s)" ?ce] M s4 inc q
    by (auto simp: serial_small_def)
  note r8 = sys_to_client [where n = n, OF serves_any [OF srv] s4(8) c4(1)]
  have "sys_run n (hs_success p k) (c, f) = POk (c4, f\<lparr>pf_sessions := [s4]\<rparr>)"
    unfolding hs_success_def by (rule sys_then, rule r7 [simplified list.map], use r8 in simp)
  moreover have "pac_bound_sa ?ae k s = pac_bound_sa ?ce k c4"
    using c4 M sha by (intro bound_sa_eq) (simp_all add: pf_env_def)
  ultimately show ?thesis
    using s4 c4 M srv by (intro exI [of _ c4] exI [of _ s4]) (simp add: hs_defs serves_any)
qed

lemma hs_bind_run:
  assumes link: "hs_link c f s q" "sa_MskId (ps_SA c) \<noteq> 0"
    and st: "ps_state c = ST_WAIT_EAP_RESULT" "ps_state s = ST_WAIT_SUCC_PBA"
    and sa: "ps_SA s = pac_bound_sa (nt_client_env n) k c"
    and same: "pe_sha1 (nt_client_env n) = pe_sha1 (nt_agent_env n)"
      "pe_pdu (nt_client_env n) = pe_pdu (nt_agent_env n)"
  shows "\<exists>c' s' a b. sys_run n (hs_bind k) (c, f) = POk (c', f\<lparr>pf_sessions := [s']\<rparr>)
    \<and> ps_state c' = ST_OPEN \<and> ps_state s' = ST_OPEN
    \<and> sv_set (sa_Auth (ps_SA c')) \<and> sa_Auth (ps_SA c') = sa_Auth (ps_SA s')
    \<and> ps_SessionId c' = ps_SessionId s'
    \<and> last (ps_calls c') = CallAuthorize a \<and> aa_Key a = Some k
    \<and> last (ps_calls s') = CallAuthorize b \<and> aa_Key b = Some k"
proof -
  let ?ce = "nt_client_env n" and ?ae = "pf_env (nt_agent_env n) f"
  let ?at = "\<lambda>m. m\<lparr>pm_src := nt_client_addr n\<rparr>"
  note M = link [unfolded hs_defs] st
  have srv: "serves f (ps_SessionId s) s" using M by simp
  obtain c5 m6 a where c5: "pac_run ?ce [PacKey (Some k), PacEapSuccess, PacServe] c = POk c5"
    "ps_state c5 = ST_OPEN" "ps_SA c5 = pac_bound_sa ?ce k c" "ps_sent c5 = ps_sent c @ [m6]"
    "pm_type m6 = PANA_MTYPE_PBR" "\<not> pm_request m6" "pm_seq m6 = q"
    "pm_sessionId m6 = ps_SessionId s"
    "pm_avps m6 = [AVP_KeyId (sa_MskId (ps_SA c)),
       AVP_Auth (GenerateAuthAvpValue ?ce (pac_bound_sa ?ce k c) (pana_hdr.truncate m6)
         [AVP_KeyId (sa_MskId (ps_SA c)), AVP_Auth no_auth])]"
    "ps_calls c5 = ps_calls c @ [CallAuthorize a]" "aa_Key a = Some k"
    "ps_SessionId c5 = ps_SessionId s"
    using pac_success_stage [of c ?ce k] M by auto
  note r9 = sys_client [where n = n, OF c5(1), of f]
  have msk: "sa_MSK (ps_SA s) = scholar_Set k" "sv_set (sa_Auth (ps_SA s))"
    unfolding sa by (simp_all add: pac_bound_sa_def GenerateAuthKey_def scholar_Set_def)
  have auth: "GenerateAuthAvpValue ?ce = GenerateAuthAvpValue ?ae"
    using same by (simp add: GenerateAuthAvpValue_def fun_eq_iff pf_env_def)
  obtain s5 b where s5: "paa_run ?ae [PaaServe] (pana_Receive (?at m6) s) = POk s5"
    "ps_state s5 = ST_OPEN" "ps_SA s5 = ps_SA s" "ps_calls s5 = ps_calls s @ [CallAuthorize b]"
    "aa_Key b = Some k" "ps_SessionId s5 = ps_SessionId s"
    using paa_PBA_stage [of s "?at m6" "sa_MskId (ps_SA c)" ?ae k] M c5 sa msk auth by auto
  note r10 = sys_to_agent [where n = n, OF srv c5(4) c5(8) s5(1)]
  have "sys_run n (hs_bind k) (c, f) = POk (c5, f\<lparr>pf_sessions := [s5]\<rparr>)"
    unfolding hs_bind_def by (rule sys_then, rule r9 [simplified list.map], use r10 in simp)
  then show ?thesis
    using c5 s5 msk sa
    by (intro exI [of _ c5] exI [of _ s5] exI [of _ a] exI [of _ b]) simp
qed

end
