(* ===== verification/Pana_Ends.thy ===== *)
theory Pana_Ends
  imports Pana_Stages
begin

text \<open>
  Behaviour of a single PANA session under retransmission and forged messages.
\<close>

section \<open>A client without an answer\<close>

text \<open>One round: the retransmission timer fires and the jobs of the session run.\<close>

definition retry_round :: "pana_env \<Rightarrow> pac_input list" where
  "retry_round env = [PacTimer (timer_event RolePac env TID_RETRY), PacServe, PacServe]"

definition the_pci :: "pana_env \<Rightarrow> pana_msg" where
  "the_pci env = pana_msg_new\<lparr>pm_type := PANA_MTYPE_PCI, pm_seq := 0, pm_src := no_addr,
     pm_dest := cfg_PaaAddress env\<rparr>"

definition seeking :: "pana_env \<Rightarrow> nat \<Rightarrow> pana_session \<Rightarrow> bool" where
  "seeking env j w \<longleftrightarrow>
     pana_idle w \<and> ps_role w = RolePac \<and> ps_state w = ST_OFFLINE \<and> ps_calls w = []
     \<and> (\<exists>sec. ps_timers w (timer_event RolePac env TID_RETRY)
           = Some (timer_event RolePac env TID_RETRY, sec))
     \<and> unat (ps_Count w) = j \<and> ps_LastTxReqMsg w = Some (the_pci env)
     \<and> ps_PacAddress w = no_addr \<and> ps_PaaAddress w = cfg_PaaAddress env
     \<and> ps_sent w = replicate j (the_pci env)"

definition gave_up :: "pana_env \<Rightarrow> nat \<Rightarrow> pana_session \<Rightarrow> bool" where
  "gave_up env j w \<longleftrightarrow>
     pana_idle w \<and> ps_role w = RolePac \<and> ps_state w = ST_CLOSED
     \<and> ps_timers w (timer_event RolePac env TID_RETRY) = None
     \<and> ps_calls w = [CallDisconnect PANA_TERMCAUSE_SESSION_TIMEOUT]
     \<and> ps_sent w = replicate j (the_pci env)"

lemma retry_dispatch:
  "sm_dispatch pac_table True ST_OFFLINE (pac_Get pac_ReTransmission) = Fire ST_OFFLINE AcRetransmission"
  "sm_dispatch pac_table True ST_OFFLINE (pac_Get pac_RetryTimeout) = Fire ST_CLOSED AcTimeout"
  by code_simp+

lemma pac_psr_eap:
  "sm_dispatch pac_table True ST_OFFLINE (pac_Get (pac_EapPayload (pac_MsgType MT_PSR)))
     = Fire ST_OFFLINE AcRxPSR"
  by code_simp

lemmas retry_defs = pac_Serve_def pana_Serve_def pac_event_def pana_event_def retry_dispatch
  fire_timer_def pana_Notify_def pac_Retransmission_def TxLastReqMsg_def ReScheduleTxRetry_def
  rt_cap_def rt_jitter_def pana_Schedule_def ScheduleTimer_def pana_transmit_def Let_def

lemma rt_frame: "\<exists>rt d. rt_cap env (rt_jitter env a b w) = (rt, w\<lparr>ps_draws := d\<rparr>)"
  by (auto simp: rt_cap_def rt_jitter_def)

lemma and_then_end: "and_then x (pac_run env []) = x"
  by (cases x) auto

lemma Disconnect_gives_up:
  assumes "ps_role w = RolePac" "ps_running w" "ps_events w = []" "ps_received w = []" "ps_calls w = []"
    and "ps_state w = ST_CLOSED" "ps_sent w = replicate j (the_pci env)"
  shows "gave_up env j (session_Disconnect env PANA_TERMCAUSE_SESSION_TIMEOUT w)"
  using assms
  by (simp add: gave_up_def session_Disconnect_def app_call_def cancel_timers_def session_Reset_def
      attribute_Reset_def pana_rand_def aux_Reset_def sa_Reset_def msk_Reset_def Let_def pana_idle_def
      pana_Cancel_def CancelTimer_def effect_simps)

text \<open>The counter decides between one more copy and the end.\<close>

lemma retry_round_step:
  assumes "seeking env j w" "0 < j" "0 < cfg_MRC env" "j \<le> unat (cfg_MRC env)"
  shows "\<exists>w'. pac_run env (retry_round env) w = POk w' \<and>
    (seeking env (Suc j) w' \<and> Suc j \<le> unat (cfg_MRC env)
     \<or> gave_up env j w' \<and> (cfg_MRD env = 0 \<longrightarrow> j = unat (cfg_MRC env)))"
proof -
  let ?ev = "timer_event RolePac env TID_RETRY"
  let ?w = "pana_Cancel env TID_RETRY w"
  note S = assms(1) [unfolded seeking_def pana_idle_def]
  obtain rt d where rt: "rt_cap env (rt_jitter env (2 * ps_Timeout ?w) (ps_Timeout ?w) ?w)
      = (rt, ?w\<lparr>ps_draws := d\<rparr>)"
    using rt_frame by blast
  have same: "pac_run env (retry_round env) w = and_then (pac_Retransmission env w) (pac_Serve env)"
  proof -
    have fire: "fire_timer ?ev w = w\<lparr>ps_events := [?ev]\<rparr>" "w\<lparr>ps_events := [], ps_state := ST_OFFLINE\<rparr> = w"
      using S by (auto simp: fire_timer_def pana_Notify_def)
    have "pac_Serve env (w\<lparr>ps_events := [?ev]\<rparr>) = pac_Retransmission env w"
      using S by (simp add: fire(2) pac_Serve_def pana_Serve_def pac_event_def pana_event_def
          retry_dispatch pac_Retransmission_def split: option.split)
    moreover have "pac_run env [PacServe] = pac_Serve env"
      by (simp add: fun_eq_iff and_then_end)
    ultimately show ?thesis by (simp add: retry_round_def fire del: timer_event.simps pac_run.simps(2))
      (simp add: fire del: timer_event.simps)
  qed
  show ?thesis
  proof (cases "cfg_MRC env \<le> ps_Count w \<or> 0 < cfg_MRD env \<and> cfg_MRD env < ps_Duration w + rt")
    case True
    let ?v = "?w\<lparr>ps_draws := d, ps_events := [], ps_state := ST_CLOSED\<rparr>"
    have "TxLastReqMsg env w = Some (False, ?w\<lparr>ps_draws := d\<rparr>)"
      using True rt assms(3) by (auto simp: TxLastReqMsg_def ReScheduleTxRetry_def Let_def effect_simps)
    then have "pac_run env (retry_round env) w =
        POk (session_Disconnect env PANA_TERMCAUSE_SESSION_TIMEOUT ?v)"
      using S unfolding same
      by (simp add: pac_event_def pana_event_def retry_dispatch pac_Retransmission_def pac_Serve_def
          pana_Serve_def pana_Notify_def effect_simps)
    moreover have "gave_up env j (session_Disconnect env PANA_TERMCAUSE_SESSION_TIMEOUT ?v)"
      using S by (intro Disconnect_gives_up) (simp_all add: effect_simps)
    moreover have "cfg_MRD env = 0 \<longrightarrow> j = unat (cfg_MRC env)"
      using True S assms(4) by (auto simp: word_le_nat_alt)
    ultimately show ?thesis by blast
  next
    case False
    let ?v = "pana_Schedule env TID_RETRY rt (?w\<lparr>ps_draws := d, ps_Timeout := rt,
      ps_Duration := ps_Duration w + rt, ps_Count := ps_Count w + 1\<rparr>)"
    have "TxPrepareMessage ?v (the_pci env) = the_pci env"
      using S by (simp add: TxPrepareMessage_def the_pci_def effect_simps)
    then have "TxLastReqMsg env w = Some (True, ?v\<lparr>ps_sent := ps_sent w @ [the_pci env]\<rparr>)"
      using False rt assms(3) S
      by (auto simp: TxLastReqMsg_def ReScheduleTxRetry_def Let_def pana_transmit_def effect_simps)
    then have run: "pac_run env (retry_round env) w = POk (?v\<lparr>ps_sent := ps_sent w @ [the_pci env]\<rparr>)"
      using S unfolding same
      by (simp add: pac_event_def pana_event_def retry_dispatch pac_Retransmission_def pac_Serve_def
          pana_Serve_def effect_simps)
    have less: "j < unat (cfg_MRC env)" using False S by (auto simp: word_le_nat_alt)
    then have count: "unat (ps_Count w + 1) = Suc j"
      using S unsigned_less [of "cfg_MRC env", where ?'a = nat] by (simp add: unat_word_ariths)
    have "seeking env (Suc j) (?v\<lparr>ps_sent := ps_sent w @ [the_pci env]\<rparr>)"
      using S count
      by (simp add: seeking_def pana_idle_def pana_Schedule_def pana_Cancel_def ScheduleTimer_def
          Let_def replicate_append_same)
    with run less show ?thesis by auto
  qed
qed

lemma gave_up_round:
  assumes "gave_up env j w"
  shows "pac_run env (retry_round env) w = POk w"
  using assms by (simp add: gave_up_def pana_idle_def retry_round_def retry_defs)

lemma pac_run_append: "pac_run env (xs @ ys) w = and_then (pac_run env xs w) (pac_run env ys)"
  by (induction xs arbitrary: w) (auto simp: and_then_assoc intro: and_then_cong)

lemma gave_up_rounds: "gave_up env j w \<Longrightarrow> pac_run env (concat (replicate n (retry_round env))) w = POk w"
  by (induction n) (simp_all add: pac_run_append gave_up_round)

lemma retry_rounds:
  assumes "seeking env j w" "0 < j" "0 < cfg_MRC env" "j \<le> unat (cfg_MRC env)"
    and "unat (cfg_MRC env) < j + n"
  shows "\<exists>w' i. pac_run env (concat (replicate n (retry_round env))) w = POk w' \<and> gave_up env i w'
    \<and> 0 < i \<and> i \<le> unat (cfg_MRC env) \<and> (cfg_MRD env = 0 \<longrightarrow> i = unat (cfg_MRC env))"
  using assms
proof (induction n arbitrary: j w)
  case (Suc n)
  from retry_round_step [OF Suc.prems(1-4)] obtain w1 where
    r: "pac_run env (retry_round env) w = POk w1" and
    or: "seeking env (Suc j) w1 \<and> Suc j \<le> unat (cfg_MRC env)
      \<or> gave_up env j w1 \<and> (cfg_MRD env = 0 \<longrightarrow> j = unat (cfg_MRC env))" by blast
  from or show ?case
  proof
    assume "seeking env (Suc j) w1 \<and> Suc j \<le> unat (cfg_MRC env)"
    with Suc.IH [of "Suc j" w1] Suc.prems r show ?thesis by (simp add: pac_run_append)
  next
    assume "gave_up env j w1 \<and> (cfg_MRD env = 0 \<longrightarrow> j = unat (cfg_MRC env))"
    with gave_up_rounds [of env j w1 n] Suc.prems r show ?thesis by (auto simp: pac_run_append)
  qed
qed simp

lemma pac_start_seeking:
  "\<exists>w. pac_run env [PacStart, PacServe] (pac_new env) = POk w \<and> seeking env 1 w"
  by (simp add: pac_Start_def pac_serve_defs pac_TxPCI_def send_defs ScheduleTxRetry_def
      rt_cap_def rt_jitter_def pana_Schedule_def ScheduleTimer_def pac_new_def session_new_def
      session_Reset_def attribute_Reset_def pana_rand_def aux_Reset_def sa_Reset_def msk_Reset_def
      pana_idle_def seeking_def the_pci_def TxPrepareMessage_def Let_def)

text \<open>C28: A client that nobody answers gives up. Started, and with its retransmission timer fired again
  and again, it sends the same initiation at most as often as the limit MRC says (exactly as often
  where no limit on the time is set), then its timer is gone, the application has got one
  disconnection with the cause session timeout and the machine is CLOSED; no later round sends
  anything. Needed is a positive limit; a limit of zero means no limit.\<close>

theorem unanswered_client_gives_up:
  assumes "0 < cfg_MRC env" "unat (cfg_MRC env) \<le> n"
  shows "\<exists>w i. pac_run env ([PacStart, PacServe] @ concat (replicate n (retry_round env))) (pac_new env)
      = POk w \<and> gave_up env i w \<and> 0 < i \<and> i \<le> unat (cfg_MRC env)
    \<and> (cfg_MRD env = 0 \<longrightarrow> i = unat (cfg_MRC env))"
proof -
  obtain w where w: "pac_run env [PacStart, PacServe] (pac_new env) = POk w" "seeking env 1 w"
    using pac_start_seeking by blast
  from assms have "1 \<le> unat (cfg_MRC env)" by (simp add: word_less_nat_alt)
  with retry_rounds [OF w(2), of n] assms show ?thesis
    unfolding pac_run_append w(1) and_then.simps by auto
qed

section \<open>Forged answers and repeated requests\<close>

definition awaits_binding :: "pana_session \<Rightarrow> bool" where
  "awaits_binding w \<longleftrightarrow> pana_idle w \<and> ps_state w = ST_WAIT_SUCC_PBA \<and> ps_role w = RolePaa"

definition matching_answer :: "u16 \<Rightarrow> pana_msg \<Rightarrow> pana_session \<Rightarrow> bool" where
  "matching_answer t m w \<longleftrightarrow> \<not> pm_request m \<and> pm_type m = t \<and> pm_seq m = ps_LastTxSeqNum w
     \<and> pm_sessionId m = ps_SessionId w"

text \<open>C22: An agent that waits for the answer to its successful binding request checks an AUTH AVP
  only where there is one. An answer with a wrong AUTH is dropped: the session keeps its state and
  no application call is made. The same answer without any AUTH AVP, which needs no key, opens the
  session and authorizes the client whose address it came from.\<close>

theorem binding_answer_needs_no_key:
  assumes "awaits_binding w" "matching_answer PANA_MTYPE_PBR m w" "sv_set (sa_Auth (ps_SA w))"
  shows "(pana_GetAvp as_auth (pm_avps m) \<noteq> None \<and> \<not> ValidateAuthAvp env (ps_SA w) m \<longrightarrow>
      paa_run env [PaaServe] (pana_Receive m w) = POk w) \<and>
    (pana_GetAvp as_auth (pm_avps m) = None \<longrightarrow>
      (\<exists>w' a. paa_run env [PaaServe] (pana_Receive m w) = POk w' \<and> ps_state w' = ST_OPEN
        \<and> ps_PacAddress w' = pm_src m \<and> ps_calls w' = ps_calls w @ [CallAuthorize a]))"
proof -
  note A = assms [unfolded awaits_binding_def matching_answer_def pana_idle_def]
  have w: "w\<lparr>ps_received := []\<rparr> = w" using A by (cases w) simp
  show ?thesis
    using A
    by (simp add: w paa_serve_defs paa_PsmRxPBA_def paa_RxPBA_def NotifyScheduleLifetime_def
        paa_NotifyAuthorization_def app_call_def effect_simps)
qed

text \<open>C38: A start request that carries an EAP payload is answered only when the EAP peer has
  responded. If the agent repeats it before that, as its retransmission does, the client takes
  the answer of the first one out of a cache that nothing has been put into: it uses a null
  pointer.\<close>

theorem repeated_start_request_faults:
  assumes "pana_idle w" "ps_state w = ST_OFFLINE" "ps_role w = RolePac" "ps_LastRxSeqNum w = 0"
      "ps_CachedAnsMsg w = None"
    and "pm_request m" "pm_type m = PANA_MTYPE_PSR" "pm_seq m \<noteq> 0" "\<not> algo_unsupported m"
      "pana_GetAvp as_eap (pm_avps m) \<noteq> None" "pana_GetAvp as_auth (pm_avps m) = None"
  shows "pac_run env [PacDatagram m, PacServe, PacDatagram m, PacServe] w = PUndef"
  using assms
  by (auto simp: pana_idle_def pac_serve_defs pac_CsmRxPSR_def pac_RxPSR_def pac_psr_eap
      pac_NotifyEapRestart_def pac_NotifyEapRequest_def ScheduleEapResponse_def sa_Reset_def
      msk_Reset_def app_call_def effect_simps)

section \<open>Concrete sessions\<close>

definition ex_pana_env :: "bool \<Rightarrow> pana_env" where
  "ex_pana_env retryPSR =
     \<lparr>cfg_SessionLifetime = 3600, cfg_IRT = 1, cfg_MRC = 3, cfg_MRT = 30, cfg_MRD = 0,
      cfg_EapResponseTimeout = 10, cfg_EapPiggyback = False, cfg_PaaAddress = no_addr,
      cfg_OptimizedHandshake = False, cfg_RetryPSR = retryPSR, pe_rand = (\<lambda>n. of_nat n + 5),
      pe_jitter = (\<lambda>n b. 0), pe_sha1 = (\<lambda>x. rev x), pe_pdu = (\<lambda>h as. [of_nat (length as)]),
      pe_object = (\<lambda>h. [])\<rparr>"

theorem unanswered_client_gives_up_witness:
  "\<exists>w. pac_run (ex_pana_env True) ([PacStart, PacServe] @ concat (replicate 3 (retry_round (ex_pana_env True))))
      (pac_new (ex_pana_env True)) = POk w \<and> gave_up (ex_pana_env True) 3 w"
proof -
  have "cfg_MRC (ex_pana_env True) = 3" "cfg_MRD (ex_pana_env True) = 0" by (simp_all add: ex_pana_env_def)
  with unanswered_client_gives_up [of "ex_pana_env True" 3] show ?thesis by auto
qed

definition ex_waiting_agent :: pana_session where
  "ex_waiting_agent =
     (let w = paa_new (ex_pana_env True) 7
      in w\<lparr>ps_state := ST_WAIT_SUCC_PBA, ps_SA := (ps_SA w)\<lparr>sa_Auth := scholar_Set [1]\<rparr>\<rparr>)"

theorem binding_answer_needs_no_key_witness:
  "\<exists>w. paa_run (ex_pana_env True) [PaaServe]
      (pana_Receive (pana_msg_new\<lparr>pm_type := PANA_MTYPE_PBR, pm_sessionId := 7, pm_seq := 8\<rparr>) ex_waiting_agent)
      = POk w \<and> ps_state w = ST_OPEN"
proof -
  let ?m = "pana_msg_new\<lparr>pm_type := PANA_MTYPE_PBR, pm_sessionId := 7, pm_seq := 8\<rparr>"
  have "awaits_binding ex_waiting_agent" "matching_answer PANA_MTYPE_PBR ?m ex_waiting_agent"
    "sv_set (sa_Auth (ps_SA ex_waiting_agent))" "pana_GetAvp as_auth (pm_avps ?m) = None"
    by code_simp+
  with binding_answer_needs_no_key [of ex_waiting_agent ?m "ex_pana_env True"] show ?thesis by auto
qed

theorem repeated_start_request_faults_witness:
  "pac_run (ex_pana_env True)
     [PacDatagram (pana_msg_new\<lparr>pm_type := PANA_MTYPE_PSR, pm_request := True, pm_seq := 4, pm_avps := [AVP_Eap [1]]\<rparr>), PacServe,
      PacDatagram (pana_msg_new\<lparr>pm_type := PANA_MTYPE_PSR, pm_request := True, pm_seq := 4, pm_avps := [AVP_Eap [1]]\<rparr>), PacServe]
     (pac_new (ex_pana_env True)) = PUndef"
  by (rule repeated_start_request_faults) code_simp+

end
