(* ===== verification/Pana_Props.thy ===== *)
theory Pana_Props
  imports Pana_Handshake Pana_Ends
begin

text \<open>
  What the two ends of PANA promise: a client and an agent that know the same key open a
  session together.
\<close>

section \<open>The start of a session\<close>

text \<open>The two forms of the start, by the configuration of the agent.\<close>

definition hs_start :: "bool \<Rightarrow> sys_input list" where
  "hs_start stateful =
     (if stateful then
        [ClientDoes PacStart, ClientDoes PacServe] @ [ToAgent] @ [AgentDoes 0 PaaServe]
        @ [ToClient 0, ClientDoes PacServe] @ [ToAgent, AgentDoes 0 PaaServe]
      else
        [ClientDoes PacStart, ClientDoes PacServe] @ [ToAgent]
        @ [StartToClient, ClientDoes PacServe] @ [ToAgent] @ [AgentDoes 0 PaaServe])"

definition hs_serial :: "pana_env \<Rightarrow> u32" where
  "hs_serial env = (if cfg_RetryPSR env then serial_inc (pe_rand env 3) else pe_rand env 0)"

lemmas new_defs = session_new_def session_Reset_def aux_Reset_def attribute_Reset_def
  sa_Reset_def msk_Reset_def scholar_new_def scholar_Reset_def

lemma pac_new_fields:
  "pana_idle (pac_new env)" "ps_role (pac_new env) = RolePac" "ps_state (pac_new env) = ST_OFFLINE"
  "ps_LastRxSeqNum (pac_new env) = 0" "ps_sent (pac_new env) = []"
  "\<not> sv_set (sa_Auth (ps_SA (pac_new env)))" "\<not> sv_set (sa_PacNonce (ps_SA (pac_new env)))"
  "\<not> sv_set (sa_PaaNonce (ps_SA (pac_new env)))"
  by (simp_all add: pac_new_def pana_idle_def new_defs Let_def pana_rand_def)

lemma paa_new_fields:
  "pana_idle (paa_new env now)" "ps_role (paa_new env now) = RolePaa"
  "ps_state (paa_new env now) = ST_OFFLINE" "ps_SessionId (paa_new env now) = now"
  "ps_LastTxSeqNum (paa_new env now) = pe_rand env 3"
  "ps_LastRxSeqNum (paa_new env now) = 0" "\<not> ps_AlgorithmIsSet (paa_new env now)"
  "ps_sent (paa_new env now) = []"
  "\<not> sv_set (sa_Auth (ps_SA (paa_new env now)))" "\<not> sv_set (sa_PacNonce (ps_SA (paa_new env now)))"
  "\<not> sv_set (sa_PaaNonce (ps_SA (paa_new env now)))" "sa_MskId (ps_SA (paa_new env now)) \<noteq> 0"
  by (simp_all add: paa_new_def pana_idle_def new_defs Let_def pana_rand_def)

lemma sessions_twice: "f\<lparr>pf_sessions := x, pf_sessions := y\<rparr> = f\<lparr>pf_sessions := y\<rparr>"
  by simp

lemma pf_add_first:
  "pf_db f = RbNil \<Longrightarrow> pf_sessions f = [] \<Longrightarrow>
    \<exists>t. pf_add i s f = POk (f\<lparr>pf_db := t, pf_sessions := [s]\<rparr>) \<and> Dbase_Search i 0 t = Inr 0"
  by (rule exI [of _ "RbNode RB_BLACK RbNil \<lparr>de_Index = i, de_payload = 0\<rparr> RbNil"])
    (simp add: pf_add_def Dbase_Add_def Dbase_Search_def rb_Insert_def FixupInsert.simps entry_eq_def)

lemma search_none: "Dbase_Search i v RbNil = Inl ENTRY_NOT_FOUND"
  by (simp add: Dbase_Search_def)

lemma hs_start_stateful:
  assumes "cfg_RetryPSR (nt_agent_env n)" "\<not> cfg_OptimizedHandshake (nt_agent_env n)"
    and "hs_serial (nt_agent_env n) \<noteq> 0"
  shows "\<exists>c f s. sys_run n (hs_start True) (pac_new (nt_client_env n), pf_new (nt_agent_env n)) = POk (c, f)
    \<and> hs_met c f s (hs_serial (nt_agent_env n))"
proof -
  let ?ce = "nt_client_env n" and ?e = "nt_agent_env n" and ?q = "hs_serial (nt_agent_env n)"
  let ?at = "\<lambda>m. m\<lparr>pm_src := nt_client_addr n\<rparr>" and ?ct = "\<lambda>m. m\<lparr>pm_src := nt_agent_addr n\<rparr>"
  let ?new = "(paa_new ?e (nt_now n))\<lparr>ps_PacAddress := nt_client_addr n\<rparr>"
  let ?f = "(pf_new ?e)\<lparr>pf_RetryPSR := True\<rparr>"
  obtain c1 m1 where c1: "pac_run ?ce [PacStart, PacServe] (pac_new ?ce) = POk c1"
    "pana_idle c1" "ps_role c1 = RolePac" "ps_state c1 = ST_OFFLINE" "ps_LastRxSeqNum c1 = 0"
    "ps_SA c1 = ps_SA (pac_new ?ce)" "ps_sent c1 = [m1]" "pm_type m1 = PANA_MTYPE_PCI"
    "pm_seq m1 = 0" "pm_sessionId m1 = 0"
    using pac_start_stage [of "pac_new ?ce" ?ce] pac_new_fields [of ?ce] by auto
  note r1 = sys_client [where n = n, OF c1(1), of "pf_new ?e"]
  obtain t where t: "pf_add (nt_now n) (paa_Found False ?new) ?f
      = POk (?f\<lparr>pf_db := t, pf_sessions := [paa_Found False ?new]\<rparr>)"
      "Dbase_Search (nt_now n) 0 t = Inr 0"
    using pf_add_first [of ?f] by (auto simp: pf_new_def)
  let ?g = "?f\<lparr>pf_db := t\<rparr>"
  have srv: "serves (?g\<lparr>pf_sessions := [x]\<rparr>) (nt_now n) x" for x
    using t by (simp add: serves_def)
  have r2: "sys_run n [ToAgent] (c1, pf_new ?e) = POk (c1, ?g\<lparr>pf_sessions := [paa_Found False ?new]\<rparr>)"
    using c1 t assms by (simp add: arrives_def pf_deliver_def pf_Receive_def pf_RxPCI_def PacFound_def
        search_none pf_new_def paa_new_fields Let_def)
  obtain s1 m2 where s1: "paa_run (pf_env ?e ?g) [PaaServe] (paa_Found False ?new) = POk s1"
    "pana_idle s1" "ps_role s1 = RolePaa" "ps_state s1 = ST_OFFLINE" "ps_LastTxSeqNum s1 = ?q"
    "ps_LastRxSeqNum s1 = 0" "ps_SessionId s1 = nt_now n" "ps_SA s1 = ps_SA (paa_new ?e (nt_now n))"
    "\<not> ps_AlgorithmIsSet s1" "ps_sent s1 = [m2]" "pm_type m2 = PANA_MTYPE_PSR" "pm_request m2"
    "pm_seq m2 = ?q" "pm_sessionId m2 = nt_now n" "pm_avps m2 = []"
    using paa_PSR_stage [of "paa_Found False ?new" "pf_env ?e ?g"] paa_new_fields [of ?e "nt_now n"] assms
    by (auto simp: paa_Found_def pana_Notify_def pana_idle_def pf_env_def hs_serial_def)
  note r3 = sys_agent [where n = n and f = "?g\<lparr>pf_sessions := [paa_Found False ?new]\<rparr>",
      unfolded env_sessions, OF s1(1) srv, of c1]
  obtain c2 m3 where c2: "pac_run ?ce [PacDatagram (?ct m2), PacServe] c1 = POk c2"
    "pana_idle c2" "ps_role c2 = RolePac" "ps_state c2 = ST_WAIT_PAA" "ps_LastRxSeqNum c2 = ?q"
    "ps_SessionId c2 = nt_now n" "sa_PacNonce (ps_SA c2) = sa_PacNonce (ps_SA c1)"
    "sa_PaaNonce (ps_SA c2) = sa_PaaNonce (ps_SA c1)" "\<not> sv_set (sa_Auth (ps_SA c2))"
    "ps_sent c2 = [m1, m3]" "pm_type m3 = PANA_MTYPE_PSR" "\<not> pm_request m3" "pm_seq m3 = ?q"
    "pm_sessionId m3 = nt_now n" "pm_avps m3 = []"
    using pac_PSR_stage [of c1 "?ct m2" ?ce] c1 s1 by auto
  note r4 = sys_to_client [where n = n and xs = "[]", OF srv _ c2(1), simplified append.simps, OF s1(10)]
  obtain s2 where s2: "paa_run (pf_env ?e ?g) [PaaServe] (pana_Receive (?at m3) s1) = POk s2"
    "pana_idle s2" "ps_role s2 = RolePaa" "ps_state s2 = ST_WAIT_EAP_MSG" "ps_LastTxSeqNum s2 = ?q"
    "ps_LastRxSeqNum s2 = 0" "ps_SessionId s2 = nt_now n" "ps_SA s2 = ps_SA (paa_new ?e (nt_now n))"
    "\<not> ps_AlgorithmIsSet s2"
    using paa_PSA_stage [of "pana_Receive (?at m3) s1" "?at m3" "pf_env ?e ?g"] s1 c2 assms
    by (auto simp: pana_Receive_def pana_idle_def pf_env_def)
  note r5 = sys_to_agent [where n = n and xs = "[m1]", OF srv _ c2(14), unfolded env_sessions,
      simplified append.simps, OF c2(10) s2(1)]
  have "sys_run n (hs_start True) (pac_new ?ce, pf_new ?e) = POk (c2, ?g\<lparr>pf_sessions := [s2]\<rparr>)"
    unfolding hs_start_def if_True
    by (rule sys_then, rule r1 [simplified list.map], rule sys_then, rule r2,
        rule sys_then, rule r3 [simplified list.map sessions_twice], rule sys_then, rule r4 [simplified list.map],
        use r5 [simplified list.map sessions_twice] in simp)
  then show ?thesis
    using c1 c2 s2 srv pac_new_fields [of ?ce] paa_new_fields [of ?e "nt_now n"]
    by (intro exI [of _ c2] exI [of _ "?g\<lparr>pf_sessions := [s2]\<rparr>"] exI [of _ s2])
      (simp add: hs_met_def hs_defs)
qed

lemma hs_start_stateless:
  assumes "\<not> cfg_RetryPSR (nt_agent_env n)" "\<not> cfg_OptimizedHandshake (nt_agent_env n)"
    and "hs_serial (nt_agent_env n) \<noteq> 0" "nt_now n \<noteq> 0"
  shows "\<exists>c f s. sys_run n (hs_start False) (pac_new (nt_client_env n), pf_new (nt_agent_env n)) = POk (c, f)
    \<and> hs_met c f s (hs_serial (nt_agent_env n))"
proof -
  let ?ce = "nt_client_env n" and ?e = "nt_agent_env n" and ?q = "hs_serial (nt_agent_env n)"
  let ?at = "\<lambda>m. m\<lparr>pm_src := nt_client_addr n\<rparr>" and ?ct = "\<lambda>m. m\<lparr>pm_src := nt_agent_addr n\<rparr>"
  let ?f = "StatelessTxPSR ?e (nt_now n) (nt_client_addr n) (pf_new ?e)"
  obtain c1 m1 where c1: "pac_run ?ce [PacStart, PacServe] (pac_new ?ce) = POk c1"
    "pana_idle c1" "ps_role c1 = RolePac" "ps_state c1 = ST_OFFLINE" "ps_LastRxSeqNum c1 = 0"
    "ps_SA c1 = ps_SA (pac_new ?ce)" "ps_sent c1 = [m1]" "pm_type m1 = PANA_MTYPE_PCI"
    "pm_seq m1 = 0" "pm_sessionId m1 = 0"
    using pac_start_stage [of "pac_new ?ce" ?ce] pac_new_fields [of ?ce] by auto
  note r1 = sys_client [where n = n, OF c1(1), of "pf_new ?e"]
  have r2: "sys_run n [ToAgent] (c1, pf_new ?e) = POk (c1, ?f)"
    using c1 assms by (simp add: arrives_def pf_deliver_def pf_Receive_def pf_RxPCI_def PacFound_def
        search_none pf_new_def)
  obtain m2 where m2: "pf_sent ?f = [m2]" "pm_type m2 = PANA_MTYPE_PSR" "pm_request m2"
    "pm_seq m2 = ?q" "pm_sessionId m2 = nt_now n" "pm_avps m2 = []"
    using assms by (simp add: StatelessTxPSR_def pf_new_def hs_serial_def pana_msg_new_def)
  obtain c2 m3 where c2: "pac_run ?ce [PacDatagram (?ct m2), PacServe] c1 = POk c2"
    "pana_idle c2" "ps_role c2 = RolePac" "ps_state c2 = ST_WAIT_PAA" "ps_LastRxSeqNum c2 = ?q"
    "ps_SessionId c2 = nt_now n" "sa_PacNonce (ps_SA c2) = sa_PacNonce (ps_SA c1)"
    "sa_PaaNonce (ps_SA c2) = sa_PaaNonce (ps_SA c1)" "\<not> sv_set (sa_Auth (ps_SA c2))"
    "ps_sent c2 = [m1, m3]" "pm_type m3 = PANA_MTYPE_PSR" "\<not> pm_request m3" "pm_seq m3 = ?q"
    "pm_sessionId m3 = nt_now n" "pm_avps m3 = []"
    using pac_PSR_stage [of c1 "?ct m2" ?ce] c1 m2 by auto
  have r3: "sys_run n [StartToClient, ClientDoes PacServe] (c1, ?f) = POk (c2, ?f)"
    using sys_client [OF c2(1), of ?f] m2(1) by (simp add: arrives_def)
  let ?new = "pana_Receive (?at m3) ((paa_new ?e (nt_now n))\<lparr>ps_PacAddress := nt_client_addr n,
    ps_LastTxSeqNum := ?q, ps_SessionId := nt_now n\<rparr>)"
  have f: "pf_db ?f = RbNil" "pf_sessions ?f = []" by (simp_all add: StatelessTxPSR_def pf_new_def)
  obtain t where t: "pf_add (nt_now n) ?new ?f = POk (?f\<lparr>pf_db := t, pf_sessions := [?new]\<rparr>)"
    "Dbase_Search (nt_now n) 0 t = Inr 0"
    using pf_add_first [OF f] by blast
  let ?g = "?f\<lparr>pf_db := t\<rparr>"
  have srv: "serves (?g\<lparr>pf_sessions := [x]\<rparr>) (nt_now n) x" for x
    using t by (simp add: serves_def)
  have r4: "sys_run n [ToAgent] (c2, ?f) = POk (c2, ?g\<lparr>pf_sessions := [?new]\<rparr>)"
    using c2 t(1) assms f(1) by (simp add: arrives_def pf_deliver_def pf_Receive_def StatelessRxPSA_def
        search_none)
  obtain s2 where s2: "paa_run (pf_env ?e ?g) [PaaServe] ?new = POk s2"
    "pana_idle s2" "ps_role s2 = RolePaa" "ps_state s2 = ST_WAIT_EAP_MSG" "ps_LastTxSeqNum s2 = ?q"
    "ps_LastRxSeqNum s2 = 0" "ps_SessionId s2 = nt_now n" "ps_SA s2 = ps_SA (paa_new ?e (nt_now n))"
    "\<not> ps_AlgorithmIsSet s2"
    using paa_PSA_stage [of ?new "?at m3" "pf_env ?e ?g"] c2 assms paa_new_fields [of ?e "nt_now n"]
    by (auto simp: pana_Receive_def pana_idle_def pf_env_def)
  note r5 = sys_agent [where n = n and f = "?g\<lparr>pf_sessions := [?new]\<rparr>",
      unfolded env_sessions, OF s2(1) srv, of c2]
  have "sys_run n (hs_start False) (pac_new ?ce, pf_new ?e) = POk (c2, ?g\<lparr>pf_sessions := [s2]\<rparr>)"
    unfolding hs_start_def if_False
    by (rule sys_then, rule r1 [simplified list.map], rule sys_then, rule r2,
        rule sys_then, rule r3, rule sys_then, rule r4, use r5 [simplified list.map sessions_twice] in simp)
  then show ?thesis
    using c1 c2 s2 srv pac_new_fields [of ?ce] paa_new_fields [of ?e "nt_now n"]
    by (intro exI [of _ c2] exI [of _ "?g\<lparr>pf_sessions := [s2]\<rparr>"] exI [of _ s2])
      (simp add: hs_met_def hs_defs)
qed

section \<open>The whole handshake\<close>

definition hs_authentication :: "pana_octets \<Rightarrow> pana_octets \<Rightarrow> pana_octets \<Rightarrow> pana_octets \<Rightarrow> sys_input list" where
  "hs_authentication p r p2 k = hs_request p @ hs_response r @ hs_success p2 k @ hs_bind k"

definition both_open :: "pana_octets \<Rightarrow> pana_session \<Rightarrow> pana_session \<Rightarrow> bool" where
  "both_open k c s \<longleftrightarrow>
     ps_state c = ST_OPEN \<and> ps_state s = ST_OPEN \<and> ps_SessionId c = ps_SessionId s
     \<and> sv_set (sa_Auth (ps_SA c)) \<and> sa_Auth (ps_SA c) = sa_Auth (ps_SA s)
     \<and> (\<exists>a. last (ps_calls c) = CallAuthorize a \<and> aa_Key a = Some k)
     \<and> (\<exists>b. last (ps_calls s) = CallAuthorize b \<and> aa_Key b = Some k)"

lemma hs_authentication_opens:
  assumes met: "hs_met c f s q" and q: "serial_small q 2"
    and cfg: "\<not> cfg_EapPiggyback (nt_client_env n)"
    and same: "pe_sha1 (nt_client_env n) = pe_sha1 (nt_agent_env n)"
      "pe_pdu (nt_client_env n) = pe_pdu (nt_agent_env n)"
  shows "\<exists>c' f' s'. sys_run n (hs_authentication p r p2 k) (c, f) = POk (c', f')
    \<and> pf_sessions f' = [s'] \<and> both_open k c' s'"
proof -
  obtain c1 s1 where 1: "sys_run n (hs_request p) (c, f) = POk (c1, f\<lparr>pf_sessions := [s1]\<rparr>)"
    "hs_link c1 (f\<lparr>pf_sessions := [s1]\<rparr>) s1 (q + 1)" "hs_open_air c1 s1" "same_nonces c1 s1"
    "ps_state c1 = ST_WAIT_EAP_MSG" "ps_state s1 = ST_WAIT_PAN_OR_PAR"
    using hs_request_run [OF met, of 1 n p] q cfg by (auto simp: numeral_2_eq_2)
  obtain c2 s2 where 2: "sys_run n (hs_response r) (c1, f\<lparr>pf_sessions := [s1]\<rparr>)
      = POk (c2, f\<lparr>pf_sessions := [s2]\<rparr>)"
    "hs_link c2 (f\<lparr>pf_sessions := [s2]\<rparr>) s2 (q + 1)" "same_nonces c2 s2" "\<not> ps_AlgorithmIsSet s2"
    "sa_MskId (ps_SA s2) \<noteq> 0" "ps_state c2 = ST_WAIT_PAA" "ps_state s2 = ST_WAIT_EAP_MSG"
    using hs_response_run [OF 1(2-6) cfg, of r] by (auto simp: sessions_twice)
  have q1: "serial_small (q + 1) (Suc 0)" using serial_small_inc(2) [of q 1] q by (simp add: numeral_2_eq_2)
  obtain c3 s3 where 3: "sys_run n (hs_success p2 k) (c2, f\<lparr>pf_sessions := [s2]\<rparr>)
      = POk (c3, f\<lparr>pf_sessions := [s3]\<rparr>)"
    "hs_link c3 (f\<lparr>pf_sessions := [s3]\<rparr>) s3 (q + 1 + 1)" "sa_MskId (ps_SA c3) \<noteq> 0"
    "ps_state c3 = ST_WAIT_EAP_RESULT" "ps_state s3 = ST_WAIT_SUCC_PBA"
    "ps_SA s3 = pac_bound_sa (nt_client_env n) k c3"
    using hs_success_run [OF 2(2-7) q1 same(1), of p2 k] by (auto simp: sessions_twice)
  obtain c4 s4 a b where 4: "sys_run n (hs_bind k) (c3, f\<lparr>pf_sessions := [s3]\<rparr>)
      = POk (c4, f\<lparr>pf_sessions := [s4]\<rparr>)"
    "ps_state c4 = ST_OPEN" "ps_state s4 = ST_OPEN" "sv_set (sa_Auth (ps_SA c4))"
    "sa_Auth (ps_SA c4) = sa_Auth (ps_SA s4)" "ps_SessionId c4 = ps_SessionId s4"
    "last (ps_calls c4) = CallAuthorize a" "aa_Key a = Some k"
    "last (ps_calls s4) = CallAuthorize b" "aa_Key b = Some k"
    using hs_bind_run [OF 3(2-6) same] by (auto simp: sessions_twice)
  have "sys_run n (hs_authentication p r p2 k) (c, f) = POk (c4, f\<lparr>pf_sessions := [s4]\<rparr>)"
    unfolding hs_authentication_def
    by (rule sys_then, rule 1, rule sys_then, rule 2, rule sys_then, rule 3, rule 4)
  with 4 show ?thesis
    by (intro exI [of _ c4] exI [of _ "f\<lparr>pf_sessions := [s4]\<rparr>"] exI [of _ s4]) (simp add: both_open_def)
qed

text \<open>C6: A client and an agent open a session together. From two new ends, whatever the addresses, the
  clocks, the random numbers and the EAP payloads, the run of client initiation, start exchange
  (with or without state at the agent), one EAP round, binding request and binding answer throws
  nothing: it leaves one session at the agent and both ends in the state OPEN with the same
  identifier and the same authentication key, computed on each side from its own nonces, and the
  last call that each application got is the authorization with the master key. Needed are that
  the two sides use the same hash and the same message format, no piggybacking and no optimized
  handshake, and serial numbers that do not pass half of their range.\<close>

theorem pana_handshake_opens:
  assumes "\<not> cfg_OptimizedHandshake (nt_agent_env n)" "\<not> cfg_EapPiggyback (nt_client_env n)"
    and "pe_sha1 (nt_client_env n) = pe_sha1 (nt_agent_env n)"
      "pe_pdu (nt_client_env n) = pe_pdu (nt_agent_env n)"
    and "serial_small (hs_serial (nt_agent_env n)) 2" "nt_now n \<noteq> 0"
  shows "\<exists>c f s. sys_run n (hs_start (cfg_RetryPSR (nt_agent_env n)) @ hs_authentication p r p2 k)
      (pac_new (nt_client_env n), pf_new (nt_agent_env n)) = POk (c, f)
    \<and> pf_sessions f = [s] \<and> both_open k c s"
proof -
  have q: "hs_serial (nt_agent_env n) \<noteq> 0" using assms(5) by (simp add: serial_small_def)
  obtain c f s where 0: "sys_run n (hs_start (cfg_RetryPSR (nt_agent_env n)))
      (pac_new (nt_client_env n), pf_new (nt_agent_env n)) = POk (c, f)"
    "hs_met c f s (hs_serial (nt_agent_env n))"
    using hs_start_stateful [OF _ assms(1) q] hs_start_stateless [OF _ assms(1) q assms(6)]
    by (cases "cfg_RetryPSR (nt_agent_env n)") auto
  from hs_authentication_opens [OF 0(2) assms(5,2,3,4), of p r p2 k] sys_then [OF 0(1)]
  show ?thesis by metis
qed

definition ex_pana_net :: "bool \<Rightarrow> pana_net" where
  "ex_pana_net stateful =
     \<lparr>nt_client_env = ex_pana_env True, nt_agent_env = ex_pana_env stateful,
      nt_client_addr = (1, 2), nt_agent_addr = (3, 4), nt_now = 9\<rparr>"

theorem pana_handshake_opens_witness:
  "(\<exists>c f s. sys_run (ex_pana_net True) (hs_start True @ hs_authentication [1] [2] [3] [4])
      (pac_new (ex_pana_env True), pf_new (ex_pana_env True)) = POk (c, f)
    \<and> pf_sessions f = [s] \<and> both_open [4] c s) \<and>
   (\<exists>c f s. sys_run (ex_pana_net False) (hs_start False @ hs_authentication [1] [2] [3] [4])
      (pac_new (ex_pana_env True), pf_new (ex_pana_env False)) = POk (c, f)
    \<and> pf_sessions f = [s] \<and> both_open [4] c s)"
proof -
  have cfg: "\<not> cfg_OptimizedHandshake (ex_pana_env b)" "\<not> cfg_EapPiggyback (ex_pana_env b)"
    "cfg_RetryPSR (ex_pana_env b) = b" "pe_sha1 (ex_pana_env b) = rev"
    "pe_pdu (ex_pana_env b) = (\<lambda>h as. [of_nat (length as)])" for b
    by (simp_all add: ex_pana_env_def)
  have "serial_small (hs_serial (ex_pana_env True)) 2" "serial_small (hs_serial (ex_pana_env False)) 2"
    by (simp_all add: serial_small_def hs_serial_def ex_pana_env_def serial_inc_below)
  then have q: "serial_small (hs_serial (ex_pana_env b)) 2" for b by (cases b) auto
  have n: "nt_client_env (ex_pana_net b) = ex_pana_env True" "nt_agent_env (ex_pana_net b) = ex_pana_env b"
    "nt_now (ex_pana_net b) = 9" for b
    by (simp_all add: ex_pana_net_def)
  have "\<exists>c f s. sys_run (ex_pana_net b) (hs_start b @ hs_authentication [1] [2] [3] [4])
      (pac_new (ex_pana_env True), pf_new (ex_pana_env b)) = POk (c, f)
    \<and> pf_sessions f = [s] \<and> both_open [4] c s" for b
    using pana_handshake_opens [of "ex_pana_net b" "[1]" "[2]" "[3]" "[4]"] q [of b]
    unfolding n cfg(3-5) using cfg(1,2) by fastforce
  then show ?thesis by blast
qed

end
