(* ===== verification/Spec2Isabelle.thy ===== *)
theory Spec2Isabelle
  imports Peer_Props Job_Queue Wire_Props Collector_Props Session_Props
    Router_Samples Eap_Props Acct_Samples Session_Rx_Props Rb_Dbase Pana_Props
begin

text \<open>
  Verification development of Open Diameter: the Diameter base protocol library
  (\<open>libdiameter\<close>, \<open>libdiamparser\<close>, \<open>libodutl\<close>, \<open>include/framework.h\<close>) and the authenticators
  of its EAP library (\<open>libeap\<close>).

  The program.  A node keeps a table of peers.  Octets of a transport are cut into messages by
  a collector, parsed with the AVP dictionary, and given to the state machine of the peer,
  which runs the capabilities exchange, the election, the watchdog and the disconnection.
  Other messages go to the message router, which delivers them to this node, relays, proxies,
  redirects or rejects them with the help of the realm table and re-transmits what is not
  answered.  Messages for this node enter by the session handlers, which find the session in
  the session data base or let the factory of an application create one; authorization and
  accounting sessions are state machines on both sides.  All machines are tables of the one
  framework, and are served by prioritised job queues.  The EAP library has its own machines
  on the same framework.

  Theories and sources.

  \<^item> \<open>DRA_Prelude\<close>: machine integers, octets, the comparison of names.
  \<^item> \<open>Fsm_Framework\<close>, \<open>Event_Chain\<close>, \<open>Protected_Map\<close>, \<open>Job_Queue\<close>: \<open>include/framework.h\<close>.  A
    state table is built by the commands of the constructor and searched as the code does;
    \<open>event_machine\<close> and \<open>event_chain\<close> are the contracts between a table and its actions.
  \<^item> \<open>Diameter_Msg\<close>: messages, AVP container lists and error answers (\<open>aaa_parser_api.h\<close>,
    \<open>diameter_parser.h\<close>, \<open>aaa_peer_fsm.cxx\<close>).
  \<^item> \<open>Wire_Values\<close>, \<open>Wire_Avp\<close>, \<open>Wire_Codec\<close>, \<open>Wire_Msg\<close>, \<open>Wire_Props\<close>: the parser and printer of
    \<open>libdiamparser\<close>; the dictionary is an argument.
  \<^item> \<open>Msg_Collector\<close>, \<open>Collector_Props\<close>: \<open>aaa_transport_collector.cxx\<close>.
  \<^item> \<open>Peer_Table_Def\<close>, \<open>Peer_Data\<close>, \<open>Peer_Caps\<close>, \<open>Peer_Fsm\<close>, \<open>Peer_Inv\<close>, \<open>Peer_Entry\<close>, \<open>Peer_System\<close>,
    \<open>Peer_Props\<close>: \<open>aaa_peer_fsm.cxx\<close>, \<open>aaa_peer_table.cxx\<close> and their headers.
  \<^item> \<open>Route_Table\<close>, \<open>Msg_Router\<close>, \<open>Router_Inv\<close>, \<open>Router_Props\<close>, \<open>Router_Samples\<close>:
    \<open>aaa_route_table.cxx\<close>, \<open>aaa_route_msg_router.cxx\<close>, \<open>aaa_route_framework.h\<close>.
  \<^item> \<open>Session_Data\<close>, \<open>Auth_Session\<close>, \<open>Auth_Client\<close>, \<open>Auth_Server\<close> with \<open>Auth_Client_Inv\<close>,
    \<open>Auth_Props\<close>, \<open>Session_Props\<close>: authorization sessions (\<open>aaa_session*.h\<close>, \<open>.inl\<close>, \<open>.cxx\<close>).
  \<^item> \<open>Acct_Session\<close>, \<open>Acct_Client\<close>, \<open>Acct_Server\<close> with \<open>Acct_Client_Inv\<close>, \<open>Acct_Props\<close>,
    \<open>Acct_Samples\<close>: accounting sessions (\<open>aaa_session_acct_*\<close>, \<open>aaa_session_client.inl\<close>,
    \<open>aaa_session_server.inl\<close>).
  \<^item> \<open>Rb_Tree\<close>, \<open>Rb_Tree_Inv\<close>, \<open>Rb_Tree_Map\<close>, \<open>Rb_Dbase\<close>: the red-black tree of \<open>libodutl\<close>; the
    locale \<open>key_order\<close> is what its users have to promise.
  \<^item> \<open>Session_Db\<close>, \<open>Session_Db_Props\<close>, \<open>Session_Rx\<close>, \<open>Session_Rx_Props\<close>: \<open>aaa_session_db.cxx\<close>,
    \<open>aaa_session_msg_rx.cxx\<close>, \<open>aaa_session_msg_mux.h\<close>.
  \<^item> \<open>Eap_Packet\<close>, \<open>Eap_Codec\<close>, \<open>Eap_Policy\<close>, \<open>Eap_Session\<close>, \<open>Eap_Method\<close>, \<open>Eap_Auth\<close>, \<open>Eap_Auth_Run\<close>
    and the proofs \<open>Eap_Auth_Inv\<close>, \<open>Eap_Standalone\<close>, \<open>Eap_Standalone_Run\<close>, \<open>Eap_Passthrough\<close>,
    \<open>Eap_Secure\<close>, \<open>Eap_Secure_Run\<close>, \<open>Eap_Props\<close>: \<open>libeap/eapcore\<close> and \<open>libeap/include\<close>.

  Conventions.  A class is a record, an action or an operation a function on it with every
  early return and exception as a branch.  What the code sends, schedules or reports is a list
  of effects in the record.  A null pointer that is used, a read past a buffer, an undefined
  conversion or a blocked queue is a fault, an error value or \<open>None\<close>.  Integers keep their
  width where the code depends on it.  Time is an event: a timer that is armed may expire.
  Interleavings are lists of operations.  Random numbers, clocks, the dictionary, the
  operating system, OpenSSL and the call-backs of applications are parameters.

  What the lemmas show.  For every machine an invariant is proved for each action, lifted to
  the table, and to all states that operations reach in any order: no null pointer is used,
  timers are armed as the state needs, notifications nest boundedly.  Codecs are proved to
  read what they write.  The queue, the tree and the data base are compared with their
  abstract counterparts.  On this the properties state what a node does to the outside: which
  message is answered, to whom it goes, with which identifiers, and which errors lose
  messages or sessions.  Where the code does not keep what it promises, the theorem states
  what it does.

  Bounds.  A client or server session handles a notification inside a notification at most
  once, and the functions \<open>client_event\<close>, \<open>server_event\<close> and \<open>acct_event\<close> nest twice and fault
  beyond; the invariants show that they never do.  The nesting of grouped AVPs is bounded by
  the length of the buffer, since every AVP has a header, and \<open>nesting_bounded\<close> shows that a
  larger bound changes nothing.  The events that the EAP machines pass to one another are
  followed with the bound of \<open>event_chain\<close>, a rank that every passed event lowers.  The loop of
  the collector that may run for ever is \<open>rx_process\<close>, whose result \<open>None\<close> is just that.

  Hosts.  \<open>char\<close> is signed in the election and in the EAP text check, which the theorems name.
  The widths of \<open>size_t\<close> and \<open>long\<close> are a parameter where identifiers are read.  Words in host
  order are written in network order, independently of the host.

  Not modelled.  The thread pools, locks and sockets of ACE and the shared-memory side of the
  containers, because the kernel can only see their sequential effect; the XML loaders of the
  dictionary and of the configuration, which are call-backs of a parser that is not in the
  repository; the printing of messages to logs and XML; start-up and shut-down of the
  singletons; the peer side of EAP and the TLS and Archie methods; PANA; the parsers of the
  EAP, NASREQ and Mobile IPv4 applications, which are lists of AVPs; the daemons.
\<close>

end
